(* ===== verification/Aegis_Prelude.thy ===== *)
theory Aegis_Prelude
  imports Main "HOL-Library.AList"
begin

text \<open>
  Shared vocabulary of the development: the exceptions the platform raises, results and
  state-passing operations that may raise, database transactions, the SQL statements the
  repositories issue (as functions on tables, a table being the list of its rows), Python
  dictionaries and strings, and instants of time. The generic lemmas here are what the
  proofs of the component theories rest on.
\<close>

section \<open>Proof-automation collections\<close>

named_theorems op_simps \<open>characterisations of successful operations\<close>
named_theorems row_simps \<open>facts about table statements\<close>

section \<open>Exceptions and results\<close>

text \<open>
  The exceptions raised by the storage, queueing and runtime layers. A FencingError is
  also a ConcurrencyError, and both are PermanentStorageErrors, as the class hierarchy of
  \<^verbatim>\<open>event_store/__init__.py\<close> has it; the predicates below are the \<^verbatim>\<open>except\<close> clauses.
\<close>

datatype ModelErrorClass =
    ME_AUTHENTICATION | ME_AUTHORIZATION | ME_INVALID_REQUEST | ME_CAPABILITY | ME_SCHEMA | ME_SAFETY | ME_RATE_LIMIT
  | ME_TIMEOUT | ME_CANCELLED | ME_TRANSIENT | ME_PROVIDER_UNAVAILABLE | ME_MALFORMED_RESPONSE | ME_PROVIDER_BUG

text \<open>The codes of \<^verbatim>\<open>AuthenticationError\<close> (\<^verbatim>\<open>identity/authentication.py\<close>).\<close>

datatype AuthenticationErrorCode =
    MISSING_TOKEN | MALFORMED_TOKEN | EXPIRED_TOKEN | WRONG_ISSUER | WRONG_AUDIENCE | INVALID_SIGNATURE | UNSUPPORTED_ALGORITHM
  | SIGNING_KEY_UNAVAILABLE | INVALID_CLAIMS | UNKNOWN_IDENTITY | TENANT_MISMATCH | IDENTITY_DISABLED

text \<open>
  \<^verbatim>\<open>ModelGatewayError\<close> carries its class, code, whether it may be retried, the delay the provider asked for in
  microseconds, and whether the provider may have billed the call.
\<close>

datatype py_error =
    ValueError string
  | TypeError string
  | KeyError string
  | IndexError string
  | RuntimeError string
  | OverflowError string
  | TransientStorageError
  | PermanentStorageError string
  | ReplayCorruptionError string
  | ConcurrencyError int int
  | FencingError int int
  | ClaimUnavailableError
  | RetryableQueueError string
  | PermanentQueueError string
  | PoisonMessageError string
  | PermissionError string
  | OperationDeniedError string
  | AuthenticationError AuthenticationErrorCode string
  | BudgetDeniedError string
  | DuplicateCallInProgressError string
  | CatalogError string
  | RouteDeniedError "string list"
  | CircuitOpenError string
  | ModelGatewayError ModelErrorClass string bool "int option" bool

fun is_fencing_error :: "py_error \<Rightarrow> bool" where
  "is_fencing_error (FencingError _ _) = True"
| "is_fencing_error _ = False"

fun is_concurrency_error :: "py_error \<Rightarrow> bool" where
  "is_concurrency_error (FencingError _ _) = True"
| "is_concurrency_error (ConcurrencyError _ _) = True"
| "is_concurrency_error _ = False"

fun is_value_error :: "py_error \<Rightarrow> bool" where
  "is_value_error (ValueError _) = True"
| "is_value_error _ = False"

type_synonym 'a res = "py_error + 'a"

definition res_bind :: "'a res \<Rightarrow> ('a \<Rightarrow> 'b res) \<Rightarrow> 'b res" where
  "res_bind r k = (case r of Inl e \<Rightarrow> Inl e | Inr a \<Rightarrow> k a)"

definition require :: "bool \<Rightarrow> py_error \<Rightarrow> unit res" where
  "require b e = (if b then Inr () else Inl e)"

lemma res_bind_simps [simp]:
  "res_bind (Inl e) k = Inl e"
  "res_bind (Inr a) k = k a"
  by (simp_all add: res_bind_def)

lemma res_bind_Inr_iff [op_simps]:
  "res_bind r k = Inr b \<longleftrightarrow> (\<exists>a. r = Inr a \<and> k a = Inr b)"
  by (cases r) simp_all

lemma require_Inr_iff [op_simps, simp]: "require b e = Inr u \<longleftrightarrow> b"
  by (simp add: require_def)

lemma require_simps [simp]:
  "require True e = Inr ()"
  "require False e = Inl e"
  by (simp_all add: require_def)

section \<open>Operations on a state\<close>

text \<open>
  An operation reads and changes a state and either raises or returns. The state is kept
  when it raises: what a failing operation leaves behind is decided by the transaction
  around it, not by the operation.
\<close>

type_synonym ('s, 'a) op = "'s \<Rightarrow> 'a res \<times> 's"

definition op_return :: "'a \<Rightarrow> ('s, 'a) op" where
  "op_return a = (\<lambda>s. (Inr a, s))"

definition op_raise :: "py_error \<Rightarrow> ('s, 'a) op" where
  "op_raise e = (\<lambda>s. (Inl e, s))"

definition op_bind :: "('s, 'a) op \<Rightarrow> ('a \<Rightarrow> ('s, 'b) op) \<Rightarrow> ('s, 'b) op" where
  "op_bind m k = (\<lambda>s. case m s of (Inl e, s1) \<Rightarrow> (Inl e, s1) | (Inr a, s1) \<Rightarrow> k a s1)"

definition op_require :: "bool \<Rightarrow> py_error \<Rightarrow> ('s, unit) op" where
  "op_require b e = (if b then op_return () else op_raise e)"

definition op_lift :: "'a res \<Rightarrow> ('s, 'a) op" where
  "op_lift r = (\<lambda>s. (r, s))"

definition op_gets :: "('s \<Rightarrow> 'a) \<Rightarrow> ('s, 'a) op" where
  "op_gets f = (\<lambda>s. (Inr (f s), s))"

definition op_modify :: "('s \<Rightarrow> 's) \<Rightarrow> ('s, unit) op" where
  "op_modify f = (\<lambda>s. (Inr (), f s))"

text \<open>\<^verbatim>\<open>try: ... except\<close>: the handler sees the exception and the state the body left.\<close>

definition op_catch :: "('s, 'a) op \<Rightarrow> (py_error \<Rightarrow> ('s, 'a) op) \<Rightarrow> ('s, 'a) op" where
  "op_catch m h = (\<lambda>s. case m s of (Inl e, s1) \<Rightarrow> h e s1 | (Inr a, s1) \<Rightarrow> (Inr a, s1))"

primrec op_iter :: "('a \<Rightarrow> ('s, unit) op) \<Rightarrow> 'a list \<Rightarrow> ('s, unit) op" where
  "op_iter f [] = op_return ()"
| "op_iter f (x # xs) = op_bind (f x) (\<lambda>_. op_iter f xs)"

lemma op_return_iff [op_simps]: "op_return a s = (r, s') \<longleftrightarrow> r = Inr a \<and> s' = s"
  by (auto simp: op_return_def)

lemma op_raise_iff [op_simps]: "op_raise e s = (r, s') \<longleftrightarrow> r = Inl e \<and> s' = s"
  by (auto simp: op_raise_def)

lemma op_lift_iff [op_simps]: "op_lift q s = (r, s') \<longleftrightarrow> r = q \<and> s' = s"
  by (auto simp: op_lift_def)

lemma op_gets_iff [op_simps]: "op_gets f s = (r, s') \<longleftrightarrow> r = Inr (f s) \<and> s' = s"
  by (auto simp: op_gets_def)

lemma op_modify_iff [op_simps]: "op_modify f s = (r, s') \<longleftrightarrow> r = Inr () \<and> s' = f s"
  by (auto simp: op_modify_def)

lemma op_require_iff [op_simps]:
  "op_require b e s = (Inr u, s') \<longleftrightarrow> b \<and> s' = s"
  by (auto simp: op_require_def op_return_def op_raise_def)

lemma op_require_Inl_iff:
  "op_require b e s = (Inl e', s') \<longleftrightarrow> \<not> b \<and> e' = e \<and> s' = s"
  by (auto simp: op_require_def op_return_def op_raise_def)

lemma op_bind_Inr_iff [op_simps]:
  "op_bind m k s = (Inr b, s2) \<longleftrightarrow> (\<exists>a s1. m s = (Inr a, s1) \<and> k a s1 = (Inr b, s2))"
  by (auto simp: op_bind_def split: prod.splits sum.splits)

lemma op_bind_Inl_iff:
  "op_bind m k s = (Inl e, s2) \<longleftrightarrow>
     m s = (Inl e, s2) \<or> (\<exists>a s1. m s = (Inr a, s1) \<and> k a s1 = (Inl e, s2))"
  by (auto simp: op_bind_def split: prod.splits sum.splits)

lemma op_catch_iff:
  "op_catch m h s = (r, s') \<longleftrightarrow>
     (\<exists>e s1. m s = (Inl e, s1) \<and> h e s1 = (r, s')) \<or> (\<exists>a. m s = (Inr a, s') \<and> r = Inr a)"
  by (auto simp: op_catch_def split: prod.splits sum.splits)

text \<open>Evaluation of an operation whose first step is known.\<close>

lemma op_bind_eval [simp]:
  "m s = (Inr a, s1) \<Longrightarrow> op_bind m k s = k a s1"
  "m s = (Inl e, s1) \<Longrightarrow> op_bind m k s = (Inl e, s1)"
  by (simp_all add: op_bind_def)

lemmas op_eval = op_bind_def op_return_def op_raise_def op_require_def op_lift_def
  op_gets_def op_modify_def

text \<open>\<open>reads m\<close> says that \<open>m\<close> changes nothing.\<close>

definition reads :: "('s, 'a) op \<Rightarrow> bool" where
  "reads m = (\<forall>s x s'. m s = (x, s') \<longrightarrow> s' = s)"

lemma reads_simps [intro, simp]:
  "reads (op_return a)" "reads (op_raise e)" "reads (op_lift q)" "reads (op_gets f)" "reads (op_require b e)"
  by (auto simp: reads_def op_simps) (auto simp: op_require_def op_simps split: if_splits)

lemma reads_bind [intro]: "reads m \<Longrightarrow> (\<And>a. reads (k a)) \<Longrightarrow> reads (op_bind m k)"
  unfolding reads_def op_bind_def by (fastforce split: prod.splits sum.splits)

text \<open>An operation that begins by reading either raises there and changes nothing, or goes on in the same state.\<close>

lemma reads_bindE:
  assumes "op_bind m k s = (q, s')" and "reads m"
  obtains "s' = s" and "\<exists>e. q = Inl e" | a where "m s = (Inr a, s)" and "k a s = (q, s')"
proof -
  obtain r s1 where m: "m s = (r, s1)" by fastforce
  then have "s1 = s" using assms(2) by (simp add: reads_def)
  then show thesis using that assms(1) m by (cases r) auto
qed

section \<open>Transactions\<close>

text \<open>
  \<^verbatim>\<open>connection.transaction()\<close> commits when its body returns and rolls back when it raises.
  A rollback restores every row but not the identity sequences, which PostgreSQL never
  rewinds: \<open>rb old new\<close> is the state a rollback from \<open>new\<close> to \<open>old\<close> leaves.
\<close>

definition transaction :: "('s \<Rightarrow> 's \<Rightarrow> 's) \<Rightarrow> ('s, 'a) op \<Rightarrow> ('s, 'a) op" where
  "transaction rb m = (\<lambda>s. case m s of
      (Inl e, s1) \<Rightarrow> (Inl e, rb s s1)
    | (Inr a, s1) \<Rightarrow> (Inr a, s1))"

lemma transaction_Inr_iff [op_simps]:
  "transaction rb m s = (Inr a, s') \<longleftrightarrow> m s = (Inr a, s')"
  by (auto simp: transaction_def split: prod.splits sum.splits)

lemma transaction_Inl_iff:
  "transaction rb m s = (Inl e, s') \<longleftrightarrow> (\<exists>s1. m s = (Inl e, s1) \<and> s' = rb s s1)"
  by (auto simp: transaction_def split: prod.splits sum.splits)

section \<open>Statements on tables\<close>

text \<open>
  \<^verbatim>\<open>UPDATE t SET f WHERE P\<close> maps the matching rows; its \<^verbatim>\<open>rowcount\<close> is their number.
  \<^verbatim>\<open>SELECT ... WHERE P\<close> on a key returns the first match.
\<close>

definition sql_update :: "('r \<Rightarrow> bool) \<Rightarrow> ('r \<Rightarrow> 'r) \<Rightarrow> 'r list \<Rightarrow> 'r list" where
  "sql_update P f rows = map (\<lambda>r. if P r then f r else r) rows"

definition sql_count :: "('r \<Rightarrow> bool) \<Rightarrow> 'r list \<Rightarrow> nat" where
  "sql_count P rows = length (filter P rows)"

definition sql_one :: "('r \<Rightarrow> bool) \<Rightarrow> 'r list \<Rightarrow> 'r option" where
  "sql_one P rows = List.find P rows"

lemma sql_update_Nil [simp]: "sql_update P f [] = []"
  by (simp add: sql_update_def)

lemma sql_update_Cons [simp]:
  "sql_update P f (r # rows) = (if P r then f r else r) # sql_update P f rows"
  by (simp add: sql_update_def)

lemma sql_update_append [simp]:
  "sql_update P f (xs @ ys) = sql_update P f xs @ sql_update P f ys"
  by (simp add: sql_update_def)

lemma length_sql_update [simp]: "length (sql_update P f rows) = length rows"
  by (simp add: sql_update_def)

lemma set_sql_update:
  "set (sql_update P f rows) = (\<lambda>r. if P r then f r else r) ` set rows"
  by (auto simp: sql_update_def)

lemma in_sql_update_iff [row_simps]:
  "r \<in> set (sql_update P f rows) \<longleftrightarrow>
     (r \<in> set rows \<and> \<not> P r) \<or> (\<exists>q \<in> set rows. P q \<and> r = f q)"
  by (auto simp: sql_update_def image_iff split: if_splits)

lemma sql_update_none: "(\<And>r. r \<in> set rows \<Longrightarrow> \<not> P r) \<Longrightarrow> sql_update P f rows = rows"
  by (induction rows) auto

lemma map_sql_update [simp]:
  "(\<And>r. P r \<Longrightarrow> g (f r) = g r) \<Longrightarrow> map g (sql_update P f rows) = map g rows"
  by (induction rows) auto

lemma sql_count_Nil [simp]: "sql_count P [] = 0"
  by (simp add: sql_count_def)

lemma sql_count_Cons [simp]:
  "sql_count P (r # rows) = (if P r then Suc (sql_count P rows) else sql_count P rows)"
  by (simp add: sql_count_def)

lemma sql_count_append [simp]: "sql_count P (xs @ ys) = sql_count P xs + sql_count P ys"
  by (simp add: sql_count_def)

lemma sql_count_0_iff [row_simps]: "sql_count P rows = 0 \<longleftrightarrow> (\<forall>r \<in> set rows. \<not> P r)"
  by (simp add: sql_count_def filter_empty_conv)

lemma sql_count_pos_iff: "0 < sql_count P rows \<longleftrightarrow> (\<exists>r \<in> set rows. P r)"
  using sql_count_0_iff [of P rows] by auto

lemma sql_count_1_ex: "sql_count P rows = 1 \<Longrightarrow> \<exists>r \<in> set rows. P r"
  using sql_count_pos_iff [of P rows] by simp

text \<open>On a table whose key is unique, a statement that selects by key touches one row.\<close>

lemma distinct_key_eq:
  "distinct (map key rows) \<Longrightarrow> r \<in> set rows \<Longrightarrow> q \<in> set rows \<Longrightarrow> key r = key q \<Longrightarrow> r = q"
  by (auto simp: distinct_map dest: inj_onD)

lemma sql_count_key_le_1:
  assumes "distinct (map key rows)" and "\<And>r. P r \<Longrightarrow> key r = k"
  shows "sql_count P rows \<le> 1"
  using assms(1)
proof (induction rows)
  case Nil
  then show ?case by simp
next
  case (Cons r rows)
  have "P r \<Longrightarrow> sql_count P rows = 0"
    using Cons.prems assms(2) by (force simp: sql_count_0_iff)
  with Cons show ?case by auto
qed

lemma sql_count_key_1:
  assumes "distinct (map key rows)" and "\<And>r. P r \<Longrightarrow> key r = k"
    and "r \<in> set rows" and "P r"
  shows "sql_count P rows = 1"
proof -
  have "sql_count P rows \<le> 1"
    by (rule sql_count_key_le_1 [OF assms(1,2)])
  moreover have "0 < sql_count P rows"
    using assms(3,4) by (auto simp: sql_count_pos_iff)
  ultimately show ?thesis by simp
qed

lemma sql_one_Some [row_simps]: "sql_one P rows = Some r \<Longrightarrow> r \<in> set rows \<and> P r"
  by (auto simp: sql_one_def find_Some_iff in_set_conv_nth)

lemma sql_one_None_iff [row_simps]: "sql_one P rows = None \<longleftrightarrow> (\<forall>r \<in> set rows. \<not> P r)"
  by (auto simp: sql_one_def find_None_iff)

lemma sql_one_eqI:
  assumes "distinct (map key rows)" and "\<And>r. P r \<Longrightarrow> key r = k" and "r \<in> set rows" and "P r"
  shows "sql_one P rows = Some r"
proof (cases "sql_one P rows")
  case None
  with assms(3,4) show ?thesis by (auto simp: sql_one_None_iff)
next
  case (Some q)
  with assms show ?thesis
    using sql_one_Some [OF Some] distinct_key_eq [OF assms(1), of q r] by metis
qed

lemma sql_one_simps [simp]:
  "sql_one P [] = None"
  "sql_one P (r # rows) = (if P r then Some r else sql_one P rows)"
  by (simp_all add: sql_one_def)

end
