(* ===== verification/Py_Values.thy ===== *)
theory Py_Values
  imports Aegis_Prelude "HOL-Library.Word"
begin

text \<open>
  The values of the Python standard library that the platform computes with: strings (as
  lists of Latin-1 code points), integers in their textual form, UUIDs, and datetimes with
  an optional UTC offset. Every operation is executable and follows CPython's documented
  behaviour; the round trips that the transport and the ledger rely on are proved here.
\<close>

section \<open>Strings\<close>

definition py_isspace :: "char \<Rightarrow> bool" where
  "py_isspace c = (let n = (of_char c :: nat) in
     (9 \<le> n \<and> n \<le> 13) \<or> (28 \<le> n \<and> n \<le> 32) \<or> n = 133 \<or> n = 160)"

definition strip_by :: "(char \<Rightarrow> bool) \<Rightarrow> string \<Rightarrow> string" where
  "strip_by P s = rev (dropWhile P (rev (dropWhile P s)))"

definition py_strip :: "string \<Rightarrow> string" where
  "py_strip s = strip_by py_isspace s"

definition py_startswith :: "string \<Rightarrow> string \<Rightarrow> bool" where
  "py_startswith s p = (take (length p) s = p)"

definition ascii_lower :: "char \<Rightarrow> char" where
  "ascii_lower c = (let n = (of_char c :: nat) in if 65 \<le> n \<and> n \<le> 90 then char_of (n + 32) else c)"

text \<open>\<^verbatim>\<open>s.replace(p, "")\<close> for a non-empty pattern: occurrences are removed left to right.\<close>

fun py_remove :: "string \<Rightarrow> string \<Rightarrow> string" where
  "py_remove p [] = []"
| "py_remove p (c # s) =
     (if p \<noteq> [] \<and> py_startswith (c # s) p then py_remove p (drop (length p - 1) s)
      else c # py_remove p s)"

lemma strip_by_id: "\<forall>c \<in> set s. \<not> P c \<Longrightarrow> strip_by P s = s"
proof -
  assume none: "\<forall>c \<in> set s. \<not> P c"
  have drop: "dropWhile P xs = xs" if "\<forall>c \<in> set xs. \<not> P c" for xs
    using that by (cases xs) auto
  show ?thesis using none drop [of s] drop [of "rev s"] by (simp add: strip_by_def)
qed

lemma py_startswith_refl [simp]: "py_startswith (p @ s) p"
  by (simp add: py_startswith_def)

lemma py_remove_id: "p \<noteq> [] \<Longrightarrow> hd p \<notin> set s \<Longrightarrow> py_remove p s = s"
  by (induction p s rule: py_remove.induct) (auto simp: py_startswith_def neq_Nil_conv)

text \<open>\<^verbatim>\<open>w in s\<close>.\<close>

fun occurs_in :: "string \<Rightarrow> string \<Rightarrow> bool" where
  "occurs_in w [] = (w = [])"
| "occurs_in w (c # s) = (take (length w) (c # s) = w \<or> occurs_in w s)"

section \<open>Digits and integers in text\<close>

text \<open>\<open>fixed_digits b k n\<close>: the \<open>k\<close> least significant base-\<open>b\<close> digits of \<open>n\<close>, most significant first.\<close>

fun fixed_digits :: "nat \<Rightarrow> nat \<Rightarrow> nat \<Rightarrow> nat list" where
  "fixed_digits b 0 n = []"
| "fixed_digits b (Suc k) n = fixed_digits b k (n div b) @ [n mod b]"

definition digits_value :: "nat \<Rightarrow> nat list \<Rightarrow> nat" where
  "digits_value b ds = foldl (\<lambda>a d. a * b + d) 0 ds"

definition digit_char :: "nat \<Rightarrow> char" where
  "digit_char d = (if d < 10 then char_of (48 + d) else char_of (87 + d))"

definition digit_val :: "char \<Rightarrow> nat option" where
  "digit_val c = (let n = (of_char c :: nat) in
     if 48 \<le> n \<and> n \<le> 57 then Some (n - 48)
     else if 97 \<le> n \<and> n \<le> 102 then Some (n - 87)
     else if 65 \<le> n \<and> n \<le> 70 then Some (n - 55)
     else None)"

definition digits_text :: "nat \<Rightarrow> nat \<Rightarrow> nat \<Rightarrow> string" where
  "digits_text b k n = map digit_char (fixed_digits b k n)"

lemma length_fixed_digits [simp]: "length (fixed_digits b k n) = k"
  by (induction k arbitrary: n) simp_all

lemma length_digits_text [simp]: "length (digits_text b k n) = k"
  by (simp add: digits_text_def)

lemma fixed_digits_lt: "0 < b \<Longrightarrow> \<forall>d \<in> set (fixed_digits b k n). d < b"
  by (induction k arbitrary: n) auto

lemma digits_value_snoc [simp]: "digits_value b (ds @ [d]) = digits_value b ds * b + d"
  by (simp add: digits_value_def)

lemma digits_value_fixed: "0 < b \<Longrightarrow> digits_value b (fixed_digits b k n) = n mod b ^ k"
proof (induction k arbitrary: n)
  case 0
  then show ?case by (simp add: digits_value_def)
next
  case (Suc k)
  then show ?case
    by (simp add: mod_mult2_eq mult.commute)
qed

lemma of_char_digit_char:
  "d < 16 \<Longrightarrow> (of_char (digit_char d) :: nat) = (if d < 10 then 48 + d else 87 + d)"
  by (simp add: digit_char_def)

lemma digit_val_char [simp]: "d < 16 \<Longrightarrow> digit_val (digit_char d) = Some d"
  by (simp add: digit_val_def of_char_digit_char)

fun text_digits :: "nat \<Rightarrow> string \<Rightarrow> nat list option" where
  "text_digits b [] = Some []"
| "text_digits b (c # s) = (case digit_val c of
      None \<Rightarrow> None
    | Some d \<Rightarrow> if d < b then map_option ((#) d) (text_digits b s) else None)"

lemma text_digits_append:
  "text_digits b (s @ t) = (case text_digits b s of None \<Rightarrow> None
     | Some ds \<Rightarrow> map_option ((@) ds) (text_digits b t))"
  by (induction b s rule: text_digits.induct)
     (auto split: option.splits simp: map_option_case)

lemma text_digits_map:
  "b \<le> 16 \<Longrightarrow> \<forall>d \<in> set ds. d < b \<Longrightarrow> text_digits b (map digit_char ds) = Some ds"
  by (induction ds) auto

text \<open>
  \<^verbatim>\<open>int(s, b)\<close>: surrounding whitespace, a sign, for base 16 a \<^verbatim>\<open>0x\<close> prefix, then digits that
  single underscores may separate.
\<close>

fun group_digits :: "nat \<Rightarrow> bool \<Rightarrow> string \<Rightarrow> nat list option" where
  "group_digits b sep [] = (if sep then None else Some [])"
| "group_digits b sep (c # s) =
     (if c = CHR ''_'' then (if sep then None else group_digits b True s)
      else case digit_val c of
        None \<Rightarrow> None
      | Some d \<Rightarrow> if d < b then map_option ((#) d) (group_digits b False s) else None)"

definition py_int_base :: "nat \<Rightarrow> string \<Rightarrow> int option" where
  "py_int_base b s0 =
     (let s = py_strip s0;
          neg = py_startswith s ''-'';
          s1 = (if neg \<or> py_startswith s ''+'' then tl s else s);
          hex = b = 16 \<and> (py_startswith s1 ''0x'' \<or> py_startswith s1 ''0X'');
          s2 = (if hex then drop 2 s1 else s1)
      in case group_digits b (\<not> hex) s2 of
           None \<Rightarrow> None
         | Some [] \<Rightarrow> None
         | Some ds \<Rightarrow> Some ((if neg then -1 else 1) * int (digits_value b ds)))"

definition py_int :: "string \<Rightarrow> int option" where
  "py_int s = py_int_base 10 s"

lemma group_digits_map:
  "b \<le> 16 \<Longrightarrow> \<forall>d \<in> set ds. d < b \<Longrightarrow> ds \<noteq> [] \<or> \<not> sep \<Longrightarrow>
   group_digits b sep (map digit_char ds) = Some ds"
proof (induction ds arbitrary: sep)
  case Nil
  then show ?case by simp
next
  case (Cons d ds)
  have "digit_char d \<noteq> CHR ''_''"
  proof
    assume "digit_char d = CHR ''_''"
    then have "digit_val (CHR ''_'') = Some d"
      using Cons.prems digit_val_char [of d] by simp
    then show False by (simp add: digit_val_def)
  qed
  with Cons show ?case by simp
qed

section \<open>UUIDs\<close>

text \<open>
  A UUID is a 128-bit integer. \<^verbatim>\<open>str(u)\<close> prints lower-case hexadecimal in groups of 8, 4, 4, 4
  and 12 digits; \<^verbatim>\<open>UUID(s)\<close> drops the markers \<^verbatim>\<open>urn:\<close> and \<^verbatim>\<open>uuid:\<close>, outer braces and hyphens and reads
  the remaining 32 characters as a base-16 integer, raising ValueError otherwise.
\<close>

type_synonym uuid = "128 word"

definition uuid_str :: "uuid \<Rightarrow> string" where
  "uuid_str u = (let h = digits_text 16 32 (unat u) in
     take 8 h @ ''-'' @ take 4 (drop 8 h) @ ''-'' @ take 4 (drop 12 h) @ ''-''
       @ take 4 (drop 16 h) @ ''-'' @ drop 20 h)"

definition uuid_of_str :: "string \<Rightarrow> uuid option" where
  "uuid_of_str s =
     (let h = py_remove ''-'' (strip_by (\<lambda>c. c = CHR ''{'' \<or> c = CHR ''}'')
                (py_remove ''uuid:'' (py_remove ''urn:'' s)))
      in if length h \<noteq> 32 then None
         else case py_int_base 16 h of
           None \<Rightarrow> None
         | Some i \<Rightarrow> if 0 \<le> i \<and> i < 2 ^ 128 then Some (word_of_int i) else None)"

lemma digits_text_chars:
  "c \<in> set (digits_text 16 k n) \<Longrightarrow> \<exists>d < 16. c = digit_char d"
  using fixed_digits_lt [of 16 k n] by (auto simp: digits_text_def)

lemma hex_char_cases:
  assumes "c \<in> set (digits_text 16 k n)"
  shows "c \<noteq> CHR ''-'' \<and> c \<noteq> CHR ''u'' \<and> c \<noteq> CHR ''{'' \<and> c \<noteq> CHR ''}''
    \<and> c \<noteq> CHR ''+'' \<and> c \<noteq> CHR ''x'' \<and> c \<noteq> CHR ''X'' \<and> \<not> py_isspace c"
proof -
  obtain d where d: "d < 16" "c = digit_char d"
    using digits_text_chars [OF assms] by blast
  have "digit_val c = Some d" using d by simp
  moreover have "digit_val CHR ''-'' = None" "digit_val CHR ''u'' = None"
    "digit_val CHR ''{'' = None" "digit_val CHR ''}'' = None" "digit_val CHR ''+'' = None"
    "digit_val CHR ''x'' = None" "digit_val CHR ''X'' = None"
    by (simp_all add: digit_val_def)
  moreover have "\<not> py_isspace c"
    using d by (auto simp: py_isspace_def of_char_digit_char)
  ultimately show ?thesis by auto
qed

lemma py_remove_hyphen: "py_remove ''-'' s = filter (\<lambda>c. c \<noteq> CHR ''-'') s"
  by (induction s) (auto simp: py_startswith_def)

lemma filter_hyphen_uuid: "py_remove ''-'' (uuid_str u) = digits_text 16 32 (unat u)"
proof -
  let ?h = "digits_text 16 32 (unat u)"
  have keep: "filter (\<lambda>c. c \<noteq> CHR ''-'') t = t" if "set t \<subseteq> set ?h" for t
    using that hex_char_cases by (fastforce simp: filter_id_conv)
  have sub: "set (take n (drop m ?h)) \<subseteq> set ?h" "set (drop m ?h) \<subseteq> set ?h" "set (take n ?h) \<subseteq> set ?h" for n m
    by (meson order_trans set_take_subset set_drop_subset)+
  have split: "?h = take 8 ?h @ take 4 (drop 8 ?h) @ take 4 (drop 12 ?h) @ take 4 (drop 16 ?h) @ drop 20 ?h"
    using take_add [of 8 4 ?h] take_add [of 12 4 ?h] take_add [of 16 4 ?h] append_take_drop_id [of 20 ?h]
    by simp
  have "py_remove ''-'' (uuid_str u) =
    take 8 ?h @ take 4 (drop 8 ?h) @ take 4 (drop 12 ?h) @ take 4 (drop 16 ?h) @ drop 20 ?h"
    unfolding py_remove_hyphen uuid_str_def Let_def by (simp add: keep [OF sub(1)] keep [OF sub(2)] keep [OF sub(3)])
  with split show ?thesis by metis
qed

lemma set_uuid_str: "c \<in> set (uuid_str u) \<Longrightarrow> c = CHR ''-'' \<or> c \<in> set (digits_text 16 32 (unat u))"
  by (auto simp: uuid_str_def Let_def dest: in_set_takeD in_set_dropD)

lemma py_int_base_hex:
  assumes "0 < k"
  shows "py_int_base 16 (digits_text 16 k n) = Some (int (n mod 16 ^ k))"
proof -
  let ?s = "digits_text 16 k n"
  have ne: "?s \<noteq> []" using assms length_digits_text [of 16 k n] by fastforce
  have chars: "\<And>c. c \<in> set ?s \<Longrightarrow> c \<noteq> CHR ''-'' \<and> c \<noteq> CHR ''+'' \<and> c \<noteq> CHR ''x'' \<and> c \<noteq> CHR ''X'' \<and> \<not> py_isspace c"
    using hex_char_cases by blast
  have strip: "py_strip ?s = ?s"
    unfolding py_strip_def by (rule strip_by_id) (use chars in blast)
  have sign: "\<not> py_startswith ?s ''-''" "\<not> py_startswith ?s ''+''"
    using ne chars by (cases ?s; force simp: py_startswith_def)+
  have prefix: "\<not> py_startswith ?s ''0x''" "\<not> py_startswith ?s ''0X''"
    using ne chars by (cases ?s; cases "tl ?s"; force simp: py_startswith_def)+
  have fne: "fixed_digits 16 k n \<noteq> []"
    using assms length_fixed_digits [of 16 k n] by (metis length_0_conv less_irrefl)
  then have "group_digits 16 True ?s = Some (fixed_digits 16 k n)"
    unfolding digits_text_def using fixed_digits_lt [of 16 k n]
    by (intro group_digits_map) auto
  with fne show ?thesis
    using strip sign prefix digits_value_fixed [of 16 k n]
    by (auto simp: py_int_base_def Let_def split: list.splits)
qed

lemma uuid_of_str_norm:
  assumes "py_remove ''-'' (strip_by (\<lambda>c. c = CHR ''{'' \<or> c = CHR ''}'')
      (py_remove ''uuid:'' (py_remove ''urn:'' s))) = h"
    and "length h = 32" and "py_int_base 16 h = Some (uint (v :: uuid))"
  shows "uuid_of_str s = Some v"
proof -
  have "0 \<le> uint v \<and> uint v < 2 ^ 128"
    using uint_lt2p [of v] by (simp only: uint_nonnegative len_of_numeral_defs) simp
  then show ?thesis
    unfolding uuid_of_str_def Let_def assms(1) by (simp only: assms(2,3) option.case) simp
qed

lemma uuid_str_plain:
  "CHR ''u'' \<notin> set (uuid_str u)"
  "\<forall>c \<in> set (uuid_str u). \<not> (c = CHR ''{'' \<or> c = CHR ''}'')"
  using set_uuid_str hex_char_cases by fastforce+

lemma uuid_of_str_str: "uuid_of_str (uuid_str u) = Some u"
proof (rule uuid_of_str_norm)
  have "py_remove ''uuid:'' (py_remove ''urn:'' (uuid_str u)) = uuid_str u"
    using uuid_str_plain [of u] by (simp add: py_remove_id)
  then show "py_remove ''-'' (strip_by (\<lambda>c. c = CHR ''{'' \<or> c = CHR ''}'')
      (py_remove ''uuid:'' (py_remove ''urn:'' (uuid_str u)))) = digits_text 16 32 (unat u)"
    by (simp only: strip_by_id [OF uuid_str_plain(2)] filter_hyphen_uuid)
  show "length (digits_text 16 32 (unat u)) = 32" by simp
  have pow: "(2::nat) ^ 128 = 16 ^ 32" by simp
  have "unat u < 2 ^ LENGTH(128)" by (rule unsigned_less)
  then have "unat u < 2 ^ 128" by simp
  then have "unat u mod 16 ^ 32 = unat u" unfolding pow by (rule mod_less)
  then show "py_int_base 16 (digits_text 16 32 (unat u)) = Some (uint u)"
    using py_int_base_hex [OF zero_less_numeral, of _ "unat u"] by (simp only: uint_nat)
qed

lemma uuid_str_inj [simp]: "uuid_str u = uuid_str v \<longleftrightarrow> u = v"
  by (metis option.inject uuid_of_str_str)

lemma uuid_str_nonempty [simp]: "uuid_str u \<noteq> []"
  unfolding uuid_str_def Let_def by (simp only: append_is_Nil_conv list.distinct simp_thms)

section \<open>The proleptic Gregorian calendar\<close>

text \<open>
  \<^verbatim>\<open>datetime\<close> counts days from 0001-01-01 (day 0 here). \<open>days_to_ymd\<close> splits off cycles of 400,
  100, 4 and 1 years as CPython does and then searches the month; \<open>ymd_to_days\<close> is its inverse.
\<close>

definition is_leap :: "nat \<Rightarrow> bool" where
  "is_leap y = (y mod 4 = 0 \<and> (y mod 100 \<noteq> 0 \<or> y mod 400 = 0))"

definition days_in_month :: "nat \<Rightarrow> nat \<Rightarrow> nat" where
  "days_in_month y m =
     (if m = 2 then (if is_leap y then 29 else 28) else if m \<in> {4, 6, 9, 11} then 30 else 31)"

definition days_before_year :: "nat \<Rightarrow> nat" where
  "days_before_year y = (let p = y - 1 in p * 365 + p div 4 + p div 400 - p div 100)"

fun days_before_month :: "nat \<Rightarrow> nat \<Rightarrow> nat" where
  "days_before_month y 0 = 0"
| "days_before_month y (Suc m) = (if m = 0 then 0 else days_before_month y m + days_in_month y m)"

definition ymd_to_days :: "nat \<times> nat \<times> nat \<Rightarrow> nat" where
  "ymd_to_days = (\<lambda>(y, m, d). days_before_year y + days_before_month y m + (d - 1))"

function find_month :: "nat \<Rightarrow> nat \<Rightarrow> nat \<Rightarrow> nat \<times> nat" where
  "find_month y m u =
     (if 12 \<le> m \<or> u < days_in_month y m then (m, u + 1)
      else find_month y (m + 1) (u - days_in_month y m))"
  by auto
termination by (relation "measure (\<lambda>(y, m, u). 12 - m)") auto

declare find_month.simps [simp del]

definition days_to_ymd :: "nat \<Rightarrow> nat \<times> nat \<times> nat" where
  "days_to_ymd n =
     (let a = n div 146097; r = n mod 146097;
          b = r div 36524; s = r mod 36524;
          c = s div 1461; t = s mod 1461;
          d = t div 365; u = t mod 365;
          p = 400 * a + 100 * b + 4 * c + d
      in if d = 4 \<or> b = 4 then (p, 12, 31)
         else (p + 1, find_month (p + 1) 1 u))"

definition ymd_valid :: "nat \<times> nat \<times> nat \<Rightarrow> bool" where
  "ymd_valid = (\<lambda>(y, m, d).
     1 \<le> y \<and> 1 \<le> m \<and> m \<le> 12 \<and> 1 \<le> d \<and> d \<le> days_in_month y m)"

lemma find_month_correct:
  assumes "1 \<le> m" and "m \<le> 12" and "u < (\<Sum>k \<leftarrow> [m..<13]. days_in_month y k)"
    and "find_month y m u = (m', d)"
  shows "days_before_month y m' + (d - 1) = days_before_month y m + u \<and> m \<le> m' \<and> m' \<le> 12
    \<and> 1 \<le> d \<and> d \<le> days_in_month y m'"
  using assms
proof (induction y m u rule: find_month.induct)
  case (1 y m u)
  show ?case
  proof (cases "12 \<le> m \<or> u < days_in_month y m")
    case True
    then have "u < days_in_month y m"
      using "1.prems" by (auto simp: le_less_Suc_eq upt_rec)
    with True "1.prems" show ?thesis by (auto simp: find_month.simps [of y m u])
  next
    case False
    then have rest: "u - days_in_month y m < (\<Sum>k \<leftarrow> [m+1..<13]. days_in_month y k)"
      using "1.prems"(3) by (simp add: upt_rec [of m 13] less_diff_conv2)
    have "days_before_month y (m + 1) = days_before_month y m + days_in_month y m"
      using "1.prems"(1) by simp
    with "1.IH" [OF False] rest False "1.prems" show ?thesis
      by (auto simp: find_month.simps [of y m u])
  qed
qed

lemma days_in_year:
  "(\<Sum>k \<leftarrow> [1..<13]. days_in_month y k) = (if is_leap y then 366 else 365)"
  by (simp add: upt_rec days_in_month_def)

lemma days_before_december: "days_before_month y 12 = (if is_leap y then 335 else 334)"
  by (simp add: days_in_month_def eval_nat_numeral)

lemma days_before_year_split:
  assumes "b < 4" and "c < 25" and "d < 4"
  shows "days_before_year (400 * a + 100 * b + 4 * c + d + 1) = 146097 * a + 36524 * b + 1461 * c + 365 * d"
proof -
  let ?p = "400 * a + 100 * b + 4 * c + d"
  have "?p div 4 = 100 * a + 25 * b + c" "?p div 100 = 4 * a + b" "?p div 400 = a"
    using assms by (auto intro!: div_nat_eqI)
  then show ?thesis by (simp add: days_before_year_def Let_def)
qed

lemma ymd_of_days:
  "ymd_to_days (days_to_ymd n) = n \<and> ymd_valid (days_to_ymd n)"
proof -
  define a r where "a = n div 146097" and "r = n mod 146097"
  define b s where "b = r div 36524" and "s = r mod 36524"
  define c t where "c = s div 1461" and "t = s mod 1461"
  define d u where "d = t div 365" and "u = t mod 365"
  define p where "p = 400 * a + 100 * b + 4 * c + d"
  note defs = a_def r_def b_def s_def c_def t_def d_def u_def p_def
  have n: "n = 146097 * a + r" "r = 36524 * b + s" "s = 1461 * c + t" "t = 365 * d + u"
    unfolding defs by simp_all
  have bnd: "r < 146097" "s < 36524" "t < 1461" "u < 365"
    unfolding defs by simp_all
  then have le: "b \<le> 4" "c \<le> 24" "d \<le> 4" using n by linarith+
  show ?thesis
  proof (cases "d = 4 \<or> b = 4")
    case True
    have y: "days_to_ymd n = (p, 12, 31)"
      using True by (simp add: days_to_ymd_def Let_def defs)
    have "is_leap p \<and> days_before_year p = n - 365"
    proof (cases "b = 4")
      case b: True
      then have "r = 146096" "c = 0" "d = 0" using n bnd by linarith+
      with b have p: "p = 400 * a + 400" and nn: "n = 146097 * a + 146096" using n by (simp_all add: p_def)
      have "days_before_year p = 146097 * a + 36524 * 3 + 1461 * 24 + 365 * 3"
        using days_before_year_split [of 3 24 3 a] by (simp add: p add.commute)
      then show ?thesis by (simp add: nn p is_leap_def mod_simps)
    next
      case False
      with True le have d: "d = 4" and b: "b < 4" by auto
      then have t: "t = 1460" using n bnd by linarith
      then have c: "c < 24" using n bnd by linarith
      have p: "p = 400 * a + 100 * b + 4 * c + 4" by (simp add: p_def d)
      have "p mod 4 = 0" unfolding p by presburger
      moreover have "p mod 100 = (4 * c + 4) mod 100"
        unfolding p using mod_mult_self2 [of "4 * c + 4" 100 "4 * a + b"] by (simp add: algebra_simps)
      then have "p mod 100 \<noteq> 0" using c by simp
      moreover have "days_before_year p = 146097 * a + 36524 * b + 1461 * c + 365 * 3"
        using days_before_year_split [OF b, of c 3 a] c by (simp add: p add.commute)
      ultimately show ?thesis using n t by (simp add: is_leap_def)
    qed
    moreover have "365 \<le> n" using True n by auto
    moreover have "1 \<le> p" using True by (auto simp: p_def)
    ultimately show ?thesis
      by (simp add: y ymd_to_days_def ymd_valid_def days_before_december days_in_month_def)
  next
    case False
    with le have lt: "b < 4" "d < 4" "c < 25" by auto
    obtain m k where f: "find_month (p + 1) 1 u = (m, k)" by fastforce
    have y: "days_to_ymd n = (p + 1, m, k)"
      using False f by (auto simp: days_to_ymd_def Let_def defs)
    have "u < (\<Sum>j \<leftarrow> [1..<13]. days_in_month (p + 1) j)"
      unfolding days_in_year using bnd by simp
    from find_month_correct [OF _ _ this f] have
      "days_before_month (p + 1) m + (k - 1) = u \<and> ymd_valid (p + 1, m, k)"
      by (simp add: ymd_valid_def)
    moreover have "days_before_year (p + 1) + u = n"
      using days_before_year_split [OF lt(1,3,2), of a] n by (simp add: p_def)
    ultimately show ?thesis by (simp add: y ymd_to_days_def)
  qed
qed

section \<open>Datetimes\<close>

text \<open>
  A datetime is its wall-clock reading, in microseconds from 0001-01-01T00:00, and the UTC
  offset of its \<^verbatim>\<open>tzinfo\<close> in microseconds (None for a naive datetime). Aware datetimes compare by
  instant; comparing an aware with a naive one raises TypeError.
\<close>

record datetime =
  dt_wall :: nat
  dt_offset :: "int option"

definition day_micros :: nat where
  "day_micros = 86400000000"

definition dt_aware :: "datetime \<Rightarrow> bool" where
  "dt_aware d = (dt_offset d \<noteq> None)"

definition dt_instant :: "datetime \<Rightarrow> int" where
  "dt_instant d = int (dt_wall d) - (case dt_offset d of None \<Rightarrow> 0 | Some z \<Rightarrow> z)"

definition dt_le :: "datetime \<Rightarrow> datetime \<Rightarrow> bool res" where
  "dt_le d e = (if dt_aware d = dt_aware e then Inr (dt_instant d \<le> dt_instant e)
     else Inl (TypeError ''can't compare offset-naive and offset-aware datetimes''))"

definition dt_ok :: "datetime \<Rightarrow> bool" where
  "dt_ok d = (dt_wall d < 3652059 * day_micros
     \<and> (case dt_offset d of None \<Rightarrow> True | Some z \<Rightarrow> \<bar>z\<bar> < int day_micros))"

text \<open>The datetime of an instant as the database driver returns it for a session in UTC.\<close>

definition dt_of_instant :: "int \<Rightarrow> datetime" where
  "dt_of_instant i = \<lparr>dt_wall = nat i, dt_offset = Some 0\<rparr>"

lemma dt_of_instant_simps [simp]:
  "dt_aware (dt_of_instant i)"
  "0 \<le> i \<Longrightarrow> dt_instant (dt_of_instant i) = i"
  by (simp_all add: dt_of_instant_def dt_aware_def dt_instant_def)

text \<open>\<^verbatim>\<open>datetime + timedelta\<close> moves the wall clock and raises outside the years 1 to 9999.\<close>

definition dt_plus :: "datetime \<Rightarrow> int \<Rightarrow> datetime res" where
  "dt_plus d delta =
     (let wall = int (dt_wall d) + delta in
      if 0 \<le> wall \<and> wall < int (3652059 * day_micros) then Inr (d\<lparr>dt_wall := nat wall\<rparr>)
      else Inl (OverflowError ''date value out of range''))"

lemma dt_plus_Inr: "dt_plus d delta = Inr e \<Longrightarrow> dt_aware e = dt_aware d \<and> dt_instant e = dt_instant d + delta"
  by (auto simp: dt_plus_def Let_def dt_aware_def dt_instant_def split: if_splits)

subsection \<open>ISO 8601 text\<close>

text \<open>
  \<^verbatim>\<open>isoformat\<close> prints the microseconds only when they are not zero, and the seconds and
  microseconds of the offset only when needed. \<^verbatim>\<open>fromisoformat\<close> is modelled on the extended
  calendar format (hyphens and colons present), with any separator character, a
  fraction of any length cut to six digits, \<^verbatim>\<open>Z\<close> or a numeric offset.
\<close>

definition micros_text :: "nat \<Rightarrow> string" where
  "micros_text f = (if f = 0 then [] else CHR ''.'' # digits_text 10 6 f)"

definition hms_text :: "nat \<Rightarrow> bool \<Rightarrow> string" where
  "hms_text t brief =
     (let f = t mod 1000000; sec = t div 1000000 in
      digits_text 10 2 (sec div 3600) @ '':'' @ digits_text 10 2 (sec div 60 mod 60)
        @ (if brief \<and> sec mod 60 = 0 \<and> f = 0 then []
           else '':'' @ digits_text 10 2 (sec mod 60) @ micros_text f))"

definition date_text :: "nat \<Rightarrow> string" where
  "date_text n = (case days_to_ymd n of (y, m, d) \<Rightarrow>
     digits_text 10 4 y @ ''-'' @ digits_text 10 2 m @ ''-'' @ digits_text 10 2 d)"

definition offset_text :: "int option \<Rightarrow> string" where
  "offset_text z = (case z of None \<Rightarrow> []
     | Some i \<Rightarrow> (if i < 0 then ''-'' else ''+'') @ hms_text (nat \<bar>i\<bar>) True)"

definition isoformat :: "datetime \<Rightarrow> string" where
  "isoformat d = date_text (dt_wall d div day_micros) @ ''T''
     @ hms_text (dt_wall d mod day_micros) False @ offset_text (dt_offset d)"

definition take_num :: "nat \<Rightarrow> string \<Rightarrow> (nat \<times> string) option" where
  "take_num k s = (if length s < k then None
     else map_option (\<lambda>ds. (digits_value 10 ds, drop k s)) (text_digits 10 (take k s)))"

definition is_dec :: "char \<Rightarrow> bool" where
  "is_dec c = (case digit_val c of None \<Rightarrow> False | Some d \<Rightarrow> d < 10)"

definition parse_fraction :: "string \<Rightarrow> (nat \<times> string) option" where
  "parse_fraction s =
     (let ds = takeWhile is_dec s in
      if ds = [] then None
      else map_option (\<lambda>vs. (digits_value 10 vs * 10 ^ (6 - length vs), dropWhile is_dec s))
             (text_digits 10 (take 6 ds)))"

definition parse_seconds :: "string \<Rightarrow> (nat \<times> string) option" where
  "parse_seconds s = (case take_num 2 s of None \<Rightarrow> None
     | Some (sec, r) \<Rightarrow>
         (case r of
            c # r' \<Rightarrow>
              if c = CHR ''.'' \<or> c = CHR '',''
              then map_option (\<lambda>(f, q). (sec * 1000000 + f, q)) (parse_fraction r')
              else Some (sec * 1000000, r)
          | [] \<Rightarrow> Some (sec * 1000000, r)))"

text \<open>Hours, minutes, microseconds of the minute, and the unread text.\<close>

definition parse_hms :: "string \<Rightarrow> (nat \<times> nat \<times> nat \<times> string) option" where
  "parse_hms s = (case take_num 2 s of None \<Rightarrow> None
     | Some (h, r) \<Rightarrow>
        (case r of c # r1 \<Rightarrow>
           if c = CHR '':'' then
             (case take_num 2 r1 of None \<Rightarrow> None
              | Some (m, r2) \<Rightarrow>
                  (case r2 of c2 # r3 \<Rightarrow>
                     if c2 = CHR '':'' then map_option (\<lambda>(f, q). (h, m, f, q)) (parse_seconds r3)
                     else Some (h, m, 0, r2)
                   | [] \<Rightarrow> Some (h, m, 0, [])))
           else Some (h, 0, 0, r)
         | [] \<Rightarrow> Some (h, 0, 0, [])))"

definition parse_offset :: "string \<Rightarrow> int option option" where
  "parse_offset s =
     (if s = [] then Some None
      else if s = ''Z'' then Some (Some 0)
      else if hd s = CHR ''+'' \<or> hd s = CHR ''-'' then
        (case parse_hms (tl s) of
           Some (h, m, f, []) \<Rightarrow>
             let z = int ((h * 3600 + m * 60) * 1000000 + f) in
             if z < int day_micros then Some (Some (if hd s = CHR ''-'' then - z else z)) else None
         | _ \<Rightarrow> None)
      else None)"

definition parse_date :: "string \<Rightarrow> (nat \<times> string) option" where
  "parse_date s = (case take_num 4 s of None \<Rightarrow> None
     | Some (y, r) \<Rightarrow> if \<not> py_startswith r ''-'' then None else
       (case take_num 2 (tl r) of None \<Rightarrow> None
        | Some (m, r2) \<Rightarrow> if \<not> py_startswith r2 ''-'' then None else
          (case take_num 2 (tl r2) of None \<Rightarrow> None
           | Some (d, r3) \<Rightarrow>
               if ymd_valid (y, m, d) then Some (ymd_to_days (y, m, d), r3) else None)))"

definition fromisoformat :: "string \<Rightarrow> datetime option" where
  "fromisoformat s = (case parse_date s of None \<Rightarrow> None
     | Some (n, []) \<Rightarrow> Some \<lparr>dt_wall = n * day_micros, dt_offset = None\<rparr>
     | Some (n, sep # r) \<Rightarrow>
        (case parse_hms r of None \<Rightarrow> None
         | Some (h, m, f, q) \<Rightarrow>
            if h < 24 \<and> m < 60 \<and> f < 60000000 then
              map_option (\<lambda>z. \<lparr>dt_wall = n * day_micros + (h * 3600 + m * 60) * 1000000 + f,
                               dt_offset = z\<rparr>) (parse_offset q)
            else None))"

lemma text_digits_fixed: "text_digits 10 (digits_text 10 k n) = Some (fixed_digits 10 k n)"
  unfolding digits_text_def using fixed_digits_lt [of 10 k n] by (intro text_digits_map) auto

lemma take_num_text [simp]: "n < 10 ^ k \<Longrightarrow> take_num k (digits_text 10 k n @ r) = Some (n, r)"
  by (simp add: take_num_def text_digits_fixed digits_value_fixed)

lemma take_num_text_end [simp]: "n < 10 ^ k \<Longrightarrow> take_num k (digits_text 10 k n) = Some (n, [])"
  using take_num_text [of n k "[]"] by simp

lemma time_fields:
  "(t div 1000000 div 3600 * 3600 + t div 1000000 div 60 mod 60 * 60) * 1000000 + t mod 60000000 = (t::nat)"
proof -
  define q where "q = t div 60000000"
  have q: "t div 1000000 div 60 = q" "t div 1000000 div 3600 = q div 60"
    by (simp_all add: q_def flip: div_mult2_eq)
  have "q div 60 * 3600 + q mod 60 * 60 = 60 * q"
    using mult_div_mod_eq [of 60 q] by linarith
  then show ?thesis
    using mult_div_mod_eq [of 60000000 t] by (simp add: q q_def [symmetric])
qed

lemma is_dec_text: "c \<in> set (digits_text 10 k n) \<Longrightarrow> is_dec c"
  using fixed_digits_lt [of 10 k n] by (auto simp: digits_text_def is_dec_def)

definition stops :: "string \<Rightarrow> bool" where
  "stops r = (r = [] \<or> (hd r = CHR ''+'' \<or> hd r = CHR ''-''))"

lemma stops_not_dec: "stops r \<Longrightarrow> r = [] \<or> \<not> is_dec (hd r)"
  by (auto simp: stops_def is_dec_def digit_val_def)

lemma parse_fraction_text:
  assumes "f < 1000000" and "stops r"
  shows "parse_fraction (digits_text 10 6 f @ r) = Some (f, r)"
proof -
  let ?t = "digits_text 10 6 f"
  have len: "length ?t = 6" by simp
  have "takeWhile is_dec r = []" "dropWhile is_dec r = r"
    using stops_not_dec [OF assms(2)] by (cases r; auto)+
  then have "takeWhile is_dec (?t @ r) = ?t" "dropWhile is_dec (?t @ r) = r"
    using is_dec_text by (simp_all add: takeWhile_append2 dropWhile_append2)
  moreover have "?t \<noteq> []" "take 6 ?t = ?t" using len by (auto simp del: length_digits_text)
  ultimately show ?thesis
    using assms(1) by (simp add: parse_fraction_def Let_def text_digits_fixed digits_value_fixed)
qed

lemma parse_seconds_text:
  assumes "sec < 60" and "f < 1000000" and "stops r"
  shows "parse_seconds (digits_text 10 2 sec @ micros_text f @ r) = Some (sec * 1000000 + f, r)"
proof (cases "f = 0")
  case True
  with assms show ?thesis
    by (cases r) (auto simp: parse_seconds_def micros_text_def stops_def)
next
  case False
  with assms show ?thesis
    by (simp add: parse_seconds_def micros_text_def parse_fraction_text)
qed

lemma parse_hms_text:
  assumes "t < day_micros" and "stops r"
  shows "parse_hms (hms_text t brief @ r)
    = Some (t div 1000000 div 3600, t div 1000000 div 60 mod 60, t mod 60000000, r)"
proof -
  define f sec where "f = t mod 1000000" and "sec = t div 1000000"
  have h: "sec div 3600 < 100"
    using assms(1) by (simp add: sec_def day_micros_def div_less_iff_less_mult)
  have f: "f < 1000000" by (simp add: f_def)
  have m: "sec div 60 mod 60 < 100" by (rule less_trans [of _ 60]) simp_all
  have tm: "t mod 60000000 = sec mod 60 * 1000000 + f"
    using mod_mult2_eq [of t 1000000 60] by (simp add: sec_def f_def)
  show ?thesis
  proof (cases "brief \<and> sec mod 60 = 0 \<and> f = 0")
    case True
    then have "hms_text t brief = digits_text 10 2 (sec div 3600) @ '':'' @ digits_text 10 2 (sec div 60 mod 60)"
      by (simp add: hms_text_def Let_def f_def sec_def)
    with True h m assms(2) tm show ?thesis
      by (cases r) (auto simp: parse_hms_def stops_def sec_def)
  next
    case False
    then have "hms_text t brief = digits_text 10 2 (sec div 3600) @ '':'' @ digits_text 10 2 (sec div 60 mod 60)
        @ '':'' @ digits_text 10 2 (sec mod 60) @ micros_text f"
      unfolding hms_text_def Let_def f_def sec_def by auto
    with h m f assms(2) tm show ?thesis
      by (simp add: parse_hms_def parse_seconds_text sec_def)
  qed
qed

lemma year_bound:
  assumes "days_before_year y < 3652059"
  shows "y < 10000"
proof (rule ccontr)
  assume "\<not> y < 10000"
  then obtain p where p: "y = p + 1" "9999 \<le> p"
    using that [of "y - 1"] by simp
  show False
  proof (cases "p = 9999")
    case True
    with assms p show False by (simp add: days_before_year_def)
  next
    case False
    have "p < 4 * (p div 4) + 4" "100 * (p div 100) \<le> p" "p < 400 * (p div 400) + 400"
      using mult_div_mod_eq [of 4 p] mult_div_mod_eq [of 100 p] mult_div_mod_eq [of 400 p]
        mod_less_divisor [of 4 p] mod_less_divisor [of 400 p] by linarith+
    with False p assms show False by (simp add: days_before_year_def)
  qed
qed

lemma parse_date_text:
  assumes "n < 3652059"
  shows "parse_date (date_text n @ r) = Some (n, r)"
proof -
  obtain y m d where ymd: "days_to_ymd n = (y, m, d)" by (cases "days_to_ymd n") auto
  have v: "ymd_to_days (y, m, d) = n" "ymd_valid (y, m, d)"
    using ymd_of_days [of n] by (simp_all add: ymd)
  then have "y < 10000" using assms by (intro year_bound) (auto simp: ymd_to_days_def)
  moreover have "m < 100" "d < 100"
    using v(2) by (auto simp: ymd_valid_def days_in_month_def split: if_splits)
  ultimately show ?thesis
    using v by (simp add: parse_date_def date_text_def ymd py_startswith_def)
qed

lemma parse_offset_text:
  assumes "case z of None \<Rightarrow> True | Some i \<Rightarrow> \<bar>i\<bar> < int day_micros"
  shows "parse_offset (offset_text z) = Some z"
proof (cases z)
  case None
  then show ?thesis by (simp add: offset_text_def parse_offset_def)
next
  case (Some i)
  define t where "t = nat \<bar>i\<bar>"
  have t: "t < day_micros" using assms Some by (simp add: t_def)
  have "parse_hms (hms_text t True) = Some (t div 1000000 div 3600, t div 1000000 div 60 mod 60, t mod 60000000, [])"
    using parse_hms_text [OF t, of "[]" True] by (simp add: stops_def)
  moreover have "int t = \<bar>i\<bar>" by (simp add: t_def)
  ultimately show ?thesis
    using assms Some time_fields [of t]
    by (simp add: offset_text_def parse_offset_def t_def [symmetric] Let_def del: of_nat_add of_nat_mult)
qed

lemma fromisoformat_isoformat:
  assumes "dt_ok d"
  shows "fromisoformat (isoformat d) = Some d"
proof -
  define n t where "n = dt_wall d div day_micros" and "t = dt_wall d mod day_micros"
  have n: "n < 3652059" using assms
    by (simp add: n_def dt_ok_def div_less_iff_less_mult day_micros_def)
  have t: "t < day_micros" by (simp add: t_def day_micros_def)
  have st: "stops (offset_text (dt_offset d))"
    by (auto simp: stops_def offset_text_def split: option.splits)
  have w: "n * day_micros + (t div 1000000 div 3600 * 3600 + t div 1000000 div 60 mod 60 * 60) * 1000000 + t mod 60000000 = dt_wall d"
    using time_fields [of t] div_mult_mod_eq [of "dt_wall d" day_micros] unfolding n_def t_def by linarith
  have b: "t div 1000000 div 3600 < 24" "t div 1000000 div 60 mod 60 < 60" "t mod 60000000 < 60000000"
    using t by (simp_all add: day_micros_def div_less_iff_less_mult)
  show ?thesis
    using assms b w
    by (simp add: fromisoformat_def isoformat_def parse_date_text [OF n] n_def [symmetric]
        t_def [symmetric] parse_hms_text [OF t st] parse_offset_text dt_ok_def)
qed

end
