(* ===== verification/Json_Values.thy ===== *)
theory Json_Values
  imports Py_Values
begin

text \<open>
  Python objects as they reach the platform's boundaries, the text \<^verbatim>\<open>str\<close> and \<^verbatim>\<open>repr\<close> give for
  them, dictionaries in insertion order, and JSON values. \<open>pyval\<close> is an arbitrary object (a JSON
  document before validation); \<open>json\<close> is a validated, immutable one.
\<close>

section \<open>Dictionaries\<close>

text \<open>
  A dict is the list of its items in insertion order. \<^verbatim>\<open>d[k] = v\<close> overwrites in place or appends,
  which is \<^const>\<open>AList.update\<close>; \<^verbatim>\<open>d.update(e)\<close> assigns the items of \<open>e\<close> one after the other.
\<close>

definition dict_update :: "('k \<times> 'v) list \<Rightarrow> ('k \<times> 'v) list \<Rightarrow> ('k \<times> 'v) list" where
  "dict_update d e = foldl (\<lambda>acc (k, v). AList.update k v acc) d e"

lemma dict_update_Nil [simp]: "dict_update d [] = d"
  by (simp add: dict_update_def)

lemma dict_update_Cons [simp]: "dict_update d ((k, v) # e) = dict_update (AList.update k v d) e"
  by (simp add: dict_update_def)

lemma map_of_dict_update: "map_of (dict_update d e) = map_of d ++ map_of (rev e)"
  by (induction e arbitrary: d) (auto simp: update_conv' fun_eq_iff map_add_def split: option.splits)

lemma distinct_dict_update:
  "distinct (map fst d) \<Longrightarrow> distinct (map fst (dict_update d e))"
  by (induction e arbitrary: d) (auto simp: distinct_update)

lemma update_fresh: "k \<notin> fst ` set d \<Longrightarrow> AList.update k v d = d @ [(k, v)]"
  by (induction d) auto

lemma dict_update_disjoint:
  "distinct (map fst e) \<Longrightarrow> fst ` set e \<inter> fst ` set d = {} \<Longrightarrow> dict_update d e = d @ e"
  by (induction e arbitrary: d) (auto simp: update_fresh)

section \<open>Decimal text of integers\<close>

fun nat_digits :: "nat \<Rightarrow> nat list" where
  "nat_digits n = (if n < 10 then [n] else nat_digits (n div 10) @ [n mod 10])"

declare nat_digits.simps [simp del]

definition nat_str :: "nat \<Rightarrow> string" where
  "nat_str n = map digit_char (nat_digits n)"

definition int_str :: "int \<Rightarrow> string" where
  "int_str i = (if i < 0 then CHR ''-'' # nat_str (nat (- i)) else nat_str (nat i))"

lemma nat_digits_ne [simp]: "nat_digits n \<noteq> []"
  by (subst nat_digits.simps) simp

lemma nat_digits_lt: "\<forall>d \<in> set (nat_digits n). d < 10"
proof (induction n rule: nat_digits.induct)
  case (1 n)
  then show ?case by (subst nat_digits.simps) auto
qed

lemma digits_value_nat_digits: "digits_value 10 (nat_digits n) = n"
proof (induction n rule: nat_digits.induct)
  case (1 n)
  then show ?case by (subst nat_digits.simps) (auto simp: digits_value_def)
qed

lemma nat_str_ne [simp]: "nat_str n \<noteq> []"
  by (simp add: nat_str_def)

lemma nat_str_chars:
  assumes "c \<in> set (nat_str n)"
  shows "c \<noteq> CHR ''-'' \<and> c \<noteq> CHR ''+'' \<and> \<not> py_isspace c"
proof -
  obtain d where d: "d < 10" "c = digit_char d"
    using assms nat_digits_lt [of n] by (auto simp: nat_str_def)
  then have v: "digit_val c = Some d" by simp
  have "digit_val CHR ''-'' = None" "digit_val CHR ''+'' = None" by (simp_all add: digit_val_def)
  moreover have "\<not> py_isspace c" using d by (auto simp: py_isspace_def of_char_digit_char)
  ultimately show ?thesis using v by auto
qed

lemma group_digits_nat_str: "group_digits 10 True (nat_str n) = Some (nat_digits n)"
  unfolding nat_str_def using nat_digits_lt [of n] by (intro group_digits_map) auto

lemma nat_str_sign: "\<not> py_startswith (nat_str n) ''-''" "\<not> py_startswith (nat_str n) ''+''"
  using nat_str_chars [of _ n] by (cases "nat_str n"; force simp: py_startswith_def)+

lemma py_int_int_str: "py_int (int_str i) = Some i"
proof -
  have nosp: "\<forall>c \<in> set (int_str i). \<not> py_isspace c"
    using nat_str_chars by (auto simp: int_str_def py_isspace_def)
  have strip: "py_strip (int_str i) = int_str i"
    unfolding py_strip_def by (rule strip_by_id [OF nosp])
  have val: "int (digits_value 10 (nat_digits n)) = int n" for n
    by (simp add: digits_value_nat_digits)
  show ?thesis
  proof (cases "i < 0")
    case True
    then have s: "int_str i = CHR ''-'' # nat_str (nat (- i))" by (simp add: int_str_def)
    show ?thesis
      using True strip group_digits_nat_str [of "nat (- i)"] val [of "nat (- i)"]
      by (auto simp: py_int_def py_int_base_def s Let_def py_startswith_def split: list.splits)
  next
    case False
    then have s: "int_str i = nat_str (nat i)" by (simp add: int_str_def)
    show ?thesis
      using False strip group_digits_nat_str [of "nat i"] val [of "nat i"] nat_str_sign [of "nat i"]
      by (auto simp: py_int_def py_int_base_def s Let_def split: list.splits)
  qed
qed

lemma int_str_inj [simp]: "int_str i = int_str j \<longleftrightarrow> i = j"
  by (metis option.inject py_int_int_str)

section \<open>Python objects\<close>

text \<open>
  A float is its \<^verbatim>\<open>repr\<close> text; the platform never computes with a float that came from JSON, it
  only asks whether it is finite. \<open>POther\<close> is any other object, with its type name and the texts
  its \<^verbatim>\<open>str\<close> and \<^verbatim>\<open>repr\<close> give.
\<close>

datatype pyfloat = FiniteFloat string | NonFiniteFloat string

datatype pyval =
    PNone
  | PBool bool
  | PInt int
  | PFloat pyfloat
  | PStr string
  | PBytes string
  | PList "pyval list"
  | PTuple "pyval list"
  | PDict "(pyval \<times> pyval) list"
  | POther string string string

definition repr_char :: "char \<Rightarrow> char \<Rightarrow> string" where
  "repr_char q c = (let n = (of_char c :: nat) in
     if c = q \<or> n = 92 then [char_of (92::nat), c]
     else if n = 9 then [char_of (92::nat), CHR ''t'']
     else if n = 10 then [char_of (92::nat), CHR ''n'']
     else if n = 13 then [char_of (92::nat), CHR ''r'']
     else if n < 32 \<or> (127 \<le> n \<and> n \<le> 160) \<or> n = 173 then [char_of (92::nat), CHR ''x''] @ digits_text 16 2 n
     else [c])"

definition repr_string :: "string \<Rightarrow> string" where
  "repr_string s =
     (let q = (if char_of (39::nat) \<in> set s \<and> char_of (34::nat) \<notin> set s then char_of (34::nat) else char_of (39::nat))
      in q # concat (map (repr_char q) s) @ [q])"

definition repr_byte :: "char \<Rightarrow> char \<Rightarrow> string" where
  "repr_byte q c = (let n = (of_char c :: nat) in
     if 128 \<le> n then [char_of (92::nat), CHR ''x''] @ digits_text 16 2 n else repr_char q c)"

definition repr_bytes :: "string \<Rightarrow> string" where
  "repr_bytes s =
     (let q = (if char_of (39::nat) \<in> set s \<and> char_of (34::nat) \<notin> set s then char_of (34::nat) else char_of (39::nat))
      in CHR ''b'' # q # concat (map (repr_byte q) s) @ [q])"

fun join_with :: "string \<Rightarrow> string list \<Rightarrow> string" where
  "join_with sep [] = []"
| "join_with sep [x] = x"
| "join_with sep (x # y # zs) = x @ sep @ join_with sep (y # zs)"

fun py_repr :: "pyval \<Rightarrow> string" where
  "py_repr PNone = ''None''"
| "py_repr (PBool b) = (if b then ''True'' else ''False'')"
| "py_repr (PInt i) = int_str i"
| "py_repr (PFloat (FiniteFloat r)) = r"
| "py_repr (PFloat (NonFiniteFloat r)) = r"
| "py_repr (PStr s) = repr_string s"
| "py_repr (PBytes s) = repr_bytes s"
| "py_repr (PList xs) = ''['' @ join_with '', '' (map py_repr xs) @ '']''"
| "py_repr (PTuple xs) =
     (if length xs = 1 then ''('' @ join_with '', '' (map py_repr xs) @ '',)''
      else ''('' @ join_with '', '' (map py_repr xs) @ '')'')"
| "py_repr (PDict kvs) = ''{'' @ join_with '', '' (map (\<lambda>(k, v). py_repr k @ '': '' @ py_repr v) kvs) @ ''}''"
| "py_repr (POther _ _ r) = r"

definition py_str :: "pyval \<Rightarrow> string" where
  "py_str v = (case v of PStr s \<Rightarrow> s | POther _ s _ \<Rightarrow> s | _ \<Rightarrow> py_repr v)"

fun py_type_name :: "pyval \<Rightarrow> string" where
  "py_type_name PNone = ''NoneType''"
| "py_type_name (PBool _) = ''bool''"
| "py_type_name (PInt _) = ''int''"
| "py_type_name (PFloat _) = ''float''"
| "py_type_name (PStr _) = ''str''"
| "py_type_name (PBytes _) = ''bytes''"
| "py_type_name (PList _) = ''list''"
| "py_type_name (PTuple _) = ''tuple''"
| "py_type_name (PDict _) = ''dict''"
| "py_type_name (POther t _ _) = t"

lemma py_str_simps [simp]:
  "py_str (PStr s) = s" "py_str (PInt i) = int_str i" "py_str PNone = ''None''" "py_str (POther t s r) = s"
  by (simp_all add: py_str_def)

section \<open>JSON values\<close>

datatype json =
    JNull
  | JBool bool
  | JInt int
  | JFloat string
  | JStr string
  | JArr "json list"
  | JObj "(string \<times> json) list"

type_synonym json_obj = "(string \<times> json) list"

text \<open>Well-formed JSON: no object repeats a key.\<close>

fun json_wf :: "json \<Rightarrow> bool" where
  "json_wf (JArr xs) = (\<forall>x \<in> set xs. json_wf x)"
| "json_wf (JObj kvs) = (distinct (map fst kvs) \<and> (\<forall>kv \<in> set kvs. json_wf (snd kv)))"
| "json_wf _ = True"

definition json_obj_wf :: "json_obj \<Rightarrow> bool" where
  "json_obj_wf kvs = json_wf (JObj kvs)"

lemma json_obj_wf_Nil [simp]: "json_obj_wf []"
  by (simp add: json_obj_wf_def)

lemma json_obj_wf_update:
  assumes "json_obj_wf d" and "\<And>k v. (k, v) \<in> set e \<Longrightarrow> json_wf v"
  shows "json_obj_wf (dict_update d e)"
proof -
  have in_upd: "\<forall>kv \<in> set (dict_update d e). json_wf (snd kv)"
    if "\<forall>kv \<in> set d. json_wf (snd kv)" for d :: json_obj
    using assms(2) that
  proof (induction e arbitrary: d)
    case Nil
    then show ?case by simp
  next
    case (Cons a e)
    obtain k v where a: "a = (k, v)" by fastforce
    have upd: "\<forall>kv \<in> set (AList.update k v d). json_wf (snd kv)"
      using Cons.prems a by (induction d) auto
    have "\<And>k v. (k, v) \<in> set e \<Longrightarrow> json_wf v" using Cons.prems(1) by (meson list.set_intros(2))
    from Cons.IH [OF this upd] show ?case by (simp add: a)
  qed
  show ?thesis
    using assms(1) in_upd [of d] distinct_dict_update [of d e] by (simp add: json_obj_wf_def)
qed

end
