(* ===== verification/Domain_Events.thy ===== *)
theory Domain_Events
  imports Json_Values
begin

text \<open>
  The event contracts of \<^verbatim>\<open>domain/events.py\<close>: the closed sets of actor kinds and event names, the
  event envelope with its construction-time invariants, the freezing and thawing of JSON
  payloads, and the decoding of serialized envelopes.
\<close>

section \<open>Closed string sets\<close>

text \<open>
  \<^verbatim>\<open>_StringConstant\<close> members are strings registered in a table; constructing one from a string
  looks it up and raises ValueError when it is absent.
\<close>

datatype ActorKind = USER | SERVICE | SYSTEM

fun ActorKind_value :: "ActorKind \<Rightarrow> string" where
  "ActorKind_value USER = ''user''"
| "ActorKind_value SERVICE = ''service''"
| "ActorKind_value SYSTEM = ''system''"

definition ActorKind_of :: "string \<Rightarrow> ActorKind res" where
  "ActorKind_of s = (case map_of (map (\<lambda>k. (ActorKind_value k, k)) [USER, SERVICE, SYSTEM]) s of
     None \<Rightarrow> Inl (ValueError ''is not a valid ActorKind'') | Some k \<Rightarrow> Inr k)"

datatype DomainEventType =
    INVESTIGATION_REQUESTED
  | RUN_STARTED
  | RUN_STATUS_CHANGED
  | RUN_COMPLETED
  | RUN_FAILED
  | ARTIFACT_RECORDED
  | APPROVAL_REQUESTED
  | APPROVAL_DECIDED
  | USAGE_RECORDED
  | SIDE_EFFECT_INTENT_RECORDED
  | SIDE_EFFECT_COMPLETED
  | SIDE_EFFECT_FAILED
  | OUTBOX_DEAD_LETTERED
  | TENANT_REGISTERED
  | WORK_REQUESTED
  | WORK_PUBLISHED
  | WORK_CLAIMED
  | WORK_STARTED
  | WORK_HEARTBEAT
  | WORK_LEASE_EXPIRED
  | WORK_SUCCEEDED
  | WORK_FAILED
  | WORK_RETRY_SCHEDULED
  | WORK_CANCEL_REQUESTED
  | WORK_CANCELLED
  | WORK_DEAD_LETTERED
  | WORK_RECONCILED
  | MODEL_CALL_REQUESTED
  | MODEL_CALL_STARTED
  | MODEL_CALL_ATTEMPTED
  | MODEL_CALL_SUCCEEDED
  | MODEL_CALL_FAILED
  | MODEL_CALL_TIMED_OUT
  | MODEL_CALL_RATE_LIMITED
  | MODEL_CALL_CANCELLED
  | MODEL_USAGE_RECORDED
  | MODEL_ROUTE_DECIDED
  | MODEL_FALLBACK_SELECTED
  | MODEL_BUDGET_RESERVED
  | MODEL_BUDGET_RELEASED
  | MODEL_BUDGET_CHARGED

fun DomainEventType_value :: "DomainEventType \<Rightarrow> string" where
  "DomainEventType_value INVESTIGATION_REQUESTED = ''investigation.requested.v1''"
| "DomainEventType_value RUN_STARTED = ''run.started.v1''"
| "DomainEventType_value RUN_STATUS_CHANGED = ''run.status_changed.v1''"
| "DomainEventType_value RUN_COMPLETED = ''run.completed.v1''"
| "DomainEventType_value RUN_FAILED = ''run.failed.v1''"
| "DomainEventType_value ARTIFACT_RECORDED = ''artifact.recorded.v1''"
| "DomainEventType_value APPROVAL_REQUESTED = ''approval.requested.v1''"
| "DomainEventType_value APPROVAL_DECIDED = ''approval.decided.v1''"
| "DomainEventType_value USAGE_RECORDED = ''usage.recorded.v1''"
| "DomainEventType_value SIDE_EFFECT_INTENT_RECORDED = ''effect.intent_recorded.v1''"
| "DomainEventType_value SIDE_EFFECT_COMPLETED = ''effect.completed.v1''"
| "DomainEventType_value SIDE_EFFECT_FAILED = ''effect.failed.v1''"
| "DomainEventType_value OUTBOX_DEAD_LETTERED = ''delivery.outbox_dead_lettered.v1''"
| "DomainEventType_value TENANT_REGISTERED = ''tenant.registered.v1''"
| "DomainEventType_value WORK_REQUESTED = ''work.requested.v1''"
| "DomainEventType_value WORK_PUBLISHED = ''work.published.v1''"
| "DomainEventType_value WORK_CLAIMED = ''work.claimed.v1''"
| "DomainEventType_value WORK_STARTED = ''work.started.v1''"
| "DomainEventType_value WORK_HEARTBEAT = ''work.heartbeat.v1''"
| "DomainEventType_value WORK_LEASE_EXPIRED = ''work.lease_expired.v1''"
| "DomainEventType_value WORK_SUCCEEDED = ''work.succeeded.v1''"
| "DomainEventType_value WORK_FAILED = ''work.failed.v1''"
| "DomainEventType_value WORK_RETRY_SCHEDULED = ''work.retry_scheduled.v1''"
| "DomainEventType_value WORK_CANCEL_REQUESTED = ''work.cancel_requested.v1''"
| "DomainEventType_value WORK_CANCELLED = ''work.cancelled.v1''"
| "DomainEventType_value WORK_DEAD_LETTERED = ''work.dead_lettered.v1''"
| "DomainEventType_value WORK_RECONCILED = ''work.reconciled.v1''"
| "DomainEventType_value MODEL_CALL_REQUESTED = ''model.call_requested.v1''"
| "DomainEventType_value MODEL_CALL_STARTED = ''model.call_started.v1''"
| "DomainEventType_value MODEL_CALL_ATTEMPTED = ''model.call_attempted.v1''"
| "DomainEventType_value MODEL_CALL_SUCCEEDED = ''model.call_succeeded.v1''"
| "DomainEventType_value MODEL_CALL_FAILED = ''model.call_failed.v1''"
| "DomainEventType_value MODEL_CALL_TIMED_OUT = ''model.call_timed_out.v1''"
| "DomainEventType_value MODEL_CALL_RATE_LIMITED = ''model.call_rate_limited.v1''"
| "DomainEventType_value MODEL_CALL_CANCELLED = ''model.call_cancelled.v1''"
| "DomainEventType_value MODEL_USAGE_RECORDED = ''model.usage_recorded.v1''"
| "DomainEventType_value MODEL_ROUTE_DECIDED = ''model.route_decided.v1''"
| "DomainEventType_value MODEL_FALLBACK_SELECTED = ''model.fallback_selected.v1''"
| "DomainEventType_value MODEL_BUDGET_RESERVED = ''model.budget_reserved.v1''"
| "DomainEventType_value MODEL_BUDGET_RELEASED = ''model.budget_released.v1''"
| "DomainEventType_value MODEL_BUDGET_CHARGED = ''model.budget_charged.v1''"

definition DomainEventType_members :: "DomainEventType list" where
  "DomainEventType_members =
    [INVESTIGATION_REQUESTED,
     RUN_STARTED,
     RUN_STATUS_CHANGED,
     RUN_COMPLETED,
     RUN_FAILED,
     ARTIFACT_RECORDED,
     APPROVAL_REQUESTED,
     APPROVAL_DECIDED,
     USAGE_RECORDED,
     SIDE_EFFECT_INTENT_RECORDED,
     SIDE_EFFECT_COMPLETED,
     SIDE_EFFECT_FAILED,
     OUTBOX_DEAD_LETTERED,
     TENANT_REGISTERED,
     WORK_REQUESTED,
     WORK_PUBLISHED,
     WORK_CLAIMED,
     WORK_STARTED,
     WORK_HEARTBEAT,
     WORK_LEASE_EXPIRED,
     WORK_SUCCEEDED,
     WORK_FAILED,
     WORK_RETRY_SCHEDULED,
     WORK_CANCEL_REQUESTED,
     WORK_CANCELLED,
     WORK_DEAD_LETTERED,
     WORK_RECONCILED,
     MODEL_CALL_REQUESTED,
     MODEL_CALL_STARTED,
     MODEL_CALL_ATTEMPTED,
     MODEL_CALL_SUCCEEDED,
     MODEL_CALL_FAILED,
     MODEL_CALL_TIMED_OUT,
     MODEL_CALL_RATE_LIMITED,
     MODEL_CALL_CANCELLED,
     MODEL_USAGE_RECORDED,
     MODEL_ROUTE_DECIDED,
     MODEL_FALLBACK_SELECTED,
     MODEL_BUDGET_RESERVED,
     MODEL_BUDGET_RELEASED,
     MODEL_BUDGET_CHARGED]"

definition DomainEventType_of :: "string \<Rightarrow> DomainEventType res" where
  "DomainEventType_of s =
     (case map_of (map (\<lambda>t. (DomainEventType_value t, t)) DomainEventType_members) s of
        None \<Rightarrow> Inl (ValueError ''is not a valid DomainEventType'') | Some t \<Rightarrow> Inr t)"

lemma ActorKind_of_value [simp]: "ActorKind_of (ActorKind_value k) = Inr k"
  by (cases k) (simp_all add: ActorKind_of_def)

lemma set_DomainEventType_members: "t \<in> set DomainEventType_members"
  by (cases t) (simp_all add: DomainEventType_members_def)

lemma distinct_DomainEventType_values:
  "distinct (map DomainEventType_value DomainEventType_members)"
  by (simp add: DomainEventType_members_def)

lemma DomainEventType_of_value: "DomainEventType_of (DomainEventType_value t) = Inr t"
proof -
  let ?tab = "map (\<lambda>t. (DomainEventType_value t, t)) DomainEventType_members"
  have "map fst ?tab = map DomainEventType_value DomainEventType_members" by simp
  then have "map_of ?tab (DomainEventType_value t) = Some t"
    using set_DomainEventType_members [of t] distinct_DomainEventType_values
    by (intro map_of_is_SomeI) (auto simp: comp_def)
  then show ?thesis by (simp add: DomainEventType_of_def)
qed

lemma DomainEventType_value_inj [simp]:
  "DomainEventType_value s = DomainEventType_value t \<longleftrightarrow> s = t"
  by (metis DomainEventType_of_value Inr_inject)

lemma DomainEventType_of_Inr: "DomainEventType_of s = Inr t \<Longrightarrow> s = DomainEventType_value t"
  by (auto simp: DomainEventType_of_def split: option.splits dest: map_of_SomeD)

section \<open>Freezing and thawing JSON\<close>

text \<open>
  \<^verbatim>\<open>freeze_json\<close> copies a JSON document into immutable containers. Non-string keys, non-finite
  numbers and values of other types raise, in the order the traversal meets them.
\<close>

fun freeze_json :: "pyval \<Rightarrow> json res"
  and freeze_items :: "json_obj \<Rightarrow> (pyval \<times> pyval) list \<Rightarrow> json_obj res"
  and freeze_seq :: "pyval list \<Rightarrow> json list res" where
  "freeze_json PNone = Inr JNull"
| "freeze_json (PStr s) = Inr (JStr s)"
| "freeze_json (PBool b) = Inr (JBool b)"
| "freeze_json (PInt i) = Inr (JInt i)"
| "freeze_json (PFloat (FiniteFloat r)) = Inr (JFloat r)"
| "freeze_json (PFloat (NonFiniteFloat r)) = Inl (ValueError ''JSON numbers must be finite'')"
| "freeze_json (PDict kvs) = res_bind (freeze_items [] kvs) (\<lambda>d. Inr (JObj d))"
| "freeze_json (PList xs) = res_bind (freeze_seq xs) (\<lambda>js. Inr (JArr js))"
| "freeze_json (PTuple xs) = res_bind (freeze_seq xs) (\<lambda>js. Inr (JArr js))"
| "freeze_json (PBytes b) = Inl (ValueError ''unsupported JSON value type: bytes'')"
| "freeze_json (POther t s r) = Inl (ValueError (''unsupported JSON value type: '' @ t))"
| "freeze_items frozen [] = Inr frozen"
| "freeze_items frozen ((k, v) # kvs) =
     (case k of
        PStr s \<Rightarrow> res_bind (freeze_json v) (\<lambda>j. freeze_items (AList.update s j frozen) kvs)
      | _ \<Rightarrow> Inl (ValueError ''JSON object keys must be strings''))"
| "freeze_seq [] = Inr []"
| "freeze_seq (x # xs) = res_bind (freeze_json x) (\<lambda>j. res_bind (freeze_seq xs) (\<lambda>js. Inr (j # js)))"

definition freeze_json_mapping :: "(pyval \<times> pyval) list \<Rightarrow> json_obj res" where
  "freeze_json_mapping kvs = freeze_items [] kvs"

fun thaw_json :: "json \<Rightarrow> pyval" where
  "thaw_json (JObj kvs) = PDict (map (\<lambda>(k, v). (PStr k, thaw_json v)) kvs)"
| "thaw_json (JArr xs) = PList (map thaw_json xs)"
| "thaw_json JNull = PNone"
| "thaw_json (JBool b) = PBool b"
| "thaw_json (JInt i) = PInt i"
| "thaw_json (JFloat r) = PFloat (FiniteFloat r)"
| "thaw_json (JStr s) = PStr s"

definition thaw_items :: "json_obj \<Rightarrow> (pyval \<times> pyval) list" where
  "thaw_items kvs = map (\<lambda>(k, v). (PStr k, thaw_json v)) kvs"

lemma freeze_items_thaw:
  assumes "\<And>k v. (k, v) \<in> set kvs \<Longrightarrow> freeze_json (thaw_json v) = Inr v"
    and "distinct (map fst (acc @ kvs))"
  shows "freeze_items acc (map (\<lambda>(k, v). (PStr k, thaw_json v)) kvs) = Inr (acc @ kvs)"
  using assms
proof (induction kvs arbitrary: acc)
  case Nil
  then show ?case by simp
next
  case (Cons kv kvs)
  obtain k v where kv: "kv = (k, v)" by fastforce
  have v: "freeze_json (thaw_json v) = Inr v" using Cons.prems(1) kv by auto
  have "k \<notin> fst ` set acc" using Cons.prems(2) kv by auto
  then have "AList.update k v acc = acc @ [(k, v)]" by (rule update_fresh)
  moreover have "freeze_items (acc @ [(k, v)]) (map (\<lambda>(k, v). (PStr k, thaw_json v)) kvs)
      = Inr ((acc @ [(k, v)]) @ kvs)"
    using Cons.prems kv by (intro Cons.IH) auto
  ultimately show ?case by (simp add: kv v)
qed

lemma freeze_seq_thaw:
  "(\<And>x. x \<in> set xs \<Longrightarrow> freeze_json (thaw_json x) = Inr x) \<Longrightarrow> freeze_seq (map thaw_json xs) = Inr xs"
  by (induction xs) auto

lemma freeze_thaw_json: "json_wf j \<Longrightarrow> freeze_json (thaw_json j) = Inr j"
proof (induction j)
  case (JArr xs)
  then show ?case by (simp add: freeze_seq_thaw)
next
  case (JObj kvs)
  have "freeze_items [] (map (\<lambda>(k, v). (PStr k, thaw_json v)) kvs) = Inr ([] @ kvs)"
    using JObj by (intro freeze_items_thaw) (fastforce, simp)
  then show ?case by simp
qed simp_all

lemma freeze_json_mapping_thaw:
  "json_obj_wf d \<Longrightarrow> freeze_json_mapping (thaw_items d) = Inr d"
  using freeze_thaw_json [of "JObj d"]
  by (simp add: freeze_json_mapping_def thaw_items_def json_obj_wf_def res_bind_Inr_iff)

text \<open>What is frozen is well formed, so freezing is idempotent across a thaw.\<close>

lemma freeze_wf:
  "freeze_json v = Inr j \<Longrightarrow> json_wf j"
  "freeze_items acc kvs = Inr d \<Longrightarrow> json_wf (JObj acc) \<Longrightarrow> json_wf (JObj d)"
  "freeze_seq xs = Inr js \<Longrightarrow> \<forall>x \<in> set js. json_wf x"
proof (induction v and acc kvs and xs arbitrary: j and d and js rule: freeze_json_freeze_items_freeze_seq.induct)
  case (13 frozen k v kvs)
  then obtain s i where s: "k = PStr s" and i: "freeze_json v = Inr i"
    "freeze_items (AList.update s i frozen) kvs = Inr d"
    by (auto simp: res_bind_Inr_iff split: pyval.splits)
  have "json_obj_wf (dict_update frozen [(s, i)])"
    using "13.IH"(1) [OF s i(1)] "13.prems"(2) by (intro json_obj_wf_update) (auto simp: json_obj_wf_def)
  then show ?case
    using "13.IH"(2) [OF s i(2)] by (simp add: json_obj_wf_def)
qed (auto simp: res_bind_Inr_iff)

section \<open>The event envelope\<close>

record ActorReference =
  actor_id :: string
  actor_kind :: ActorKind

record TraceContext =
  traceparent :: string
  tracestate :: "string option"

record EventEnvelope =
  event_id :: uuid
  ev_tenant_id :: string
  aggregate_id :: string
  event_type :: string
  schema_version :: int
  occurred_at :: datetime
  payload :: json_obj
  correlation_id :: "uuid option"
  causation_id :: "uuid option"
  aggregate_sequence :: int
  global_position :: "int option"
  recorded_at :: "datetime option"
  actor :: "ActorReference option"
  identity_reference :: "string option"
  policy_reference :: "string option"
  audit_reference :: "uuid option"
  idempotency_key :: "string option"
  trace_context :: "TraceContext option"
  previous_aggregate_sequence :: "int option"
  metadata :: json_obj

definition new_ActorReference :: "string \<Rightarrow> ActorKind \<Rightarrow> ActorReference res" where
  "new_ActorReference a k =
     (if a = [] then Inl (ValueError ''actor_id is required'') else Inr \<lparr>actor_id = a, actor_kind = k\<rparr>)"

definition new_TraceContext :: "string \<Rightarrow> string option \<Rightarrow> TraceContext res" where
  "new_TraceContext p st =
     (if p = [] then Inl (ValueError ''traceparent is required'')
      else Inr \<lparr>traceparent = p, tracestate = st\<rparr>)"

definition require_aware_datetime :: "datetime \<Rightarrow> string \<Rightarrow> unit res" where
  "require_aware_datetime d field_name =
     require (dt_aware d) (ValueError (field_name @ '' must be timezone-aware''))"

text \<open>
  \<^verbatim>\<open>EventEnvelope.__post_init__\<close>. The payload and the metadata arrive as arbitrary mappings and
  are frozen last; the other fields are those of the record.
\<close>

definition check_envelope :: "EventEnvelope \<Rightarrow> unit res" where
  "check_envelope e =
     res_bind (require (1 \<le> schema_version e) (ValueError ''schema_version must be positive'')) (\<lambda>_.
     res_bind (require (py_strip (ev_tenant_id e) \<noteq> [] \<and> py_strip (aggregate_id e) \<noteq> []
         \<and> py_strip (event_type e) \<noteq> [])
       (ValueError ''tenant, aggregate, and event type are required'')) (\<lambda>_.
     res_bind (require_aware_datetime (occurred_at e) ''occurred_at'') (\<lambda>_.
     res_bind (case recorded_at e of None \<Rightarrow> Inr () | Some r \<Rightarrow> require_aware_datetime r ''recorded_at'') (\<lambda>_.
     res_bind (require (0 \<le> aggregate_sequence e) (ValueError ''aggregate_sequence cannot be negative'')) (\<lambda>_.
     res_bind (require (case global_position e of None \<Rightarrow> True | Some g \<Rightarrow> 1 \<le> g)
       (ValueError ''global_position must be positive'')) (\<lambda>_.
     res_bind (require (case previous_aggregate_sequence e of None \<Rightarrow> True | Some g \<Rightarrow> 0 \<le> g)
       (ValueError ''previous_aggregate_sequence cannot be negative'')) (\<lambda>_.
     require (idempotency_key e \<noteq> Some []) (ValueError ''idempotency_key cannot be empty''))))))))"

definition init_envelope ::
  "(pyval \<times> pyval) list \<Rightarrow> (pyval \<times> pyval) list \<Rightarrow> EventEnvelope \<Rightarrow> EventEnvelope res" where
  "init_envelope raw_payload raw_metadata e =
     res_bind (check_envelope e) (\<lambda>_.
     res_bind (freeze_json_mapping raw_payload) (\<lambda>p.
     res_bind (freeze_json_mapping raw_metadata) (\<lambda>m.
     Inr (e\<lparr>payload := p, metadata := m\<rparr>))))"

text \<open>Construction from parts that are JSON already: their thawed form is frozen again.\<close>

definition new_envelope :: "EventEnvelope \<Rightarrow> EventEnvelope res" where
  "new_envelope e = init_envelope (thaw_items (payload e)) (thaw_items (metadata e)) e"

definition envelope_ok :: "EventEnvelope \<Rightarrow> bool" where
  "envelope_ok e = (1 \<le> schema_version e
     \<and> py_strip (ev_tenant_id e) \<noteq> [] \<and> py_strip (aggregate_id e) \<noteq> [] \<and> py_strip (event_type e) \<noteq> []
     \<and> dt_aware (occurred_at e) \<and> (\<forall>r \<in> set_option (recorded_at e). dt_aware r)
     \<and> 0 \<le> aggregate_sequence e \<and> (\<forall>g \<in> set_option (global_position e). 1 \<le> g)
     \<and> (\<forall>g \<in> set_option (previous_aggregate_sequence e). 0 \<le> g)
     \<and> idempotency_key e \<noteq> Some []
     \<and> json_obj_wf (payload e) \<and> json_obj_wf (metadata e))"

lemma check_envelope_Inr:
  "check_envelope e = Inr u \<longleftrightarrow> 1 \<le> schema_version e
     \<and> py_strip (ev_tenant_id e) \<noteq> [] \<and> py_strip (aggregate_id e) \<noteq> [] \<and> py_strip (event_type e) \<noteq> []
     \<and> dt_aware (occurred_at e) \<and> (\<forall>r \<in> set_option (recorded_at e). dt_aware r)
     \<and> 0 \<le> aggregate_sequence e \<and> (\<forall>g \<in> set_option (global_position e). 1 \<le> g)
     \<and> (\<forall>g \<in> set_option (previous_aggregate_sequence e). 0 \<le> g)
     \<and> idempotency_key e \<noteq> Some []"
  by (auto simp: check_envelope_def res_bind_Inr_iff require_aware_datetime_def split: option.splits)

lemma freeze_json_mapping_wf: "freeze_json_mapping p = Inr d \<Longrightarrow> json_obj_wf d"
  using freeze_wf(2) [of "[]" p d] by (simp add: freeze_json_mapping_def json_obj_wf_def)

lemma init_envelope_ok: "init_envelope p m e = Inr e' \<Longrightarrow> envelope_ok e'"
  by (auto simp: init_envelope_def res_bind_Inr_iff check_envelope_Inr envelope_ok_def
      freeze_json_mapping_wf)

lemma new_envelope_Inr:
  assumes "json_obj_wf (payload e)" and "json_obj_wf (metadata e)"
  shows "new_envelope e = Inr e' \<longleftrightarrow> e' = e \<and> envelope_ok e"
  using assms
  by (auto simp: new_envelope_def init_envelope_def freeze_json_mapping_thaw res_bind_Inr_iff
      check_envelope_Inr envelope_ok_def)

section \<open>Decoding serialized envelopes\<close>

type_synonym py_mapping = "(string \<times> pyval) list"

text \<open>\<^verbatim>\<open>value[key]\<close> raises KeyError on a missing key; \<^verbatim>\<open>value.get(key)\<close> gives None.\<close>

definition mapping_item :: "py_mapping \<Rightarrow> string \<Rightarrow> pyval res" where
  "mapping_item m k = (case map_of m k of None \<Rightarrow> Inl (KeyError k) | Some v \<Rightarrow> Inr v)"

definition mapping_get :: "py_mapping \<Rightarrow> string \<Rightarrow> pyval" where
  "mapping_get m k = (case map_of m k of None \<Rightarrow> PNone | Some v \<Rightarrow> v)"

definition dict_item :: "(pyval \<times> pyval) list \<Rightarrow> string \<Rightarrow> pyval res" where
  "dict_item m k = (case map_of m (PStr k) of None \<Rightarrow> Inl (KeyError k) | Some v \<Rightarrow> Inr v)"

definition UUID_of :: "string \<Rightarrow> uuid res" where
  "UUID_of s = (case uuid_of_str s of
     None \<Rightarrow> Inl (ValueError ''badly formed hexadecimal UUID string'') | Some u \<Rightarrow> Inr u)"

definition int_of :: "string \<Rightarrow> int res" where
  "int_of s = (case py_int s of None \<Rightarrow> Inl (ValueError ''invalid literal for int()'') | Some i \<Rightarrow> Inr i)"

definition datetime_of :: "string \<Rightarrow> datetime res" where
  "datetime_of s = (case fromisoformat s of
     None \<Rightarrow> Inl (ValueError ''Invalid isoformat string'') | Some d \<Rightarrow> Inr d)"

definition if_present :: "pyval \<Rightarrow> (pyval \<Rightarrow> 'a res) \<Rightarrow> 'a option res" where
  "if_present v f = (if v = PNone then Inr None else res_bind (f v) (\<lambda>a. Inr (Some a)))"

definition optional_uuid :: "pyval \<Rightarrow> uuid option res" where
  "optional_uuid v = if_present v (\<lambda>v. UUID_of (py_str v))"

definition optional_string :: "pyval \<Rightarrow> string option" where
  "optional_string v = (if v = PNone then None else Some (py_str v))"

definition require_nonempty_string :: "pyval \<Rightarrow> string \<Rightarrow> string res" where
  "require_nonempty_string v fld =
     (let bad = Inl (ValueError (fld @ '' must be a non-empty string, got '' @ repr_string (py_type_name v)))
      in case v of PStr s \<Rightarrow> if py_strip s = [] then bad else Inr s | _ \<Rightarrow> bad)"

definition decode_actor :: "pyval \<Rightarrow> ActorReference option res" where
  "decode_actor v = (case v of
     PDict m \<Rightarrow>
       res_bind (dict_item m ''actor_id'') (\<lambda>a.
       res_bind (dict_item m ''kind'') (\<lambda>k.
       res_bind (ActorKind_of (py_str k)) (\<lambda>kind.
       res_bind (new_ActorReference (py_str a) kind) (\<lambda>r. Inr (Some r)))))
   | _ \<Rightarrow> Inr None)"

definition decode_trace :: "pyval \<Rightarrow> TraceContext option res" where
  "decode_trace v = (case v of
     PDict m \<Rightarrow>
       res_bind (dict_item m ''traceparent'') (\<lambda>p.
       res_bind (new_TraceContext (py_str p)
         (optional_string (case map_of m (PStr ''tracestate'') of None \<Rightarrow> PNone | Some st \<Rightarrow> st)))
         (\<lambda>t. Inr (Some t)))
   | _ \<Rightarrow> Inr None)"

definition from_mapping :: "py_mapping \<Rightarrow> EventEnvelope res" where
  "from_mapping value =
     res_bind (decode_actor (mapping_get value ''actor'')) (\<lambda>actr.
     res_bind (decode_trace (mapping_get value ''trace_context'')) (\<lambda>trace.
     (case (mapping_get value ''payload'',
            (case map_of value ''metadata'' of None \<Rightarrow> PDict [] | Some m \<Rightarrow> m)) of
        (PDict raw_payload, PDict raw_metadata) \<Rightarrow>
          res_bind (res_bind (mapping_item value ''event_id'') (\<lambda>v. UUID_of (py_str v))) (\<lambda>eid.
          res_bind (res_bind (mapping_item value ''tenant_id'') (\<lambda>v. require_nonempty_string v ''tenant_id'')) (\<lambda>tid.
          res_bind (res_bind (mapping_item value ''aggregate_id'') (\<lambda>v. require_nonempty_string v ''aggregate_id'')) (\<lambda>aid.
          res_bind (res_bind (mapping_item value ''event_type'') (\<lambda>v. require_nonempty_string v ''event_type'')) (\<lambda>et.
          res_bind (res_bind (mapping_item value ''schema_version'') (\<lambda>v. int_of (py_str v))) (\<lambda>sv.
          res_bind (res_bind (mapping_item value ''occurred_at'') (\<lambda>v. datetime_of (py_str v))) (\<lambda>occ.
          res_bind (optional_uuid (mapping_get value ''correlation_id'')) (\<lambda>corr.
          res_bind (optional_uuid (mapping_get value ''causation_id'')) (\<lambda>caus.
          res_bind (int_of (case map_of value ''aggregate_sequence'' of None \<Rightarrow> ''0'' | Some v \<Rightarrow> py_str v)) (\<lambda>sq.
          res_bind (if_present (mapping_get value ''global_position'') (\<lambda>v. int_of (py_str v))) (\<lambda>gp.
          res_bind (if_present (mapping_get value ''recorded_at'') (\<lambda>v. datetime_of (py_str v))) (\<lambda>recd.
          res_bind (optional_uuid (mapping_get value ''audit_reference'')) (\<lambda>aud.
          res_bind (if_present (mapping_get value ''previous_aggregate_sequence'') (\<lambda>v. int_of (py_str v))) (\<lambda>prv.
          init_envelope raw_payload raw_metadata
            \<lparr>event_id = eid, ev_tenant_id = tid, aggregate_id = aid, event_type = et,
             schema_version = sv, occurred_at = occ, payload = [], correlation_id = corr,
             causation_id = caus, aggregate_sequence = sq, global_position = gp, recorded_at = recd,
             actor = actr, identity_reference = optional_string (mapping_get value ''identity_reference''),
             policy_reference = optional_string (mapping_get value ''policy_reference''),
             audit_reference = aud, idempotency_key = optional_string (mapping_get value ''idempotency_key''),
             trace_context = trace, previous_aggregate_sequence = prv, metadata = []\<rparr>)))))))))))))
      | _ \<Rightarrow> Inl (ValueError ''event payload and metadata must be mappings''))))"

text \<open>
  Snapshots lose nothing. Freezing the thawed form of any well-formed JSON value gives that value back, so an event
  payload read from storage and re-wrapped in an envelope is unchanged.
\<close>

theorem json_snapshot_roundtrip:
  assumes "json_wf j"
  shows "freeze_json (thaw_json j) = Inr j"
  by (rule freeze_thaw_json [OF assms])

theorem json_snapshot_roundtrip_witness:
  "freeze_json (thaw_json (JObj [(''a'', JArr [JInt 1, JNull]), (''b'', JStr ''x'')]))
     = Inr (JObj [(''a'', JArr [JInt 1, JNull]), (''b'', JStr ''x'')])"
  by (rule json_snapshot_roundtrip) simp

end
