(* ===== verification/Domain_Work.thy ===== *)
theory Domain_Work
  imports Domain_Events
begin

text \<open>
  The work contracts of \<^verbatim>\<open>domain/work.py\<close>: statuses and failure classes, requests, leases,
  transitions and the state machine \<^verbatim>\<open>next_status\<close> that every replay of a work stream runs.
\<close>

section \<open>Statuses and failure classes\<close>

datatype WorkStatus =
    REQUESTED | PUBLISHED | CLAIMED | RUNNING | RETRY_WAIT
  | SUCCEEDED | FAILED | CANCELLED | DEAD_LETTER

fun WorkStatus_value :: "WorkStatus \<Rightarrow> string" where
  "WorkStatus_value REQUESTED = ''requested''"
| "WorkStatus_value PUBLISHED = ''published''"
| "WorkStatus_value CLAIMED = ''claimed''"
| "WorkStatus_value RUNNING = ''running''"
| "WorkStatus_value RETRY_WAIT = ''retry_wait''"
| "WorkStatus_value SUCCEEDED = ''succeeded''"
| "WorkStatus_value FAILED = ''failed''"
| "WorkStatus_value CANCELLED = ''cancelled''"
| "WorkStatus_value DEAD_LETTER = ''dead_letter''"

datatype FailureClass =
    FC_RETRYABLE | FC_PERMANENT | FC_CANCELLED | FC_TIMEOUT | FC_WORKER_BUG

fun FailureClass_value :: "FailureClass \<Rightarrow> string" where
  "FailureClass_value FC_RETRYABLE = ''retryable''"
| "FailureClass_value FC_PERMANENT = ''permanent''"
| "FailureClass_value FC_CANCELLED = ''cancelled''"
| "FailureClass_value FC_TIMEOUT = ''timeout''"
| "FailureClass_value FC_WORKER_BUG = ''worker_bug''"

definition TERMINAL_WORK_STATUSES :: "WorkStatus list" where
  "TERMINAL_WORK_STATUSES = [SUCCEEDED, FAILED, CANCELLED, DEAD_LETTER]"

section \<open>Requests and leases\<close>

record WorkRequest =
  rq_work_id :: uuid
  rq_tenant_id :: string
  rq_work_kind :: string
  rq_idempotency_key :: string
  rq_correlation_id :: uuid
  rq_requested_at :: datetime
  rq_payload :: json_obj
  rq_causation_id :: "uuid option"
  rq_max_attempts :: int
  rq_timeout_seconds :: int
  rq_schema_version :: int

record WorkLease =
  ls_work_id :: uuid
  ls_tenant_id :: string
  ls_token :: uuid
  ls_generation :: int
  ls_owner :: string
  ls_attempt :: int
  ls_acquired_at :: datetime
  ls_heartbeat_at :: datetime
  ls_expires_at :: datetime

definition init_WorkRequest :: "(pyval \<times> pyval) list \<Rightarrow> WorkRequest \<Rightarrow> WorkRequest res" where
  "init_WorkRequest raw_payload r =
     res_bind (require (rq_tenant_id r \<noteq> [] \<and> rq_work_kind r \<noteq> [] \<and> rq_idempotency_key r \<noteq> [])
       (ValueError ''tenant, work kind, and idempotency key are required'')) (\<lambda>_.
     res_bind (require (dt_aware (rq_requested_at r)) (ValueError ''requested_at must be timezone-aware'')) (\<lambda>_.
     res_bind (require (1 \<le> rq_max_attempts r \<and> rq_max_attempts r \<le> 100)
       (ValueError ''max_attempts must be between 1 and 100'')) (\<lambda>_.
     res_bind (require (1 \<le> rq_timeout_seconds r \<and> rq_timeout_seconds r \<le> 86400)
       (ValueError ''timeout_seconds must be between 1 and 86400'')) (\<lambda>_.
     res_bind (require (1 \<le> rq_schema_version r) (ValueError ''schema_version must be positive'')) (\<lambda>_.
     res_bind (freeze_json_mapping raw_payload) (\<lambda>p.
     Inr (r\<lparr>rq_payload := p\<rparr>)))))))"

definition request_ok :: "WorkRequest \<Rightarrow> bool" where
  "request_ok r = (rq_tenant_id r \<noteq> [] \<and> rq_work_kind r \<noteq> [] \<and> rq_idempotency_key r \<noteq> []
     \<and> dt_aware (rq_requested_at r) \<and> 1 \<le> rq_max_attempts r \<and> rq_max_attempts r \<le> 100
     \<and> 1 \<le> rq_timeout_seconds r \<and> rq_timeout_seconds r \<le> 86400 \<and> 1 \<le> rq_schema_version r
     \<and> json_obj_wf (rq_payload r))"

definition init_WorkLease :: "WorkLease \<Rightarrow> WorkLease res" where
  "init_WorkLease l =
     res_bind (require (ls_tenant_id l \<noteq> [] \<and> ls_owner l \<noteq> [])
       (ValueError ''lease tenant and owner are required'')) (\<lambda>_.
     res_bind (require (1 \<le> ls_generation l \<and> 1 \<le> ls_attempt l)
       (ValueError ''lease generation and attempt must be positive'')) (\<lambda>_.
     res_bind (require (dt_aware (ls_acquired_at l) \<and> dt_aware (ls_heartbeat_at l) \<and> dt_aware (ls_expires_at l))
       (ValueError ''lease timestamps must be timezone-aware'')) (\<lambda>_.
     res_bind (dt_le (ls_expires_at l) (ls_heartbeat_at l)) (\<lambda>expired.
     if expired then Inl (ValueError ''lease expiry must follow heartbeat'') else Inr l))))"

definition lease_ok :: "WorkLease \<Rightarrow> bool" where
  "lease_ok l = (ls_tenant_id l \<noteq> [] \<and> ls_owner l \<noteq> [] \<and> 1 \<le> ls_generation l \<and> 1 \<le> ls_attempt l
     \<and> dt_aware (ls_acquired_at l) \<and> dt_aware (ls_heartbeat_at l) \<and> dt_aware (ls_expires_at l)
     \<and> dt_instant (ls_heartbeat_at l) < dt_instant (ls_expires_at l))"

lemma init_WorkRequest_ok: "init_WorkRequest p r = Inr r' \<Longrightarrow> request_ok r'"
  by (auto simp: init_WorkRequest_def res_bind_Inr_iff request_ok_def freeze_json_mapping_wf)

lemma init_WorkLease_Inr: "init_WorkLease l = Inr l' \<longleftrightarrow> l' = l \<and> lease_ok l"
  by (auto simp: init_WorkLease_def res_bind_Inr_iff lease_ok_def dt_le_def)

section \<open>Transitions\<close>

record WorkTransition =
  wt_event_type :: DomainEventType
  wt_occurred_at :: datetime
  wt_details :: json_obj
  wt_lease :: "WorkLease option"

definition init_WorkTransition :: "(pyval \<times> pyval) list \<Rightarrow> WorkTransition \<Rightarrow> WorkTransition res" where
  "init_WorkTransition raw_details t =
     res_bind (require (py_startswith (DomainEventType_value (wt_event_type t)) ''work.'')
       (ValueError ''work transition requires a work event type'')) (\<lambda>_.
     res_bind (require (dt_aware (wt_occurred_at t)) (ValueError ''transition time must be timezone-aware'')) (\<lambda>_.
     res_bind (freeze_json_mapping raw_details) (\<lambda>d.
     Inr (t\<lparr>wt_details := d\<rparr>))))"

definition transition_payload :: "WorkTransition \<Rightarrow> WorkRequest \<Rightarrow> json_obj" where
  "transition_payload t r =
     (let p = dict_update (wt_details t)
                [(''work_id'', JStr (uuid_str (rq_work_id r))), (''work_kind'', JStr (rq_work_kind r))]
      in case wt_lease t of None \<Rightarrow> p
         | Some l \<Rightarrow> dict_update p
             [(''lease_token'', JStr (uuid_str (ls_token l))), (''lease_generation'', JInt (ls_generation l)),
              (''attempt'', JInt (ls_attempt l))])"

definition to_event :: "WorkTransition \<Rightarrow> WorkRequest \<Rightarrow> uuid \<Rightarrow> uuid option \<Rightarrow> EventEnvelope res" where
  "to_event t r eid caus =
     res_bind (require (case wt_lease t of None \<Rightarrow> True
         | Some l \<Rightarrow> ls_work_id l = rq_work_id r \<and> ls_tenant_id l = rq_tenant_id r)
       (ValueError ''lease does not belong to work request'')) (\<lambda>_.
     new_envelope
       \<lparr>event_id = eid, ev_tenant_id = rq_tenant_id r, aggregate_id = uuid_str (rq_work_id r),
        event_type = DomainEventType_value (wt_event_type t), schema_version = 1,
        occurred_at = wt_occurred_at t, payload = transition_payload t r,
        correlation_id = Some (rq_correlation_id r),
        causation_id = (case caus of None \<Rightarrow> rq_causation_id r | Some c \<Rightarrow> Some c),
        aggregate_sequence = 0, global_position = None, recorded_at = None, actor = None,
        identity_reference = None, policy_reference = None, audit_reference = None,
        idempotency_key = Some (rq_idempotency_key r @ '':'' @ DomainEventType_value (wt_event_type t)
          @ '':'' @ uuid_str eid),
        trace_context = None, previous_aggregate_sequence = None, metadata = []\<rparr>)"

section \<open>The state machine\<close>

text \<open>
  \<^verbatim>\<open>next_status\<close>: the transition table, with heartbeats, cancellation requests and
  reconciliations as the events that keep the status.
\<close>

definition work_transitions :: "((WorkStatus option \<times> DomainEventType) \<times> WorkStatus) list" where
  "work_transitions =
    [((None, WORK_REQUESTED), REQUESTED),
     ((Some REQUESTED, WORK_PUBLISHED), PUBLISHED),
     ((Some RETRY_WAIT, WORK_PUBLISHED), PUBLISHED),
     ((Some PUBLISHED, WORK_CLAIMED), CLAIMED),
     ((Some RETRY_WAIT, WORK_CLAIMED), CLAIMED),
     ((Some CLAIMED, WORK_STARTED), RUNNING),
     ((Some CLAIMED, WORK_LEASE_EXPIRED), RETRY_WAIT),
     ((Some RUNNING, WORK_LEASE_EXPIRED), RETRY_WAIT),
     ((Some RUNNING, WORK_SUCCEEDED), SUCCEEDED),
     ((Some RUNNING, WORK_FAILED), FAILED),
     ((Some FAILED, WORK_RETRY_SCHEDULED), RETRY_WAIT),
     ((Some FAILED, WORK_DEAD_LETTERED), DEAD_LETTER),
     ((Some RUNNING, WORK_RETRY_SCHEDULED), RETRY_WAIT),
     ((Some CLAIMED, WORK_RETRY_SCHEDULED), RETRY_WAIT),
     ((Some DEAD_LETTER, WORK_RETRY_SCHEDULED), RETRY_WAIT),
     ((Some REQUESTED, WORK_CANCELLED), CANCELLED),
     ((Some PUBLISHED, WORK_CANCELLED), CANCELLED),
     ((Some CLAIMED, WORK_CANCELLED), CANCELLED),
     ((Some RUNNING, WORK_CANCELLED), CANCELLED),
     ((Some RETRY_WAIT, WORK_CANCELLED), CANCELLED),
     ((Some RUNNING, WORK_DEAD_LETTERED), DEAD_LETTER),
     ((Some RETRY_WAIT, WORK_DEAD_LETTERED), DEAD_LETTER)]"

definition next_status :: "WorkStatus option \<Rightarrow> DomainEventType \<Rightarrow> WorkStatus res" where
  "next_status current ev =
     (let invalid = Inl (ValueError (DomainEventType_value ev @ '' is invalid from ''
            @ (case current of None \<Rightarrow> ''None'' | Some c \<Rightarrow> WorkStatus_value c)))
      in if ev = WORK_HEARTBEAT then
           (case current of
              Some c \<Rightarrow> if c \<in> set [CLAIMED, RUNNING] then Inr c else invalid
            | None \<Rightarrow> invalid)
         else if ev \<in> set [WORK_CANCEL_REQUESTED, WORK_RECONCILED] then
           (case current of
              None \<Rightarrow> invalid
            | Some c \<Rightarrow> if c \<in> set TERMINAL_WORK_STATUSES then invalid else Inr c)
         else (case map_of work_transitions (current, ev) of
              None \<Rightarrow> invalid
            | Some c \<Rightarrow> Inr c))"

text \<open>The edges of the machine, as a relation: what \<^const>\<open>next_status\<close> accepts and nothing else.\<close>

inductive work_edge :: "WorkStatus option \<Rightarrow> DomainEventType \<Rightarrow> WorkStatus \<Rightarrow> bool" where
  edge_table: "((c, e), d) \<in> set work_transitions \<Longrightarrow> work_edge c e d"
| edge_heartbeat: "c \<in> {CLAIMED, RUNNING} \<Longrightarrow> work_edge (Some c) WORK_HEARTBEAT c"
| edge_note: "e \<in> {WORK_CANCEL_REQUESTED, WORK_RECONCILED} \<Longrightarrow> c \<notin> set TERMINAL_WORK_STATUSES
    \<Longrightarrow> work_edge (Some c) e c"

lemma work_transitions_keys:
  "distinct (map fst work_transitions)"
  "((c, e), d) \<in> set work_transitions \<Longrightarrow> e \<notin> {WORK_HEARTBEAT, WORK_CANCEL_REQUESTED, WORK_RECONCILED}"
  by (auto simp: work_transitions_def)

lemma next_status_iff_edge: "next_status c e = Inr d \<longleftrightarrow> work_edge c e d"
proof
  assume "next_status c e = Inr d"
  then show "work_edge c e d"
    by (auto simp: next_status_def Let_def split: if_splits option.splits
        dest!: map_of_SomeD intro: work_edge.intros)
next
  assume "work_edge c e d"
  then show "next_status c e = Inr d"
  proof cases
    case edge_table
    then have "map_of work_transitions (c, e) = Some d"
      using work_transitions_keys(1) by (simp add: map_of_eq_Some_iff)
    then show ?thesis using work_transitions_keys(2) [OF edge_table]
      by (simp add: next_status_def Let_def)
  qed (auto simp: next_status_def Let_def)
qed

lemma work_edge_simps:
  "work_edge None e d \<longleftrightarrow> e = WORK_REQUESTED \<and> d = REQUESTED"
  "\<not> work_edge (Some SUCCEEDED) e d"
  "\<not> work_edge (Some CANCELLED) e d"
  "work_edge (Some FAILED) e d \<longleftrightarrow>
     (e = WORK_RETRY_SCHEDULED \<and> d = RETRY_WAIT) \<or> (e = WORK_DEAD_LETTERED \<and> d = DEAD_LETTER)"
  "work_edge (Some DEAD_LETTER) e d \<longleftrightarrow> e = WORK_RETRY_SCHEDULED \<and> d = RETRY_WAIT"
  by (auto simp: work_edge.simps work_transitions_def TERMINAL_WORK_STATUSES_def)

lemma work_edge_into:
  "work_edge c e CLAIMED \<Longrightarrow> e = WORK_CLAIMED \<and> c \<in> {Some PUBLISHED, Some RETRY_WAIT} \<or> c = Some CLAIMED"
  "work_edge c e RUNNING \<Longrightarrow> e = WORK_STARTED \<and> c = Some CLAIMED \<or> c = Some RUNNING"
  "work_edge c WORK_CLAIMED d \<Longrightarrow> d = CLAIMED \<and> c \<in> {Some PUBLISHED, Some RETRY_WAIT}"
  "work_edge c WORK_SUCCEEDED d \<Longrightarrow> d = SUCCEEDED \<and> c = Some RUNNING"
  "work_edge c WORK_CANCELLED d \<Longrightarrow> d = CANCELLED"
  by (auto simp: work_edge.simps work_transitions_def)

lemma next_status_work_event:
  "next_status c e = Inr d \<Longrightarrow> py_startswith (DomainEventType_value e) ''work.''"
  by (auto simp: next_status_iff_edge work_edge.simps work_transitions_def py_startswith_def)

section \<open>Replay\<close>

text \<open>The status a history of work events gives: \<^const>\<open>next_status\<close> folded over it.\<close>

fun replay_status :: "WorkStatus option \<Rightarrow> DomainEventType list \<Rightarrow> WorkStatus option res" where
  "replay_status c [] = Inr c"
| "replay_status c (e # es) = res_bind (next_status c e) (\<lambda>d. replay_status (Some d) es)"

lemma replay_status_append:
  "replay_status c (es @ fs) = res_bind (replay_status c es) (\<lambda>d. replay_status d fs)"
  by (induction es arbitrary: c) (auto simp: res_bind_def split: sum.splits)

lemma replay_status_Cons_Inr:
  "replay_status c (e # es) = Inr d \<longleftrightarrow> (\<exists>b. work_edge c e b \<and> replay_status (Some b) es = Inr d)"
  by (auto simp: res_bind_Inr_iff next_status_iff_edge)

lemma replay_status_append_Inr:
  "replay_status c (es @ fs) = Inr d \<longleftrightarrow> (\<exists>b. replay_status c es = Inr b \<and> replay_status b fs = Inr d)"
  by (auto simp: replay_status_append res_bind_Inr_iff)

declare replay_status.simps(2) [simp del]

definition absorbing :: "WorkStatus list" where
  "absorbing = [SUCCEEDED, CANCELLED]"

lemma replay_absorbing:
  "c \<in> set absorbing \<Longrightarrow> replay_status (Some c) es = Inr d \<Longrightarrow> es = [] \<and> d = Some c"
  by (cases es) (auto simp: replay_status_Cons_Inr absorbing_def work_edge_simps)

text \<open>Events that end the tenure of the worker holding a claim.\<close>

definition tenure_ending :: "DomainEventType list" where
  "tenure_ending = [WORK_LEASE_EXPIRED, WORK_FAILED, WORK_RETRY_SCHEDULED, WORK_DEAD_LETTERED]"

lemma replay_within_tenure:
  assumes "replay_status (Some c) es = Inr d" and "c \<in> {CLAIMED, RUNNING, SUCCEEDED, CANCELLED}"
    and "\<forall>e \<in> set es. e \<notin> set tenure_ending"
  shows "d \<in> Some ` {CLAIMED, RUNNING, SUCCEEDED, CANCELLED}"
  using assms
proof (induction es arbitrary: c)
  case Nil
  then show ?case by auto
next
  case (Cons e es)
  then obtain b where b: "work_edge (Some c) e b" "replay_status (Some b) es = Inr d"
    by (auto simp: replay_status_Cons_Inr)
  have "b \<in> {CLAIMED, RUNNING, SUCCEEDED, CANCELLED}"
    using b(1) Cons.prems by (auto simp: work_edge.simps work_transitions_def tenure_ending_def)
  with Cons b show ?case by auto
qed

section \<open>Properties of accepted histories\<close>

lemma replay_running:
  "replay_status None es = Inr (Some RUNNING) \<Longrightarrow>
     \<exists>as bs. es = as @ WORK_STARTED # bs \<and> set bs \<subseteq> {WORK_HEARTBEAT, WORK_CANCEL_REQUESTED, WORK_RECONCILED}"
proof (induction es rule: rev_induct)
  case Nil
  then show ?case by simp
next
  case (snoc e es)
  then obtain c where c: "replay_status None es = Inr c" "work_edge c e RUNNING"
    by (auto simp: replay_status_append_Inr replay_status_Cons_Inr)
  show ?case
  proof (cases "c = Some RUNNING")
    case True
    then obtain as bs where "es = as @ WORK_STARTED # bs" "set bs \<subseteq> {WORK_HEARTBEAT, WORK_CANCEL_REQUESTED, WORK_RECONCILED}"
      using snoc.IH c(1) by auto
    moreover have "e \<in> {WORK_HEARTBEAT, WORK_CANCEL_REQUESTED, WORK_RECONCILED}"
      using c(2) True by (auto simp: work_edge.simps work_transitions_def)
    ultimately show ?thesis by (intro exI [of _ as] exI [of _ "bs @ [e]"]) auto
  next
    case False
    then have "e = WORK_STARTED" using work_edge_into(2) [OF c(2)] by auto
    then show ?thesis by (intro exI [of _ es] exI [of _ "[]"]) simp
  qed
qed

text \<open>
  Claims do not overlap. In every history the state machine accepts, between two claims of an item
  there is an event that ended the first claimant's tenure: an expiry, a failure, a scheduled retry or a dead letter.
\<close>

theorem history_claims_disjoint:
  assumes "replay_status None (es @ WORK_CLAIMED # fs @ WORK_CLAIMED # gs) = Inr d"
  shows "\<exists>e \<in> set fs. e \<in> set tenure_ending"
proof (rule ccontr)
  assume none: "\<not> (\<exists>e \<in> set fs. e \<in> set tenure_ending)"
  obtain c where c: "replay_status (Some CLAIMED) fs = Inr c" "\<exists>b. work_edge c WORK_CLAIMED b"
    using assms work_edge_into(3)
    by (auto simp: replay_status_append_Inr replay_status_Cons_Inr)
  then have "c \<in> Some ` {CLAIMED, RUNNING, SUCCEEDED, CANCELLED}"
    using replay_within_tenure [OF c(1)] none by auto
  with c(2) show False by (auto dest: work_edge_into(3))
qed

theorem history_claims_disjoint_witness:
  "\<exists>e \<in> set [WORK_STARTED, WORK_LEASE_EXPIRED]. e \<in> set tenure_ending"
  by (rule history_claims_disjoint [where es = "[WORK_REQUESTED, WORK_PUBLISHED]" and gs = "[]" and d = "Some CLAIMED"])
     (code_simp)

text \<open>
  Outcomes are final and earned. An accepted history has nothing after a success or a completed cancellation, and a success
  comes directly out of a started attempt: after the start there were only heartbeats, cancellation requests
  and reconciliation notes.
\<close>

theorem success_is_final_and_started:
  assumes "replay_status None (es @ WORK_SUCCEEDED # fs) = Inr d"
  shows "fs = [] \<and> d = Some SUCCEEDED
    \<and> (\<exists>as bs. es = as @ WORK_STARTED # bs \<and> set bs \<subseteq> {WORK_HEARTBEAT, WORK_CANCEL_REQUESTED, WORK_RECONCILED})"
proof -
  obtain c b where c: "replay_status None es = Inr c" "work_edge c WORK_SUCCEEDED b" "replay_status (Some b) fs = Inr d"
    using assms by (auto simp: replay_status_append_Inr replay_status_Cons_Inr)
  then have "c = Some RUNNING" "b = SUCCEEDED" using work_edge_into(4) by auto
  with c replay_running replay_absorbing [of SUCCEEDED fs d] show ?thesis by (simp add: absorbing_def)
qed

theorem success_is_final_and_started_witness:
  "\<exists>as bs. [WORK_REQUESTED, WORK_PUBLISHED, WORK_CLAIMED, WORK_STARTED, WORK_HEARTBEAT] = as @ WORK_STARTED # bs
     \<and> set bs \<subseteq> {WORK_HEARTBEAT, WORK_CANCEL_REQUESTED, WORK_RECONCILED}"
proof -
  have "replay_status None ([WORK_REQUESTED, WORK_PUBLISHED, WORK_CLAIMED, WORK_STARTED, WORK_HEARTBEAT]
      @ WORK_SUCCEEDED # []) = Inr (Some SUCCEEDED)" by code_simp
  from success_is_final_and_started [OF this] show ?thesis by blast
qed

end
