(* ===== verification/Transport.thy ===== *)
theory Transport
  imports Domain_Work "HOL-Library.Char_ord" "HOL-Library.List_Lexorder"
begin

text \<open>
  The transport contracts of \<^verbatim>\<open>queueing/__init__.py\<close> (message envelopes, deliveries) and the encoding
  and size limit of \<^verbatim>\<open>queueing/redis_streams.py\<close>; equality of JSON values as Python compares them.
\<close>

section \<open>Envelopes and deliveries\<close>

record MessageEnvelope =
  me_message_id :: uuid
  me_tenant_id :: string
  me_work_id :: uuid
  me_event_id :: "uuid option"
  me_destination :: string
  me_correlation_id :: uuid
  me_causation_id :: "uuid option"
  me_occurred_at :: datetime
  me_payload :: json_obj
  me_headers :: json_obj
  me_schema_version :: int

definition init_MessageEnvelope ::
  "(pyval \<times> pyval) list \<Rightarrow> (pyval \<times> pyval) list \<Rightarrow> MessageEnvelope \<Rightarrow> MessageEnvelope res" where
  "init_MessageEnvelope raw_payload raw_headers m =
     res_bind (require (me_tenant_id m \<noteq> [] \<and> me_destination m \<noteq> [])
       (ValueError ''message tenant and destination are required'')) (\<lambda>_.
     res_bind (require (dt_aware (me_occurred_at m)) (ValueError ''message occurred_at must be timezone-aware'')) (\<lambda>_.
     res_bind (require (me_schema_version m = 1) (ValueError ''unsupported message schema version'')) (\<lambda>_.
     res_bind (freeze_json_mapping raw_payload) (\<lambda>p.
     res_bind (freeze_json_mapping raw_headers) (\<lambda>h.
     Inr (m\<lparr>me_payload := p, me_headers := h\<rparr>))))))"

record QueueDelivery =
  dv_stream_entry_id :: string
  dv_envelope :: MessageEnvelope
  dv_delivery_count :: int
  dv_idle_milliseconds :: int

definition init_QueueDelivery :: "QueueDelivery \<Rightarrow> QueueDelivery res" where
  "init_QueueDelivery d =
     res_bind (require (dv_stream_entry_id d \<noteq> []) (ValueError ''stream entry id is required'')) (\<lambda>_.
     res_bind (require (1 \<le> dv_delivery_count d \<and> 0 \<le> dv_idle_milliseconds d)
       (ValueError ''invalid delivery metadata'')) (\<lambda>_. Inr d))"

section \<open>JSON text\<close>

text \<open>\<^verbatim>\<open>json.dumps(value, separators=(",", ":"), sort_keys=True)\<close>, ASCII only.\<close>

definition json_escape :: "char \<Rightarrow> string" where
  "json_escape c = (let n = (of_char c :: nat); bs = char_of (92::nat) in
     if n = 34 \<or> n = 92 then [bs, c]
     else if n = 10 then [bs, CHR ''n'']
     else if n = 13 then [bs, CHR ''r'']
     else if n = 9 then [bs, CHR ''t'']
     else if n = 12 then [bs, CHR ''f'']
     else if n = 8 then [bs, CHR ''b'']
     else if n < 32 \<or> 127 \<le> n then [bs, CHR ''u''] @ digits_text 16 4 n
     else [c])"

definition json_string :: "string \<Rightarrow> string" where
  "json_string s = char_of (34::nat) # concat (map json_escape s) @ [char_of (34::nat)]"

fun json_dumps :: "json \<Rightarrow> string" where
  "json_dumps JNull = ''null''"
| "json_dumps (JBool b) = (if b then ''true'' else ''false'')"
| "json_dumps (JInt i) = int_str i"
| "json_dumps (JFloat r) = r"
| "json_dumps (JStr s) = json_string s"
| "json_dumps (JArr xs) = ''['' @ join_with '','' (map json_dumps xs) @ '']''"
| "json_dumps (JObj kvs) =
     ''{'' @ join_with '','' (map (\<lambda>(k, t). json_string k @ '':'' @ t)
       (sort_key fst (map (\<lambda>(k, v). (k, json_dumps v)) kvs))) @ ''}''"

definition json_opt_uuid :: "uuid option \<Rightarrow> json" where
  "json_opt_uuid u = (case u of None \<Rightarrow> JNull | Some i \<Rightarrow> JStr (uuid_str i))"

definition envelope_body :: "MessageEnvelope \<Rightarrow> json_obj" where
  "envelope_body m =
     [(''schema_version'', JInt (me_schema_version m)),
      (''message_id'', JStr (uuid_str (me_message_id m))),
      (''tenant_id'', JStr (me_tenant_id m)),
      (''work_id'', JStr (uuid_str (me_work_id m))),
      (''event_id'', json_opt_uuid (me_event_id m)),
      (''destination'', JStr (me_destination m)),
      (''correlation_id'', JStr (uuid_str (me_correlation_id m))),
      (''causation_id'', json_opt_uuid (me_causation_id m)),
      (''occurred_at'', JStr (isoformat (me_occurred_at m))),
      (''payload'', JObj (me_payload m)),
      (''headers'', JObj (me_headers m))]"

definition max_envelope_bytes :: nat where
  "max_envelope_bytes = 256 * 1024"

definition validate_transport_size :: "MessageEnvelope \<Rightarrow> unit res" where
  "validate_transport_size m =
     require (length (json_dumps (JObj (envelope_body m))) \<le> max_envelope_bytes)
       (PermanentQueueError ''message envelope exceeds 256 KiB'')"

definition encode_envelope :: "MessageEnvelope \<Rightarrow> string res" where
  "encode_envelope m =
     res_bind (validate_transport_size m) (\<lambda>_. Inr (json_dumps (JObj (envelope_body m))))"

section \<open>Equality of JSON values\<close>

text \<open>
  Python compares mappings without regard to order, and booleans, integers and floats by
  value: \<open>json_number\<close> is the \<^verbatim>\<open>repr\<close> of the float a number equals (an integer of
  sixteen digits or more compares with integers only).
\<close>

fun json_number :: "json \<Rightarrow> string option" where
  "json_number (JInt n) = Some (if \<bar>n\<bar> < 10000000000000000 then int_str n @ ''.0'' else int_str n)"
| "json_number (JBool b) = Some (if b then ''1.0'' else ''0.0'')"
| "json_number (JFloat r) = Some (if r = ''-0.0'' then ''0.0'' else r)"
| "json_number _ = None"

function json_eq :: "json \<Rightarrow> json \<Rightarrow> bool" where
  "json_eq JNull j = (j = JNull)"
| "json_eq (JStr s) j = (j = JStr s)"
| "json_eq (JBool b) j = (json_number j = json_number (JBool b))"
| "json_eq (JInt n) j = (json_number j = json_number (JInt n))"
| "json_eq (JFloat r) j = (json_number j = json_number (JFloat r))"
| "json_eq (JArr xs) j = (case j of
     JArr ys \<Rightarrow> length xs = length ys \<and> (\<forall>p \<in> set (zip xs ys). json_eq (fst p) (snd p))
   | _ \<Rightarrow> False)"
| "json_eq (JObj kvs) j = (case j of
     JObj lvs \<Rightarrow> length kvs = length lvs
       \<and> (\<forall>kv \<in> set kvs. case map_of lvs (fst kv) of None \<Rightarrow> False | Some w \<Rightarrow> json_eq (snd kv) w)
   | _ \<Rightarrow> False)"
  by pat_completeness auto
termination
proof (relation "measure (\<lambda>(a, b). size a)")
  fix xs ys :: "json list" and j p
  assume "p \<in> set (zip xs ys)"
  then have "fst p \<in> set xs" by (metis prod.collapse set_zip_leftD)
  then have "size (fst p) < Suc (size_list size xs)" by (induction xs) auto
  then show "((fst p, snd p), (JArr xs, j)) \<in> measure (\<lambda>(a, b). size a)"
    by (cases p) simp
next
  fix kvs :: json_obj and j kv w
  assume "kv \<in> set kvs"
  then have "size (snd kv) < Suc (size_list (size_prod (\<lambda>_. 0) size) kvs)"
    unfolding size_prod_simp by (induction kvs) auto
  then show "((snd kv, w), (JObj kvs, j)) \<in> measure (\<lambda>(a, b). size a)" by simp
qed auto

definition json_obj_eq :: "json_obj \<Rightarrow> json_obj \<Rightarrow> bool" where
  "json_obj_eq a b = json_eq (JObj a) (JObj b)"

lemma json_eq_refl: "json_wf j \<Longrightarrow> json_eq j j"
proof (induction j)
  case (JObj kvs)
  have "map_of kvs (fst kv) = Some (snd kv)" "json_eq (snd kv) (snd kv)" if "kv \<in> set kvs" for kv
  proof -
    show "map_of kvs (fst kv) = Some (snd kv)" using that JObj.prems by (intro map_of_is_SomeI) auto
    have "snd kv \<in> Basic_BNFs.snds kv" by (cases kv) simp
    then show "json_eq (snd kv) (snd kv)" using JObj that by simp
  qed
  then show ?case by simp
qed (auto simp: zip_same)

end
