(* ===== verification/Fair_Scheduler.thy ===== *)
theory Fair_Scheduler
  imports Transport "HOL-Library.Multiset"
begin

text \<open>
  \<^verbatim>\<open>FairTenantScheduler\<close> of \<^verbatim>\<open>runtime/__init__.py\<close>: a queue per tenant and the round-robin of the
  tenants that have deliveries waiting. The contract of such a scheduler is a locale; a batch
  taken from it serves every delivery once, each tenant's in order of arrival, and a full round serves each waiting tenant.
\<close>

section \<open>Operations\<close>

record FairTenantScheduler =
  fs_queues :: "string \<rightharpoonup> QueueDelivery list"
  fs_round_robin :: "string list"

definition empty_scheduler :: FairTenantScheduler where
  "empty_scheduler = \<lparr>fs_queues = (\<lambda>_. None), fs_round_robin = []\<rparr>"

definition delivery_tenant :: "QueueDelivery \<Rightarrow> string" where
  "delivery_tenant d = me_tenant_id (dv_envelope d)"

definition add_delivery :: "QueueDelivery \<Rightarrow> FairTenantScheduler \<Rightarrow> FairTenantScheduler" where
  "add_delivery d s =
     (let t = delivery_tenant d;
          queue = (case fs_queues s t of None \<Rightarrow> [] | Some q \<Rightarrow> q);
          rr = (if queue = [] then fs_round_robin s @ [t] else fs_round_robin s)
      in \<lparr>fs_queues = (fs_queues s)(t := Some (queue @ [d])), fs_round_robin = rr\<rparr>)"

definition scheduler_add :: "QueueDelivery list \<Rightarrow> FairTenantScheduler \<Rightarrow> FairTenantScheduler" where
  "scheduler_add ds s = fold add_delivery ds s"

text \<open>
  \<^verbatim>\<open>pop\<close> raises when the round-robin names a tenant without a queue or with an empty one; the invariant
  below excludes both.
\<close>

definition scheduler_pop :: "(FairTenantScheduler, QueueDelivery option) op" where
  "scheduler_pop s = (case fs_round_robin s of
     [] \<Rightarrow> (Inr None, s)
   | t # rest \<Rightarrow>
       (case fs_queues s t of
          None \<Rightarrow> (Inl (KeyError t), s\<lparr>fs_round_robin := rest\<rparr>)
        | Some [] \<Rightarrow> (Inl (IndexError ''pop from an empty deque''), s\<lparr>fs_round_robin := rest\<rparr>)
        | Some (d # queue) \<Rightarrow>
            (Inr (Some d),
             if queue \<noteq> [] then \<lparr>fs_queues = (fs_queues s)(t := Some queue), fs_round_robin = rest @ [t]\<rparr>
             else \<lparr>fs_queues = (fs_queues s)(t := None), fs_round_robin = rest\<rparr>)))"

definition scheduler_bool :: "FairTenantScheduler \<Rightarrow> bool" where
  "scheduler_bool s = (fs_round_robin s \<noteq> [])"

text \<open>The items of the first \<open>n\<close> pops of any source, and of this scheduler.\<close>

primrec pop_n :: "('s, 'd option) op \<Rightarrow> nat \<Rightarrow> 's \<Rightarrow> 'd list \<times> 's" where
  "pop_n pop 0 s = ([], s)"
| "pop_n pop (Suc n) s = (case pop s of
     (Inr (Some d), s1) \<Rightarrow> (case pop_n pop n s1 of (ds, s2) \<Rightarrow> (d # ds, s2))
   | (_, s1) \<Rightarrow> ([], s1))"

section \<open>What a batch source promises\<close>

locale batch_source =
  fixes pop :: "('s, 'd option) op" and inv :: "'s \<Rightarrow> bool" and pending :: "'s \<Rightarrow> 'd multiset"
  assumes pop_empty: "inv s \<Longrightarrow> pending s = {#} \<Longrightarrow> pop s = (Inr None, s)"
    and pop_next: "inv s \<Longrightarrow> pending s \<noteq> {#} \<Longrightarrow>
      \<exists>d s'. pop s = (Inr (Some d), s') \<and> inv s' \<and> pending s = add_mset d (pending s')"
begin

lemma pop_n_pending:
  assumes "inv s" and "n \<le> size (pending s)"
  shows "inv (snd (pop_n pop n s)) \<and> length (fst (pop_n pop n s)) = n
    \<and> pending s = mset (fst (pop_n pop n s)) + pending (snd (pop_n pop n s))"
  using assms
proof (induction n arbitrary: s)
  case 0
  then show ?case by simp
next
  case (Suc n)
  then have "pending s \<noteq> {#}" by auto
  then obtain d s1 where d: "pop s = (Inr (Some d), s1)" "inv s1" "pending s = add_mset d (pending s1)"
    using pop_next Suc.prems(1) by blast
  then have "n \<le> size (pending s1)" using Suc.prems(2) by simp
  with Suc.IH [OF d(2)] d show ?case by (auto split: prod.splits)
qed

lemma pop_n_all:
  assumes "inv s" and "n = size (pending s)"
  shows "mset (fst (pop_n pop n s)) = pending s \<and> pending (snd (pop_n pop n s)) = {#}"
proof -
  have "size (pending s) = length (fst (pop_n pop n s)) + size (pending (snd (pop_n pop n s)))"
    using pop_n_pending [OF assms(1), of n] assms(2) by (metis order_refl size_mset size_union)
  then have "pending (snd (pop_n pop n s)) = {#}" using pop_n_pending [OF assms(1), of n] assms(2) by simp
  then show ?thesis using pop_n_pending [OF assms(1), of n] assms(2) by simp
qed

end

section \<open>Invariant\<close>

definition tenant_queue :: "FairTenantScheduler \<Rightarrow> string \<Rightarrow> QueueDelivery list" where
  "tenant_queue s t = (case fs_queues s t of None \<Rightarrow> [] | Some q \<Rightarrow> q)"

definition scheduler_inv :: "FairTenantScheduler \<Rightarrow> bool" where
  "scheduler_inv s = (distinct (fs_round_robin s) \<and> set (fs_round_robin s) = dom (fs_queues s)
     \<and> (\<forall>t q. fs_queues s t = Some q \<longrightarrow> q \<noteq> [] \<and> (\<forall>d \<in> set q. delivery_tenant d = t)))"

definition waiting :: "FairTenantScheduler \<Rightarrow> QueueDelivery multiset" where
  "waiting s = sum_list (map (\<lambda>t. mset (tenant_queue s t)) (fs_round_robin s))"

lemma scheduler_inv_empty: "scheduler_inv empty_scheduler"
  by (simp add: scheduler_inv_def empty_scheduler_def dom_def)

lemma scheduler_inv_in: "scheduler_inv s \<Longrightarrow> t \<in> set (fs_round_robin s) \<longleftrightarrow> tenant_queue s t \<noteq> []"
  by (auto simp: scheduler_inv_def tenant_queue_def dom_def split: option.splits)

lemma waiting_update:
  assumes "t \<notin> set ts"
  shows "map (\<lambda>u. mset (if u = t then q else tenant_queue s u)) ts = map (\<lambda>u. mset (tenant_queue s u)) ts"
  using assms by (induction ts) auto

lemma add_delivery_queue:
  "tenant_queue (add_delivery d s) t = tenant_queue s t @ (if delivery_tenant d = t then [d] else [])"
  by (auto simp: add_delivery_def tenant_queue_def Let_def split: option.splits)

lemma add_delivery_inv:
  assumes "scheduler_inv s"
  shows "scheduler_inv (add_delivery d s)"
proof -
  let ?t = "delivery_tenant d"
  show ?thesis
  proof (cases "fs_queues s ?t")
    case None
    then have "?t \<notin> set (fs_round_robin s)" using assms by (auto simp: scheduler_inv_def)
    then show ?thesis using assms None by (auto simp: scheduler_inv_def add_delivery_def Let_def split: if_splits)
  next
    case (Some q)
    then have "q \<noteq> []" using assms by (auto simp: scheduler_inv_def)
    then show ?thesis using assms Some
      by (auto simp: scheduler_inv_def add_delivery_def Let_def split: if_splits)
  qed
qed

lemma scheduler_add_inv: "scheduler_inv s \<Longrightarrow> scheduler_inv (scheduler_add ds s)"
  unfolding scheduler_add_def by (induction ds arbitrary: s) (auto simp: add_delivery_inv)

lemma scheduler_add_queue:
  "tenant_queue (scheduler_add ds s) t = tenant_queue s t @ filter (\<lambda>d. delivery_tenant d = t) ds"
  unfolding scheduler_add_def by (induction ds arbitrary: s) (auto simp: add_delivery_queue)

lemma scheduler_pop_None: "scheduler_inv s \<Longrightarrow> fst (scheduler_pop s) = Inr None \<longleftrightarrow> fs_round_robin s = []"
  by (auto simp: scheduler_pop_def split: list.splits option.splits)

lemma scheduler_pop_Some:
  assumes "scheduler_inv s" and "fs_round_robin s = t # rest"
  obtains d q s' where "tenant_queue s t = d # q" and "delivery_tenant d = t" and "scheduler_pop s = (Inr (Some d), s')"
    and "scheduler_inv s'" and "tenant_queue s' = (tenant_queue s)(t := q)"
    and "fs_round_robin s' = rest @ (if q = [] then [] else [t])"
proof -
  obtain d q where q: "fs_queues s t = Some (d # q)" and d: "\<forall>x \<in> set (d # q). delivery_tenant x = t"
    using assms unfolding scheduler_inv_def by (metis domD list.exhaust list.set_intros(1))
  let ?s = "if q \<noteq> [] then \<lparr>fs_queues = (fs_queues s)(t := Some q), fs_round_robin = rest @ [t]\<rparr>
             else \<lparr>fs_queues = (fs_queues s)(t := None), fs_round_robin = rest\<rparr>"
  have tr: "t \<notin> set rest" "distinct rest" using assms by (auto simp: scheduler_inv_def)
  have "scheduler_inv ?s"
    using assms q d tr unfolding scheduler_inv_def by (cases "q = []") (auto split: if_splits)
  moreover have "scheduler_pop s = (Inr (Some d), ?s)" using assms(2) q by (simp add: scheduler_pop_def)
  moreover have "tenant_queue ?s = (tenant_queue s)(t := q)" by (auto simp: tenant_queue_def fun_eq_iff)
  moreover have "fs_round_robin ?s = rest @ (if q = [] then [] else [t])" by simp
  ultimately show thesis using q d by (intro that [of d q ?s]) (auto simp: tenant_queue_def)
qed

lemma scheduler_pop_waiting:
  assumes "scheduler_inv s" and "fs_round_robin s = t # rest" and "scheduler_pop s = (Inr (Some d), s')"
  shows "waiting s = add_mset d (waiting s')"
proof -
  obtain d' q s'' where pop: "tenant_queue s t = d' # q" "delivery_tenant d' = t" "scheduler_pop s = (Inr (Some d'), s'')"
    "scheduler_inv s''" "tenant_queue s'' = (tenant_queue s)(t := q)"
    "fs_round_robin s'' = rest @ (if q = [] then [] else [t])"
    by (rule scheduler_pop_Some [OF assms(1,2)])
  have t: "t \<notin> set rest" using assms(1,2) by (auto simp: scheduler_inv_def)
  have eq: "d' = d" "s'' = s'" using assms(3) pop(3) by auto
  have "waiting s' = sum_list (map (\<lambda>u. mset (tenant_queue s u)) rest) + mset q"
    using pop(5,6) unfolding eq waiting_def by (simp add: waiting_update [OF t])
  then show ?thesis using assms(2) pop(1) eq by (simp add: waiting_def)
qed

lemma waiting_empty: "scheduler_inv s \<Longrightarrow> waiting s = {#} \<longleftrightarrow> fs_round_robin s = []"
  by (cases "fs_round_robin s") (auto simp: waiting_def dest: scheduler_inv_in [of s "hd (fs_round_robin s)"])

interpretation fair: batch_source scheduler_pop scheduler_inv waiting
proof
  fix s
  assume inv: "scheduler_inv s"
  show "waiting s = {#} \<Longrightarrow> scheduler_pop s = (Inr None, s)"
    using waiting_empty [OF inv] by (simp add: scheduler_pop_def)
  assume "waiting s \<noteq> {#}"
  then obtain t rest where rr: "fs_round_robin s = t # rest" using waiting_empty [OF inv] by (auto simp: neq_Nil_conv)
  obtain d q s' where "tenant_queue s t = d # q" "delivery_tenant d = t" "scheduler_pop s = (Inr (Some d), s')"
      "scheduler_inv s'" "tenant_queue s' = (tenant_queue s)(t := q)" "fs_round_robin s' = rest @ (if q = [] then [] else [t])"
    by (rule scheduler_pop_Some [OF inv rr])
  with scheduler_pop_waiting [OF inv rr]
  show "\<exists>d s'. scheduler_pop s = (Inr (Some d), s') \<and> scheduler_inv s' \<and> waiting s = add_mset d (waiting s')" by blast
qed

lemma add_delivery_waiting:
  assumes "scheduler_inv s"
  shows "waiting (add_delivery d s) = add_mset d (waiting s)"
proof (cases "delivery_tenant d \<in> set (fs_round_robin s)")
  case True
  let ?t = "delivery_tenant d"
  obtain as bs where rr: "fs_round_robin s = as @ ?t # bs" using True split_list by fast
  then have nin: "?t \<notin> set as" "?t \<notin> set bs" using assms by (auto simp: scheduler_inv_def)
  have q: "tenant_queue (add_delivery d s) = (tenant_queue s)(?t := tenant_queue s ?t @ [d])"
    by (auto simp: add_delivery_queue fun_eq_iff)
  have "fs_round_robin (add_delivery d s) = fs_round_robin s"
    using scheduler_inv_in [OF assms] True by (auto simp: add_delivery_def Let_def tenant_queue_def)
  then show ?thesis using rr by (simp add: waiting_def q waiting_update nin)
next
  case False
  let ?t = "delivery_tenant d"
  have q: "tenant_queue (add_delivery d s) = (tenant_queue s)(?t := [d])" and e: "tenant_queue s ?t = []"
    using scheduler_inv_in [OF assms] False by (auto simp: add_delivery_queue fun_eq_iff)
  have "fs_round_robin (add_delivery d s) = fs_round_robin s @ [?t]"
    using e by (auto simp: add_delivery_def Let_def tenant_queue_def split: option.splits)
  then show ?thesis by (simp add: waiting_def q waiting_update False)
qed

lemma scheduler_add_waiting: "scheduler_inv s \<Longrightarrow> waiting (scheduler_add ds s) = mset ds + waiting s"
  unfolding scheduler_add_def
  by (induction ds arbitrary: s) (simp_all add: add_delivery_inv add_delivery_waiting)

lemma pop_n_fifo:
  assumes "scheduler_inv s"
  shows "filter (\<lambda>d. delivery_tenant d = t) (fst (pop_n scheduler_pop n s)) @ tenant_queue (snd (pop_n scheduler_pop n s)) t
    = tenant_queue s t"
  using assms
proof (induction n arbitrary: s)
  case 0
  then show ?case by simp
next
  case (Suc n)
  show ?case
  proof (cases "fs_round_robin s")
    case Nil
    then show ?thesis by (simp add: scheduler_pop_def)
  next
    case (Cons u rest)
    obtain d q s' where "tenant_queue s u = d # q" "delivery_tenant d = u" "scheduler_pop s = (Inr (Some d), s')"
      "scheduler_inv s'" "tenant_queue s' = (tenant_queue s)(u := q)" "fs_round_robin s' = rest @ (if q = [] then [] else [u])"
      by (rule scheduler_pop_Some [OF Suc.prems Cons])
    with Suc.IH [of s'] show ?thesis by (auto split: prod.splits)
  qed
qed

lemma pop_n_round:
  assumes "scheduler_inv s" and "fs_round_robin s = as @ bs"
  shows "map delivery_tenant (fst (pop_n scheduler_pop (length as) s)) = as"
  using assms
proof (induction as arbitrary: s bs)
  case Nil
  then show ?case by simp
next
  case (Cons u as)
  have rr: "fs_round_robin s = u # (as @ bs)" using Cons.prems(2) by simp
  obtain d q s' where "tenant_queue s u = d # q" "delivery_tenant d = u" "scheduler_pop s = (Inr (Some d), s')"
      "scheduler_inv s'" "tenant_queue s' = (tenant_queue s)(u := q)" "fs_round_robin s' = (as @ bs) @ (if q = [] then [] else [u])"
    by (rule scheduler_pop_Some [OF Cons.prems(1) rr])
  with Cons.IH [of s' "bs @ (if q = [] then [] else [u])"] show ?case by (auto split: prod.splits)
qed

section \<open>Properties of the scheduler\<close>

lemma waiting_empty_scheduler [simp]: "waiting empty_scheduler = {#}"
  by (simp add: waiting_def empty_scheduler_def)

lemma tenant_queue_empty [simp]: "tenant_queue empty_scheduler t = []"
  by (simp add: tenant_queue_def empty_scheduler_def)

text \<open>
  A batch is served completely and in order. Popping as often as deliveries were added returns each of them exactly once
  and leaves the scheduler empty; the deliveries of one tenant come out in the order in which they came in.
\<close>

theorem batch_served_once_in_order:
  "mset (fst (pop_n scheduler_pop (length ds) (scheduler_add ds empty_scheduler))) = mset ds
   \<and> \<not> scheduler_bool (snd (pop_n scheduler_pop (length ds) (scheduler_add ds empty_scheduler)))
   \<and> filter (\<lambda>d. delivery_tenant d = t) (fst (pop_n scheduler_pop (length ds) (scheduler_add ds empty_scheduler)))
     = filter (\<lambda>d. delivery_tenant d = t) ds"
proof -
  let ?s = "scheduler_add ds empty_scheduler" and ?n = "length ds"
  have inv: "scheduler_inv ?s" by (rule scheduler_add_inv [OF scheduler_inv_empty])
  have w: "waiting ?s = mset ds" by (simp add: scheduler_add_waiting scheduler_inv_empty)
  then have n: "?n = size (waiting ?s)" by simp
  have all: "mset (fst (pop_n scheduler_pop ?n ?s)) = mset ds" "waiting (snd (pop_n scheduler_pop ?n ?s)) = {#}"
    using fair.pop_n_all [OF inv n] w by simp_all
  have inv': "scheduler_inv (snd (pop_n scheduler_pop ?n ?s))" using fair.pop_n_pending [OF inv, of ?n] n by simp
  have empty: "fs_round_robin (snd (pop_n scheduler_pop ?n ?s)) = []" using waiting_empty [OF inv'] all(2) by simp
  then have "tenant_queue (snd (pop_n scheduler_pop ?n ?s)) t = []" using scheduler_inv_in [OF inv', of t] by simp
  then show ?thesis
    using all(1) empty pop_n_fifo [OF inv, of t ?n] by (simp add: scheduler_bool_def scheduler_add_queue)
qed

text \<open>
  C27: tenants share the worker fairly. Whatever has been added, the next round of pops serves every tenant that has deliveries
  waiting exactly once, in the order of the round-robin, however many deliveries a single tenant has queued.
\<close>

theorem round_serves_every_tenant:
  assumes "scheduler_inv s"
  shows "map delivery_tenant (fst (pop_n scheduler_pop (length (fs_round_robin s)) s)) = fs_round_robin s
    \<and> distinct (fs_round_robin s) \<and> (\<forall>t. tenant_queue s t \<noteq> [] \<longrightarrow> t \<in> set (fs_round_robin s))"
  using pop_n_round [OF assms, of "fs_round_robin s" "[]"] scheduler_inv_in [OF assms] assms
  by (simp add: scheduler_inv_def)

definition sample_tenant_delivery :: "string \<Rightarrow> uuid \<Rightarrow> QueueDelivery" where
  "sample_tenant_delivery t i = \<lparr>dv_stream_entry_id = ''1-0'', dv_envelope =
     \<lparr>me_message_id = i, me_tenant_id = t, me_work_id = i, me_event_id = None, me_destination = ''aegis.work'',
      me_correlation_id = 6, me_causation_id = None, me_occurred_at = dt_of_instant 0,
      me_payload = [], me_headers = [], me_schema_version = 1\<rparr>, dv_delivery_count = 1, dv_idle_milliseconds = 0\<rparr>"

definition sample_batch :: "QueueDelivery list" where
  "sample_batch = [sample_tenant_delivery ''a'' 1, sample_tenant_delivery ''a'' 2, sample_tenant_delivery ''b'' 3]"

theorem round_serves_every_tenant_witness:
  "map delivery_tenant (fst (pop_n scheduler_pop 2 (scheduler_add sample_batch empty_scheduler))) = [''a'', ''b'']"
proof -
  have rr: "fs_round_robin (scheduler_add sample_batch empty_scheduler) = [''a'', ''b'']"
    by (simp add: scheduler_add_def sample_batch_def add_delivery_def delivery_tenant_def sample_tenant_delivery_def
        empty_scheduler_def Let_def)
  from round_serves_every_tenant [OF scheduler_add_inv [OF scheduler_inv_empty, of sample_batch]]
  show ?thesis by (simp add: rr numeral_2_eq_2)
qed

end
