(* ===== verification/Retry_Backoff.thy ===== *)
theory Retry_Backoff
  imports Aegis_Prelude Complex_Main
begin

text \<open>
  \<^verbatim>\<open>runtime/backoff.py\<close>: the delay before a failed attempt is retried. A \<^verbatim>\<open>timedelta\<close> is its number of
  microseconds; the seconds handed to the injected jitter are exact rationals (the rounding of
  binary floats is not modelled), and building a \<^verbatim>\<open>timedelta\<close> from them rounds to the nearest
  microsecond, ties to even.
\<close>

type_synonym timedelta = int

definition total_seconds :: "timedelta \<Rightarrow> rat" where
  "total_seconds d = of_int d / 1000000"

definition round_half_even :: "rat \<Rightarrow> int" where
  "round_half_even x =
     (let f = \<lfloor>x\<rfloor>; d = x - of_int f in
      if d < 1 / 2 then f else if 1 / 2 < d then f + 1 else if even f then f else f + 1)"

definition timedelta_seconds :: "rat \<Rightarrow> timedelta" where
  "timedelta_seconds s = round_half_even (s * 1000000)"

record ExponentialBackoff =
  eb_base :: timedelta
  eb_maximum :: timedelta
  eb_jitter :: "int \<Rightarrow> rat \<Rightarrow> rat"

definition default_backoff :: ExponentialBackoff where
  "default_backoff = \<lparr>eb_base = 1000000, eb_maximum = 300000000, eb_jitter = (\<lambda>_ seconds. seconds)\<rparr>"

definition init_ExponentialBackoff :: "ExponentialBackoff \<Rightarrow> ExponentialBackoff res" where
  "init_ExponentialBackoff b =
     res_bind (require (0 < eb_base b \<and> eb_base b \<le> eb_maximum b) (ValueError ''backoff bounds are invalid'')) (\<lambda>_.
     Inr b)"

definition backoff_delay :: "ExponentialBackoff \<Rightarrow> int \<Rightarrow> timedelta res" where
  "backoff_delay b attempt =
     res_bind (require (1 \<le> attempt) (ValueError ''attempt must be positive'')) (\<lambda>_.
     let unjittered = min (total_seconds (eb_maximum b)) (total_seconds (eb_base b) * 2 ^ nat (min (attempt - 1) 30));
         seconds = eb_jitter b attempt unjittered in
     res_bind (require (0 \<le> seconds \<and> seconds \<le> total_seconds (eb_maximum b))
       (ValueError ''jitter returned an out-of-bounds delay'')) (\<lambda>_.
     Inr (timedelta_seconds seconds)))"

section \<open>Rounding\<close>

lemma round_half_even_of_int [simp]: "round_half_even (of_int k) = k"
  by (simp add: round_half_even_def)

lemma round_half_even_le:
  assumes "x \<le> of_int k"
  shows "round_half_even x \<le> k"
proof (cases "x = of_int k")
  case False
  with assms have "x < of_int k" by simp
  then have "\<lfloor>x\<rfloor> < k" by (simp add: floor_less_iff)
  then show ?thesis by (simp add: round_half_even_def Let_def)
qed simp

lemma round_half_even_ge: "of_int k \<le> x \<Longrightarrow> k \<le> round_half_even x"
  unfolding round_half_even_def Let_def by (simp add: le_floor_iff [symmetric])

lemma timedelta_seconds_total [simp]: "timedelta_seconds (total_seconds d) = d"
  by (simp add: timedelta_seconds_def total_seconds_def)

lemma timedelta_seconds_bounds:
  assumes "0 \<le> s" and "s \<le> total_seconds m"
  shows "0 \<le> timedelta_seconds s \<and> timedelta_seconds s \<le> m"
proof -
  have "s * 1000000 \<le> of_int m" using assms(2) by (simp add: total_seconds_def field_simps)
  then show ?thesis
    using assms(1) round_half_even_ge [of 0 "s * 1000000"] round_half_even_le unfolding timedelta_seconds_def by auto
qed

section \<open>Delays are bounded\<close>

lemma total_seconds_min_power:
  "min (total_seconds m) (total_seconds b * 2 ^ n) = total_seconds (min m (b * 2 ^ n))"
proof -
  have "total_seconds b * 2 ^ n = total_seconds (b * 2 ^ n)" by (simp add: total_seconds_def)
  moreover have "total_seconds x \<le> total_seconds y \<longleftrightarrow> x \<le> y" for x y by (simp add: total_seconds_def divide_le_cancel)
  ultimately show ?thesis by (simp add: min_def)
qed

lemma backoff_delay_unjittered:
  assumes "init_ExponentialBackoff b = Inr b" and "1 \<le> attempt" and "eb_jitter b = (\<lambda>_ seconds. seconds)"
  shows "backoff_delay b attempt = Inr (min (eb_maximum b) (eb_base b * 2 ^ nat (min (attempt - 1) 30)))"
proof -
  let ?m = "min (eb_maximum b) (eb_base b * 2 ^ nat (min (attempt - 1) 30))"
  have "0 < eb_base b" "eb_base b \<le> eb_maximum b" using assms(1) by (auto simp: init_ExponentialBackoff_def res_bind_Inr_iff)
  then have "0 \<le> ?m" by simp
  then have "0 \<le> total_seconds ?m" and "total_seconds ?m \<le> total_seconds (eb_maximum b)"
    by (simp_all add: total_seconds_def divide_right_mono del: of_int_min)
  then show ?thesis using assms(2,3) by (simp add: backoff_delay_def Let_def total_seconds_min_power)
qed

text \<open>
  Retry delays are bounded. Whatever the injected jitter returns, a delay that is accepted lies between zero and the maximum,
  and an attempt number below one is refused; without jitter the delay always exists and is the base doubled
  per attempt (thirty times at most), capped at the maximum.
\<close>

theorem retry_delay_bounded:
  assumes "init_ExponentialBackoff b = Inr b"
  shows "(\<forall>d. backoff_delay b attempt = Inr d \<longrightarrow> 1 \<le> attempt \<and> 0 \<le> d \<and> d \<le> eb_maximum b)
    \<and> (1 \<le> attempt \<and> eb_jitter b = (\<lambda>_ seconds. seconds) \<longrightarrow>
        backoff_delay b attempt = Inr (min (eb_maximum b) (eb_base b * 2 ^ nat (min (attempt - 1) 30))))"
  using timedelta_seconds_bounds backoff_delay_unjittered [OF assms]
  by (auto simp: backoff_delay_def Let_def res_bind_Inr_iff)

theorem retry_delay_bounded_witness:
  "backoff_delay default_backoff 3 = Inr 4000000 \<and> backoff_delay default_backoff 40 = Inr 300000000"
proof -
  have ok: "init_ExponentialBackoff default_backoff = Inr default_backoff"
    by (simp add: init_ExponentialBackoff_def default_backoff_def)
  from retry_delay_bounded [OF ok, of 3] retry_delay_bounded [OF ok, of 40]
  show ?thesis by (simp add: default_backoff_def)
qed

end
