(* ===== verification/Async_Ops.thy ===== *)
theory Async_Ops
  imports Domain_Work
begin

text \<open>
  Operations of coroutines: besides the exceptions of \<open>py_error\<close> a coroutine may be left by the cancellation of its own task, by an
  expired timeout and by the errors a work handler reports (\<^verbatim>\<open>WorkerExecutionError\<close> of \<^verbatim>\<open>runtime/__init__.py\<close>).
\<close>

section \<open>Errors and operations\<close>

datatype worker_error =
    TimeoutError
  | WorkerExecutionError FailureClass string
  | CancelledError
  | Raised py_error

type_synonym ('s, 'a) wop = "'s \<Rightarrow> (worker_error + 'a) \<times> 's"

definition w_return :: "'a \<Rightarrow> ('s, 'a) wop" where
  "w_return a = (\<lambda>s. (Inr a, s))"

definition w_raise :: "worker_error \<Rightarrow> ('s, 'a) wop" where
  "w_raise e = (\<lambda>s. (Inl e, s))"

definition w_bind :: "('s, 'a) wop \<Rightarrow> ('a \<Rightarrow> ('s, 'b) wop) \<Rightarrow> ('s, 'b) wop" where
  "w_bind m k = (\<lambda>s. case m s of (Inl e, s1) \<Rightarrow> (Inl e, s1) | (Inr a, s1) \<Rightarrow> k a s1)"

definition w_try :: "('s, 'a) wop \<Rightarrow> (worker_error \<Rightarrow> ('s, 'a) wop) \<Rightarrow> ('s, 'a) wop" where
  "w_try m h = (\<lambda>s. case m s of (Inl e, s1) \<Rightarrow> h e s1 | (Inr a, s1) \<Rightarrow> (Inr a, s1))"

definition w_lift :: "'a res \<Rightarrow> ('s, 'a) wop" where
  "w_lift r = (case r of Inl e \<Rightarrow> w_raise (Raised e) | Inr a \<Rightarrow> w_return a)"

definition new_WorkerExecutionError :: "FailureClass \<Rightarrow> string \<Rightarrow> worker_error" where
  "new_WorkerExecutionError fc code =
     (if code = [] \<or> 128 < length code then Raised (ValueError ''bounded error_code is required'')
      else WorkerExecutionError fc code)"

text \<open>\<^verbatim>\<open>try: ... finally:\<close>: the cleanup runs however the body ends; an exception of the cleanup replaces the outcome.\<close>

definition w_finally :: "('s, 'a) wop \<Rightarrow> ('s, unit) wop \<Rightarrow> ('s, 'a) wop" where
  "w_finally m f = (\<lambda>s. case m s of (r, s1) \<Rightarrow> (case f s1 of (Inl e, s2) \<Rightarrow> (Inl e, s2) | (Inr _, s2) \<Rightarrow> (r, s2)))"

lemmas w_defs = w_return_def w_raise_def w_bind_def w_try_def w_lift_def

section \<open>Triples\<close>

text \<open>From a state with \<open>P\<close> an operation returns with \<open>Q\<close> of its result and state, or raises with \<open>E\<close> of the exception and state.\<close>

definition w_triple :: "('s \<Rightarrow> bool) \<Rightarrow> ('s, 'a) wop \<Rightarrow> ('a \<Rightarrow> 's \<Rightarrow> bool) \<Rightarrow> (worker_error \<Rightarrow> 's \<Rightarrow> bool) \<Rightarrow> bool" where
  "w_triple P m Q E \<longleftrightarrow> (\<forall>s. P s \<longrightarrow> (case m s of (Inr a, s1) \<Rightarrow> Q a s1 | (Inl e, s1) \<Rightarrow> E e s1))"

named_theorems triples \<open>triples of operations, applied as introduction rules\<close>

lemma triple_return [triples]: "(\<And>s. P s \<Longrightarrow> Q a s) \<Longrightarrow> w_triple P (w_return a) Q E"
  by (simp add: w_triple_def w_return_def)

lemma triple_raise [triples]: "(\<And>s. P s \<Longrightarrow> E e s) \<Longrightarrow> w_triple P (w_raise e) Q E"
  by (simp add: w_triple_def w_raise_def)

lemma triple_lift [triples]:
  "(\<And>a s. r = Inr a \<Longrightarrow> P s \<Longrightarrow> Q a s) \<Longrightarrow> (\<And>e s. r = Inl e \<Longrightarrow> P s \<Longrightarrow> E (Raised e) s) \<Longrightarrow> w_triple P (w_lift r) Q E"
  by (cases r) (simp_all add: w_triple_def w_lift_def w_return_def w_raise_def)

lemma tripleD:
  "w_triple P m Q E \<Longrightarrow> P s \<Longrightarrow> m s = (Inr a, s1) \<Longrightarrow> Q a s1"
  "w_triple P m Q E \<Longrightarrow> P s \<Longrightarrow> m s = (Inl e, s1) \<Longrightarrow> E e s1"
  by (force simp: w_triple_def)+

lemma tripleI:
  assumes "\<And>s a s1. P s \<Longrightarrow> m s = (Inr a, s1) \<Longrightarrow> Q a s1" and "\<And>s e s1. P s \<Longrightarrow> m s = (Inl e, s1) \<Longrightarrow> E e s1"
  shows "w_triple P m Q E"
  using assms by (simp add: w_triple_def split: prod.splits sum.splits)

lemma w_bindE:
  assumes "w_bind m k s = (x, s2)"
  obtains e where "m s = (Inl e, s2)" and "x = Inl e" | a s1 where "m s = (Inr a, s1)" and "k a s1 = (x, s2)"
  using assms by (auto simp: w_bind_def split: prod.splits sum.splits)

lemma w_tryE:
  assumes "w_try m h s = (x, s2)"
  obtains e s1 where "m s = (Inl e, s1)" and "h e s1 = (x, s2)" | a where "m s = (Inr a, s2)" and "x = Inr a"
  using assms by (auto simp: w_try_def split: prod.splits sum.splits)

lemma w_finallyE:
  assumes "w_finally m f s = (x, s2)"
  obtains s1 e where "m s = (x, s1)" and "f s1 = (Inr (), s2)" | r s1 e where "m s = (r, s1)" and "f s1 = (Inl e, s2)" and "x = Inl e"
  using assms by (auto simp: w_finally_def split: prod.splits sum.splits)

lemma triple_bind:
  assumes "w_triple P m R E" and "\<And>a. w_triple (R a) (k a) Q E"
  shows "w_triple P (w_bind m k) Q E"
  by (rule tripleI) (auto elim!: w_bindE dest: tripleD [OF assms(1)] tripleD [OF assms(2)])

lemma triple_try:
  assumes "w_triple P m Q F" and "\<And>e. w_triple (F e) (h e) Q E"
  shows "w_triple P (w_try m h) Q E"
  by (rule tripleI) (auto elim!: w_tryE dest: tripleD [OF assms(1)] tripleD [OF assms(2)])

lemma triple_finally:
  assumes "w_triple P m R F" and "\<And>a. w_triple (R a) f (\<lambda>_. Q a) E" and "\<And>e. w_triple (F e) f (\<lambda>_. E e) E"
  shows "w_triple P (w_finally m f) Q E"
proof (rule tripleI)
  fix s a s2
  assume "P s" and "w_finally m f s = (Inr a, s2)"
  then show "Q a s2" by (auto elim!: w_finallyE dest: tripleD [OF assms(1)] tripleD [OF assms(2)])
next
  fix s e s2
  assume P: "P s" and "w_finally m f s = (Inl e, s2)"
  then obtain s1 r where m: "m s = (r, s1)" and f: "(r = Inl e \<and> f s1 = (Inr (), s2)) \<or> f s1 = (Inl e, s2)"
    by (elim w_finallyE) auto
  show "E e s2"
  proof (cases r)
    case (Inl d)
    then have "F d s1" using P m tripleD(2) [OF assms(1)] by blast
    then show ?thesis using f Inl tripleD [OF assms(3)] by auto
  next
    case (Inr a)
    then have "R a s1" using P m tripleD(1) [OF assms(1)] by blast
    then show ?thesis using f Inr tripleD(2) [OF assms(2)] by auto
  qed
qed

lemma triple_if [triples]: "(b \<Longrightarrow> w_triple P m Q E) \<Longrightarrow> (\<not> b \<Longrightarrow> w_triple P n Q E) \<Longrightarrow> w_triple P (if b then m else n) Q E"
  by simp

lemma triple_weaken:
  assumes "w_triple P' m Q' E'" and "\<And>s. P s \<Longrightarrow> P' s" and "\<And>a s. Q' a s \<Longrightarrow> Q a s" and "\<And>e s. E' e s \<Longrightarrow> E e s"
  shows "w_triple P m Q E"
  by (rule tripleI) (use assms(2-4) in \<open>blast dest: tripleD [OF assms(1)]\<close>)+

lemma triple_false [simp]: "w_triple (\<lambda>_. False) m Q E"
  by (simp add: w_triple_def)

end
