(* ===== verification/Identity.thy ===== *)
theory Identity
  imports Domain_Events "HOL-Library.Char_ord" "HOL-Library.List_Lexorder"
begin

text \<open>
  Principals, roles and deny-by-default authorization: \<^verbatim>\<open>identity/models.py\<close> and
  \<^verbatim>\<open>identity/authorization.py\<close>. A tenant identifier is the string its wrapper class holds.
\<close>

section \<open>Identifiers\<close>

definition validate_identifier :: "string \<Rightarrow> string \<Rightarrow> unit res" where
  "validate_identifier v name =
     require (v \<noteq> [] \<and> v = py_strip v \<and> length v \<le> 128)
       (ValueError (name @ '' must be a non-empty normalized identifier''))"

type_synonym TenantId = string

definition new_TenantId :: "string \<Rightarrow> TenantId res" where
  "new_TenantId v = res_bind (validate_identifier v ''tenant_id'') (\<lambda>_. Inr v)"

definition PLATFORM_TENANT_ID :: TenantId where
  "PLATFORM_TENANT_ID = ''platform''"

datatype Identity_id = UserId string | ServiceIdentity string

definition new_UserId :: "string \<Rightarrow> Identity_id res" where
  "new_UserId v = res_bind (validate_identifier v ''user_id'') (\<lambda>_. Inr (UserId v))"

definition new_ServiceIdentity :: "string \<Rightarrow> Identity_id res" where
  "new_ServiceIdentity v = res_bind (validate_identifier v ''service_identity'') (\<lambda>_. Inr (ServiceIdentity v))"

fun identity_value :: "Identity_id \<Rightarrow> string" where
  "identity_value (UserId v) = v"
| "identity_value (ServiceIdentity v) = v"

section \<open>Roles and permissions\<close>

datatype PrincipalKind = KIND_USER | KIND_SERVICE

datatype Role = VIEWER | INVESTIGATOR | APPROVER | OPERATOR | TENANT_ADMIN | PLATFORM_ADMIN

fun Role_value :: "Role \<Rightarrow> string" where
  "Role_value VIEWER = ''viewer''"
| "Role_value INVESTIGATOR = ''investigator''"
| "Role_value APPROVER = ''approver''"
| "Role_value OPERATOR = ''operator''"
| "Role_value TENANT_ADMIN = ''tenant_admin''"
| "Role_value PLATFORM_ADMIN = ''platform_admin''"

datatype Permission =
    TENANT_READ | RESOURCE_READ | INVESTIGATION_CREATE | APPROVAL_DECIDE | OPERATION_PROPOSE | POLICY_READ
  | POLICY_MANAGE | QUOTA_MANAGE | AUDIT_READ | IDENTITY_MANAGE | ROLE_BINDING_MANAGE | SECRET_REFERENCE_MANAGE
  | PLATFORM_TENANT_CREATE | PLATFORM_AUDIT_READ | QUEUE_READ | WORK_CANCEL | DLQ_REQUEUE | WORK_RECONCILE
  | MODEL_READ | MODEL_DIAGNOSTIC

fun Permission_value :: "Permission \<Rightarrow> string" where
  "Permission_value TENANT_READ = ''tenant:read''"
| "Permission_value RESOURCE_READ = ''resource:read''"
| "Permission_value INVESTIGATION_CREATE = ''investigation:create''"
| "Permission_value APPROVAL_DECIDE = ''approval:decide''"
| "Permission_value OPERATION_PROPOSE = ''operation:propose''"
| "Permission_value POLICY_READ = ''policy:read''"
| "Permission_value POLICY_MANAGE = ''policy:manage''"
| "Permission_value QUOTA_MANAGE = ''quota:manage''"
| "Permission_value AUDIT_READ = ''audit:read''"
| "Permission_value IDENTITY_MANAGE = ''identity:manage''"
| "Permission_value ROLE_BINDING_MANAGE = ''role_binding:manage''"
| "Permission_value SECRET_REFERENCE_MANAGE = ''secret_reference:manage''"
| "Permission_value PLATFORM_TENANT_CREATE = ''platform:tenant:create''"
| "Permission_value PLATFORM_AUDIT_READ = ''platform:audit:read''"
| "Permission_value QUEUE_READ = ''queue:read''"
| "Permission_value WORK_CANCEL = ''work:cancel''"
| "Permission_value DLQ_REQUEUE = ''dlq:requeue''"
| "Permission_value WORK_RECONCILE = ''work:reconcile''"
| "Permission_value MODEL_READ = ''model:read''"
| "Permission_value MODEL_DIAGNOSTIC = ''model:diagnostic''"

fun ROLE_PERMISSIONS :: "Role \<Rightarrow> Permission list" where
  "ROLE_PERMISSIONS VIEWER = [TENANT_READ, RESOURCE_READ, POLICY_READ, MODEL_READ]"
| "ROLE_PERMISSIONS INVESTIGATOR =
     [TENANT_READ, RESOURCE_READ, POLICY_READ, INVESTIGATION_CREATE, MODEL_READ, MODEL_DIAGNOSTIC]"
| "ROLE_PERMISSIONS APPROVER = [TENANT_READ, RESOURCE_READ, POLICY_READ, APPROVAL_DECIDE, MODEL_READ]"
| "ROLE_PERMISSIONS OPERATOR =
     [TENANT_READ, RESOURCE_READ, POLICY_READ, OPERATION_PROPOSE, QUEUE_READ, WORK_CANCEL, MODEL_READ, MODEL_DIAGNOSTIC]"
| "ROLE_PERMISSIONS TENANT_ADMIN =
     [TENANT_READ, RESOURCE_READ, POLICY_READ, POLICY_MANAGE, QUOTA_MANAGE, AUDIT_READ, IDENTITY_MANAGE,
      ROLE_BINDING_MANAGE, SECRET_REFERENCE_MANAGE, QUEUE_READ, WORK_CANCEL, DLQ_REQUEUE, WORK_RECONCILE,
      MODEL_READ, MODEL_DIAGNOSTIC]"
| "ROLE_PERMISSIONS PLATFORM_ADMIN = [TENANT_READ, PLATFORM_TENANT_CREATE, PLATFORM_AUDIT_READ, WORK_RECONCILE]"

section \<open>Role bindings\<close>

record RoleBinding =
  rb_tenant_id :: TenantId
  rb_role :: Role
  rb_assigned_by :: Identity_id
  rb_assigned_at :: datetime
  rb_expires_at :: "datetime option"
  rb_revoked_at :: "datetime option"

definition init_RoleBinding :: "RoleBinding \<Rightarrow> RoleBinding res" where
  "init_RoleBinding b =
     res_bind (require_aware_datetime (rb_assigned_at b) ''assigned_at'') (\<lambda>_.
     res_bind (require (\<not> (rb_role b = PLATFORM_ADMIN \<and> rb_tenant_id b \<noteq> PLATFORM_TENANT_ID))
       (ValueError ''platform_admin bindings require the platform tenant'')) (\<lambda>_.
     res_bind (case rb_expires_at b of
         None \<Rightarrow> Inr ()
       | Some e \<Rightarrow>
           res_bind (require_aware_datetime e ''expires_at'') (\<lambda>_.
           res_bind (dt_le e (rb_assigned_at b)) (\<lambda>past.
           require (\<not> past) (ValueError ''expires_at must follow assigned_at'')))) (\<lambda>_.
     res_bind (case rb_revoked_at b of
         None \<Rightarrow> Inr ()
       | Some r \<Rightarrow> require_aware_datetime r ''revoked_at'') (\<lambda>_.
     Inr b))))"

text \<open>\<^verbatim>\<open>at < limit\<close> for an optional limit.\<close>

definition before_limit :: "datetime \<Rightarrow> datetime option \<Rightarrow> bool res" where
  "before_limit at limit = (case limit of
     None \<Rightarrow> Inr True
   | Some l \<Rightarrow> res_bind (dt_le l at) (\<lambda>past. Inr (\<not> past)))"

definition is_active :: "RoleBinding \<Rightarrow> datetime \<Rightarrow> bool res" where
  "is_active b at =
     res_bind (require_aware_datetime at ''authorization time'') (\<lambda>_.
     res_bind (dt_le (rb_assigned_at b) at) (\<lambda>begun.
     if \<not> begun then Inr False else
     res_bind (before_limit at (rb_expires_at b)) (\<lambda>unexpired.
     if \<not> unexpired then Inr False else before_limit at (rb_revoked_at b))))"

section \<open>Principals\<close>

record Principal =
  pr_subject :: string
  pr_issuer :: string
  pr_tenant_id :: TenantId
  pr_kind :: PrincipalKind
  pr_role_bindings :: "RoleBinding list"
  pr_user_id :: "string option"
  pr_service_identity :: "string option"

definition init_Principal :: "Principal \<Rightarrow> Principal res" where
  "init_Principal p =
     res_bind (validate_identifier (pr_subject p) ''subject'') (\<lambda>_.
     res_bind (require (pr_issuer p \<noteq> []) (ValueError ''issuer is required'')) (\<lambda>_.
     res_bind (require ((pr_user_id p \<noteq> None) \<noteq> (pr_service_identity p \<noteq> None))
       (ValueError ''principal must have exactly one internal identity'')) (\<lambda>_.
     res_bind (require (\<not> (pr_kind p = KIND_USER \<and> pr_user_id p = None))
       (ValueError ''user principal requires user_id'')) (\<lambda>_.
     res_bind (require (\<not> (pr_kind p = KIND_SERVICE \<and> pr_service_identity p = None))
       (ValueError ''service principal requires service_identity'')) (\<lambda>_.
     res_bind (require (\<forall>b \<in> set (pr_role_bindings p). rb_tenant_id b = pr_tenant_id p)
       (ValueError ''role bindings must match the principal tenant'')) (\<lambda>_.
     Inr p))))))"

definition principal_actor_id :: "Principal \<Rightarrow> string res" where
  "principal_actor_id p = (case pr_user_id p of
     Some u \<Rightarrow> Inr u
   | None \<Rightarrow> (case pr_service_identity p of
       Some s \<Rightarrow> Inr s
     | None \<Rightarrow> Inl (RuntimeError ''principal has no internal identity'')))"

section \<open>Authorization\<close>

text \<open>The permission asked for: a member of the enumeration or an unrecognized name.\<close>

datatype permission_request = Known Permission | Named string

fun permission_name :: "permission_request \<Rightarrow> string" where
  "permission_name (Known p) = Permission_value p"
| "permission_name (Named s) = s"

record AuthorizationDecision =
  ad_allowed :: bool
  ad_reason :: string
  ad_tenant_id :: TenantId
  ad_permission :: string
  ad_active_roles :: "Role list"

primrec active_roles_of :: "TenantId \<Rightarrow> datetime \<Rightarrow> RoleBinding list \<Rightarrow> Role list res" where
  "active_roles_of t at [] = Inr []"
| "active_roles_of t at (b # bs) =
     (if rb_tenant_id b = t then
        res_bind (is_active b at) (\<lambda>active.
        res_bind (active_roles_of t at bs) (\<lambda>rs. Inr (if active then rb_role b # rs else rs)))
      else active_roles_of t at bs)"

definition decide :: "Principal \<Rightarrow> TenantId \<Rightarrow> permission_request \<Rightarrow> datetime \<Rightarrow> AuthorizationDecision res" where
  "decide p t perm at =
     (if pr_tenant_id p \<noteq> t then
        Inr \<lparr>ad_allowed = False, ad_reason = ''cross_tenant_access_denied'', ad_tenant_id = t,
             ad_permission = permission_name perm, ad_active_roles = []\<rparr>
      else (case perm of
        Named s \<Rightarrow>
          Inr \<lparr>ad_allowed = False, ad_reason = ''unknown_permission'', ad_tenant_id = t,
               ad_permission = s, ad_active_roles = []\<rparr>
      | Known q \<Rightarrow>
          res_bind (active_roles_of t at (pr_role_bindings p)) (\<lambda>rs.
          let roles = sort_key Role_value (remdups rs);
              granted = (\<exists>r \<in> set roles. q \<in> set (ROLE_PERMISSIONS r)) in
          Inr \<lparr>ad_allowed = granted,
               ad_reason = (if granted then ''role_permission_granted'' else ''permission_not_granted''),
               ad_tenant_id = t, ad_permission = Permission_value q, ad_active_roles = roles\<rparr>)))"

section \<open>What authorization decides\<close>

text \<open>The reference: a binding is active from its assignment until it expires or is revoked.\<close>

definition active_at :: "RoleBinding \<Rightarrow> int \<Rightarrow> bool" where
  "active_at b i = (dt_instant (rb_assigned_at b) \<le> i
     \<and> (case rb_expires_at b of None \<Rightarrow> True | Some e \<Rightarrow> i < dt_instant e)
     \<and> (case rb_revoked_at b of None \<Rightarrow> True | Some r \<Rightarrow> i < dt_instant r))"

definition binding_ok :: "RoleBinding \<Rightarrow> bool" where
  "binding_ok b = (init_RoleBinding b = Inr b)"

definition principal_ok :: "Principal \<Rightarrow> bool" where
  "principal_ok p = (init_Principal p = Inr p \<and> (\<forall>b \<in> set (pr_role_bindings p). binding_ok b))"

lemma binding_ok_simps:
  assumes "binding_ok b"
  shows "dt_aware (rb_assigned_at b)" and "rb_expires_at b = Some e \<Longrightarrow> dt_aware e"
    and "rb_revoked_at b = Some r \<Longrightarrow> dt_aware r"
    and "rb_role b = PLATFORM_ADMIN \<Longrightarrow> rb_tenant_id b = PLATFORM_TENANT_ID"
  using assms by (auto simp: binding_ok_def init_RoleBinding_def require_aware_datetime_def res_bind_Inr_iff)

lemma before_limit_aware:
  assumes "dt_aware at" and "\<And>l. limit = Some l \<Longrightarrow> dt_aware l"
  shows "before_limit at limit = Inr (case limit of None \<Rightarrow> True | Some l \<Rightarrow> dt_instant at < dt_instant l)"
  using assms by (cases limit) (auto simp: before_limit_def dt_le_def)

lemma is_active_iff:
  assumes "binding_ok b" and "dt_aware at"
  shows "is_active b at = Inr (active_at b (dt_instant at))"
proof -
  note ok = binding_ok_simps [OF assms(1)]
  show ?thesis
    using assms(2) ok(1) before_limit_aware [OF assms(2), of "rb_expires_at b"] before_limit_aware [OF assms(2), of "rb_revoked_at b"]
      ok(2,3)
    by (auto simp: is_active_def require_aware_datetime_def require_def dt_le_def active_at_def)
qed

lemma active_roles_of_iff:
  assumes "\<forall>b \<in> set bs. binding_ok b" and "dt_aware at"
  shows "active_roles_of t at bs
    = Inr (map rb_role (filter (\<lambda>b. rb_tenant_id b = t \<and> active_at b (dt_instant at)) bs))"
  using assms by (induction bs) (auto simp: is_active_iff)

lemma principal_ok_simps:
  assumes "principal_ok p"
  shows "\<forall>b \<in> set (pr_role_bindings p). binding_ok b \<and> rb_tenant_id b = pr_tenant_id p"
  using assms by (auto simp: principal_ok_def init_Principal_def res_bind_Inr_iff)

lemma decide_allowed:
  assumes "principal_ok p" and "dt_aware at"
  shows "\<exists>d. decide p t perm at = Inr d \<and> ad_tenant_id d = t \<and> (ad_allowed d \<longleftrightarrow> pr_tenant_id p = t
    \<and> (\<exists>q. perm = Known q \<and> (\<exists>b \<in> set (pr_role_bindings p). active_at b (dt_instant at) \<and> q \<in> set (ROLE_PERMISSIONS (rb_role b)))))"
  using principal_ok_simps [OF assms(1)] assms(2)
  by (cases perm) (auto simp: decide_def active_roles_of_iff Let_def)

text \<open>
  C28: authorization is deny-by-default. For every valid principal and aware time the decision is made, and access is allowed exactly
  when the principal belongs to the tenant, the permission is a known one, and some role binding active at that time
  grants it.
\<close>

theorem authorization_deny_by_default:
  assumes "principal_ok p" and "dt_aware at"
  shows "\<exists>d. decide p t perm at = Inr d \<and> (ad_allowed d \<longleftrightarrow> pr_tenant_id p = t
    \<and> (\<exists>q. perm = Known q \<and> (\<exists>b \<in> set (pr_role_bindings p). active_at b (dt_instant at) \<and> q \<in> set (ROLE_PERMISSIONS (rb_role b)))))"
  using decide_allowed [OF assms, of t perm] by blast

definition sample_binding :: RoleBinding where
  "sample_binding = \<lparr>rb_tenant_id = ''acme'', rb_role = OPERATOR, rb_assigned_by = UserId ''root'',
     rb_assigned_at = dt_of_instant 10, rb_expires_at = Some (dt_of_instant 100), rb_revoked_at = None\<rparr>"

definition sample_principal :: Principal where
  "sample_principal = \<lparr>pr_subject = ''alice'', pr_issuer = ''idp'', pr_tenant_id = ''acme'', pr_kind = KIND_USER,
     pr_role_bindings = [sample_binding], pr_user_id = Some ''u1'', pr_service_identity = None\<rparr>"

lemma sample_principal_ok: "principal_ok sample_principal"
  by (simp add: principal_ok_def init_Principal_def sample_principal_def sample_binding_def binding_ok_def init_RoleBinding_def
      validate_identifier_def py_strip_def strip_by_def py_isspace_def require_def res_bind_def require_aware_datetime_def dt_le_def)

theorem authorization_deny_by_default_witness:
  "\<exists>d. decide sample_principal ''acme'' (Known WORK_CANCEL) (dt_of_instant 50) = Inr d \<and> ad_allowed d"
  using authorization_deny_by_default [OF sample_principal_ok, of "dt_of_instant 50" "''acme''" "Known WORK_CANCEL"]
  by (simp add: sample_principal_def sample_binding_def active_at_def)

text \<open>
  Platform powers stay with the platform tenant. No valid principal of another tenant is ever allowed to create
  tenants or to read the platform's audit trail.
\<close>

theorem platform_permissions_confined:
  assumes "principal_ok p" and "dt_aware at" and "q \<in> {PLATFORM_TENANT_CREATE, PLATFORM_AUDIT_READ}"
    and "decide p t (Known q) at = Inr d" and "ad_allowed d"
  shows "t = PLATFORM_TENANT_ID \<and> pr_tenant_id p = PLATFORM_TENANT_ID"
proof -
  obtain b where b: "b \<in> set (pr_role_bindings p)" "q \<in> set (ROLE_PERMISSIONS (rb_role b))" and t: "pr_tenant_id p = t"
    using decide_allowed [OF assms(1,2), of t "Known q"] assms(4,5) by auto
  then have "rb_role b = PLATFORM_ADMIN" using assms(3) by (cases "rb_role b") auto
  then show ?thesis using binding_ok_simps(4) [of b] principal_ok_simps [OF assms(1)] b(1) t by auto
qed

definition platform_principal :: Principal where
  "platform_principal = sample_principal\<lparr>pr_tenant_id := ''platform'', pr_role_bindings :=
     [sample_binding\<lparr>rb_tenant_id := ''platform'', rb_role := PLATFORM_ADMIN\<rparr>]\<rparr>"

lemma platform_principal_ok: "principal_ok platform_principal"
  by (simp add: principal_ok_def init_Principal_def sample_principal_def sample_binding_def binding_ok_def init_RoleBinding_def
      validate_identifier_def py_strip_def strip_by_def py_isspace_def require_def res_bind_def require_aware_datetime_def dt_le_def
      platform_principal_def PLATFORM_TENANT_ID_def)

theorem platform_permissions_confined_witness:
  "ad_allowed \<lparr>ad_allowed = True, ad_reason = ''role_permission_granted'', ad_tenant_id = ''platform'',
      ad_permission = ''platform:tenant:create'', ad_active_roles = [PLATFORM_ADMIN]\<rparr>
   \<and> pr_tenant_id platform_principal = PLATFORM_TENANT_ID"
proof -
  have "decide platform_principal ''platform'' (Known PLATFORM_TENANT_CREATE) (dt_of_instant 50) = Inr
      \<lparr>ad_allowed = True, ad_reason = ''role_permission_granted'', ad_tenant_id = ''platform'',
       ad_permission = ''platform:tenant:create'', ad_active_roles = [PLATFORM_ADMIN]\<rparr>"
    by (simp add: decide_def platform_principal_def sample_principal_def sample_binding_def is_active_def
        require_aware_datetime_def require_def dt_le_def before_limit_def Let_def)
  from platform_permissions_confined [OF platform_principal_ok _ _ this] show ?thesis by simp
qed

text \<open>
  Lost access does not come back. If a permission is denied at one time and every binding of the principal was
  assigned by then, it is denied at every later time: expiry and revocation are final.
\<close>

theorem lost_access_stays_lost:
  assumes "principal_ok p" and "dt_aware at1" and "dt_aware at2" and "dt_instant at1 \<le> dt_instant at2"
    and "\<forall>b \<in> set (pr_role_bindings p). dt_instant (rb_assigned_at b) \<le> dt_instant at1"
    and "decide p t perm at1 = Inr d1" and "\<not> ad_allowed d1" and "decide p t perm at2 = Inr d2"
  shows "\<not> ad_allowed d2"
proof
  assume "ad_allowed d2"
  then obtain q b where b: "perm = Known q" "pr_tenant_id p = t" "b \<in> set (pr_role_bindings p)"
    "active_at b (dt_instant at2)" "q \<in> set (ROLE_PERMISSIONS (rb_role b))"
    using decide_allowed [OF assms(1,3), of t perm] assms(8) by auto
  have "active_at b (dt_instant at1)" using b(3,4) assms(4,5) by (auto simp: active_at_def split: option.splits)
  with b have "ad_allowed d1" using decide_allowed [OF assms(1,2), of t perm] assms(6) by auto
  with assms(7) show False by simp
qed

theorem lost_access_stays_lost_witness:
  "\<exists>d. decide sample_principal ''acme'' (Known WORK_CANCEL) (dt_of_instant 300) = Inr d \<and> \<not> ad_allowed d"
proof -
  have d: "decide sample_principal ''acme'' (Known WORK_CANCEL) (dt_of_instant i) = Inr
      \<lparr>ad_allowed = False, ad_reason = ''permission_not_granted'', ad_tenant_id = ''acme'',
       ad_permission = ''work:cancel'', ad_active_roles = []\<rparr>" if "100 \<le> i" for i
    using that by (simp add: decide_def sample_principal_def sample_binding_def is_active_def
        require_aware_datetime_def require_def dt_le_def before_limit_def Let_def)
  from lost_access_stays_lost [OF sample_principal_ok _ _ _ _ d _ d, of 200 300]
  show ?thesis using d [of 300] by (simp add: sample_principal_def sample_binding_def)
qed

end
