(* ===== verification/Worker_Supervisor.thy ===== *)
theory Worker_Supervisor
  imports Fair_Scheduler Retry_Backoff Async_Ops Identity
begin

text \<open>
  \<^verbatim>\<open>WorkerSupervisor\<close> of \<^verbatim>\<open>runtime/__init__.py\<close>: how one delivery is processed and how a batch is run.
  The durable state is any implementation of the \<^verbatim>\<open>WorkerStateStore\<close> protocol; what the supervisor
  needs of it is the locale \<open>worker_store\<close>. The handler is code outside the repository: what it and the two
  timers do while the worker waits is an explicit list of events.
\<close>

section \<open>The worker's collaborators\<close>

record 's WorkerStateStore =
  ws_mark_published :: "TenantId \<Rightarrow> QueueDelivery \<Rightarrow> datetime \<Rightarrow> ('s, unit) op"
  ws_claim :: "TenantId \<Rightarrow> QueueDelivery \<Rightarrow> string \<Rightarrow> datetime \<Rightarrow> datetime \<Rightarrow> int \<Rightarrow> ('s, WorkLease option) op"
  ws_start :: "TenantId \<Rightarrow> QueueDelivery \<Rightarrow> WorkLease \<Rightarrow> datetime \<Rightarrow> ('s, unit) op"
  ws_heartbeat :: "TenantId \<Rightarrow> QueueDelivery \<Rightarrow> WorkLease \<Rightarrow> datetime \<Rightarrow> datetime \<Rightarrow> ('s, WorkLease) op"
  ws_cancellation_requested :: "TenantId \<Rightarrow> uuid \<Rightarrow> ('s, bool) op"
  ws_delivery_complete :: "TenantId \<Rightarrow> uuid \<Rightarrow> ('s, bool) op"
  ws_succeed :: "TenantId \<Rightarrow> QueueDelivery \<Rightarrow> WorkLease \<Rightarrow> datetime \<Rightarrow> string \<Rightarrow> ('s, unit) op"
  ws_cancel :: "TenantId \<Rightarrow> QueueDelivery \<Rightarrow> WorkLease \<Rightarrow> datetime \<Rightarrow> ('s, unit) op"
  ws_fail :: "TenantId \<Rightarrow> QueueDelivery \<Rightarrow> WorkLease \<Rightarrow> datetime \<Rightarrow> FailureClass \<Rightarrow> string \<Rightarrow> datetime option \<Rightarrow> ('s, bool) op"

datatype queue_action = Acknowledged QueueDelivery | Quarantined QueueDelivery string

record WorkResult =
  wr_result_reference :: string

definition init_WorkResult :: "WorkResult \<Rightarrow> WorkResult res" where
  "init_WorkResult r = res_bind (require (wr_result_reference r \<noteq> []) (ValueError ''result_reference is required'')) (\<lambda>_. Inr r)"

record WorkExecution =
  we_tenant :: TenantId
  we_delivery :: QueueDelivery
  we_lease :: WorkLease
  we_cancellation :: bool

definition execution_payload :: "WorkExecution \<Rightarrow> json_obj" where
  "execution_payload x = (case map_of (me_payload (dv_envelope (we_delivery x))) ''request_payload'' of
     Some (JObj kvs) \<Rightarrow> kvs | _ \<Rightarrow> [])"

text \<open>
  The world of a worker: the durable state, how often the clock was read, and the calls made to the
  transport so far. \<open>sv_transport\<close> tells which of those calls raise.
\<close>

record 's worker_world =
  ww_store :: 's
  ww_readings :: nat
  ww_log :: "queue_action list"

record 's WorkerSupervisor =
  sv_state :: "'s WorkerStateStore"
  sv_quota :: "TenantId \<Rightarrow> int res"
  sv_worker_id :: string
  sv_clock :: "nat \<Rightarrow> datetime"
  sv_max_concurrency :: int
  sv_lease_duration :: timedelta
  sv_heartbeat_interval :: timedelta
  sv_backoff :: ExponentialBackoff
  sv_transport :: "queue_action \<Rightarrow> unit res"

definition init_WorkerSupervisor :: "'s WorkerSupervisor \<Rightarrow> 's WorkerSupervisor res" where
  "init_WorkerSupervisor sv =
     res_bind (require (sv_worker_id sv \<noteq> []) (ValueError ''worker_id is required'')) (\<lambda>_.
     res_bind (require (1 \<le> sv_max_concurrency sv \<and> sv_max_concurrency sv \<le> 1000)
       (ValueError ''max_concurrency must be between 1 and 1000'')) (\<lambda>_.
     res_bind (require (0 < sv_heartbeat_interval sv \<and> sv_heartbeat_interval sv < sv_lease_duration sv)
       (ValueError ''lease must exceed a positive heartbeat interval'')) (\<lambda>_.
     Inr sv)))"

definition on_store :: "('s, 'a) op \<Rightarrow> ('s worker_world, 'a) wop" where
  "on_store m = (\<lambda>w. case m (ww_store w) of
     (Inl e, s) \<Rightarrow> (Inl (Raised e), w\<lparr>ww_store := s\<rparr>)
   | (Inr a, s) \<Rightarrow> (Inr a, w\<lparr>ww_store := s\<rparr>))"

definition read_clock :: "'s WorkerSupervisor \<Rightarrow> ('s worker_world, datetime) wop" where
  "read_clock sv = (\<lambda>w. (Inr (sv_clock sv (ww_readings w)), w\<lparr>ww_readings := ww_readings w + 1\<rparr>))"

definition transport_call :: "'s WorkerSupervisor \<Rightarrow> queue_action \<Rightarrow> ('s worker_world, unit) wop" where
  "transport_call sv a = (\<lambda>w. w_lift (sv_transport sv a) (w\<lparr>ww_log := ww_log w @ [a]\<rparr>))"

abbreviation acknowledge :: "'s WorkerSupervisor \<Rightarrow> QueueDelivery \<Rightarrow> ('s worker_world, unit) wop" where
  "acknowledge sv d \<equiv> transport_call sv (Acknowledged d)"

section \<open>Executing the handler\<close>

definition timeout_seconds :: "QueueDelivery \<Rightarrow> ('s, int) wop" where
  "timeout_seconds d =
     (case map_of (me_payload (dv_envelope d)) ''timeout_seconds'' of
        None \<Rightarrow> w_return 300
      | Some (JInt n) \<Rightarrow>
          if 1 \<le> n \<and> n \<le> 86400 then w_return n else w_raise (WorkerExecutionError FC_PERMANENT ''invalid_task_timeout'')
      | Some _ \<Rightarrow> w_raise (WorkerExecutionError FC_PERMANENT ''invalid_task_timeout''))"

text \<open>
  What happens while the worker waits for the handler, in order: the heartbeat timer fires, the handler ends
  (with a result or an exception), the heartbeat task ends by itself, or the worker's own task is
  cancelled. When the list is exhausted the task's timeout has expired.
\<close>

datatype wait_event =
    HeartbeatDue
  | HandlerFinished "worker_error + WorkResult"
  | HeartbeatStopped
  | WorkerCancelled

definition heartbeat_once ::
  "'s WorkerSupervisor \<Rightarrow> TenantId \<Rightarrow> QueueDelivery \<Rightarrow> WorkLease \<Rightarrow> WorkLease \<Rightarrow> ('s worker_world, WorkLease) wop" where
  "heartbeat_once sv tenant d l current =
     w_bind (read_clock sv) (\<lambda>time.
     w_bind (on_store (ws_cancellation_requested (sv_state sv) tenant (ls_work_id l))) (\<lambda>_.
     w_try
       (w_bind (w_lift (dt_plus time (sv_lease_duration sv))) (\<lambda>expires_at.
        on_store (ws_heartbeat (sv_state sv) tenant d current time expires_at)))
       (\<lambda>_. w_raise (WorkerExecutionError FC_RETRYABLE ''heartbeat_failed''))))"

fun await_handler ::
  "'s WorkerSupervisor \<Rightarrow> TenantId \<Rightarrow> QueueDelivery \<Rightarrow> WorkLease \<Rightarrow> WorkLease \<Rightarrow> wait_event list
     \<Rightarrow> ('s worker_world, WorkResult) wop" where
  "await_handler sv tenant d l current [] = w_raise TimeoutError"
| "await_handler sv tenant d l current (HeartbeatDue # es) =
     w_bind (heartbeat_once sv tenant d l current) (\<lambda>renewed. await_handler sv tenant d l renewed es)"
| "await_handler sv tenant d l current (HandlerFinished r # es) =
     (case r of Inl e \<Rightarrow> w_raise e | Inr a \<Rightarrow> w_return a)"
| "await_handler sv tenant d l current (HeartbeatStopped # es) =
     w_raise (WorkerExecutionError FC_RETRYABLE ''heartbeat_stopped'')"
| "await_handler sv tenant d l current (WorkerCancelled # es) = w_raise CancelledError"

definition execute_handler ::
  "'s WorkerSupervisor \<Rightarrow> TenantId \<Rightarrow> QueueDelivery \<Rightarrow> WorkLease \<Rightarrow> wait_event list \<Rightarrow> ('s worker_world, WorkResult) wop" where
  "execute_handler sv tenant d l es =
     w_bind (timeout_seconds d) (\<lambda>_. await_handler sv tenant d l l es)"

section \<open>Processing a delivery\<close>

definition record_failure ::
  "'s WorkerSupervisor \<Rightarrow> TenantId \<Rightarrow> QueueDelivery \<Rightarrow> WorkLease \<Rightarrow> FailureClass \<Rightarrow> string \<Rightarrow> ('s worker_world, bool) wop" where
  "record_failure sv tenant d l fc code =
     w_bind (if fc \<in> set [FC_RETRYABLE, FC_TIMEOUT] then
         w_bind (read_clock sv) (\<lambda>now.
         w_bind (w_lift (backoff_delay (sv_backoff sv) (ls_attempt l))) (\<lambda>delta.
         w_bind (w_lift (dt_plus now delta)) (\<lambda>ra. w_return (Some ra))))
       else w_return None) (\<lambda>retry_at.
     w_bind (read_clock sv) (\<lambda>time.
     w_try
       (w_bind (on_store (ws_fail (sv_state sv) tenant d l time fc code retry_at)) (\<lambda>_. w_return True))
       (\<lambda>e. case e of Raised x \<Rightarrow> if is_fencing_error x then w_return False else w_raise e | _ \<Rightarrow> w_raise e)))"

definition record_cancel ::
  "'s WorkerSupervisor \<Rightarrow> TenantId \<Rightarrow> QueueDelivery \<Rightarrow> WorkLease \<Rightarrow> ('s worker_world, bool) wop" where
  "record_cancel sv tenant d l =
     w_bind (read_clock sv) (\<lambda>time.
     w_bind (on_store (ws_cancel (sv_state sv) tenant d l time)) (\<lambda>_. w_return True))"

definition run_attempt ::
  "'s WorkerSupervisor \<Rightarrow> TenantId \<Rightarrow> QueueDelivery \<Rightarrow> WorkLease \<Rightarrow> wait_event list \<Rightarrow> ('s worker_world, bool) wop" where
  "run_attempt sv tenant d l es =
     w_bind (read_clock sv) (\<lambda>at0.
     w_bind (on_store (ws_start (sv_state sv) tenant d l at0)) (\<lambda>_.
     w_bind (execute_handler sv tenant d l es) (\<lambda>result.
     w_bind (on_store (ws_cancellation_requested (sv_state sv) tenant (ls_work_id l))) (\<lambda>requested.
     if requested then record_cancel sv tenant d l
     else
       w_bind (read_clock sv) (\<lambda>time.
       w_bind (on_store (ws_succeed (sv_state sv) tenant d l time (wr_result_reference result))) (\<lambda>_.
       w_bind (read_clock sv) (\<lambda>_. w_return True)))))))"

text \<open>The \<^verbatim>\<open>except\<close> clauses around an attempt; the result tells whether the delivery is acknowledged.\<close>

definition contain_failure ::
  "'s WorkerSupervisor \<Rightarrow> TenantId \<Rightarrow> QueueDelivery \<Rightarrow> WorkLease \<Rightarrow> worker_error \<Rightarrow> ('s worker_world, bool) wop" where
  "contain_failure sv tenant d l e = (case e of
     TimeoutError \<Rightarrow> record_failure sv tenant d l FC_TIMEOUT ''task_timeout''
   | WorkerExecutionError fc code \<Rightarrow>
       if fc = FC_CANCELLED then
         w_bind (on_store (ws_cancellation_requested (sv_state sv) tenant (ls_work_id l))) (\<lambda>requested.
         if \<not> requested then w_return False else record_cancel sv tenant d l)
       else record_failure sv tenant d l fc code
   | CancelledError \<Rightarrow> w_raise CancelledError
   | Raised x \<Rightarrow>
       if is_fencing_error x then
         w_bind (on_store (ws_cancellation_requested (sv_state sv) tenant (ls_work_id l))) (\<lambda>requested.
         if \<not> requested then w_return False
         else w_try (record_cancel sv tenant d l) (\<lambda>e2. case e2 of
                Raised y \<Rightarrow> if is_fencing_error y then w_return False else w_raise e2
              | _ \<Rightarrow> w_raise e2))
       else record_failure sv tenant d l FC_WORKER_BUG ''unhandled_worker_exception'')"

definition claim_delivery ::
  "'s WorkerSupervisor \<Rightarrow> TenantId \<Rightarrow> QueueDelivery \<Rightarrow> datetime \<Rightarrow> ('s worker_world, WorkLease option) wop" where
  "claim_delivery sv tenant d started_at =
     w_bind (on_store (ws_mark_published (sv_state sv) tenant d started_at)) (\<lambda>_.
     w_bind (w_lift (sv_quota sv tenant)) (\<lambda>quota.
     w_bind (w_lift (dt_plus started_at (sv_lease_duration sv))) (\<lambda>expires_at.
     on_store (ws_claim (sv_state sv) tenant d (sv_worker_id sv) started_at expires_at quota))))"

definition acknowledge_if_complete :: "'s WorkerSupervisor \<Rightarrow> TenantId \<Rightarrow> QueueDelivery \<Rightarrow> ('s worker_world, unit) wop" where
  "acknowledge_if_complete sv tenant d =
     w_bind (on_store (ws_delivery_complete (sv_state sv) tenant (me_work_id (dv_envelope d)))) (\<lambda>complete.
     if complete then acknowledge sv d else w_return ())"

definition process_claimed ::
  "'s WorkerSupervisor \<Rightarrow> TenantId \<Rightarrow> QueueDelivery \<Rightarrow> WorkLease \<Rightarrow> wait_event list \<Rightarrow> ('s worker_world, unit) wop" where
  "process_claimed sv tenant d l es =
     w_bind (w_try (run_attempt sv tenant d l es) (contain_failure sv tenant d l)) (\<lambda>proceed.
     if proceed then acknowledge sv d else w_return ())"

definition process_open ::
  "'s WorkerSupervisor \<Rightarrow> wait_event list \<Rightarrow> TenantId \<Rightarrow> QueueDelivery \<Rightarrow> datetime \<Rightarrow> ('s worker_world, unit) wop" where
  "process_open sv es tenant d started_at w =
     (case claim_delivery sv tenant d started_at w of
        (Inl (Raised e), w1) \<Rightarrow>
          if is_value_error e then transport_call sv (Quarantined d ''authoritative_delivery_rejected'') w1
          else if is_concurrency_error e then acknowledge_if_complete sv tenant d w1
          else (Inl (Raised e), w1)
      | (Inl e, w1) \<Rightarrow> (Inl e, w1)
      | (Inr None, w1) \<Rightarrow> acknowledge_if_complete sv tenant d w1
      | (Inr (Some l), w1) \<Rightarrow> process_claimed sv tenant d l es w1)"

definition process_delivery ::
  "'s WorkerSupervisor \<Rightarrow> wait_event list \<Rightarrow> QueueDelivery \<Rightarrow> ('s worker_world, unit) wop" where
  "process_delivery sv es d =
     (case new_TenantId (me_tenant_id (dv_envelope d)) of
        Inl _ \<Rightarrow> transport_call sv (Quarantined d ''invalid_tenant_envelope'')
      | Inr tenant \<Rightarrow>
          w_bind (read_clock sv) (\<lambda>started_at.
          w_bind (on_store (ws_delivery_complete (sv_state sv) tenant (me_work_id (dv_envelope d)))) (\<lambda>finished.
          if finished then acknowledge sv d else process_open sv es tenant d started_at)))"

section \<open>What keeps the transport log and what records an outcome\<close>

definition quiet :: "('s worker_world, 'a) wop \<Rightarrow> bool" where
  "quiet m = (\<forall>w. ww_log (snd (m w)) = ww_log w)"

definition settling :: "('s \<Rightarrow> bool) \<Rightarrow> ('s worker_world, bool) wop \<Rightarrow> bool" where
  "settling P m = (\<forall>w w'. m w = (Inr True, w') \<longrightarrow> P (ww_store w'))"

lemma quiet_basic [intro, simp]:
  "quiet (w_return a)" "quiet (w_raise e)" "quiet (w_lift r)" "quiet (on_store m)" "quiet (read_clock sv)"
  by (auto simp: quiet_def w_defs on_store_def read_clock_def split: sum.splits prod.splits)

lemma quiet_bind [intro]: "quiet m \<Longrightarrow> (\<And>a. quiet (k a)) \<Longrightarrow> quiet (w_bind m k)"
  unfolding quiet_def w_bind_def by (auto split: sum.splits prod.splits) (metis snd_conv)+

lemma quiet_try [intro]: "quiet m \<Longrightarrow> (\<And>e. quiet (h e)) \<Longrightarrow> quiet (w_try m h)"
  unfolding quiet_def w_try_def by (auto split: sum.splits prod.splits) (metis snd_conv)+

lemma quiet_if: "quiet m \<Longrightarrow> quiet n \<Longrightarrow> quiet (if b then m else n)"
  by simp

lemma quiet_error_case:
  "quiet m \<Longrightarrow> (\<And>fc code. quiet (n fc code)) \<Longrightarrow> quiet k \<Longrightarrow> (\<And>x. quiet (h x)) \<Longrightarrow>
     quiet (case e of TimeoutError \<Rightarrow> m | WorkerExecutionError fc code \<Rightarrow> n fc code | CancelledError \<Rightarrow> k | Raised x \<Rightarrow> h x)"
  by (cases e) simp_all

lemmas quiet_intros = quiet_bind quiet_try quiet_basic quiet_if quiet_error_case

lemma settling_bind [intro]: "(\<And>a. settling P (k a)) \<Longrightarrow> settling P (w_bind m k)"
  by (auto simp: settling_def w_bind_def split: sum.splits prod.splits)

lemma settling_try [intro]: "settling P m \<Longrightarrow> (\<And>e. settling P (h e)) \<Longrightarrow> settling P (w_try m h)"
  by (auto simp: settling_def w_try_def split: sum.splits prod.splits)

lemma settling_False [intro, simp]: "settling P (w_return False)" "settling P (w_raise e)"
  by (auto simp: settling_def w_defs)

lemma settling_store:
  assumes "\<And>s a s'. m s = (Inr a, s') \<Longrightarrow> P s'"
  shows "settling P (w_bind (on_store m) (\<lambda>_. w_return True))"
    and "settling P (w_bind (on_store m) (\<lambda>_. w_bind (read_clock sv) (\<lambda>_. w_return True)))"
  using assms by (auto simp: settling_def w_defs on_store_def read_clock_def split: sum.splits prod.splits)

lemma settling_if: "settling P m \<Longrightarrow> settling P n \<Longrightarrow> settling P (if b then m else n)"
  by simp

lemma settling_error_case:
  "settling P m \<Longrightarrow> (\<And>fc code. settling P (n fc code)) \<Longrightarrow> settling P k \<Longrightarrow> (\<And>x. settling P (h x)) \<Longrightarrow>
     settling P (case e of TimeoutError \<Rightarrow> m | WorkerExecutionError fc code \<Rightarrow> n fc code | CancelledError \<Rightarrow> k | Raised x \<Rightarrow> h x)"
  by (cases e) simp_all

lemmas settling_intros = settling_store settling_bind settling_try settling_False settling_if settling_error_case

lemma quiet_heartbeat: "quiet (heartbeat_once sv tenant d l current)"
  unfolding heartbeat_once_def by (intro quiet_bind quiet_try quiet_basic)

lemma quiet_await: "quiet (await_handler sv tenant d l current es)"
  by (induction sv tenant d l current es rule: await_handler.induct)
    (auto simp: quiet_heartbeat split: sum.splits)

lemma quiet_execute: "quiet (execute_handler sv tenant d l es)"
  unfolding execute_handler_def timeout_seconds_def
  by (auto simp: quiet_await split: option.splits json.splits)

lemma quiet_record_failure: "quiet (record_failure sv tenant d l fc code)"
  unfolding record_failure_def by (intro quiet_intros)

lemma quiet_record_cancel: "quiet (record_cancel sv tenant d l)"
  unfolding record_cancel_def by (intro quiet_intros)

lemma quiet_attempt: "quiet (run_attempt sv tenant d l es)"
  unfolding run_attempt_def by (intro quiet_intros quiet_execute quiet_record_cancel)

lemma quiet_contain: "quiet (contain_failure sv tenant d l e)"
  unfolding contain_failure_def by (intro quiet_intros quiet_record_failure quiet_record_cancel)

lemma quiet_claim: "quiet (claim_delivery sv tenant d started_at)"
  unfolding claim_delivery_def by (intro quiet_intros)

section \<open>What the supervisor needs of the durable state\<close>

locale worker_store =
  fixes st :: "'s WorkerStateStore" and settled :: "TenantId \<Rightarrow> uuid \<Rightarrow> 's \<Rightarrow> bool"
  assumes complete_settled: "ws_delivery_complete st t i s = (Inr True, s') \<Longrightarrow> settled t i s'"
    and claim_names: "ws_claim st t d ow now ex q s = (Inr (Some l), s')
      \<Longrightarrow> ls_tenant_id l = t \<and> ls_work_id l = me_work_id (dv_envelope d)"
    and succeed_settled: "ls_tenant_id l = t \<Longrightarrow> ls_work_id l = me_work_id (dv_envelope d)
      \<Longrightarrow> ws_succeed st t d l time ref s = (Inr u, s') \<Longrightarrow> settled t (ls_work_id l) s'"
    and cancel_settled: "ls_tenant_id l = t \<Longrightarrow> ls_work_id l = me_work_id (dv_envelope d)
      \<Longrightarrow> ws_cancel st t d l time s = (Inr u, s') \<Longrightarrow> settled t (ls_work_id l) s'"
    and fail_settled: "ls_tenant_id l = t \<Longrightarrow> ls_work_id l = me_work_id (dv_envelope d)
      \<Longrightarrow> ws_fail st t d l time fc code ra s = (Inr terminal, s') \<Longrightarrow> settled t (ls_work_id l) s'"
begin

definition held_for :: "WorkLease \<Rightarrow> TenantId \<Rightarrow> QueueDelivery \<Rightarrow> bool" where
  "held_for l t d = (ls_tenant_id l = t \<and> ls_work_id l = me_work_id (dv_envelope d))"

lemma settling_outcomes:
  assumes "sv_state sv = st" and "held_for l t d"
  shows "settling (settled t (ls_work_id l)) (record_failure sv t d l fc code)"
    and "settling (settled t (ls_work_id l)) (record_cancel sv t d l)"
    and "settling (settled t (ls_work_id l)) (run_attempt sv t d l es)"
proof -
  note held = assms(2) [unfolded held_for_def, THEN conjunct1] assms(2) [unfolded held_for_def, THEN conjunct2]
  show "settling (settled t (ls_work_id l)) (record_failure sv t d l fc code)"
    unfolding record_failure_def assms(1) by (intro settling_intros fail_settled [OF held])
  show c: "settling (settled t (ls_work_id l)) (record_cancel sv t d l)"
    unfolding record_cancel_def assms(1) by (intro settling_intros cancel_settled [OF held])
  show "settling (settled t (ls_work_id l)) (run_attempt sv t d l es)"
    unfolding run_attempt_def assms(1) by (intro settling_intros c succeed_settled [OF held])
qed

lemma settling_contain:
  assumes "sv_state sv = st" and "held_for l t d"
  shows "settling (settled t (ls_work_id l)) (contain_failure sv t d l e)"
  unfolding contain_failure_def by (intro settling_intros settling_outcomes [OF assms])

lemma process_claimed_settled:
  assumes "sv_state sv = st" and "held_for l t d" and "process_claimed sv t d l es w = (x, w')"
  shows "ww_log w' = ww_log w \<or> ww_log w' = ww_log w @ [Acknowledged d] \<and> settled t (me_work_id (dv_envelope d)) (ww_store w')"
proof -
  let ?m = "w_try (run_attempt sv t d l es) (contain_failure sv t d l)"
  have q: "quiet ?m" by (intro quiet_try quiet_attempt quiet_contain)
  have s: "settling (settled t (ls_work_id l)) ?m"
    by (intro settling_try settling_outcomes(3) [OF assms(1,2)] settling_contain [OF assms(1,2)])
  have "ww_log (snd (?m w)) = ww_log w" using q by (simp add: quiet_def)
  moreover have "\<And>w1. ?m w = (Inr True, w1) \<Longrightarrow> settled t (ls_work_id l) (ww_store w1)" using s by (simp add: settling_def)
  ultimately show ?thesis
    using assms(2,3)
    by (cases "?m w") (auto simp: process_claimed_def w_bind_def w_return_def w_raise_def w_lift_def transport_call_def
        held_for_def split: sum.splits if_splits bool.splits)
qed

lemma acknowledge_if_complete_settled:
  assumes "sv_state sv = st" and "acknowledge_if_complete sv t d w = (x, w')"
  shows "ww_log w' = ww_log w \<or> ww_log w' = ww_log w @ [Acknowledged d] \<and> settled t (me_work_id (dv_envelope d)) (ww_store w')"
  using assms complete_settled
  by (auto simp: acknowledge_if_complete_def w_defs on_store_def transport_call_def split: sum.splits prod.splits if_splits)

lemma claim_delivery_held:
  assumes "sv_state sv = st" and "claim_delivery sv t d started_at w = (Inr (Some l), w')"
  shows "held_for l t d"
  using assms claim_names unfolding held_for_def
  by (auto simp: claim_delivery_def w_defs on_store_def split: sum.splits prod.splits)

lemma transport_call_log: "transport_call sv a w = (x, w') \<Longrightarrow> ww_log w' = ww_log w @ [a] \<and> ww_store w' = ww_store w"
  by (auto simp: transport_call_def w_defs split: sum.splits)

definition acted :: "QueueDelivery \<Rightarrow> TenantId \<Rightarrow> 's worker_world \<Rightarrow> 's worker_world \<Rightarrow> bool" where
  "acted d t w w' = (ww_log w' = ww_log w \<or> (\<exists>why. ww_log w' = ww_log w @ [Quarantined d why])
    \<or> ww_log w' = ww_log w @ [Acknowledged d] \<and> settled t (me_work_id (dv_envelope d)) (ww_store w'))"

lemma process_open_settled:
  assumes "sv_state sv = st" and "process_open sv es t d started_at w = (x, w')"
  shows "acted d t w w'"
proof -
  obtain c w1 where cl: "claim_delivery sv t d started_at w = (c, w1)" by fastforce
  have log: "ww_log w1 = ww_log w" using quiet_claim [of sv t d started_at] cl unfolding quiet_def by (metis snd_conv)
  show ?thesis
  proof (cases c)
    case (Inl e)
    then show ?thesis
      using assms(2) cl log acknowledge_if_complete_settled [OF assms(1), of t d w1 x w']
        transport_call_log [of sv "Quarantined d ''authoritative_delivery_rejected''" w1 x w']
      by (cases e) (auto simp: process_open_def acted_def split: if_splits)
  next
    case (Inr lo)
    show ?thesis
    proof (cases lo)
      case None
      then show ?thesis
        using Inr assms(2) cl log acknowledge_if_complete_settled [OF assms(1), of t d w1 x w']
        by (auto simp: process_open_def acted_def)
    next
      case (Some l)
      then have "held_for l t d" using Inr cl claim_delivery_held [OF assms(1)] by blast
      then show ?thesis
        using Some Inr assms(2) cl log process_claimed_settled [OF assms(1), of l t d es w1 x w']
        by (auto simp: process_open_def acted_def)
    qed
  qed
qed

lemma process_delivery_settled:
  assumes "sv_state sv = st" and "process_delivery sv es d w = (x, w')"
  shows "acted d (me_tenant_id (dv_envelope d)) w w'"
proof (cases "new_TenantId (me_tenant_id (dv_envelope d))")
  case (Inl e)
  with assms(2) have "transport_call sv (Quarantined d ''invalid_tenant_envelope'') w = (x, w')" by (simp add: process_delivery_def)
  then show ?thesis by (simp add: acted_def transport_call_log)
next
  case (Inr t)
  then have t: "t = me_tenant_id (dv_envelope d)" by (auto simp: new_TenantId_def res_bind_Inr_iff)
  let ?i = "me_work_id (dv_envelope d)"
  obtain a s1 where dc: "ws_delivery_complete st t ?i (ww_store w) = (a, s1)" by fastforce
  let ?w1 = "w\<lparr>ww_readings := ww_readings w + 1, ww_store := s1\<rparr>"
  have red: "process_delivery sv es d w = (case a of
      Inl e \<Rightarrow> (Inl (Raised e), ?w1)
    | Inr b \<Rightarrow> if b then acknowledge sv d ?w1 else process_open sv es t d (sv_clock sv (ww_readings w)) ?w1)"
    using Inr dc assms(1) by (auto simp: process_delivery_def w_bind_def read_clock_def on_store_def split: sum.splits)
  have keep: "acted d t ?w1 w' \<Longrightarrow> acted d t w w'" by (simp add: acted_def)
  show ?thesis
  proof (cases "a = Inr False")
    case True
    then have "process_open sv es t d (sv_clock sv (ww_readings w)) ?w1 = (x, w')" using red assms(2) by simp
    then show ?thesis unfolding t [symmetric] by (intro keep process_open_settled [OF assms(1)])
  next
    case False
    then show ?thesis
      using red assms(2) t complete_settled dc transport_call_log [of sv "Acknowledged d" ?w1 x w']
      by (auto simp: acted_def split: sum.splits)
  qed
qed

end

section \<open>Which exceptions leave the supervisor\<close>

definition escapes :: "worker_error set \<Rightarrow> ('s, 'a) wop \<Rightarrow> bool" where
  "escapes E m = (\<forall>w e w'. m w = (Inl e, w') \<longrightarrow> e \<in> E)"

definition op_raises :: "py_error set \<Rightarrow> ('s, 'a) op \<Rightarrow> bool" where
  "op_raises X m = (\<forall>s e s'. m s = (Inl e, s') \<longrightarrow> e \<in> X)"

text \<open>The supervisor's collaborators raise only errors of \<open>X\<close>.\<close>

definition collaborators_raise :: "py_error set \<Rightarrow> 's WorkerSupervisor \<Rightarrow> bool" where
  "collaborators_raise X sv =
     (let st = sv_state sv in
      (\<forall>t d tm. op_raises X (ws_mark_published st t d tm))
      \<and> (\<forall>t d ow now ex q. op_raises X (ws_claim st t d ow now ex q))
      \<and> (\<forall>t i. op_raises X (ws_cancellation_requested st t i)) \<and> (\<forall>t i. op_raises X (ws_delivery_complete st t i))
      \<and> (\<forall>t d l tm. op_raises X (ws_cancel st t d l tm))
      \<and> (\<forall>t d l tm fc code ra. op_raises X (ws_fail st t d l tm fc code ra))
      \<and> (\<forall>t e. sv_quota sv t = Inl e \<longrightarrow> e \<in> X) \<and> (\<forall>a e. sv_transport sv a = Inl e \<longrightarrow> e \<in> X)
      \<and> (\<forall>n e. backoff_delay (sv_backoff sv) n = Inl e \<longrightarrow> e \<in> X)
      \<and> (\<forall>tm delta e. dt_plus tm delta = Inl e \<longrightarrow> e \<in> X))"

definition worker_cancelled :: "wait_event list \<Rightarrow> bool" where
  "worker_cancelled es = (WorkerCancelled \<in> set es \<or> HandlerFinished (Inl CancelledError) \<in> set es)"

lemma escapes_basic [simp]:
  "escapes E (w_return a)" "escapes E (w_raise e) \<longleftrightarrow> e \<in> E" "escapes E (read_clock sv)"
  by (simp_all add: escapes_def w_defs read_clock_def)

lemma escapes_UNIV [simp]: "escapes UNIV m"
  by (simp add: escapes_def)

lemma escapes_lift: "(\<And>e. r = Inl e \<Longrightarrow> Raised e \<in> E) \<Longrightarrow> escapes E (w_lift r)"
  by (auto simp: escapes_def w_defs split: sum.splits)

lemma escapes_store: "op_raises X m \<Longrightarrow> Raised ` X \<subseteq> E \<Longrightarrow> escapes E (on_store m)"
  unfolding escapes_def op_raises_def on_store_def by (auto split: prod.splits sum.splits)

lemma escapes_transport:
  assumes "\<And>e. sv_transport sv a = Inl e \<Longrightarrow> Raised e \<in> E"
  shows "escapes E (transport_call sv a)"
  using assms by (auto simp: escapes_def transport_call_def w_defs split: sum.splits)

lemma escapes_bind: "escapes E m \<Longrightarrow> (\<And>a. escapes E (k a)) \<Longrightarrow> escapes E (w_bind m k)"
  unfolding escapes_def w_bind_def by (auto split: sum.splits prod.splits)

lemma escapes_try: "escapes F m \<Longrightarrow> (\<And>e. e \<in> F \<Longrightarrow> escapes E (h e)) \<Longrightarrow> escapes E (w_try m h)"
  unfolding escapes_def w_try_def by (auto split: sum.splits prod.splits) blast

lemma escapes_if: "escapes E m \<Longrightarrow> escapes E n \<Longrightarrow> escapes E (if b then m else n)"
  by simp

lemma escapes_error_case:
  "escapes E m \<Longrightarrow> (\<And>fc code. escapes E (n fc code)) \<Longrightarrow> (e = CancelledError \<Longrightarrow> escapes E k) \<Longrightarrow> (\<And>x. e = Raised x \<Longrightarrow> escapes E (h x)) \<Longrightarrow>
     escapes E (case e of TimeoutError \<Rightarrow> m | WorkerExecutionError fc code \<Rightarrow> n fc code | CancelledError \<Rightarrow> k | Raised x \<Rightarrow> h x)"
  by (cases e) simp_all

text \<open>Inside the attempt anything may be raised, a cancellation only when the worker was cancelled.\<close>

abbreviation attempt_errors :: "wait_event list \<Rightarrow> worker_error set" where
  "attempt_errors es \<equiv> {e. e = CancelledError \<longrightarrow> worker_cancelled es}"

lemma attempt_store: "escapes (attempt_errors es) (on_store m)"
  by (rule escapes_store [of UNIV]) (auto simp: op_raises_def)

lemma attempt_lift: "escapes (attempt_errors es) (w_lift r)"
  by (rule escapes_lift) simp

lemma heartbeat_escapes: "escapes (attempt_errors es) (heartbeat_once sv tenant d l current)"
  unfolding heartbeat_once_def by (intro escapes_bind attempt_store escapes_try [of UNIV]) simp_all

lemma await_escapes: "escapes (attempt_errors (pre @ es)) (await_handler sv tenant d l current es)"
proof (induction sv tenant d l current es arbitrary: pre rule: await_handler.induct)
  case (2 sv tenant d l current es)
  have "escapes (attempt_errors (pre @ HeartbeatDue # es)) (await_handler sv tenant d l c es)" for c
    using 2 [of "pre @ [HeartbeatDue]" c] by simp
  then show ?case by (simp add: escapes_bind heartbeat_escapes)
qed (auto simp: worker_cancelled_def split: sum.splits)

lemma attempt_escapes: "escapes (attempt_errors es) (run_attempt sv tenant d l es)"
proof -
  have "escapes (attempt_errors es) (timeout_seconds d :: ('a worker_world, int) wop)"
    by (auto simp: timeout_seconds_def split: option.splits json.splits)
  then have "escapes (attempt_errors es) (execute_handler sv tenant d l es)"
    unfolding execute_handler_def using await_escapes [of "[]"] by (intro escapes_bind) simp_all
  then show ?thesis
    unfolding run_attempt_def record_cancel_def by (intro escapes_bind escapes_if attempt_store) simp_all
qed

lemma collaborators_escape:
  assumes "collaborators_raise X sv" and "Raised ` X \<subseteq> E"
  shows "escapes E (on_store (ws_mark_published (sv_state sv) t d tm))"
    and "escapes E (on_store (ws_claim (sv_state sv) t d ow now ex q))"
    and "escapes E (on_store (ws_cancellation_requested (sv_state sv) t i))"
    and "escapes E (on_store (ws_delivery_complete (sv_state sv) t i))"
    and "escapes E (on_store (ws_cancel (sv_state sv) t d l tm))"
    and "escapes E (on_store (ws_fail (sv_state sv) t d l tm fc code ra))"
    and "escapes E (w_lift (sv_quota sv t))" and "escapes E (transport_call sv a)"
    and "escapes E (w_lift (backoff_delay (sv_backoff sv) n))" and "escapes E (w_lift (dt_plus tm delta))"
proof -
  note c = assms(1) [unfolded collaborators_raise_def Let_def]
  have in_E: "x \<in> X \<Longrightarrow> Raised x \<in> E" for x using assms(2) by blast
  show "escapes E (on_store (ws_mark_published (sv_state sv) t d tm))" using c by (intro escapes_store [OF _ assms(2)]) simp
  show "escapes E (on_store (ws_claim (sv_state sv) t d ow now ex q))" using c by (intro escapes_store [OF _ assms(2)]) simp
  show "escapes E (on_store (ws_cancellation_requested (sv_state sv) t i))" using c by (intro escapes_store [OF _ assms(2)]) simp
  show "escapes E (on_store (ws_delivery_complete (sv_state sv) t i))" using c by (intro escapes_store [OF _ assms(2)]) simp
  show "escapes E (on_store (ws_cancel (sv_state sv) t d l tm))" using c by (intro escapes_store [OF _ assms(2)]) simp
  show "escapes E (on_store (ws_fail (sv_state sv) t d l tm fc code ra))" using c by (intro escapes_store [OF _ assms(2)]) simp
  show "escapes E (w_lift (sv_quota sv t))" using c by (intro escapes_lift in_E) simp
  show "escapes E (transport_call sv a)" using c by (intro escapes_transport in_E) simp
  show "escapes E (w_lift (backoff_delay (sv_backoff sv) n))" using c by (intro escapes_lift in_E) simp
  show "escapes E (w_lift (dt_plus tm delta))" using c by (intro escapes_lift in_E) simp
qed

lemma outcomes_escape:
  assumes "collaborators_raise X sv" and "Raised ` X \<subseteq> E"
  shows "escapes E (record_failure sv t d l fc code)" and "escapes E (record_cancel sv t d l)"
proof -
  note c = collaborators_escape [OF assms]
  show "escapes E (record_failure sv t d l fc code)"
    unfolding record_failure_def
    by (intro escapes_bind escapes_if escapes_try [of E] escapes_error_case c) simp_all
  show "escapes E (record_cancel sv t d l)"
    unfolding record_cancel_def by (intro escapes_bind c) simp_all
qed

lemma contain_escapes:
  assumes "collaborators_raise X sv" and "Raised ` X \<subseteq> E" and "e = CancelledError \<Longrightarrow> CancelledError \<in> E"
  shows "escapes E (contain_failure sv t d l e)"
  unfolding contain_failure_def
  by (intro escapes_error_case escapes_if escapes_bind escapes_try [of E] collaborators_escape [OF assms(1,2)]
      outcomes_escape [OF assms(1,2)]) (simp_all add: assms(3))

lemma process_escapes:
  assumes "collaborators_raise X sv" and "Raised ` X \<subseteq> E" and "worker_cancelled es \<Longrightarrow> CancelledError \<in> E"
  shows "escapes E (process_delivery sv es d)"
proof -
  note c = collaborators_escape [OF assms(1,2)]
  have caught: "escapes E (w_try (run_attempt sv t d l es) (contain_failure sv t d l))" for t l
    by (rule escapes_try [OF attempt_escapes], rule contain_escapes [OF assms(1,2)]) (use assms(3) in auto)
  have claimed: "escapes E (process_claimed sv t d l es)" for t l
    unfolding process_claimed_def by (intro escapes_bind escapes_if caught c) simp
  have ack: "escapes E (acknowledge_if_complete sv t d)" for t
    unfolding acknowledge_if_complete_def by (intro escapes_bind escapes_if c) simp
  have claim: "escapes E (claim_delivery sv t d tm)" for t tm
    unfolding claim_delivery_def by (intro escapes_bind c)
  have "escapes E (process_open sv es t d tm)" for t tm
    using claimed [of t] ack [of t] claim [of t tm] c(8) unfolding escapes_def process_open_def
    by (auto split: prod.splits sum.splits worker_error.splits option.splits if_splits) blast+
  then show ?thesis
    unfolding process_delivery_def by (auto intro!: escapes_bind escapes_if c split: sum.splits)
qed

definition silent_cancel :: "('s worker_world, 'a) wop \<Rightarrow> bool" where
  "silent_cancel m = (\<forall>w w'. m w = (Inl CancelledError, w') \<longrightarrow> ww_log w' = ww_log w)"

lemma quiet_silent: "quiet m \<Longrightarrow> silent_cancel m"
  unfolding quiet_def silent_cancel_def by (metis snd_conv)

lemma silent_bind:
  assumes "quiet m" and "\<And>a. silent_cancel (k a)"
  shows "silent_cancel (w_bind m k)"
  unfolding silent_cancel_def
proof (intro allI impI)
  fix w w'
  assume b: "w_bind m k w = (Inl CancelledError, w')"
  obtain r w1 where m: "m w = (r, w1)" by fastforce
  have "ww_log w1 = ww_log w" using assms(1) m unfolding quiet_def by (metis snd_conv)
  then show "ww_log w' = ww_log w" using b m assms(2) by (cases r) (auto simp: w_bind_def silent_cancel_def)
qed

lemma silent_if: "silent_cancel m \<Longrightarrow> silent_cancel n \<Longrightarrow> silent_cancel (if b then m else n)"
  by simp

lemma silent_transport: "silent_cancel (transport_call sv a)"
  by (auto simp: silent_cancel_def transport_call_def w_defs split: sum.splits)

lemma silent_open: "silent_cancel (process_open sv es t d tm)"
  unfolding silent_cancel_def
proof (intro allI impI)
  fix w w'
  assume b: "process_open sv es t d tm w = (Inl CancelledError, w')"
  obtain r w1 where m: "claim_delivery sv t d tm w = (r, w1)" by fastforce
  have log: "ww_log w1 = ww_log w" using quiet_claim [of sv t d tm] m unfolding quiet_def by (metis snd_conv)
  have ack: "silent_cancel (acknowledge_if_complete sv t d)"
    unfolding acknowledge_if_complete_def by (intro silent_bind silent_if silent_transport quiet_silent quiet_basic)
  have run: "silent_cancel (process_claimed sv t d l es)" for l
    unfolding process_claimed_def
    by (intro silent_bind silent_if silent_transport quiet_try quiet_attempt quiet_contain quiet_silent quiet_basic)
  show "ww_log w' = ww_log w"
    using b m ack run silent_transport [of sv] unfolding log [symmetric] silent_cancel_def process_open_def
    by (auto split: sum.splits option.splits worker_error.splits if_splits)
qed

lemma silent_process: "silent_cancel (process_delivery sv es d)"
  unfolding process_delivery_def
  by (cases "new_TenantId (me_tenant_id (dv_envelope d))")
    (auto intro!: silent_bind silent_if silent_transport silent_open)


text \<open>A durable state that accepts everything, for the example.\<close>

definition accepting_store :: "WorkLease \<Rightarrow> unit WorkerStateStore" where
  "accepting_store l = \<lparr>ws_mark_published = (\<lambda>t d tm. op_return ()), ws_claim = (\<lambda>t d ow now ex q. op_return (Some l)),
     ws_start = (\<lambda>t d l tm. op_return ()), ws_heartbeat = (\<lambda>t d l tm ex. op_return l),
     ws_cancellation_requested = (\<lambda>t i. op_return False), ws_delivery_complete = (\<lambda>t i. op_return False),
     ws_succeed = (\<lambda>t d l tm ref. op_return ()), ws_cancel = (\<lambda>t d l tm. op_return ()),
     ws_fail = (\<lambda>t d l tm fc code ra. op_return False)\<rparr>"

definition accepting_supervisor :: "WorkLease \<Rightarrow> unit WorkerSupervisor" where
  "accepting_supervisor l = \<lparr>sv_state = accepting_store l, sv_quota = (\<lambda>_. Inr 1), sv_worker_id = ''worker'',
     sv_clock = (\<lambda>n. dt_of_instant (int n)), sv_max_concurrency = 16, sv_lease_duration = 30000000,
     sv_heartbeat_interval = 10000000, sv_backoff = default_backoff, sv_transport = (\<lambda>_. Inr ())\<rparr>"

lemma accepting_raises:
  "collaborators_raise {OverflowError ''date value out of range'', ValueError ''attempt must be positive''} (accepting_supervisor l)"
proof -
  have b: "backoff_delay default_backoff n = Inl e \<Longrightarrow> e = ValueError ''attempt must be positive''" for n e
    using backoff_delay_unjittered [of default_backoff n]
    by (cases "1 \<le> n") (simp_all add: default_backoff_def init_ExponentialBackoff_def backoff_delay_def)
  show ?thesis using b
    by (auto simp: collaborators_raise_def op_raises_def accepting_supervisor_def accepting_store_def op_return_def dt_plus_def
        Let_def split: if_splits)
qed


end
