(* ===== verification/Storage.thy ===== *)
theory Storage
  imports Domain_Work
begin

text \<open>
  The PostgreSQL tables of the ledger and of the worker runtime
  (\<^verbatim>\<open>migrations/0002_durable_ledger.sql\<close>, \<^verbatim>\<open>migrations/0003_distributed_worker_runtime.sql\<close>), the
  classification of driver errors, and the transaction the repositories run in.

  A table is the list of its rows in insertion order; a timestamptz column is an instant in
  microseconds; a jsonb column is the JSON object itself. Integrity violations (primary and
  unique keys, foreign keys, CHECK constraints) raise, as the driver does.
\<close>

section \<open>Rows\<close>

type_synonym instant = int

record event_row =
  er_global_position :: int
  er_event_id :: uuid
  er_tenant_id :: string
  er_aggregate_id :: string
  er_aggregate_sequence :: int
  er_event_type :: string
  er_schema_version :: int
  er_occurred_at :: instant
  er_recorded_at :: instant
  er_payload :: json_obj
  er_metadata :: json_obj
  er_correlation_id :: "uuid option"
  er_causation_id :: "uuid option"
  er_actor_id :: "string option"
  er_actor_kind :: "string option"
  er_identity_reference :: "string option"
  er_policy_reference :: "string option"
  er_audit_reference :: "uuid option"
  er_idempotency_key :: "string option"
  er_traceparent :: "string option"
  er_tracestate :: "string option"

record head_row =
  hd_tenant_id :: string
  hd_aggregate_id :: string
  hd_current_version :: int

record inbox_row =
  ib_tenant_id :: string
  ib_source :: string
  ib_message_id :: string
  ib_received_at :: instant
  ib_processed_at :: "instant option"
  ib_aggregate_version :: "int option"

text \<open>\<^verbatim>\<open>OutboxStatus\<close> of \<^verbatim>\<open>event_store/__init__.py\<close>.\<close>

datatype OutboxStatus = OB_PENDING | OB_LEASED | OB_PUBLISHED | OB_DEAD_LETTER

record outbox_row =
  ob_tenant_id :: string
  ob_message_id :: uuid
  ob_event_id :: "uuid option"
  ob_destination :: string
  ob_payload :: json_obj
  ob_headers :: json_obj
  ob_status :: OutboxStatus
  ob_available_at :: instant
  ob_attempt_count :: int
  ob_max_attempts :: int
  ob_lease_owner :: "string option"
  ob_lease_expires_at :: "instant option"
  ob_published_at :: "instant option"
  ob_last_error_code :: "string option"

record work_row =
  wi_tenant_id :: string
  wi_work_id :: uuid
  wi_work_kind :: string
  wi_idempotency_key :: string
  wi_status :: WorkStatus
  wi_requested_at :: instant
  wi_available_at :: instant
  wi_attempt_count :: int
  wi_max_attempts :: int
  wi_timeout_seconds :: int
  wi_request_event_id :: uuid
  wi_correlation_id :: uuid
  wi_causation_id :: "uuid option"
  wi_request_payload :: json_obj
  wi_cancel_requested_at :: "instant option"
  wi_completed_at :: "instant option"
  wi_last_error_code :: "string option"

record lease_row =
  wl_tenant_id :: string
  wl_work_id :: uuid
  wl_lease_token :: uuid
  wl_generation :: int
  wl_owner :: string
  wl_acquired_at :: instant
  wl_heartbeat_at :: instant
  wl_expires_at :: instant
  wl_released_at :: "instant option"
  wl_release_reason :: "string option"

record dead_letter_row =
  dl_tenant_id :: string
  dl_work_id :: uuid
  dl_dead_lettered_at :: instant
  dl_reason_code :: string
  dl_attempts :: int
  dl_requeue_count :: int
  dl_last_requeued_at :: "instant option"

record approval_row =
  ap_tenant_id :: string
  ap_approval_id :: uuid
  ap_work_id :: uuid
  ap_approved_by :: string
  ap_approved_at :: instant
  ap_expires_at :: instant
  ap_consumed_at :: "instant option"
  ap_consumed_by :: "string option"

record db =
  db_tenants :: "string list"
  db_commit_locks :: "string list"
  db_heads :: "head_row list"
  db_events :: "event_row list"
  db_next_position :: int
  db_inbox :: "inbox_row list"
  db_outbox :: "outbox_row list"
  db_work_items :: "work_row list"
  db_work_leases :: "lease_row list"
  db_work_dead_letters :: "dead_letter_row list"
  db_work_requeue_approvals :: "approval_row list"

section \<open>Driver errors\<close>

text \<open>
  The classes of \<^verbatim>\<open>psycopg\<close> errors that \<^verbatim>\<open>classify_storage_error\<close> distinguishes; every other class,
  the integrity violations among them, is permanent.
\<close>

datatype psycopg_error =
    OperationalError | InterfaceError | SerializationFailure | DeadlockDetected
  | ConnectionException | IntegrityError | DataError | OtherDatabaseError

definition classify_storage_error :: "psycopg_error \<Rightarrow> py_error" where
  "classify_storage_error e =
     (if e \<in> set [OperationalError, InterfaceError, SerializationFailure, DeadlockDetected,
                  ConnectionException]
      then TransientStorageError
      else PermanentStorageError ''permanent PostgreSQL storage failure'')"

definition integrity_error :: py_error where
  "integrity_error = classify_storage_error IntegrityError"

lemma integrity_error_eq [simp]:
  "integrity_error = PermanentStorageError ''permanent PostgreSQL storage failure''"
  by (simp add: integrity_error_def classify_storage_error_def)

section \<open>Transactions\<close>

text \<open>A rollback restores every table; the identity sequence keeps the values it gave out.\<close>

definition db_rollback :: "'z db_scheme \<Rightarrow> 'z db_scheme \<Rightarrow> 'z db_scheme" where
  "db_rollback old new = old\<lparr>db_next_position := db_next_position new\<rparr>"

definition tenant_transaction :: "('z db_scheme, 'a) op \<Rightarrow> ('z db_scheme, 'a) op" where
  "tenant_transaction m = transaction db_rollback m"

definition int4_max :: int where
  "int4_max = 2147483647"

lemma tenant_transaction_Inr [op_simps]:
  "tenant_transaction m s = (Inr a, s') \<longleftrightarrow> m s = (Inr a, s')"
  by (simp add: tenant_transaction_def transaction_Inr_iff)

lemma tenant_transaction_Inl:
  "tenant_transaction m s = (Inl e, s') \<longleftrightarrow>
     (\<exists>s1. m s = (Inl e, s1) \<and> s' = s\<lparr>db_next_position := db_next_position s1\<rparr>)"
  by (simp add: tenant_transaction_def transaction_Inl_iff db_rollback_def)

end
