(* ===== verification/Event_Ledger.thy ===== *)
theory Event_Ledger
  imports Storage
begin

text \<open>
  The append-only ledger, \<^verbatim>\<open>PostgresEventStore\<close> of \<^verbatim>\<open>event_store/postgres.py\<close>: the guarded append in
  its four forms (plain, with a mutation, deduplicated by inbox, fenced by a work lease), the
  replay of one stream and of a tenant's whole history.
\<close>

section \<open>Messages and results\<close>

record OutboxMessage =
  om_message_id :: uuid
  om_destination :: string
  om_payload :: json_obj
  om_headers :: json_obj
  om_available_at :: datetime
  om_max_attempts :: int
  om_event_id :: "uuid option"

definition init_OutboxMessage :: "OutboxMessage \<Rightarrow> OutboxMessage res" where
  "init_OutboxMessage m =
     res_bind (require (om_destination m \<noteq> []) (ValueError ''outbox destination is required'')) (\<lambda>_.
     res_bind (require (dt_aware (om_available_at m))
       (ValueError ''outbox available_at must be timezone-aware'')) (\<lambda>_.
     res_bind (require (1 \<le> om_max_attempts m) (ValueError ''outbox max_attempts must be positive'')) (\<lambda>_.
     Inr m)))"

record EventPage =
  pg_events :: "EventEnvelope list"
  pg_next_cursor :: "int option"

record AppendResult =
  aggregate_version :: int
  duplicate :: bool

section \<open>Rows of events\<close>

definition event_insert_values :: "EventEnvelope \<Rightarrow> int \<Rightarrow> int \<Rightarrow> instant \<Rightarrow> event_row" where
  "event_insert_values e sq pos now =
     \<lparr>er_global_position = pos, er_event_id = event_id e, er_tenant_id = ev_tenant_id e,
      er_aggregate_id = aggregate_id e, er_aggregate_sequence = sq, er_event_type = event_type e,
      er_schema_version = schema_version e, er_occurred_at = dt_instant (occurred_at e),
      er_recorded_at = now, er_payload = payload e, er_metadata = metadata e,
      er_correlation_id = correlation_id e, er_causation_id = causation_id e,
      er_actor_id = map_option actor_id (actor e),
      er_actor_kind = map_option (\<lambda>a. ActorKind_value (actor_kind a)) (actor e),
      er_identity_reference = identity_reference e, er_policy_reference = policy_reference e,
      er_audit_reference = audit_reference e, er_idempotency_key = idempotency_key e,
      er_traceparent = map_option traceparent (trace_context e),
      er_tracestate = Option.bind (trace_context e) tracestate\<rparr>"

text \<open>
  \<^verbatim>\<open>_event_from_row\<close>; the second argument is column 21, which only \<^verbatim>\<open>_READ_ALL\<close> selects.
\<close>

definition event_from_row :: "event_row \<Rightarrow> int option \<Rightarrow> EventEnvelope res" where
  "event_from_row r prev =
     res_bind (case er_actor_id r of
         None \<Rightarrow> Inr None
       | Some a \<Rightarrow>
           res_bind (case er_actor_kind r of
               None \<Rightarrow> Inl (ValueError ''is not a valid ActorKind'') | Some k \<Rightarrow> ActorKind_of k) (\<lambda>kind.
           res_bind (new_ActorReference a kind) (\<lambda>act. Inr (Some act)))) (\<lambda>actr.
     res_bind (case er_traceparent r of
         None \<Rightarrow> Inr None
       | Some p \<Rightarrow> res_bind (new_TraceContext p (er_tracestate r)) (\<lambda>t. Inr (Some t))) (\<lambda>trace.
     new_envelope
       \<lparr>event_id = er_event_id r, ev_tenant_id = er_tenant_id r, aggregate_id = er_aggregate_id r,
        event_type = er_event_type r, schema_version = er_schema_version r,
        occurred_at = dt_of_instant (er_occurred_at r), payload = er_payload r,
        correlation_id = er_correlation_id r, causation_id = er_causation_id r,
        aggregate_sequence = er_aggregate_sequence r, global_position = Some (er_global_position r),
        recorded_at = Some (dt_of_instant (er_recorded_at r)), actor = actr,
        identity_reference = er_identity_reference r, policy_reference = er_policy_reference r,
        audit_reference = er_audit_reference r, idempotency_key = er_idempotency_key r,
        trace_context = trace, previous_aggregate_sequence = prev, metadata = er_metadata r\<rparr>))"

section \<open>Appending\<close>

definition validate_append :: "string \<Rightarrow> EventEnvelope list \<Rightarrow> int \<Rightarrow> unit res" where
  "validate_append tenant events expected_version =
     res_bind (require (0 \<le> expected_version) (ValueError ''expected_version cannot be negative'')) (\<lambda>_.
     res_bind (require (events \<noteq> []) (ValueError ''at least one event is required'')) (\<lambda>_.
     res_bind (require (\<forall>e \<in> set events. ev_tenant_id e = tenant)
       (ValueError ''event tenant does not match trusted tenant context'')) (\<lambda>_.
     res_bind (require (\<forall>e \<in> set events. aggregate_id e = aggregate_id (hd events))
       (ValueError ''an append batch must target one aggregate'')) (\<lambda>_.
     res_bind (require (\<forall>e \<in> set events. aggregate_sequence e = 0)
       (ValueError ''new events cannot preassign aggregate sequences'')) (\<lambda>_.
     require (\<forall>e \<in> set events. global_position e = None)
       (ValueError ''new events cannot preassign global positions''))))))"

text \<open>\<^verbatim>\<open>INSERT ... ON CONFLICT DO NOTHING\<close> of the commit lock and of the stream head.\<close>

definition insert_commit_lock :: "string \<Rightarrow> ('z db_scheme, unit) op" where
  "insert_commit_lock tenant =
     op_bind (op_gets (\<lambda>s. tenant \<in> set (db_commit_locks s))) (\<lambda>present.
     if present then op_return ()
     else op_bind (op_gets (\<lambda>s. tenant \<in> set (db_tenants s))) (\<lambda>known.
          op_bind (op_require known integrity_error) (\<lambda>_.
          op_modify (\<lambda>s. s\<lparr>db_commit_locks := db_commit_locks s @ [tenant]\<rparr>))))"

definition is_head :: "string \<Rightarrow> string \<Rightarrow> head_row \<Rightarrow> bool" where
  "is_head tenant aggregate h = (hd_tenant_id h = tenant \<and> hd_aggregate_id h = aggregate)"

definition insert_head :: "string \<Rightarrow> string \<Rightarrow> ('z db_scheme, unit) op" where
  "insert_head tenant aggregate =
     op_bind (op_gets (\<lambda>s. sql_one (is_head tenant aggregate) (db_heads s) \<noteq> None)) (\<lambda>present.
     if present then op_return ()
     else op_bind (op_gets (\<lambda>s. tenant \<in> set (db_tenants s) \<and> aggregate \<noteq> [])) (\<lambda>valid.
          op_bind (op_require valid integrity_error) (\<lambda>_.
          op_modify (\<lambda>s. s\<lparr>db_heads := db_heads s
            @ [\<lparr>hd_tenant_id = tenant, hd_aggregate_id = aggregate, hd_current_version = 0\<rparr>]\<rparr>))))"

text \<open>
  The constraints of the \<^verbatim>\<open>events\<close> table: the two unique keys, the unique idempotency key, the
  reference to the stream head and the CHECKs.
\<close>

definition event_row_valid :: "'z db_scheme \<Rightarrow> event_row \<Rightarrow> bool" where
  "event_row_valid s r =
     (er_tenant_id r \<in> set (db_tenants s)
      \<and> sql_one (is_head (er_tenant_id r) (er_aggregate_id r)) (db_heads s) \<noteq> None
      \<and> er_aggregate_id r \<noteq> [] \<and> 0 < er_aggregate_sequence r \<and> er_event_type r \<noteq> []
      \<and> 0 < er_schema_version r \<and> er_schema_version r \<le> int4_max
      \<and> (er_actor_id r = None) = (er_actor_kind r = None)
      \<and> er_idempotency_key r \<noteq> Some []
      \<and> (\<forall>q \<in> set (db_events s). er_tenant_id q = er_tenant_id r \<longrightarrow>
           er_event_id q \<noteq> er_event_id r
           \<and> (er_aggregate_id q = er_aggregate_id r \<longrightarrow> er_aggregate_sequence q \<noteq> er_aggregate_sequence r)
           \<and> (er_idempotency_key q = None \<or> er_idempotency_key q \<noteq> er_idempotency_key r)))"

definition insert_event :: "instant \<Rightarrow> EventEnvelope \<Rightarrow> int \<Rightarrow> ('z db_scheme, unit) op" where
  "insert_event now e sq =
     op_bind (op_gets db_next_position) (\<lambda>pos.
     op_bind (op_modify (\<lambda>s. s\<lparr>db_next_position := pos + 1\<rparr>)) (\<lambda>_.
     op_bind (op_gets (\<lambda>s. event_row_valid s (event_insert_values e sq pos now))) (\<lambda>valid.
     op_bind (op_require valid integrity_error) (\<lambda>_.
     op_modify (\<lambda>s. s\<lparr>db_events := db_events s @ [event_insert_values e sq pos now]\<rparr>)))))"

primrec insert_events :: "instant \<Rightarrow> int \<Rightarrow> EventEnvelope list \<Rightarrow> ('z db_scheme, int) op" where
  "insert_events now version [] = op_return version"
| "insert_events now version (e # es) =
     op_bind (insert_event now e (version + 1)) (\<lambda>_. insert_events now (version + 1) es)"

definition new_outbox_row :: "string \<Rightarrow> OutboxMessage \<Rightarrow> outbox_row" where
  "new_outbox_row tenant m =
     \<lparr>ob_tenant_id = tenant, ob_message_id = om_message_id m, ob_event_id = om_event_id m,
      ob_destination = om_destination m, ob_payload = om_payload m, ob_headers = om_headers m,
      ob_status = OB_PENDING, ob_available_at = dt_instant (om_available_at m), ob_attempt_count = 0,
      ob_max_attempts = om_max_attempts m, ob_lease_owner = None, ob_lease_expires_at = None,
      ob_published_at = None, ob_last_error_code = None\<rparr>"

definition outbox_insert_valid :: "string \<Rightarrow> OutboxMessage \<Rightarrow> 'z db_scheme \<Rightarrow> bool" where
  "outbox_insert_valid tenant m s =
     (tenant \<in> set (db_tenants s) \<and> om_destination m \<noteq> []
      \<and> 0 < om_max_attempts m \<and> om_max_attempts m \<le> int4_max
      \<and> (\<forall>q \<in> set (db_outbox s). \<not> (ob_tenant_id q = tenant \<and> ob_message_id q = om_message_id m))
      \<and> (case om_event_id m of None \<Rightarrow> True
         | Some i \<Rightarrow> \<exists>r \<in> set (db_events s). er_tenant_id r = tenant \<and> er_event_id r = i))"

definition insert_outbox :: "string \<Rightarrow> OutboxMessage \<Rightarrow> ('z db_scheme, unit) op" where
  "insert_outbox tenant m =
     op_bind (op_gets (outbox_insert_valid tenant m)) (\<lambda>valid.
     op_bind (op_require valid integrity_error) (\<lambda>_.
     op_modify (\<lambda>s. s\<lparr>db_outbox := db_outbox s @ [new_outbox_row tenant m]\<rparr>)))"

definition append_in_transaction ::
  "instant \<Rightarrow> EventEnvelope list \<Rightarrow> int \<Rightarrow> OutboxMessage list \<Rightarrow> ('z db_scheme, int) op" where
  "append_in_transaction now events expected_version outbox =
     (case events of
        [] \<Rightarrow> op_raise (IndexError ''tuple index out of range'')
      | first # _ \<Rightarrow>
          (let t = ev_tenant_id first; a = aggregate_id first in
           op_bind (insert_commit_lock t) (\<lambda>_.
           op_bind (insert_head t a) (\<lambda>_.
           op_bind (op_gets (\<lambda>s. sql_one (is_head t a) (db_heads s))) (\<lambda>row.
           (case row of
              None \<Rightarrow> op_raise (PermanentStorageError ''aggregate head could not be established'')
            | Some h \<Rightarrow>
                op_bind (op_require (hd_current_version h = expected_version)
                  (ConcurrencyError expected_version (hd_current_version h))) (\<lambda>_.
                op_bind (insert_events now expected_version events) (\<lambda>version.
                op_bind (op_modify (\<lambda>s. s\<lparr>db_heads :=
                  sql_update (is_head t a) (\<lambda>h. h\<lparr>hd_current_version := version\<rparr>) (db_heads s)\<rparr>)) (\<lambda>_.
                op_bind (op_iter (insert_outbox t) outbox) (\<lambda>_.
                op_return version))))))))))"

definition append_events ::
  "instant \<Rightarrow> string \<Rightarrow> EventEnvelope list \<Rightarrow> int \<Rightarrow> OutboxMessage list \<Rightarrow> ('z db_scheme, int) op" where
  "append_events now tenant events expected_version outbox =
     op_bind (op_lift (validate_append tenant events expected_version)) (\<lambda>_.
     tenant_transaction (append_in_transaction now events expected_version outbox))"

text \<open>\<^verbatim>\<open>append_atomic\<close>: the caller's mutation runs in the transaction, after the append.\<close>

definition append_atomic ::
  "instant \<Rightarrow> string \<Rightarrow> EventEnvelope list \<Rightarrow> int \<Rightarrow> ('z db_scheme, unit) op \<Rightarrow> OutboxMessage list
     \<Rightarrow> ('z db_scheme, int) op" where
  "append_atomic now tenant events expected_version mutation outbox =
     op_bind (op_lift (validate_append tenant events expected_version)) (\<lambda>_.
     tenant_transaction (
       op_bind (append_in_transaction now events expected_version outbox) (\<lambda>version.
       op_bind mutation (\<lambda>_. op_return version))))"

definition is_inbox :: "string \<Rightarrow> string \<Rightarrow> string \<Rightarrow> inbox_row \<Rightarrow> bool" where
  "is_inbox tenant source message_id r =
     (ib_tenant_id r = tenant \<and> ib_source r = source \<and> ib_message_id r = message_id)"

definition insert_inbox :: "instant \<Rightarrow> string \<Rightarrow> string \<Rightarrow> string \<Rightarrow> ('z db_scheme, bool) op" where
  "insert_inbox now tenant source message_id =
     op_bind (op_gets (\<lambda>s. sql_one (is_inbox tenant source message_id) (db_inbox s) \<noteq> None)) (\<lambda>present.
     if present then op_return False
     else op_bind (op_gets (\<lambda>s. tenant \<in> set (db_tenants s))) (\<lambda>known.
          op_bind (op_require known integrity_error) (\<lambda>_.
          op_bind (op_modify (\<lambda>s. s\<lparr>db_inbox := db_inbox s
            @ [\<lparr>ib_tenant_id = tenant, ib_source = source, ib_message_id = message_id,
                ib_received_at = now, ib_processed_at = None, ib_aggregate_version = None\<rparr>]\<rparr>)) (\<lambda>_.
          op_return True))))"

definition append_from_inbox ::
  "instant \<Rightarrow> string \<Rightarrow> string \<Rightarrow> string \<Rightarrow> EventEnvelope list \<Rightarrow> int \<Rightarrow> OutboxMessage list
     \<Rightarrow> ('z db_scheme, unit) op option \<Rightarrow> ('z db_scheme, AppendResult) op" where
  "append_from_inbox now tenant source message_id events expected_version outbox mutation =
     op_bind (op_require (source \<noteq> [] \<and> message_id \<noteq> [])
       (ValueError ''inbox source and message_id are required'')) (\<lambda>_.
     op_bind (op_lift (validate_append tenant events expected_version)) (\<lambda>_.
     tenant_transaction (
       op_bind (insert_inbox now tenant source message_id) (\<lambda>inserted.
       if \<not> inserted then
         op_bind (op_gets (\<lambda>s. sql_one (is_inbox tenant source message_id) (db_inbox s))) (\<lambda>row.
         (case Option.bind row ib_aggregate_version of
            None \<Rightarrow> op_raise (PermanentStorageError ''duplicate inbox record has no committed result'')
          | Some v \<Rightarrow> op_return \<lparr>aggregate_version = v, duplicate = True\<rparr>))
       else
         op_bind (append_in_transaction now events expected_version outbox) (\<lambda>version.
         op_bind (op_modify (\<lambda>s. s\<lparr>db_inbox :=
           sql_update (is_inbox tenant source message_id)
             (\<lambda>r. r\<lparr>ib_processed_at := Some now, ib_aggregate_version := Some version\<rparr>) (db_inbox s)\<rparr>)) (\<lambda>_.
         op_bind (case mutation of None \<Rightarrow> op_return () | Some m \<Rightarrow> m) (\<lambda>_.
         op_return \<lparr>aggregate_version = version, duplicate = False\<rparr>)))))))"

text \<open>
  \<^verbatim>\<open>payload.get(key) == n\<close> for an integer: Python also equates a boolean with 0 or 1 and a float with
  the integer it is (whose \<^verbatim>\<open>repr\<close> ends in \<^verbatim>\<open>.0\<close> below \<open>10^16\<close>).
\<close>

fun json_get_eq_int :: "json option \<Rightarrow> int \<Rightarrow> bool" where
  "json_get_eq_int (Some (JInt k)) n = (k = n)"
| "json_get_eq_int (Some (JBool b)) n = ((if b then 1 else 0) = n)"
| "json_get_eq_int (Some (JFloat r)) n = (\<bar>n\<bar> < 10000000000000000 \<and> r = int_str n @ ''.0'')"
| "json_get_eq_int _ n = False"

text \<open>The fence: the row of the current lease, unreleased and unexpired.\<close>

definition fence_matches :: "instant \<Rightarrow> string \<Rightarrow> uuid \<Rightarrow> uuid \<Rightarrow> int \<Rightarrow> lease_row \<Rightarrow> bool" where
  "fence_matches now tenant work_id token generation l =
     (wl_tenant_id l = tenant \<and> wl_work_id l = work_id \<and> wl_lease_token l = token
      \<and> wl_generation l = generation \<and> wl_released_at l = None \<and> now < wl_expires_at l)"

definition append_fenced ::
  "instant \<Rightarrow> string \<Rightarrow> EventEnvelope list \<Rightarrow> int \<Rightarrow> uuid \<Rightarrow> uuid \<Rightarrow> int \<Rightarrow> datetime \<Rightarrow> OutboxMessage list
     \<Rightarrow> ('z db_scheme, unit) op option \<Rightarrow> ('z db_scheme, int) op" where
  "append_fenced now tenant events expected_version work_id lease_token lease_generation at outbox mutation =
     op_bind (op_lift (validate_append tenant events expected_version)) (\<lambda>_.
     op_bind (op_require (dt_aware at \<and> 1 \<le> lease_generation)
       (ValueError ''valid fence generation and timestamp are required'')) (\<lambda>_.
     op_bind (op_require (\<forall>e \<in> set events. aggregate_id e = uuid_str work_id)
       (ValueError ''fenced events must belong to the leased work'')) (\<lambda>_.
     op_bind (op_require (\<forall>e \<in> set events.
           map_of (payload e) ''lease_token'' = Some (JStr (uuid_str lease_token))
           \<and> json_get_eq_int (map_of (payload e) ''lease_generation'') lease_generation)
       (ValueError ''fenced event payload does not match lease'')) (\<lambda>_.
     tenant_transaction (
       op_bind (op_gets (\<lambda>s. sql_one (fence_matches now tenant work_id lease_token lease_generation)
           (db_work_leases s))) (\<lambda>row.
       op_bind (op_require (row \<noteq> None) (FencingError lease_generation 0)) (\<lambda>_.
       op_bind (append_in_transaction now events expected_version outbox) (\<lambda>version.
       op_bind (case mutation of None \<Rightarrow> op_return () | Some m \<Rightarrow> m) (\<lambda>_.
       op_return version)))))))))"

section \<open>Reading\<close>

definition validate_page_arguments :: "int \<Rightarrow> int \<Rightarrow> unit res" where
  "validate_page_arguments cursor limit =
     res_bind (require (0 \<le> cursor) (ValueError ''cursor cannot be negative'')) (\<lambda>_.
     require (1 \<le> limit \<and> limit \<le> 1000) (ValueError ''page limit must be between 1 and 1000''))"

definition in_stream :: "string \<Rightarrow> string \<Rightarrow> event_row \<Rightarrow> bool" where
  "in_stream tenant aggregate r = (er_tenant_id r = tenant \<and> er_aggregate_id r = aggregate)"

definition select_stream :: "'z db_scheme \<Rightarrow> string \<Rightarrow> string \<Rightarrow> int \<Rightarrow> int \<Rightarrow> event_row list" where
  "select_stream s tenant aggregate after_version limit =
     take (nat limit) (sort_key er_aggregate_sequence
       (filter (\<lambda>r. in_stream tenant aggregate r \<and> after_version < er_aggregate_sequence r) (db_events s)))"

text \<open>
  \<^verbatim>\<open>read_stream\<close> is a generator: what it yields, and the exception that ends it if one does.
\<close>

fun yield_stream :: "int \<Rightarrow> event_row list \<Rightarrow> EventEnvelope list \<times> py_error option" where
  "yield_stream expected [] = ([], None)"
| "yield_stream expected (r # rows) =
     (case event_from_row r None of
        Inl e \<Rightarrow> ([], Some e)
      | Inr ev \<Rightarrow>
          if aggregate_sequence ev \<noteq> expected + 1
          then ([], Some (ReplayCorruptionError ''aggregate sequence gap''))
          else (case yield_stream (expected + 1) rows of (evs, err) \<Rightarrow> (ev # evs, err)))"

definition read_stream ::
  "string \<Rightarrow> string \<Rightarrow> int \<Rightarrow> int \<Rightarrow> 'z db_scheme \<Rightarrow> EventEnvelope list \<times> py_error option" where
  "read_stream tenant aggregate after_version limit s =
     (case validate_page_arguments after_version limit of
        Inl e \<Rightarrow> ([], Some e)
      | Inr _ \<Rightarrow> yield_stream after_version (select_stream s tenant aggregate after_version limit))"

definition stream_version :: "'z db_scheme \<Rightarrow> string \<Rightarrow> string \<Rightarrow> int" where
  "stream_version s tenant aggregate =
     (case sql_one (is_head tenant aggregate) (db_heads s) of
        None \<Rightarrow> 0 | Some h \<Rightarrow> hd_current_version h)"

definition current_version :: "string \<Rightarrow> string \<Rightarrow> ('z db_scheme, int) op" where
  "current_version tenant aggregate =
     op_bind (op_require (aggregate \<noteq> []) (ValueError ''aggregate_id is required'')) (\<lambda>_.
     tenant_transaction (op_gets (\<lambda>s. stream_version s tenant aggregate)))"

text \<open>\<^verbatim>\<open>lag(aggregate_sequence) OVER (PARTITION BY tenant_id, aggregate_id ORDER BY aggregate_sequence)\<close>.\<close>

definition lag_sequence :: "event_row list \<Rightarrow> event_row \<Rightarrow> int option" where
  "lag_sequence rows r =
     (let before = filter (\<lambda>n. n < er_aggregate_sequence r)
            (map er_aggregate_sequence (filter (in_stream (er_tenant_id r) (er_aggregate_id r)) rows))
      in if before = [] then None else Some (fold max (tl before) (hd before)))"

definition select_all :: "'z db_scheme \<Rightarrow> string \<Rightarrow> int \<Rightarrow> int \<Rightarrow> event_row list" where
  "select_all s tenant after_position limit =
     take (nat limit) (sort_key er_global_position
       (filter (\<lambda>r. er_tenant_id r = tenant \<and> after_position < er_global_position r) (db_events s)))"

fun events_from_rows :: "event_row list \<Rightarrow> event_row list \<Rightarrow> EventEnvelope list res" where
  "events_from_rows table [] = Inr []"
| "events_from_rows table (r # rows) =
     res_bind (event_from_row r (lag_sequence table r)) (\<lambda>e.
     res_bind (events_from_rows table rows) (\<lambda>es. Inr (e # es)))"

definition gap_free_row :: "event_row list \<Rightarrow> event_row \<Rightarrow> bool" where
  "gap_free_row table r =
     (er_aggregate_sequence r = (case lag_sequence table r of None \<Rightarrow> 1 | Some p \<Rightarrow> p + 1))"

definition read_all :: "string \<Rightarrow> int \<Rightarrow> int \<Rightarrow> ('z db_scheme, EventPage) op" where
  "read_all tenant after_position limit =
     op_bind (op_lift (validate_page_arguments after_position limit)) (\<lambda>_.
     op_bind (op_gets (\<lambda>s. select_all s tenant after_position limit)) (\<lambda>rows.
     op_bind (op_gets db_events) (\<lambda>table.
     op_bind (op_lift (events_from_rows table rows)) (\<lambda>events.
     op_bind (op_require (\<forall>r \<in> set rows. gap_free_row table r)
       (ReplayCorruptionError ''aggregate sequence gap'')) (\<lambda>_.
     op_return \<lparr>pg_events = events,
       pg_next_cursor = (if int (length events) = limit then global_position (last events) else None)\<rparr>)))))"

section \<open>What an append does\<close>

text \<open>The rows a batch becomes: consecutive sequences and consecutive positions.\<close>

primrec event_rows :: "instant \<Rightarrow> int \<Rightarrow> int \<Rightarrow> EventEnvelope list \<Rightarrow> event_row list" where
  "event_rows now version pos [] = []"
| "event_rows now version pos (e # es) =
     event_insert_values e (version + 1) pos now # event_rows now (version + 1) (pos + 1) es"

lemma event_insert_values_simps [simp]:
  "er_global_position (event_insert_values e sq pos now) = pos"
  "er_event_id (event_insert_values e sq pos now) = event_id e"
  "er_tenant_id (event_insert_values e sq pos now) = ev_tenant_id e"
  "er_aggregate_id (event_insert_values e sq pos now) = aggregate_id e"
  "er_aggregate_sequence (event_insert_values e sq pos now) = sq"
  "er_event_type (event_insert_values e sq pos now) = event_type e"
  "er_idempotency_key (event_insert_values e sq pos now) = idempotency_key e"
  "er_payload (event_insert_values e sq pos now) = payload e"
  by (simp_all add: event_insert_values_def)

lemma length_event_rows [simp]: "length (event_rows now v p es) = length es"
  by (induction es arbitrary: v p) simp_all

lemma insert_event_Inr:
  "insert_event now e sq s = (Inr u, s') \<longleftrightarrow>
     event_row_valid s (event_insert_values e sq (db_next_position s) now)
     \<and> s' = s\<lparr>db_next_position := db_next_position s + 1,
              db_events := db_events s @ [event_insert_values e sq (db_next_position s) now]\<rparr>"
  by (auto simp: insert_event_def op_simps event_row_valid_def)

lemma insert_events_Inr:
  "insert_events now v es s = (Inr v', s') \<Longrightarrow>
     v' = v + int (length es)
     \<and> s' = s\<lparr>db_next_position := db_next_position s + int (length es),
              db_events := db_events s @ event_rows now v (db_next_position s) es\<rparr>"
proof (induction es arbitrary: v s)
  case Nil
  then show ?case by (simp add: op_simps)
next
  case (Cons e es)
  then obtain s1 where "insert_event now e (v + 1) s = (Inr (), s1)" "insert_events now (v + 1) es s1 = (Inr v', s')"
    by (auto simp: op_simps)
  with Cons.IH [of "v + 1" s1] show ?case by (auto simp: insert_event_Inr)
qed

lemma insert_outboxes_Inr:
  "op_iter (insert_outbox t) ms s = (Inr u, s') \<Longrightarrow>
     s' = s\<lparr>db_outbox := db_outbox s @ map (new_outbox_row t) ms\<rparr>"
proof (induction ms arbitrary: s)
  case Nil
  then show ?case by (simp add: op_simps)
next
  case (Cons m ms)
  then obtain s1 where "insert_outbox t m s = (Inr (), s1)" "op_iter (insert_outbox t) ms s1 = (Inr u, s')"
    by (auto simp: op_simps)
  moreover from this(1) have "s1 = s\<lparr>db_outbox := db_outbox s @ [new_outbox_row t m]\<rparr>"
    by (auto simp: insert_outbox_def op_simps)
  ultimately show ?case using Cons.IH [of s1] by simp
qed

definition locks_after :: "'z db_scheme \<Rightarrow> string \<Rightarrow> string list" where
  "locks_after s t = (if t \<in> set (db_commit_locks s) then db_commit_locks s else db_commit_locks s @ [t])"

definition heads_with :: "head_row list \<Rightarrow> string \<Rightarrow> string \<Rightarrow> head_row list" where
  "heads_with hs t a =
     (if sql_one (is_head t a) hs \<noteq> None then hs
      else hs @ [\<lparr>hd_tenant_id = t, hd_aggregate_id = a, hd_current_version = 0\<rparr>])"

definition heads_after :: "head_row list \<Rightarrow> string \<Rightarrow> string \<Rightarrow> int \<Rightarrow> head_row list" where
  "heads_after hs t a v =
     sql_update (is_head t a) (\<lambda>h. h\<lparr>hd_current_version := v\<rparr>) (heads_with hs t a)"

definition same_stream :: "string \<Rightarrow> string \<Rightarrow> EventEnvelope list \<Rightarrow> bool" where
  "same_stream t a es = (\<forall>e \<in> set es. ev_tenant_id e = t \<and> aggregate_id e = a)"

lemma insert_commit_lock_Inr:
  "insert_commit_lock t s = (Inr u, s') \<Longrightarrow> s' = s\<lparr>db_commit_locks := locks_after s t\<rparr>"
  by (auto simp: insert_commit_lock_def op_simps locks_after_def split: if_splits)

lemma insert_head_Inr:
  "insert_head t a s = (Inr u, s') \<Longrightarrow> s' = s\<lparr>db_heads := heads_with (db_heads s) t a\<rparr>"
  by (auto simp: insert_head_def op_simps heads_with_def split: if_splits)

lemma sql_one_append:
  "sql_one P (xs @ ys) = (case sql_one P xs of None \<Rightarrow> sql_one P ys | Some r \<Rightarrow> Some r)"
  by (induction xs) auto

lemma sql_one_heads_with:
  "sql_one (is_head t a) (heads_with hs t a) =
     Some (case sql_one (is_head t a) hs of
       None \<Rightarrow> \<lparr>hd_tenant_id = t, hd_aggregate_id = a, hd_current_version = 0\<rparr> | Some h \<Rightarrow> h)"
  by (auto simp: heads_with_def sql_one_append is_head_def split: option.splits)

lemma append_in_transaction_Inr:
  assumes "append_in_transaction now es ev ob s = (Inr v, s')"
  shows "es \<noteq> []"
    and "v = ev + int (length es)"
    and "stream_version s (ev_tenant_id (hd es)) (aggregate_id (hd es)) = ev"
    and "s' = s\<lparr>db_commit_locks := locks_after s (ev_tenant_id (hd es)),
            db_heads := heads_after (db_heads s) (ev_tenant_id (hd es)) (aggregate_id (hd es)) v,
            db_next_position := db_next_position s + int (length es),
            db_events := db_events s @ event_rows now ev (db_next_position s) es,
            db_outbox := db_outbox s @ map (new_outbox_row (ev_tenant_id (hd es))) ob\<rparr>"
    and "\<exists>s3. insert_events now ev es (s\<lparr>db_commit_locks := locks_after s (ev_tenant_id (hd es)),
            db_heads := heads_with (db_heads s) (ev_tenant_id (hd es)) (aggregate_id (hd es))\<rparr>) = (Inr v, s3)"
proof -
  show ne: "es \<noteq> []" using assms by (auto simp: append_in_transaction_def op_simps)
  define t a where "t = ev_tenant_id (hd es)" and "a = aggregate_id (hd es)"
  define s2 where "s2 = s\<lparr>db_commit_locks := locks_after s t, db_heads := heads_with (db_heads s) t a\<rparr>"
  obtain h where h: "sql_one (is_head t a) (db_heads s2) = Some h" "hd_current_version h = ev"
    and ins: "\<exists>s3. insert_events now ev es s2 = (Inr v, s3)
      \<and> (\<exists>u. op_iter (insert_outbox t) ob (s3\<lparr>db_heads := sql_update (is_head t a)
            (\<lambda>h. h\<lparr>hd_current_version := v\<rparr>) (db_heads s3)\<rparr>) = (Inr u, s'))"
    using assms ne
    by (auto simp: append_in_transaction_def Let_def op_simps t_def a_def s2_def
        dest!: insert_commit_lock_Inr insert_head_Inr split: list.splits option.splits)
  from ins obtain s3 where s3: "insert_events now ev es s2 = (Inr v, s3)"
    and out: "\<exists>u. op_iter (insert_outbox t) ob (s3\<lparr>db_heads := sql_update (is_head t a)
            (\<lambda>h. h\<lparr>hd_current_version := v\<rparr>) (db_heads s3)\<rparr>) = (Inr u, s')" by blast
  note r3 = insert_events_Inr [OF s3]
  show "v = ev + int (length es)" using r3 by simp
  show "\<exists>s3. insert_events now ev es (s\<lparr>db_commit_locks := locks_after s t,
      db_heads := heads_with (db_heads s) t a\<rparr>) = (Inr v, s3)" using s3 by (auto simp: s2_def)
  show "stream_version s t a = ev"
    using h by (auto simp: s2_def sql_one_heads_with stream_version_def split: option.splits)
  show "s' = s\<lparr>db_commit_locks := locks_after s t, db_heads := heads_after (db_heads s) t a v,
            db_next_position := db_next_position s + int (length es),
            db_events := db_events s @ event_rows now ev (db_next_position s) es,
            db_outbox := db_outbox s @ map (new_outbox_row t) ob\<rparr>"
    using out r3 by (auto simp: s2_def heads_after_def dest!: insert_outboxes_Inr)
qed

section \<open>The ledger invariant\<close>

text \<open>
  Stream heads have distinct keys and cover every event; the sequences of a stream are
  \<open>1, 2, \<dots>\<close> up to the version of its head, in table order; positions are positive, strictly increase and stay below
  the identity sequence; event identifiers are unique per tenant.
\<close>

definition ledger_inv :: "'z db_scheme \<Rightarrow> bool" where
  "ledger_inv s =
     (distinct (map (\<lambda>h. (hd_tenant_id h, hd_aggregate_id h)) (db_heads s))
      \<and> (\<forall>h \<in> set (db_heads s). 0 \<le> hd_current_version h
           \<and> map er_aggregate_sequence (filter (in_stream (hd_tenant_id h) (hd_aggregate_id h)) (db_events s))
             = [1 .. hd_current_version h])
      \<and> (\<forall>r \<in> set (db_events s). \<exists>h \<in> set (db_heads s). is_head (er_tenant_id r) (er_aggregate_id r) h)
      \<and> sorted_wrt (<) (map er_global_position (db_events s))
      \<and> (\<forall>r \<in> set (db_events s). 1 \<le> er_global_position r \<and> er_global_position r < db_next_position s)
      \<and> 1 \<le> db_next_position s
      \<and> distinct (map (\<lambda>r. (er_tenant_id r, er_event_id r)) (db_events s)))"

lemma ledger_inv_cong:
  "db_heads s = db_heads s' \<Longrightarrow> db_events s = db_events s' \<Longrightarrow> db_next_position s \<le> db_next_position s'
   \<Longrightarrow> ledger_inv s \<Longrightarrow> ledger_inv s'"
  by (fastforce simp: ledger_inv_def)

lemma sequences_event_rows:
  "map er_aggregate_sequence (event_rows now v p es) = [v + 1 .. v + int (length es)]"
  by (induction es arbitrary: v p) (simp_all add: upto_rec1 [of "_ + 1" "_ + (1 + _)"] algebra_simps)

lemma positions_event_rows:
  "map er_global_position (event_rows now v p es) = [p .. p + int (length es) - 1]"
  by (induction es arbitrary: v p) (simp_all add: upto_rec1 algebra_simps)

lemma in_event_rows:
  "r \<in> set (event_rows now v p es) \<Longrightarrow> \<exists>e \<in> set es. er_tenant_id r = ev_tenant_id e
     \<and> er_aggregate_id r = aggregate_id e \<and> er_event_id r = event_id e
     \<and> er_event_type r = event_type e \<and> er_payload r = payload e"
  by (induction es arbitrary: v p) auto

lemma filter_stream_rows:
  assumes "same_stream t a es"
  shows "filter (in_stream t' a') (event_rows now v p es)
    = (if t' = t \<and> a' = a then event_rows now v p es else [])"
  using assms by (induction es arbitrary: v p) (auto simp: same_stream_def in_stream_def)

lemma upto_extend: "0 \<le> v \<Longrightarrow> [1 .. v] @ [v + 1 .. v + int n] = [1 .. v + int n]"
proof (induction n)
  case 0
  then show ?case by simp
next
  case (Suc n)
  have "[v + 1 .. v + int (Suc n)] = [v + 1 .. v + int n] @ [v + int (Suc n)]"
    using upto_rec2 [of "v + 1" "v + int (Suc n)"] by simp
  moreover have "[1 .. v + int (Suc n)] = [1 .. v + int n] @ [v + int (Suc n)]"
    using upto_rec2 [of 1 "v + int (Suc n)"] Suc.prems by simp
  ultimately show ?case using Suc by (metis append.assoc)
qed

text \<open>The heads after an append: keys stay distinct, only the target's version moves.\<close>

lemma heads_with_keys:
  "distinct (map (\<lambda>h. (hd_tenant_id h, hd_aggregate_id h)) hs) \<Longrightarrow>
   distinct (map (\<lambda>h. (hd_tenant_id h, hd_aggregate_id h)) (heads_with hs t a))"
  by (auto simp: heads_with_def sql_one_None_iff is_head_def)

lemma heads_after_keys:
  "map (\<lambda>h. (hd_tenant_id h, hd_aggregate_id h)) (heads_after hs t a v)
   = map (\<lambda>h. (hd_tenant_id h, hd_aggregate_id h)) (heads_with hs t a)"
  by (simp add: heads_after_def)

lemma in_heads_after:
  assumes "h \<in> set (heads_after hs t a v)"
  shows "(is_head t a h \<and> hd_current_version h = v) \<or> (\<not> is_head t a h \<and> h \<in> set hs)"
proof -
  have w: "g \<in> set hs \<or> is_head t a g" if "g \<in> set (heads_with hs t a)" for g
    using that by (auto simp: heads_with_def is_head_def split: if_splits)
  from assms consider "h \<in> set (heads_with hs t a)" "\<not> is_head t a h"
    | q where "is_head t a q" "h = q\<lparr>hd_current_version := v\<rparr>"
    unfolding heads_after_def in_sql_update_iff by blast
  then show ?thesis
  proof cases
    case 1
    then show ?thesis using w by blast
  next
    case 2
    then show ?thesis by (simp add: is_head_def)
  qed
qed

lemma heads_after_covers: "\<exists>h \<in> set (heads_after hs t a v). is_head t a h"
proof -
  obtain h where "sql_one (is_head t a) (heads_with hs t a) = Some h"
    by (simp add: sql_one_heads_with)
  then have h: "h \<in> set (heads_with hs t a)" "is_head t a h" by (auto dest: sql_one_Some)
  then have "h\<lparr>hd_current_version := v\<rparr> \<in> set (heads_after hs t a v)"
    unfolding heads_after_def in_sql_update_iff by blast
  then show ?thesis using h(2) by (rule_tac bexI) (simp_all add: is_head_def)
qed

lemma heads_after_keeps:
  assumes "h \<in> set hs"
  shows "\<exists>h' \<in> set (heads_after hs t a v). hd_tenant_id h' = hd_tenant_id h \<and> hd_aggregate_id h' = hd_aggregate_id h"
proof -
  have "h \<in> set (heads_with hs t a)" using assms by (simp add: heads_with_def)
  then have "(if is_head t a h then h\<lparr>hd_current_version := v\<rparr> else h) \<in> set (heads_after hs t a v)"
    unfolding heads_after_def set_sql_update by blast
  then show ?thesis by (rule_tac bexI) (simp_all split: if_splits)
qed

lemma stream_version_head:
  assumes "ledger_inv s"
  shows "map er_aggregate_sequence (filter (in_stream t a) (db_events s)) = [1 .. stream_version s t a]
    \<and> 0 \<le> stream_version s t a"
proof (cases "sql_one (is_head t a) (db_heads s)")
  case (Some h)
  then have "h \<in> set (db_heads s)" "hd_tenant_id h = t" "hd_aggregate_id h = a"
    by (auto dest: sql_one_Some simp: is_head_def)
  with assms Some show ?thesis by (force simp: ledger_inv_def stream_version_def)
next
  case None
  then have "filter (in_stream t a) (db_events s) = []"
    using assms unfolding ledger_inv_def sql_one_None_iff filter_empty_conv in_stream_def by metis
  with None show ?thesis by (simp add: stream_version_def)
qed

lemma insert_events_ids:
  assumes "insert_events now v es s = (Inr v', s')"
    and "distinct (map (\<lambda>r. (er_tenant_id r, er_event_id r)) (db_events s))"
  shows "distinct (map (\<lambda>r. (er_tenant_id r, er_event_id r)) (db_events s'))"
  using assms
proof (induction es arbitrary: v s)
  case Nil
  then show ?case by (simp add: op_simps)
next
  case (Cons e es)
  then obtain s1 where s1: "insert_event now e (v + 1) s = (Inr (), s1)" "insert_events now (v + 1) es s1 = (Inr v', s')"
    by (auto simp: op_simps)
  have "distinct (map (\<lambda>r. (er_tenant_id r, er_event_id r)) (db_events s1))"
    using s1(1) Cons.prems(2) by (auto simp: insert_event_Inr event_row_valid_def)
  with Cons.IH s1(2) show ?case by blast
qed

lemma append_in_transaction_ids:
  assumes "append_in_transaction now es ev ob s = (Inr v, s')"
    and "distinct (map (\<lambda>r. (er_tenant_id r, er_event_id r)) (db_events s))"
  shows "distinct (map (\<lambda>r. (er_tenant_id r, er_event_id r)) (db_events s'))"
proof -
  obtain s3 where s3: "insert_events now ev es (s\<lparr>db_commit_locks := locks_after s (ev_tenant_id (hd es)),
      db_heads := heads_with (db_heads s) (ev_tenant_id (hd es)) (aggregate_id (hd es))\<rparr>) = (Inr v, s3)"
    using append_in_transaction_Inr(5) [OF assms(1)] by blast
  have "distinct (map (\<lambda>r. (er_tenant_id r, er_event_id r)) (db_events s3))"
    by (rule insert_events_ids [OF s3]) (simp add: assms(2))
  moreover have "db_events s3 = db_events s'"
    using insert_events_Inr [OF s3] append_in_transaction_Inr(4) [OF assms(1)] by simp
  ultimately show ?thesis by simp
qed

lemma append_in_transaction_inv:
  assumes inv: "ledger_inv s"
    and app: "append_in_transaction now es ev ob s = (Inr v, s')"
    and st: "same_stream t a es"
  shows "ledger_inv s'"
proof -
  note r = append_in_transaction_Inr [OF app]
  have ta: "ev_tenant_id (hd es) = t" "aggregate_id (hd es) = a"
    using st r(1) by (auto simp: same_stream_def)
  have s': "db_heads s' = heads_after (db_heads s) t a v" "db_next_position s' = db_next_position s + int (length es)"
    "db_events s' = db_events s @ event_rows now ev (db_next_position s) es"
    using r(4) by (simp_all add: ta)
  have ver: "stream_version s t a = ev" using r(3) by (simp add: ta)
  have pos0: "1 \<le> db_next_position s" using inv by (simp add: ledger_inv_def)
  have seqs: "0 \<le> hd_current_version h \<and>
      map er_aggregate_sequence (filter (in_stream (hd_tenant_id h) (hd_aggregate_id h)) (db_events s'))
        = [1 .. hd_current_version h]" if h: "h \<in> set (db_heads s')" for h
  proof (cases "is_head t a h")
    case True
    with in_heads_after [of h "db_heads s" t a v] h s' have "hd_current_version h = v" "hd_tenant_id h = t" "hd_aggregate_id h = a"
      by (auto simp: is_head_def)
    with stream_version_head [OF inv, of t a] ver r(2) show ?thesis
      by (simp add: s' filter_stream_rows [OF st] sequences_event_rows upto_extend)
  next
    case False
    with in_heads_after [of h "db_heads s" t a v] h s' have old: "h \<in> set (db_heads s)" by auto
    from False have "\<not> (hd_tenant_id h = t \<and> hd_aggregate_id h = a)" by (auto simp: is_head_def)
    with old inv show ?thesis by (auto simp: s' filter_stream_rows [OF st] ledger_inv_def)
  qed
  have cover: "\<exists>h \<in> set (db_heads s'). is_head (er_tenant_id q) (er_aggregate_id q) h" if q: "q \<in> set (db_events s')" for q
  proof (cases "q \<in> set (db_events s)")
    case True
    then obtain h where "h \<in> set (db_heads s)" "is_head (er_tenant_id q) (er_aggregate_id q) h"
      using inv by (auto simp: ledger_inv_def)
    then show ?thesis
      using heads_after_keeps [of h "db_heads s" t a v] by (simp add: s' is_head_def)
  next
    case False
    with q have "er_tenant_id q = t" "er_aggregate_id q = a"
      using st in_event_rows [of q now ev "db_next_position s" es] by (auto simp: s' same_stream_def)
    then show ?thesis using heads_after_covers [of "db_heads s" t a v] by (simp add: s')
  qed
  have new: "db_next_position s \<le> er_global_position q \<and> er_global_position q < db_next_position s + int (length es)"
    if "q \<in> set (event_rows now ev (db_next_position s) es)" for q
    using imageI [OF that, of er_global_position]
    by (simp only: list.set_map [symmetric] positions_event_rows set_upto) simp
  have old: "1 \<le> er_global_position q \<and> er_global_position q < db_next_position s" if "q \<in> set (db_events s)" for q
    using inv that by (simp add: ledger_inv_def)
  have range: "1 \<le> er_global_position q \<and> er_global_position q < db_next_position s'" if "q \<in> set (db_events s')" for q
    using that new [of q] old [of q] pos0 by (auto simp: s')
  have "sorted_wrt (<) (map er_global_position (event_rows now ev (db_next_position s) es))"
    unfolding positions_event_rows by (rule sorted_wrt_upto)
  moreover have "sorted_wrt (<) (map er_global_position (db_events s))"
    using inv by (simp add: ledger_inv_def)
  ultimately have sorted: "sorted_wrt (<) (map er_global_position (db_events s'))"
    using new old by (force simp: s' sorted_wrt_append)
  have keys: "distinct (map (\<lambda>h. (hd_tenant_id h, hd_aggregate_id h)) (db_heads s'))"
    using inv heads_with_keys [of "db_heads s" t a] by (simp add: s' heads_after_keys ledger_inv_def)
  have ids: "distinct (map (\<lambda>r. (er_tenant_id r, er_event_id r)) (db_events s'))"
    using append_in_transaction_ids [OF app] inv by (simp add: ledger_inv_def)
  show ?thesis
    unfolding ledger_inv_def using seqs cover range sorted keys ids pos0 s'(2) by auto
qed

section \<open>Validation, outcomes and concurrency\<close>

lemma validate_append_Inr:
  "validate_append tenant es ev = Inr u \<longleftrightarrow>
     0 \<le> ev \<and> es \<noteq> [] \<and> same_stream tenant (aggregate_id (hd es)) es
     \<and> (\<forall>e \<in> set es. aggregate_sequence e = 0 \<and> global_position e = None)"
  by (auto simp: validate_append_def res_bind_Inr_iff same_stream_def)

lemma append_events_Inr:
  "append_events now tenant es ev ob s = (Inr v, s') \<longleftrightarrow>
     validate_append tenant es ev = Inr () \<and> append_in_transaction now es ev ob s = (Inr v, s')"
  by (auto simp: append_events_def op_simps)

lemma insert_events_position:
  "insert_events now v es s = (r, s') \<Longrightarrow> db_next_position s \<le> db_next_position s'"
proof (induction es arbitrary: v s)
  case Nil
  then show ?case by (simp add: op_simps)
next
  case (Cons e es)
  obtain r1 s1 where e: "insert_event now e (v + 1) s = (r1, s1)" by fastforce
  then have le: "db_next_position s \<le> db_next_position s1"
    by (auto simp: insert_event_def op_eval split: if_splits)
  show ?case
  proof (cases r1)
    case (Inl x)
    with Cons.prems e le show ?thesis by simp
  next
    case (Inr x)
    with Cons e le show ?thesis by fastforce
  qed
qed

lemma insert_outboxes_position:
  "op_iter (insert_outbox t) ms s = (r, s') \<Longrightarrow> db_next_position s' = db_next_position s"
proof (induction ms arbitrary: s)
  case Nil
  then show ?case by (simp add: op_simps)
next
  case (Cons m ms)
  obtain r1 s1 where m: "insert_outbox t m s = (r1, s1)" by fastforce
  then have eq: "db_next_position s1 = db_next_position s"
    by (auto simp: insert_outbox_def op_eval split: if_splits)
  show ?case using Cons m eq by (cases r1) fastforce+
qed

text \<open>An operation that never rewinds the identity sequence.\<close>

definition position_grows :: "('z db_scheme, 'a) op \<Rightarrow> bool" where
  "position_grows m = (\<forall>s r s'. m s = (r, s') \<longrightarrow> db_next_position s \<le> db_next_position s')"

lemma position_grows_bind [intro]:
  assumes "position_grows m" and "\<And>a. position_grows (k a)"
  shows "position_grows (op_bind m k)"
  unfolding position_grows_def
proof (intro allI impI)
  fix s r s'
  assume b: "op_bind m k s = (r, s')"
  obtain r1 s1 where m: "m s = (r1, s1)" by fastforce
  then have "db_next_position s \<le> db_next_position s1"
    using assms(1) by (auto simp: position_grows_def)
  moreover have "db_next_position s1 \<le> db_next_position s'"
    using b m assms(2) by (cases r1) (auto simp: position_grows_def)
  ultimately show "db_next_position s \<le> db_next_position s'" by simp
qed

lemma position_grows_simps [intro]:
  "position_grows (op_return a)" "position_grows (op_raise e)" "position_grows (op_gets f)"
  "position_grows (op_require b e)" "position_grows (op_lift r)"
  by (auto simp: position_grows_def op_eval)

lemma position_grows_modify:
  "(\<And>s. db_next_position s \<le> db_next_position (f s)) \<Longrightarrow> position_grows (op_modify f)"
  by (auto simp: position_grows_def op_eval)

lemma position_grows_if [intro]:
  "position_grows m \<Longrightarrow> position_grows n \<Longrightarrow> position_grows (if b then m else n)"
  by simp

lemma position_grows_option [intro]:
  "position_grows m \<Longrightarrow> (\<And>a. position_grows (n a)) \<Longrightarrow> position_grows (case x of None \<Rightarrow> m | Some a \<Rightarrow> n a)"
  by (cases x) simp_all

lemma position_grows_append [intro]: "position_grows (append_in_transaction now es ev ob)"
proof -
  have ie: "position_grows (insert_events now v fs)" for v fs
    using insert_events_position by (auto simp: position_grows_def)
  have i1: "position_grows (insert_event now e v)" for e v
    unfolding insert_event_def by (auto simp: position_grows_def op_eval)
  have oi: "position_grows (op_iter (insert_outbox t) ob)" for t
    using insert_outboxes_position by (fastforce simp: position_grows_def)
  show ?thesis
    unfolding append_in_transaction_def Let_def insert_commit_lock_def insert_head_def
    by (cases es) (auto intro!: position_grows_bind position_grows_modify position_grows_option ie i1 oi)
qed

lemma failed_transaction:
  assumes "tenant_transaction m s = (Inl e, s')" and "position_grows m"
  shows "s' = s\<lparr>db_next_position := db_next_position s'\<rparr> \<and> db_next_position s \<le> db_next_position s'"
  using assms by (auto simp: tenant_transaction_Inl position_grows_def)

lemma failed_transaction_inv:
  assumes "tenant_transaction m s = (Inl e, s')" and "position_grows m" and "ledger_inv s"
  shows "ledger_inv s'"
proof -
  obtain p where p: "s' = s\<lparr>db_next_position := p\<rparr>" "db_next_position s \<le> p"
    using failed_transaction [OF assms(1,2)] by (metis (full_types))
  show ?thesis by (rule ledger_inv_cong [OF _ _ _ assms(3)]) (simp_all add: p)
qed

text \<open>A stale expected version: the actual version is reported and nothing changes.\<close>

lemma append_in_transaction_conflict:
  assumes "es \<noteq> []" and "same_stream t a es" and "t \<in> set (db_tenants s)" and "a \<noteq> []"
    and "stream_version s t a \<noteq> ev"
  shows "\<exists>s1. append_in_transaction now es ev ob s = (Inl (ConcurrencyError ev (stream_version s t a)), s1)
    \<and> db_next_position s1 = db_next_position s"
proof -
  obtain e es' where es: "es = e # es'" "ev_tenant_id e = t" "aggregate_id e = a"
    using assms(1,2) by (cases es) (auto simp: same_stream_def)
  have lock: "insert_commit_lock t q = (Inr (), q\<lparr>db_commit_locks := locks_after q t\<rparr>)"
    if "t \<in> set (db_tenants q)" for q using that by (simp add: insert_commit_lock_def op_eval locks_after_def)
  have head: "insert_head t a q = (Inr (), q\<lparr>db_heads := heads_with (db_heads q) t a\<rparr>)"
    if "t \<in> set (db_tenants q)" for q using that assms(4) by (simp add: insert_head_def op_eval heads_with_def)
  define h where "h = (case sql_one (is_head t a) (db_heads s) of
    None \<Rightarrow> \<lparr>hd_tenant_id = t, hd_aggregate_id = a, hd_current_version = 0\<rparr> | Some h \<Rightarrow> h)"
  have "hd_current_version h = stream_version s t a"
    by (simp add: h_def stream_version_def split: option.splits)
  with assms(3,5) show ?thesis
    by (simp add: append_in_transaction_def es Let_def lock head op_gets_def sql_one_heads_with
        h_def [symmetric] op_require_def op_raise_def)
qed

lemma append_events_conflict:
  assumes "validate_append t es ev = Inr ()" and "t \<in> set (db_tenants s)" and "aggregate_id (hd es) \<noteq> []"
    and "stream_version s t (aggregate_id (hd es)) \<noteq> ev"
  shows "append_events now t es ev ob s = (Inl (ConcurrencyError ev (stream_version s t (aggregate_id (hd es)))), s)"
proof -
  from assms(1) have v: "es \<noteq> []" "same_stream t (aggregate_id (hd es)) es" by (auto simp: validate_append_Inr)
  obtain s1 where "append_in_transaction now es ev ob s
      = (Inl (ConcurrencyError ev (stream_version s t (aggregate_id (hd es)))), s1)"
    and "db_next_position s1 = db_next_position s"
    using append_in_transaction_conflict [OF v assms(2,3,4)] by blast
  then show ?thesis
    using assms(1) by (simp add: append_events_def op_lift_def tenant_transaction_Inl)
qed

lemma append_events_inv:
  assumes "ledger_inv s" and "append_events now t es ev ob s = (r, s')"
  shows "ledger_inv s'"
proof (cases r)
  case (Inr v)
  with assms show ?thesis
    by (auto simp: append_events_Inr validate_append_Inr intro: append_in_transaction_inv)
next
  case (Inl e)
  show ?thesis
  proof (cases "validate_append t es ev")
    case (Inl x)
    with assms show ?thesis by (simp add: append_events_def op_lift_def)
  next
    case (Inr u)
    with assms Inl have tx: "tenant_transaction (append_in_transaction now es ev ob) s = (Inl e, s')"
      by (simp add: append_events_def op_lift_def)
    show ?thesis by (rule failed_transaction_inv [OF tx position_grows_append assms(1)])
  qed
qed

section \<open>Writing and reading back\<close>

text \<open>An envelope as the ledger returns it: sequence, position and times are the row's.\<close>

definition stored_envelope :: "EventEnvelope \<Rightarrow> int \<Rightarrow> int \<Rightarrow> instant \<Rightarrow> int option \<Rightarrow> EventEnvelope" where
  "stored_envelope e sq pos now prev =
     e\<lparr>aggregate_sequence := sq, global_position := Some pos,
       occurred_at := dt_of_instant (dt_instant (occurred_at e)),
       recorded_at := Some (dt_of_instant now), previous_aggregate_sequence := prev\<rparr>"

definition refs_ok :: "EventEnvelope \<Rightarrow> bool" where
  "refs_ok e = ((\<forall>a \<in> set_option (actor e). actor_id a \<noteq> [])
     \<and> (\<forall>t \<in> set_option (trace_context e). traceparent t \<noteq> []))"

lemma event_from_row_insert:
  assumes "envelope_ok e" and "refs_ok e" and "0 \<le> sq" and "1 \<le> pos"
    and "\<forall>p \<in> set_option prev. 0 \<le> p"
  shows "event_from_row (event_insert_values e sq pos now) prev = Inr (stored_envelope e sq pos now prev)"
proof -
  have stored: "envelope_ok (stored_envelope e sq pos now prev)"
    using assms by (auto simp: stored_envelope_def envelope_ok_def)
  then have new: "new_envelope (stored_envelope e sq pos now prev) = Inr (stored_envelope e sq pos now prev)"
    by (intro new_envelope_Inr [THEN iffD2]) (auto simp: envelope_ok_def)
  have a: "(case er_actor_id (event_insert_values e sq pos now) of None \<Rightarrow> Inr None
      | Some a \<Rightarrow> res_bind (case er_actor_kind (event_insert_values e sq pos now) of
           None \<Rightarrow> Inl (ValueError ''is not a valid ActorKind'') | Some k \<Rightarrow> ActorKind_of k)
         (\<lambda>kind. res_bind (new_ActorReference a kind) (\<lambda>act. Inr (Some act)))) = Inr (actor e)"
    using assms(2) by (auto simp: event_insert_values_def refs_ok_def new_ActorReference_def split: option.splits)
  have t: "(case er_traceparent (event_insert_values e sq pos now) of None \<Rightarrow> Inr None
      | Some p \<Rightarrow> res_bind (new_TraceContext p (er_tracestate (event_insert_values e sq pos now)))
          (\<lambda>t. Inr (Some t))) = Inr (trace_context e)"
    using assms(2) by (auto simp: event_insert_values_def refs_ok_def new_TraceContext_def split: option.splits)
  show ?thesis
    unfolding event_from_row_def a t res_bind_simps
    using new by (cases e) (simp add: event_insert_values_def stored_envelope_def)
qed

text \<open>Every row of a database was decodable when it was written, if the envelopes were valid.\<close>

definition row_ok :: "event_row \<Rightarrow> bool" where
  "row_ok r = (\<exists>e. \<forall>prev. (\<forall>p \<in> set_option prev. 0 \<le> p) \<longrightarrow>
     event_from_row r prev = Inr (stored_envelope e (er_aggregate_sequence r) (er_global_position r)
       (er_recorded_at r) prev))"

lemma row_ok_event_rows:
  "\<forall>e \<in> set es. envelope_ok e \<and> refs_ok e \<Longrightarrow> 0 \<le> v \<Longrightarrow> 1 \<le> p \<Longrightarrow>
   r \<in> set (event_rows now v p es) \<Longrightarrow> row_ok r"
proof (induction es arbitrary: v p)
  case Nil
  then show ?case by simp
next
  case (Cons e es)
  show ?case
  proof (cases "r = event_insert_values e (v + 1) p now")
    case True
    moreover have "er_recorded_at (event_insert_values e (v + 1) p now) = now"
      by (simp add: event_insert_values_def)
    ultimately show ?thesis
      using Cons.prems event_from_row_insert [of e "v + 1" p _ now] by (auto simp: row_ok_def)
  next
    case False
    with Cons.prems have "r \<in> set (event_rows now (v + 1) (p + 1) es)" by simp
    with Cons.prems show ?thesis by (intro Cons.IH [of "v + 1" "p + 1"]) auto
  qed
qed

fun stored_batch :: "instant \<Rightarrow> int \<Rightarrow> int \<Rightarrow> EventEnvelope list \<Rightarrow> EventEnvelope list" where
  "stored_batch now v p [] = []"
| "stored_batch now v p (e # es) = stored_envelope e (v + 1) p now None # stored_batch now (v + 1) (p + 1) es"

lemma yield_event_rows:
  "\<forall>e \<in> set es. envelope_ok e \<and> refs_ok e \<Longrightarrow> 0 \<le> v \<Longrightarrow> 1 \<le> p \<Longrightarrow>
   yield_stream v (event_rows now v p es) = (stored_batch now v p es, None)"
proof (induction es arbitrary: v p)
  case Nil
  then show ?case by simp
next
  case (Cons e es)
  then have "event_from_row (event_insert_values e (v + 1) p now) None = Inr (stored_envelope e (v + 1) p now None)"
    by (intro event_from_row_insert) auto
  moreover have "aggregate_sequence (stored_envelope e (v + 1) p now None) = v + 1"
    by (simp add: stored_envelope_def)
  ultimately show ?case using Cons by simp
qed

lemma sort_key_sorted: "sorted (map f xs) \<Longrightarrow> sort_key f xs = xs"
  by (induction xs) (auto simp: insort_is_Cons)

text \<open>The rows of a stream after the version an append started from are the batch it wrote.\<close>

lemma select_stream_append:
  assumes "ledger_inv s" and "append_in_transaction now es ev ob s = (Inr v, s')"
    and "same_stream t a es"
  shows "select_stream s' t a ev (int (length es)) = event_rows now ev (db_next_position s) es"
proof -
  note r = append_in_transaction_Inr [OF assms(2)]
  have ta: "ev_tenant_id (hd es) = t" "aggregate_id (hd es) = a"
    using assms(3) r(1) by (auto simp: same_stream_def)
  let ?new = "event_rows now ev (db_next_position s) es"
  have "stream_version s t a = ev" using r(3) ta by simp
  with stream_version_head [OF assms(1), of t a]
  have old: "map er_aggregate_sequence (filter (in_stream t a) (db_events s)) = [1 .. ev]" by simp
  have "er_aggregate_sequence q \<le> ev" if "q \<in> set (db_events s)" "in_stream t a q" for q
  proof -
    have "er_aggregate_sequence q \<in> set (map er_aggregate_sequence (filter (in_stream t a) (db_events s)))"
      using that by auto
    then show ?thesis unfolding old by simp
  qed
  then have none: "filter (\<lambda>r. in_stream t a r \<and> ev < er_aggregate_sequence r) (db_events s) = []"
    by (force simp: filter_empty_conv)
  have gt: "ev < er_aggregate_sequence q" if "q \<in> set ?new" for q
    using imageI [OF that, of er_aggregate_sequence]
    by (simp only: list.set_map [symmetric] sequences_event_rows set_upto) simp
  have "filter (in_stream t a) ?new = ?new" using filter_stream_rows [OF assms(3), of t a] by simp
  then have all: "filter (\<lambda>r. in_stream t a r \<and> ev < er_aggregate_sequence r) ?new = ?new"
    using gt unfolding filter_id_conv by blast
  have "sorted (map er_aggregate_sequence ?new)"
    unfolding sequences_event_rows by (rule sorted_upto)
  then show ?thesis
    using r(4) none all by (simp add: select_stream_def ta sort_key_sorted)
qed

section \<open>Optimistic concurrency as an interface\<close>

text \<open>
  What writers rely on: \<open>put\<close> appends a batch to the stream its key names, only at the version the
  writer expected, and reports the actual version otherwise without changing anything.
\<close>

locale versioned_store =
  fixes put :: "'b \<Rightarrow> int \<Rightarrow> 's \<Rightarrow> int res \<times> 's"
    and version :: "'s \<Rightarrow> 'k \<Rightarrow> int"
    and key_of :: "'b \<Rightarrow> 'k"
    and batch_size :: "'b \<Rightarrow> nat"
    and admits :: "'b \<Rightarrow> int \<Rightarrow> 's \<Rightarrow> bool"
  assumes put_ok: "put b v s = (Inr w, s') \<Longrightarrow>
      version s (key_of b) = v \<and> w = v + int (batch_size b) \<and> 0 < batch_size b
      \<and> version s' (key_of b) = w \<and> (\<forall>k. k \<noteq> key_of b \<longrightarrow> version s' k = version s k)"
    and put_conflict: "admits b v s \<Longrightarrow> version s (key_of b) \<noteq> v \<Longrightarrow>
      put b v s = (Inl (ConcurrencyError v (version s (key_of b))), s)"
    and put_admits: "put b v s = (Inr w, s') \<Longrightarrow> admits b' v' s \<Longrightarrow> admits b' v' s'"
begin

lemma lost_update_rejected:
  assumes "put b v s = (Inr w, s1)" and "admits b' v s" and "key_of b' = key_of b"
  shows "put b' v s1 = (Inl (ConcurrencyError v w), s1)"
proof -
  from put_ok [OF assms(1)] have "version s1 (key_of b') = w" "w \<noteq> v" by (auto simp: assms(3))
  with put_conflict [OF put_admits [OF assms(1,2)]] show ?thesis by simp
qed

lemma versions_grow:
  assumes "put b v s = (Inr w, s')"
  shows "version s k \<le> version s' k"
  using put_ok [OF assms] by (cases "k = key_of b") auto

end

lemma sql_one_head_update:
  "sql_one (is_head t' a') (sql_update (is_head t a) (\<lambda>h. h\<lparr>hd_current_version := v\<rparr>) hs)
   = map_option (\<lambda>h. if is_head t a h then h\<lparr>hd_current_version := v\<rparr> else h) (sql_one (is_head t' a') hs)"
  by (induction hs) (auto simp: is_head_def)

lemma stream_version_heads_after:
  assumes "db_heads s' = heads_after (db_heads s) t a v"
  shows "stream_version s' t' a' = (if t' = t \<and> a' = a then v else stream_version s t' a')"
proof (cases "t' = t \<and> a' = a")
  case True
  then show ?thesis
    by (auto simp: stream_version_def assms heads_after_def sql_one_head_update sql_one_heads_with is_head_def
        dest!: sql_one_Some split: option.splits)
next
  case False
  have "sql_one (is_head t' a') (heads_with (db_heads s) t a) = sql_one (is_head t' a') (db_heads s)"
    using False by (auto simp: heads_with_def sql_one_append is_head_def split: option.splits)
  then show ?thesis
    using False by (auto simp: stream_version_def assms heads_after_def sql_one_head_update is_head_def
        dest!: sql_one_Some split: option.splits)
qed

lemma append_in_transaction_version:
  assumes "append_in_transaction now es ev ob s = (Inr v, s')" and "same_stream t a es"
  shows "stream_version s' t' a' = (if t' = t \<and> a' = a then v else stream_version s t' a')"
proof -
  note r = append_in_transaction_Inr [OF assms(1)]
  have ta: "ev_tenant_id (hd es) = t" "aggregate_id (hd es) = a"
    using assms(2) r(1) by (auto simp: same_stream_def)
  have "db_heads s' = heads_after (db_heads s) t a v" using r(4) ta by simp
  then show ?thesis by (rule stream_version_heads_after)
qed

text \<open>The ledger as a versioned store; a batch carries its clock reading, tenant and messages.\<close>

type_synonym ledger_batch = "instant \<times> string \<times> EventEnvelope list \<times> OutboxMessage list"

definition ledger_put :: "ledger_batch \<Rightarrow> int \<Rightarrow> 'z db_scheme \<Rightarrow> int res \<times> 'z db_scheme" where
  "ledger_put b ev s = (case b of (now, t, es, ob) \<Rightarrow> append_events now t es ev ob s)"

definition ledger_key :: "ledger_batch \<Rightarrow> string \<times> string" where
  "ledger_key b = (case b of (now, t, es, ob) \<Rightarrow> (t, aggregate_id (hd es)))"

definition ledger_admits :: "ledger_batch \<Rightarrow> int \<Rightarrow> 'z db_scheme \<Rightarrow> bool" where
  "ledger_admits b ev s = (case b of (now, t, es, ob) \<Rightarrow>
     validate_append t es ev = Inr () \<and> t \<in> set (db_tenants s) \<and> aggregate_id (hd es) \<noteq> [])"

lemma append_in_transaction_same_tenant:
  assumes "validate_append t es ev = Inr ()" and "append_in_transaction now es ev ob s = (Inr v, s')"
  shows "ev_tenant_id (hd es) = t"
  using assms append_in_transaction_Inr(1) [OF assms(2)] by (auto simp: validate_append_Inr same_stream_def)

interpretation ledger: versioned_store ledger_put "\<lambda>s (t, a). stream_version s t a" ledger_key
    "\<lambda>(now, t, es, ob). length es" ledger_admits
proof unfold_locales
  fix b :: ledger_batch and v w and s s' :: "'z db_scheme"
  obtain now t es ob where b: "b = (now, t, es, ob)" by (cases b)
  { assume "ledger_put b v s = (Inr w, s')"
    then have va: "validate_append t es v = Inr ()" and app: "append_in_transaction now es v ob s = (Inr w, s')"
      by (simp_all add: b ledger_put_def append_events_Inr)
    note r = append_in_transaction_Inr [OF app]
    have st: "same_stream t (aggregate_id (hd es)) es" using va by (simp add: validate_append_Inr)
    have te: "ev_tenant_id (hd es) = t" by (rule append_in_transaction_same_tenant [OF va app])
    note ver = append_in_transaction_version [OF app st]
    from r(1-3) show "(\<lambda>(t, a). stream_version s t a) (ledger_key b) = v
        \<and> w = v + int ((\<lambda>(now, t, es, ob). length es) b) \<and> 0 < (\<lambda>(now, t, es, ob). length es) b
        \<and> (\<lambda>(t, a). stream_version s' t a) (ledger_key b) = w
        \<and> (\<forall>k. k \<noteq> ledger_key b \<longrightarrow> (\<lambda>(t, a). stream_version s' t a) k = (\<lambda>(t, a). stream_version s t a) k)"
      by (auto simp: b ledger_key_def te ver)
    fix b' v' assume "ledger_admits b' v' s"
    moreover have "db_tenants s' = db_tenants s" using r(4) by simp
    ultimately show "ledger_admits b' v' s'" by (auto simp: ledger_admits_def) }
  assume "ledger_admits b v s" and "(\<lambda>(t, a). stream_version s t a) (ledger_key b) \<noteq> v"
  then show "ledger_put b v s = (Inl (ConcurrencyError v ((\<lambda>(t, a). stream_version s t a) (ledger_key b))), s)"
    by (auto simp: b ledger_admits_def ledger_key_def ledger_put_def intro: append_events_conflict)
qed

section \<open>Deduplication and fencing\<close>

lemma append_from_inbox_Inr:
  assumes "append_from_inbox now t src mid es ev ob mut s = (Inr res, s')"
  shows "src \<noteq> [] \<and> mid \<noteq> [] \<and> validate_append t es ev = Inr ()
    \<and> (case sql_one (is_inbox t src mid) (db_inbox s) of
         Some row \<Rightarrow> ib_aggregate_version row = Some (aggregate_version res) \<and> duplicate res \<and> s' = s
       | None \<Rightarrow> (\<exists>s2. append_in_transaction now es ev ob
             (s\<lparr>db_inbox := db_inbox s @ [\<lparr>ib_tenant_id = t, ib_source = src, ib_message_id = mid,
                ib_received_at = now, ib_processed_at = None, ib_aggregate_version = None\<rparr>]\<rparr>)
             = (Inr (aggregate_version res), s2) \<and> \<not> duplicate res
           \<and> (\<exists>u. (case mut of None \<Rightarrow> op_return () | Some m \<Rightarrow> m)
               (s2\<lparr>db_inbox := sql_update (is_inbox t src mid)
                   (\<lambda>r. r\<lparr>ib_processed_at := Some now, ib_aggregate_version := Some (aggregate_version res)\<rparr>)
                   (db_inbox s2)\<rparr>) = (Inr u, s'))))"
  using assms
  by (auto simp: append_from_inbox_def insert_inbox_def op_simps split: if_splits option.splits
      bind_splits)

definition keeps_inbox :: "('z db_scheme, 'a) op \<Rightarrow> bool" where
  "keeps_inbox m = (\<forall>s r s'. m s = (r, s') \<longrightarrow> db_inbox s' = db_inbox s)"

lemma append_from_inbox_recorded:
  assumes "append_from_inbox now t src mid es ev ob mut s = (Inr res, s')"
    and "\<forall>m \<in> set_option mut. keeps_inbox m"
  shows "\<exists>row. sql_one (is_inbox t src mid) (db_inbox s') = Some row
    \<and> ib_aggregate_version row = Some (aggregate_version res)"
proof (cases "sql_one (is_inbox t src mid) (db_inbox s)")
  case (Some row)
  with append_from_inbox_Inr [OF assms(1)] show ?thesis by auto
next
  case None
  define new where "new = \<lparr>ib_tenant_id = t, ib_source = src, ib_message_id = mid,
    ib_received_at = now, ib_processed_at = None, ib_aggregate_version = None\<rparr>"
  obtain s2 u where s2: "append_in_transaction now es ev ob (s\<lparr>db_inbox := db_inbox s @ [new]\<rparr>)
      = (Inr (aggregate_version res), s2)"
    and m: "(case mut of None \<Rightarrow> op_return () | Some m \<Rightarrow> m)
       (s2\<lparr>db_inbox := sql_update (is_inbox t src mid)
         (\<lambda>r. r\<lparr>ib_processed_at := Some now, ib_aggregate_version := Some (aggregate_version res)\<rparr>)
         (db_inbox s2)\<rparr>) = (Inr u, s')"
    using append_from_inbox_Inr [OF assms(1)] None by (auto simp: new_def)
  have "db_inbox s2 = db_inbox s @ [new]"
    using append_in_transaction_Inr(4) [OF s2] by simp
  moreover have "sql_update (is_inbox t src mid) f (db_inbox s) = db_inbox s" for f
    using None by (intro sql_update_none) (simp add: sql_one_None_iff)
  ultimately have "db_inbox s' = db_inbox s @ [new\<lparr>ib_processed_at := Some now,
      ib_aggregate_version := Some (aggregate_version res)\<rparr>]"
    using m assms(2) by (cases mut) (auto simp: op_simps keeps_inbox_def is_inbox_def new_def)
  then show ?thesis using None by (simp add: sql_one_append is_inbox_def new_def)
qed

lemma append_from_inbox_again:
  assumes "sql_one (is_inbox t src mid) (db_inbox s) = Some row" and "ib_aggregate_version row = Some v"
    and "src \<noteq> []" and "mid \<noteq> []" and "validate_append t es ev = Inr ()"
  shows "append_from_inbox now t src mid es ev ob mut s
    = (Inr \<lparr>aggregate_version = v, duplicate = True\<rparr>, s)"
  using assms
  by (simp add: append_from_inbox_def insert_inbox_def op_eval tenant_transaction_def transaction_def)

lemma append_fenced_Inr:
  "append_fenced now t es ev w tok gen at ob mut s = (Inr v, s') \<longleftrightarrow>
     validate_append t es ev = Inr () \<and> dt_aware at \<and> 1 \<le> gen
     \<and> (\<forall>e \<in> set es. aggregate_id e = uuid_str w)
     \<and> (\<forall>e \<in> set es. map_of (payload e) ''lease_token'' = Some (JStr (uuid_str tok))
          \<and> json_get_eq_int (map_of (payload e) ''lease_generation'') gen)
     \<and> sql_one (fence_matches now t w tok gen) (db_work_leases s) \<noteq> None
     \<and> (\<exists>s2. append_in_transaction now es ev ob s = (Inr v, s2)
          \<and> (\<exists>u. (case mut of None \<Rightarrow> op_return () | Some m \<Rightarrow> m) s2 = (Inr u, s')))"
  by (auto simp: append_fenced_def op_simps)

lemma append_fenced_refused:
  assumes "\<forall>l \<in> set (db_work_leases s). \<not> fence_matches now t w tok gen l"
    and "append_fenced now t es ev w tok gen at ob mut s = (r, s')"
  shows "s' = s \<and> (\<exists>e. r = Inl e \<and> (is_fencing_error e \<or> is_value_error e))"
proof -
  have none: "sql_one (fence_matches now t w tok gen) (db_work_leases s) = None"
    using assms(1) by (simp add: sql_one_None_iff)
  have ve: "validate_append t es ev = Inl e \<Longrightarrow> is_value_error e" for e
    by (auto simp: validate_append_def require_def res_bind_def split: if_splits)
  show ?thesis
    using assms(2) none ve
    by (cases "validate_append t es ev")
       (auto simp: append_fenced_def op_eval tenant_transaction_def transaction_def db_rollback_def
          split: if_splits)
qed

section \<open>Every form of append keeps the ledger invariant\<close>

definition keeps_ledger :: "('z db_scheme, 'a) op \<Rightarrow> bool" where
  "keeps_ledger m = (\<forall>s r s'. m s = (r, s') \<longrightarrow>
     db_heads s' = db_heads s \<and> db_events s' = db_events s \<and> db_next_position s' = db_next_position s)"

definition ledger_safe :: "('z db_scheme, 'a) op \<Rightarrow> bool" where
  "ledger_safe m = (position_grows m \<and> (\<forall>s a s'. ledger_inv s \<longrightarrow> m s = (Inr a, s') \<longrightarrow> ledger_inv s'))"

lemma keeps_ledger_safe: "keeps_ledger m \<Longrightarrow> ledger_safe m"
  by (auto simp: keeps_ledger_def ledger_safe_def position_grows_def intro: ledger_inv_cong)

lemma ledger_safe_bind [intro]:
  assumes "ledger_safe m" and "\<And>a. ledger_safe (k a)"
  shows "ledger_safe (op_bind m k)"
  unfolding ledger_safe_def
proof (intro conjI allI impI)
  show "position_grows (op_bind m k)"
    using assms by (intro position_grows_bind) (simp_all add: ledger_safe_def)
  fix s b s' assume "ledger_inv s" "op_bind m k s = (Inr b, s')"
  then obtain a s1 where "m s = (Inr a, s1)" "k a s1 = (Inr b, s')" "ledger_inv s"
    by (auto simp: op_bind_Inr_iff)
  then show "ledger_inv s'" using assms unfolding ledger_safe_def by blast
qed

lemma ledger_safe_simps [intro]:
  "ledger_safe (op_return a)" "ledger_safe (op_raise e)" "ledger_safe (op_gets f)"
  "ledger_safe (op_require b e)" "ledger_safe (op_lift r)"
  by (auto simp: ledger_safe_def op_simps)

lemma ledger_safe_modify:
  "(\<And>s. db_heads (f s) = db_heads s \<and> db_events (f s) = db_events s \<and> db_next_position (f s) = db_next_position s)
   \<Longrightarrow> ledger_safe (op_modify f)"
  by (rule keeps_ledger_safe) (auto simp: keeps_ledger_def op_simps)

lemma ledger_safe_if [intro]: "ledger_safe m \<Longrightarrow> ledger_safe n \<Longrightarrow> ledger_safe (if b then m else n)"
  by simp

lemma ledger_safe_option [intro]:
  "ledger_safe m \<Longrightarrow> (\<And>a. ledger_safe (n a)) \<Longrightarrow> ledger_safe (case x of None \<Rightarrow> m | Some a \<Rightarrow> n a)"
  by (cases x) simp_all

lemma ledger_safe_append:
  "same_stream t a es \<Longrightarrow> ledger_safe (append_in_transaction now es ev ob)"
  using append_in_transaction_inv by (fastforce simp: ledger_safe_def position_grows_append)

lemma ledger_safe_transaction:
  assumes "ledger_safe m" and "ledger_inv s" and "tenant_transaction m s = (r, s')"
  shows "ledger_inv s'"
proof (cases r)
  case (Inl e)
  with assms show ?thesis by (auto simp: ledger_safe_def intro: failed_transaction_inv)
next
  case (Inr a)
  with assms show ?thesis by (auto simp: ledger_safe_def op_simps)
qed

lemma ledger_safe_mutation:
  "\<forall>m \<in> set_option mut. keeps_ledger m \<Longrightarrow> ledger_safe (case mut of None \<Rightarrow> op_return () | Some m \<Rightarrow> m)"
  by (cases mut) (auto intro: keeps_ledger_safe)

lemma append_atomic_inv:
  assumes "ledger_inv s" and "keeps_ledger mut" and "append_atomic now t es ev mut ob s = (r, s')"
  shows "ledger_inv s'"
proof (cases "validate_append t es ev")
  case (Inl e)
  with assms show ?thesis by (simp add: append_atomic_def op_lift_def)
next
  case (Inr u)
  then have "same_stream t (aggregate_id (hd es)) es" by (simp add: validate_append_Inr)
  then have safe: "ledger_safe (op_bind (append_in_transaction now es ev ob)
      (\<lambda>version. op_bind mut (\<lambda>_. op_return version)))"
    using assms(2) by (auto intro: ledger_safe_append keeps_ledger_safe)
  show ?thesis
    using assms(3) Inr by (intro ledger_safe_transaction [OF safe assms(1)]) (simp add: append_atomic_def op_lift_def)
qed

lemma append_from_inbox_inv:
  assumes "ledger_inv s" and "\<forall>m \<in> set_option mut. keeps_ledger m"
    and "append_from_inbox now t src mid es ev ob mut s = (r, s')"
  shows "ledger_inv s'"
proof (cases "(src \<noteq> [] \<and> mid \<noteq> []) \<and> validate_append t es ev = Inr ()")
  case False
  with assms show ?thesis
    by (cases "validate_append t es ev") (auto simp: append_from_inbox_def op_eval split: if_splits)
next
  case True
  then have "same_stream t (aggregate_id (hd es)) es" by (simp add: validate_append_Inr)
  note app = ledger_safe_append [OF this, of now ev ob] and mu = ledger_safe_mutation [OF assms(2)]
  show ?thesis
    apply (rule ledger_safe_transaction [rotated, OF assms(1)])
     apply (use assms(3) True in \<open>simp add: append_from_inbox_def op_lift_def op_require_def op_return_def\<close>)
    apply (unfold insert_inbox_def)
    apply (auto intro!: ledger_safe_bind ledger_safe_option ledger_safe_modify app mu)
    done
qed

lemma append_fenced_inv:
  assumes "ledger_inv s" and "\<forall>m \<in> set_option mut. keeps_ledger m"
    and "append_fenced now t es ev w tok gen at ob mut s = (r, s')"
  shows "ledger_inv s'"
proof (cases r)
  case (Inr v)
  then obtain s2 u where "validate_append t es ev = Inr ()" "append_in_transaction now es ev ob s = (Inr v, s2)"
    "(case mut of None \<Rightarrow> op_return () | Some m \<Rightarrow> m) s2 = (Inr u, s')"
    using assms(3) by (auto simp: append_fenced_Inr)
  with assms(1) ledger_safe_mutation [OF assms(2)] show ?thesis
    by (auto simp: validate_append_Inr ledger_safe_def dest: append_in_transaction_inv)
next
  case (Inl e)
  show ?thesis
  proof (cases "validate_append t es ev = Inr () \<and> dt_aware at \<and> 1 \<le> gen
     \<and> (\<forall>e \<in> set es. aggregate_id e = uuid_str w)
     \<and> (\<forall>e \<in> set es. map_of (payload e) ''lease_token'' = Some (JStr (uuid_str tok))
          \<and> json_get_eq_int (map_of (payload e) ''lease_generation'') gen)")
    case False
    with assms show ?thesis
      by (cases "validate_append t es ev") (auto simp: append_fenced_def op_eval split: if_splits)
  next
    case True
    then have "validate_append t es ev = Inr ()" by blast
    then have "same_stream t (aggregate_id (hd es)) es" by (simp add: validate_append_Inr)
    note app = ledger_safe_append [OF this, of now ev ob] and mu = ledger_safe_mutation [OF assms(2)]
    show ?thesis
      apply (rule ledger_safe_transaction [rotated, OF assms(1)])
       apply (use assms(3) True in \<open>simp add: append_fenced_def op_lift_def op_require_def op_return_def\<close>)
      apply (auto intro!: ledger_safe_bind app mu ledger_safe_simps(1) [unfolded op_return_def])
      done
  qed
qed

section \<open>Properties of the ledger\<close>

text \<open>Concrete data: a database with one tenant, and a plain event of that tenant.\<close>

definition sample_db :: db where
  "sample_db = \<lparr>db_tenants = [''acme''], db_commit_locks = [], db_heads = [], db_events = [],
     db_next_position = 1, db_inbox = [], db_outbox = [], db_work_items = [], db_work_leases = [],
     db_work_dead_letters = [], db_work_requeue_approvals = []\<rparr>"

definition sample_event :: "uuid \<Rightarrow> string \<Rightarrow> EventEnvelope" where
  "sample_event i a = \<lparr>event_id = i, ev_tenant_id = ''acme'', aggregate_id = a, event_type = ''run.started.v1'',
     schema_version = 1, occurred_at = \<lparr>dt_wall = 1000, dt_offset = Some 0\<rparr>, payload = [],
     correlation_id = None, causation_id = None, aggregate_sequence = 0, global_position = None,
     recorded_at = None, actor = None, identity_reference = None, policy_reference = None,
     audit_reference = None, idempotency_key = None, trace_context = None,
     previous_aggregate_sequence = None, metadata = []\<rparr>"

lemma sample_db_inv: "ledger_inv sample_db"
  by (simp add: ledger_inv_def sample_db_def)

lemma sample_event_ok: "a = ''r'' \<Longrightarrow> envelope_ok (sample_event i a) \<and> refs_ok (sample_event i a)"
  by (simp add: envelope_ok_def refs_ok_def sample_event_def dt_aware_def py_strip_def strip_by_def
      py_isspace_def)

lemma sample_validate: "validate_append ''acme'' [sample_event i a] 0 = Inr ()"
  by (simp add: validate_append_Inr same_stream_def sample_event_def)

lemma sample_append:
  "append_events 5 ''acme'' [sample_event 7 ''r''] 0 [] sample_db
   = (Inr 1, sample_db\<lparr>db_commit_locks := [''acme''],
       db_heads := [\<lparr>hd_tenant_id = ''acme'', hd_aggregate_id = ''r'', hd_current_version = 1\<rparr>],
       db_events := [event_insert_values (sample_event 7 ''r'') 1 1 5], db_next_position := 2\<rparr>)"
  by code_simp

text \<open>
  C1: every form of append keeps the ledger gapless. Whatever an append returns or raises, whether
  plain, deduplicated by inbox or fenced by a lease, and with any in-transaction mutation that leaves the ledger
  tables alone, the streams keep sequences 1, 2, ... up to their head version and positions keep increasing.
\<close>

theorem append_preserves_ledger:
  assumes "ledger_inv s" and "keeps_ledger mut"
  shows "ledger_inv (snd (append_events now t es ev ob s))
    \<and> ledger_inv (snd (append_atomic now t es ev mut ob s))
    \<and> ledger_inv (snd (append_from_inbox now t src mid es ev ob (Some mut) s))
    \<and> ledger_inv (snd (append_fenced now t es ev w tok gen at ob (Some mut) s))"
  using assms append_events_inv [of s now t es ev ob] append_atomic_inv [of s mut now t es ev ob]
    append_from_inbox_inv [of s "Some mut" now t src mid es ev ob]
    append_fenced_inv [of s "Some mut" now t es ev w tok gen at ob]
  by (metis option.set(2) prod.collapse singletonD)

theorem append_preserves_ledger_witness:
  "ledger_inv (snd (append_events 5 ''acme'' [sample_event 7 ''r''] 0 [] sample_db))"
  using append_preserves_ledger [of sample_db "op_return ()" 5 "''acme''" "[sample_event 7 ''r'']" 0 "[]"]
    sample_db_inv by (simp add: keeps_ledger_def op_return_def)



text \<open>
  A lost update is impossible. When a writer has appended at some expected version, every other
  writer that expected the same version of that stream is refused with the actual
  version, and the database does not change.
\<close>

theorem concurrent_append_rejected:
  assumes "append_events now t es ev ob s = (Inr v, s1)"
    and "validate_append t es' ev = Inr ()" and "aggregate_id (hd es') = aggregate_id (hd es)"
    and "t \<in> set (db_tenants s)" and "aggregate_id (hd es) \<noteq> []"
  shows "append_events now' t es' ev ob' s1 = (Inl (ConcurrencyError ev v), s1)"
  using ledger.lost_update_rejected [of "(now, t, es, ob)" ev s v s1 "(now', t, es', ob')"] assms
  by (simp add: ledger_put_def ledger_admits_def ledger_key_def)

theorem concurrent_append_rejected_witness:
  "append_events 6 ''acme'' [sample_event 8 ''r''] 0 []
     (snd (append_events 5 ''acme'' [sample_event 7 ''r''] 0 [] sample_db))
   = (Inl (ConcurrencyError 0 1), snd (append_events 5 ''acme'' [sample_event 7 ''r''] 0 [] sample_db))"
proof -
  have a: "aggregate_id (sample_event i ''r'') = ''r''" for i by (simp add: sample_event_def)
  have t: "''acme'' \<in> set (db_tenants sample_db)" by (simp add: sample_db_def)
  show ?thesis
    using concurrent_append_rejected [OF sample_append sample_validate _ t, of 8 "''r''" 6 "[]"]
    by (simp add: sample_append a)
qed

text \<open>
  Appends are atomic. A refused or failed append, at whatever step it fails, leaves every table as
  it was; only the identity sequence may have advanced.
\<close>

theorem failed_append_changes_nothing:
  assumes "append_events now t es ev ob s = (Inl e, s')"
  shows "s' = s\<lparr>db_next_position := db_next_position s'\<rparr> \<and> db_next_position s \<le> db_next_position s'"
proof (cases "validate_append t es ev")
  case (Inl x)
  with assms show ?thesis by (simp add: append_events_def op_lift_def)
next
  case (Inr u)
  with assms have "tenant_transaction (append_in_transaction now es ev ob) s = (Inl e, s')"
    by (simp add: append_events_def op_lift_def)
  then show ?thesis by (rule failed_transaction [OF _ position_grows_append])
qed

theorem failed_append_changes_nothing_witness:
  "snd (append_events 5 ''acme'' [sample_event 7 ''r''] 3 [] sample_db) = sample_db"
proof -
  have c: "append_events 5 ''acme'' [sample_event 7 ''r''] 3 [] sample_db = (Inl (ConcurrencyError 3 0), sample_db)"
    by (simp add: append_events_def validate_append_def op_eval tenant_transaction_def transaction_def
        append_in_transaction_def Let_def insert_commit_lock_def insert_head_def is_head_def sample_db_def
        sample_event_def db_rollback_def)
  show ?thesis using failed_append_changes_nothing [OF c] by (simp add: c)
qed

text \<open>
  Inbox deduplication. Once a delivery has been accepted, redelivering the same message, with whatever
  events and expectations, reports the version of the first acceptance and changes nothing.
\<close>

theorem inbox_redelivery_is_noop:
  assumes "append_from_inbox now t src mid es ev ob mut s = (Inr res, s1)"
    and "\<forall>m \<in> set_option mut. keeps_inbox m" and "validate_append t es' ev' = Inr ()"
  shows "append_from_inbox now' t src mid es' ev' ob' mut' s1
    = (Inr \<lparr>aggregate_version = aggregate_version res, duplicate = True\<rparr>, s1)"
proof -
  obtain row where "sql_one (is_inbox t src mid) (db_inbox s1) = Some row"
    "ib_aggregate_version row = Some (aggregate_version res)"
    using append_from_inbox_recorded [OF assms(1,2)] by blast
  moreover have "src \<noteq> []" "mid \<noteq> []" using append_from_inbox_Inr [OF assms(1)] by auto
  ultimately show ?thesis using assms(3) by (rule append_from_inbox_again)
qed

theorem inbox_redelivery_is_noop_witness:
  "let first = append_from_inbox 5 ''acme'' ''redis'' ''m1'' [sample_event 7 ''r''] 0 [] None sample_db
   in append_from_inbox 6 ''acme'' ''redis'' ''m1'' [sample_event 8 ''r''] 0 [] None (snd first)
      = (Inr \<lparr>aggregate_version = 1, duplicate = True\<rparr>, snd first)"
proof -
  have "fst (append_from_inbox 5 ''acme'' ''redis'' ''m1'' [sample_event 7 ''r''] 0 [] None sample_db)
      = Inr \<lparr>aggregate_version = 1, duplicate = False\<rparr>" by code_simp
  then obtain s1 where f: "append_from_inbox 5 ''acme'' ''redis'' ''m1'' [sample_event 7 ''r''] 0 [] None sample_db
      = (Inr \<lparr>aggregate_version = 1, duplicate = False\<rparr>, s1)"
    by (metis prod.collapse)
  show ?thesis
    using inbox_redelivery_is_noop [OF f _ sample_validate] by (simp add: f)
qed

text \<open>
  Fencing. A fenced append succeeds only while the lease row with that token and generation is
  unreleased and unexpired at the database clock; otherwise it raises without changing the database.
\<close>

theorem fenced_append_needs_live_lease:
  "case append_fenced now t es ev w tok gen at ob mut s of
     (Inr v, s') \<Rightarrow> (\<exists>l \<in> set (db_work_leases s). fence_matches now t w tok gen l)
         \<and> (\<forall>e \<in> set es. aggregate_id e = uuid_str w)
   | (Inl e, s') \<Rightarrow> (\<forall>l \<in> set (db_work_leases s). \<not> fence_matches now t w tok gen l) \<longrightarrow>
         s' = s \<and> (is_fencing_error e \<or> is_value_error e)"
proof -
  obtain r s' where r: "append_fenced now t es ev w tok gen at ob mut s = (r, s')" by fastforce
  show ?thesis
  proof (cases r)
    case (Inr v)
    with r have "append_fenced now t es ev w tok gen at ob mut s = (Inr v, s')" by simp
    from this [unfolded append_fenced_Inr] show ?thesis
      by (auto simp: r Inr dest!: sql_one_Some)
  next
    case (Inl e)
    with r append_fenced_refused [of s now t w tok gen es ev at ob mut r s'] show ?thesis by auto
  qed
qed

definition sample_lease :: "uuid \<Rightarrow> int \<Rightarrow> instant \<Rightarrow> lease_row" where
  "sample_lease w gen expires = \<lparr>wl_tenant_id = ''acme'', wl_work_id = w, wl_lease_token = 9, wl_generation = gen,
     wl_owner = ''worker-1'', wl_acquired_at = 0, wl_heartbeat_at = 0, wl_expires_at = expires,
     wl_released_at = None, wl_release_reason = None\<rparr>"

theorem fenced_append_needs_live_lease_witness:
  "case append_fenced 50 ''acme'' [sample_event 7 ''r''] 0 3 9 1 (dt_of_instant 0) [] None
       (sample_db\<lparr>db_work_leases := [sample_lease 3 2 100]\<rparr>) of
     (r, s') \<Rightarrow> s' = sample_db\<lparr>db_work_leases := [sample_lease 3 2 100]\<rparr> \<and> (\<exists>e. r = Inl e)"
proof -
  let ?s = "sample_db\<lparr>db_work_leases := [sample_lease 3 2 100]\<rparr>"
  have "\<forall>l \<in> set (db_work_leases ?s). \<not> fence_matches 50 ''acme'' 3 9 1 l"
    by (simp add: fence_matches_def sample_lease_def)
  then show ?thesis
    using fenced_append_needs_live_lease [where now = 50 and t = "''acme''" and es = "[sample_event 7 ''r'']"
        and ev = 0 and w = 3 and tok = 9 and gen = 1 and at = "dt_of_instant 0" and ob = "[]" and mut = None and s = ?s]
    by (auto split: prod.splits sum.splits)
qed

end
