(* ===== verification/Work_Repository.thy ===== *)
theory Work_Repository
  imports Event_Ledger Transport
begin

text \<open>
  The PostgreSQL-authoritative work repository, \<^verbatim>\<open>PostgresWorkRepository\<close> of \<^verbatim>\<open>runtime/postgres.py\<close>.
  Every operation reads, builds its events and commits one ledger transaction whose mutation
  updates the work tables. The mutations are defined first, then the operations. Identifiers
  from \<^verbatim>\<open>uuid_factory\<close> and the database clock are arguments.
\<close>

section \<open>Requests on the wire\<close>

definition request_payload :: "WorkRequest \<Rightarrow> json_obj" where
  "request_payload r =
     [(''work_id'', JStr (uuid_str (rq_work_id r))),
      (''work_kind'', JStr (rq_work_kind r)),
      (''correlation_id'', JStr (uuid_str (rq_correlation_id r))),
      (''causation_id'', json_opt_uuid (rq_causation_id r)),
      (''requested_at'', JStr (isoformat (rq_requested_at r))),
      (''max_attempts'', JInt (rq_max_attempts r)),
      (''timeout_seconds'', JInt (rq_timeout_seconds r)),
      (''request_payload'', JObj (rq_payload r)),
      (''idempotency_key'', JStr (rq_idempotency_key r))]"

definition payload_item :: "json_obj \<Rightarrow> string \<Rightarrow> json res" where
  "payload_item p k = (case map_of p k of None \<Rightarrow> Inl (KeyError k) | Some v \<Rightarrow> Inr v)"

definition json_str :: "json \<Rightarrow> string" where
  "json_str j = py_str (thaw_json j)"

definition read_request :: "MessageEnvelope \<Rightarrow> json_obj \<Rightarrow> WorkRequest res" where
  "read_request m rp =
     res_bind (payload_item (me_payload m) ''work_kind'') (\<lambda>kind.
     res_bind (payload_item (me_payload m) ''idempotency_key'') (\<lambda>key.
     res_bind (res_bind (payload_item (me_payload m) ''requested_at'') (\<lambda>v. datetime_of (json_str v))) (\<lambda>at.
     res_bind (res_bind (payload_item (me_payload m) ''max_attempts'') (\<lambda>v. int_of (json_str v))) (\<lambda>attempts.
     res_bind (res_bind (payload_item (me_payload m) ''timeout_seconds'') (\<lambda>v. int_of (json_str v))) (\<lambda>timeout.
     init_WorkRequest (thaw_items rp)
       \<lparr>rq_work_id = me_work_id m, rq_tenant_id = me_tenant_id m, rq_work_kind = json_str kind,
        rq_idempotency_key = json_str key, rq_correlation_id = me_correlation_id m,
        rq_requested_at = at, rq_payload = [], rq_causation_id = me_causation_id m,
        rq_max_attempts = attempts, rq_timeout_seconds = timeout, rq_schema_version = 1\<rparr>)))))"

definition request_from_delivery :: "QueueDelivery \<Rightarrow> WorkRequest res" where
  "request_from_delivery d =
     (let m = dv_envelope d in
      case map_of (me_payload m) ''request_payload'' of
        Some (JObj rp) \<Rightarrow>
          (case read_request m rp of
             Inl e \<Rightarrow> Inl (ValueError ''delivery has invalid work routing metadata'')
           | Inr r \<Rightarrow> Inr r)
      | None \<Rightarrow>
          (case read_request m [] of
             Inl e \<Rightarrow> Inl (ValueError ''delivery has invalid work routing metadata'')
           | Inr r \<Rightarrow> Inr r)
      | Some _ \<Rightarrow> Inl (ValueError ''request_payload must be a mapping''))"

definition validate_request_context :: "string \<Rightarrow> WorkRequest \<Rightarrow> unit res" where
  "validate_request_context tenant r =
     require (tenant = rq_tenant_id r) (ValueError ''work request tenant does not match trusted context'')"

section \<open>Reads\<close>

definition is_work :: "string \<Rightarrow> uuid \<Rightarrow> work_row \<Rightarrow> bool" where
  "is_work tenant w r = (wi_tenant_id r = tenant \<and> wi_work_id r = w)"

definition is_lease :: "string \<Rightarrow> uuid \<Rightarrow> lease_row \<Rightarrow> bool" where
  "is_lease tenant w l = (wl_tenant_id l = tenant \<and> wl_work_id l = w)"

definition work_version :: "string \<Rightarrow> uuid \<Rightarrow> ('z db_scheme, int) op" where
  "work_version tenant w = tenant_transaction (op_gets (\<lambda>s. stream_version s tenant (uuid_str w)))"

definition request_of_row :: "string \<Rightarrow> uuid \<Rightarrow> work_row \<Rightarrow> WorkRequest res" where
  "request_of_row tenant w row =
     init_WorkRequest (thaw_items (wi_request_payload row))
       \<lparr>rq_work_id = w, rq_tenant_id = tenant, rq_work_kind = wi_work_kind row,
        rq_idempotency_key = wi_idempotency_key row, rq_correlation_id = wi_correlation_id row,
        rq_requested_at = dt_of_instant (wi_requested_at row), rq_payload = [],
        rq_causation_id = wi_causation_id row, rq_max_attempts = wi_max_attempts row,
        rq_timeout_seconds = wi_timeout_seconds row, rq_schema_version = 1\<rparr>"

definition load_request :: "string \<Rightarrow> uuid \<Rightarrow> ('z db_scheme, WorkRequest) op" where
  "load_request tenant w =
     op_bind (tenant_transaction (op_gets (\<lambda>s. sql_one (is_work tenant w) (db_work_items s)))) (\<lambda>row.
     (case row of
        None \<Rightarrow> op_raise (ValueError ''work request not found or lacks correlation metadata'')
      | Some r \<Rightarrow> op_lift (request_of_row tenant w r)))"

text \<open>\<^verbatim>\<open>payload->>'work_id' = work_id::text\<close>: only a JSON string can print as a UUID.\<close>

definition payload_names_work :: "json_obj \<Rightarrow> uuid \<Rightarrow> bool" where
  "payload_names_work p w = (map_of p ''work_id'' = Some (JStr (uuid_str w)))"

text \<open>Equality of requests: datetimes compare by instant, payloads as JSON.\<close>

definition request_eq :: "WorkRequest \<Rightarrow> WorkRequest \<Rightarrow> bool" where
  "request_eq a b =
     (rq_work_id a = rq_work_id b \<and> rq_tenant_id a = rq_tenant_id b \<and> rq_work_kind a = rq_work_kind b
      \<and> rq_idempotency_key a = rq_idempotency_key b \<and> rq_correlation_id a = rq_correlation_id b
      \<and> dt_instant (rq_requested_at a) = dt_instant (rq_requested_at b)
      \<and> json_obj_eq (rq_payload a) (rq_payload b) \<and> rq_causation_id a = rq_causation_id b
      \<and> rq_max_attempts a = rq_max_attempts b \<and> rq_timeout_seconds a = rq_timeout_seconds b
      \<and> rq_schema_version a = rq_schema_version b)"

definition delivered_row :: "string \<Rightarrow> MessageEnvelope \<Rightarrow> outbox_row \<Rightarrow> bool" where
  "delivered_row tenant m b =
     (ob_tenant_id b = tenant \<and> ob_message_id b = me_message_id m
      \<and> ob_status b \<in> set [OB_LEASED, OB_PUBLISHED] \<and> payload_names_work (ob_payload b) (me_work_id m))"

definition verify_delivery :: "string \<Rightarrow> QueueDelivery \<Rightarrow> ('z db_scheme, WorkRequest) op" where
  "verify_delivery tenant d =
     (let m = dv_envelope d in
      op_bind (op_lift (request_from_delivery d)) (\<lambda>supplied.
      op_bind (op_lift (validate_request_context tenant supplied)) (\<lambda>_.
      op_bind (tenant_transaction (op_gets (\<lambda>s.
        (sql_one (is_work tenant (me_work_id m)) (db_work_items s),
         sql_one (delivered_row tenant m) (db_outbox s))))) (\<lambda>rows.
      (case rows of
         (Some w, Some b) \<Rightarrow>
           op_bind (op_lift (request_of_row tenant (me_work_id m) w)) (\<lambda>authoritative.
           op_bind (op_require
             (request_eq supplied authoritative \<and> ob_destination b = me_destination m
              \<and> ob_event_id b = me_event_id m \<and> json_obj_eq (ob_payload b) (me_payload m)
              \<and> json_obj_eq (ob_headers b) (me_headers m))
             (ValueError ''delivery does not match authoritative work'')) (\<lambda>_.
           op_return authoritative))
       | _ \<Rightarrow> op_raise (ValueError ''delivery has no authoritative published outbox row''))))))"

section \<open>Mutations of the work tables\<close>

text \<open>
  \<^verbatim>\<open>UPDATE work_items SET f WHERE P\<close> with a guard on the row count, and likewise for leases: the
  exception is raised when not exactly one row matched.
\<close>

definition update_work :: "(work_row \<Rightarrow> bool) \<Rightarrow> (work_row \<Rightarrow> work_row) \<Rightarrow> py_error \<Rightarrow> ('z db_scheme, unit) op" where
  "update_work P f e =
     op_bind (op_gets (\<lambda>s. sql_count P (db_work_items s))) (\<lambda>n.
     op_bind (op_modify (\<lambda>s. s\<lparr>db_work_items := sql_update P f (db_work_items s)\<rparr>)) (\<lambda>_.
     op_require (n = 1) e))"

definition update_lease :: "(lease_row \<Rightarrow> bool) \<Rightarrow> (lease_row \<Rightarrow> lease_row) \<Rightarrow> py_error \<Rightarrow> ('z db_scheme, unit) op" where
  "update_lease P f e =
     op_bind (op_gets (\<lambda>s. sql_count P (db_work_leases s))) (\<lambda>n.
     op_bind (op_modify (\<lambda>s. s\<lparr>db_work_leases := sql_update P f (db_work_leases s)\<rparr>)) (\<lambda>_.
     op_require (n = 1) e))"

definition new_work_row :: "WorkRequest \<Rightarrow> uuid \<Rightarrow> work_row" where
  "new_work_row r event =
     \<lparr>wi_tenant_id = rq_tenant_id r, wi_work_id = rq_work_id r, wi_work_kind = rq_work_kind r,
      wi_idempotency_key = rq_idempotency_key r, wi_status = REQUESTED,
      wi_requested_at = dt_instant (rq_requested_at r), wi_available_at = dt_instant (rq_requested_at r),
      wi_attempt_count = 0, wi_max_attempts = rq_max_attempts r, wi_timeout_seconds = rq_timeout_seconds r,
      wi_request_event_id = event, wi_correlation_id = rq_correlation_id r,
      wi_causation_id = rq_causation_id r, wi_request_payload = rq_payload r,
      wi_cancel_requested_at = None, wi_completed_at = None, wi_last_error_code = None\<rparr>"

definition work_row_valid :: "'z db_scheme \<Rightarrow> work_row \<Rightarrow> bool" where
  "work_row_valid s r =
     (wi_tenant_id r \<in> set (db_tenants s) \<and> wi_work_kind r \<noteq> [] \<and> wi_idempotency_key r \<noteq> []
      \<and> 1 \<le> wi_max_attempts r \<and> wi_max_attempts r \<le> 100
      \<and> 1 \<le> wi_timeout_seconds r \<and> wi_timeout_seconds r \<le> 86400
      \<and> (\<forall>q \<in> set (db_work_items s). wi_tenant_id q = wi_tenant_id r \<longrightarrow>
           wi_work_id q \<noteq> wi_work_id r \<and> wi_idempotency_key q \<noteq> wi_idempotency_key r)
      \<and> (\<exists>e \<in> set (db_events s). er_tenant_id e = wi_tenant_id r \<and> er_event_id e = wi_request_event_id r))"

definition insert_work :: "WorkRequest \<Rightarrow> uuid \<Rightarrow> ('z db_scheme, unit) op" where
  "insert_work r event =
     op_bind (op_gets (\<lambda>s. work_row_valid s (new_work_row r event))) (\<lambda>valid.
     op_bind (op_require valid integrity_error) (\<lambda>_.
     op_modify (\<lambda>s. s\<lparr>db_work_items := db_work_items s @ [new_work_row r event]\<rparr>)))"

definition mark_projection :: "WorkRequest \<Rightarrow> ('z db_scheme, unit) op" where
  "mark_projection r =
     update_work (\<lambda>w. is_work (rq_tenant_id r) (rq_work_id r) w \<and> wi_status w \<in> set [REQUESTED, RETRY_WAIT])
       (\<lambda>w. w\<lparr>wi_status := PUBLISHED\<rparr>) (ConcurrencyError 1 0)"

definition new_lease_row :: "WorkLease \<Rightarrow> instant \<Rightarrow> instant \<Rightarrow> lease_row" where
  "new_lease_row l acquired expiry =
     \<lparr>wl_tenant_id = ls_tenant_id l, wl_work_id = ls_work_id l, wl_lease_token = ls_token l,
      wl_generation = ls_generation l, wl_owner = ls_owner l, wl_acquired_at = acquired,
      wl_heartbeat_at = acquired, wl_expires_at = expiry, wl_released_at = None, wl_release_reason = None\<rparr>"

text \<open>
  \<^verbatim>\<open>INSERT INTO work_leases ... ON CONFLICT (tenant_id, work_id) DO UPDATE ... WHERE generation = g - 1\<close>
  with the unique token and the CHECKs of the table.
\<close>

definition lease_row_valid :: "'z db_scheme \<Rightarrow> lease_row \<Rightarrow> bool" where
  "lease_row_valid s l =
     (0 < wl_generation l \<and> wl_owner l \<noteq> [] \<and> wl_heartbeat_at l < wl_expires_at l
      \<and> (\<forall>q \<in> set (db_work_leases s). wl_tenant_id q = wl_tenant_id l \<and> wl_lease_token q = wl_lease_token l
           \<longrightarrow> wl_work_id q = wl_work_id l)
      \<and> (\<exists>w \<in> set (db_work_items s). is_work (wl_tenant_id l) (wl_work_id l) w))"

definition upsert_lease :: "lease_row \<Rightarrow> ('z db_scheme, unit) op" where
  "upsert_lease l =
     op_bind (op_gets (\<lambda>s. sql_one (is_lease (wl_tenant_id l) (wl_work_id l)) (db_work_leases s))) (\<lambda>old.
     (case old of
        None \<Rightarrow>
          op_bind (op_gets (\<lambda>s. lease_row_valid s l)) (\<lambda>valid.
          op_bind (op_require valid integrity_error) (\<lambda>_.
          op_modify (\<lambda>s. s\<lparr>db_work_leases := db_work_leases s @ [l]\<rparr>)))
      | Some q \<Rightarrow>
          if wl_generation q \<noteq> wl_generation l - 1 then op_raise ClaimUnavailableError
          else op_bind (op_gets (\<lambda>s. lease_row_valid s l)) (\<lambda>valid.
               op_bind (op_require valid integrity_error) (\<lambda>_.
               op_modify (\<lambda>s. s\<lparr>db_work_leases :=
                 sql_update (is_lease (wl_tenant_id l) (wl_work_id l)) (\<lambda>_. l) (db_work_leases s)\<rparr>)))))"

definition active_work :: "string \<Rightarrow> work_row \<Rightarrow> bool" where
  "active_work tenant w = (wi_tenant_id w = tenant \<and> wi_status w \<in> set [CLAIMED, RUNNING])"

definition claimable :: "instant \<Rightarrow> WorkLease \<Rightarrow> work_row \<Rightarrow> bool" where
  "claimable now l w =
     (is_work (ls_tenant_id l) (ls_work_id l) w \<and> wi_attempt_count w = ls_attempt l - 1
      \<and> wi_status w \<in> set [PUBLISHED, RETRY_WAIT] \<and> wi_available_at w \<le> now
      \<and> wi_cancel_requested_at w = None)"

definition claim_projection :: "instant \<Rightarrow> WorkLease \<Rightarrow> int \<Rightarrow> int \<Rightarrow> ('z db_scheme, unit) op" where
  "claim_projection now l duration limit =
     op_bind (insert_commit_lock (ls_tenant_id l)) (\<lambda>_.
     op_bind (op_gets (\<lambda>s. int (sql_count (active_work (ls_tenant_id l)) (db_work_items s)))) (\<lambda>active.
     op_bind (op_require (active < limit) ClaimUnavailableError) (\<lambda>_.
     op_bind (update_work (claimable now l)
       (\<lambda>w. w\<lparr>wi_status := CLAIMED, wi_attempt_count := ls_attempt l\<rparr>) ClaimUnavailableError) (\<lambda>_.
     upsert_lease (new_lease_row l now (now + duration))))))"

definition mark_started :: "WorkRequest \<Rightarrow> WorkLease \<Rightarrow> ('z db_scheme, unit) op" where
  "mark_started r l =
     update_work (\<lambda>w. is_work (rq_tenant_id r) (rq_work_id r) w \<and> wi_status w = CLAIMED)
       (\<lambda>w. w\<lparr>wi_status := RUNNING\<rparr>) (FencingError (ls_generation l) 0)"

definition lease_held :: "WorkLease \<Rightarrow> lease_row \<Rightarrow> bool" where
  "lease_held l q =
     (is_lease (ls_tenant_id l) (ls_work_id l) q \<and> wl_lease_token q = ls_token l
      \<and> wl_generation q = ls_generation l \<and> wl_released_at q = None)"

definition renew_lease :: "instant \<Rightarrow> WorkLease \<Rightarrow> int \<Rightarrow> ('z db_scheme, unit) op" where
  "renew_lease now l extension =
     update_lease (\<lambda>q. lease_held l q \<and> wl_owner q = ls_owner l \<and> now < wl_expires_at q)
       (\<lambda>q. q\<lparr>wl_heartbeat_at := now, wl_expires_at := now + extension\<rparr>) (FencingError (ls_generation l) 0)"

definition cancel_projection ::
  "WorkRequest \<Rightarrow> instant \<Rightarrow> bool \<Rightarrow> WorkStatus \<Rightarrow> ('z db_scheme, unit) op" where
  "cancel_projection r at queued status =
     update_work (\<lambda>w. is_work (rq_tenant_id r) (rq_work_id r) w \<and> wi_status w = status)
       (\<lambda>w. w\<lparr>wi_cancel_requested_at := (case wi_cancel_requested_at w of None \<Rightarrow> Some at | Some c \<Rightarrow> Some c),
              wi_status := (if queued then CANCELLED else wi_status w),
              wi_completed_at := (if queued then Some at else wi_completed_at w)\<rparr>) (ConcurrencyError 1 0)"

definition release_lease :: "WorkLease \<Rightarrow> instant \<Rightarrow> string \<Rightarrow> ('z db_scheme, unit) op" where
  "release_lease l at reason =
     update_lease (lease_held l) (\<lambda>q. q\<lparr>wl_released_at := Some at, wl_release_reason := Some reason\<rparr>)
       (FencingError (ls_generation l) 0)"

definition release_expired_lease :: "instant \<Rightarrow> WorkLease \<Rightarrow> instant \<Rightarrow> string \<Rightarrow> ('z db_scheme, unit) op" where
  "release_expired_lease now l at reason =
     update_lease (\<lambda>q. lease_held l q \<and> wl_expires_at q \<le> now)
       (\<lambda>q. q\<lparr>wl_released_at := Some at, wl_release_reason := Some reason\<rparr>) (FencingError (ls_generation l) 0)"

definition leased_work :: "WorkLease \<Rightarrow> WorkStatus list \<Rightarrow> work_row \<Rightarrow> bool" where
  "leased_work l sts w = (is_work (ls_tenant_id l) (ls_work_id l) w \<and> wi_status w \<in> set sts)"

definition complete_in_transaction ::
  "WorkLease \<Rightarrow> instant \<Rightarrow> WorkStatus \<Rightarrow> string \<Rightarrow> ('z db_scheme, unit) op" where
  "complete_in_transaction l at status reason =
     op_bind (release_lease l at reason) (\<lambda>_.
     update_work (\<lambda>w. leased_work l [CLAIMED, RUNNING] w \<and> wi_cancel_requested_at w = None)
       (\<lambda>w. w\<lparr>wi_status := status, wi_completed_at := Some at\<rparr>) (FencingError (ls_generation l) 0))"

definition release_in_transaction ::
  "WorkLease \<Rightarrow> instant \<Rightarrow> string \<Rightarrow> instant \<Rightarrow> bool \<Rightarrow> ('z db_scheme, unit) op" where
  "release_in_transaction l at reason retry_at running_only =
     op_bind (release_lease l at reason) (\<lambda>_.
     update_work (\<lambda>w. leased_work l (if running_only then [RUNNING] else [CLAIMED, RUNNING]) w
         \<and> wi_cancel_requested_at w = None)
       (\<lambda>w. w\<lparr>wi_status := RETRY_WAIT, wi_available_at := retry_at\<rparr>) (FencingError (ls_generation l) 0))"

definition cancel_in_transaction :: "WorkLease \<Rightarrow> instant \<Rightarrow> ('z db_scheme, unit) op" where
  "cancel_in_transaction l at =
     op_bind (release_lease l at ''cancelled'') (\<lambda>_.
     update_work (\<lambda>w. leased_work l [CLAIMED, RUNNING] w \<and> wi_cancel_requested_at w \<noteq> None)
       (\<lambda>w. w\<lparr>wi_status := CANCELLED, wi_completed_at := Some at\<rparr>) (FencingError (ls_generation l) 0))"

definition upsert_dead_letter :: "WorkLease \<Rightarrow> instant \<Rightarrow> string \<Rightarrow> ('z db_scheme, unit) op" where
  "upsert_dead_letter l at reason =
     op_bind (op_require (reason \<noteq> [] \<and> length reason \<le> 128 \<and> 0 < ls_attempt l) integrity_error) (\<lambda>_.
     op_modify (\<lambda>s.
       let mine = (\<lambda>d. dl_tenant_id d = ls_tenant_id l \<and> dl_work_id d = ls_work_id l) in
       if \<exists>d \<in> set (db_work_dead_letters s). mine d
       then s\<lparr>db_work_dead_letters := sql_update mine
              (\<lambda>d. d\<lparr>dl_dead_lettered_at := at, dl_reason_code := reason, dl_attempts := ls_attempt l\<rparr>)
              (db_work_dead_letters s)\<rparr>
       else s\<lparr>db_work_dead_letters := db_work_dead_letters s
              @ [\<lparr>dl_tenant_id = ls_tenant_id l, dl_work_id = ls_work_id l, dl_dead_lettered_at = at,
                  dl_reason_code = reason, dl_attempts = ls_attempt l, dl_requeue_count = 0,
                  dl_last_requeued_at = None\<rparr>]\<rparr>))"

definition dead_letter_in_transaction :: "WorkLease \<Rightarrow> instant \<Rightarrow> string \<Rightarrow> ('z db_scheme, unit) op" where
  "dead_letter_in_transaction l at reason =
     op_bind (complete_in_transaction l at DEAD_LETTER ''dead_letter'') (\<lambda>_.
     op_bind (op_modify (\<lambda>s. s\<lparr>db_work_items := sql_update (is_work (ls_tenant_id l) (ls_work_id l))
         (\<lambda>w. w\<lparr>wi_last_error_code := Some reason\<rparr>) (db_work_items s)\<rparr>)) (\<lambda>_.
     upsert_dead_letter l at reason))"

definition dead_letter_expired_in_transaction ::
  "instant \<Rightarrow> WorkLease \<Rightarrow> instant \<Rightarrow> string \<Rightarrow> ('z db_scheme, unit) op" where
  "dead_letter_expired_in_transaction now l at reason =
     op_bind (release_expired_lease now l at ''dead_letter'') (\<lambda>_.
     op_bind (update_work (leased_work l [CLAIMED, RUNNING])
       (\<lambda>w. w\<lparr>wi_status := DEAD_LETTER, wi_completed_at := Some at, wi_last_error_code := Some reason\<rparr>)
       (FencingError (ls_generation l) 0)) (\<lambda>_.
     upsert_dead_letter l at reason))"

section \<open>Operations\<close>

definition new_transition ::
  "DomainEventType \<Rightarrow> datetime \<Rightarrow> json_obj \<Rightarrow> WorkLease option \<Rightarrow> WorkTransition res" where
  "new_transition ty at details lease =
     init_WorkTransition (thaw_items details)
       \<lparr>wt_event_type = ty, wt_occurred_at = at, wt_details = [], wt_lease = lease\<rparr>"

definition transition_event ::
  "DomainEventType \<Rightarrow> datetime \<Rightarrow> json_obj \<Rightarrow> WorkLease option \<Rightarrow> WorkRequest \<Rightarrow> uuid \<Rightarrow> uuid option
     \<Rightarrow> EventEnvelope res" where
  "transition_event ty at details lease r eid caus =
     res_bind (new_transition ty at details lease) (\<lambda>t. to_event t r eid caus)"

text \<open>The registration transaction: the request event, the work row and the outgoing message.\<close>

definition register_commit ::
  "instant \<Rightarrow> string \<Rightarrow> WorkRequest \<Rightarrow> EventEnvelope \<Rightarrow> OutboxMessage \<Rightarrow> ('z db_scheme, int) op" where
  "register_commit clk tenant r event ob =
     append_atomic clk tenant [event] 0 (insert_work r (event_id event)) [ob]"

definition register :: "instant \<Rightarrow> string \<Rightarrow> WorkRequest \<Rightarrow> uuid \<Rightarrow> uuid \<Rightarrow> ('z db_scheme, int) op" where
  "register clk tenant r requested_event_id outbox_message_id =
     op_bind (op_lift (validate_request_context tenant r)) (\<lambda>_.
     op_bind (op_lift (init_MessageEnvelope (thaw_items (request_payload r))
         [(PStr ''tenant_id'', PStr (rq_tenant_id r)), (PStr ''schema_version'', PInt 1)]
         \<lparr>me_message_id = outbox_message_id, me_tenant_id = rq_tenant_id r, me_work_id = rq_work_id r,
          me_event_id = Some requested_event_id, me_destination = ''aegis.work'',
          me_correlation_id = rq_correlation_id r, me_causation_id = rq_causation_id r,
          me_occurred_at = rq_requested_at r, me_payload = [], me_headers = [], me_schema_version = 1\<rparr>)) (\<lambda>m.
     op_bind (op_lift (validate_transport_size m)) (\<lambda>_.
     op_bind (op_lift (transition_event WORK_REQUESTED (rq_requested_at r)
         [(''max_attempts'', JInt (rq_max_attempts r)), (''timeout_seconds'', JInt (rq_timeout_seconds r)),
          (''idempotency_key'', JStr (rq_idempotency_key r)), (''request_payload'', JObj (rq_payload r))]
         None r requested_event_id (rq_causation_id r))) (\<lambda>event.
     op_bind (op_lift (init_OutboxMessage
         \<lparr>om_message_id = outbox_message_id, om_destination = ''aegis.work'', om_payload = request_payload r,
          om_headers = [(''tenant_id'', JStr (rq_tenant_id r)), (''schema_version'', JInt 1)],
          om_available_at = rq_requested_at r, om_max_attempts = rq_max_attempts r,
          om_event_id = Some requested_event_id\<rparr>)) (\<lambda>ob.
     register_commit clk tenant r event ob)))))"

definition publish_commit ::
  "instant \<Rightarrow> string \<Rightarrow> WorkRequest \<Rightarrow> uuid \<Rightarrow> EventEnvelope \<Rightarrow> int \<Rightarrow> ('z db_scheme, AppendResult) op" where
  "publish_commit clk tenant r message_id event version =
     append_from_inbox clk tenant ''redis-stream:aegis:work:v1'' (uuid_str message_id) [event] version []
       (Some (mark_projection r))"

definition mark_published ::
  "instant \<Rightarrow> string \<Rightarrow> QueueDelivery \<Rightarrow> datetime \<Rightarrow> uuid \<Rightarrow> ('z db_scheme, unit) op" where
  "mark_published clk tenant d at eid =
     op_bind (verify_delivery tenant d) (\<lambda>r.
     op_bind (work_version tenant (rq_work_id r)) (\<lambda>version.
     op_bind (op_lift (transition_event WORK_PUBLISHED at [] None r eid (me_event_id (dv_envelope d)))) (\<lambda>event.
     op_bind (publish_commit clk tenant r (me_message_id (dv_envelope d)) event version) (\<lambda>_.
     op_return ()))))"

definition micros :: "int \<Rightarrow> int" where
  "micros seconds = seconds * 1000000"

definition claim_commit ::
  "instant \<Rightarrow> string \<Rightarrow> WorkLease \<Rightarrow> int \<Rightarrow> int \<Rightarrow> EventEnvelope \<Rightarrow> int \<Rightarrow> ('z db_scheme, int) op" where
  "claim_commit clk tenant l duration limit event version =
     append_atomic clk tenant [event] version (claim_projection clk l duration limit) []"

definition claim_read :: "string \<Rightarrow> uuid \<Rightarrow> ('z db_scheme, (int \<times> int) option) op" where
  "claim_read tenant w =
     tenant_transaction (op_gets (\<lambda>s.
       case sql_one (\<lambda>r. is_work tenant w r \<and> wi_status r \<in> set [PUBLISHED, RETRY_WAIT]
              \<and> wi_cancel_requested_at r = None) (db_work_items s) of
         None \<Rightarrow> None
       | Some r \<Rightarrow>
           if wi_max_attempts r \<le> wi_attempt_count r then None
           else Some ((case sql_one (is_lease tenant w) (db_work_leases s) of
                         None \<Rightarrow> 1 | Some l \<Rightarrow> wl_generation l + 1),
                      wi_attempt_count r + 1)))"

definition claim_attempt ::
  "instant \<Rightarrow> string \<Rightarrow> WorkRequest \<Rightarrow> string \<Rightarrow> datetime \<Rightarrow> datetime \<Rightarrow> int \<Rightarrow> uuid \<Rightarrow> uuid \<Rightarrow> int \<Rightarrow> int
     \<Rightarrow> ('z db_scheme, WorkLease option) op" where
  "claim_attempt clk tenant r owner now expires_at limit token eid generation attempt =
     (let duration = dt_instant expires_at - dt_instant now in
      op_bind (op_lift (init_WorkLease
        \<lparr>ls_work_id = rq_work_id r, ls_tenant_id = rq_tenant_id r, ls_token = token,
         ls_generation = generation, ls_owner = owner, ls_attempt = attempt, ls_acquired_at = now,
         ls_heartbeat_at = now, ls_expires_at = expires_at\<rparr>)) (\<lambda>l.
      op_bind (work_version tenant (rq_work_id r)) (\<lambda>version.
      op_bind (op_lift (transition_event WORK_CLAIMED now [] (Some l) r eid None)) (\<lambda>event.
      op_catch
        (op_bind (claim_commit clk tenant l duration limit event version) (\<lambda>_.
         op_bind (op_lift (init_WorkLease (l\<lparr>ls_acquired_at := dt_of_instant clk,
           ls_heartbeat_at := dt_of_instant clk, ls_expires_at := dt_of_instant (clk + duration)\<rparr>))) (\<lambda>held.
         op_return (Some held))))
        (\<lambda>e. if e = ClaimUnavailableError \<or> is_concurrency_error e then op_return None
             else op_raise e)))))"

definition claim ::
  "instant \<Rightarrow> string \<Rightarrow> QueueDelivery \<Rightarrow> string \<Rightarrow> datetime \<Rightarrow> datetime \<Rightarrow> int \<Rightarrow> uuid \<Rightarrow> uuid
     \<Rightarrow> ('z db_scheme, WorkLease option) op" where
  "claim clk tenant d owner now expires_at limit token eid =
     op_bind (op_require (owner \<noteq> [] \<and> dt_aware now) (ValueError ''invalid work claim'')) (\<lambda>_.
     op_bind (op_lift (dt_le expires_at now)) (\<lambda>past.
     op_bind (op_require (\<not> past \<and> 0 \<le> limit) (ValueError ''invalid work claim'')) (\<lambda>_.
     let duration = dt_instant expires_at - dt_instant now in
     op_bind (op_require (micros 5 \<le> duration \<and> duration \<le> micros 3600)
       (ValueError ''lease duration must be between 5 and 3600 seconds'')) (\<lambda>_.
     op_bind (verify_delivery tenant d) (\<lambda>r.
     op_bind (op_lift (validate_request_context tenant r)) (\<lambda>_.
     if limit = 0 then op_return None else
     op_bind (claim_read tenant (rq_work_id r)) (\<lambda>found.
     (case found of
        None \<Rightarrow> op_return None
      | Some (generation, attempt) \<Rightarrow>
          claim_attempt clk tenant r owner now expires_at limit token eid generation attempt))))))))"

text \<open>\<^verbatim>\<open>_append_fenced\<close>: one transition appended under the lease of the worker that makes it.\<close>

definition fenced_commit ::
  "instant \<Rightarrow> string \<Rightarrow> WorkLease \<Rightarrow> datetime \<Rightarrow> EventEnvelope \<Rightarrow> int \<Rightarrow> ('z db_scheme, unit) op
     \<Rightarrow> ('z db_scheme, int) op" where
  "fenced_commit clk tenant l at event version mutation =
     append_fenced clk tenant [event] version (ls_work_id l) (ls_token l) (ls_generation l) at [] (Some mutation)"

definition append_fenced_transition ::
  "instant \<Rightarrow> string \<Rightarrow> WorkRequest \<Rightarrow> WorkTransition \<Rightarrow> WorkLease \<Rightarrow> uuid \<Rightarrow> ('z db_scheme, unit) op
     \<Rightarrow> ('z db_scheme, unit) op" where
  "append_fenced_transition clk tenant r t l eid mutation =
     op_bind (work_version tenant (rq_work_id r)) (\<lambda>version.
     op_bind (op_lift (to_event t r eid None)) (\<lambda>event.
     op_bind (fenced_commit clk tenant l (wt_occurred_at t) event version mutation) (\<lambda>_.
     op_return ())))"

definition start ::
  "instant \<Rightarrow> string \<Rightarrow> QueueDelivery \<Rightarrow> WorkLease \<Rightarrow> datetime \<Rightarrow> uuid \<Rightarrow> ('z db_scheme, unit) op" where
  "start clk tenant d l at eid =
     op_bind (op_lift (request_from_delivery d)) (\<lambda>r.
     op_bind (op_lift (new_transition WORK_STARTED at [] (Some l))) (\<lambda>t.
     append_fenced_transition clk tenant r t l eid (mark_started r l)))"

definition heartbeat ::
  "instant \<Rightarrow> string \<Rightarrow> QueueDelivery \<Rightarrow> WorkLease \<Rightarrow> datetime \<Rightarrow> datetime \<Rightarrow> uuid \<Rightarrow> ('z db_scheme, WorkLease) op" where
  "heartbeat clk tenant d l at expires_at eid =
     op_bind (op_lift (dt_le expires_at at)) (\<lambda>past.
     op_bind (op_require (\<not> past) (ValueError ''heartbeat expiry must be in the future'')) (\<lambda>_.
     let extension = dt_instant expires_at - dt_instant at in
     op_bind (op_require (micros 5 \<le> extension \<and> extension \<le> micros 3600)
       (ValueError ''heartbeat extension must be between 5 and 3600 seconds'')) (\<lambda>_.
     op_bind (op_lift (init_WorkLease (l\<lparr>ls_heartbeat_at := at, ls_expires_at := expires_at\<rparr>))) (\<lambda>renewed.
     op_bind (op_lift (request_from_delivery d)) (\<lambda>r.
     op_bind (op_lift (new_transition WORK_HEARTBEAT at [] (Some renewed))) (\<lambda>t.
     op_bind (append_fenced_transition clk tenant r t renewed eid (renew_lease clk l extension)) (\<lambda>_.
     op_lift (init_WorkLease (renewed\<lparr>ls_heartbeat_at := dt_of_instant clk,
       ls_expires_at := dt_of_instant (clk + extension)\<rparr>)))))))))"

definition cancellation_requested :: "string \<Rightarrow> uuid \<Rightarrow> ('z db_scheme, bool) op" where
  "cancellation_requested tenant w =
     tenant_transaction (op_gets (\<lambda>s. case sql_one (is_work tenant w) (db_work_items s) of
       None \<Rightarrow> False | Some r \<Rightarrow> wi_cancel_requested_at r \<noteq> None))"

definition delivery_complete :: "string \<Rightarrow> uuid \<Rightarrow> ('z db_scheme, bool) op" where
  "delivery_complete tenant w =
     tenant_transaction (op_gets (\<lambda>s. case sql_one (is_work tenant w) (db_work_items s) of
       None \<Rightarrow> False | Some r \<Rightarrow> wi_status r \<in> set [SUCCEEDED, FAILED, CANCELLED, DEAD_LETTER]))"

definition cancel_commit ::
  "instant \<Rightarrow> string \<Rightarrow> WorkRequest \<Rightarrow> datetime \<Rightarrow> bool \<Rightarrow> WorkStatus \<Rightarrow> EventEnvelope list \<Rightarrow> int
     \<Rightarrow> ('z db_scheme, int) op" where
  "cancel_commit clk tenant r at queued status events version =
     append_atomic clk tenant events version (cancel_projection r (dt_instant at) queued status) []"

definition request_cancel ::
  "instant \<Rightarrow> string \<Rightarrow> WorkRequest \<Rightarrow> datetime \<Rightarrow> string option \<Rightarrow> uuid \<Rightarrow> uuid \<Rightarrow> ('z db_scheme, unit) op" where
  "request_cancel clk tenant r at requester eid1 eid2 =
     op_bind (tenant_transaction (op_gets (\<lambda>s.
       sql_one (is_work (rq_tenant_id r) (rq_work_id r)) (db_work_items s)))) (\<lambda>row.
     (case row of
        None \<Rightarrow> op_raise (ValueError ''work request not found'')
      | Some w \<Rightarrow>
          let status = wi_status w; queued = (status \<in> set [REQUESTED, PUBLISHED, RETRY_WAIT]) in
          if status \<in> set [SUCCEEDED, FAILED, CANCELLED, DEAD_LETTER] then op_raise (ConcurrencyError 1 0) else
          op_bind (op_lift (transition_event WORK_CANCEL_REQUESTED at
            (case requester of None \<Rightarrow> [] | Some a \<Rightarrow> [(''requested_by'', JStr a)]) None r eid1 None)) (\<lambda>requested.
          op_bind (if queued then
              op_bind (op_lift (transition_event WORK_CANCELLED at [] None r eid2 (Some (event_id requested))))
                (\<lambda>cancelled. op_return [requested, cancelled])
            else op_return [requested]) (\<lambda>events.
          op_bind (work_version tenant (rq_work_id r)) (\<lambda>version.
          op_bind (cancel_commit clk tenant r at queued status events version) (\<lambda>_.
          op_return ()))))))"

definition succeed ::
  "instant \<Rightarrow> string \<Rightarrow> QueueDelivery \<Rightarrow> WorkLease \<Rightarrow> datetime \<Rightarrow> string \<Rightarrow> uuid \<Rightarrow> ('z db_scheme, unit) op" where
  "succeed clk tenant d l at result_reference eid =
     op_bind (op_lift (request_from_delivery d)) (\<lambda>r.
     op_bind (op_lift (new_transition WORK_SUCCEEDED at [(''result_reference'', JStr result_reference)] (Some l))) (\<lambda>t.
     append_fenced_transition clk tenant r t l eid
       (complete_in_transaction l (dt_instant at) SUCCEEDED ''succeeded'')))"

definition cancel ::
  "instant \<Rightarrow> string \<Rightarrow> QueueDelivery \<Rightarrow> WorkLease \<Rightarrow> datetime \<Rightarrow> uuid \<Rightarrow> ('z db_scheme, unit) op" where
  "cancel clk tenant d l at eid =
     op_bind (op_lift (request_from_delivery d)) (\<lambda>r.
     op_bind (op_lift (new_transition WORK_CANCELLED at [] (Some l))) (\<lambda>t.
     append_fenced_transition clk tenant r t l eid (cancel_in_transaction l (dt_instant at))))"

definition fail_commit ::
  "instant \<Rightarrow> string \<Rightarrow> WorkLease \<Rightarrow> datetime \<Rightarrow> string \<Rightarrow> datetime option \<Rightarrow> bool \<Rightarrow> EventEnvelope list \<Rightarrow> int
     \<Rightarrow> OutboxMessage list \<Rightarrow> ('z db_scheme, int) op" where
  "fail_commit clk tenant l at error_code retry_at terminal events version ob =
     append_fenced clk tenant events version (ls_work_id l) (ls_token l) (ls_generation l) at ob
       (Some (case (terminal, retry_at) of
          (False, Some ra) \<Rightarrow>
            release_in_transaction l (dt_instant at) ''retry_scheduled'' (dt_instant ra) True
        | _ \<Rightarrow> dead_letter_in_transaction l (dt_instant at) error_code))"

definition fail_terminal :: "FailureClass \<Rightarrow> datetime option \<Rightarrow> WorkLease \<Rightarrow> WorkRequest \<Rightarrow> bool" where
  "fail_terminal fc retry_at l r =
     (fc \<notin> set [FC_RETRYABLE, FC_TIMEOUT] \<or> retry_at = None \<or> rq_max_attempts r \<le> ls_attempt l)"

definition fail ::
  "instant \<Rightarrow> string \<Rightarrow> QueueDelivery \<Rightarrow> WorkLease \<Rightarrow> datetime \<Rightarrow> FailureClass \<Rightarrow> string \<Rightarrow> datetime option
     \<Rightarrow> uuid \<Rightarrow> uuid \<Rightarrow> uuid \<Rightarrow> ('z db_scheme, bool) op" where
  "fail clk tenant d l at fc error_code retry_at eid1 eid2 mid =
     op_bind (op_require (error_code \<noteq> [] \<and> length error_code \<le> 128)
       (ValueError ''bounded error_code is required'')) (\<lambda>_.
     op_bind (op_lift (request_from_delivery d)) (\<lambda>r.
     let terminal = fail_terminal fc retry_at l r in
     op_bind (op_lift (transition_event WORK_FAILED at
       [(''failure_class'', JStr (FailureClass_value fc)), (''error_code'', JStr error_code)]
       (Some l) r eid1 None)) (\<lambda>failed.
     op_bind (op_lift (transition_event
       (if terminal then WORK_DEAD_LETTERED else WORK_RETRY_SCHEDULED) at
       (if terminal then [(''reason_code'', JStr error_code)]
        else [(''retry_at'', JStr (case retry_at of None \<Rightarrow> [] | Some ra \<Rightarrow> isoformat ra))])
       (Some l) r eid2 (Some (event_id failed)))) (\<lambda>second.
     op_bind (case (terminal, retry_at) of
         (False, Some ra) \<Rightarrow>
           op_bind (op_lift (init_OutboxMessage
             \<lparr>om_message_id = mid, om_destination = ''aegis.work'', om_payload = request_payload r,
              om_headers = [(''tenant_id'', JStr (rq_tenant_id r))], om_available_at = ra,
              om_max_attempts = rq_max_attempts r, om_event_id = Some (event_id second)\<rparr>)) (\<lambda>m.
           op_return [m])
       | _ \<Rightarrow> op_return []) (\<lambda>ob.
     op_bind (work_version tenant (rq_work_id r)) (\<lambda>version.
     op_bind (fail_commit clk tenant l at error_code retry_at terminal [failed, second] version ob) (\<lambda>_.
     op_return terminal)))))))"

definition release ::
  "instant \<Rightarrow> string \<Rightarrow> WorkLease \<Rightarrow> datetime \<Rightarrow> string \<Rightarrow> datetime \<Rightarrow> uuid \<Rightarrow> ('z db_scheme, unit) op" where
  "release clk tenant l at reason retry_at eid =
     op_bind (op_require (reason \<noteq> [] \<and> length reason \<le> 128)
       (ValueError ''bounded release reason is required'')) (\<lambda>_.
     op_bind (load_request tenant (ls_work_id l)) (\<lambda>r.
     op_bind (op_lift (new_transition WORK_RETRY_SCHEDULED at
       [(''retry_at'', JStr (isoformat retry_at)), (''reason_code'', JStr reason)] (Some l))) (\<lambda>t.
     append_fenced_transition clk tenant r t l eid
       (release_in_transaction l (dt_instant at) reason (dt_instant retry_at) False))))"

subsection \<open>Reconciliation\<close>

definition published_for :: "string \<Rightarrow> uuid \<Rightarrow> outbox_row \<Rightarrow> bool" where
  "published_for tenant w b =
     (ob_tenant_id b = tenant \<and> payload_names_work (ob_payload b) w \<and> ob_status b = OB_PUBLISHED)"

definition published_time :: "outbox_row \<Rightarrow> instant" where
  "published_time b = (case ob_published_at b of None \<Rightarrow> 0 | Some p \<Rightarrow> p)"

definition published_after :: "outbox_row \<Rightarrow> outbox_row \<Rightarrow> bool" where
  "published_after b c =
     (published_time c < published_time b
      \<or> (published_time b = published_time c \<and> ob_message_id c < ob_message_id b))"

definition latest_published :: "'z db_scheme \<Rightarrow> string \<Rightarrow> uuid \<Rightarrow> outbox_row option" where
  "latest_published s tenant w =
     sql_one (\<lambda>b. published_for tenant w b
       \<and> (\<forall>c \<in> set (db_outbox s). published_for tenant w c \<longrightarrow> \<not> published_after c b)) (db_outbox s)"

definition unleased :: "'z db_scheme \<Rightarrow> string \<Rightarrow> uuid \<Rightarrow> bool" where
  "unleased s tenant w =
     (\<forall>l \<in> set (db_work_leases s). \<not> (is_lease tenant w l \<and> wl_released_at l = None))"

definition redrive_age :: int where
  "redrive_age = micros 300"

definition select_redrive :: "instant \<Rightarrow> string \<Rightarrow> nat \<Rightarrow> 'z db_scheme \<Rightarrow> (uuid \<times> uuid) list" where
  "select_redrive clk tenant limit s =
     map (\<lambda>(w, b). (wi_work_id w, ob_message_id b))
       (take limit (sort_key (\<lambda>(w, b). published_time b) (sort_key (\<lambda>(w, b). ob_message_id b)
         (concat (map (\<lambda>w. case latest_published s tenant (wi_work_id w) of
             None \<Rightarrow> []
           | Some b \<Rightarrow> if published_time b \<le> clk - redrive_age then [(w, b)] else [])
           (filter (\<lambda>w. wi_tenant_id w = tenant \<and> wi_status w \<in> set [REQUESTED, PUBLISHED, RETRY_WAIT]
              \<and> unleased s tenant (wi_work_id w)) (db_work_items s)))))))"

definition select_expired :: "instant \<Rightarrow> string \<Rightarrow> nat \<Rightarrow> 'z db_scheme \<Rightarrow> (lease_row \<times> work_row) list" where
  "select_expired now tenant limit s =
     take limit (sort_key (\<lambda>(l, w). wl_expires_at l) (sort_key (\<lambda>(l, w). wl_work_id l)
       (concat (map (\<lambda>l. map (Pair l) (filter (is_work tenant (wl_work_id l)) (db_work_items s)))
         (filter (\<lambda>l. wl_tenant_id l = tenant \<and> wl_released_at l = None \<and> wl_expires_at l \<le> now)
           (db_work_leases s))))))"

definition redrivable :: "instant \<Rightarrow> string \<Rightarrow> uuid \<Rightarrow> 'z db_scheme \<Rightarrow> outbox_row \<Rightarrow> bool" where
  "redrivable clk tenant w s b =
     (ob_status b = OB_PUBLISHED \<and> published_time b \<le> clk - redrive_age
      \<and> (\<exists>q \<in> set (db_work_items s). is_work tenant w q \<and> wi_status q \<in> set [REQUESTED, PUBLISHED, RETRY_WAIT])
      \<and> (\<forall>c \<in> set (db_outbox s). published_for tenant w c \<longrightarrow> \<not> published_after c b)
      \<and> unleased s tenant w)"

definition redrive_projection :: "instant \<Rightarrow> string \<Rightarrow> uuid \<Rightarrow> uuid \<Rightarrow> ('z db_scheme, unit) op" where
  "redrive_projection clk tenant message_id w =
     op_bind (op_gets (\<lambda>s. sql_count (\<lambda>b. ob_tenant_id b = tenant \<and> ob_message_id b = message_id
       \<and> redrivable clk tenant w s b) (db_outbox s))) (\<lambda>n.
     op_bind (op_modify (\<lambda>s. s\<lparr>db_outbox := sql_update
       (\<lambda>b. ob_tenant_id b = tenant \<and> ob_message_id b = message_id \<and> redrivable clk tenant w s b)
       (\<lambda>b. b\<lparr>ob_status := OB_PENDING, ob_available_at := clk, ob_published_at := None,
              ob_lease_owner := None, ob_lease_expires_at := None, ob_attempt_count := 0,
              ob_last_error_code := None\<rparr>) (db_outbox s)\<rparr>)) (\<lambda>_.
     op_require (n = 1) (ConcurrencyError 1 0)))"

definition redrive_commit ::
  "instant \<Rightarrow> string \<Rightarrow> uuid \<Rightarrow> uuid \<Rightarrow> EventEnvelope \<Rightarrow> int \<Rightarrow> ('z db_scheme, int) op" where
  "redrive_commit clk tenant w message_id event version =
     append_atomic clk tenant [event] version (redrive_projection clk tenant message_id w) []"

definition or_skip :: "('z db_scheme, int) op \<Rightarrow> ('z db_scheme, bool) op" where
  "or_skip m = op_catch (op_bind m (\<lambda>_. op_return True))
     (\<lambda>e. if is_concurrency_error e then op_return False else op_raise e)"

definition redrive_one :: "instant \<Rightarrow> string \<Rightarrow> datetime \<Rightarrow> uuid \<times> uuid \<Rightarrow> uuid \<Rightarrow> ('z db_scheme, bool) op" where
  "redrive_one clk tenant now row eid = (case row of (w, message_id) \<Rightarrow>
     op_bind (load_request tenant w) (\<lambda>r.
     op_bind (op_lift (transition_event WORK_RECONCILED now
       [(''outcome'', JStr ''published_transport_redrive'')] None r eid None)) (\<lambda>event.
     op_bind (work_version tenant w) (\<lambda>version.
     or_skip (redrive_commit clk tenant w message_id event version)))))"

definition expire_projection ::
  "instant \<Rightarrow> instant \<Rightarrow> WorkLease \<Rightarrow> bool \<Rightarrow> bool \<Rightarrow> instant option \<Rightarrow> ('z db_scheme, unit) op" where
  "expire_projection clk now l cancelled exhausted expected_cancel =
     op_bind (op_gets (\<lambda>s. sql_one (\<lambda>w. is_work (ls_tenant_id l) (ls_work_id l) w
       \<and> wi_cancel_requested_at w = expected_cancel) (db_work_items s))) (\<lambda>row.
     op_bind (op_require (row \<noteq> None) (ConcurrencyError 1 0)) (\<lambda>_.
     if exhausted \<and> \<not> cancelled then
       dead_letter_expired_in_transaction clk l now ''lease_expired_after_max_attempts''
     else
       op_bind (release_expired_lease clk l now ''lease_expired'') (\<lambda>_.
       update_work (leased_work l [CLAIMED, RUNNING])
         (\<lambda>w. w\<lparr>wi_status := (if cancelled then CANCELLED else RETRY_WAIT), wi_available_at := now,
                wi_completed_at := (if cancelled then Some now else None)\<rparr>)
         (FencingError (ls_generation l) 0))))"

definition expire_commit ::
  "instant \<Rightarrow> string \<Rightarrow> instant \<Rightarrow> WorkLease \<Rightarrow> bool \<Rightarrow> bool \<Rightarrow> instant option \<Rightarrow> EventEnvelope list \<Rightarrow> int
     \<Rightarrow> ('z db_scheme, int) op" where
  "expire_commit clk tenant now l cancelled exhausted expected_cancel events version =
     append_atomic clk tenant events version
       (expire_projection clk now l cancelled exhausted expected_cancel) []"

definition expire_outcome :: "bool \<Rightarrow> bool \<Rightarrow> DomainEventType" where
  "expire_outcome cancelled exhausted =
     (if cancelled then WORK_CANCELLED else if exhausted then WORK_DEAD_LETTERED else WORK_RECONCILED)"

definition expire_one ::
  "instant \<Rightarrow> string \<Rightarrow> datetime \<Rightarrow> lease_row \<times> work_row \<Rightarrow> uuid \<Rightarrow> uuid \<Rightarrow> ('z db_scheme, bool) op" where
  "expire_one clk tenant now row eid1 eid2 = (case row of (q, w) \<Rightarrow>
     op_bind (op_lift (init_WorkLease
       \<lparr>ls_work_id = wl_work_id q, ls_tenant_id = tenant, ls_token = wl_lease_token q,
        ls_generation = wl_generation q, ls_owner = wl_owner q, ls_attempt = wi_attempt_count w,
        ls_acquired_at = dt_of_instant (wl_acquired_at q), ls_heartbeat_at = dt_of_instant (wl_heartbeat_at q),
        ls_expires_at = dt_of_instant (wl_expires_at q)\<rparr>)) (\<lambda>l.
     let cancelled = (wi_cancel_requested_at w \<noteq> None);
         exhausted = (wi_max_attempts w \<le> wi_attempt_count w) in
     op_bind (load_request tenant (wl_work_id q)) (\<lambda>r.
     op_bind (op_lift (transition_event WORK_LEASE_EXPIRED now
       [(''reason_code'', JStr ''heartbeat_timeout'')] (Some l) r eid1 None)) (\<lambda>expired.
     op_bind (op_lift (transition_event (expire_outcome cancelled exhausted) now
       ((''outcome'', JStr (if cancelled then ''cancelled'' else if exhausted then ''dead_letter'' else ''retry_wait''))
        # (if exhausted \<and> \<not> cancelled then [(''reason_code'', JStr ''lease_expired_after_max_attempts'')] else []))
       (Some l) r eid2 (Some (event_id expired)))) (\<lambda>outcome.
     op_bind (work_version tenant (wl_work_id q)) (\<lambda>version.
     or_skip (expire_commit clk tenant (dt_instant now) l cancelled exhausted (wi_cancel_requested_at w)
       [expired, outcome] version)))))))"

primrec redrive_rows ::
  "instant \<Rightarrow> string \<Rightarrow> datetime \<Rightarrow> (nat \<Rightarrow> uuid) \<Rightarrow> nat \<Rightarrow> (uuid \<times> uuid) list \<Rightarrow> ('z db_scheme, uuid list) op" where
  "redrive_rows clk tenant now fresh k [] = op_return []"
| "redrive_rows clk tenant now fresh k (row # rows) =
     op_bind (redrive_one clk tenant now row (fresh k)) (\<lambda>done.
     op_bind (redrive_rows clk tenant now fresh (k + 1) rows) (\<lambda>ws.
     op_return (if done then fst row # ws else ws)))"

primrec expire_rows ::
  "instant \<Rightarrow> string \<Rightarrow> datetime \<Rightarrow> (nat \<Rightarrow> uuid) \<Rightarrow> nat \<Rightarrow> (lease_row \<times> work_row) list \<Rightarrow> ('z db_scheme, uuid list) op" where
  "expire_rows clk tenant now fresh k [] = op_return []"
| "expire_rows clk tenant now fresh k (row # rows) =
     op_bind (expire_one clk tenant now row (fresh k) (fresh (k + 1))) (\<lambda>done.
     op_bind (expire_rows clk tenant now fresh (k + 2) rows) (\<lambda>ws.
     op_return (if done then wl_work_id (fst row) # ws else ws)))"

definition reconcile_expired ::
  "instant \<Rightarrow> string \<Rightarrow> datetime \<Rightarrow> int \<Rightarrow> (nat \<Rightarrow> uuid) \<Rightarrow> ('z db_scheme, uuid list) op" where
  "reconcile_expired clk tenant now limit fresh =
     op_bind (op_require (1 \<le> limit \<and> limit \<le> 1000)
       (ValueError ''reconciliation limit must be between 1 and 1000'')) (\<lambda>_.
     op_bind (op_gets (select_redrive clk tenant (nat limit))) (\<lambda>redrive.
     op_bind (op_gets (select_expired (dt_instant now) tenant (nat limit - length redrive))) (\<lambda>expired.
     op_bind (redrive_rows clk tenant now fresh 0 redrive) (\<lambda>ws1.
     op_bind (expire_rows clk tenant now fresh (length redrive) expired) (\<lambda>ws2.
     op_return (ws1 @ ws2))))))"

subsection \<open>Operator actions\<close>

definition cancel_by_id ::
  "instant \<Rightarrow> string \<Rightarrow> uuid \<Rightarrow> datetime \<Rightarrow> string \<Rightarrow> uuid \<Rightarrow> uuid \<Rightarrow> ('z db_scheme, unit) op" where
  "cancel_by_id clk tenant w at actr eid1 eid2 =
     op_bind (op_require (actr \<noteq> []) (ValueError ''actor_id is required'')) (\<lambda>_.
     op_bind (load_request tenant w) (\<lambda>r.
     request_cancel clk tenant r at (Some actr) eid1 eid2))"

record RequeueApproval =
  ra_approval_id :: uuid
  ra_approved_by :: string
  ra_approved_at :: datetime
  ra_scope :: string

definition init_RequeueApproval :: "RequeueApproval \<Rightarrow> RequeueApproval res" where
  "init_RequeueApproval a =
     res_bind (require (ra_approved_by a \<noteq> [] \<and> dt_aware (ra_approved_at a))
       (ValueError ''approval actor and time are required'')) (\<lambda>_.
     res_bind (require (ra_scope a = ''dlq:requeue'') (ValueError ''approval scope must be dlq:requeue'')) (\<lambda>_.
     Inr a))"

definition approval_usable :: "instant \<Rightarrow> string \<Rightarrow> uuid \<Rightarrow> RequeueApproval \<Rightarrow> string \<Rightarrow> approval_row \<Rightarrow> bool" where
  "approval_usable clk tenant w a actr p =
     (ap_tenant_id p = tenant \<and> ap_approval_id p = ra_approval_id a \<and> ap_work_id p = w
      \<and> ap_approved_by p = ra_approved_by a \<and> ap_approved_at p = dt_instant (ra_approved_at a)
      \<and> ap_consumed_at p = None \<and> clk < ap_expires_at p \<and> ap_approved_by p \<noteq> actr)"

definition requeue_projection ::
  "instant \<Rightarrow> string \<Rightarrow> uuid \<Rightarrow> instant \<Rightarrow> RequeueApproval \<Rightarrow> string \<Rightarrow> ('z db_scheme, unit) op" where
  "requeue_projection clk tenant w at a actr =
     op_bind (op_gets (\<lambda>s. sql_one (approval_usable clk tenant w a actr) (db_work_requeue_approvals s))) (\<lambda>row.
     op_bind (op_require (row \<noteq> None) (ConcurrencyError 1 0)) (\<lambda>_.
     op_bind (update_work (\<lambda>q. is_work tenant w q \<and> wi_status q = DEAD_LETTER)
       (\<lambda>q. q\<lparr>wi_status := RETRY_WAIT, wi_available_at := at, wi_attempt_count := 0,
              wi_completed_at := None, wi_last_error_code := None, wi_cancel_requested_at := None\<rparr>)
       (ConcurrencyError 1 0)) (\<lambda>_.
     op_bind (op_modify (\<lambda>s. s\<lparr>db_work_requeue_approvals := sql_update
       (\<lambda>p. ap_tenant_id p = tenant \<and> ap_approval_id p = ra_approval_id a)
       (\<lambda>p. p\<lparr>ap_consumed_at := Some clk, ap_consumed_by := Some actr\<rparr>) (db_work_requeue_approvals s)\<rparr>)) (\<lambda>_.
     op_modify (\<lambda>s. s\<lparr>db_work_dead_letters := sql_update
       (\<lambda>d. dl_tenant_id d = tenant \<and> dl_work_id d = w)
       (\<lambda>d. d\<lparr>dl_requeue_count := dl_requeue_count d + 1, dl_last_requeued_at := Some at\<rparr>)
       (db_work_dead_letters s)\<rparr>)))))"

definition requeue_commit ::
  "instant \<Rightarrow> string \<Rightarrow> uuid \<Rightarrow> datetime \<Rightarrow> RequeueApproval \<Rightarrow> string \<Rightarrow> EventEnvelope \<Rightarrow> OutboxMessage \<Rightarrow> int
     \<Rightarrow> ('z db_scheme, int) op" where
  "requeue_commit clk tenant w at a actr event ob version =
     append_atomic clk tenant [event] version (requeue_projection clk tenant w (dt_instant at) a actr) [ob]"

definition requeue_dead_letter ::
  "instant \<Rightarrow> string \<Rightarrow> uuid \<Rightarrow> datetime \<Rightarrow> RequeueApproval \<Rightarrow> string \<Rightarrow> uuid \<Rightarrow> uuid \<Rightarrow> ('z db_scheme, unit) op" where
  "requeue_dead_letter clk tenant w at a actr eid mid =
     op_bind (load_request tenant w) (\<lambda>r.
     op_bind (op_lift (transition_event WORK_RETRY_SCHEDULED at
       [(''retry_at'', JStr (isoformat at)), (''reason_code'', JStr ''approved_dlq_requeue''),
        (''approval_id'', JStr (uuid_str (ra_approval_id a)))] None r eid None)) (\<lambda>event.
     op_bind (op_lift (init_OutboxMessage
       \<lparr>om_message_id = mid, om_destination = ''aegis.work'', om_payload = request_payload r,
        om_headers = [(''tenant_id'', JStr (rq_tenant_id r)), (''schema_version'', JInt 1)],
        om_available_at = at, om_max_attempts = rq_max_attempts r, om_event_id = Some (event_id event)\<rparr>)) (\<lambda>ob.
     op_bind (work_version tenant w) (\<lambda>version.
     op_bind (requeue_commit clk tenant w at a actr event ob version) (\<lambda>_.
     op_return ())))))"

definition approve_dead_letter_requeue ::
  "string \<Rightarrow> uuid \<Rightarrow> RequeueApproval \<Rightarrow> datetime \<Rightarrow> ('z db_scheme, unit) op" where
  "approve_dead_letter_requeue tenant w a expires_at =
     op_bind (op_lift (dt_le expires_at (ra_approved_at a))) (\<lambda>past.
     op_bind (op_require (\<not> past) (ValueError ''approval expiry must be after approval time'')) (\<lambda>_.
     tenant_transaction (
       op_bind (op_gets (\<lambda>s.
         (\<exists>d \<in> set (db_work_dead_letters s). dl_tenant_id d = tenant \<and> dl_work_id d = w)
         \<and> (\<exists>q \<in> set (db_work_items s). is_work tenant w q \<and> wi_status q = DEAD_LETTER)
         \<and> (\<forall>p \<in> set (db_work_requeue_approvals s).
              \<not> (ap_tenant_id p = tenant \<and> ap_approval_id p = ra_approval_id a)))) (\<lambda>insertable.
       op_bind (op_require insertable (ConcurrencyError 1 0)) (\<lambda>_.
       op_bind (op_require (ra_approved_by a \<noteq> []) integrity_error) (\<lambda>_.
       op_modify (\<lambda>s. s\<lparr>db_work_requeue_approvals := db_work_requeue_approvals s
         @ [\<lparr>ap_tenant_id = tenant, ap_approval_id = ra_approval_id a, ap_work_id = w,
             ap_approved_by = ra_approved_by a, ap_approved_at = dt_instant (ra_approved_at a),
             ap_expires_at = dt_instant expires_at, ap_consumed_at = None, ap_consumed_by = None\<rparr>]\<rparr>)))))))"

subsection \<open>Status pages\<close>

datatype page_cursor = KeysetCursor datetime uuid | TimeCursor datetime

definition MAX_UUID :: uuid where
  "MAX_UUID = - 1"

definition datetime_max :: datetime where
  "datetime_max = \<lparr>dt_wall = 3652059 * day_micros - 1, dt_offset = Some 0\<rparr>"

definition descending_cursor :: "page_cursor option \<Rightarrow> (datetime \<times> uuid) res" where
  "descending_cursor c = (case c of
     None \<Rightarrow> Inr (datetime_max, MAX_UUID)
   | Some (KeysetCursor d w) \<Rightarrow>
       if dt_aware d then Inr (d, w) else Inl (ValueError ''cursor timestamps must be timezone-aware'')
   | Some (TimeCursor d) \<Rightarrow>
       if dt_aware d then Inr (d, MAX_UUID) else Inl (ValueError ''cursor timestamps must be timezone-aware''))"

definition before_cursor :: "instant \<times> uuid \<Rightarrow> instant \<Rightarrow> uuid \<Rightarrow> bool" where
  "before_cursor c t w = (t < fst c \<or> (t = fst c \<and> w < snd c))"

definition json_opt_str :: "string option \<Rightarrow> json" where
  "json_opt_str v = (case v of None \<Rightarrow> JNull | Some x \<Rightarrow> JStr x)"

definition status_item :: "work_row \<Rightarrow> json_obj" where
  "status_item r =
     [(''work_id'', JStr (uuid_str (wi_work_id r))), (''work_kind'', JStr (wi_work_kind r)),
      (''status'', JStr (WorkStatus_value (wi_status r))),
      (''requested_at'', JStr (isoformat (dt_of_instant (wi_requested_at r)))),
      (''available_at'', JStr (isoformat (dt_of_instant (wi_available_at r)))),
      (''attempt_count'', JInt (wi_attempt_count r)), (''max_attempts'', JInt (wi_max_attempts r)),
      (''cancel_requested'', JBool (wi_cancel_requested_at r \<noteq> None)),
      (''last_error_code'', (case wi_last_error_code r of None \<Rightarrow> JNull
         | Some c \<Rightarrow> if c = [] then JNull else JStr c))]"

definition status_rows :: "string \<Rightarrow> WorkStatus option \<Rightarrow> instant \<times> uuid \<Rightarrow> 'z db_scheme \<Rightarrow> work_row list" where
  "status_rows tenant status c s =
     rev (sort_key wi_requested_at (sort_key wi_work_id
       (filter (\<lambda>r. wi_tenant_id r = tenant \<and> before_cursor c (wi_requested_at r) (wi_work_id r)
          \<and> (case status of None \<Rightarrow> True | Some st \<Rightarrow> wi_status r = st)) (db_work_items s))))"

definition status_page ::
  "string \<Rightarrow> WorkStatus option \<Rightarrow> int \<Rightarrow> page_cursor option \<Rightarrow> ('z db_scheme, json_obj list) op" where
  "status_page tenant status limit c =
     op_bind (op_require (1 \<le> limit \<and> limit \<le> 200) (ValueError ''status limit must be between 1 and 200'')) (\<lambda>_.
     op_bind (op_lift (descending_cursor c)) (\<lambda>(d, w).
     tenant_transaction (op_gets (\<lambda>s.
       map status_item (take (nat limit) (status_rows tenant status (dt_instant d, w) s))))))"

definition open_lease :: "'z db_scheme \<Rightarrow> string \<Rightarrow> uuid \<Rightarrow> lease_row option" where
  "open_lease s tenant w = sql_one (\<lambda>l. is_lease tenant w l \<and> wl_released_at l = None) (db_work_leases s)"

definition pending_item :: "'z db_scheme \<Rightarrow> work_row \<Rightarrow> json_obj" where
  "pending_item s r =
     (let l = open_lease s (wi_tenant_id r) (wi_work_id r) in
     [(''work_id'', JStr (uuid_str (wi_work_id r))), (''work_kind'', JStr (wi_work_kind r)),
      (''status'', JStr (WorkStatus_value (wi_status r))),
      (''available_at'', JStr (isoformat (dt_of_instant (wi_available_at r)))),
      (''attempt_count'', JInt (wi_attempt_count r)), (''max_attempts'', JInt (wi_max_attempts r)),
      (''lease_owner'', json_opt_str (map_option wl_owner l)),
      (''heartbeat_at'', json_opt_str (map_option (\<lambda>q. isoformat (dt_of_instant (wl_heartbeat_at q))) l)),
      (''expires_at'', json_opt_str (map_option (\<lambda>q. isoformat (dt_of_instant (wl_expires_at q))) l))])"

definition pending_rows :: "string \<Rightarrow> instant \<times> uuid \<Rightarrow> 'z db_scheme \<Rightarrow> work_row list" where
  "pending_rows tenant c s =
     rev (sort_key wi_available_at (sort_key wi_work_id
       (filter (\<lambda>r. wi_tenant_id r = tenant
          \<and> wi_status r \<in> set [REQUESTED, PUBLISHED, CLAIMED, RUNNING, RETRY_WAIT]
          \<and> before_cursor c (wi_available_at r) (wi_work_id r)) (db_work_items s))))"

definition pending_status :: "string \<Rightarrow> int \<Rightarrow> page_cursor option \<Rightarrow> ('z db_scheme, json_obj list) op" where
  "pending_status tenant limit c =
     op_bind (op_require (1 \<le> limit \<and> limit \<le> 200) (ValueError ''pending limit must be between 1 and 200'')) (\<lambda>_.
     op_bind (op_lift (descending_cursor c)) (\<lambda>(d, w).
     tenant_transaction (op_gets (\<lambda>s.
       map (pending_item s) (take (nat limit) (pending_rows tenant (dt_instant d, w) s))))))"

subsection \<open>Helpers no operation calls\<close>

text \<open>
  The class also has helpers that none of its operations uses: an append without a fence and direct updates of
  status and lease outside the ledger. They are translated for completeness and are not steps of the
  work system.
\<close>

definition append_unfenced ::
  "instant \<Rightarrow> string \<Rightarrow> WorkRequest \<Rightarrow> WorkTransition \<Rightarrow> uuid \<Rightarrow> ('z db_scheme, unit) op" where
  "append_unfenced clk tenant r t eid =
     op_bind (work_version tenant (rq_work_id r)) (\<lambda>version.
     op_bind (op_lift (to_event t r eid None)) (\<lambda>event.
     op_bind (append_events clk tenant [event] version []) (\<lambda>_.
     op_return ())))"

definition set_status :: "string \<Rightarrow> uuid \<Rightarrow> WorkStatus \<Rightarrow> WorkStatus list \<Rightarrow> ('z db_scheme, unit) op" where
  "set_status tenant w status from_statuses =
     tenant_transaction (op_modify (\<lambda>s. s\<lparr>db_work_items := sql_update
       (\<lambda>q. is_work tenant w q \<and> (from_statuses = [] \<or> wi_status q \<in> set from_statuses))
       (\<lambda>q. q\<lparr>wi_status := status\<rparr>) (db_work_items s)\<rparr>))"

definition complete_unfenced :: "WorkLease \<Rightarrow> instant \<Rightarrow> WorkStatus \<Rightarrow> string \<Rightarrow> ('z db_scheme, unit) op" where
  "complete_unfenced l at status reason =
     tenant_transaction (
       op_bind (release_lease l at reason) (\<lambda>_.
       op_modify (\<lambda>s. s\<lparr>db_work_items := sql_update (is_work (ls_tenant_id l) (ls_work_id l))
         (\<lambda>q. q\<lparr>wi_status := status, wi_completed_at := Some at\<rparr>) (db_work_items s)\<rparr>)))"

definition dead_letter_unfenced :: "WorkLease \<Rightarrow> instant \<Rightarrow> string \<Rightarrow> ('z db_scheme, unit) op" where
  "dead_letter_unfenced l at reason =
     tenant_transaction (
       op_bind (release_lease l at ''dead_letter'') (\<lambda>_.
       op_bind (op_modify (\<lambda>s. s\<lparr>db_work_items := sql_update (is_work (ls_tenant_id l) (ls_work_id l))
         (\<lambda>q. q\<lparr>wi_status := DEAD_LETTER, wi_completed_at := Some at, wi_last_error_code := Some reason\<rparr>)
         (db_work_items s)\<rparr>)) (\<lambda>_.
       upsert_dead_letter l at reason)))"

definition expire_one_in_transaction :: "string \<Rightarrow> uuid \<Rightarrow> instant \<Rightarrow> ('z db_scheme, unit) op" where
  "expire_one_in_transaction tenant w now =
     (let held = (\<lambda>q. is_lease tenant w q \<and> wl_released_at q = None \<and> wl_expires_at q \<le> now) in
      op_bind (op_gets (\<lambda>s. sql_count held (db_work_leases s))) (\<lambda>n.
      op_bind (op_modify (\<lambda>s. s\<lparr>db_work_leases := sql_update held
        (\<lambda>q. q\<lparr>wl_released_at := Some now, wl_release_reason := Some ''lease_expired''\<rparr>) (db_work_leases s)\<rparr>)) (\<lambda>_.
      if n \<noteq> 0 then
        op_modify (\<lambda>s. s\<lparr>db_work_items := sql_update
          (\<lambda>q. is_work tenant w q \<and> wi_status q \<in> set [CLAIMED, RUNNING])
          (\<lambda>q. q\<lparr>wi_status := RETRY_WAIT, wi_available_at := now\<rparr>) (db_work_items s)\<rparr>)
      else op_return ())))"

end
