(* ===== verification/Work_Invariants.thy ===== *)
theory Work_Invariants
  imports Work_Repository
begin

text \<open>
  The invariant of the work repository: the work tables are a projection of the ledger (replaying
  the work events of a stream gives the status of its row), an item is claimed or running exactly
  while it has an unreleased lease, and attempts stay within bounds. Every transaction keeps it.
\<close>

section \<open>Tables by key\<close>

definition work_key :: "work_row \<Rightarrow> string \<times> uuid" where
  "work_key r = (wi_tenant_id r, wi_work_id r)"

definition lease_key :: "lease_row \<Rightarrow> string \<times> uuid" where
  "lease_key l = (wl_tenant_id l, wl_work_id l)"

definition work_at :: "'z db_scheme \<Rightarrow> string \<times> uuid \<Rightarrow> work_row option" where
  "work_at s k = sql_one (\<lambda>r. work_key r = k) (db_work_items s)"

definition lease_at :: "'z db_scheme \<Rightarrow> string \<times> uuid \<Rightarrow> lease_row option" where
  "lease_at s k = sql_one (\<lambda>l. lease_key l = k) (db_work_leases s)"

lemma is_work_key: "is_work t w r \<longleftrightarrow> work_key r = (t, w)"
  by (auto simp: is_work_def work_key_def)

lemma is_lease_key: "is_lease t w l \<longleftrightarrow> lease_key l = (t, w)"
  by (auto simp: is_lease_def lease_key_def)

lemma keyed_update:
  assumes dist: "distinct (map key rows)" and one: "sql_count P rows = 1"
    and PK: "\<And>r. P r \<Longrightarrow> key r = k" and keep: "\<And>r. key (f r) = key r"
  obtains r where "sql_one (\<lambda>x. key x = k) rows = Some r" and "P r"
    and "\<And>k'. sql_one (\<lambda>x. key x = k') (sql_update P f rows)
           = (if k' = k then Some (f r) else sql_one (\<lambda>x. key x = k') rows)"
    and "map key (sql_update P f rows) = map key rows"
proof -
  obtain r where r: "r \<in> set rows" "P r" using sql_count_1_ex [OF one] by blast
  have find: "sql_one (\<lambda>x. key x = k) rows = Some r"
    using sql_one_eqI [where P = "\<lambda>x. key x = k" and r = r and k = k, OF dist] r PK by auto
  have uniq: "q = r" if "q \<in> set rows" "key q = k" for q
    using distinct_key_eq [OF dist that(1) r(1)] that(2) PK [OF r(2)] by simp
  have upd: "sql_one (\<lambda>x. key x = k') (sql_update P f rows)
           = (if k' = k then Some (f r) else sql_one (\<lambda>x. key x = k') rows)" for k'
  proof (cases "k' = k")
    case True
    have mem: "f r \<in> set (sql_update P f rows)" using r by (auto simp: in_sql_update_iff)
    have d: "distinct (map key (sql_update P f rows))" using dist keep by simp
    have "key (f r) = k" using keep PK [OF r(2)] by simp
    then show ?thesis
      using sql_one_eqI [where P = "\<lambda>x. key x = k" and k = k, OF d _ mem] True by simp
  next
    case False
    have "sql_one (\<lambda>x. key x = k') (sql_update P f qs) = sql_one (\<lambda>x. key x = k') qs" for qs
      using False PK keep by (induction qs) auto
    then show ?thesis using False by simp
  qed
  show thesis by (rule that [OF find r(2) upd]) (simp add: keep)
qed

section \<open>History and invariant\<close>

definition work_event_of :: "event_row \<Rightarrow> DomainEventType list" where
  "work_event_of r = (case DomainEventType_of (er_event_type r) of
     Inl _ \<Rightarrow> []
   | Inr e \<Rightarrow> if py_startswith (DomainEventType_value e) ''work.'' then [e] else [])"

definition work_history :: "'z db_scheme \<Rightarrow> string \<times> uuid \<Rightarrow> DomainEventType list" where
  "work_history s k = concat (map work_event_of (filter (in_stream (fst k) (uuid_str (snd k))) (db_events s)))"

definition item_ok :: "work_row \<Rightarrow> lease_row option \<Rightarrow> bool" where
  "item_ok r lo =
     ((wi_status r \<in> {CLAIMED, RUNNING}) = (\<exists>l. lo = Some l \<and> wl_released_at l = None)
      \<and> 0 \<le> wi_attempt_count r \<and> wi_attempt_count r \<le> wi_max_attempts r
      \<and> (wi_status r \<in> {CLAIMED, RUNNING} \<longrightarrow> 1 \<le> wi_attempt_count r))"

definition work_ok :: "'z db_scheme \<Rightarrow> string \<times> uuid \<Rightarrow> bool" where
  "work_ok s k = (case work_at s k of
     None \<Rightarrow> lease_at s k = None
   | Some r \<Rightarrow> item_ok r (lease_at s k) \<and> replay_status None (work_history s k) = Inr (Some (wi_status r)))"

definition work_inv :: "'z db_scheme \<Rightarrow> bool" where
  "work_inv s = (ledger_inv s \<and> distinct (map work_key (db_work_items s))
     \<and> distinct (map lease_key (db_work_leases s)) \<and> (\<forall>k. work_ok s k))"

lemma work_event_of_rows:
  assumes "map event_type es = map DomainEventType_value tys"
    and "\<forall>e \<in> set tys. py_startswith (DomainEventType_value e) ''work.''"
  shows "concat (map work_event_of (event_rows now v p es)) = tys"
  using assms
proof (induction es arbitrary: v p tys)
  case Nil
  then show ?case by simp
next
  case (Cons e es)
  then obtain ty tys' where tys: "tys = ty # tys'" by (cases tys) auto
  with Cons.prems have "work_event_of (event_insert_values e (v + 1) p now) = [ty]"
    by (simp add: work_event_of_def DomainEventType_of_value)
  with Cons tys show ?case by simp
qed

lemma work_history_append:
  assumes "append_in_transaction clk es v ob s = (Inr n, s1)" and "same_stream t (uuid_str w) es"
    and "db_events s' = db_events s1"
  shows "work_history s' k = work_history s k @
    (if k = (t, w) then concat (map work_event_of (event_rows clk v (db_next_position s) es)) else [])"
proof -
  have ev: "db_events s' = db_events s @ event_rows clk v (db_next_position s) es"
    using append_in_transaction_Inr(4) [OF assms(1)] assms(3) by simp
  show ?thesis
    by (cases k) (auto simp: work_history_def ev filter_stream_rows [OF assms(2)])
qed

lemma replay_status_work_events:
  "replay_status c tys = Inr d \<Longrightarrow> \<forall>e \<in> set tys. py_startswith (DomainEventType_value e) ''work.''"
proof (induction tys arbitrary: c)
  case Nil
  then show ?case by simp
next
  case (Cons e tys)
  then obtain b where b: "work_edge c e b" "replay_status (Some b) tys = Inr d"
    by (auto simp: replay_status_Cons_Inr)
  then have "py_startswith (DomainEventType_value e) ''work.''"
    using next_status_work_event [of c e b] by (simp add: next_status_iff_edge)
  with Cons b show ?case by auto
qed

text \<open>
  A transaction that appends a batch to the stream of one item and moves that item's row and lease
  keeps the invariant when the batch replays from the old status to the new one.
\<close>

definition moved :: "'z db_scheme \<Rightarrow> 'z db_scheme \<Rightarrow> string \<times> uuid \<Rightarrow> work_row \<Rightarrow> lease_row option \<Rightarrow> bool" where
  "moved s s' k r' lo' =
     ((\<forall>k'. work_at s' k' = (if k' = k then Some r' else work_at s k'))
      \<and> (\<forall>k'. lease_at s' k' = (if k' = k then lo' else lease_at s k'))
      \<and> distinct (map work_key (db_work_items s')) \<and> distinct (map lease_key (db_work_leases s')))"

definition same_ledger :: "'z db_scheme \<Rightarrow> 'z db_scheme \<Rightarrow> bool" where
  "same_ledger s1 s' = (db_events s' = db_events s1 \<and> db_heads s' = db_heads s1
     \<and> db_next_position s' = db_next_position s1)"

lemma work_inv_moved:
  assumes inv: "work_inv s" and app: "append_in_transaction clk es v ob s = (Inr n, s1)"
    and st: "same_stream t (uuid_str w) es" and tys: "map event_type es = map DomainEventType_value tys"
    and led: "same_ledger s1 s'" and mv: "moved s s' (t, w) r' lo'" and ok: "item_ok r' lo'"
    and re: "replay_status (map_option wi_status (work_at s (t, w))) tys = Inr (Some (wi_status r'))"
    and fresh: "work_at s (t, w) = None \<Longrightarrow> work_history s (t, w) = []"
  shows "work_inv s'"
proof -
  have "ledger_inv s1" using inv app st append_in_transaction_inv by (auto simp: work_inv_def)
  then have L: "ledger_inv s'" using led by (intro ledger_inv_cong [of s1 s']) (auto simp: same_ledger_def)
  have work: "\<forall>e \<in> set tys. py_startswith (DomainEventType_value e) ''work.''"
    by (rule replay_status_work_events [OF re])
  have hist: "work_history s' k = work_history s k @ (if k = (t, w) then tys else [])" for k
    using work_history_append [OF app st, of s' k] led work_event_of_rows [OF tys work]
    by (simp add: same_ledger_def)
  have "work_ok s' k" for k
  proof (cases "k = (t, w)")
    case True
    have "replay_status None (work_history s k) = Inr (map_option wi_status (work_at s k))"
      using inv fresh True by (cases "work_at s k") (auto simp: work_inv_def work_ok_def split: option.splits)
    then have "replay_status None (work_history s' k) = Inr (Some (wi_status r'))"
      using re True by (simp add: hist replay_status_append)
    then show ?thesis using mv ok True by (simp add: work_ok_def moved_def)
  next
    case False
    have "work_at s' k = work_at s k" "lease_at s' k = lease_at s k"
      using mv False by (simp_all add: moved_def del: split_paired_All)
    moreover have "work_ok s k" using inv by (simp add: work_inv_def del: split_paired_All)
    ultimately show ?thesis using False by (cases "work_at s k") (simp_all add: work_ok_def hist)
  qed
  then show ?thesis using L mv by (simp add: work_inv_def moved_def)
qed

section \<open>What the mutations do\<close>

lemma update_work_Inr:
  "update_work P f e s = (Inr u, s') \<longleftrightarrow>
     sql_count P (db_work_items s) = 1 \<and> s' = s\<lparr>db_work_items := sql_update P f (db_work_items s)\<rparr>"
  by (auto simp: update_work_def op_simps)

lemma update_lease_Inr:
  "update_lease P f e s = (Inr u, s') \<longleftrightarrow>
     sql_count P (db_work_leases s) = 1 \<and> s' = s\<lparr>db_work_leases := sql_update P f (db_work_leases s)\<rparr>"
  by (auto simp: update_lease_def op_simps)

definition keys_ok :: "'z db_scheme \<Rightarrow> bool" where
  "keys_ok s = (distinct (map work_key (db_work_items s)) \<and> distinct (map lease_key (db_work_leases s)))"

lemma update_work_row:
  assumes "update_work P f e s = (Inr u, s')" and "keys_ok s"
    and "\<And>r. P r \<Longrightarrow> is_work t w r" and "\<And>r. work_key (f r) = work_key r"
  obtains r where "work_at s (t, w) = Some r" and "P r" and "moved s s' (t, w) (f r) (lease_at s (t, w))"
    and "same_ledger s s'"
proof -
  have u: "sql_count P (db_work_items s) = 1" "s' = s\<lparr>db_work_items := sql_update P f (db_work_items s)\<rparr>"
    using assms(1) by (simp_all add: update_work_Inr)
  obtain r where r: "sql_one (\<lambda>x. work_key x = (t, w)) (db_work_items s) = Some r" "P r"
    "\<And>k'. sql_one (\<lambda>x. work_key x = k') (sql_update P f (db_work_items s))
       = (if k' = (t, w) then Some (f r) else sql_one (\<lambda>x. work_key x = k') (db_work_items s))"
    "map work_key (sql_update P f (db_work_items s)) = map work_key (db_work_items s)"
    using keyed_update [where key = work_key and k = "(t, w)" and P = P and f = f and rows = "db_work_items s"]
      u(1) assms(2-4) by (auto simp: keys_ok_def is_work_key)
  show thesis
  proof (rule that [OF _ r(2)])
    show "work_at s (t, w) = Some r" using r(1) by (simp add: work_at_def)
    show "moved s s' (t, w) (f r) (lease_at s (t, w))"
      using r(3,4) assms(2) by (auto simp: moved_def work_at_def lease_at_def u(2) keys_ok_def)
    show "same_ledger s s'" by (simp add: same_ledger_def u(2))
  qed
qed

lemma update_lease_row:
  assumes "update_lease P f e s = (Inr u, s')" and "keys_ok s"
    and "\<And>l. P l \<Longrightarrow> is_lease t w l" and "\<And>l. lease_key (f l) = lease_key l"
  obtains l where "lease_at s (t, w) = Some l" and "P l"
    and "\<And>k. work_at s' k = work_at s k"
    and "\<And>k. lease_at s' k = (if k = (t, w) then Some (f l) else lease_at s k)"
    and "keys_ok s'" and "same_ledger s s'"
proof -
  have u: "sql_count P (db_work_leases s) = 1" "s' = s\<lparr>db_work_leases := sql_update P f (db_work_leases s)\<rparr>"
    using assms(1) by (simp_all add: update_lease_Inr)
  obtain l where l: "sql_one (\<lambda>x. lease_key x = (t, w)) (db_work_leases s) = Some l" "P l"
    "\<And>k'. sql_one (\<lambda>x. lease_key x = k') (sql_update P f (db_work_leases s))
       = (if k' = (t, w) then Some (f l) else sql_one (\<lambda>x. lease_key x = k') (db_work_leases s))"
    "map lease_key (sql_update P f (db_work_leases s)) = map lease_key (db_work_leases s)"
    using keyed_update [where key = lease_key and k = "(t, w)" and P = P and f = f and rows = "db_work_leases s"]
      u(1) assms(2-4) by (auto simp: keys_ok_def is_lease_key)
  show thesis
  proof (rule that [OF _ l(2)])
    show "lease_at s (t, w) = Some l" using l(1) by (simp add: lease_at_def)
    show "keys_ok s'" using l(4) assms(2) by (simp add: keys_ok_def u(2))
  qed (use l in \<open>auto simp: u(2) work_at_def lease_at_def same_ledger_def\<close>)
qed

lemma update_lease_moved:
  assumes "update_lease P f e s = (Inr u, s')" and "keys_ok s"
    and "\<And>l. P l \<Longrightarrow> is_lease t w l" and "\<And>l. lease_key (f l) = lease_key l"
  shows "\<exists>l. lease_at s (t, w) = Some l \<and> P l \<and> same_ledger s s'
    \<and> (\<forall>r. work_at s (t, w) = Some r \<longrightarrow> moved s s' (t, w) r (Some (f l)))"
proof (rule update_lease_row [OF assms])
  fix l
  assume a: "lease_at s (t, w) = Some l" "P l" "\<And>k. work_at s' k = work_at s k"
    "\<And>k. lease_at s' k = (if k = (t, w) then Some (f l) else lease_at s k)" "keys_ok s'" "same_ledger s s'"
  then show ?thesis by (intro exI [of _ l]) (simp add: moved_def keys_ok_def del: split_paired_All)
qed

text \<open>Ending a tenure: the lease is released and the item leaves the active statuses.\<close>

lemma release_then_update:
  assumes "op_bind (update_lease PL fL e1) (\<lambda>_. update_work PW fW e2) s = (Inr u, s')" and "keys_ok s"
    and "\<And>l. PL l \<Longrightarrow> is_lease t w l" and "\<And>l. lease_key (fL l) = lease_key l"
    and "\<And>r. PW r \<Longrightarrow> is_work t w r" and "\<And>r. work_key (fW r) = work_key r"
  obtains l r where "lease_at s (t, w) = Some l" and "PL l" and "work_at s (t, w) = Some r" and "PW r"
    and "moved s s' (t, w) (fW r) (Some (fL l))" and "same_ledger s s'"
proof -
  obtain s1 where s1: "update_lease PL fL e1 s = (Inr (), s1)" "update_work PW fW e2 s1 = (Inr u, s')"
    using assms(1) by (auto simp: op_simps)
  obtain l where l: "lease_at s (t, w) = Some l" "PL l" "\<And>k. work_at s1 k = work_at s k"
    "\<And>k. lease_at s1 k = (if k = (t, w) then Some (fL l) else lease_at s k)" "keys_ok s1" "same_ledger s s1"
    using update_lease_row [OF s1(1) assms(2,3,4)] by blast
  obtain r where r: "work_at s1 (t, w) = Some r" "PW r" "moved s1 s' (t, w) (fW r) (lease_at s1 (t, w))" "same_ledger s1 s'"
    using update_work_row [OF s1(2) l(5) assms(5,6)] by blast
  show thesis
    by (rule that [OF l(1,2) _ r(2)])
       (use l r in \<open>auto simp: moved_def same_ledger_def simp del: split_paired_All\<close>)
qed

section \<open>Events of transitions\<close>

lemma init_WorkTransition_Inr:
  "init_WorkTransition p t = Inr t' \<Longrightarrow>
     wt_event_type t' = wt_event_type t \<and> wt_occurred_at t' = wt_occurred_at t \<and> wt_lease t' = wt_lease t
     \<and> json_obj_wf (wt_details t') \<and> dt_aware (wt_occurred_at t)"
  by (auto simp: init_WorkTransition_def res_bind_Inr_iff freeze_json_mapping_wf)

lemma new_envelope_fields:
  "new_envelope e = Inr e' \<Longrightarrow>
     event_id e' = event_id e \<and> ev_tenant_id e' = ev_tenant_id e \<and> aggregate_id e' = aggregate_id e
     \<and> event_type e' = event_type e \<and> aggregate_sequence e' = aggregate_sequence e
     \<and> global_position e' = global_position e"
  by (auto simp: new_envelope_def init_envelope_def res_bind_Inr_iff)

lemma to_event_Inr:
  assumes "to_event t r eid c = Inr e"
  shows "event_id e = eid \<and> ev_tenant_id e = rq_tenant_id r \<and> aggregate_id e = uuid_str (rq_work_id r)
    \<and> event_type e = DomainEventType_value (wt_event_type t)
    \<and> (\<forall>l. wt_lease t = Some l \<longrightarrow> ls_work_id l = rq_work_id r \<and> ls_tenant_id l = rq_tenant_id r)"
  using assms by (auto simp: to_event_def res_bind_Inr_iff dest!: new_envelope_fields)

lemma transition_event_Inr:
  assumes "transition_event ty at ds lo r eid c = Inr e"
  shows "event_id e = eid \<and> ev_tenant_id e = rq_tenant_id r \<and> aggregate_id e = uuid_str (rq_work_id r)
    \<and> event_type e = DomainEventType_value ty
    \<and> (\<forall>l. lo = Some l \<longrightarrow> ls_work_id l = rq_work_id r \<and> ls_tenant_id l = rq_tenant_id r)"
  using assms
  by (auto simp: transition_event_def new_transition_def res_bind_Inr_iff
      dest!: init_WorkTransition_Inr to_event_Inr)

definition event_for :: "EventEnvelope \<Rightarrow> string \<Rightarrow> uuid \<Rightarrow> DomainEventType \<Rightarrow> bool" where
  "event_for e t w ty = (ev_tenant_id e = t \<and> aggregate_id e = uuid_str w \<and> event_type e = DomainEventType_value ty)"

lemma transition_event_for:
  "transition_event ty at ds lo r eid c = Inr e \<Longrightarrow> event_for e (rq_tenant_id r) (rq_work_id r) ty"
  by (auto simp: event_for_def dest: transition_event_Inr)

lemma event_for_batch:
  "list_all2 (\<lambda>e ty. event_for e t w ty) es tys \<Longrightarrow>
     same_stream t (uuid_str w) es \<and> map event_type es = map DomainEventType_value tys"
  by (induction rule: list_all2_induct) (auto simp: same_stream_def event_for_def)

lemma append_atomic_Inr:
  "append_atomic now t es ev mut ob s = (Inr v, s') \<longleftrightarrow>
     validate_append t es ev = Inr ()
     \<and> (\<exists>s1. append_in_transaction now es ev ob s = (Inr v, s1) \<and> (\<exists>u. mut s1 = (Inr u, s')))"
  by (auto simp: append_atomic_def op_simps)

lemma append_keeps_work:
  assumes "append_in_transaction now es ev ob s = (Inr v, s1)"
  shows "work_at s1 = work_at s" "lease_at s1 = lease_at s" "keys_ok s1 = keys_ok s"
    "db_work_items s1 = db_work_items s" "db_work_leases s1 = db_work_leases s"
  using append_in_transaction_Inr(4) [OF assms]
  by (auto simp: work_at_def lease_at_def keys_ok_def fun_eq_iff)

lemma moved_from: "work_at s1 = work_at s \<Longrightarrow> lease_at s1 = lease_at s \<Longrightarrow> moved s1 s' k r lo = moved s s' k r lo"
  by (simp add: moved_def)

section \<open>Transactions keep the invariant\<close>

lemma work_inv_batch:
  assumes "work_inv s" and "append_in_transaction clk es v ob s = (Inr n, s1)"
    and "list_all2 (\<lambda>e ty. event_for e t w ty) es tys"
    and "same_ledger s1 s'" and "moved s1 s' (t, w) r' lo'" and "item_ok r' lo'"
    and "work_at s1 (t, w) = Some r" and "replay_status (Some (wi_status r)) tys = Inr (Some (wi_status r'))"
  shows "work_inv s'"
proof (rule work_inv_moved [OF assms(1,2) _ _ assms(4) _ assms(6)])
  note keep = append_keeps_work [OF assms(2)]
  show "same_stream t (uuid_str w) es" "map event_type es = map DomainEventType_value tys"
    using event_for_batch [OF assms(3)] by simp_all
  show "moved s s' (t, w) r' lo'" using assms(5) moved_from [OF keep(1,2)] by simp
  show "replay_status (map_option wi_status (work_at s (t, w))) tys = Inr (Some (wi_status r'))"
    using assms(7,8) keep(1) by simp
  show "work_at s (t, w) = None \<Longrightarrow> work_history s (t, w) = []" using assms(7) keep(1) by simp
qed

lemma work_inv_item:
  "work_inv s \<Longrightarrow> work_at s k = Some r \<Longrightarrow> item_ok r (lease_at s k)"
proof -
  assume "work_inv s" "work_at s k = Some r"
  then have "work_ok s k" by (simp add: work_inv_def del: split_paired_All)
  with \<open>work_at s k = Some r\<close> show ?thesis by (simp add: work_ok_def)
qed

lemma work_inv_keys: "work_inv s \<Longrightarrow> keys_ok s"
  by (simp add: work_inv_def keys_ok_def)

lemma work_inv_cong:
  assumes "work_inv s" and "db_events s' = db_events s" and "db_heads s' = db_heads s"
    and "db_next_position s \<le> db_next_position s'" and "db_work_items s' = db_work_items s"
    and "db_work_leases s' = db_work_leases s"
  shows "work_inv s'"
proof -
  have eqs: "work_at s' k = work_at s k" "lease_at s' k = lease_at s k" "work_history s' k = work_history s k" for k
    by (simp_all add: work_at_def lease_at_def work_history_def assms)
  have "work_ok s' k = work_ok s k" for k by (simp only: work_ok_def eqs)
  then show ?thesis
    using assms ledger_inv_cong [of s s'] by (simp add: work_inv_def)
qed

lemma work_inv_rollback:
  assumes "tenant_transaction m s = (Inl e, s')" and "position_grows m" and "work_inv s"
  shows "work_inv s'"
proof -
  obtain p where f: "s' = s\<lparr>db_next_position := p\<rparr>" "db_next_position s \<le> p"
    using failed_transaction [OF assms(1,2)] by (metis (full_types))
  show ?thesis by (rule work_inv_cong [OF assms(3)]) (simp_all add: f)
qed

lemma position_grows_updates [intro]:
  "position_grows (update_work P f e)" "position_grows (update_lease Q g e)"
  by (auto simp: update_work_def update_lease_def intro!: position_grows_bind position_grows_modify)

lemma position_grows_lock [intro]: "position_grows (insert_commit_lock t)"
  by (auto simp: insert_commit_lock_def intro!: position_grows_bind position_grows_modify)

text \<open>What a transaction body must do for the whole transaction to keep the invariant.\<close>

definition body_safe :: "instant \<Rightarrow> EventEnvelope list \<Rightarrow> int \<Rightarrow> OutboxMessage list \<Rightarrow> ('z db_scheme, unit) op \<Rightarrow> 'z db_scheme \<Rightarrow> bool" where
  "body_safe clk es v ob mut s =
     (position_grows mut \<and> (\<forall>n s1 u s'. append_in_transaction clk es v ob s = (Inr n, s1) \<longrightarrow>
        mut s1 = (Inr u, s') \<longrightarrow> work_inv s'))"

lemma append_atomic_safe:
  assumes "work_inv s" and "body_safe clk es v ob mut s" and "append_atomic clk t es v mut ob s = (r, s')"
  shows "work_inv s'"
proof (cases r)
  case (Inr n)
  with assms show ?thesis by (auto simp: append_atomic_Inr body_safe_def)
next
  case (Inl e)
  show ?thesis
  proof (cases "validate_append t es v")
    case (Inl x)
    with assms show ?thesis by (simp add: append_atomic_def op_lift_def)
  next
    case (Inr u)
    have "tenant_transaction (op_bind (append_in_transaction clk es v ob)
        (\<lambda>version. op_bind mut (\<lambda>_. op_return version))) s = (Inl e, s')"
      using assms(3) Inl Inr by (simp add: append_atomic_def op_lift_def)
    then show ?thesis
      by (rule work_inv_rollback) (use assms(1,2) in \<open>auto simp: body_safe_def\<close>)
  qed
qed

lemma append_fenced_safe:
  assumes "work_inv s" and "body_safe clk es v ob mut s"
    and "append_fenced clk t es v w tok gen at ob (Some mut) s = (r, s')"
  shows "work_inv s'"
proof (cases r)
  case (Inr n)
  with assms show ?thesis by (auto simp: append_fenced_Inr body_safe_def)
next
  case (Inl e)
  have tx: "s' = s \<or> tenant_transaction (
       op_bind (op_gets (\<lambda>s. sql_one (fence_matches clk t w tok gen) (db_work_leases s))) (\<lambda>row.
       op_bind (op_require (row \<noteq> None) (FencingError gen 0)) (\<lambda>_.
       op_bind (append_in_transaction clk es v ob) (\<lambda>version.
       op_bind mut (\<lambda>_. op_return version))))) s = (Inl e, s')"
    using assms(3) Inl by (auto simp: append_fenced_def op_bind_Inl_iff op_simps op_require_Inl_iff)
  moreover have "position_grows (
       op_bind (op_gets (\<lambda>s. sql_one (fence_matches clk t w tok gen) (db_work_leases s))) (\<lambda>row.
       op_bind (op_require (row \<noteq> None) (FencingError gen 0)) (\<lambda>_.
       op_bind (append_in_transaction clk es v ob) (\<lambda>version.
       op_bind mut (\<lambda>_. op_return version)))))"
    using assms(2) by (intro position_grows_bind position_grows_append position_grows_simps) (simp add: body_safe_def)
  ultimately show ?thesis using assms(1) work_inv_rollback by blast
qed

lemma append_from_inbox_failed:
  assumes "work_inv s" and "position_grows mut"
    and "append_from_inbox clk t src mid es v ob (Some mut) s = (Inl e, s')"
  shows "work_inv s'"
proof -
  let ?body = "op_bind (insert_inbox clk t src mid) (\<lambda>inserted.
       if \<not> inserted then
         op_bind (op_gets (\<lambda>s. sql_one (is_inbox t src mid) (db_inbox s))) (\<lambda>row.
         (case Option.bind row ib_aggregate_version of
            None \<Rightarrow> op_raise (PermanentStorageError ''duplicate inbox record has no committed result'')
          | Some v \<Rightarrow> op_return \<lparr>aggregate_version = v, duplicate = True\<rparr>))
       else
         op_bind (append_in_transaction clk es v ob) (\<lambda>version.
         op_bind (op_modify (\<lambda>s. s\<lparr>db_inbox :=
           sql_update (is_inbox t src mid)
             (\<lambda>r. r\<lparr>ib_processed_at := Some clk, ib_aggregate_version := Some version\<rparr>) (db_inbox s)\<rparr>)) (\<lambda>_.
         op_bind (case Some mut of None \<Rightarrow> op_return () | Some m \<Rightarrow> m) (\<lambda>_.
         op_return \<lparr>aggregate_version = version, duplicate = False\<rparr>))))"
  have "position_grows ?body"
    unfolding insert_inbox_def option.case using assms(2)
    by (intro position_grows_bind position_grows_if position_grows_option position_grows_modify
        position_grows_append position_grows_simps) simp_all
  moreover have "s' = s \<or> tenant_transaction ?body s = (Inl e, s')"
    using assms(3) by (auto simp: append_from_inbox_def op_bind_Inl_iff op_simps op_require_Inl_iff)
  ultimately show ?thesis using assms(1) by (auto elim!: work_inv_rollback)
qed

lemma publish_commit_inv:
  assumes inv: "work_inv s" and ev: "event_for event (rq_tenant_id r) (rq_work_id r) WORK_PUBLISHED"
    and pub: "publish_commit clk tenant r mid event v s = (x, s')"
  shows "work_inv s'"
proof (cases x)
  case (Inl e)
  show ?thesis
    by (rule append_from_inbox_failed [OF inv _ pub [unfolded publish_commit_def Inl]])
       (auto simp: mark_projection_def)
next
  case (Inr res)
  let ?t = "rq_tenant_id r" and ?w = "rq_work_id r"
  note inbox = append_from_inbox_Inr [OF pub [unfolded publish_commit_def Inr]]
  show ?thesis
  proof (cases "sql_one (is_inbox tenant ''redis-stream:aegis:work:v1'' (uuid_str mid)) (db_inbox s)")
    case (Some row)
    with inbox inv show ?thesis by simp
  next
    case None
    then obtain y y2 s2 u where s2: "append_in_transaction clk [event] v [] (s\<lparr>db_inbox := y\<rparr>)
        = (Inr (aggregate_version res), s2)" and mut: "mark_projection r (s2\<lparr>db_inbox := y2\<rparr>) = (Inr u, s')"
      using inbox by auto
    have inv0: "work_inv (s\<lparr>db_inbox := y\<rparr>)" by (rule work_inv_cong [OF inv]) simp_all
    have k: "keys_ok (s2\<lparr>db_inbox := y2\<rparr>)"
      using work_inv_keys [OF inv0] append_keeps_work(3) [OF s2] by (simp add: keys_ok_def)
    obtain q where q: "work_at (s2\<lparr>db_inbox := y2\<rparr>) (?t, ?w) = Some q" "wi_status q \<in> set [REQUESTED, RETRY_WAIT]"
      "moved (s2\<lparr>db_inbox := y2\<rparr>) s' (?t, ?w) (q\<lparr>wi_status := PUBLISHED\<rparr>) (lease_at (s2\<lparr>db_inbox := y2\<rparr>) (?t, ?w))"
      "same_ledger (s2\<lparr>db_inbox := y2\<rparr>) s'"
      using update_work_row [OF mut [unfolded mark_projection_def] k, of ?t ?w] by (auto simp: work_key_def)
    have at: "work_at (s2\<lparr>db_inbox := y2\<rparr>) = work_at s2" "lease_at (s2\<lparr>db_inbox := y2\<rparr>) = lease_at s2"
      by (simp_all add: work_at_def lease_at_def fun_eq_iff)
    have "item_ok q (lease_at s2 (?t, ?w))"
      using work_inv_item [OF inv0] q(1) at append_keeps_work [OF s2] by simp
    then have "item_ok (q\<lparr>wi_status := PUBLISHED\<rparr>) (lease_at s2 (?t, ?w))"
      using q(2) by (auto simp: item_ok_def)
    moreover have "replay_status (Some (wi_status q)) [WORK_PUBLISHED] = Inr (Some PUBLISHED)"
      using q(2) by (auto simp: replay_status_Cons_Inr work_edge.simps work_transitions_def)
    ultimately show ?thesis
      using q at ev moved_from [OF at] by (intro work_inv_batch [OF inv0 s2]) (auto simp: same_ledger_def)
  qed
qed

lemma work_inv_ok: "work_inv s \<Longrightarrow> work_ok s k"
  by (simp add: work_inv_def del: split_paired_All)

lemma moved_at:
  "moved s s' k r lo \<Longrightarrow> work_at s' k' = (if k' = k then Some r else work_at s k')"
  "moved s s' k r lo \<Longrightarrow> lease_at s' k' = (if k' = k then lo else lease_at s k')"
  by (simp_all add: moved_def del: split_paired_All)

lemma work_at_Some: "work_at s k = Some r \<Longrightarrow> r \<in> set (db_work_items s) \<and> work_key r = k"
  by (auto simp: work_at_def dest: sql_one_Some)

lemma open_lease_active:
  assumes "work_inv s" and "lease_at s k = Some l" and "wl_released_at l = None"
  obtains r where "work_at s k = Some r" and "wi_status r \<in> {CLAIMED, RUNNING}"
proof -
  have ok: "work_ok s k" using assms(1) by (simp add: work_inv_def del: split_paired_All)
  then obtain r where r: "work_at s k = Some r" using assms(2) by (auto simp: work_ok_def split: option.splits)
  with ok assms(2,3) show thesis by (intro that [OF r]) (auto simp: work_ok_def item_ok_def)
qed

lemma unmoved: "keys_ok s \<Longrightarrow> work_at s k = Some r \<Longrightarrow> work_at s' = work_at s \<Longrightarrow> lease_at s' = lease_at s
  \<Longrightarrow> keys_ok s' \<Longrightarrow> moved s s' k r (lease_at s k)"
  by (simp add: moved_def keys_ok_def)

lemma empty_stream_history:
  assumes "ledger_inv s" and "stream_version s t (uuid_str w) = 0"
  shows "work_history s (t, w) = []"
proof -
  have "map er_aggregate_sequence (filter (in_stream t (uuid_str w)) (db_events s)) = []"
    using stream_version_head [OF assms(1), of t "uuid_str w"] assms(2) by simp
  then show ?thesis by (simp add: work_history_def)
qed

lemma register_commit_inv:
  assumes inv: "work_inv s" and ev: "event_for event (rq_tenant_id r) (rq_work_id r) WORK_REQUESTED"
    and reg: "register_commit clk tenant r event ob s = (x, s')"
  shows "work_inv s'"
proof (rule append_atomic_safe [OF inv _ reg [unfolded register_commit_def]])
  let ?k = "(rq_tenant_id r, rq_work_id r)"
  show "body_safe clk [event] 0 [ob] (insert_work r (event_id event)) s"
    unfolding body_safe_def
  proof (intro conjI allI impI)
    show "position_grows (insert_work r (event_id event))"
      by (auto simp: insert_work_def intro!: position_grows_bind position_grows_modify)
    fix n s1 u s2
    assume app: "append_in_transaction clk [event] 0 [ob] s = (Inr n, s1)"
      and mut: "insert_work r (event_id event) s1 = (Inr u, s2)"
    note keep = append_keeps_work [OF app]
    have s2: "s2 = s1\<lparr>db_work_items := db_work_items s1 @ [new_work_row r (event_id event)]\<rparr>"
      and valid: "work_row_valid s1 (new_work_row r (event_id event))"
      using mut by (auto simp: insert_work_def op_simps)
    have key: "work_key (new_work_row r (event_id event)) = ?k" by (simp add: work_key_def new_work_row_def)
    have none: "work_at s ?k = None"
      using valid by (auto simp: work_at_def sql_one_None_iff work_row_valid_def work_key_def new_work_row_def keep)
    then have lnone: "lease_at s ?k = None"
      using work_inv_ok [OF inv, of ?k] by (simp add: work_ok_def)
    have fresh: "?k \<notin> work_key ` set (db_work_items s1)"
      using none by (force simp: work_at_def sql_one_None_iff keep)
    have "moved s s2 ?k (new_work_row r (event_id event)) None"
      using none lnone fresh key work_inv_keys [OF inv] keep
      by (auto simp: moved_def s2 work_at_def lease_at_def sql_one_append keys_ok_def split: option.splits)
    moreover have "item_ok (new_work_row r (event_id event)) None"
      using valid by (auto simp: item_ok_def new_work_row_def work_row_valid_def)
    moreover have "stream_version s (rq_tenant_id r) (uuid_str (rq_work_id r)) = 0"
      using append_in_transaction_Inr(3) [OF app] ev by (simp add: event_for_def)
    then have "work_history s ?k = []" using inv by (intro empty_stream_history) (auto simp: work_inv_def)
    moreover have "replay_status None [WORK_REQUESTED] = Inr (Some REQUESTED)"
      by (simp add: replay_status_Cons_Inr work_edge_simps)
    ultimately show "work_inv s2"
      using event_for_batch [of "rq_tenant_id r" "rq_work_id r" "[event]" "[WORK_REQUESTED]"] ev none
      by (intro work_inv_moved [OF inv app, of "rq_tenant_id r" "rq_work_id r" "[WORK_REQUESTED]"])
         (auto simp: same_ledger_def s2 new_work_row_def)
  qed
qed

text \<open>The claim: the projection takes the item and raises the lease generation.\<close>

lemma upsert_lease_Inr:
  assumes "upsert_lease l s = (Inr u, s')" and "keys_ok s"
  shows "work_at s' = work_at s"
    and "lease_at s' k = (if k = lease_key l then Some l else lease_at s k)"
    and "keys_ok s'" and "same_ledger s s'"
    and "\<forall>q. lease_at s (lease_key l) = Some q \<longrightarrow> wl_generation l = wl_generation q + 1"
proof -
  have old: "sql_one (is_lease (wl_tenant_id l) (wl_work_id l)) (db_work_leases s) = lease_at s (lease_key l)"
    by (simp add: lease_at_def is_lease_def [abs_def] lease_key_def)
  consider "lease_at s (lease_key l) = None" "s' = s\<lparr>db_work_leases := db_work_leases s @ [l]\<rparr>"
    | q where "lease_at s (lease_key l) = Some q" "wl_generation q = wl_generation l - 1"
      "s' = s\<lparr>db_work_leases := sql_update (is_lease (wl_tenant_id l) (wl_work_id l)) (\<lambda>_. l) (db_work_leases s)\<rparr>"
    using assms(1) by (auto simp: upsert_lease_def op_simps old split: option.splits if_splits)
  note cases = this
  show "work_at s' = work_at s" "same_ledger s s'"
    "\<forall>q. lease_at s (lease_key l) = Some q \<longrightarrow> wl_generation l = wl_generation q + 1"
    using cases by (cases; auto simp: work_at_def same_ledger_def fun_eq_iff)+
  have "lease_at s' k = (if k = lease_key l then Some l else lease_at s k) \<and> keys_ok s'"
    using cases
  proof cases
    case 1
    then have "lease_key l \<notin> lease_key ` set (db_work_leases s)"
      by (force simp: lease_at_def sql_one_None_iff)
    moreover have "lease_at s' k = (if k = lease_key l then Some l else lease_at s k)"
      using 1 by (auto simp: lease_at_def sql_one_append split: option.splits)
    ultimately show ?thesis using assms(2) 1(2) by (simp add: keys_ok_def)
  next
    case (2 q)
    let ?P = "is_lease (wl_tenant_id l) (wl_work_id l)"
    have upd: "map lease_key (sql_update ?P (\<lambda>_. l) rows) = map lease_key rows" for rows
      by (induction rows) (auto simp: is_lease_key lease_key_def)
    have look: "sql_one (\<lambda>x. lease_key x = k) (sql_update ?P (\<lambda>_. l) rows)
        = (if k = lease_key l then map_option (\<lambda>_. l) (sql_one (\<lambda>x. lease_key x = k) rows)
           else sql_one (\<lambda>x. lease_key x = k) rows)" for rows
      by (induction rows) (auto simp: is_lease_key lease_key_def)
    show ?thesis using 2 assms(2) by (auto simp: lease_at_def look upd keys_ok_def)
  qed
  then show "lease_at s' k = (if k = lease_key l then Some l else lease_at s k)" "keys_ok s'" by auto
qed

lemma claim_projection_Inr:
  assumes "claim_projection clk l d lim s = (Inr u, s')" and "keys_ok s"
  obtains r where "work_at s (ls_tenant_id l, ls_work_id l) = Some r" and "claimable clk l r"
    and "int (sql_count (active_work (ls_tenant_id l)) (db_work_items s)) < lim"
    and "moved s s' (ls_tenant_id l, ls_work_id l) (r\<lparr>wi_status := CLAIMED, wi_attempt_count := ls_attempt l\<rparr>)
           (Some (new_lease_row l clk (clk + d)))"
    and "same_ledger s s'"
    and "\<forall>q. lease_at s (ls_tenant_id l, ls_work_id l) = Some q \<longrightarrow> ls_generation l = wl_generation q + 1"
    and "db_work_items s' = sql_update (claimable clk l)
           (\<lambda>w. w\<lparr>wi_status := CLAIMED, wi_attempt_count := ls_attempt l\<rparr>) (db_work_items s)"
proof -
  let ?k = "(ls_tenant_id l, ls_work_id l)"
  obtain s1 s2 where s1: "insert_commit_lock (ls_tenant_id l) s = (Inr (), s1)"
    and lim: "int (sql_count (active_work (ls_tenant_id l)) (db_work_items s1)) < lim"
    and s2: "update_work (claimable clk l) (\<lambda>w. w\<lparr>wi_status := CLAIMED, wi_attempt_count := ls_attempt l\<rparr>)
        ClaimUnavailableError s1 = (Inr (), s2)"
    and s3: "upsert_lease (new_lease_row l clk (clk + d)) s2 = (Inr u, s')"
    using assms(1) by (auto simp: claim_projection_def op_simps)
  have e1: "s1 = s\<lparr>db_commit_locks := locks_after s (ls_tenant_id l)\<rparr>" by (rule insert_commit_lock_Inr [OF s1])
  have at1: "work_at s1 = work_at s" "lease_at s1 = lease_at s" "keys_ok s1" "same_ledger s s1"
    using assms(2) by (simp_all add: e1 work_at_def lease_at_def keys_ok_def same_ledger_def fun_eq_iff)
  obtain r where r: "work_at s1 ?k = Some r" "claimable clk l r"
    "moved s1 s2 ?k (r\<lparr>wi_status := CLAIMED, wi_attempt_count := ls_attempt l\<rparr>) (lease_at s1 ?k)" "same_ledger s1 s2"
    using update_work_row [OF s2 at1(3), of "ls_tenant_id l" "ls_work_id l"] by (auto simp: claimable_def work_key_def)
  have k2: "keys_ok s2" using r(3) by (simp add: moved_def keys_ok_def)
  have lk: "lease_key (new_lease_row l clk (clk + d)) = ?k" by (simp add: lease_key_def new_lease_row_def)
  note up = upsert_lease_Inr [OF s3 k2, unfolded lk]
  have items: "db_work_items s' = db_work_items s2"
    using s3 by (auto simp: upsert_lease_def op_simps split: option.splits if_splits)
  have l2: "lease_at s2 k = lease_at s k" for k
    by (simp add: moved_at(2) [OF r(3)] at1(2))
  have w2: "work_at s2 k = (if k = ?k then Some (r\<lparr>wi_status := CLAIMED, wi_attempt_count := ls_attempt l\<rparr>) else work_at s k)" for k
    by (simp add: moved_at(1) [OF r(3)] at1(1))
  show thesis
  proof (rule that)
    show "work_at s ?k = Some r" using r(1) at1(1) by simp
    show "claimable clk l r" by (rule r(2))
    show "int (sql_count (active_work (ls_tenant_id l)) (db_work_items s)) < lim" using lim by (simp add: e1)
    show "moved s s' ?k (r\<lparr>wi_status := CLAIMED, wi_attempt_count := ls_attempt l\<rparr>) (Some (new_lease_row l clk (clk + d)))"
      using up(3) by (simp add: moved_def up(1,2) w2 l2 keys_ok_def del: split_paired_All)
    show "same_ledger s s'" using at1(4) r(4) up(4) by (simp add: same_ledger_def)
    show "\<forall>q. lease_at s ?k = Some q \<longrightarrow> ls_generation l = wl_generation q + 1"
      using up(5) l2 by (simp add: new_lease_row_def)
    show "db_work_items s' = sql_update (claimable clk l)
           (\<lambda>w. w\<lparr>wi_status := CLAIMED, wi_attempt_count := ls_attempt l\<rparr>) (db_work_items s)"
      using s2 by (simp add: items update_work_Inr e1)
  qed
qed

lemma claim_commit_inv:
  assumes inv: "work_inv s" and ev: "event_for event (ls_tenant_id l) (ls_work_id l) WORK_CLAIMED"
    and lok: "lease_ok l"
    and bound: "\<And>r. work_at s (ls_tenant_id l, ls_work_id l) = Some r \<Longrightarrow> ls_attempt l \<le> wi_max_attempts r"
    and cl: "claim_commit clk tenant l d lim event v s = (x, s')"
  shows "work_inv s'"
proof (rule append_atomic_safe [OF inv _ cl [unfolded claim_commit_def]])
  let ?k = "(ls_tenant_id l, ls_work_id l)"
  show "body_safe clk [event] v [] (claim_projection clk l d lim) s"
    unfolding body_safe_def
  proof (intro conjI allI impI)
    show "position_grows (claim_projection clk l d lim)"
      by (auto simp: claim_projection_def upsert_lease_def
          intro!: position_grows_bind position_grows_modify position_grows_option)
    fix n s1 u s2
    assume app: "append_in_transaction clk [event] v [] s = (Inr n, s1)"
      and mut: "claim_projection clk l d lim s1 = (Inr u, s2)"
    note keep = append_keeps_work [OF app]
    have k: "keys_ok s1" using keep(3) work_inv_keys [OF inv] by simp
    obtain r where r: "work_at s1 ?k = Some r" "claimable clk l r"
      "moved s1 s2 ?k (r\<lparr>wi_status := CLAIMED, wi_attempt_count := ls_attempt l\<rparr>) (Some (new_lease_row l clk (clk + d)))"
      "same_ledger s1 s2"
      using claim_projection_Inr [OF mut k] by metis
    have "item_ok (r\<lparr>wi_status := CLAIMED, wi_attempt_count := ls_attempt l\<rparr>) (Some (new_lease_row l clk (clk + d)))"
      using bound r(1) keep(1) lok by (auto simp: item_ok_def new_lease_row_def lease_ok_def)
    moreover have "replay_status (Some (wi_status r)) [WORK_CLAIMED] = Inr (Some CLAIMED)"
      using r(2) by (auto simp: claimable_def replay_status_Cons_Inr work_edge.simps work_transitions_def)
    ultimately show "work_inv s2"
      using r ev by (intro work_inv_batch [OF inv app _ r(4,3)]) auto
  qed
qed

text \<open>
  Fenced transitions. The body releases or renews the lease it is fenced by, or only moves the item.
\<close>

lemma fenced_move_inv:
  assumes inv: "work_inv s" and ev: "list_all2 (\<lambda>e ty. event_for e t w ty) es tys"
    and grows: "position_grows mut"
    and mv: "\<And>s1 u s2. mut s1 = (Inr u, s2) \<Longrightarrow> keys_ok s1 \<Longrightarrow> work_at s1 = work_at s \<Longrightarrow> lease_at s1 = lease_at s \<Longrightarrow>
      \<exists>r r' lo'. work_at s (t, w) = Some r \<and> moved s1 s2 (t, w) r' lo' \<and> same_ledger s1 s2 \<and> item_ok r' lo'
        \<and> replay_status (Some (wi_status r)) tys = Inr (Some (wi_status r'))"
  shows "body_safe clk es v ob mut s"
  unfolding body_safe_def
proof (intro conjI allI impI)
  show "position_grows mut" by (rule grows)
  fix n s1 u s2
  assume app: "append_in_transaction clk es v ob s = (Inr n, s1)" and m: "mut s1 = (Inr u, s2)"
  note keep = append_keeps_work [OF app]
  have k: "keys_ok s1" using keep(3) work_inv_keys [OF inv] by simp
  obtain r r' lo' where "work_at s (t, w) = Some r" "moved s1 s2 (t, w) r' lo'" "same_ledger s1 s2" "item_ok r' lo'"
    "replay_status (Some (wi_status r)) tys = Inr (Some (wi_status r'))"
    using mv [OF m k keep(1,2)] by blast
  then show "work_inv s2" using keep(1) by (intro work_inv_batch [OF inv app ev]) auto
qed

lemma replay_one: "work_edge c e d \<Longrightarrow> replay_status c [e] = Inr (Some d)"
  by (auto simp: replay_status_Cons_Inr)

lemma mark_started_safe:
  assumes "work_inv s" and "event_for event (rq_tenant_id r) (rq_work_id r) WORK_STARTED"
  shows "body_safe clk [event] v ob (mark_started r l) s"
proof (rule fenced_move_inv [OF assms(1), of "rq_tenant_id r" "rq_work_id r" _ "[WORK_STARTED]"])
  show "position_grows (mark_started r l)" by (auto simp: mark_started_def)
  fix s1 u s2
  assume m: "mark_started r l s1 = (Inr u, s2)" and k: "keys_ok s1"
    and at: "work_at s1 = work_at s" "lease_at s1 = lease_at s"
  let ?k = "(rq_tenant_id r, rq_work_id r)"
  obtain q where q: "work_at s1 ?k = Some q" "wi_status q = CLAIMED"
    "moved s1 s2 ?k (q\<lparr>wi_status := RUNNING\<rparr>) (lease_at s1 ?k)" "same_ledger s1 s2"
    using update_work_row [OF m [unfolded mark_started_def] k, of "rq_tenant_id r" "rq_work_id r"]
    by (auto simp: work_key_def)
  moreover have "item_ok (q\<lparr>wi_status := RUNNING\<rparr>) (lease_at s1 ?k)"
    using work_inv_item [OF assms(1), of ?k q] q at by (auto simp: item_ok_def)
  moreover have "replay_status (Some (wi_status q)) [WORK_STARTED] = Inr (Some RUNNING)"
    by (rule replay_one) (simp add: q(2) work_edge.simps work_transitions_def)
  ultimately show "\<exists>r r' lo'. work_at s ?k = Some r \<and> moved s1 s2 ?k r' lo' \<and> same_ledger s1 s2 \<and> item_ok r' lo'
        \<and> replay_status (Some (wi_status r)) [WORK_STARTED] = Inr (Some (wi_status r'))"
    using at(1) by (intro exI [of _ q] exI [of _ "q\<lparr>wi_status := RUNNING\<rparr>"]) auto
qed (use assms in auto)

lemma renew_lease_safe:
  assumes "work_inv s" and "event_for event (ls_tenant_id l) (ls_work_id l) WORK_HEARTBEAT"
  shows "body_safe clk [event] v ob (renew_lease now l d) s"
proof (rule fenced_move_inv [OF assms(1), of "ls_tenant_id l" "ls_work_id l" _ "[WORK_HEARTBEAT]"])
  show "position_grows (renew_lease now l d)" by (auto simp: renew_lease_def)
  fix s1 u s2
  assume m: "renew_lease now l d s1 = (Inr u, s2)" and k: "keys_ok s1"
    and at: "work_at s1 = work_at s" "lease_at s1 = lease_at s"
  let ?k = "(ls_tenant_id l, ls_work_id l)" and ?f = "\<lambda>q. q\<lparr>wl_heartbeat_at := now, wl_expires_at := now + d\<rparr>"
  have held: "lease_held l q \<and> wl_owner q = ls_owner l \<and> now < wl_expires_at q
      \<Longrightarrow> is_lease (ls_tenant_id l) (ls_work_id l) q" for q by (simp add: lease_held_def)
  have fk: "lease_key (?f q) = lease_key q" for q by (simp add: lease_key_def)
  obtain q where q: "lease_at s1 ?k = Some q" "lease_held l q" "same_ledger s1 s2"
    "\<forall>r. work_at s1 ?k = Some r \<longrightarrow> moved s1 s2 ?k r (Some (?f q))"
    using update_lease_moved [OF m [unfolded renew_lease_def] k held fk] by auto
  obtain r where r: "work_at s ?k = Some r" "wi_status r \<in> {CLAIMED, RUNNING}"
    using open_lease_active [OF assms(1), of ?k q] q(1,2) at by (auto simp: lease_held_def)
  have "item_ok r (Some (?f q))"
    using work_inv_item [OF assms(1) r(1)] q(1) at by (auto simp: item_ok_def)
  moreover have "moved s1 s2 ?k r (Some (?f q))" using q(4) r(1) at(1) by simp
  moreover have "replay_status (Some (wi_status r)) [WORK_HEARTBEAT] = Inr (Some (wi_status r))"
    using r(2) by (auto intro!: replay_one work_edge.intros)
  ultimately show "\<exists>r r' lo'. work_at s ?k = Some r \<and> moved s1 s2 ?k r' lo' \<and> same_ledger s1 s2 \<and> item_ok r' lo'
        \<and> replay_status (Some (wi_status r)) [WORK_HEARTBEAT] = Inr (Some (wi_status r'))"
    using q(3) r(1) by blast
qed (use assms in auto)

text \<open>The tenure-ending mutations share one shape.\<close>

lemma end_tenure:
  assumes inv: "work_inv s" and at: "work_at s1 = work_at s" "lease_at s1 = lease_at s" and k: "keys_ok s1"
    and m: "op_bind (update_lease PL (\<lambda>q. q\<lparr>wl_released_at := Some t0, wl_release_reason := Some why\<rparr>) e1)
      (\<lambda>_. update_work PW fW e2) s1 = (Inr u, s2)"
    and PL: "\<And>q. PL q \<Longrightarrow> is_lease (ls_tenant_id l) (ls_work_id l) q"
    and PW: "\<And>r. PW r \<Longrightarrow> is_work (ls_tenant_id l) (ls_work_id l) r"
    and fW: "\<And>r. work_key (fW r) = work_key r" "\<And>r. wi_attempt_count (fW r) = wi_attempt_count r"
      "\<And>r. wi_max_attempts (fW r) = wi_max_attempts r"
      "\<And>r. wi_status (fW r) \<notin> {CLAIMED, RUNNING}"
    and re: "\<And>r. PW r \<Longrightarrow> work_at s (ls_tenant_id l, ls_work_id l) = Some r \<Longrightarrow>
      replay_status (Some (wi_status r)) tys = Inr (Some (wi_status (fW r)))"
  shows "\<exists>r r' lo'. work_at s (ls_tenant_id l, ls_work_id l) = Some r
    \<and> moved s1 s2 (ls_tenant_id l, ls_work_id l) r' lo' \<and> same_ledger s1 s2 \<and> item_ok r' lo'
    \<and> replay_status (Some (wi_status r)) tys = Inr (Some (wi_status r'))"
proof (rule release_then_update [OF m k PL _ PW fW(1)])
  let ?k = "(ls_tenant_id l, ls_work_id l)"
  show "lease_key (q\<lparr>wl_released_at := Some t0, wl_release_reason := Some why\<rparr>) = lease_key q" for q
    by (simp add: lease_key_def)
  fix q r
  assume a: "work_at s1 ?k = Some r" "PW r"
    "moved s1 s2 ?k (fW r) (Some (q\<lparr>wl_released_at := Some t0, wl_release_reason := Some why\<rparr>))" "same_ledger s1 s2"
  have "item_ok (fW r) (Some (q\<lparr>wl_released_at := Some t0, wl_release_reason := Some why\<rparr>))"
    using work_inv_item [OF inv, of ?k r] a(1) at(1) fW by (auto simp: item_ok_def)
  with a re [OF a(2)] at(1) show ?thesis by auto
qed

text \<open>
  A worker that still holds the lease \<^term>\<open>l\<close> has started its item: the item is not merely claimed. The
  transitions that end an attempt need this, because \<^const>\<open>complete_in_transaction\<close> itself accepts a
  claimed item.
\<close>

definition started :: "WorkLease \<Rightarrow> 'z db_scheme \<Rightarrow> bool" where
  "started l s = (\<forall>r q. work_at s (ls_tenant_id l, ls_work_id l) = Some r \<longrightarrow>
     lease_at s (ls_tenant_id l, ls_work_id l) = Some q \<longrightarrow> lease_held l q \<longrightarrow> wi_status r \<noteq> CLAIMED)"

lemma release_lease_holds:
  assumes "release_lease l at reason s = (Inr u, s')" and "keys_ok s"
  shows "\<exists>q. lease_at s (ls_tenant_id l, ls_work_id l) = Some q \<and> lease_held l q"
proof -
  obtain q where "lease_at s (ls_tenant_id l, ls_work_id l) = Some q" "lease_held l q"
    by (rule update_lease_row [OF assms(1) [unfolded release_lease_def] assms(2)])
       (auto simp: lease_held_def lease_key_def)
  then show ?thesis by blast
qed

lemma complete_safe:
  assumes inv: "work_inv s"
    and ev: "list_all2 (\<lambda>e ty. event_for e (ls_tenant_id l) (ls_work_id l) ty) es tys"
    and run: "started l s"
    and re: "replay_status (Some RUNNING) tys = Inr (Some st)" and st: "st \<notin> {CLAIMED, RUNNING}"
  shows "body_safe clk es v ob (complete_in_transaction l at st reason) s"
proof (rule fenced_move_inv [OF inv ev])
  show "position_grows (complete_in_transaction l at st reason)"
    by (auto simp: complete_in_transaction_def release_lease_def)
  fix s1 u s2
  assume m: "complete_in_transaction l at st reason s1 = (Inr u, s2)" and k: "keys_ok s1"
    and eq: "work_at s1 = work_at s" "lease_at s1 = lease_at s"
  show "\<exists>r r' lo'. work_at s (ls_tenant_id l, ls_work_id l) = Some r
    \<and> moved s1 s2 (ls_tenant_id l, ls_work_id l) r' lo' \<and> same_ledger s1 s2 \<and> item_ok r' lo'
    \<and> replay_status (Some (wi_status r)) tys = Inr (Some (wi_status r'))"
  proof (rule end_tenure [OF inv eq k m [unfolded complete_in_transaction_def release_lease_def]])
    fix r
    assume r: "leased_work l [CLAIMED, RUNNING] r \<and> wi_cancel_requested_at r = None"
      "work_at s (ls_tenant_id l, ls_work_id l) = Some r"
    have "\<exists>q. lease_at s (ls_tenant_id l, ls_work_id l) = Some q \<and> lease_held l q"
      using m k eq by (auto simp: complete_in_transaction_def op_simps dest: release_lease_holds)
    with r run have "wi_status r = RUNNING" by (auto simp: started_def leased_work_def)
    with re show "replay_status (Some (wi_status r)) tys
        = Inr (Some (wi_status (r\<lparr>wi_status := st, wi_completed_at := Some at\<rparr>)))" by simp
  qed (use st in \<open>auto simp: lease_held_def leased_work_def work_key_def\<close>)
qed

lemma succeed_replay: "replay_status (Some RUNNING) [WORK_SUCCEEDED] = Inr (Some SUCCEEDED)"
  by (rule replay_one) (simp add: work_edge.simps work_transitions_def)

lemma replay_two: "work_edge c e b \<Longrightarrow> work_edge (Some b) f d \<Longrightarrow> replay_status c [e, f] = Inr (Some d)"
  by (auto simp: replay_status_Cons_Inr)

lemma failure_replay:
  "replay_status (Some RUNNING) [WORK_FAILED, WORK_DEAD_LETTERED] = Inr (Some DEAD_LETTER)"
  "replay_status (Some RUNNING) [WORK_FAILED, WORK_RETRY_SCHEDULED] = Inr (Some RETRY_WAIT)"
  by (auto simp: replay_status_Cons_Inr work_edge.simps work_transitions_def)

lemma cancel_in_transaction_safe:
  assumes "work_inv s" and "event_for event (ls_tenant_id l) (ls_work_id l) WORK_CANCELLED"
  shows "body_safe clk [event] v ob (cancel_in_transaction l at) s"
proof (rule fenced_move_inv [OF assms(1), of "ls_tenant_id l" "ls_work_id l" _ "[WORK_CANCELLED]"])
  show "position_grows (cancel_in_transaction l at)"
    by (auto simp: cancel_in_transaction_def release_lease_def)
  fix s1 u s2
  assume m: "cancel_in_transaction l at s1 = (Inr u, s2)" and k: "keys_ok s1"
    and eq: "work_at s1 = work_at s" "lease_at s1 = lease_at s"
  show "\<exists>r r' lo'. work_at s (ls_tenant_id l, ls_work_id l) = Some r
    \<and> moved s1 s2 (ls_tenant_id l, ls_work_id l) r' lo' \<and> same_ledger s1 s2 \<and> item_ok r' lo'
    \<and> replay_status (Some (wi_status r)) [WORK_CANCELLED] = Inr (Some (wi_status r'))"
    by (rule end_tenure [OF assms(1) eq k m [unfolded cancel_in_transaction_def release_lease_def]])
       (auto simp: lease_held_def leased_work_def work_key_def work_edge.simps work_transitions_def
          intro!: replay_one)
qed (use assms in auto)

lemma release_in_transaction_safe:
  assumes inv: "work_inv s"
    and ev: "list_all2 (\<lambda>e ty. event_for e (ls_tenant_id l) (ls_work_id l) ty) es tys"
    and re: "\<And>c. c \<in> set (if running then [RUNNING] else [CLAIMED, RUNNING]) \<Longrightarrow>
      replay_status (Some c) tys = Inr (Some RETRY_WAIT)"
  shows "body_safe clk es v ob (release_in_transaction l at reason ra running) s"
proof (rule fenced_move_inv [OF inv ev])
  show "position_grows (release_in_transaction l at reason ra running)"
    by (auto simp: release_in_transaction_def release_lease_def)
  fix s1 u s2
  assume m: "release_in_transaction l at reason ra running s1 = (Inr u, s2)" and k: "keys_ok s1"
    and eq: "work_at s1 = work_at s" "lease_at s1 = lease_at s"
  show "\<exists>r r' lo'. work_at s (ls_tenant_id l, ls_work_id l) = Some r
    \<and> moved s1 s2 (ls_tenant_id l, ls_work_id l) r' lo' \<and> same_ledger s1 s2 \<and> item_ok r' lo'
    \<and> replay_status (Some (wi_status r)) tys = Inr (Some (wi_status r'))"
    by (rule end_tenure [OF inv eq k m [unfolded release_in_transaction_def release_lease_def]])
       (use re in \<open>auto simp: lease_held_def leased_work_def work_key_def split: if_splits\<close>)
qed

text \<open>Steps that touch neither the keys, the statuses nor the leases.\<close>

definition work_neutral :: "('z db_scheme, 'a) op \<Rightarrow> bool" where
  "work_neutral m = (position_grows m \<and> (\<forall>s a s'. m s = (Inr a, s') \<longrightarrow>
     db_events s' = db_events s \<and> db_heads s' = db_heads s \<and> db_next_position s' = db_next_position s
     \<and> db_work_leases s' = db_work_leases s
     \<and> map (\<lambda>r. (work_key r, wi_status r, wi_attempt_count r, wi_max_attempts r)) (db_work_items s')
       = map (\<lambda>r. (work_key r, wi_status r, wi_attempt_count r, wi_max_attempts r)) (db_work_items s)))"

lemma sql_one_map_agree:
  assumes "map g xs = map g ys" and "\<And>x y. g x = g y \<Longrightarrow> P x = P y"
  shows "rel_option (\<lambda>x y. g x = g y) (sql_one P xs) (sql_one P ys)"
  using assms(1)
proof (induction xs arbitrary: ys)
  case Nil
  then show ?case by simp
next
  case (Cons x xs)
  then obtain y zs where ys: "ys = y # zs" "g x = g y" "map g xs = map g zs" by (cases ys) auto
  with Cons.IH [of zs] assms(2) [of x y] show ?case by simp
qed

lemma work_neutral_inv:
  assumes "work_inv s" and "work_neutral m" and "m s = (Inr a, s')"
  shows "work_inv s'"
proof -
  let ?g = "\<lambda>r. (work_key r, wi_status r, wi_attempt_count r, wi_max_attempts r)"
  have n: "db_events s' = db_events s" "db_heads s' = db_heads s" "db_next_position s' = db_next_position s"
    "db_work_leases s' = db_work_leases s" and g: "map ?g (db_work_items s') = map ?g (db_work_items s)"
    using assms(2,3) by (auto simp: work_neutral_def)
  have keys: "map work_key (db_work_items s') = map work_key (db_work_items s)"
    using arg_cong [OF g, of "map fst"] by (simp add: comp_def)
  have "work_ok s' k" for k
  proof -
    have "rel_option (\<lambda>x y. ?g x = ?g y) (work_at s' k) (work_at s k)"
      unfolding work_at_def by (rule sql_one_map_agree [OF g]) auto
    moreover have "lease_at s' k = lease_at s k" "work_history s' k = work_history s k"
      by (simp_all add: lease_at_def work_history_def n)
    ultimately show ?thesis
      using work_inv_ok [OF assms(1), of k]
      by (cases "work_at s' k"; cases "work_at s k") (auto simp: work_ok_def item_ok_def)
  qed
  then show ?thesis
    using assms(1) ledger_inv_cong [of s s'] by (simp add: work_inv_def n keys)
qed

lemma body_safe_then:
  assumes "body_safe clk es v ob m s" and "\<And>a. work_neutral (k a)"
  shows "body_safe clk es v ob (op_bind m k) s"
  using assms work_neutral_inv
  unfolding body_safe_def by (fastforce simp: op_bind_Inr_iff work_neutral_def)

lemma work_neutral_bind [intro]:
  assumes "work_neutral m" and "\<And>a. work_neutral (k a)"
  shows "work_neutral (op_bind m k)"
  using assms unfolding work_neutral_def by (fastforce simp: op_bind_Inr_iff)

lemma work_neutral_simps [intro]: "work_neutral (op_return a)" "work_neutral (op_require b e)" "work_neutral (op_gets f)"
  by (auto simp: work_neutral_def op_simps)

lemma work_neutral_dead_letter: "work_neutral (upsert_dead_letter l at reason)"
  unfolding upsert_dead_letter_def
  by (intro work_neutral_bind work_neutral_simps)
     (auto simp: work_neutral_def op_simps Let_def intro!: position_grows_modify)

lemma dead_letter_safe:
  assumes "work_inv s"
    and "list_all2 (\<lambda>e ty. event_for e (ls_tenant_id l) (ls_work_id l) ty) es [WORK_FAILED, WORK_DEAD_LETTERED]"
    and "started l s"
  shows "body_safe clk es v ob (dead_letter_in_transaction l at reason) s"
  unfolding dead_letter_in_transaction_def
proof (rule body_safe_then)
  show "body_safe clk es v ob (complete_in_transaction l at DEAD_LETTER ''dead_letter'') s"
    by (rule complete_safe [OF assms failure_replay(1)]) simp_all
  show "work_neutral (op_bind (op_modify (\<lambda>s. s\<lparr>db_work_items := sql_update (is_work (ls_tenant_id l) (ls_work_id l))
         (\<lambda>w. w\<lparr>wi_last_error_code := Some reason\<rparr>) (db_work_items s)\<rparr>)) (\<lambda>_. upsert_dead_letter l at reason))"
    by (intro work_neutral_bind work_neutral_dead_letter)
       (auto simp: work_neutral_def op_simps work_key_def intro!: position_grows_modify)
qed

text \<open>Reconciliation of an expired lease ends in retry, cancellation or the dead-letter queue.\<close>

lemma expired_replay:
  "c \<in> {CLAIMED, RUNNING} \<Longrightarrow> replay_status (Some c) [WORK_LEASE_EXPIRED, expire_outcome cancelled exhausted]
     = Inr (Some (if cancelled then CANCELLED else if exhausted then DEAD_LETTER else RETRY_WAIT))"
  by (auto simp: replay_status_Cons_Inr work_edge.simps work_transitions_def expire_outcome_def
      TERMINAL_WORK_STATUSES_def)

lemma body_safe_guard:
  assumes "\<And>a. body_safe clk es v ob (k a) s" and "position_grows m" and "\<And>s1 a s2. m s1 = (Inr a, s2) \<Longrightarrow> s2 = s1"
  shows "body_safe clk es v ob (op_bind m k) s"
  unfolding body_safe_def
proof (intro conjI allI impI)
  show "position_grows (op_bind m k)" using assms(1,2) by (auto simp: body_safe_def)
  fix n s1 u s2
  assume app: "append_in_transaction clk es v ob s = (Inr n, s1)" and "op_bind m k s1 = (Inr u, s2)"
  then obtain a where "k a s1 = (Inr u, s2)" using assms(3) by (fastforce simp: op_bind_Inr_iff)
  then show "work_inv s2" using assms(1) app by (auto simp: body_safe_def)
qed

lemma expire_body_safe:
  assumes inv: "work_inv s"
    and ev: "list_all2 (\<lambda>e ty. event_for e (ls_tenant_id l) (ls_work_id l) ty) es
      [WORK_LEASE_EXPIRED, expire_outcome cancelled exhausted]"
    and fk: "\<And>r. work_key (f r) = work_key r" "\<And>r. wi_attempt_count (f r) = wi_attempt_count r"
      "\<And>r. wi_max_attempts (f r) = wi_max_attempts r"
    and st: "\<And>r. wi_status (f r) = (if cancelled then CANCELLED else if exhausted then DEAD_LETTER else RETRY_WAIT)"
  shows "body_safe clk es v ob (op_bind (release_expired_lease now l at reason)
    (\<lambda>_. update_work (leased_work l [CLAIMED, RUNNING]) f e)) s"
proof (rule fenced_move_inv [OF inv ev])
  show "position_grows (op_bind (release_expired_lease now l at reason)
    (\<lambda>_. update_work (leased_work l [CLAIMED, RUNNING]) f e))"
    by (auto simp: release_expired_lease_def)
  fix s1 u s2
  assume m: "op_bind (release_expired_lease now l at reason)
    (\<lambda>_. update_work (leased_work l [CLAIMED, RUNNING]) f e) s1 = (Inr u, s2)" and k: "keys_ok s1"
    and eq: "work_at s1 = work_at s" "lease_at s1 = lease_at s"
  show "\<exists>r r' lo'. work_at s (ls_tenant_id l, ls_work_id l) = Some r
    \<and> moved s1 s2 (ls_tenant_id l, ls_work_id l) r' lo' \<and> same_ledger s1 s2 \<and> item_ok r' lo'
    \<and> replay_status (Some (wi_status r)) [WORK_LEASE_EXPIRED, expire_outcome cancelled exhausted]
      = Inr (Some (wi_status r'))"
    by (rule end_tenure [OF inv eq k m [unfolded release_expired_lease_def]])
       (use fk st in \<open>auto simp: lease_held_def leased_work_def work_key_def expired_replay\<close>)
qed

lemma expire_commit_inv:
  assumes inv: "work_inv s"
    and ev: "list_all2 (\<lambda>e ty. event_for e (ls_tenant_id l) (ls_work_id l) ty) es
      [WORK_LEASE_EXPIRED, expire_outcome cancelled exhausted]"
    and cm: "expire_commit clk tenant now l cancelled exhausted ec es v s = (x, s')"
  shows "work_inv s'"
proof (rule append_atomic_safe [OF inv _ cm [unfolded expire_commit_def]])
  have dead: "body_safe clk es v [] (dead_letter_expired_in_transaction clk l now why) s"
    if "exhausted" "\<not> cancelled" for why
  proof -
    have b: "body_safe clk es v [] (op_bind (release_expired_lease clk l now ''dead_letter'')
      (\<lambda>_. update_work (leased_work l [CLAIMED, RUNNING])
        (\<lambda>w. w\<lparr>wi_status := DEAD_LETTER, wi_completed_at := Some now, wi_last_error_code := Some why\<rparr>)
        (FencingError (ls_generation l) 0))) s"
      by (rule expire_body_safe [OF inv ev]) (use that in \<open>auto simp: work_key_def\<close>)
    have assoc: "op_bind (op_bind m k) h = op_bind m (\<lambda>a. op_bind (k a) h)"
      for m :: "('z db_scheme, unit) op" and k :: "unit \<Rightarrow> ('z db_scheme, unit) op" and h :: "unit \<Rightarrow> ('z db_scheme, unit) op"
      by (auto simp: op_bind_def fun_eq_iff split: prod.splits sum.splits)
    show ?thesis
      using body_safe_then [OF b work_neutral_dead_letter, of "\<lambda>_. l" "\<lambda>_. now" "\<lambda>_. why"]
      by (simp add: dead_letter_expired_in_transaction_def assoc)
  qed
  have other: "body_safe clk es v [] (op_bind (release_expired_lease clk l now ''lease_expired'') (\<lambda>_.
       update_work (leased_work l [CLAIMED, RUNNING])
         (\<lambda>w. w\<lparr>wi_status := (if cancelled then CANCELLED else RETRY_WAIT), wi_available_at := now,
                wi_completed_at := (if cancelled then Some now else None)\<rparr>)
         (FencingError (ls_generation l) 0))) s" if "\<not> (exhausted \<and> \<not> cancelled)"
    by (rule expire_body_safe [OF inv ev]) (use that in \<open>auto simp: work_key_def\<close>)
  show "body_safe clk es v [] (expire_projection clk now l cancelled exhausted ec) s"
    unfolding expire_projection_def
    by (intro body_safe_guard) (use dead other in \<open>auto simp: op_simps\<close>)
qed

lemma cancel_commit_inv:
  assumes inv: "work_inv s" and st: "status \<notin> set TERMINAL_WORK_STATUSES"
    and q: "queued = (status \<in> {REQUESTED, PUBLISHED, RETRY_WAIT})"
    and ev: "list_all2 (\<lambda>e ty. event_for e (rq_tenant_id r) (rq_work_id r) ty) es
      (WORK_CANCEL_REQUESTED # (if queued then [WORK_CANCELLED] else []))"
    and cm: "cancel_commit clk tenant r at queued status es v s = (x, s')"
  shows "work_inv s'"
proof (rule append_atomic_safe [OF inv _ cm [unfolded cancel_commit_def]])
  let ?k = "(rq_tenant_id r, rq_work_id r)"
  let ?f = "\<lambda>w. w\<lparr>wi_cancel_requested_at := (case wi_cancel_requested_at w of None \<Rightarrow> Some (dt_instant at) | Some c \<Rightarrow> Some c),
              wi_status := (if queued then CANCELLED else wi_status w),
              wi_completed_at := (if queued then Some (dt_instant at) else wi_completed_at w)\<rparr>"
  let ?tys = "WORK_CANCEL_REQUESTED # (if queued then [WORK_CANCELLED] else [])"
  show "body_safe clk es v [] (cancel_projection r (dt_instant at) queued status) s"
  proof (rule fenced_move_inv [OF inv ev])
    show "position_grows (cancel_projection r (dt_instant at) queued status)" by (auto simp: cancel_projection_def)
    fix s1 u s2
    assume m: "cancel_projection r (dt_instant at) queued status s1 = (Inr u, s2)" and k: "keys_ok s1"
      and eq: "work_at s1 = work_at s" "lease_at s1 = lease_at s"
    obtain w where w: "work_at s1 ?k = Some w" "wi_status w = status" "moved s1 s2 ?k (?f w) (lease_at s1 ?k)" "same_ledger s1 s2"
      using update_work_row [OF m [unfolded cancel_projection_def] k, of "rq_tenant_id r" "rq_work_id r"]
      by (auto simp: work_key_def)
    have "item_ok (?f w) (lease_at s1 ?k)"
      using work_inv_item [OF inv, of ?k w] w eq q by (auto simp: item_ok_def)
    moreover have "replay_status (Some (wi_status w)) ?tys = Inr (Some (wi_status (?f w)))"
    proof -
      have "work_edge (Some status) WORK_CANCEL_REQUESTED status" using st by (intro work_edge.intros) auto
      moreover have "queued \<Longrightarrow> work_edge (Some status) WORK_CANCELLED CANCELLED"
        using q by (auto simp: work_edge.simps work_transitions_def)
      ultimately show ?thesis using w(2) by (auto intro: replay_one replay_two)
    qed
    ultimately show "\<exists>r r' lo'. work_at s ?k = Some r \<and> moved s1 s2 ?k r' lo' \<and> same_ledger s1 s2 \<and> item_ok r' lo'
        \<and> replay_status (Some (wi_status r)) ?tys = Inr (Some (wi_status r'))"
      using w eq by (intro exI [of _ w] exI [of _ "?f w"] exI [of _ "lease_at s1 ?k"]) simp
  qed
qed

lemma redrive_commit_inv:
  assumes inv: "work_inv s" and ev: "event_for event tenant w WORK_RECONCILED"
    and cm: "redrive_commit clk tenant w mid event v s = (x, s')"
  shows "work_inv s'"
proof (rule append_atomic_safe [OF inv _ cm [unfolded redrive_commit_def]])
  show "body_safe clk [event] v [] (redrive_projection clk tenant mid w) s"
  proof (rule fenced_move_inv [OF inv, of tenant w _ "[WORK_RECONCILED]"])
    show "position_grows (redrive_projection clk tenant mid w)"
      by (auto simp: redrive_projection_def intro!: position_grows_bind position_grows_modify)
    fix s1 u s2
    assume m: "redrive_projection clk tenant mid w s1 = (Inr u, s2)" and k: "keys_ok s1"
      and eq: "work_at s1 = work_at s" "lease_at s1 = lease_at s"
    obtain y where s2: "s2 = s1\<lparr>db_outbox := y\<rparr>" and n: "sql_count (\<lambda>b. ob_tenant_id b = tenant
        \<and> ob_message_id b = mid \<and> redrivable clk tenant w s1 b) (db_outbox s1) = 1"
      using m by (auto simp: redrive_projection_def op_simps)
    obtain q where q: "q \<in> set (db_work_items s1)" "is_work tenant w q" "wi_status q \<in> {REQUESTED, PUBLISHED, RETRY_WAIT}"
      using sql_count_1_ex [OF n] by (auto simp: redrivable_def)
    have at: "work_at s1 (tenant, w) = Some q"
      unfolding work_at_def using q k
      by (intro sql_one_eqI [where key = work_key and k = "(tenant, w)"]) (auto simp: keys_ok_def is_work_key)
    have "moved s1 s2 (tenant, w) q (lease_at s1 (tenant, w))"
      using k at by (intro unmoved) (auto simp: s2 work_at_def lease_at_def keys_ok_def fun_eq_iff)
    moreover have "item_ok q (lease_at s1 (tenant, w))"
      using work_inv_item [OF inv, of "(tenant, w)" q] at eq by simp
    moreover have "work_edge (Some (wi_status q)) WORK_RECONCILED (wi_status q)"
      using q(3) by (intro work_edge.intros) (auto simp: TERMINAL_WORK_STATUSES_def)
    moreover have "same_ledger s1 s2" by (simp add: s2 same_ledger_def)
    ultimately show "\<exists>r r' lo'. work_at s (tenant, w) = Some r \<and> moved s1 s2 (tenant, w) r' lo' \<and> same_ledger s1 s2
        \<and> item_ok r' lo' \<and> replay_status (Some (wi_status r)) [WORK_RECONCILED] = Inr (Some (wi_status r'))"
      using at eq replay_one by (intro exI [of _ q] exI [of _ "lease_at s1 (tenant, w)"]) auto
  qed (use ev in auto)
qed

lemma requeue_commit_inv:
  assumes inv: "work_inv s" and ev: "event_for event tenant w WORK_RETRY_SCHEDULED"
    and cm: "requeue_commit clk tenant w at a actr event ob v s = (x, s')"
  shows "work_inv s'"
proof (rule append_atomic_safe [OF inv _ cm [unfolded requeue_commit_def]])
  let ?f = "\<lambda>q. q\<lparr>wi_status := RETRY_WAIT, wi_available_at := dt_instant at, wi_attempt_count := 0,
              wi_completed_at := None, wi_last_error_code := None, wi_cancel_requested_at := None\<rparr>"
  have upd: "body_safe clk [event] v [ob] (update_work (\<lambda>q. is_work tenant w q \<and> wi_status q = DEAD_LETTER) ?f e) s" for e
  proof (rule fenced_move_inv [OF inv, of tenant w _ "[WORK_RETRY_SCHEDULED]"])
    fix s1 u s2
    assume m: "update_work (\<lambda>q. is_work tenant w q \<and> wi_status q = DEAD_LETTER) ?f e s1 = (Inr u, s2)"
      and k: "keys_ok s1" and eq: "work_at s1 = work_at s" "lease_at s1 = lease_at s"
    obtain q where q: "work_at s1 (tenant, w) = Some q" "wi_status q = DEAD_LETTER"
      "moved s1 s2 (tenant, w) (?f q) (lease_at s1 (tenant, w))" "same_ledger s1 s2"
      using update_work_row [OF m k, of tenant w] by (auto simp: work_key_def)
    have "item_ok (?f q) (lease_at s1 (tenant, w))"
      using work_inv_item [OF inv, of "(tenant, w)" q] q eq by (auto simp: item_ok_def)
    moreover have "work_edge (Some (wi_status q)) WORK_RETRY_SCHEDULED RETRY_WAIT"
      using q(2) by (simp add: work_edge_simps)
    ultimately show "\<exists>r r' lo'. work_at s (tenant, w) = Some r \<and> moved s1 s2 (tenant, w) r' lo' \<and> same_ledger s1 s2
        \<and> item_ok r' lo' \<and> replay_status (Some (wi_status r)) [WORK_RETRY_SCHEDULED] = Inr (Some (wi_status r'))"
      using q eq replay_one by (intro exI [of _ q] exI [of _ "?f q"] exI [of _ "lease_at s1 (tenant, w)"]) auto
  qed (use ev in auto)
  show "body_safe clk [event] v [ob] (requeue_projection clk tenant w (dt_instant at) a actr) s"
    unfolding requeue_projection_def
    by (intro body_safe_guard body_safe_then upd work_neutral_bind)
       (auto simp: op_simps work_neutral_def intro!: position_grows_modify)
qed

lemma approve_inv:
  assumes "work_inv s" and "approve_dead_letter_requeue tenant w a ex s = (x, s')"
  shows "work_inv s'"
proof -
  consider "s' = s" | p where "s' = s\<lparr>db_work_requeue_approvals := p\<rparr>"
    using assms(2)
    by (auto simp: approve_dead_letter_requeue_def op_eval tenant_transaction_def transaction_def
        db_rollback_def dt_le_def split: if_splits)
  then show ?thesis
    by cases (use assms(1) in \<open>auto intro: work_inv_cong\<close>)
qed

end
