(* ===== verification/Outbox.thy ===== *)
theory Outbox
  imports Event_Ledger
begin

text \<open>
  The outbox operations of \<^verbatim>\<open>PostgresEventStore\<close> (\<^verbatim>\<open>event_store/postgres.py\<close>): claiming publishable
  messages under a lease and completing, failing or dead-lettering a claimed one. The lease
  expiry is the fencing token of a claim.
\<close>

section \<open>Operations\<close>

record ClaimedOutboxMessage =
  cl_message :: OutboxMessage
  cl_attempt_count :: int
  cl_lease_owner :: string
  cl_lease_expires_at :: datetime

definition publishable :: "instant \<Rightarrow> string \<Rightarrow> string option \<Rightarrow> outbox_row \<Rightarrow> bool" where
  "publishable clk tenant destination b =
     (ob_tenant_id b = tenant
      \<and> (case destination of None \<Rightarrow> True | Some d \<Rightarrow> ob_destination b = d)
      \<and> ob_status b \<in> set [OB_PENDING, OB_LEASED]
      \<and> (ob_attempt_count b < ob_max_attempts b \<or> (ob_status b = OB_LEASED \<and> ob_last_error_code b = None))
      \<and> ob_available_at b \<le> clk
      \<and> (case ob_lease_expires_at b of None \<Rightarrow> True | Some e \<Rightarrow> e \<le> clk))"

definition claim_candidates :: "instant \<Rightarrow> string \<Rightarrow> string option \<Rightarrow> nat \<Rightarrow> outbox_row list \<Rightarrow> uuid list" where
  "claim_candidates clk tenant destination limit rows =
     map ob_message_id (take limit (sort_key ob_available_at (sort_key ob_message_id
       (filter (publishable clk tenant destination) rows))))"

definition lease_outbox_row :: "string \<Rightarrow> instant \<Rightarrow> outbox_row \<Rightarrow> outbox_row" where
  "lease_outbox_row owner expires b =
     b\<lparr>ob_status := OB_LEASED, ob_lease_owner := Some owner, ob_lease_expires_at := Some expires,
       ob_attempt_count := ob_attempt_count b + 1, ob_last_error_code := None\<rparr>"

definition claimed_message :: "outbox_row \<Rightarrow> ClaimedOutboxMessage res" where
  "claimed_message b =
     res_bind (init_OutboxMessage
       \<lparr>om_message_id = ob_message_id b, om_destination = ob_destination b, om_payload = ob_payload b,
        om_headers = ob_headers b, om_available_at = dt_of_instant (ob_available_at b),
        om_max_attempts = ob_max_attempts b, om_event_id = ob_event_id b\<rparr>) (\<lambda>m.
     Inr \<lparr>cl_message = m, cl_attempt_count = ob_attempt_count b,
          cl_lease_owner = (case ob_lease_owner b of None \<Rightarrow> [] | Some ow \<Rightarrow> ow),
          cl_lease_expires_at = dt_of_instant (case ob_lease_expires_at b of None \<Rightarrow> 0 | Some e \<Rightarrow> e)\<rparr>)"

fun claimed_messages :: "outbox_row list \<Rightarrow> ClaimedOutboxMessage list res" where
  "claimed_messages [] = Inr []"
| "claimed_messages (b # bs) =
     res_bind (claimed_message b) (\<lambda>m. res_bind (claimed_messages bs) (\<lambda>ms. Inr (m # ms)))"

definition claim_rows ::
  "instant \<Rightarrow> string \<Rightarrow> string \<Rightarrow> int \<Rightarrow> nat \<Rightarrow> string option \<Rightarrow> ('z db_scheme, outbox_row list) op" where
  "claim_rows clk tenant owner duration limit destination =
     op_bind (op_gets (\<lambda>s. claim_candidates clk tenant destination limit (db_outbox s))) (\<lambda>ids.
     let chosen = (\<lambda>b. ob_tenant_id b = tenant \<and> ob_message_id b \<in> set ids) in
     op_bind (op_modify (\<lambda>s. s\<lparr>db_outbox :=
       sql_update chosen (lease_outbox_row owner (clk + duration)) (db_outbox s)\<rparr>)) (\<lambda>_.
     op_gets (\<lambda>s. filter chosen (db_outbox s))))"

definition claim_outbox ::
  "instant \<Rightarrow> string \<Rightarrow> string \<Rightarrow> datetime \<Rightarrow> datetime \<Rightarrow> int \<Rightarrow> string option
     \<Rightarrow> ('z db_scheme, ClaimedOutboxMessage list) op" where
  "claim_outbox clk tenant owner lease_expires_at now limit destination =
     op_bind (op_require (dt_aware lease_expires_at = dt_aware now)
       (TypeError ''can't subtract offset-naive and offset-aware datetimes'')) (\<lambda>_.
     let duration = dt_instant lease_expires_at - dt_instant now in
     op_bind (op_require (owner \<noteq> [] \<and> dt_aware now \<and> 1000000 \<le> duration \<and> duration \<le> 3600000000)
       (ValueError ''valid lease owner and future expiry are required'')) (\<lambda>_.
     op_bind (op_require (1 \<le> limit \<and> limit \<le> 100)
       (ValueError ''outbox claim limit must be between 1 and 100'')) (\<lambda>_.
     op_bind (tenant_transaction (claim_rows clk tenant owner duration (nat limit) destination)) (\<lambda>rows.
     op_lift (claimed_messages rows)))))"

definition holds_outbox :: "string \<Rightarrow> uuid \<Rightarrow> string \<Rightarrow> instant \<Rightarrow> outbox_row \<Rightarrow> bool" where
  "holds_outbox tenant message_id owner expires b =
     (ob_tenant_id b = tenant \<and> ob_message_id b = message_id \<and> ob_status b = OB_LEASED
      \<and> ob_lease_owner b = Some owner \<and> ob_lease_expires_at b = Some expires)"

definition update_outbox_state ::
  "(outbox_row \<Rightarrow> bool) \<Rightarrow> (outbox_row \<Rightarrow> outbox_row) \<Rightarrow> ('z db_scheme, unit) op" where
  "update_outbox_state P f =
     tenant_transaction (
       op_bind (op_gets (\<lambda>s. sql_count P (db_outbox s))) (\<lambda>n.
       op_bind (op_modify (\<lambda>s. s\<lparr>db_outbox := sql_update P f (db_outbox s)\<rparr>)) (\<lambda>_.
       op_require (n = 1) (ConcurrencyError 1 0))))"

definition mark_outbox_published ::
  "string \<Rightarrow> uuid \<Rightarrow> string \<Rightarrow> datetime \<Rightarrow> datetime \<Rightarrow> ('z db_scheme, unit) op" where
  "mark_outbox_published tenant message_id owner expires published_at =
     update_outbox_state (holds_outbox tenant message_id owner (dt_instant expires))
       (\<lambda>b. b\<lparr>ob_status := OB_PUBLISHED, ob_published_at := Some (dt_instant published_at),
              ob_lease_owner := None, ob_lease_expires_at := None\<rparr>)"

definition mark_outbox_failed ::
  "string \<Rightarrow> uuid \<Rightarrow> string \<Rightarrow> datetime \<Rightarrow> datetime \<Rightarrow> string \<Rightarrow> ('z db_scheme, unit) op" where
  "mark_outbox_failed tenant message_id owner expires retry_at error_code =
     op_bind (op_require (error_code \<noteq> [] \<and> length error_code \<le> 128)
       (ValueError ''bounded error_code is required'')) (\<lambda>_.
     update_outbox_state (holds_outbox tenant message_id owner (dt_instant expires))
       (\<lambda>b. b\<lparr>ob_status := (if ob_max_attempts b \<le> ob_attempt_count b then OB_DEAD_LETTER else OB_PENDING),
              ob_available_at := dt_instant retry_at, ob_last_error_code := Some error_code,
              ob_lease_owner := None, ob_lease_expires_at := None\<rparr>))"

definition mark_outbox_dead_lettered ::
  "string \<Rightarrow> uuid \<Rightarrow> string \<Rightarrow> datetime \<Rightarrow> string \<Rightarrow> ('z db_scheme, unit) op" where
  "mark_outbox_dead_lettered tenant message_id owner expires error_code =
     op_bind (op_require (error_code \<noteq> [] \<and> length error_code \<le> 128)
       (ValueError ''bounded error_code is required'')) (\<lambda>_.
     update_outbox_state (holds_outbox tenant message_id owner (dt_instant expires))
       (\<lambda>b. b\<lparr>ob_status := OB_DEAD_LETTER, ob_last_error_code := Some error_code,
              ob_lease_owner := None, ob_lease_expires_at := None\<rparr>))"

section \<open>The table's constraints\<close>

text \<open>The CHECK constraints of \<^verbatim>\<open>outbox_messages\<close> and its primary key.\<close>

definition outbox_row_ok :: "outbox_row \<Rightarrow> bool" where
  "outbox_row_ok b =
     ((ob_lease_owner b = None) = (ob_lease_expires_at b = None)
      \<and> (ob_status b = OB_LEASED) = (ob_lease_owner b \<noteq> None)
      \<and> (ob_status b = OB_PUBLISHED) = (ob_published_at b \<noteq> None)
      \<and> 0 \<le> ob_attempt_count b \<and> 0 < ob_max_attempts b \<and> ob_destination b \<noteq> []
      \<and> (case ob_last_error_code b of None \<Rightarrow> True | Some c \<Rightarrow> length c \<le> 128))"

definition outbox_key :: "outbox_row \<Rightarrow> string \<times> uuid" where
  "outbox_key b = (ob_tenant_id b, ob_message_id b)"

definition outbox_inv :: "'z db_scheme \<Rightarrow> bool" where
  "outbox_inv s = ((\<forall>b \<in> set (db_outbox s). outbox_row_ok b) \<and> distinct (map outbox_key (db_outbox s)))"

lemma outbox_inv_update:
  assumes "outbox_inv s" and "db_outbox s' = sql_update P f (db_outbox s)"
    and "\<And>b. P b \<Longrightarrow> outbox_row_ok b \<Longrightarrow> outbox_row_ok (f b)" and "\<And>b. outbox_key (f b) = outbox_key b"
  shows "outbox_inv s'"
  using assms by (auto simp: outbox_inv_def in_sql_update_iff)

lemma claim_rows_eq:
  "claim_rows clk tenant owner d n dest s =
     (let chosen = (\<lambda>b. ob_tenant_id b = tenant \<and> ob_message_id b \<in> set (claim_candidates clk tenant dest n (db_outbox s)));
          rows = sql_update chosen (lease_outbox_row owner (clk + d)) (db_outbox s)
      in (Inr (filter chosen rows), s\<lparr>db_outbox := rows\<rparr>))"
  by (simp add: claim_rows_def op_eval Let_def)

lemma claim_candidates_publishable:
  assumes "distinct (map outbox_key rows)" and "b \<in> set rows" and "ob_tenant_id b = tenant"
    and "ob_message_id b \<in> set (claim_candidates clk tenant dest n rows)"
  shows "publishable clk tenant dest b"
proof -
  obtain c where c: "c \<in> set rows" "publishable clk tenant dest c" "ob_message_id c = ob_message_id b"
    using assms(4) by (auto simp: claim_candidates_def dest!: in_set_takeD)
  then have "outbox_key c = outbox_key b" using assms(3) by (simp add: outbox_key_def publishable_def)
  with distinct_key_eq [OF assms(1) c(1) assms(2)] c(2) show ?thesis by simp
qed

lemma claim_rows_inv:
  assumes "outbox_inv s" and "claim_rows clk tenant owner d n dest s = (r, s')"
  shows "outbox_inv s'"
proof -
  let ?chosen = "\<lambda>b. ob_tenant_id b = tenant \<and> ob_message_id b \<in> set (claim_candidates clk tenant dest n (db_outbox s))"
  have s': "db_outbox s' = sql_update ?chosen (lease_outbox_row owner (clk + d)) (db_outbox s)"
    using assms(2) by (auto simp: claim_rows_eq Let_def)
  have "outbox_row_ok (lease_outbox_row owner (clk + d) b)" if "?chosen b" "b \<in> set (db_outbox s)" for b
    using assms(1) claim_candidates_publishable [of "db_outbox s" b tenant clk dest n] that
    by (auto simp: outbox_inv_def outbox_row_ok_def lease_outbox_row_def publishable_def)
  then show ?thesis
    using assms(1) by (auto simp: outbox_inv_def s' in_sql_update_iff lease_outbox_row_def outbox_key_def)
qed

lemma update_outbox_state_inv:
  assumes "outbox_inv s" and "update_outbox_state P f s = (r, s')"
    and "\<And>b. P b \<Longrightarrow> outbox_row_ok b \<Longrightarrow> outbox_row_ok (f b)" and "\<And>b. outbox_key (f b) = outbox_key b"
  shows "outbox_inv s'"
proof -
  consider "s' = s" | "db_outbox s' = sql_update P f (db_outbox s)"
    using assms(2) by (auto simp: update_outbox_state_def op_eval tenant_transaction_def transaction_def
        db_rollback_def split: if_splits)
  then show ?thesis by cases (use assms outbox_inv_update in blast)+
qed

lemma update_outbox_state_refused:
  assumes "sql_count P (db_outbox s) \<noteq> 1"
  shows "update_outbox_state P f s = (Inl (ConcurrencyError 1 0), s)"
  using assms by (simp add: update_outbox_state_def op_eval tenant_transaction_def transaction_def db_rollback_def)

section \<open>Claims\<close>

lemma claim_outbox_Inr:
  assumes "claim_outbox clk t ow le now lim dest s = (Inr ms, s')"
  obtains d rows where "d = dt_instant le - dt_instant now" and "1000000 \<le> d" and "ow \<noteq> []"
    and "claim_rows clk t ow d (nat lim) dest s = (Inr rows, s')" and "claimed_messages rows = Inr ms"
  using assms by (auto simp: claim_outbox_def Let_def op_simps)

lemma claimed_messages_ids:
  "claimed_messages rows = Inr ms \<Longrightarrow>
     map (\<lambda>m. (om_message_id (cl_message m), cl_lease_owner m, cl_lease_expires_at m)) ms
     = map (\<lambda>b. (ob_message_id b, (case ob_lease_owner b of None \<Rightarrow> [] | Some ow \<Rightarrow> ow),
          dt_of_instant (case ob_lease_expires_at b of None \<Rightarrow> 0 | Some e \<Rightarrow> e))) rows"
proof (induction rows arbitrary: ms)
  case Nil
  then show ?case by simp
next
  case (Cons b rows)
  then show ?case
    by (auto simp: res_bind_Inr_iff claimed_message_def init_OutboxMessage_def)
qed

definition claimed_ids :: "ClaimedOutboxMessage list \<Rightarrow> uuid list" where
  "claimed_ids ms = map (\<lambda>m. om_message_id (cl_message m)) ms"

lemma claimed_messages_id_set:
  assumes "claimed_messages rows = Inr ms"
  shows "set (claimed_ids ms) = set (map ob_message_id rows)"
proof -
  have "claimed_ids ms = map ob_message_id rows"
    using arg_cong [OF claimed_messages_ids [OF assms], of "map fst"] by (simp add: claimed_ids_def comp_def)
  then show ?thesis by simp
qed

text \<open>After a claim, exactly the claimed messages of the tenant carry the new lease.\<close>

lemma claim_outbox_rows:
  assumes "claim_outbox clk t ow le now lim dest s = (Inr ms, s')" and "i \<in> set (claimed_ids ms)"
    and "b \<in> set (db_outbox s')" and "ob_tenant_id b = t" and "ob_message_id b = i"
  shows "ob_lease_expires_at b = Some (clk + (dt_instant le - dt_instant now)) \<and> ob_status b = OB_LEASED
    \<and> ob_lease_owner b = Some ow"
proof -
  obtain d rows where d: "d = dt_instant le - dt_instant now"
    and cr: "claim_rows clk t ow d (nat lim) dest s = (Inr rows, s')" and cm: "claimed_messages rows = Inr ms"
    using claim_outbox_Inr [OF assms(1)] by blast
  let ?ids = "set (claim_candidates clk t dest (nat lim) (db_outbox s))"
  have "i \<in> set (map ob_message_id rows)"
    using assms(2) claimed_messages_id_set [OF cm] by simp
  then have i: "i \<in> ?ids" using cr by (auto simp: claim_rows_eq Let_def)
  have s': "db_outbox s' = sql_update (\<lambda>b. ob_tenant_id b = t \<and> ob_message_id b \<in> ?ids)
      (lease_outbox_row ow (clk + d)) (db_outbox s)"
    using cr by (auto simp: claim_rows_eq Let_def)
  obtain q where "b = lease_outbox_row ow (clk + d) q"
    using assms(3-5) i unfolding s' in_sql_update_iff by blast
  then show ?thesis by (simp add: lease_outbox_row_def d)
qed

lemma claim_outbox_picks:
  assumes "outbox_inv s" and "claim_outbox clk t ow le now lim dest s = (Inr ms, s')" and "i \<in> set (claimed_ids ms)"
  shows "\<exists>b \<in> set (db_outbox s). ob_tenant_id b = t \<and> ob_message_id b = i \<and> publishable clk t dest b"
proof -
  obtain d rows where cr: "claim_rows clk t ow d (nat lim) dest s = (Inr rows, s')" and cm: "claimed_messages rows = Inr ms"
    using claim_outbox_Inr [OF assms(2)] by blast
  have "i \<in> set (map ob_message_id rows)"
    using assms(3) claimed_messages_id_set [OF cm] by simp
  then have "i \<in> set (claim_candidates clk t dest (nat lim) (db_outbox s))" using cr by (auto simp: claim_rows_eq Let_def)
  then show ?thesis by (auto simp: claim_candidates_def publishable_def dest!: in_set_takeD)
qed

lemma claim_outbox_inv:
  assumes "outbox_inv s" and "claim_outbox clk t ow le now lim dest s = (r, s')"
  shows "outbox_inv s'"
proof (cases "s' = s")
  case False
  then obtain d x where "claim_rows clk t ow d (nat lim) dest s = (x, s')"
    using assms(2) by (auto simp: claim_outbox_def Let_def op_eval tenant_transaction_def transaction_def
        claim_rows_eq split: if_splits)
  then show ?thesis by (rule claim_rows_inv [OF assms(1)])
qed (use assms in simp)

lemma update_outbox_state_inv':
  assumes "outbox_inv s"
    and "\<And>b. P b \<Longrightarrow> outbox_row_ok b \<Longrightarrow> outbox_row_ok (f b)" and "\<And>b. outbox_key (f b) = outbox_key b"
  shows "outbox_inv (snd (update_outbox_state P f s))"
  by (rule update_outbox_state_inv [OF assms(1) prod.collapse [symmetric]]) (use assms in auto)

lemma mark_outbox_published_inv:
  assumes "outbox_inv s"
  shows "outbox_inv (snd (mark_outbox_published t mid ow le pub s))"
  unfolding mark_outbox_published_def
  by (rule update_outbox_state_inv' [OF assms]) (simp_all add: outbox_row_ok_def outbox_key_def holds_outbox_def)

lemma mark_outbox_failed_inv:
  assumes "outbox_inv s"
  shows "outbox_inv (snd (mark_outbox_failed t mid ow le ra code s))"
proof (cases "code \<noteq> [] \<and> length code \<le> 128")
  case True
  have "outbox_inv (snd (update_outbox_state (holds_outbox t mid ow (dt_instant le))
     (\<lambda>b. b\<lparr>ob_status := (if ob_max_attempts b \<le> ob_attempt_count b then OB_DEAD_LETTER else OB_PENDING),
              ob_available_at := dt_instant ra, ob_last_error_code := Some code,
              ob_lease_owner := None, ob_lease_expires_at := None\<rparr>) s))"
    by (rule update_outbox_state_inv' [OF assms])
      (use True in \<open>simp_all add: outbox_row_ok_def outbox_key_def holds_outbox_def\<close>)
  with True show ?thesis by (simp add: mark_outbox_failed_def op_eval)
next
  case False
  with assms show ?thesis by (auto simp: mark_outbox_failed_def op_eval)
qed

lemma mark_outbox_dead_lettered_inv:
  assumes "outbox_inv s"
  shows "outbox_inv (snd (mark_outbox_dead_lettered t mid ow le code s))"
proof (cases "code \<noteq> [] \<and> length code \<le> 128")
  case True
  have "outbox_inv (snd (update_outbox_state (holds_outbox t mid ow (dt_instant le))
     (\<lambda>b. b\<lparr>ob_status := OB_DEAD_LETTER, ob_last_error_code := Some code,
              ob_lease_owner := None, ob_lease_expires_at := None\<rparr>) s))"
    by (rule update_outbox_state_inv' [OF assms])
      (use True in \<open>simp_all add: outbox_row_ok_def outbox_key_def holds_outbox_def\<close>)
  with True show ?thesis by (simp add: mark_outbox_dead_lettered_def op_eval)
next
  case False
  with assms show ?thesis by (auto simp: mark_outbox_dead_lettered_def op_eval)
qed

lemma claim_outbox_overlap:
  assumes "outbox_inv s" and "claim_outbox clk t ow le now lim dest s = (Inr ms, s1)"
    and "claim_outbox clk' t ow' le' now' lim' dest' s1 = (Inr ms', s2)"
    and i: "i \<in> set (claimed_ids ms)" "i \<in> set (claimed_ids ms')"
  shows "clk + (dt_instant le - dt_instant now) \<le> clk'"
proof -
  have inv1: "outbox_inv s1" by (rule claim_outbox_inv [OF assms(1,2)])
  obtain b where b: "b \<in> set (db_outbox s1)" "ob_tenant_id b = t" "ob_message_id b = i" "publishable clk' t dest' b"
    using claim_outbox_picks [OF inv1 assms(3) i(2)] by blast
  with claim_outbox_rows [OF assms(2) i(1) b(1-3)] show ?thesis by (auto simp: publishable_def)
qed

lemma claim_outbox_expiry:
  assumes "claim_outbox clk t ow le now lim dest s = (Inr ms, s')" and "m \<in> set ms" and "0 \<le> clk"
  shows "dt_instant (cl_lease_expires_at m) = clk + (dt_instant le - dt_instant now)"
proof -
  obtain d rows where d: "d = dt_instant le - dt_instant now"
    and cr: "claim_rows clk t ow d (nat lim) dest s = (Inr rows, s')" and cm: "claimed_messages rows = Inr ms"
    using claim_outbox_Inr [OF assms(1)] by blast
  let ?ch = "\<lambda>b. ob_tenant_id b = t \<and> ob_message_id b \<in> set (claim_candidates clk t dest (nat lim) (db_outbox s))"
  have rows: "rows = filter ?ch (sql_update ?ch (lease_outbox_row ow (clk + d)) (db_outbox s))"
    using cr by (simp add: claim_rows_eq Let_def)
  have "ob_lease_expires_at b = Some (clk + d)" if b: "b \<in> set rows" for b
  proof -
    obtain q where "b = lease_outbox_row ow (clk + d) q"
      using b unfolding rows set_filter mem_Collect_eq in_sql_update_iff by blast
    then show ?thesis by (simp add: lease_outbox_row_def)
  qed
  then have "\<forall>x \<in> set (map (\<lambda>b. dt_of_instant (case ob_lease_expires_at b of None \<Rightarrow> 0 | Some e \<Rightarrow> e)) rows).
      x = dt_of_instant (clk + d)" by auto
  moreover have "map cl_lease_expires_at ms = map (\<lambda>b. dt_of_instant (case ob_lease_expires_at b of None \<Rightarrow> 0 | Some e \<Rightarrow> e)) rows"
    using arg_cong [OF claimed_messages_ids [OF cm], of "map (snd \<circ> snd)"] by (simp add: comp_def)
  ultimately have "\<forall>x \<in> set (map cl_lease_expires_at ms). x = dt_of_instant (clk + d)" by metis
  then have "cl_lease_expires_at m = dt_of_instant (clk + d)" using assms(2) by simp
  moreover have "0 \<le> d" using claim_outbox_Inr [OF assms(1)] d by force
  ultimately show ?thesis using assms(3) by (simp add: d)
qed

section \<open>Properties of the outbox\<close>

definition sample_outbox_db :: db where
  "sample_outbox_db = sample_db\<lparr>db_outbox := [new_outbox_row ''acme''
     \<lparr>om_message_id = 4, om_destination = ''aegis.work'', om_payload = [], om_headers = [],
      om_available_at = dt_of_instant 10, om_max_attempts = 3, om_event_id = None\<rparr>]\<rparr>"

definition sample_claim :: "instant \<Rightarrow> (db, ClaimedOutboxMessage list) op" where
  "sample_claim clk = claim_outbox clk ''acme'' ''pub'' (dt_of_instant 2000000) (dt_of_instant 0) 10 None"

definition sample_leased :: "instant \<Rightarrow> int \<Rightarrow> db" where
  "sample_leased e n = sample_outbox_db\<lparr>db_outbox :=
     map (\<lambda>b. b\<lparr>ob_status := OB_LEASED, ob_lease_owner := Some ''pub'', ob_lease_expires_at := Some e,
       ob_attempt_count := n\<rparr>) (db_outbox sample_outbox_db)\<rparr>"

definition sample_claimed :: "instant \<Rightarrow> int \<Rightarrow> ClaimedOutboxMessage" where
  "sample_claimed e n =
     \<lparr>cl_message = \<lparr>om_message_id = 4, om_destination = ''aegis.work'', om_payload = [], om_headers = [],
        om_available_at = dt_of_instant 10, om_max_attempts = 3, om_event_id = None\<rparr>,
      cl_attempt_count = n, cl_lease_owner = ''pub'', cl_lease_expires_at = dt_of_instant e\<rparr>"

lemmas sample_claim_eval = sample_claim_def claim_outbox_def claim_rows_eq op_eval tenant_transaction_def
  transaction_def claim_candidates_def publishable_def Let_def sample_outbox_db_def sample_db_def
  sample_leased_def sample_claimed_def new_outbox_row_def lease_outbox_row_def claimed_message_def init_OutboxMessage_def

lemma sample_claim_first:
  "sample_claim 20 sample_outbox_db = (Inr [sample_claimed 2000020 1], sample_leased 2000020 1)"
  by (simp add: sample_claim_eval)

lemma sample_claim_early:
  "sample_claim 30 (sample_leased 2000020 1) = (Inr [], sample_leased 2000020 1)"
  by (simp add: sample_claim_eval)

lemma sample_claim_late:
  "sample_claim 3000000 (sample_leased 2000020 1) = (Inr [sample_claimed 5000000 2], sample_leased 5000000 2)"
  by (simp add: sample_claim_eval)

lemma sample_outbox_inv: "outbox_inv sample_outbox_db"
  by (simp add: outbox_inv_def outbox_row_ok_def sample_outbox_db_def new_outbox_row_def)

text \<open>
  Outbox operations keep the table's constraints. Claiming, publishing, failing and
  dead-lettering messages never produce a row that violates the lease, status and
  publication constraints of the table, whatever they return.
\<close>

theorem outbox_operations_keep_constraints:
  assumes "outbox_inv s"
  shows "outbox_inv (snd (claim_outbox clk t ow le now lim dest s))
    \<and> outbox_inv (snd (mark_outbox_published t mid ow le pub s))
    \<and> outbox_inv (snd (mark_outbox_failed t mid ow le ra code s))
    \<and> outbox_inv (snd (mark_outbox_dead_lettered t mid ow le code s))"
  by (intro conjI claim_outbox_inv [OF assms prod.collapse [symmetric]] mark_outbox_published_inv [OF assms]
      mark_outbox_failed_inv [OF assms] mark_outbox_dead_lettered_inv [OF assms])

theorem outbox_operations_keep_constraints_witness: "outbox_inv (snd (sample_claim 20 sample_outbox_db))"
  using outbox_operations_keep_constraints [OF sample_outbox_inv] by (simp add: sample_claim_def)



text \<open>
  The lease expiry fences stale publishers. Once a message whose lease has run out has been
  claimed again, completing it under the old lease is refused and changes nothing, even for the same
  publisher name.
\<close>

theorem stale_outbox_completion_refused:
  assumes "outbox_inv s" and "claim_outbox clk t ow le now lim dest s = (Inr ms, s1)"
    and "claim_outbox clk' t ow' le' now' lim' dest' s1 = (Inr ms', s2)"
    and "m \<in> set ms" and "om_message_id (cl_message m) \<in> set (claimed_ids ms')" and "0 \<le> clk"
  shows "mark_outbox_published t (om_message_id (cl_message m)) any (cl_lease_expires_at m) pub s2
      = (Inl (ConcurrencyError 1 0), s2)"
proof -
  let ?mid = "om_message_id (cl_message m)"
  have "?mid \<in> set (claimed_ids ms)" using assms(4) by (simp add: claimed_ids_def)
  then have "clk + (dt_instant le - dt_instant now) \<le> clk'"
    using claim_outbox_overlap [OF assms(1-3)] assms(5) by blast
  moreover have "0 < dt_instant le' - dt_instant now'" using claim_outbox_Inr [OF assms(3)] by force
  ultimately have "dt_instant (cl_lease_expires_at m) < clk' + (dt_instant le' - dt_instant now')"
    using claim_outbox_expiry [OF assms(2,4,6)] by linarith
  then have "\<not> holds_outbox t ?mid any (dt_instant (cl_lease_expires_at m)) b" if "b \<in> set (db_outbox s2)" for b
    using claim_outbox_rows [OF assms(3,5) that] by (auto simp: holds_outbox_def)
  then have "sql_count (holds_outbox t ?mid any (dt_instant (cl_lease_expires_at m))) (db_outbox s2) = 0"
    by (simp add: sql_count_0_iff)
  then show ?thesis by (simp add: mark_outbox_published_def update_outbox_state_refused)
qed

theorem stale_outbox_completion_refused_witness:
  "sample_claim 20 sample_outbox_db = (Inr [sample_claimed 2000020 1], sample_leased 2000020 1)
     \<and> sample_claim 3000000 (sample_leased 2000020 1) = (Inr [sample_claimed 5000000 2], sample_leased 5000000 2)
     \<and> mark_outbox_published ''acme'' (om_message_id (cl_message (sample_claimed 2000020 1))) ''pub''
         (cl_lease_expires_at (sample_claimed 2000020 1)) (dt_of_instant 9) (sample_leased 5000000 2)
       = (Inl (ConcurrencyError 1 0), sample_leased 5000000 2)"
  using stale_outbox_completion_refused [OF sample_outbox_inv sample_claim_first [unfolded sample_claim_def]
      sample_claim_late [unfolded sample_claim_def], of "sample_claimed 2000020 1"] sample_claim_first sample_claim_late
  by (simp add: claimed_ids_def sample_claimed_def)

end
