(* ===== verification/Work_System.thy ===== *)
theory Work_System
  imports Work_Invariants Outbox
begin

text \<open>
  The work system as a transition system. A step is one database transaction of
  \<^verbatim>\<open>PostgresWorkRepository\<close> or \<^verbatim>\<open>PostgresEventStore\<close>; the values an operation read before
  its transaction (stream version, lease, request) are arbitrary, so every interleaving of the
  operations of any number of workers, publishers, reconcilers and operators is a run of the system.
  The invariant of the work tables is shown by rule induction over the runs.
\<close>

section \<open>Steps\<close>

text \<open>
  The premises on a step are what the code establishes before its transaction: the events are
  the transitions the operation constructs, a claim is made by a well-formed lease for an attempt within the
  bound of the item, and a worker completes its item only after \<^verbatim>\<open>start\<close> (\<^const>\<open>started\<close>).
\<close>

inductive work_step :: "'z db_scheme \<Rightarrow> 'z db_scheme \<Rightarrow> bool" where
  step_register:
    "register_commit clk t r e ob s = (x, s') \<Longrightarrow> event_for e (rq_tenant_id r) (rq_work_id r) WORK_REQUESTED
      \<Longrightarrow> work_step s s'"
| step_publish:
    "publish_commit clk t r mid e v s = (y, s') \<Longrightarrow> event_for e (rq_tenant_id r) (rq_work_id r) WORK_PUBLISHED
      \<Longrightarrow> work_step s s'"
| step_claim:
    "claim_commit clk t l d lim e v s = (x, s') \<Longrightarrow> event_for e (ls_tenant_id l) (ls_work_id l) WORK_CLAIMED
      \<Longrightarrow> lease_ok l
      \<Longrightarrow> (\<And>r. work_at s (ls_tenant_id l, ls_work_id l) = Some r \<Longrightarrow> ls_attempt l \<le> wi_max_attempts r)
      \<Longrightarrow> work_step s s'"
| step_start:
    "fenced_commit clk t l at e v (mark_started r l) s = (x, s')
      \<Longrightarrow> event_for e (rq_tenant_id r) (rq_work_id r) WORK_STARTED \<Longrightarrow> work_step s s'"
| step_heartbeat:
    "fenced_commit clk t l at e v (renew_lease clk l d) s = (x, s')
      \<Longrightarrow> event_for e (ls_tenant_id l) (ls_work_id l) WORK_HEARTBEAT \<Longrightarrow> work_step s s'"
| step_succeed:
    "fenced_commit clk t l at e v (complete_in_transaction l fin SUCCEEDED ''succeeded'') s = (x, s')
      \<Longrightarrow> event_for e (ls_tenant_id l) (ls_work_id l) WORK_SUCCEEDED \<Longrightarrow> started l s \<Longrightarrow> work_step s s'"
| step_cancelled:
    "fenced_commit clk t l at e v (cancel_in_transaction l fin) s = (x, s')
      \<Longrightarrow> event_for e (ls_tenant_id l) (ls_work_id l) WORK_CANCELLED \<Longrightarrow> work_step s s'"
| step_release:
    "fenced_commit clk t l at e v (release_in_transaction l fin why ra False) s = (x, s')
      \<Longrightarrow> event_for e (ls_tenant_id l) (ls_work_id l) WORK_RETRY_SCHEDULED \<Longrightarrow> work_step s s'"
| step_retry:
    "fail_commit clk t l at code (Some ra) False [e1, e2] v ob s = (x, s')
      \<Longrightarrow> event_for e1 (ls_tenant_id l) (ls_work_id l) WORK_FAILED
      \<Longrightarrow> event_for e2 (ls_tenant_id l) (ls_work_id l) WORK_RETRY_SCHEDULED \<Longrightarrow> work_step s s'"
| step_dead_letter:
    "fail_commit clk t l at code rao True [e1, e2] v ob s = (x, s')
      \<Longrightarrow> event_for e1 (ls_tenant_id l) (ls_work_id l) WORK_FAILED
      \<Longrightarrow> event_for e2 (ls_tenant_id l) (ls_work_id l) WORK_DEAD_LETTERED \<Longrightarrow> started l s \<Longrightarrow> work_step s s'"
| step_request_cancel:
    "cancel_commit clk t r at queued status es v s = (x, s') \<Longrightarrow> status \<notin> set TERMINAL_WORK_STATUSES
      \<Longrightarrow> queued = (status \<in> {REQUESTED, PUBLISHED, RETRY_WAIT})
      \<Longrightarrow> list_all2 (\<lambda>e ty. event_for e (rq_tenant_id r) (rq_work_id r) ty) es
            (WORK_CANCEL_REQUESTED # (if queued then [WORK_CANCELLED] else []))
      \<Longrightarrow> work_step s s'"
| step_redrive:
    "redrive_commit clk t w mid e v s = (x, s') \<Longrightarrow> event_for e t w WORK_RECONCILED \<Longrightarrow> work_step s s'"
| step_expire:
    "expire_commit clk t now l cancelled exhausted ec es v s = (x, s')
      \<Longrightarrow> list_all2 (\<lambda>e ty. event_for e (ls_tenant_id l) (ls_work_id l) ty) es
            [WORK_LEASE_EXPIRED, expire_outcome cancelled exhausted]
      \<Longrightarrow> work_step s s'"
| step_requeue:
    "requeue_commit clk t w at a actr e ob v s = (x, s') \<Longrightarrow> event_for e t w WORK_RETRY_SCHEDULED
      \<Longrightarrow> work_step s s'"
| step_approve: "approve_dead_letter_requeue t w a ex s = (u, s') \<Longrightarrow> work_step s s'"
| step_outbox_claim: "claim_outbox clk t ow le now n dest s = (ms, s') \<Longrightarrow> work_step s s'"
| step_outbox_published: "mark_outbox_published t mid ow le pub s = (u, s') \<Longrightarrow> work_step s s'"
| step_outbox_failed: "mark_outbox_failed t mid ow le ra code s = (u, s') \<Longrightarrow> work_step s s'"
| step_outbox_dead: "mark_outbox_dead_lettered t mid ow le code s = (u, s') \<Longrightarrow> work_step s s'"
| step_foreign:
    "append_events clk t es v ob s = (x, s')
      \<Longrightarrow> (\<And>e. e \<in> set es \<Longrightarrow> \<not> py_startswith (event_type e) ''work.'') \<Longrightarrow> work_step s s'"

definition reachable :: "'z db_scheme \<Rightarrow> 'z db_scheme \<Rightarrow> bool" where
  "reachable s0 s = work_step\<^sup>*\<^sup>* s0 s"

section \<open>The invariant over all runs\<close>

lemma fenced_commit_inv:
  assumes "work_inv s" and "body_safe clk [e] v [] mut s" and "fenced_commit clk t l at e v mut s = (x, s')"
  shows "work_inv s'"
  using append_fenced_safe [OF assms(1,2)] assms(3) by (simp add: fenced_commit_def)

lemma update_outbox_state_effect:
  assumes "update_outbox_state P f s = (r, s')"
  shows "\<exists>rows. s' = s\<lparr>db_outbox := rows\<rparr>"
proof (cases "sql_count P (db_outbox s) = 1")
  case True
  then have "s' = s\<lparr>db_outbox := sql_update P f (db_outbox s)\<rparr>"
    using assms by (simp add: update_outbox_state_def op_eval tenant_transaction_def transaction_def)
  then show ?thesis by blast
next
  case False
  then have "s' = s\<lparr>db_outbox := db_outbox s\<rparr>" using assms by (simp add: update_outbox_state_refused)
  then show ?thesis by blast
qed

lemma only_outbox_inv:
  assumes "work_inv s" and "\<exists>rows. s' = s\<lparr>db_outbox := rows\<rparr>"
  shows "work_inv s'"
  using assms by (auto intro: work_inv_cong)

lemma outbox_unchanged: "\<exists>rows. s = s\<lparr>db_outbox := rows\<rparr>"
  by (rule exI [of _ "db_outbox s"]) simp

lemma claim_outbox_effect:
  assumes "claim_outbox clk t ow le now n dest s = (r, s')"
  shows "\<exists>rows. s' = s\<lparr>db_outbox := rows\<rparr>"
proof (cases "s' = s")
  case True
  then show ?thesis using outbox_unchanged by auto
next
  case False
  then obtain d x where "claim_rows clk t ow d (nat n) dest s = (x, s')"
    using assms by (auto simp: claim_outbox_def Let_def op_eval tenant_transaction_def transaction_def
        claim_rows_eq split: if_splits)
  then show ?thesis by (auto simp: claim_rows_eq Let_def)
qed

lemma mark_outbox_effect:
  "mark_outbox_published t mid ow le pub s = (u, s') \<Longrightarrow> \<exists>rows. s' = s\<lparr>db_outbox := rows\<rparr>"
  "mark_outbox_failed t mid ow le ra code s = (u, s') \<Longrightarrow> \<exists>rows. s' = s\<lparr>db_outbox := rows\<rparr>"
  "mark_outbox_dead_lettered t mid ow le code s = (u, s') \<Longrightarrow> \<exists>rows. s' = s\<lparr>db_outbox := rows\<rparr>"
  unfolding mark_outbox_published_def mark_outbox_failed_def mark_outbox_dead_lettered_def
  by (auto simp: op_bind_def op_require_def op_return_def op_raise_def outbox_unchanged
      dest: update_outbox_state_effect split: if_splits)

lemma foreign_events_silent:
  assumes "\<And>e. e \<in> set es \<Longrightarrow> \<not> py_startswith (event_type e) ''work.''"
  shows "concat (map work_event_of (filter P (event_rows now v p es))) = []"
  using assms
proof (induction es arbitrary: v p)
  case Nil
  then show ?case by simp
next
  case (Cons e es)
  have "work_event_of (event_insert_values e (v + 1) p now) = []"
    using Cons.prems [of e] by (auto simp: work_event_of_def dest: DomainEventType_of_Inr split: sum.splits)
  with Cons show ?case by simp
qed

lemma foreign_append_inv:
  assumes "work_inv s" and "append_events clk t es v ob s = (x, s')"
    and "\<And>e. e \<in> set es \<Longrightarrow> \<not> py_startswith (event_type e) ''work.''"
  shows "work_inv s'"
proof -
  have L: "ledger_inv s'" using assms(1,2) append_events_inv by (auto simp: work_inv_def)
  have same: "work_history s' k = work_history s k \<and> work_at s' k = work_at s k \<and> lease_at s' k = lease_at s k
      \<and> keys_ok s'" for k
  proof (cases x)
    case (Inr n)
    then have app: "append_in_transaction clk es v ob s = (Inr n, s')" using assms(2) by (simp add: append_events_Inr)
    have "db_events s' = db_events s @ event_rows clk v (db_next_position s) es"
      using append_in_transaction_Inr(4) [OF app] by simp
    then show ?thesis
      using append_keeps_work [OF app] work_inv_keys [OF assms(1)] foreign_events_silent [OF assms(3)]
      by (simp add: work_history_def)
  next
    case (Inl e)
    have "\<exists>p. s' = s\<lparr>db_next_position := p\<rparr>"
    proof (cases "validate_append t es v")
      case (Inr u)
      then have tx: "tenant_transaction (append_in_transaction clk es v ob) s = (Inl e, s')"
        using assms(2) Inl by (simp add: append_events_def op_lift_def)
      show ?thesis using failed_transaction [OF tx position_grows_append] by blast
    next
      case (Inl y)
      then have "s' = s\<lparr>db_next_position := db_next_position s\<rparr>"
        using assms(2) by (simp add: append_events_def op_lift_def)
      then show ?thesis by blast
    qed
    then show ?thesis using work_inv_keys [OF assms(1)]
      by (auto simp: work_history_def work_at_def lease_at_def keys_ok_def)
  qed
  have "work_ok s' k" for k
    using work_inv_ok [OF assms(1), of k] same [of k] by (simp add: work_ok_def split: option.splits)
  then show ?thesis using L same by (simp add: work_inv_def keys_ok_def)
qed

theorem work_step_inv:
  assumes "work_step s s'" and "work_inv s"
  shows "work_inv s'"
  using assms
proof (induction rule: work_step.induct)
  case (step_register clk t r e ob s x s')
  then show ?case using register_commit_inv by blast
next
  case (step_publish clk t r mid e v s y s')
  then show ?case using publish_commit_inv by blast
next
  case (step_claim clk t l d lim e v s x s')
  then show ?case using claim_commit_inv by blast
next
  case (step_start clk t l at e v r s x s')
  then show ?case using fenced_commit_inv mark_started_safe by blast
next
  case (step_heartbeat clk t l at e v d s x s')
  then show ?case using fenced_commit_inv renew_lease_safe by blast
next
  case (step_succeed clk t l at e v fin s x s')
  then have "body_safe clk [e] v [] (complete_in_transaction l fin SUCCEEDED ''succeeded'') s"
    by (intro complete_safe [where tys = "[WORK_SUCCEEDED]"]) (auto simp: succeed_replay)
  with step_succeed show ?case using fenced_commit_inv by blast
next
  case (step_cancelled clk t l at e v fin s x s')
  then show ?case using fenced_commit_inv cancel_in_transaction_safe by blast
next
  case (step_release clk t l at e v fin why ra s x s')
  then have "body_safe clk [e] v [] (release_in_transaction l fin why ra False) s"
    by (intro release_in_transaction_safe [where tys = "[WORK_RETRY_SCHEDULED]"])
       (auto simp: work_edge.simps work_transitions_def intro!: replay_one)
  with step_release show ?case using fenced_commit_inv by blast
next
  case (step_retry clk t l at code ra e1 e2 v ob s x s')
  then have "body_safe clk [e1, e2] v ob (release_in_transaction l (dt_instant at) ''retry_scheduled'' (dt_instant ra) True) s"
    by (intro release_in_transaction_safe [where tys = "[WORK_FAILED, WORK_RETRY_SCHEDULED]"])
       (auto simp: failure_replay)
  with step_retry show ?case
    by (intro append_fenced_safe [OF _ _ step_retry(1) [unfolded fail_commit_def]]) simp_all
next
  case (step_dead_letter clk t l at code rao e1 e2 v ob s x s')
  then have "body_safe clk [e1, e2] v ob (dead_letter_in_transaction l (dt_instant at) code) s"
    by (intro dead_letter_safe) simp_all
  moreover have "append_fenced clk t [e1, e2] v (ls_work_id l) (ls_token l) (ls_generation l) at ob
      (Some (dead_letter_in_transaction l (dt_instant at) code)) s = (x, s')"
    using step_dead_letter(1) by (simp add: fail_commit_def)
  ultimately show ?case by (rule append_fenced_safe [OF step_dead_letter(5)])
next
  case (step_request_cancel clk t r at queued status es v s x s')
  then show ?case using cancel_commit_inv by blast
next
  case (step_redrive clk t w mid e v s x s')
  then show ?case using redrive_commit_inv by blast
next
  case (step_expire clk t now l cancelled exhausted ec es v s x s')
  then show ?case using expire_commit_inv by blast
next
  case (step_requeue clk t w at a actr e ob v s x s')
  then show ?case using requeue_commit_inv by blast
next
  case (step_approve t w a ex s u s')
  then show ?case using approve_inv by blast
next
  case (step_outbox_claim clk t ow le now n dest s ms s')
  show ?case by (rule only_outbox_inv [OF step_outbox_claim(2) claim_outbox_effect [OF step_outbox_claim(1)]])
next
  case (step_outbox_published t mid ow le pub s u s')
  show ?case by (rule only_outbox_inv [OF step_outbox_published(2) mark_outbox_effect(1) [OF step_outbox_published(1)]])
next
  case (step_outbox_failed t mid ow le ra code s u s')
  show ?case by (rule only_outbox_inv [OF step_outbox_failed(2) mark_outbox_effect(2) [OF step_outbox_failed(1)]])
next
  case (step_outbox_dead t mid ow le code s u s')
  show ?case by (rule only_outbox_inv [OF step_outbox_dead(2) mark_outbox_effect(3) [OF step_outbox_dead(1)]])
next
  case (step_foreign clk t es v ob s x s')
  then show ?case using foreign_append_inv by blast
qed

lemma reachable_inv:
  assumes "reachable s0 s" and "work_inv s0"
  shows "work_inv s"
  using assms unfolding reachable_def by (induction rule: rtranclp_induct) (auto intro: work_step_inv)

section \<open>Operations are steps\<close>

text \<open>
  Each operation of the repository reads, then runs one transaction: it leaves the database as it is or makes one
  step.
\<close>

lemma reads_transaction [intro, simp]: "reads (tenant_transaction (op_gets f))"
  by (auto simp: reads_def tenant_transaction_def transaction_def op_gets_def)

definition within :: "('z db_scheme, 'a) op \<Rightarrow> 'z db_scheme \<Rightarrow> bool" where
  "within m s = (\<forall>x s'. m s = (x, s') \<longrightarrow> s' = s \<or> work_step s s')"

lemma within_reads [intro]: "reads m \<Longrightarrow> within m s"
  by (auto simp: within_def reads_def)

lemma within_return [simp]: "within (op_return a) s" "within (op_raise e) s"
  by auto

lemma within_if: "(b \<Longrightarrow> within m s) \<Longrightarrow> (\<not> b \<Longrightarrow> within n s) \<Longrightarrow> within (if b then m else n) s"
  by simp

lemma within_step: "(\<And>x s'. m s = (x, s') \<Longrightarrow> work_step s s') \<Longrightarrow> within m s"
  by (auto simp: within_def)

lemma within_bind_read:
  assumes "reads m" and "\<And>a. m s = (Inr a, s) \<Longrightarrow> within (k a) s"
  shows "within (op_bind m k) s"
proof (cases "m s")
  case (Pair x s1)
  then have "s1 = s" using assms(1) by (auto simp: reads_def)
  with Pair assms(2) show ?thesis by (cases x) (auto simp: within_def)
qed

lemma within_bind_last:
  assumes "within m s" and "\<And>a. reads (k a)"
  shows "within (op_bind m k) s"
proof (cases "m s")
  case (Pair x s1)
  show ?thesis
  proof (cases x)
    case (Inl e)
    with Pair assms(1) show ?thesis by (auto simp: within_def)
  next
    case (Inr a)
    with Pair have "op_bind m k s = k a s1" by simp
    moreover have "snd (k a s1) = s1" using assms(2) [of a] prod.collapse unfolding reads_def by metis
    ultimately show ?thesis using assms(1) Pair by (auto simp: within_def)
  qed
qed

lemma within_lift:
  "(\<And>a. q = Inr a \<Longrightarrow> within (k a) s) \<Longrightarrow> within (op_bind (op_lift q) k) s"
  by (rule within_bind_read) (auto simp: op_simps)

lemma within_require:
  "(b \<Longrightarrow> within (k ()) s) \<Longrightarrow> within (op_bind (op_require b e) k) s"
  by (rule within_bind_read) (auto simp: op_simps)

lemma within_catch:
  assumes "within m s" and "\<And>e. reads (h e)"
  shows "within (op_catch m h) s"
  using assms unfolding within_def reads_def op_catch_iff by blast

lemma reads_load_request [intro, simp]: "reads (load_request t w)"
  unfolding load_request_def by (rule reads_bind) (auto split: option.splits)

lemma reads_work_version [intro, simp]: "reads (work_version t w)"
  by (simp add: work_version_def)

lemma reads_verify_delivery [intro, simp]: "reads (verify_delivery t d)"
  unfolding verify_delivery_def Let_def
  by (intro reads_bind reads_simps reads_transaction) (auto split: prod.splits option.splits)

lemma within_fenced_transition:
  assumes "\<And>e v x s'. fenced_commit clk t l (wt_occurred_at tr) e v mut s = (x, s') \<Longrightarrow>
      to_event tr r eid None = Inr e \<Longrightarrow> work_step s s'"
  shows "within (append_fenced_transition clk t r tr l eid mut) s"
  unfolding append_fenced_transition_def
  by (intro within_bind_read [OF reads_work_version] within_lift within_bind_last [OF _ reads_simps(1)] within_step)
     (rule assms)

lemma new_transition_Inr:
  "new_transition ty at ds lo = Inr t \<Longrightarrow> wt_event_type t = ty \<and> wt_occurred_at t = at \<and> wt_lease t = lo"
  by (auto simp: new_transition_def dest: init_WorkTransition_Inr)

lemma leased_event_for:
  assumes "to_event tr r eid c = Inr e" and "new_transition ty at ds (Some l) = Inr tr"
  shows "event_for e (ls_tenant_id l) (ls_work_id l) ty" and "event_for e (rq_tenant_id r) (rq_work_id r) ty"
  using to_event_Inr [OF assms(1)] new_transition_Inr [OF assms(2)] by (auto simp: event_for_def)

lemma leased_transition_event_for:
  "transition_event ty at ds (Some l) r eid c = Inr e \<Longrightarrow> event_for e (ls_tenant_id l) (ls_work_id l) ty"
  by (auto simp: event_for_def dest: transition_event_Inr)

lemma register_within: "within (register clk t r eid mid) s"
  unfolding register_def
  by (intro within_lift within_step) (rule step_register, assumption, erule transition_event_for)

lemma mark_published_within: "within (mark_published clk t d at eid) s"
  unfolding mark_published_def
  by (intro within_bind_read [OF reads_verify_delivery] within_bind_read [OF reads_work_version] within_lift
      within_bind_last [OF _ reads_simps(1)] within_step)
     (rule step_publish, assumption, erule transition_event_for)

lemma start_within: "within (start clk t d l at eid) s"
  unfolding start_def
  by (intro within_lift within_fenced_transition) (rule step_start, assumption, erule (1) leased_event_for)

lemma succeed_within: "started l s \<Longrightarrow> within (succeed clk t d l at ref eid) s"
  unfolding succeed_def
  by (intro within_lift within_fenced_transition) (rule step_succeed, assumption, erule (1) leased_event_for)

lemma cancel_within: "within (cancel clk t d l at eid) s"
  unfolding cancel_def
  by (intro within_lift within_fenced_transition) (rule step_cancelled, assumption, erule (1) leased_event_for)

lemma release_within: "within (release clk t l at why ra eid) s"
  unfolding release_def
  by (intro within_require within_bind_read [OF reads_load_request] within_lift within_fenced_transition)
     (rule step_release, assumption, erule (1) leased_event_for)

lemma heartbeat_within: "within (heartbeat clk t d l at ex eid) s"
  unfolding heartbeat_def Let_def
proof (intro within_lift within_require within_bind_last [OF _ reads_simps(3)] within_fenced_transition)
  fix renewed r tr e v x s'
  assume re: "init_WorkLease (l\<lparr>ls_heartbeat_at := at, ls_expires_at := ex\<rparr>) = Inr renewed"
    and tr: "new_transition WORK_HEARTBEAT at [] (Some renewed) = Inr tr"
    and fc: "fenced_commit clk t renewed (wt_occurred_at tr) e v
        (renew_lease clk l (dt_instant ex - dt_instant at)) s = (x, s')"
    and te: "to_event tr r eid None = Inr e"
  have "renewed = l\<lparr>ls_heartbeat_at := at, ls_expires_at := ex\<rparr>" using re by (simp add: init_WorkLease_Inr)
  then show "work_step s s'"
    using leased_event_for(1) [OF te tr] fc by (intro step_heartbeat) (auto simp: fenced_commit_def)
qed

lemma request_cancel_within: "within (request_cancel clk t r at by_actor eid1 eid2) s"
proof -
  have "within (case row of
        None \<Rightarrow> op_raise (ValueError ''work request not found'')
      | Some w \<Rightarrow>
          let status = wi_status w; queued = (status \<in> set [REQUESTED, PUBLISHED, RETRY_WAIT]) in
          if status \<in> set [SUCCEEDED, FAILED, CANCELLED, DEAD_LETTER] then op_raise (ConcurrencyError 1 0) else
          op_bind (op_lift (transition_event WORK_CANCEL_REQUESTED at
            (case by_actor of None \<Rightarrow> [] | Some a \<Rightarrow> [(''requested_by'', JStr a)]) None r eid1 None)) (\<lambda>requested.
          op_bind (if queued then
              op_bind (op_lift (transition_event WORK_CANCELLED at [] None r eid2 (Some (event_id requested))))
                (\<lambda>cancelled. op_return [requested, cancelled])
            else op_return [requested]) (\<lambda>events.
          op_bind (work_version t (rq_work_id r)) (\<lambda>version.
          op_bind (cancel_commit clk t r at queued status events version) (\<lambda>_.
          op_return ()))))) s" for row
  proof (cases row)
    case (Some w)
    show ?thesis
    proof (cases "wi_status w \<in> set [SUCCEEDED, FAILED, CANCELLED, DEAD_LETTER]")
      case False
      let ?q = "wi_status w \<in> set [REQUESTED, PUBLISHED, RETRY_WAIT]"
      have "within (op_bind (if ?q then
              op_bind (op_lift (transition_event WORK_CANCELLED at [] None r eid2 (Some (event_id e))))
                (\<lambda>cancelled. op_return [e, cancelled])
            else op_return [e]) (\<lambda>events.
          op_bind (work_version t (rq_work_id r)) (\<lambda>version.
          op_bind (cancel_commit clk t r at ?q (wi_status w) events version) (\<lambda>_.
          op_return ())))) s" if e: "event_for e (rq_tenant_id r) (rq_work_id r) WORK_CANCEL_REQUESTED" for e
      proof (rule within_bind_read)
        fix es
        assume "(if ?q then
              op_bind (op_lift (transition_event WORK_CANCELLED at [] None r eid2 (Some (event_id e))))
                (\<lambda>cancelled. op_return [e, cancelled])
            else op_return [e]) s = (Inr es, s)"
        then have "list_all2 (\<lambda>e ty. event_for e (rq_tenant_id r) (rq_work_id r) ty) es
            (WORK_CANCEL_REQUESTED # (if ?q then [WORK_CANCELLED] else []))"
          using e by (auto simp: op_simps dest: transition_event_for [OF sym] split: if_splits)
        then show "within (op_bind (work_version t (rq_work_id r)) (\<lambda>version.
          op_bind (cancel_commit clk t r at ?q (wi_status w) es version) (\<lambda>_. op_return ()))) s"
          using False
          by (intro within_bind_read [OF reads_work_version] within_bind_last [OF _ reads_simps(1)] within_step
              step_request_cancel) (auto simp: TERMINAL_WORK_STATUSES_def)
      qed (auto intro!: reads_bind)
      with Some False show ?thesis
        by (auto simp: Let_def intro!: within_lift dest: transition_event_for)
    qed (auto simp: Some Let_def)
  qed auto
  then show ?thesis unfolding request_cancel_def by (intro within_bind_read [OF reads_transaction])
qed

lemma cancel_by_id_within: "within (cancel_by_id clk t w at a eid1 eid2) s"
  unfolding cancel_by_id_def
  by (intro within_require within_bind_read [OF reads_load_request] request_cancel_within)

lemma request_of_row_Inr:
  "request_of_row t w row = Inr r \<Longrightarrow>
     rq_tenant_id r = t \<and> rq_work_id r = w \<and> rq_max_attempts r = wi_max_attempts row"
  by (auto simp: request_of_row_def init_WorkRequest_def res_bind_Inr_iff)

lemma load_request_Inr:
  assumes "load_request t w s = (Inr r, s')"
  shows "rq_tenant_id r = t \<and> rq_work_id r = w"
  using assms request_of_row_Inr [OF sym] by (auto simp: load_request_def op_simps split: option.splits)

lemma loaded_event_for:
  "load_request t w s = (Inr r, s') \<Longrightarrow> transition_event ty at ds lo r eid c = Inr e \<Longrightarrow> event_for e t w ty"
  using load_request_Inr transition_event_for by metis

lemma requeue_dead_letter_within: "within (requeue_dead_letter clk t w at a actr eid mid) s"
  unfolding requeue_dead_letter_def
  by (intro within_bind_read [OF reads_load_request] within_lift within_bind_read [OF reads_work_version]
      within_bind_last [OF _ reads_simps(1)] within_step)
     (rule step_requeue, assumption, erule (1) loaded_event_for)

lemma approve_within: "within (approve_dead_letter_requeue t w a ex) s"
  by (intro within_step) (rule step_approve)

lemma claim_read_bound:
  assumes "claim_read t w s = (Inr (Some (g, n)), s')" and "keys_ok s" and "work_at s (t, w) = Some r"
  shows "n \<le> wi_max_attempts r"
proof -
  obtain q where q: "sql_one (\<lambda>r. is_work t w r \<and> wi_status r \<in> set [PUBLISHED, RETRY_WAIT]
        \<and> wi_cancel_requested_at r = None) (db_work_items s) = Some q" "wi_attempt_count q < wi_max_attempts q"
      "n = wi_attempt_count q + 1"
    using assms(1) by (auto simp: claim_read_def op_simps tenant_transaction_def split: option.splits if_splits)
  then have "q \<in> set (db_work_items s)" "work_key q = (t, w)" by (auto simp: is_work_key dest: sql_one_Some)
  moreover have "r \<in> set (db_work_items s)" "work_key r = (t, w)" using work_at_Some [OF assms(3)] by auto
  ultimately have "q = r" using distinct_key_eq [of work_key "db_work_items s" q r] assms(2) by (simp add: keys_ok_def)
  with q show ?thesis by simp
qed

lemma reads_claim_read [intro, simp]: "reads (claim_read t w)"
  by (simp add: claim_read_def)

lemma claim_attempt_within:
  assumes "keys_ok s" and v: "validate_request_context t r = Inr ()"
    and c: "claim_read t (rq_work_id r) s = (Inr (Some (g, n)), s)"
  shows "within (claim_attempt clk t r owner now ex limit tok eid g n) s"
  unfolding claim_attempt_def Let_def
proof (intro within_lift within_bind_read [OF reads_work_version] within_catch within_bind_last within_step)
  fix l e version x s'
  assume l: "init_WorkLease
          \<lparr>ls_work_id = rq_work_id r, ls_tenant_id = rq_tenant_id r, ls_token = tok,
           ls_generation = g, ls_owner = owner, ls_attempt = n, ls_acquired_at = now,
           ls_heartbeat_at = now, ls_expires_at = ex\<rparr> = Inr l"
    and e: "transition_event WORK_CLAIMED now [] (Some l) r eid None = Inr e"
    and cc: "claim_commit clk t l (dt_instant ex - dt_instant now) limit e version s = (x, s')"
  have t: "rq_tenant_id r = t" using v by (simp add: validate_request_context_def)
  have ls: "ls_tenant_id l = t" "ls_work_id l = rq_work_id r" "ls_attempt l = n" "lease_ok l"
    using l t by (auto simp: init_WorkLease_Inr)
  show "work_step s s'"
    by (rule step_claim [OF cc leased_transition_event_for [OF e] ls(4)])
       (use claim_read_bound [OF c assms(1)] ls in auto)
qed auto

lemma claim_within:
  assumes "keys_ok s"
  shows "within (claim clk t d owner now ex limit tok eid) s"
  unfolding claim_def Let_def
  by (intro within_require within_lift within_bind_read [OF reads_verify_delivery] within_if
      within_bind_read [OF reads_claim_read])
     (auto intro: claim_attempt_within [OF assms] split: option.splits)

lemma reads_option [intro]: "reads n \<Longrightarrow> (\<And>a. reads (k a)) \<Longrightarrow> reads (case x of None \<Rightarrow> n | Some a \<Rightarrow> k a)"
  by (cases x) auto

lemma fail_within:
  assumes "started l s"
  shows "within (fail clk t d l at fc code ra eid1 eid2 mid) s"
  unfolding fail_def Let_def
proof (intro within_require within_lift within_bind_read [OF reads_work_version])
  fix r e1 e2
  assume e1: "transition_event WORK_FAILED at [(''failure_class'', JStr (FailureClass_value fc)), (''error_code'', JStr code)]
       (Some l) r eid1 None = Inr e1"
    and e2: "transition_event (if fail_terminal fc ra l r then WORK_DEAD_LETTERED else WORK_RETRY_SCHEDULED) at
       (if fail_terminal fc ra l r then [(''reason_code'', JStr code)]
        else [(''retry_at'', JStr (case ra of None \<Rightarrow> [] | Some ra \<Rightarrow> isoformat ra))])
       (Some l) r eid2 (Some (event_id e1)) = Inr e2"
  have f1: "event_for e1 (ls_tenant_id l) (ls_work_id l) WORK_FAILED" by (rule leased_transition_event_for [OF e1])
  note f2 = leased_transition_event_for [OF e2]
  have commit: "within (fail_commit clk t l at code ra (fail_terminal fc ra l r) [e1, e2] v ob) s" for v ob
  proof (cases "fail_terminal fc ra l r")
    case True
    with f2 have "event_for e2 (ls_tenant_id l) (ls_work_id l) WORK_DEAD_LETTERED" by simp
    with True f1 assms show ?thesis by (intro within_step) (auto intro: step_dead_letter)
  next
    case False
    then obtain a where a: "ra = Some a" by (auto simp: fail_terminal_def)
    from False f2 have "event_for e2 (ls_tenant_id l) (ls_work_id l) WORK_RETRY_SCHEDULED" by simp
    with False f1 a show ?thesis by (intro within_step) (auto intro: step_retry)
  qed
  show "within (op_bind (case (fail_terminal fc ra l r, ra) of
         (False, Some ra) \<Rightarrow>
           op_bind (op_lift (init_OutboxMessage
             \<lparr>om_message_id = mid, om_destination = ''aegis.work'', om_payload = request_payload r,
              om_headers = [(''tenant_id'', JStr (rq_tenant_id r))], om_available_at = ra,
              om_max_attempts = rq_max_attempts r, om_event_id = Some (event_id e2)\<rparr>)) (\<lambda>m.
           op_return [m])
       | _ \<Rightarrow> op_return []) (\<lambda>ob.
     op_bind (work_version t (rq_work_id r)) (\<lambda>version.
     op_bind (fail_commit clk t l at code ra (fail_terminal fc ra l r) [e1, e2] version ob) (\<lambda>_.
     op_return (fail_terminal fc ra l r))))) s"
    by (intro within_bind_read [OF reads_work_version] within_bind_last [OF commit reads_simps(1)] within_bind_read)
       (auto split: bool.splits option.splits)
qed

lemma within_or_skip: "within m s \<Longrightarrow> within (or_skip m) s"
  unfolding or_skip_def by (intro within_catch within_bind_last) auto

lemma redrive_one_within: "within (redrive_one clk t now row eid) s"
proof (cases row)
  case (Pair w mid)
  show ?thesis
    unfolding redrive_one_def Pair prod.case
    by (intro within_bind_read [OF reads_load_request] within_lift within_bind_read [OF reads_work_version]
        within_or_skip within_step) (rule step_redrive, assumption, erule (1) loaded_event_for)
qed

lemma expire_one_within: "within (expire_one clk t now row eid1 eid2) s"
proof -
  obtain q w where row: "row = (q, w)" by fastforce
  let ?c = "wi_cancel_requested_at w \<noteq> None" and ?x = "wi_max_attempts w \<le> wi_attempt_count w"
  have "within (or_skip (expire_commit clk t (dt_instant now) l ?c ?x (wi_cancel_requested_at w) [e1, e2] v)) s"
    if "transition_event WORK_LEASE_EXPIRED now ds1 (Some l) r eid1 c1 = Inr e1"
      and "transition_event (expire_outcome ?c ?x) now ds2 (Some l) r eid2 c2 = Inr e2"
    for l r e1 e2 v ds1 ds2 c1 c2
    using that leased_transition_event_for
    by (intro within_or_skip within_step) (erule step_expire, auto)
  then show ?thesis
    unfolding expire_one_def Let_def row prod.case
    by (intro within_lift within_bind_read [OF reads_load_request] within_bind_read [OF reads_work_version])
qed

lemma within_reachable: "within m s \<Longrightarrow> m s = (x, s') \<Longrightarrow> reachable s s'"
  by (auto simp: within_def reachable_def)

lemma reachable_trans: "reachable s s1 \<Longrightarrow> reachable s1 s2 \<Longrightarrow> reachable s s2"
  by (simp add: reachable_def)

lemma reachable_bind:
  assumes "op_bind m k s = (x, s')" and "\<And>y s1. m s = (y, s1) \<Longrightarrow> reachable s s1"
    and "\<And>a s1 y s2. k a s1 = (y, s2) \<Longrightarrow> reachable s1 s2"
  shows "reachable s s'"
  using assms unfolding op_bind_def
  by (auto split: prod.splits sum.splits intro: reachable_trans)

lemma reads_reachable: "reads m \<Longrightarrow> m s = (x, s') \<Longrightarrow> reachable s s'"
  by (auto simp: reads_def reachable_def)

lemma redrive_rows_reachable: "redrive_rows clk t now fresh k rows s = (x, s') \<Longrightarrow> reachable s s'"
proof (induction rows arbitrary: k s x s')
  case (Cons row rows)
  show ?case
    using Cons.prems unfolding redrive_rows.simps
    by (elim reachable_bind) (erule within_reachable [OF redrive_one_within], erule Cons.IH, erule reads_reachable [OF reads_simps(1)])
qed (simp add: op_simps reachable_def)

lemma expire_rows_reachable: "expire_rows clk t now fresh k rows s = (x, s') \<Longrightarrow> reachable s s'"
proof (induction rows arbitrary: k s x s')
  case (Cons row rows)
  show ?case
    using Cons.prems unfolding expire_rows.simps
    by (elim reachable_bind) (erule within_reachable [OF expire_one_within], erule Cons.IH, erule reads_reachable [OF reads_simps(1)])
qed (simp add: op_simps reachable_def)

lemma reconcile_reachable: "reconcile_expired clk t now limit fresh s = (x, s') \<Longrightarrow> reachable s s'"
  unfolding reconcile_expired_def
  by (erule reachable_bind, erule reads_reachable [OF reads_simps(5)], erule reachable_bind,
      erule reads_reachable [OF reads_simps(4)], erule reachable_bind, erule reads_reachable [OF reads_simps(4)],
      erule reachable_bind, erule redrive_rows_reachable, erule reachable_bind, erule expire_rows_reachable,
      erule reads_reachable [OF reads_simps(1)])

end
