(* ===== verification/Work_Scenario.thy ===== *)
theory Work_Scenario
  imports Work_System
begin

text \<open>
  A concrete run of the work system: one item of tenant \<^verbatim>\<open>acme\<close> is registered, published, claimed,
  released by its worker and claimed again. The states of the run serve as the concrete inputs at
  which the theorems about runs are applied.
\<close>

definition sample_request :: WorkRequest where
  "sample_request = \<lparr>rq_work_id = 5, rq_tenant_id = ''acme'', rq_work_kind = ''agent.run'',
     rq_idempotency_key = ''k1'', rq_correlation_id = 6, rq_requested_at = dt_of_instant 0, rq_payload = [],
     rq_causation_id = None, rq_max_attempts = 3, rq_timeout_seconds = 60, rq_schema_version = 1\<rparr>"

definition sample_worker :: "uuid \<Rightarrow> int \<Rightarrow> int \<Rightarrow> WorkLease" where
  "sample_worker tok gen n = \<lparr>ls_work_id = 5, ls_tenant_id = ''acme'', ls_token = tok, ls_generation = gen,
     ls_owner = ''worker-1'', ls_attempt = n, ls_acquired_at = dt_of_instant 0, ls_heartbeat_at = dt_of_instant 0,
     ls_expires_at = dt_of_instant 9\<rparr>"

definition work_event :: "uuid \<Rightarrow> DomainEventType \<Rightarrow> WorkLease option \<Rightarrow> EventEnvelope" where
  "work_event i ty lo = \<lparr>event_id = i, ev_tenant_id = ''acme'', aggregate_id = uuid_str 5,
     event_type = DomainEventType_value ty, schema_version = 1, occurred_at = dt_of_instant 0,
     payload = (case lo of None \<Rightarrow> [] | Some l \<Rightarrow>
       [(''lease_token'', JStr (uuid_str (ls_token l))), (''lease_generation'', JInt (ls_generation l))]),
     correlation_id = None, causation_id = None, aggregate_sequence = 0, global_position = None,
     recorded_at = None, actor = None, identity_reference = None, policy_reference = None,
     audit_reference = None, idempotency_key = None, trace_context = None,
     previous_aggregate_sequence = None, metadata = []\<rparr>"

definition sample_message :: OutboxMessage where
  "sample_message = \<lparr>om_message_id = 4, om_destination = ''aegis.work'', om_payload = [], om_headers = [],
      om_available_at = dt_of_instant 0, om_max_attempts = 3, om_event_id = Some 10\<rparr>"

definition registered_op :: "(db, int) op" where
  "registered_op = register_commit 0 ''acme'' sample_request (work_event 10 WORK_REQUESTED None) sample_message"

definition published_op :: "(db, AppendResult) op" where
  "published_op = publish_commit 1 ''acme'' sample_request 4 (work_event 11 WORK_PUBLISHED None) 1"

definition claimed_op :: "(db, int) op" where
  "claimed_op = claim_commit 2 ''acme'' (sample_worker 20 1 1) 5000000 10
     (work_event 12 WORK_CLAIMED (Some (sample_worker 20 1 1))) 2"

definition released_op :: "(db, int) op" where
  "released_op = fenced_commit 3 ''acme'' (sample_worker 20 1 1) (dt_of_instant 3)
     (work_event 13 WORK_RETRY_SCHEDULED (Some (sample_worker 20 1 1))) 3
     (release_in_transaction (sample_worker 20 1 1) 3 ''shutdown'' 3 False)"

definition reclaimed_op :: "(db, int) op" where
  "reclaimed_op = claim_commit 4 ''acme'' (sample_worker 21 2 2) 5000000 10
     (work_event 14 WORK_CLAIMED (Some (sample_worker 21 2 2))) 4"

text \<open>The states of the run, written out.\<close>

definition sample_head :: "int \<Rightarrow> head_row" where
  "sample_head v = \<lparr>hd_tenant_id = ''acme'', hd_aggregate_id = uuid_str 5, hd_current_version = v\<rparr>"

definition sample_history :: "event_row list" where
  "sample_history =
    [event_insert_values (work_event 10 WORK_REQUESTED None) 1 1 0,
     event_insert_values (work_event 11 WORK_PUBLISHED None) 2 2 1,
     event_insert_values (work_event 12 WORK_CLAIMED (Some (sample_worker 20 1 1))) 3 3 2,
     event_insert_values (work_event 13 WORK_RETRY_SCHEDULED (Some (sample_worker 20 1 1))) 4 4 3,
     event_insert_values (work_event 14 WORK_CLAIMED (Some (sample_worker 21 2 2))) 5 5 4]"

definition sample_receipt :: inbox_row where
  "sample_receipt = \<lparr>ib_tenant_id = ''acme'', ib_source = ''redis-stream:aegis:work:v1'', ib_message_id = uuid_str 4,
     ib_received_at = 1, ib_processed_at = Some 1, ib_aggregate_version = Some 2\<rparr>"

definition scenario_db :: "nat \<Rightarrow> inbox_row list \<Rightarrow> work_row \<Rightarrow> lease_row list \<Rightarrow> db" where
  "scenario_db v inbox item leases =
     \<lparr>db_tenants = [''acme''], db_commit_locks = [''acme''], db_heads = [sample_head (int v)],
      db_events = take v sample_history, db_next_position = int v + 1, db_inbox = inbox,
      db_outbox = [new_outbox_row ''acme'' sample_message], db_work_items = [item], db_work_leases = leases,
      db_work_dead_letters = [], db_work_requeue_approvals = []\<rparr>"

definition sample_item :: "WorkStatus \<Rightarrow> int \<Rightarrow> instant \<Rightarrow> work_row" where
  "sample_item st n at = (new_work_row sample_request 10)\<lparr>wi_status := st, wi_attempt_count := n, wi_available_at := at\<rparr>"

definition registered_db :: db where
  "registered_db = scenario_db 1 [] (sample_item REQUESTED 0 0) []"

definition published_db :: db where
  "published_db = scenario_db 2 [sample_receipt] (sample_item PUBLISHED 0 0) []"

definition claimed_db :: db where
  "claimed_db = scenario_db 3 [sample_receipt] (sample_item CLAIMED 1 0)
     [new_lease_row (sample_worker 20 1 1) 2 5000002]"

definition released_db :: db where
  "released_db = scenario_db 4 [sample_receipt] (sample_item RETRY_WAIT 1 3)
     [(new_lease_row (sample_worker 20 1 1) 2 5000002)\<lparr>wl_released_at := Some 3,
       wl_release_reason := Some ''shutdown''\<rparr>]"

definition reclaimed_db :: db where
  "reclaimed_db = scenario_db 5 [sample_receipt] (sample_item CLAIMED 2 3)
     [new_lease_row (sample_worker 21 2 2) 4 5000004]"

text \<open>Evaluation of the transactions by simplification, with identifiers kept symbolic.\<close>

lemmas run_defs = op_eval Let_def tenant_transaction_def transaction_def append_atomic_def append_fenced_def
  append_from_inbox_def insert_inbox_def is_inbox_def append_in_transaction_def insert_commit_lock_def insert_head_def
  insert_event_def insert_outbox_def validate_append_def require_def res_bind_def event_row_valid_def is_head_def
  outbox_insert_valid_def int4_max_def fence_matches_def

lemmas mutation_defs = insert_work_def work_row_valid_def mark_projection_def update_work_def update_lease_def
  claim_projection_def upsert_lease_def lease_row_valid_def claimable_def active_work_def is_work_def is_lease_def
  release_in_transaction_def release_lease_def lease_held_def leased_work_def

lemmas table_defs = scenario_db_def sample_history_def sample_head_def sample_db_def event_insert_values_def
  work_event_def new_outbox_row_def sample_message_def sample_item_def new_work_row_def sample_request_def
  sample_receipt_def sample_worker_def new_lease_row_def

lemma registered_run: "registered_op sample_db = (Inr 1, registered_db)"
  by (simp add: registered_op_def register_commit_def registered_db_def run_defs mutation_defs table_defs)

lemma published_run:
  "published_op registered_db = (Inr \<lparr>aggregate_version = 2, duplicate = False\<rparr>, published_db)"
  by (simp add: published_op_def publish_commit_def registered_db_def published_db_def run_defs mutation_defs table_defs)

lemma claimed_run: "claimed_op published_db = (Inr 3, claimed_db)"
  by (simp add: claimed_op_def claim_commit_def published_db_def claimed_db_def run_defs mutation_defs table_defs)

lemma released_run: "released_op claimed_db = (Inr 4, released_db)"
  by (simp add: released_op_def fenced_commit_def claimed_db_def released_db_def run_defs mutation_defs table_defs)

lemma reclaimed_run: "reclaimed_op released_db = (Inr 5, reclaimed_db)"
  by (simp add: reclaimed_op_def claim_commit_def released_db_def reclaimed_db_def run_defs mutation_defs table_defs)

lemma sample_work_inv: "work_inv sample_db"
  by (simp add: work_inv_def work_ok_def work_at_def lease_at_def sample_db_def ledger_inv_def)

lemma work_event_for [simp]: "event_for (work_event i ty lo) ''acme'' 5 ty"
  by (simp add: event_for_def work_event_def)

lemma sample_request_simps [simp]: "rq_tenant_id sample_request = ''acme''" "rq_work_id sample_request = 5"
  by (simp_all add: sample_request_def)

lemma sample_worker_simps [simp]:
  "ls_tenant_id (sample_worker tok gen n) = ''acme''" "ls_work_id (sample_worker tok gen n) = 5"
  "ls_token (sample_worker tok gen n) = tok" "ls_generation (sample_worker tok gen n) = gen"
  "ls_attempt (sample_worker tok gen n) = n"
  "1 \<le> gen \<Longrightarrow> 1 \<le> n \<Longrightarrow> lease_ok (sample_worker tok gen n)"
  by (simp_all add: sample_worker_def lease_ok_def)

lemmas scenario_defs = registered_db_def published_db_def claimed_db_def released_db_def reclaimed_db_def
  scenario_db_def sample_item_def new_work_row_def new_lease_row_def sample_request_def sample_worker_def

lemma scenario_rows:
  "work_at published_db (''acme'', 5) = Some (sample_item PUBLISHED 0 0)"
  "work_at released_db (''acme'', 5) = Some (sample_item RETRY_WAIT 1 3)"
  "lease_at reclaimed_db (''acme'', 5) = Some (new_lease_row (sample_worker 21 2 2) 4 5000004)"
  by (simp_all add: work_at_def lease_at_def work_key_def lease_key_def scenario_defs)

lemma scenario_steps:
  "work_step sample_db registered_db" "work_step registered_db published_db" "work_step published_db claimed_db"
  "work_step claimed_db released_db" "work_step released_db reclaimed_db"
proof -
  show "work_step sample_db registered_db"
    by (rule step_register [OF registered_run [unfolded registered_op_def]]) simp
  show "work_step registered_db published_db"
    by (rule step_publish [OF published_run [unfolded published_op_def]]) simp
  show "work_step published_db claimed_db"
    by (rule step_claim [OF claimed_run [unfolded claimed_op_def]])
       (simp_all add: scenario_rows sample_item_def new_work_row_def sample_request_def)
  show "work_step claimed_db released_db"
    by (rule step_release [OF released_run [unfolded released_op_def]]) simp
  show "work_step released_db reclaimed_db"
    by (rule step_claim [OF reclaimed_run [unfolded reclaimed_op_def]])
       (simp_all add: scenario_rows sample_item_def new_work_row_def sample_request_def)
qed

lemma scenario_reachable:
  "reachable sample_db published_db" "reachable sample_db claimed_db" "reachable sample_db released_db"
  "reachable sample_db reclaimed_db" "reachable released_db reclaimed_db"
  unfolding reachable_def using scenario_steps by (auto intro: rtranclp.rtrancl_into_rtrancl)

end
