(* ===== verification/Lease_Fencing.thy ===== *)
theory Lease_Fencing
  imports Work_Scenario
begin

text \<open>
  Leases over runs of the work system. The lease of an item only ever moves forward: its generation never
  decreases, a generation has one token, and a released generation stays released. So a worker
  whose lease has been released or superseded is fenced out for good, and a claim keeps the
  tenant's quota.
\<close>

section \<open>Leases move forward\<close>

definition lease_le :: "lease_row \<Rightarrow> lease_row \<Rightarrow> bool" where
  "lease_le q q' = (wl_generation q < wl_generation q'
     \<or> (wl_generation q = wl_generation q' \<and> wl_lease_token q = wl_lease_token q'
        \<and> (wl_released_at q \<noteq> None \<longrightarrow> wl_released_at q' \<noteq> None)))"

lemma lease_le_refl [simp]: "lease_le q q"
  by (simp add: lease_le_def)

lemma lease_le_trans: "lease_le p q \<Longrightarrow> lease_le q r \<Longrightarrow> lease_le p r"
  by (auto simp: lease_le_def)

definition leases_evolve :: "'z db_scheme \<Rightarrow> 'z db_scheme \<Rightarrow> bool" where
  "leases_evolve s s' = (\<forall>k q. lease_at s k = Some q \<longrightarrow> (\<exists>q'. lease_at s' k = Some q' \<and> lease_le q q'))"

lemma leases_evolve_refl [simp]: "leases_evolve s s"
  by (auto simp: leases_evolve_def)

lemma leases_evolve_trans: "leases_evolve s s1 \<Longrightarrow> leases_evolve s1 s2 \<Longrightarrow> leases_evolve s s2"
  unfolding leases_evolve_def using lease_le_trans by blast

lemma leases_evolve_same: "db_work_leases s' = db_work_leases s \<Longrightarrow> leases_evolve s s'"
  by (auto simp: leases_evolve_def lease_at_def)

text \<open>Operations under which every lease moves forward, closed under the operation monad.\<close>

definition lease_mono :: "('z db_scheme, 'a) op \<Rightarrow> bool" where
  "lease_mono m = (\<forall>s x s'. m s = (x, s') \<longrightarrow> leases_evolve s s')"

lemma lease_mono_reads [intro]: "reads m \<Longrightarrow> lease_mono m"
  unfolding lease_mono_def reads_def by (metis leases_evolve_refl)

lemma lease_mono_simps [intro, simp]:
  "lease_mono (op_return a)" "lease_mono (op_raise e)" "lease_mono (op_lift q)" "lease_mono (op_gets f)"
  "lease_mono (op_require b e)"
  by auto

lemma lease_mono_bind [intro]:
  assumes "lease_mono m" and "\<And>a. lease_mono (k a)"
  shows "lease_mono (op_bind m k)"
  unfolding lease_mono_def
proof (intro allI impI)
  fix s x s'
  assume b: "op_bind m k s = (x, s')"
  obtain y s1 where m: "m s = (y, s1)" by fastforce
  then have "leases_evolve s s1" using assms(1) by (auto simp: lease_mono_def)
  with b m assms(2) show "leases_evolve s s'"
    by (cases y) (auto simp: lease_mono_def intro: leases_evolve_trans)
qed

lemma lease_mono_modify: "(\<And>s. db_work_leases (f s) = db_work_leases s) \<Longrightarrow> lease_mono (op_modify f)"
  by (auto simp: lease_mono_def op_simps leases_evolve_same)

lemma lease_mono_if [intro]: "lease_mono m \<Longrightarrow> lease_mono n \<Longrightarrow> lease_mono (if b then m else n)"
  by simp

lemma lease_mono_option [intro]:
  "lease_mono m \<Longrightarrow> (\<And>a. lease_mono (n a)) \<Longrightarrow> lease_mono (case x of None \<Rightarrow> m | Some a \<Rightarrow> n a)"
  by (cases x) auto

lemma lease_mono_transaction [intro]:
  assumes "lease_mono m"
  shows "lease_mono (tenant_transaction m)"
  unfolding lease_mono_def
proof (intro allI impI)
  fix s x s'
  assume "tenant_transaction m s = (x, s')"
  then have "db_work_leases s' = db_work_leases s \<or> m s = (x, s')"
    by (auto simp: tenant_transaction_def transaction_def db_rollback_def split: prod.splits sum.splits)
  with assms show "leases_evolve s s'" by (auto simp: lease_mono_def leases_evolve_same)
qed

lemma lease_mono_iter [intro]: "(\<And>x. lease_mono (f x)) \<Longrightarrow> lease_mono (op_iter f xs)"
  by (induction xs) auto

subsection \<open>The statements on leases\<close>

lemma sql_one_update_key:
  assumes "\<And>q. P q \<Longrightarrow> key (f q) = key q"
  shows "sql_one (\<lambda>q. key q = k) (sql_update P f rows) =
    map_option (\<lambda>q. if P q then f q else q) (sql_one (\<lambda>q. key q = k) rows)"
  using assms by (induction rows) auto

lemma update_lease_mono:
  assumes "\<And>q. P q \<Longrightarrow> lease_key (f q) = lease_key q \<and> lease_le q (f q)"
  shows "lease_mono (update_lease P f e)"
proof -
  have "lease_mono (op_modify (\<lambda>s. s\<lparr>db_work_leases := sql_update P f (db_work_leases s)\<rparr>))"
    using assms by (auto simp: lease_mono_def op_simps leases_evolve_def lease_at_def sql_one_update_key)
  then show ?thesis unfolding update_lease_def by (intro lease_mono_bind lease_mono_simps)
qed

lemma update_work_mono [intro]: "lease_mono (update_work P f e)"
  unfolding update_work_def by (intro lease_mono_bind lease_mono_modify lease_mono_simps) simp

lemma upsert_lease_mono [intro]: "lease_mono (upsert_lease l)"
  unfolding lease_mono_def
proof (intro allI impI)
  fix s x s'
  assume u: "upsert_lease l s = (x, s')"
  let ?mine = "is_lease (wl_tenant_id l) (wl_work_id l)"
  show "leases_evolve s s'"
  proof (cases "sql_one ?mine (db_work_leases s)")
    case None
    then have "s' = s \<or> s' = s\<lparr>db_work_leases := db_work_leases s @ [l]\<rparr>"
      using u by (auto simp: upsert_lease_def op_eval split: if_splits)
    then show ?thesis
      by (auto simp: leases_evolve_def lease_at_def sql_one_append split: option.splits)
  next
    case (Some q)
    then have "s' = s \<or> (wl_generation q = wl_generation l - 1
        \<and> s' = s\<lparr>db_work_leases := sql_update ?mine (\<lambda>_. l) (db_work_leases s)\<rparr>)"
      using u by (auto simp: upsert_lease_def op_eval split: if_splits)
    then show ?thesis
    proof
      assume a: "wl_generation q = wl_generation l - 1
        \<and> s' = s\<lparr>db_work_leases := sql_update ?mine (\<lambda>_. l) (db_work_leases s)\<rparr>"
      have at: "lease_at s' k = map_option (\<lambda>q. if ?mine q then l else q) (lease_at s k)" for k
        unfolding lease_at_def conjunct2 [OF a, THEN arg_cong, of db_work_leases]
        using sql_one_update_key [where P = ?mine and f = "\<lambda>_. l" and key = lease_key]
        by (simp add: is_lease_def lease_key_def)
      have "lease_le p l" if "lease_at s k = Some p" "?mine p" for k p
      proof -
        have k: "k = (wl_tenant_id l, wl_work_id l)"
          using that by (auto simp: lease_at_def is_lease_key dest: sql_one_Some)
        have "p = q" using that(1) Some by (simp add: lease_at_def k is_lease_key [abs_def])
        with a show ?thesis by (simp add: lease_le_def)
      qed
      then show ?thesis by (auto simp: leases_evolve_def at)
    qed simp
  qed
qed

lemma mutations_mono [intro]:
  "lease_mono (mark_projection r)" "lease_mono (insert_work r e)" "lease_mono (mark_started r l)"
  "lease_mono (cancel_projection r at queued st)"
  unfolding mark_projection_def insert_work_def mark_started_def cancel_projection_def
  by (intro update_work_mono lease_mono_bind lease_mono_simps lease_mono_modify; simp)+

lemma release_mono [intro]: "lease_mono (release_lease l at why)" "lease_mono (release_expired_lease now l at why)"
  "lease_mono (renew_lease now l d)"
  unfolding release_lease_def release_expired_lease_def renew_lease_def
  by (rule update_lease_mono; simp add: lease_key_def lease_le_def lease_held_def)+

lemma insert_commit_lock_mono [intro]: "lease_mono (insert_commit_lock t)"
  unfolding insert_commit_lock_def by (intro lease_mono_bind lease_mono_if lease_mono_simps lease_mono_modify) simp

lemma dead_letter_mono [intro]: "lease_mono (upsert_dead_letter l at why)"
  unfolding upsert_dead_letter_def Let_def by (intro lease_mono_bind lease_mono_simps lease_mono_modify) simp

lemmas mutation_rules = lease_mono_bind lease_mono_simps lease_mono_if update_work_mono release_mono mutations_mono
  upsert_lease_mono insert_commit_lock_mono dead_letter_mono lease_mono_modify

lemma transitions_mono [intro]:
  "lease_mono (claim_projection now l d lim)"
  "lease_mono (complete_in_transaction l at st why)"
  "lease_mono (release_in_transaction l at why ra running)"
  "lease_mono (cancel_in_transaction l at)"
  "lease_mono (dead_letter_in_transaction l at why)"
  "lease_mono (dead_letter_expired_in_transaction now l at why)"
  "lease_mono (expire_projection clk now l cancelled exhausted ec)"
  "lease_mono (redrive_projection clk t mid w)"
  "lease_mono (requeue_projection clk t w at2 a actr)"
  unfolding claim_projection_def complete_in_transaction_def release_in_transaction_def cancel_in_transaction_def
    dead_letter_in_transaction_def dead_letter_expired_in_transaction_def expire_projection_def
    redrive_projection_def requeue_projection_def
  by (intro mutation_rules; simp)+

lemma append_in_transaction_mono [intro]: "lease_mono (append_in_transaction clk es v ob)"
proof -
  have e1: "lease_mono (insert_event clk e n)" for e n
    unfolding insert_event_def
    by (intro lease_mono_bind lease_mono_if lease_mono_option lease_mono_simps lease_mono_modify) simp_all
  have es: "lease_mono (insert_events clk n fs)" for n fs
    by (induction fs arbitrary: n) (auto intro!: lease_mono_bind e1)
  have o1: "lease_mono (insert_outbox t m)" for t m
    unfolding insert_outbox_def
    by (intro lease_mono_bind lease_mono_if lease_mono_option lease_mono_simps lease_mono_modify) simp_all
  have h: "lease_mono (insert_head t a)" for t a
    unfolding insert_head_def
    by (intro lease_mono_bind lease_mono_if lease_mono_option lease_mono_simps lease_mono_modify) simp_all
  show ?thesis
    unfolding append_in_transaction_def Let_def
    by (cases es) (auto intro!: lease_mono_bind lease_mono_option lease_mono_modify e1 es lease_mono_iter o1 h)
qed

lemma appends_mono:
  assumes "lease_mono mut"
  shows "lease_mono (append_atomic clk t es v mut ob)"
    and "lease_mono (append_fenced clk t es v w tok gen at ob (Some mut))"
    and "lease_mono (append_from_inbox clk t src mid es v ob (Some mut))"
    and "lease_mono (append_events clk t es v ob)"
  unfolding append_atomic_def append_fenced_def append_from_inbox_def append_events_def insert_inbox_def option.case
  by (intro lease_mono_bind lease_mono_if lease_mono_option lease_mono_simps lease_mono_transaction
      lease_mono_modify append_in_transaction_mono assms; simp)+

lemma lease_monoD: "lease_mono m \<Longrightarrow> m s = (x, s') \<Longrightarrow> leases_evolve s s'"
  by (auto simp: lease_mono_def)

lemma commits_mono:
  "lease_mono (register_commit clk t r e ob)"
  "lease_mono (publish_commit clk t r mid e v)"
  "lease_mono (claim_commit clk t l d lim e v)"
  "lease_mono mut \<Longrightarrow> lease_mono (fenced_commit clk t l at e v mut)"
  "lease_mono (fail_commit clk t l at code rao terminal es v obs)"
  "lease_mono (cancel_commit clk t r at queued st es v)"
  "lease_mono (redrive_commit clk t w mid e v)"
  "lease_mono (expire_commit clk t now l cancelled exhausted ec es v)"
  "lease_mono (requeue_commit clk t w at a actr e ob v)"
  unfolding register_commit_def publish_commit_def claim_commit_def fenced_commit_def fail_commit_def
    cancel_commit_def redrive_commit_def expire_commit_def requeue_commit_def
  by (auto intro!: appends_mono simp: split: bool.splits option.splits)

lemma outbox_mono:
  "lease_mono (claim_outbox clk t ow le now n dest)"
  "lease_mono (mark_outbox_published t mid ow le pub)"
  "lease_mono (mark_outbox_failed t mid ow le ra code)"
  "lease_mono (mark_outbox_dead_lettered t mid ow le code)"
  unfolding lease_mono_def
  by (fastforce intro: leases_evolve_same dest!: claim_outbox_effect mark_outbox_effect)+

lemma approve_mono: "lease_mono (approve_dead_letter_requeue t w a ex)"
  unfolding approve_dead_letter_requeue_def
  by (intro lease_mono_bind lease_mono_transaction lease_mono_simps lease_mono_modify) simp

lemmas step_mono_rules = commits_mono outbox_mono approve_mono appends_mono(4) [OF lease_mono_simps(1)]
  transitions_mono mutations_mono release_mono

lemma work_step_leases: "work_step s s' \<Longrightarrow> leases_evolve s s'"
  by (induction rule: work_step.induct) (rule lease_monoD [rotated], assumption, intro step_mono_rules)+

lemma reachable_leases: "reachable s s' \<Longrightarrow> leases_evolve s s'"
  unfolding reachable_def
  by (induction rule: rtranclp_induct) (auto intro: leases_evolve_trans work_step_leases)

section \<open>Fenced operations\<close>

text \<open>Operations that fail without an effect: what a fenced-out worker gets.\<close>

definition refused :: "('s, 'a) op \<Rightarrow> 's \<Rightarrow> bool" where
  "refused m s = (\<exists>e. m s = (Inl e, s))"

lemma refused_bind_read:
  "reads m \<Longrightarrow> (\<And>a. m s = (Inr a, s) \<Longrightarrow> refused (k a) s) \<Longrightarrow> refused (op_bind m k) s"
proof -
  assume r: "reads m" and k: "\<And>a. m s = (Inr a, s) \<Longrightarrow> refused (k a) s"
  obtain x s1 where m: "m s = (x, s1)" by fastforce
  with r have "s1 = s" by (auto simp: reads_def)
  with m k show ?thesis by (cases x) (auto simp: refused_def)
qed

lemma refused_bind: "refused m s \<Longrightarrow> refused (op_bind m k) s"
  by (auto simp: refused_def)

definition fenced_out :: "WorkLease \<Rightarrow> 'z db_scheme \<Rightarrow> bool" where
  "fenced_out l s = (\<exists>q. lease_at s (ls_tenant_id l, ls_work_id l) = Some q
     \<and> (ls_generation l < wl_generation q
        \<or> (wl_generation q = ls_generation l \<and> (wl_released_at q \<noteq> None \<or> wl_lease_token q \<noteq> ls_token l))))"

lemma fenced_out_stable: "fenced_out l s \<Longrightarrow> leases_evolve s s' \<Longrightarrow> fenced_out l s'"
  unfolding fenced_out_def leases_evolve_def lease_le_def by (fastforce simp del: split_paired_All)

lemma fenced_out_no_match:
  assumes "fenced_out l s" and "keys_ok s"
  shows "\<forall>q \<in> set (db_work_leases s). \<not> fence_matches now (ls_tenant_id l) (ls_work_id l) (ls_token l) (ls_generation l) q"
proof
  fix q
  assume q: "q \<in> set (db_work_leases s)"
  obtain p where p: "lease_at s (ls_tenant_id l, ls_work_id l) = Some p"
    and out: "ls_generation l < wl_generation p
        \<or> (wl_generation p = ls_generation l \<and> (wl_released_at p \<noteq> None \<or> wl_lease_token p \<noteq> ls_token l))"
    using assms(1) by (auto simp: fenced_out_def)
  have p': "p \<in> set (db_work_leases s)" "lease_key p = (ls_tenant_id l, ls_work_id l)"
    using p by (auto simp: lease_at_def dest: sql_one_Some)
  show "\<not> fence_matches now (ls_tenant_id l) (ls_work_id l) (ls_token l) (ls_generation l) q"
  proof
    assume f: "fence_matches now (ls_tenant_id l) (ls_work_id l) (ls_token l) (ls_generation l) q"
    then have "lease_key q = lease_key p" using p'(2) by (simp add: fence_matches_def lease_key_def)
    then have "q = p" using distinct_key_eq [of lease_key "db_work_leases s" q p] q p'(1) assms(2) by (simp add: keys_ok_def)
    with f out show False by (auto simp: fence_matches_def)
  qed
qed

lemma fenced_append_refused:
  assumes "fenced_out l s" and "keys_ok s"
  shows "refused (append_fenced clk (ls_tenant_id l) es v (ls_work_id l) (ls_token l) (ls_generation l) at ob mut) s"
proof -
  obtain x s' where r: "append_fenced clk (ls_tenant_id l) es v (ls_work_id l) (ls_token l) (ls_generation l) at ob mut s = (x, s')"
    by fastforce
  from append_fenced_refused [OF fenced_out_no_match [OF assms] r] r show ?thesis by (auto simp: refused_def)
qed

lemma fenced_transition_refused:
  assumes "fenced_out l s" and "keys_ok s"
  shows "refused (append_fenced_transition clk (ls_tenant_id l) r tr l eid mut) s"
  unfolding append_fenced_transition_def fenced_commit_def
  by (intro refused_bind_read [OF reads_work_version] refused_bind_read [OF reads_simps(3)] refused_bind
      fenced_append_refused assms)

lemma fenced_operations_refused:
  assumes "fenced_out l s" and "keys_ok s"
  shows "refused (start clk (ls_tenant_id l) d l at eid) s"
    and "refused (succeed clk (ls_tenant_id l) d l at ref eid) s"
    and "refused (cancel clk (ls_tenant_id l) d l at eid) s"
    and "refused (release clk (ls_tenant_id l) l at why ra eid) s"
  unfolding start_def succeed_def cancel_def release_def
  by (intro refused_bind_read [OF reads_simps(3)] refused_bind_read [OF reads_simps(5)]
      refused_bind_read [OF reads_load_request] fenced_transition_refused assms)+

lemma fenced_heartbeat_refused:
  assumes "fenced_out l s" and "keys_ok s"
  shows "refused (heartbeat clk (ls_tenant_id l) d l at ex eid) s"
  unfolding heartbeat_def Let_def
proof (intro refused_bind_read [OF reads_simps(3)] refused_bind_read [OF reads_simps(5)] refused_bind)
  fix renewed r tr
  assume "op_lift (init_WorkLease (l\<lparr>ls_heartbeat_at := at, ls_expires_at := ex\<rparr>)) s = (Inr renewed, s)"
  then have re: "renewed = l\<lparr>ls_heartbeat_at := at, ls_expires_at := ex\<rparr>"
    by (metis init_WorkLease_Inr op_lift_iff)
  then have "fenced_out renewed s" using assms(1) by (simp add: fenced_out_def)
  from fenced_transition_refused [OF this assms(2)] re
  show "refused (append_fenced_transition clk (ls_tenant_id l) r tr renewed eid
      (renew_lease clk l (dt_instant ex - dt_instant at))) s" by simp
qed

lemma fenced_fail_refused:
  assumes "fenced_out l s" and "keys_ok s"
  shows "refused (fail clk (ls_tenant_id l) d l at fc code ra eid1 eid2 mid) s"
proof -
  have tail: "refused (op_bind (work_version (ls_tenant_id l) w) (\<lambda>version.
      op_bind (fail_commit clk (ls_tenant_id l) l at code ra terminal es version ob) (\<lambda>_. op_return b))) s"
    for w terminal es ob b
    unfolding fail_commit_def
    by (rule refused_bind_read [OF reads_work_version], rule refused_bind, rule fenced_append_refused [OF assms])
  show ?thesis
    unfolding fail_def Let_def
    by (intro refused_bind_read [OF reads_simps(3)] refused_bind_read [OF reads_simps(5)],
        rule refused_bind_read [OF _ tail]) (auto split: bool.splits option.splits)
qed

text \<open>
  C3: a superseded worker is fenced out for ever. Once the lease of a worker has been released or
  replaced, in every state any run of the system can reach from there each of its operations
  raises and changes nothing.
\<close>

theorem superseded_worker_fenced_out:
  assumes "work_inv s" and "fenced_out l s" and "reachable s s'" and "t = ls_tenant_id l"
  shows "refused (start clk t d l at eid) s' \<and> refused (heartbeat clk t d l at ex eid) s'
    \<and> refused (succeed clk t d l at ref eid) s' \<and> refused (fail clk t d l at fc code ra eid eid2 mid) s'
    \<and> refused (cancel clk t d l at eid) s' \<and> refused (release clk t l at why ra' eid) s'"
proof -
  have out: "fenced_out l s'" using fenced_out_stable [OF assms(2)] reachable_leases [OF assms(3)] by blast
  have keys: "keys_ok s'" using reachable_inv [OF assms(3,1)] by (rule work_inv_keys)
  show ?thesis
    unfolding assms(4)
    by (intro conjI fenced_operations_refused fenced_heartbeat_refused fenced_fail_refused out keys)
qed

lemma scenario_fenced_out: "fenced_out (sample_worker 20 1 1) released_db"
  by (simp add: fenced_out_def lease_at_def lease_key_def released_db_def scenario_db_def new_lease_row_def)

theorem superseded_worker_fenced_out_witness:
  "\<forall>clk d at ref eid. refused (succeed clk ''acme'' d (sample_worker 20 1 1) at ref eid) reclaimed_db"
  using superseded_worker_fenced_out [OF reachable_inv [OF scenario_reachable(3) sample_work_inv]
      scenario_fenced_out scenario_reachable(5) sample_worker_simps(1) [symmetric]] by blast

end
