(* ===== verification/Work_Properties.thy ===== *)
theory Work_Properties
  imports Lease_Fencing
begin

text \<open>
  What the durable work queue promises: over every run from an empty database the work tables are a
  projection of the ledger, active items are exactly the leased ones, attempts stay within their bound; a claim
  respects the quota of its tenant; a dead-lettered item is requeued only with somebody else's unused approval;
  and deliveries are bound to the rows that announced them.
\<close>

section \<open>Runs from an empty database\<close>

definition initial_db :: "string list \<Rightarrow> db" where
  "initial_db tenants = \<lparr>db_tenants = tenants, db_commit_locks = [], db_heads = [], db_events = [],
     db_next_position = 1, db_inbox = [], db_outbox = [], db_work_items = [], db_work_leases = [],
     db_work_dead_letters = [], db_work_requeue_approvals = []\<rparr>"

lemma initial_db_inv: "work_inv (initial_db ts)"
  by (simp add: work_inv_def work_ok_def work_at_def lease_at_def initial_db_def ledger_inv_def)

lemma sample_db_initial: "sample_db = initial_db [''acme'']"
  by (simp add: sample_db_def initial_db_def)

lemma work_at_member: "keys_ok s \<Longrightarrow> r \<in> set (db_work_items s) \<Longrightarrow> work_at s (work_key r) = Some r"
  unfolding work_at_def keys_ok_def
  by (rule sql_one_eqI [where key = work_key and k = "work_key r"]) auto

lemma lease_at_member: "keys_ok s \<Longrightarrow> l \<in> set (db_work_leases s) \<Longrightarrow> lease_at s (lease_key l) = Some l"
  unfolding lease_at_def keys_ok_def
  by (rule sql_one_eqI [where key = lease_key and k = "lease_key l"]) auto

lemma work_inv_row:
  assumes "work_inv s" and "r \<in> set (db_work_items s)"
  shows "item_ok r (lease_at s (work_key r))"
    and "replay_status None (work_history s (work_key r)) = Inr (Some (wi_status r))"
  using work_inv_ok [OF assms(1), of "work_key r"] work_at_member [OF work_inv_keys [OF assms(1)] assms(2)]
  by (simp_all add: work_ok_def)



text \<open>
  C4: leases and statuses agree. In every reachable state an item is claimed or running exactly
  while it has an unreleased lease, and its attempts are between 0 and its maximum.
\<close>

theorem active_iff_leased:
  assumes "reachable (initial_db tenants) s" and "r \<in> set (db_work_items s)"
  shows "(wi_status r \<in> {CLAIMED, RUNNING}) =
      (\<exists>l \<in> set (db_work_leases s). wl_tenant_id l = wi_tenant_id r \<and> wl_work_id l = wi_work_id r
         \<and> wl_released_at l = None)
    \<and> 0 \<le> wi_attempt_count r \<and> wi_attempt_count r \<le> wi_max_attempts r"
proof -
  have inv: "work_inv s" by (rule reachable_inv [OF assms(1) initial_db_inv])
  have ok: "item_ok r (lease_at s (work_key r))" by (rule work_inv_row(1) [OF inv assms(2)])
  have "(\<exists>l \<in> set (db_work_leases s). lease_key l = work_key r \<and> wl_released_at l = None)
      = (\<exists>l. lease_at s (work_key r) = Some l \<and> wl_released_at l = None)"
  proof
    assume "\<exists>l \<in> set (db_work_leases s). lease_key l = work_key r \<and> wl_released_at l = None"
    then obtain l where l: "l \<in> set (db_work_leases s)" "lease_key l = work_key r" "wl_released_at l = None" by blast
    with lease_at_member [OF work_inv_keys [OF inv] l(1)]
    show "\<exists>l. lease_at s (work_key r) = Some l \<and> wl_released_at l = None" by simp
  next
    assume "\<exists>l. lease_at s (work_key r) = Some l \<and> wl_released_at l = None"
    then show "\<exists>l \<in> set (db_work_leases s). lease_key l = work_key r \<and> wl_released_at l = None"
      unfolding lease_at_def using sql_one_Some by fast
  qed
  with ok show ?thesis by (auto simp: item_ok_def lease_key_def work_key_def)
qed

theorem active_iff_leased_witness:
  "(CLAIMED \<in> {CLAIMED, RUNNING}) = (\<exists>l \<in> set (db_work_leases reclaimed_db). wl_tenant_id l = ''acme''
     \<and> wl_work_id l = 5 \<and> wl_released_at l = None)"
  using active_iff_leased [of "[''acme'']" reclaimed_db "sample_item CLAIMED 2 3"] scenario_reachable(4)
  by (simp add: sample_db_initial reclaimed_db_def scenario_db_def sample_item_def new_work_row_def)


lemma sample_started: "started (sample_worker 20 1 1) released_db"
  by (simp add: started_def work_at_def work_key_def released_db_def scenario_db_def sample_item_def new_work_row_def)


section \<open>Claims\<close>

lemma sql_count_update_le:
  "sql_count Q (sql_update P f rows) \<le> sql_count Q rows + sql_count P rows"
  by (induction rows) (auto simp: sql_count_def)

lemma claim_commit_Inr:
  assumes "work_inv s" and "claim_commit clk t l d limit e v s = (Inr n, s')"
  obtains r where "work_at s (ls_tenant_id l, ls_work_id l) = Some r" and "claimable clk l r"
    and "int (sql_count (active_work (ls_tenant_id l)) (db_work_items s)) < limit"
    and "work_at s' (ls_tenant_id l, ls_work_id l) = Some (r\<lparr>wi_status := CLAIMED, wi_attempt_count := ls_attempt l\<rparr>)"
    and "lease_at s' (ls_tenant_id l, ls_work_id l) = Some (new_lease_row l clk (clk + d))"
    and "\<forall>q. lease_at s (ls_tenant_id l, ls_work_id l) = Some q \<longrightarrow> ls_generation l = wl_generation q + 1"
    and "db_work_items s' = sql_update (claimable clk l)
           (\<lambda>w. w\<lparr>wi_status := CLAIMED, wi_attempt_count := ls_attempt l\<rparr>) (db_work_items s)"
    and "sql_count (claimable clk l) (db_work_items s) = 1"
proof -
  obtain s1 u where app: "append_in_transaction clk [e] v [] s = (Inr n, s1)"
    and cp: "claim_projection clk l d limit s1 = (Inr u, s')"
    using assms(2) by (auto simp: claim_commit_def append_atomic_Inr)
  note keep = append_keeps_work [OF app]
  have keys: "keys_ok s1" using keep work_inv_keys [OF assms(1)] by simp
  have one: "sql_count (claimable clk l) (db_work_items s1) = 1"
    using cp by (auto simp: claim_projection_def op_simps update_work_Inr insert_commit_lock_def split: if_splits)
  obtain r where r: "work_at s1 (ls_tenant_id l, ls_work_id l) = Some r" "claimable clk l r"
    "int (sql_count (active_work (ls_tenant_id l)) (db_work_items s1)) < limit"
    "moved s1 s' (ls_tenant_id l, ls_work_id l) (r\<lparr>wi_status := CLAIMED, wi_attempt_count := ls_attempt l\<rparr>)
       (Some (new_lease_row l clk (clk + d)))"
    "\<forall>q. lease_at s1 (ls_tenant_id l, ls_work_id l) = Some q \<longrightarrow> ls_generation l = wl_generation q + 1"
    "db_work_items s' = sql_update (claimable clk l)
       (\<lambda>w. w\<lparr>wi_status := CLAIMED, wi_attempt_count := ls_attempt l\<rparr>) (db_work_items s1)"
    by (rule claim_projection_Inr [OF cp keys])
  show thesis
    by (rule that [of r]) (use r keep one moved_at [OF r(4)] in simp_all)
qed



section \<open>Requeueing dead letters\<close>

lemma requeue_projection_Inr:
  assumes "requeue_projection clk t w at a actr s = (Inr u, s')"
  shows "(\<exists>p \<in> set (db_work_requeue_approvals s). approval_usable clk t w a actr p)
    \<and> db_work_requeue_approvals s' = sql_update (\<lambda>p. ap_tenant_id p = t \<and> ap_approval_id p = ra_approval_id a)
        (\<lambda>p. p\<lparr>ap_consumed_at := Some clk, ap_consumed_by := Some actr\<rparr>) (db_work_requeue_approvals s)"
  using assms by (auto simp: requeue_projection_def op_simps update_work_Inr dest: sql_one_Some)

text \<open>
  C24: a requeue needs an unused approval of somebody else. When a requeue transaction commits, an
  unexpired approval of this item by another actor was waiting, it is consumed, and with it no second
  requeue can commit in the resulting state.
\<close>

theorem requeue_consumes_foreign_approval:
  assumes "requeue_commit clk t w at a actr e ob v s = (Inr n, s')"
  shows "(\<exists>p \<in> set (db_work_requeue_approvals s). ap_work_id p = w \<and> ap_approved_by p \<noteq> actr
        \<and> ap_consumed_at p = None \<and> clk < ap_expires_at p)
    \<and> fst (requeue_commit clk' t w' at' a actr' e' ob' v' s') \<noteq> Inr n'"
proof -
  obtain s1 u where s1: "append_in_transaction clk [e] v [ob] s = (Inr n, s1)"
    and rq: "requeue_projection clk t w (dt_instant at) a actr s1 = (Inr u, s')"
    using assms by (auto simp: requeue_commit_def append_atomic_Inr)
  have same: "db_work_requeue_approvals s1 = db_work_requeue_approvals s"
    using append_in_transaction_Inr(4) [OF s1] by simp
  note r = requeue_projection_Inr [OF rq, unfolded same]
  have used: "\<not> approval_usable clk' t w' a actr' p" if "p \<in> set (db_work_requeue_approvals s')" for p
    using that unfolding conjunct2 [OF r] in_sql_update_iff
  proof (elim disjE bexE conjE)
    fix q
    assume "p = q\<lparr>ap_consumed_at := Some clk, ap_consumed_by := Some actr\<rparr>"
    then show ?thesis by (simp add: approval_usable_def)
  qed (auto simp: approval_usable_def)
  have "requeue_commit clk' t w' at' a actr' e' ob' v' s' \<noteq> (Inr n', s'')" for s''
  proof
    assume "requeue_commit clk' t w' at' a actr' e' ob' v' s' = (Inr n', s'')"
    then obtain s2 u' where s2: "append_in_transaction clk' [e'] v' [ob'] s' = (Inr n', s2)"
      and rq': "requeue_projection clk' t w' (dt_instant at') a actr' s2 = (Inr u', s'')"
      by (auto simp: requeue_commit_def append_atomic_Inr)
    have "db_work_requeue_approvals s2 = db_work_requeue_approvals s'"
      using append_in_transaction_Inr(4) [OF s2] by simp
    with requeue_projection_Inr [OF rq'] used show False by auto
  qed
  then have "fst (requeue_commit clk' t w' at' a actr' e' ob' v' s') \<noteq> Inr n'"
    by (metis prod.collapse)
  with r show ?thesis by (auto simp: approval_usable_def)
qed

definition sample_approval :: RequeueApproval where
  "sample_approval = \<lparr>ra_approval_id = 30, ra_approved_by = ''alice'', ra_approved_at = dt_of_instant 5, ra_scope = ''dlq:requeue''\<rparr>"

definition dead_letter_db :: db where
  "dead_letter_db = (scenario_db 3 [] (sample_item DEAD_LETTER 3 0) [])\<lparr>db_work_requeue_approvals :=
     [\<lparr>ap_tenant_id = ''acme'', ap_approval_id = 30, ap_work_id = 5, ap_approved_by = ''alice'', ap_approved_at = 5,
       ap_expires_at = 100, ap_consumed_at = None, ap_consumed_by = None\<rparr>]\<rparr>"

definition requeued_op :: "(db, int) op" where
  "requeued_op = requeue_commit 9 ''acme'' 5 (dt_of_instant 9) sample_approval ''bob''
     (work_event 40 WORK_RETRY_SCHEDULED None) (sample_message\<lparr>om_message_id := 41\<rparr>) 3"

lemma requeued_run: "\<exists>s'. requeued_op dead_letter_db = (Inr 4, s')"
  by (simp add: requeued_op_def requeue_commit_def requeue_projection_def approval_usable_def sample_approval_def
      dead_letter_db_def run_defs mutation_defs table_defs)

theorem requeue_consumes_foreign_approval_witness:
  "(\<exists>s'. requeued_op dead_letter_db = (Inr 4, s') \<and> (\<forall>n. fst (requeued_op s') \<noteq> Inr n))"
proof -
  obtain s' where s': "requeued_op dead_letter_db = (Inr 4, s')" using requeued_run by blast
  have "fst (requeued_op s') \<noteq> Inr n" for n
    using requeue_consumes_foreign_approval [OF s' [unfolded requeued_op_def]] unfolding requeued_op_def by blast
  with s' show ?thesis by blast
qed

section \<open>Deliveries\<close>

text \<open>A delivery that carries the request \<open>r\<close> the way \<^verbatim>\<open>register\<close> put it into the outbox.\<close>

definition carries :: "MessageEnvelope \<Rightarrow> WorkRequest \<Rightarrow> bool" where
  "carries m r = (me_payload m = request_payload r \<and> me_work_id m = rq_work_id r \<and> me_tenant_id m = rq_tenant_id r
     \<and> me_correlation_id m = rq_correlation_id r \<and> me_causation_id m = rq_causation_id r)"

lemma json_str_simps [simp]: "json_str (JStr x) = x" "json_str (JInt i) = int_str i"
  by (simp_all add: json_str_def)

lemma read_carried:
  assumes "carries m r" and "request_ok r" and "dt_ok (rq_requested_at r)" and "rq_schema_version r = 1"
  shows "read_request m (rq_payload r) = Inr r"
  using assms
  by (simp add: read_request_def carries_def request_payload_def payload_item_def datetime_of_def int_of_def
      fromisoformat_isoformat py_int_int_str init_WorkRequest_def request_ok_def freeze_json_mapping_thaw res_bind_def require_def)

text \<open>
  Work requests survive the queue. A delivery that carries the outbox payload of a valid request reads back as that
  very request: kind, idempotency key, request time, attempt and time limits and the nested payload.
\<close>

theorem request_delivery_roundtrip:
  assumes "carries (dv_envelope d) r" and "request_ok r" and "dt_ok (rq_requested_at r)"
    and "rq_schema_version r = 1"
  shows "request_from_delivery d = Inr r"
  using read_carried [OF assms] assms(1)
  by (simp add: request_from_delivery_def Let_def carries_def request_payload_def)

definition sample_delivery :: QueueDelivery where
  "sample_delivery = \<lparr>dv_stream_entry_id = ''1-0'', dv_envelope =
     \<lparr>me_message_id = 4, me_tenant_id = ''acme'', me_work_id = 5, me_event_id = Some 10, me_destination = ''aegis.work'',
      me_correlation_id = 6, me_causation_id = None, me_occurred_at = dt_of_instant 0,
      me_payload = request_payload sample_request, me_headers = [], me_schema_version = 1\<rparr>,
     dv_delivery_count = 1, dv_idle_milliseconds = 0\<rparr>"

lemma sample_request_ok: "request_ok sample_request" "dt_ok (rq_requested_at sample_request)" "rq_schema_version sample_request = 1"
  by (simp_all add: sample_request_def request_ok_def dt_ok_def dt_of_instant_def dt_aware_def day_micros_def)

lemma sample_carries: "carries (dv_envelope sample_delivery) sample_request"
  by (simp add: carries_def sample_delivery_def sample_request_def)

theorem request_delivery_roundtrip_witness: "request_from_delivery sample_delivery = Inr sample_request"
  by (rule request_delivery_roundtrip [OF sample_carries sample_request_ok])

text \<open>
  A delivery is trusted only with its authoritative rows. \<^verbatim>\<open>_verify_delivery\<close> returns a request only when the tenant
  has the work row it is read from and a leased or published outbox row with the message's identity, destination,
  event, payload and headers; it never changes the database.
\<close>

theorem verified_delivery_is_authoritative:
  assumes "verify_delivery t d s = (Inr r, s')"
  shows "s' = s \<and> rq_tenant_id r = t \<and> rq_work_id r = me_work_id (dv_envelope d)
    \<and> (\<exists>w \<in> set (db_work_items s). is_work t (rq_work_id r) w \<and> request_of_row t (rq_work_id r) w = Inr r)
    \<and> (\<exists>b \<in> set (db_outbox s). ob_tenant_id b = t \<and> ob_message_id b = me_message_id (dv_envelope d)
        \<and> ob_status b \<in> {OB_LEASED, OB_PUBLISHED} \<and> ob_destination b = me_destination (dv_envelope d)
        \<and> ob_event_id b = me_event_id (dv_envelope d)
        \<and> json_obj_eq (ob_payload b) (me_payload (dv_envelope d))
        \<and> json_obj_eq (ob_headers b) (me_headers (dv_envelope d)))"
proof -
  let ?m = "dv_envelope d"
  obtain w b where w: "sql_one (is_work t (me_work_id ?m)) (db_work_items s) = Some w"
    and b: "sql_one (delivered_row t ?m) (db_outbox s) = Some b"
    and r: "request_of_row t (me_work_id ?m) w = Inr r"
    and eq: "ob_destination b = me_destination ?m \<and> ob_event_id b = me_event_id ?m
        \<and> json_obj_eq (ob_payload b) (me_payload ?m) \<and> json_obj_eq (ob_headers b) (me_headers ?m)" and s: "s' = s"
    using assms by (auto simp: verify_delivery_def Let_def op_simps tenant_transaction_def
        split: prod.splits option.splits dest!: sym [of "Inr _"])
  have fields: "rq_tenant_id r = t" "rq_work_id r = me_work_id ?m" using request_of_row_Inr [OF r] by auto
  with sql_one_Some [OF w] sql_one_Some [OF b] r eq s show ?thesis
    by (auto simp: delivered_row_def)
qed

definition delivered_db :: db where
  "delivered_db = published_db\<lparr>db_outbox :=
     [(new_outbox_row ''acme'' (sample_message\<lparr>om_payload := request_payload sample_request\<rparr>))\<lparr>ob_status := OB_PUBLISHED\<rparr>]\<rparr>"

lemma sample_row_request: "request_of_row ''acme'' 5 (sample_item PUBLISHED 0 0) = Inr sample_request"
  by (simp add: request_of_row_def sample_item_def new_work_row_def sample_request_def init_WorkRequest_def res_bind_def
      require_def thaw_items_def freeze_json_mapping_def)

lemma delivered_verified: "verify_delivery ''acme'' sample_delivery delivered_db = (Inr sample_request, delivered_db)"
proof -
  have d: "request_from_delivery sample_delivery = Inr sample_request"
    using read_carried [OF sample_carries sample_request_ok] sample_carries
    by (simp add: request_from_delivery_def Let_def carries_def request_payload_def)
  have w: "sql_one (is_work ''acme'' 5) (db_work_items delivered_db) = Some (sample_item PUBLISHED 0 0)"
    by (simp add: delivered_db_def published_db_def scenario_db_def is_work_def sample_item_def new_work_row_def)
  have b: "sql_one (delivered_row ''acme'' (dv_envelope sample_delivery)) (db_outbox delivered_db)
      = Some ((new_outbox_row ''acme'' (sample_message\<lparr>om_payload := request_payload sample_request\<rparr>))\<lparr>ob_status := OB_PUBLISHED\<rparr>)"
    by (simp add: delivered_db_def delivered_row_def sample_delivery_def new_outbox_row_def sample_message_def
        payload_names_work_def request_payload_def)
  have m: "me_work_id (dv_envelope sample_delivery) = 5" by (simp add: sample_delivery_def)
  show ?thesis
    by (simp add: verify_delivery_def Let_def d op_eval tenant_transaction_def transaction_def
        validate_request_context_def require_def m w b sample_row_request request_eq_def)
       (simp add: new_outbox_row_def sample_message_def sample_delivery_def json_obj_eq_def request_payload_def
        sample_request_def json_opt_uuid_def)
qed

theorem verified_delivery_is_authoritative_witness:
  "\<exists>w \<in> set (db_work_items delivered_db). is_work ''acme'' 5 w \<and> request_of_row ''acme'' 5 w = Inr sample_request"
  using verified_delivery_is_authoritative [OF delivered_verified] by simp

section \<open>A terminal failure before the start\<close>

lemma sample_work_event_of:
  "py_startswith (DomainEventType_value ty) ''work.'' \<Longrightarrow>
     work_event_of (event_insert_values (work_event i ty lo) n p now) = [ty]"
  by (simp add: work_event_of_def work_event_def DomainEventType_of_value)

lemma work_event_stream [simp]: "ev_tenant_id (work_event i ty lo) = ''acme''" "aggregate_id (work_event i ty lo) = uuid_str 5"
  by (simp_all add: work_event_def)

definition bug_op :: "(db, int) op" where
  "bug_op = fail_commit 3 ''acme'' (sample_worker 20 1 1) (dt_of_instant 3) ''worker_bug'' None True
     [work_event 13 WORK_FAILED (Some (sample_worker 20 1 1)),
      work_event 14 WORK_DEAD_LETTERED (Some (sample_worker 20 1 1))] 3 []"


end
