(* ===== verification/Shared_Database.thy ===== *)
theory Shared_Database
  imports Storage
begin

text \<open>
  One process's view of the shared database. Before each of its calls other workers, publishers and
  operators may have changed the database in any way, which the function \<open>others\<close> stands for; the calls are
  numbered so that the database clock and fresh identifiers can differ from call to call.
\<close>

record shared_db =
  sh_db :: db
  sh_calls :: nat

definition shared_call ::
  "(nat \<Rightarrow> db \<Rightarrow> db) \<Rightarrow> (nat \<Rightarrow> (db, 'a) op) \<Rightarrow> (shared_db, 'a) op" where
  "shared_call others m w =
     (case m (sh_calls w) (others (sh_calls w) (sh_db w)) of
        (r, s) \<Rightarrow> (r, \<lparr>sh_db = s, sh_calls = sh_calls w + 1\<rparr>))"

lemma shared_call_Inr:
  "shared_call others m w = (Inr a, w') \<Longrightarrow> \<exists>n s. m n s = (Inr a, sh_db w')"
  by (auto simp: shared_call_def split: prod.splits) blast

end
