(* ===== verification/Worker_Postgres.thy ===== *)
theory Worker_Postgres
  imports Worker_Supervisor Work_Properties Shared_Database
begin

text \<open>
  The worker on the PostgreSQL repository. The operations of
  \<^verbatim>\<open>PostgresWorkRepository\<close> keep the contract \<open>worker_store\<close>, so a delivery is acknowledged
  only after its outcome is durable.
\<close>

section \<open>The repository as the worker's durable state\<close>

definition postgres_store ::
  "(nat \<Rightarrow> db \<Rightarrow> db) \<Rightarrow> (nat \<Rightarrow> instant) \<Rightarrow> (nat \<Rightarrow> nat \<Rightarrow> uuid) \<Rightarrow> shared_db WorkerStateStore" where
  "postgres_store others clk fresh =
     \<lparr>ws_mark_published = (\<lambda>t d tm. shared_call others (\<lambda>n. mark_published (clk n) t d tm (fresh n 0))),
      ws_claim = (\<lambda>t d ow now ex q. shared_call others (\<lambda>n. claim (clk n) t d ow now ex q (fresh n 0) (fresh n 1))),
      ws_start = (\<lambda>t d l tm. shared_call others (\<lambda>n. start (clk n) t d l tm (fresh n 0))),
      ws_heartbeat = (\<lambda>t d l tm ex. shared_call others (\<lambda>n. heartbeat (clk n) t d l tm ex (fresh n 0))),
      ws_cancellation_requested = (\<lambda>t i. shared_call others (\<lambda>n. cancellation_requested t i)),
      ws_delivery_complete = (\<lambda>t i. shared_call others (\<lambda>n. delivery_complete t i)),
      ws_succeed = (\<lambda>t d l tm ref. shared_call others (\<lambda>n. succeed (clk n) t d l tm ref (fresh n 0))),
      ws_cancel = (\<lambda>t d l tm. shared_call others (\<lambda>n. cancel (clk n) t d l tm (fresh n 0))),
      ws_fail = (\<lambda>t d l tm fc code ra.
        shared_call others (\<lambda>n. fail (clk n) t d l tm fc code ra (fresh n 0) (fresh n 1) (fresh n 2)))\<rparr>"

text \<open>
  The outcome of an item is durable when its row is in a terminal status, or when it waits for a retry that an
  outgoing message, not yet published, will deliver at the time it becomes available.
\<close>

definition retry_announced :: "db \<Rightarrow> work_row \<Rightarrow> bool" where
  "retry_announced s r = (\<exists>b \<in> set (db_outbox s). ob_tenant_id b = wi_tenant_id r \<and> ob_status b = OB_PENDING
     \<and> ob_destination b = ''aegis.work'' \<and> payload_names_work (ob_payload b) (wi_work_id r) \<and> ob_available_at b = wi_available_at r)"

definition outcome_durable :: "TenantId \<Rightarrow> uuid \<Rightarrow> db \<Rightarrow> bool" where
  "outcome_durable t i s = (\<exists>r \<in> set (db_work_items s). is_work t i r
     \<and> (wi_status r \<in> set TERMINAL_WORK_STATUSES \<or> wi_status r = RETRY_WAIT \<and> retry_announced s r))"

section \<open>What the operations leave behind\<close>

lemma update_work_member:
  assumes "update_work P f e s = (Inr u, s')"
  obtains r where "r \<in> set (db_work_items s)" and "P r" and "f r \<in> set (db_work_items s')" and "db_outbox s' = db_outbox s"
proof -
  have u: "sql_count P (db_work_items s) = 1" "s' = s\<lparr>db_work_items := sql_update P f (db_work_items s)\<rparr>"
    using assms by (simp_all add: update_work_Inr)
  obtain r where r: "r \<in> set (db_work_items s)" "P r" using sql_count_1_ex [OF u(1)] by blast
  show thesis
    by (rule that [OF r]) (use r u(2) in \<open>auto simp: in_sql_update_iff\<close>)
qed

lemma release_lease_outbox: "release_lease l tm why s = (Inr u, s') \<Longrightarrow> db_outbox s' = db_outbox s"
  by (auto simp: release_lease_def update_lease_Inr)

lemma complete_status:
  assumes "complete_in_transaction l tm st why s = (Inr u, s')"
  obtains r where "r \<in> set (db_work_items s')" and "is_work (ls_tenant_id l) (ls_work_id l) r" and "wi_status r = st"
proof -
  obtain s1 where "update_work (\<lambda>w. leased_work l [CLAIMED, RUNNING] w \<and> wi_cancel_requested_at w = None)
       (\<lambda>w. w\<lparr>wi_status := st, wi_completed_at := Some tm\<rparr>) (FencingError (ls_generation l) 0) s1 = (Inr u, s')"
    using assms by (auto simp: complete_in_transaction_def op_bind_Inr_iff)
  then obtain r where "leased_work l [CLAIMED, RUNNING] r" "r\<lparr>wi_status := st, wi_completed_at := Some tm\<rparr> \<in> set (db_work_items s')"
    by (rule update_work_member) blast
  then show thesis by (intro that [of "r\<lparr>wi_status := st, wi_completed_at := Some tm\<rparr>"]) (auto simp: leased_work_def is_work_def)
qed

lemma cancel_status:
  assumes "cancel_in_transaction l tm s = (Inr u, s')"
  obtains r where "r \<in> set (db_work_items s')" and "is_work (ls_tenant_id l) (ls_work_id l) r" and "wi_status r = CANCELLED"
proof -
  obtain s1 where "update_work (\<lambda>w. leased_work l [CLAIMED, RUNNING] w \<and> wi_cancel_requested_at w \<noteq> None)
       (\<lambda>w. w\<lparr>wi_status := CANCELLED, wi_completed_at := Some tm\<rparr>) (FencingError (ls_generation l) 0) s1 = (Inr u, s')"
    using assms by (auto simp: cancel_in_transaction_def op_bind_Inr_iff)
  then obtain r where "leased_work l [CLAIMED, RUNNING] r" "r\<lparr>wi_status := CANCELLED, wi_completed_at := Some tm\<rparr> \<in> set (db_work_items s')"
    by (rule update_work_member) blast
  then show thesis by (intro that [of "r\<lparr>wi_status := CANCELLED, wi_completed_at := Some tm\<rparr>"]) (auto simp: leased_work_def is_work_def)
qed

lemma dead_letter_status:
  assumes "dead_letter_in_transaction l tm why s = (Inr u, s')"
  obtains r where "r \<in> set (db_work_items s')" and "is_work (ls_tenant_id l) (ls_work_id l) r" and "wi_status r = DEAD_LETTER"
proof -
  obtain s1 s2 where s1: "complete_in_transaction l tm DEAD_LETTER ''dead_letter'' s = (Inr (), s1)"
    and s2: "s2 = s1\<lparr>db_work_items := sql_update (is_work (ls_tenant_id l) (ls_work_id l))
         (\<lambda>w. w\<lparr>wi_last_error_code := Some why\<rparr>) (db_work_items s1)\<rparr>" and s': "upsert_dead_letter l tm why s2 = (Inr u, s')"
    using assms by (auto simp: dead_letter_in_transaction_def op_bind_Inr_iff op_modify_iff)
  obtain r where r: "r \<in> set (db_work_items s1)" "is_work (ls_tenant_id l) (ls_work_id l) r" "wi_status r = DEAD_LETTER"
    by (rule complete_status [OF s1]) blast
  have "r\<lparr>wi_last_error_code := Some why\<rparr> \<in> set (db_work_items s2)"
    unfolding s2 by (simp add: in_sql_update_iff) (use r(1,2) in blast)
  moreover have "db_work_items s' = db_work_items s2"
    using s' by (auto simp: upsert_dead_letter_def op_bind_Inr_iff op_require_iff op_modify_iff Let_def split: if_splits)
  ultimately show thesis
    by (intro that [of "r\<lparr>wi_last_error_code := Some why\<rparr>"]) (use r(2,3) in \<open>auto simp: is_work_def\<close>)
qed

lemma release_status:
  assumes "release_in_transaction l tm why ra b s = (Inr u, s')"
  obtains r where "r \<in> set (db_work_items s')" and "is_work (ls_tenant_id l) (ls_work_id l) r" and "wi_status r = RETRY_WAIT"
    and "wi_available_at r = ra" and "db_outbox s' = db_outbox s"
proof -
  let ?f = "\<lambda>w. w\<lparr>wi_status := RETRY_WAIT, wi_available_at := ra\<rparr>"
  obtain s1 where s1: "release_lease l tm why s = (Inr (), s1)" and u: "update_work (\<lambda>w. leased_work l (if b then [RUNNING] else [CLAIMED, RUNNING]) w
         \<and> wi_cancel_requested_at w = None) ?f (FencingError (ls_generation l) 0) s1 = (Inr u, s')"
    using assms by (auto simp: release_in_transaction_def op_bind_Inr_iff)
  from u obtain r where "leased_work l (if b then [RUNNING] else [CLAIMED, RUNNING]) r" "?f r \<in> set (db_work_items s')" "db_outbox s' = db_outbox s1"
    by (rule update_work_member) blast
  then show thesis
    by (intro that [of "?f r"]) (auto simp: leased_work_def is_work_def release_lease_outbox [OF s1])
qed

section \<open>The contract\<close>

lemma request_from_delivery_ids:
  "request_from_delivery d = Inr r \<Longrightarrow> rq_work_id r = me_work_id (dv_envelope d) \<and> rq_tenant_id r = me_tenant_id (dv_envelope d)"
  by (auto simp: request_from_delivery_def read_request_def init_WorkRequest_def res_bind_Inr_iff Let_def
      split: option.splits json.splits sum.splits)

lemma request_of_row_ids: "request_of_row t i w = Inr r \<Longrightarrow> rq_work_id r = i \<and> rq_tenant_id r = t"
  by (auto simp: request_of_row_def init_WorkRequest_def res_bind_Inr_iff)

lemma verify_delivery_ids:
  assumes "verify_delivery t d s = (Inr r, s')"
  shows "rq_work_id r = me_work_id (dv_envelope d) \<and> rq_tenant_id r = t"
proof -
  obtain w where "request_of_row t (me_work_id (dv_envelope d)) w = Inr r"
    using assms by (auto simp: verify_delivery_def Let_def op_simps split: option.splits prod.splits)
  then show ?thesis by (rule request_of_row_ids)
qed

lemma claim_names_delivery:
  assumes "claim clk t d ow now ex q tok eid s = (Inr (Some l), s')"
  shows "ls_tenant_id l = t \<and> ls_work_id l = me_work_id (dv_envelope d)"
proof -
  obtain r s1 g a s2 where r: "verify_delivery t d s = (Inr r, s1)"
    and at: "claim_attempt clk t r ow now ex q tok eid g a s2 = (Inr (Some l), s')"
    using assms by (auto simp: claim_def Let_def op_bind_Inr_iff op_require_iff op_lift_iff op_return_iff
        split: if_splits option.splits)
  have "ls_tenant_id l = rq_tenant_id r \<and> ls_work_id l = rq_work_id r"
    using at by (auto simp: claim_attempt_def Let_def op_bind_Inr_iff op_lift_iff op_return_iff op_catch_iff init_WorkLease_Inr eq_commute [of "Inr _" "init_WorkLease _"]
        op_raise_iff split: if_splits)
  then show ?thesis using verify_delivery_ids [OF r] by simp
qed

lemma append_fenced_transition_mutation:
  assumes "append_fenced_transition clk t r tr l eid mut s = (Inr u, s')"
  shows "\<exists>s1 u1. mut s1 = (Inr u1, s')"
  using assms
  by (auto simp: append_fenced_transition_def fenced_commit_def op_bind_Inr_iff op_return_iff append_fenced_Inr)

lemma outcome_durable_terminal:
  assumes "r \<in> set (db_work_items s)" and "is_work t i r" and "wi_status r \<in> set TERMINAL_WORK_STATUSES"
  shows "outcome_durable t i s"
  using assms by (auto simp: outcome_durable_def)

lemma succeed_durable:
  assumes "succeed clk t d l tm ref eid s = (Inr u, s')"
  shows "outcome_durable (ls_tenant_id l) (ls_work_id l) s'"
proof -
  obtain s1 u1 where "complete_in_transaction l (dt_instant tm) SUCCEEDED ''succeeded'' s1 = (Inr u1, s')"
    using assms by (auto simp: succeed_def op_bind_Inr_iff op_lift_iff dest!: append_fenced_transition_mutation)
  then show ?thesis
    by (rule complete_status) (auto intro: outcome_durable_terminal simp: TERMINAL_WORK_STATUSES_def)
qed

lemma cancel_durable:
  assumes "cancel clk t d l tm eid s = (Inr u, s')"
  shows "outcome_durable (ls_tenant_id l) (ls_work_id l) s'"
proof -
  obtain s1 u1 where "cancel_in_transaction l (dt_instant tm) s1 = (Inr u1, s')"
    using assms by (auto simp: cancel_def op_bind_Inr_iff op_lift_iff dest!: append_fenced_transition_mutation)
  then show ?thesis
    by (rule cancel_status) (auto intro: outcome_durable_terminal simp: TERMINAL_WORK_STATUSES_def)
qed

lemma delivery_complete_durable:
  assumes "delivery_complete t i s = (Inr True, s')"
  shows "outcome_durable t i s'"
  using assms
  by (auto simp: delivery_complete_def op_simps tenant_transaction_def outcome_durable_def TERMINAL_WORK_STATUSES_def
      split: option.splits dest!: sql_one_Some)

lemma init_OutboxMessage_same: "init_OutboxMessage m = Inr m' \<Longrightarrow> m' = m"
  by (auto simp: init_OutboxMessage_def res_bind_Inr_iff)

lemma outcome_durable_retry:
  assumes "r \<in> set (db_work_items s)" and "is_work t i r" and "wi_status r = RETRY_WAIT"
    and "b \<in> set (db_outbox s)" and "ob_tenant_id b = t" and "ob_status b = OB_PENDING" and "ob_destination b = ''aegis.work''"
    and "payload_names_work (ob_payload b) i" and "ob_available_at b = wi_available_at r"
  shows "outcome_durable t i s"
  using assms unfolding outcome_durable_def retry_announced_def is_work_def by blast

lemma transition_event_ids:
  assumes "transition_event ty tm ds lo r eid c = Inr e"
  shows "ev_tenant_id e = rq_tenant_id r \<and> (\<forall>l. lo = Some l \<longrightarrow> ls_tenant_id l = rq_tenant_id r \<and> ls_work_id l = rq_work_id r)"
  using assms
  by (auto simp: transition_event_def new_transition_def init_WorkTransition_def to_event_def res_bind_Inr_iff new_envelope_def init_envelope_def)

lemma fail_dead_letter:
  assumes "fail clk t d l tm fc code ra eid1 eid2 mid s = (Inr terminal, s')" and "terminal \<or> ra = None"
  shows "\<exists>s1 u. dead_letter_in_transaction l (dt_instant tm) code s1 = (Inr u, s')"
  using assms
  by (auto simp: fail_def Let_def op_bind_Inr_iff op_lift_iff op_require_iff op_return_iff fail_commit_def append_fenced_Inr
      split: option.splits if_splits)

lemma fail_retry:
  assumes "fail clk t d l tm fc code (Some ra) eid1 eid2 mid s = (Inr False, s')"
  obtains r e s1 s2 u m where "request_from_delivery d = Inr r" and "ls_tenant_id l = rq_tenant_id r" and "ls_work_id l = rq_work_id r"
    and "release_in_transaction l (dt_instant tm) ''retry_scheduled'' (dt_instant ra) True s2 = (Inr u, s')"
    and "new_outbox_row (rq_tenant_id r) m \<in> set (db_outbox s2)" and "om_payload m = request_payload r"
    and "om_destination m = ''aegis.work''" and "om_available_at m = ra"
proof -
  obtain r e1 e2 v n s1 m where r: "Inr r = request_from_delivery d"
    and e1: "Inr e1 = transition_event WORK_FAILED tm [(''failure_class'', JStr (FailureClass_value fc)), (''error_code'', JStr code)] (Some l) r eid1 None"
    and m: "Inr m = init_OutboxMessage
             \<lparr>om_message_id = mid, om_destination = ''aegis.work'', om_payload = request_payload r,
              om_headers = [(''tenant_id'', JStr (rq_tenant_id r))], om_available_at = ra,
              om_max_attempts = rq_max_attempts r, om_event_id = Some (event_id e2)\<rparr>"
    and c: "fail_commit clk t l tm code (Some ra) False [e1, e2] v [m] s1 = (Inr n, s')"
    using assms by (auto simp: fail_def Let_def op_bind_Inr_iff op_lift_iff op_require_iff op_return_iff)
  obtain s2 u where s2: "append_in_transaction clk [e1, e2] v [m] s1 = (Inr n, s2)"
    and mut: "release_in_transaction l (dt_instant tm) ''retry_scheduled'' (dt_instant ra) True s2 = (Inr u, s')"
    using c by (auto simp: fail_commit_def append_fenced_Inr)
  have ids: "ev_tenant_id e1 = rq_tenant_id r" "ls_tenant_id l = rq_tenant_id r" "ls_work_id l = rq_work_id r"
    using transition_event_ids [OF e1 [symmetric]] by simp_all
  have "new_outbox_row (rq_tenant_id r) m \<in> set (db_outbox s2)"
    using append_in_transaction_Inr(4) [OF s2] ids(1) by simp
  then show thesis
    using that [OF r [symmetric] ids(2,3) mut] init_OutboxMessage_same [OF m [symmetric]] by simp
qed

lemma fail_durable:
  assumes "fail clk t d l tm fc code ra eid1 eid2 mid s = (Inr terminal, s')"
  shows "outcome_durable (ls_tenant_id l) (ls_work_id l) s'"
proof (cases "terminal \<or> ra = None")
  case True
  then obtain s1 u where "dead_letter_in_transaction l (dt_instant tm) code s1 = (Inr u, s')" using fail_dead_letter [OF assms] by blast
  then show ?thesis
    by (rule dead_letter_status) (auto intro: outcome_durable_terminal simp: TERMINAL_WORK_STATUSES_def)
next
  case False
  then obtain ra' where f: "fail clk t d l tm fc code (Some ra') eid1 eid2 mid s = (Inr False, s')" using assms by auto
  obtain r e s1 s2 u m where r: "ls_tenant_id l = rq_tenant_id r" "ls_work_id l = rq_work_id r"
    and mut: "release_in_transaction l (dt_instant tm) ''retry_scheduled'' (dt_instant ra') True s2 = (Inr u, s')"
    and m: "new_outbox_row (rq_tenant_id r) m \<in> set (db_outbox s2)" "om_payload m = request_payload r"
      "om_destination m = ''aegis.work''" "om_available_at m = ra'"
    by (rule fail_retry [OF f]) blast
  obtain q where q: "q \<in> set (db_work_items s')" "is_work (ls_tenant_id l) (ls_work_id l) q" "wi_status q = RETRY_WAIT"
    "wi_available_at q = dt_instant ra'" "db_outbox s' = db_outbox s2"
    by (rule release_status [OF mut]) blast
  show ?thesis
    by (rule outcome_durable_retry [OF q(1-3), of "new_outbox_row (rq_tenant_id r) m"])
      (use m q(4,5) r in \<open>simp_all add: new_outbox_row_def payload_names_work_def request_payload_def\<close>)
qed

interpretation postgres: worker_store "postgres_store others clk fresh" "\<lambda>t i w. outcome_durable t i (sh_db w)"
  for others :: "nat \<Rightarrow> db \<Rightarrow> db" and clk fresh
proof
  show "outcome_durable t i (sh_db w')" if "ws_delivery_complete (postgres_store others clk fresh) t i w = (Inr True, w')" for t i w w'
    using that delivery_complete_durable by (auto simp: postgres_store_def dest!: shared_call_Inr)
  show "ls_tenant_id l = t \<and> ls_work_id l = me_work_id (dv_envelope d)"
    if "ws_claim (postgres_store others clk fresh) t d ow now ex q w = (Inr (Some l), w')" for t d ow now ex q w w' l
    using that claim_names_delivery by (auto simp: postgres_store_def dest!: shared_call_Inr) blast+
  show "outcome_durable t (ls_work_id l) (sh_db w')"
    if "ls_tenant_id l = t" "ws_succeed (postgres_store others clk fresh) t d l tm ref w = (Inr u, w')" for t d l tm ref w u w'
    using that succeed_durable by (auto simp: postgres_store_def dest!: shared_call_Inr)
  show "outcome_durable t (ls_work_id l) (sh_db w')"
    if "ls_tenant_id l = t" "ws_cancel (postgres_store others clk fresh) t d l tm w = (Inr u, w')" for t d l tm w u w'
    using that cancel_durable by (auto simp: postgres_store_def dest!: shared_call_Inr)
  show "outcome_durable t (ls_work_id l) (sh_db w')"
    if "ls_tenant_id l = t" "ws_fail (postgres_store others clk fresh) t d l tm fc code ra w = (Inr b, w')" for t d l tm fc code ra w b w'
    using that fail_durable by (auto simp: postgres_store_def dest!: shared_call_Inr)
qed

section \<open>Acknowledgement\<close>

text \<open>
  C7: a delivery is acknowledged only after its outcome is durable. Whatever the handler does, whatever happens to the shared database
  between the worker's calls, processing a delivery makes at most one call to the transport; and
  when it acknowledges the delivery, the item's row is terminal, or it waits for a retry that a pending outgoing
  message announces.
\<close>

theorem acknowledged_after_durable_outcome:
  assumes "sv_state sv = postgres_store others clk fresh" and "process_delivery sv es d w = (x, w')"
  shows "ww_log w' = ww_log w \<or> (\<exists>why. ww_log w' = ww_log w @ [Quarantined d why])
    \<or> ww_log w' = ww_log w @ [Acknowledged d]
      \<and> outcome_durable (me_tenant_id (dv_envelope d)) (me_work_id (dv_envelope d)) (sh_db (ww_store w'))"
  using postgres.process_delivery_settled [OF assms] by (simp add: postgres.acted_def)

definition finished_db :: db where
  "finished_db = (initial_db [''acme''])\<lparr>db_work_items := [sample_item SUCCEEDED 1 3]\<rparr>"

definition postgres_supervisor :: "shared_db WorkerSupervisor" where
  "postgres_supervisor = \<lparr>sv_state = postgres_store (\<lambda>_ s. s) (\<lambda>n. int n) (\<lambda>n k. of_nat (3 * n + k)), sv_quota = (\<lambda>_. Inr 1),
     sv_worker_id = ''worker'', sv_clock = (\<lambda>n. dt_of_instant (int n)), sv_max_concurrency = 16, sv_lease_duration = 30000000,
     sv_heartbeat_interval = 10000000, sv_backoff = default_backoff, sv_transport = (\<lambda>_. Inr ())\<rparr>"

theorem acknowledged_after_durable_outcome_witness:
  "let w = \<lparr>ww_store = \<lparr>sh_db = finished_db, sh_calls = 0\<rparr>, ww_readings = 0, ww_log = []\<rparr>;
       d = sample_tenant_delivery ''acme'' 5;
       w' = snd (process_delivery postgres_supervisor [] d w) in
   ww_log w' = [Acknowledged d] \<and> outcome_durable ''acme'' 5 (sh_db (ww_store w'))"
proof -
  let ?w = "\<lparr>ww_store = \<lparr>sh_db = finished_db, sh_calls = 0\<rparr>, ww_readings = 0, ww_log = []\<rparr>"
  let ?d = "sample_tenant_delivery ''acme'' 5"
  obtain x w' where run: "process_delivery postgres_supervisor [] ?d ?w = (x, w')" by fastforce
  have log: "ww_log w' = [Acknowledged ?d]"
    using run by (auto simp: process_delivery_def sample_tenant_delivery_def new_TenantId_def validate_identifier_def py_strip_def
        strip_by_def py_isspace_def w_defs read_clock_def on_store_def postgres_supervisor_def postgres_store_def shared_call_def
        delivery_complete_def op_eval tenant_transaction_def transaction_def finished_db_def is_work_def sample_item_def
        new_work_row_def transport_call_def op_gets_def sql_one_def)
  from acknowledged_after_durable_outcome [OF _ run, of "\<lambda>_ s. s" "\<lambda>n. int n" "\<lambda>n k. of_nat (3 * n + k)"] log run
  show ?thesis by (simp add: postgres_supervisor_def sample_tenant_delivery_def Let_def)
qed

end
