(* ===== verification/Worker_Batch.thy ===== *)
theory Worker_Batch
  imports Worker_Supervisor
begin

text \<open>
  How \<^verbatim>\<open>WorkerSupervisor\<close> runs a batch: \<^verbatim>\<open>run_batch\<close> with its bounded set of tasks, interleaved with the tasks that
  end and with a call of \<^verbatim>\<open>drain\<close>, as a step relation. A task is its delivery; several tasks may carry
  equal deliveries, so the active ones are a multiset. \<open>bt_started\<close> records the order in which tasks were created.
\<close>

section \<open>Steps of a batch\<close>

datatype batch_phase = Dispatching | Awaiting | Finished | Aborted

record batch =
  bt_scheduler :: FairTenantScheduler
  bt_active :: "QueueDelivery multiset"
  bt_draining :: bool
  bt_phase :: batch_phase
  bt_started :: "QueueDelivery list"

definition begin_batch :: "QueueDelivery list \<Rightarrow> QueueDelivery multiset \<Rightarrow> bool \<Rightarrow> batch" where
  "begin_batch ds active draining =
     \<lparr>bt_scheduler = scheduler_add ds empty_scheduler, bt_active = active, bt_draining = draining,
      bt_phase = Dispatching, bt_started = []\<rparr>"

text \<open>
  \<^verbatim>\<open>_wait_one\<close> removes the tasks that ended and raises when one of them raised, which ends the batch
  and leaves the other tasks active.
\<close>

definition wait_one :: "QueueDelivery multiset \<Rightarrow> bool \<Rightarrow> batch \<Rightarrow> batch" where
  "wait_one ended raised b =
     b\<lparr>bt_active := bt_active b - ended, bt_phase := (if raised then Aborted else bt_phase b)\<rparr>"

definition must_wait :: "int \<Rightarrow> batch \<Rightarrow> bool" where
  "must_wait limit b = (case bt_phase b of
     Dispatching \<Rightarrow> scheduler_bool (bt_scheduler b) \<and> limit \<le> int (size (bt_active b))
   | Awaiting \<Rightarrow> bt_active b \<noteq> {#}
   | _ \<Rightarrow> False)"

inductive batch_step :: "int \<Rightarrow> batch \<Rightarrow> batch \<Rightarrow> bool" for limit where
  batch_wait:
    "must_wait limit b \<Longrightarrow> ended \<noteq> {#} \<Longrightarrow> ended \<subseteq># bt_active b \<Longrightarrow> batch_step limit b (wait_one ended raised b)"
| batch_spawn:
    "bt_phase b = Dispatching \<Longrightarrow> scheduler_bool (bt_scheduler b) \<Longrightarrow> int (size (bt_active b)) < limit
      \<Longrightarrow> \<not> bt_draining b \<Longrightarrow> scheduler_pop (bt_scheduler b) = (Inr (Some d), s)
      \<Longrightarrow> batch_step limit b (b\<lparr>bt_scheduler := s, bt_active := add_mset d (bt_active b), bt_started := bt_started b @ [d]\<rparr>)"
| batch_break:
    "bt_phase b = Dispatching \<Longrightarrow> \<not> scheduler_bool (bt_scheduler b) \<or> int (size (bt_active b)) < limit \<and> bt_draining b
      \<Longrightarrow> batch_step limit b (b\<lparr>bt_phase := Awaiting\<rparr>)"
| batch_finish:
    "bt_phase b = Awaiting \<Longrightarrow> bt_active b = {#} \<Longrightarrow> batch_step limit b (b\<lparr>bt_phase := Finished\<rparr>)"
| batch_drain:
    "bt_phase b \<in> {Dispatching, Awaiting} \<Longrightarrow> \<not> bt_draining b \<Longrightarrow> batch_step limit b (b\<lparr>bt_draining := True\<rparr>)"

definition batch_run :: "int \<Rightarrow> batch \<Rightarrow> batch \<Rightarrow> bool" where
  "batch_run limit b b' = (batch_step limit)\<^sup>*\<^sup>* b b'"

text \<open>
  \<^verbatim>\<open>poll_once\<close> and \<^verbatim>\<open>recover_once\<close> ask the transport for a bounded number of deliveries, new ones or ones pending
  too long. The result is the batch to run, whose length they return; it is None, and they return 0, when a drain was
  requested before or during the call of the transport.
\<close>

definition poll_count :: "int \<Rightarrow> int \<Rightarrow> int" where
  "poll_count limit n = min n (limit * 4)"

definition poll_once :: "int \<Rightarrow> bool \<Rightarrow> bool \<Rightarrow> (int \<Rightarrow> QueueDelivery list res) \<Rightarrow> int \<Rightarrow> QueueDelivery list option res" where
  "poll_once limit draining drain_requested read n =
     (if draining then Inr None
      else res_bind (read (poll_count limit n)) (\<lambda>deliveries.
           Inr (if drain_requested then None else Some deliveries)))"

definition recover_once ::
  "int \<Rightarrow> bool \<Rightarrow> bool \<Rightarrow> (int \<Rightarrow> int \<Rightarrow> QueueDelivery list res) \<Rightarrow> int \<Rightarrow> int \<Rightarrow> QueueDelivery list option res" where
  "recover_once limit draining drain_requested reclaim idle n =
     poll_once limit draining drain_requested (reclaim idle) n"

text \<open>\<^verbatim>\<open>drain\<close> stops new tasks and tells whether all active ones ended within its timeout.\<close>

definition drain :: "timedelta \<Rightarrow> QueueDelivery multiset \<Rightarrow> batch \<Rightarrow> bool res \<times> batch" where
  "drain timeout pending b =
     (if timeout \<le> 0 then (Inl (ValueError ''drain timeout must be positive''), b)
      else (Inr (bt_active b = {#} \<or> pending = {#}), b\<lparr>bt_draining := True\<rparr>))"

section \<open>Invariant\<close>

definition batch_inv :: "int \<Rightarrow> QueueDelivery list \<Rightarrow> batch \<Rightarrow> bool" where
  "batch_inv limit ds b =
     (scheduler_inv (bt_scheduler b) \<and> int (size (bt_active b)) \<le> limit
      \<and> (bt_started b, bt_scheduler b) = pop_n scheduler_pop (length (bt_started b)) (scheduler_add ds empty_scheduler)
      \<and> mset (bt_started b) + waiting (bt_scheduler b) = mset ds
      \<and> (bt_phase b = Finished \<longrightarrow> bt_active b = {#})
      \<and> (bt_phase b \<in> {Awaiting, Finished} \<longrightarrow> bt_draining b \<or> waiting (bt_scheduler b) = {#}))"

lemma scheduler_bool_waiting: "scheduler_inv s \<Longrightarrow> scheduler_bool s \<longleftrightarrow> waiting s \<noteq> {#}"
  by (simp add: scheduler_bool_def waiting_empty)

lemma pop_n_Suc:
  assumes "pop_n scheduler_pop n s0 = (ds, s)" and "length ds = n" and "scheduler_pop s = (Inr (Some d), s')"
  shows "pop_n scheduler_pop (Suc n) s0 = (ds @ [d], s')"
  using assms
proof (induction n arbitrary: s0 ds)
  case (Suc n)
  from Suc.prems(1,2) obtain d0 s1 ds1 where 1: "scheduler_pop s0 = (Inr (Some d0), s1)" "pop_n scheduler_pop n s1 = (ds1, s)" "ds = d0 # ds1"
    by (auto split: prod.splits sum.splits option.splits)
  then have "pop_n scheduler_pop (Suc n) s1 = (ds1 @ [d], s')" using Suc.IH [of s1 ds1] Suc.prems by simp
  then show ?case using 1 by (simp del: pop_n.simps(2) add: pop_n.simps(2) [of scheduler_pop "Suc n" s0])
qed simp

lemma batch_inv_begin:
  assumes "int (size active) \<le> limit"
  shows "batch_inv limit ds (begin_batch ds active draining)"
  using assms
  by (simp add: batch_inv_def begin_batch_def scheduler_add_inv scheduler_inv_empty scheduler_add_waiting)

lemma batch_step_inv:
  assumes "batch_step limit b b'" and "batch_inv limit ds b"
  shows "batch_inv limit ds b'"
  using assms
proof (induction rule: batch_step.induct)
  case (batch_wait b ended raised)
  have "size (bt_active b - ended) \<le> size (bt_active b)" by (simp add: size_mset_mono)
  with batch_wait show ?case by (auto simp: batch_inv_def wait_one_def must_wait_def split: batch_phase.splits if_splits)
next
  case (batch_spawn b d s)
  have inv: "scheduler_inv (bt_scheduler b)" using batch_spawn.prems by (simp add: batch_inv_def)
  have "waiting (bt_scheduler b) \<noteq> {#}" using batch_spawn.hyps(2) scheduler_bool_waiting [OF inv] by simp
  then have s: "scheduler_inv s" "waiting (bt_scheduler b) = add_mset d (waiting s)"
    using fair.pop_next [OF inv] batch_spawn.hyps(5) by auto
  have "pop_n scheduler_pop (Suc (length (bt_started b))) (scheduler_add ds empty_scheduler) = (bt_started b @ [d], s)"
    using batch_spawn.prems by (intro pop_n_Suc [OF _ _ batch_spawn.hyps(5)]) (simp_all add: batch_inv_def)
  with s batch_spawn show ?case by (auto simp: batch_inv_def)
next
  case (batch_break b)
  then show ?case using scheduler_bool_waiting [of "bt_scheduler b"] by (auto simp: batch_inv_def)
qed (auto simp: batch_inv_def)

lemma batch_run_inv: "batch_run limit b b' \<Longrightarrow> batch_inv limit ds b \<Longrightarrow> batch_inv limit ds b'"
  unfolding batch_run_def by (induction rule: rtranclp_induct) (auto intro: batch_step_inv)

section \<open>Properties\<close>

text \<open>
  C29: a batch is dispatched within the concurrency bound and completely. In every state a batch can get into, at most
  the configured number of tasks is active and tasks were created in the order of the fair scheduler; when the batch is finished
  none of them is left, and unless a drain was requested every delivery was processed exactly once.
\<close>

theorem batch_bounded_and_complete:
  assumes "int (size active) \<le> limit" and "batch_run limit (begin_batch ds active draining) b"
  shows "int (size (bt_active b)) \<le> limit
    \<and> bt_started b = fst (pop_n scheduler_pop (length (bt_started b)) (scheduler_add ds empty_scheduler))
    \<and> (bt_phase b = Finished \<longrightarrow> bt_active b = {#} \<and> (bt_draining b \<or> mset (bt_started b) = mset ds))"
proof -
  have inv: "batch_inv limit ds b" by (rule batch_run_inv [OF assms(2) batch_inv_begin [OF assms(1)]])
  then show ?thesis by (auto simp: batch_inv_def) (metis fst_conv)+
qed

definition single_delivery :: QueueDelivery where
  "single_delivery = sample_tenant_delivery ''a'' 1"

definition single_batch :: "batch_phase \<Rightarrow> batch" where
  "single_batch ph = \<lparr>bt_scheduler = empty_scheduler, bt_active = {#}, bt_draining = False, bt_phase = ph,
     bt_started = [single_delivery]\<rparr>"

lemma single_batch_run: "batch_run 1 (begin_batch [single_delivery] {#} False) (single_batch Finished)"
proof -
  let ?b = "begin_batch [single_delivery] {#} False"
  let ?b1 = "(single_batch Dispatching)\<lparr>bt_active := {#single_delivery#}\<rparr>"
  have pop: "scheduler_pop (bt_scheduler ?b) = (Inr (Some single_delivery), empty_scheduler)"
    by (simp add: begin_batch_def scheduler_add_def add_delivery_def empty_scheduler_def scheduler_pop_def Let_def fun_eq_iff)
  have "scheduler_bool (bt_scheduler ?b)"
    by (simp add: begin_batch_def scheduler_add_def add_delivery_def empty_scheduler_def scheduler_bool_def Let_def)
  with batch_spawn [of ?b 1, OF _ _ _ _ pop] have 1: "batch_step 1 ?b ?b1"
    by (simp add: begin_batch_def single_batch_def)
  have 2: "batch_step 1 ?b1 (?b1\<lparr>bt_phase := Awaiting\<rparr>)"
    by (rule batch_break) (simp_all add: single_batch_def scheduler_bool_def empty_scheduler_def)
  have "batch_step 1 (?b1\<lparr>bt_phase := Awaiting\<rparr>) (wait_one {#single_delivery#} False (?b1\<lparr>bt_phase := Awaiting\<rparr>))"
    by (rule batch_wait) (simp_all add: single_batch_def must_wait_def)
  then have 3: "batch_step 1 (?b1\<lparr>bt_phase := Awaiting\<rparr>) (single_batch Awaiting)" by (simp add: wait_one_def single_batch_def)
  have "batch_step 1 (single_batch Awaiting) ((single_batch Awaiting)\<lparr>bt_phase := Finished\<rparr>)"
    by (rule batch_finish) (simp_all add: single_batch_def)
  then have 4: "batch_step 1 (single_batch Awaiting) (single_batch Finished)" by (simp add: single_batch_def)
  show ?thesis unfolding batch_run_def
    by (intro converse_rtranclp_into_rtranclp [where r = "batch_step 1", OF 1] converse_rtranclp_into_rtranclp [where r = "batch_step 1", OF 2]
        converse_rtranclp_into_rtranclp [where r = "batch_step 1", OF 3] r_into_rtranclp [where r = "batch_step 1", OF 4])
qed

theorem batch_bounded_and_complete_witness:
  "bt_active (single_batch Finished) = {#} \<and> mset (bt_started (single_batch Finished)) = {#single_delivery#}"
  using batch_bounded_and_complete [OF _ single_batch_run] by (simp add: single_batch_def)

definition batch_measure :: "batch \<Rightarrow> nat" where
  "batch_measure b = 2 * size (waiting (bt_scheduler b)) + size (bt_active b)
     + (case bt_phase b of Dispatching \<Rightarrow> 2 | Awaiting \<Rightarrow> 1 | _ \<Rightarrow> 0) + (if bt_draining b then 0 else 1)"

lemma batch_step_measure:
  assumes "batch_step limit b b'" and "scheduler_inv (bt_scheduler b)"
  shows "batch_measure b' < batch_measure b"
  using assms
proof (induction rule: batch_step.induct)
  case (batch_wait b ended raised)
  have "size (bt_active b - ended) < size (bt_active b)"
    using batch_wait by (simp add: size_Diff_submset) (metis nonempty_has_size size_mset_mono diff_less order_less_le_trans)
  then show ?case by (auto simp: batch_measure_def wait_one_def split: batch_phase.splits)
next
  case (batch_spawn b d s)
  have "waiting (bt_scheduler b) \<noteq> {#}" using batch_spawn scheduler_bool_waiting by simp
  then have "waiting (bt_scheduler b) = add_mset d (waiting s)"
    using fair.pop_next [OF batch_spawn.prems] batch_spawn.hyps(5) by auto
  with batch_spawn show ?case by (auto simp: batch_measure_def)
qed (auto simp: batch_measure_def)

lemma batch_run_measure:
  assumes "batch_run limit b b'" and "batch_inv limit ds b"
  shows "batch_measure b' \<le> batch_measure b"
  using assms unfolding batch_run_def
proof (induction rule: rtranclp_induct)
  case (step y z)
  then have "batch_inv limit ds y" using batch_run_inv [of limit b y ds] by (simp add: batch_run_def)
  then have "batch_measure z < batch_measure y" using batch_step_measure [OF step(2)] by (simp add: batch_inv_def)
  then show ?case using step by simp
qed simp

lemma batch_progress:
  assumes "scheduler_inv (bt_scheduler b)" and "1 \<le> limit" and "bt_phase b \<notin> {Finished, Aborted}"
  shows "\<exists>b'. batch_step limit b b'"
proof (cases "must_wait limit b")
  case True
  then have "bt_active b \<noteq> {#}" using assms(2) by (auto simp: must_wait_def split: batch_phase.splits)
  then show ?thesis using batch_wait [OF True, of "bt_active b"] by blast
next
  case False
  note nowait = False
  show ?thesis
  proof (cases "bt_phase b = Awaiting")
    case True
    then show ?thesis using nowait batch_finish [of b limit] by (auto simp: must_wait_def)
  next
    case False
    then have ph: "bt_phase b = Dispatching" using assms(3) by (cases "bt_phase b") auto
    show ?thesis
    proof (cases "scheduler_bool (bt_scheduler b) \<and> \<not> bt_draining b")
      case True
      then have "waiting (bt_scheduler b) \<noteq> {#}" using scheduler_bool_waiting [OF assms(1)] by simp
      then obtain d s where "scheduler_pop (bt_scheduler b) = (Inr (Some d), s)" using fair.pop_next [OF assms(1)] by blast
      then show ?thesis using batch_spawn [OF ph, of limit d s] True nowait ph by (auto simp: must_wait_def)
    next
      case False
      then show ?thesis using batch_break [OF ph, of limit] nowait ph by (auto simp: must_wait_def)
    qed
  qed
qed



end
