(* ===== verification/Publisher.thy ===== *)
theory Publisher
  imports Work_Properties Shared_Database
begin

text \<open>
  \<^verbatim>\<open>queueing/publisher.py\<close>: the outbox publisher claims outgoing messages, adds each to the stream and then
  completes it in the database. The transport is code behind a protocol: what each call of \<^verbatim>\<open>publish\<close> does
  (whether the entry reached the stream, and what it returns or raises) is a parameter. The actions of
  the publisher are recorded in order.
\<close>

section \<open>Envelopes\<close>

definition payload_uuid :: "json_obj \<Rightarrow> string \<Rightarrow> uuid res" where
  "payload_uuid p k =
     res_bind (payload_item p k) (\<lambda>v.
     case uuid_of_str (json_str v) of
       None \<Rightarrow> Inl (ValueError ''badly formed hexadecimal UUID string'')
     | Some u \<Rightarrow> Inr u)"

definition routing_ids :: "json_obj \<Rightarrow> (uuid \<times> uuid \<times> uuid option) res" where
  "routing_ids p =
     res_bind (payload_uuid p ''work_id'') (\<lambda>work_id.
     res_bind (payload_uuid p ''correlation_id'') (\<lambda>corr.
     res_bind (if map_of p ''causation_id'' \<in> {None, Some JNull} then Inr None
       else res_bind (payload_uuid p ''causation_id'') (\<lambda>u. Inr (Some u))) (\<lambda>caus.
     Inr (work_id, corr, caus))))"

definition publisher_envelope :: "string \<Rightarrow> ClaimedOutboxMessage \<Rightarrow> datetime \<Rightarrow> MessageEnvelope res" where
  "publisher_envelope tenant c now =
     (let m = cl_message c in
      case routing_ids (om_payload m) of
        Inl _ \<Rightarrow> Inl (PermanentQueueError ''outbox payload lacks work routing metadata'')
      | Inr (work_id, corr, caus) \<Rightarrow>
          res_bind (require (case map_of (om_headers m) ''tenant_id'' of
              None \<Rightarrow> True | Some JNull \<Rightarrow> True | Some h \<Rightarrow> json_str h = tenant)
            (PermanentQueueError ''outbox tenant header mismatch'')) (\<lambda>_.
          init_MessageEnvelope (thaw_items (om_payload m)) (thaw_items (om_headers m))
            \<lparr>me_message_id = om_message_id m, me_tenant_id = tenant, me_work_id = work_id, me_event_id = om_event_id m,
             me_destination = om_destination m, me_correlation_id = corr, me_causation_id = caus,
             me_occurred_at = now, me_payload = [], me_headers = [], me_schema_version = 1\<rparr>))"

definition default_retry_delay :: "int \<Rightarrow> int" where
  "default_retry_delay attempt = min 300 (2 ^ nat (min attempt 8)) * 1000000"

section \<open>Publishing\<close>

datatype publisher_action =
    StreamAdded MessageEnvelope
  | MarkedPublished uuid
  | MarkedFailed uuid
  | MarkedDeadLettered uuid

record publisher_world =
  pb_shared :: shared_db
  pb_sends :: nat
  pb_log :: "publisher_action list"

text \<open>\<open>pb_publish n m\<close>: whether the \<open>n\<close>th call adds the envelope \<open>m\<close> to the stream, and the result of the call.\<close>

record OutboxPublisher =
  pb_publisher_id :: string
  pb_batch_size :: int
  pb_lease_duration :: int
  pb_retry_delay :: "int \<Rightarrow> int"
  pb_publish :: "nat \<Rightarrow> MessageEnvelope \<Rightarrow> bool \<times> unit res"
  pb_others :: "nat \<Rightarrow> db \<Rightarrow> db"
  pb_clock :: "nat \<Rightarrow> instant"

definition init_OutboxPublisher :: "OutboxPublisher \<Rightarrow> OutboxPublisher res" where
  "init_OutboxPublisher p =
     res_bind (require (pb_publisher_id p \<noteq> []) (ValueError ''publisher_id is required'')) (\<lambda>_.
     res_bind (require (1 \<le> pb_batch_size p \<and> pb_batch_size p \<le> 100) (ValueError ''batch_size must be between 1 and 100'')) (\<lambda>_.
     res_bind (require (0 < pb_lease_duration p) (ValueError ''lease_duration must be positive'')) (\<lambda>_.
     Inr p)))"

definition repository_call ::
  "OutboxPublisher \<Rightarrow> (nat \<Rightarrow> (db, 'a) op) \<Rightarrow> publisher_action list \<Rightarrow> (publisher_world, 'a) op" where
  "repository_call p m acts w = (case shared_call (pb_others p) m (pb_shared w) of
     (Inl e, s) \<Rightarrow> (Inl e, w\<lparr>pb_shared := s\<rparr>)
   | (Inr a, s) \<Rightarrow> (Inr a, w\<lparr>pb_shared := s, pb_log := pb_log w @ acts\<rparr>))"

definition queue_publish :: "OutboxPublisher \<Rightarrow> MessageEnvelope \<Rightarrow> (publisher_world, unit) op" where
  "queue_publish p m w = (case pb_publish p (pb_sends w) m of
     (added, r) \<Rightarrow> (r, w\<lparr>pb_sends := pb_sends w + 1, pb_log := pb_log w @ (if added then [StreamAdded m] else [])\<rparr>))"

fun is_retryable_queue_error :: "py_error \<Rightarrow> bool" where
  "is_retryable_queue_error (RetryableQueueError _) = True"
| "is_retryable_queue_error _ = False"

fun is_permanent_queue_error :: "py_error \<Rightarrow> bool" where
  "is_permanent_queue_error (PermanentQueueError _) = True"
| "is_permanent_queue_error (PoisonMessageError _) = True"
| "is_permanent_queue_error _ = False"

datatype publish_outcome = Published | Superseded | Failed

definition mark_failed ::
  "OutboxPublisher \<Rightarrow> string \<Rightarrow> ClaimedOutboxMessage \<Rightarrow> datetime \<Rightarrow> string \<Rightarrow> (publisher_world, unit) op" where
  "mark_failed p tenant c now code =
     op_bind (op_lift (dt_plus now (pb_retry_delay p (cl_attempt_count c)))) (\<lambda>retry_at.
     repository_call p (\<lambda>_. mark_outbox_failed tenant (om_message_id (cl_message c)) (cl_lease_owner c)
       (cl_lease_expires_at c) retry_at code) [MarkedFailed (om_message_id (cl_message c))])"

definition send_claim ::
  "OutboxPublisher \<Rightarrow> string \<Rightarrow> ClaimedOutboxMessage \<Rightarrow> datetime \<Rightarrow> MessageEnvelope \<Rightarrow> (publisher_world, publish_outcome) op" where
  "send_claim p tenant c now m =
     op_catch
       (op_bind (queue_publish p m) (\<lambda>_.
        op_bind (repository_call p (\<lambda>_. mark_outbox_published tenant (om_message_id (cl_message c)) (cl_lease_owner c)
          (cl_lease_expires_at c) now) [MarkedPublished (om_message_id (cl_message c))]) (\<lambda>_.
        op_return Published)))
       (\<lambda>e. if is_concurrency_error e then op_return Superseded else op_raise e)"

definition publish_claim ::
  "OutboxPublisher \<Rightarrow> string \<Rightarrow> ClaimedOutboxMessage \<Rightarrow> datetime \<Rightarrow> (publisher_world, publish_outcome) op" where
  "publish_claim p tenant c now =
     op_catch
       (op_bind (op_lift (publisher_envelope tenant c now)) (\<lambda>m. send_claim p tenant c now m))
       (\<lambda>e. if is_retryable_queue_error e then
              op_bind (mark_failed p tenant c now ''redis_unavailable'') (\<lambda>_. op_return Failed)
            else if is_permanent_queue_error e then
              op_bind (repository_call p (\<lambda>_. mark_outbox_dead_lettered tenant (om_message_id (cl_message c)) (cl_lease_owner c)
                (cl_lease_expires_at c) ''invalid_envelope'') [MarkedDeadLettered (om_message_id (cl_message c))]) (\<lambda>_.
              op_return Failed)
            else op_raise e)"

record PublishBatchResult =
  br_claimed :: int
  br_published :: int
  br_failed :: int

text \<open>\<open>stop n\<close>: whether the shutdown event is set when the \<open>n\<close>th claim is reached.\<close>

primrec publish_claims ::
  "OutboxPublisher \<Rightarrow> string \<Rightarrow> datetime \<Rightarrow> (nat \<Rightarrow> bool) \<Rightarrow> nat \<Rightarrow> ClaimedOutboxMessage list
     \<Rightarrow> (publisher_world, int \<times> int) op" where
  "publish_claims p tenant now stop n [] = op_return (0, 0)"
| "publish_claims p tenant now stop n (c # cs) =
     (if stop n then op_return (0, 0) else
      op_bind (publish_claim p tenant c now) (\<lambda>out.
      op_bind (publish_claims p tenant now stop (Suc n) cs) (\<lambda>(published, failed).
      op_return (case out of
        Published \<Rightarrow> (published + 1, failed) | Superseded \<Rightarrow> (published, failed) | Failed \<Rightarrow> (published, failed + 1)))))"

definition publish_batch ::
  "OutboxPublisher \<Rightarrow> string \<Rightarrow> datetime \<Rightarrow> (nat \<Rightarrow> bool) \<Rightarrow> (publisher_world, PublishBatchResult) op" where
  "publish_batch p tenant now stop =
     op_bind (op_require (dt_aware now) (ValueError ''now must be timezone-aware'')) (\<lambda>_.
     op_bind (op_lift (dt_plus now (pb_lease_duration p))) (\<lambda>expires_at.
     op_bind (repository_call p (\<lambda>n. claim_outbox (pb_clock p n) tenant (pb_publisher_id p) expires_at now
       (pb_batch_size p) (Some ''aegis.work'')) []) (\<lambda>claims.
     op_bind (publish_claims p tenant now stop 0 claims) (\<lambda>(published, failed).
     op_return \<lparr>br_claimed = int (length claims), br_published = published, br_failed = failed\<rparr>))))"

section \<open>What is published\<close>

text \<open>
  Every completed message was added to the stream before it was completed: reading the log in order, with the
  identifiers added so far.
\<close>

primrec completes_added :: "uuid set \<Rightarrow> publisher_action list \<Rightarrow> bool" where
  "completes_added ids [] = True"
| "completes_added ids (a # as) = (case a of
     StreamAdded m \<Rightarrow> completes_added (insert (me_message_id m) ids) as
   | MarkedPublished i \<Rightarrow> i \<in> ids \<and> completes_added ids as
   | _ \<Rightarrow> completes_added ids as)"

definition marked_count :: "publisher_action list \<Rightarrow> int" where
  "marked_count acts = int (length (filter (\<lambda>a. case a of MarkedPublished _ \<Rightarrow> True | _ \<Rightarrow> False) acts))"

lemma completes_added_mono: "completes_added ids as \<Longrightarrow> ids \<subseteq> ids' \<Longrightarrow> completes_added ids' as"
proof (induction as arbitrary: ids ids')
  case (Cons a as)
  then show ?case by (cases a) (auto, meson insert_mono)
qed simp

lemma completes_added_append:
  "completes_added ids as \<Longrightarrow> completes_added {} bs \<Longrightarrow> completes_added ids (as @ bs)"
  by (induction as arbitrary: ids) (auto split: publisher_action.splits intro: completes_added_mono)

lemma marked_count_simps [simp]:
  "marked_count [] = 0" "marked_count (a # as) = (case a of MarkedPublished _ \<Rightarrow> 1 | _ \<Rightarrow> 0) + marked_count as"
  "marked_count (as @ bs) = marked_count as + marked_count bs"
  by (auto simp: marked_count_def split: publisher_action.splits)

definition outcome_logged :: "publisher_action list \<Rightarrow> publish_outcome res \<Rightarrow> bool" where
  "outcome_logged acts r = (completes_added {} acts \<and> marked_count acts = (if r = Inr Published then 1 else 0))"

lemma repository_call_log:
  "repository_call p m acts w = (r, w') \<Longrightarrow> pb_log w' = pb_log w @ (case r of Inl _ \<Rightarrow> [] | Inr _ \<Rightarrow> acts)"
  by (auto simp: repository_call_def split: prod.splits sum.splits)

lemma publisher_envelope_id: "publisher_envelope t c now = Inr m \<Longrightarrow> me_message_id m = om_message_id (cl_message c)"
  by (auto simp: publisher_envelope_def init_MessageEnvelope_def Let_def res_bind_Inr_iff split: sum.splits)

definition logs :: "(publisher_action list \<Rightarrow> 'a res \<Rightarrow> bool) \<Rightarrow> (publisher_world, 'a) op \<Rightarrow> bool" where
  "logs P m = (\<forall>w r w'. m w = (r, w') \<longrightarrow> (\<exists>acts. pb_log w' = pb_log w @ acts \<and> P acts r))"

lemma send_claim_logs:
  assumes "me_message_id m = om_message_id (cl_message c)"
    and "\<And>n. snd (pb_publish p n m) = Inr () \<Longrightarrow> fst (pb_publish p n m)"
  shows "logs outcome_logged (send_claim p t c now m)"
  unfolding logs_def
proof (intro allI impI)
  fix w r w'
  assume run: "send_claim p t c now m w = (r, w')"
  let ?i = "om_message_id (cl_message c)"
  obtain added q where pub: "pb_publish p (pb_sends w) m = (added, q)" by fastforce
  let ?w1 = "w\<lparr>pb_sends := pb_sends w + 1, pb_log := pb_log w @ (if added then [StreamAdded m] else [])\<rparr>"
  have add: "q = Inr u \<Longrightarrow> added" for u using assms(2) [of "pb_sends w"] pub by simp
  obtain k w2 where call: "repository_call p (\<lambda>_. mark_outbox_published t ?i (cl_lease_owner c) (cl_lease_expires_at c) now)
      [MarkedPublished ?i] ?w1 = (k, w2)" by fastforce
  have log2: "pb_log w2 = pb_log ?w1 @ (case k of Inl _ \<Rightarrow> [] | Inr _ \<Rightarrow> [MarkedPublished ?i])"
    by (rule repository_call_log [OF call])
  show "\<exists>acts. pb_log w' = pb_log w @ acts \<and> outcome_logged acts r"
  proof (cases q)
    case (Inl e)
    then have "pb_log w' = pb_log w @ (if added then [StreamAdded m] else []) \<and> r \<noteq> Inr Published"
      using run pub by (auto simp: send_claim_def op_catch_def op_bind_def queue_publish_def op_return_def op_raise_def split: if_splits)
    then show ?thesis by (auto simp: outcome_logged_def)
  next
    case (Inr u)
    then have "w' = w2 \<and> (case k of Inl _ \<Rightarrow> r \<noteq> Inr Published | Inr _ \<Rightarrow> r = Inr Published)"
      using run pub call by (auto simp: send_claim_def op_catch_def op_bind_def queue_publish_def op_return_def op_raise_def
          split: if_splits sum.splits)
    then show ?thesis using log2 add [OF Inr] assms(1) by (auto simp: outcome_logged_def split: sum.splits)
  qed
qed

lemma mark_failed_logs:
  assumes "mark_failed p t c now code w = (r, w')"
  shows "pb_log w' = pb_log w @ (case r of Inl _ \<Rightarrow> [] | Inr _ \<Rightarrow> [MarkedFailed (om_message_id (cl_message c))])"
proof (cases "dt_plus now (pb_retry_delay p (cl_attempt_count c))")
  case (Inl e)
  then show ?thesis using assms by (auto simp: mark_failed_def op_bind_def op_lift_def)
next
  case (Inr ra)
  then have "repository_call p (\<lambda>_. mark_outbox_failed t (om_message_id (cl_message c)) (cl_lease_owner c)
       (cl_lease_expires_at c) ra code) [MarkedFailed (om_message_id (cl_message c))] w = (r, w')"
    using assms by (simp add: mark_failed_def op_bind_def op_lift_def)
  then show ?thesis by (rule repository_call_log)
qed

lemma publish_claim_logs:
  assumes pub: "\<And>n m. snd (pb_publish p n m) = Inr () \<Longrightarrow> fst (pb_publish p n m)"
  shows "logs outcome_logged (publish_claim p t c now)"
  unfolding logs_def
proof (intro allI impI)
  fix w r w'
  assume run: "publish_claim p t c now w = (r, w')"
  let ?send = "op_bind (op_lift (publisher_envelope t c now)) (\<lambda>m. send_claim p t c now m)"
  obtain q w1 where send: "?send w = (q, w1)" by fastforce
  have "\<exists>acts. pb_log w1 = pb_log w @ acts \<and> outcome_logged acts q"
  proof (cases "publisher_envelope t c now")
    case (Inl e)
    then show ?thesis using send by (auto simp: op_bind_def op_lift_def outcome_logged_def)
  next
    case (Inr m)
    then have "send_claim p t c now m w = (q, w1)" using send by (simp add: op_bind_def op_lift_def)
    then show ?thesis using send_claim_logs [OF publisher_envelope_id [OF Inr], of p t now] pub by (simp add: logs_def)
  qed
  then obtain acts where acts: "pb_log w1 = pb_log w @ acts" "outcome_logged acts q" by blast
  show "\<exists>acts. pb_log w' = pb_log w @ acts \<and> outcome_logged acts r"
  proof (cases q)
    case (Inr a)
    then show ?thesis using run send acts by (auto simp: publish_claim_def op_catch_def)
  next
    case (Inl e)
    then have none: "completes_added {} acts" "marked_count acts = 0" using acts(2) by (simp_all add: outcome_logged_def)
    let ?dead = "repository_call p (\<lambda>_. mark_outbox_dead_lettered t (om_message_id (cl_message c)) (cl_lease_owner c)
                (cl_lease_expires_at c) ''invalid_envelope'') [MarkedDeadLettered (om_message_id (cl_message c))]"
    have rest: "r \<noteq> Inr Published \<and> (\<exists>more \<in> {[], [MarkedFailed (om_message_id (cl_message c))], [MarkedDeadLettered (om_message_id (cl_message c))]}.
        pb_log w' = pb_log w1 @ more)"
      using run send Inl mark_failed_logs [of p t c now "''redis_unavailable''" w1] repository_call_log [of p _ _ w1]
      by (auto simp: publish_claim_def op_catch_def op_bind_def op_return_def op_raise_def split: if_splits prod.splits sum.splits) force+
    then obtain more where "pb_log w' = pb_log w @ acts @ more" "completes_added {} more" "marked_count more = 0"
      using acts(1) by auto
    then show ?thesis using rest none by (auto simp: outcome_logged_def completes_added_append intro!: exI [of _ "acts @ more"])
  qed
qed

definition batch_logged :: "publisher_action list \<Rightarrow> (int \<times> int) res \<Rightarrow> bool" where
  "batch_logged acts r = (completes_added {} acts \<and> (\<forall>i j. r = Inr (i, j) \<longrightarrow> marked_count acts = i))"

lemma publish_claims_logs:
  assumes pub: "\<And>n m. snd (pb_publish p n m) = Inr () \<Longrightarrow> fst (pb_publish p n m)"
  shows "logs batch_logged (publish_claims p t now stop n cs)"
proof (induction cs arbitrary: n)
  case Nil
  then show ?case by (auto simp: logs_def op_return_def batch_logged_def)
next
  case (Cons c cs)
  show ?case unfolding logs_def
  proof (intro allI impI)
    fix w r w'
    assume run: "publish_claims p t now stop n (c # cs) w = (r, w')"
    obtain q w1 where one: "publish_claim p t c now w = (q, w1)" by fastforce
    obtain acts where acts: "pb_log w1 = pb_log w @ acts" "outcome_logged acts q"
      using publish_claim_logs [OF pub, of t c now] one unfolding logs_def by blast
    obtain q2 w2 where two: "publish_claims p t now stop (Suc n) cs w1 = (q2, w2)" by fastforce
    obtain more where more: "pb_log w2 = pb_log w1 @ more" "batch_logged more q2"
      using Cons.IH two unfolding logs_def by blast
    show "\<exists>acts. pb_log w' = pb_log w @ acts \<and> batch_logged acts r"
    proof (cases "stop n")
      case True
      then show ?thesis using run by (auto simp: op_return_def batch_logged_def)
    next
      case False
      show ?thesis
      proof (cases q)
        case (Inl e)
        then show ?thesis using run False one acts by (auto simp: op_bind_def batch_logged_def outcome_logged_def)
      next
        case (Inr out)
        then have "w' = w2 \<and> (\<forall>i j. r = Inr (i, j) \<longrightarrow> (\<exists>i' j'. q2 = Inr (i', j') \<and> i = i' + (if out = Published then 1 else 0)))"
          using run False one two
          by (auto simp: op_bind_def op_return_def split: sum.splits publish_outcome.splits prod.splits)
        then show ?thesis
          using acts more Inr
          by (auto simp: batch_logged_def outcome_logged_def completes_added_append intro!: exI [of _ "acts @ more"])
      qed
    qed
  qed
qed

section \<open>Properties\<close>

text \<open>
  C31: a message is completed only after it was added to the stream. Provided the transport's \<^verbatim>\<open>publish\<close> returns only
  when the entry is in the stream, every message a batch marks as published was added before under the same identifier, whatever
  else raises and whatever other processes do to the database; and the count the batch reports is the number of messages it marked.
\<close>

theorem completed_only_after_added:
  assumes "\<And>n m. snd (pb_publish p n m) = Inr () \<Longrightarrow> fst (pb_publish p n m)"
    and "publish_batch p t now stop w = (r, w')"
  shows "\<exists>acts. pb_log w' = pb_log w @ acts \<and> completes_added {} acts
    \<and> (\<forall>x. r = Inr x \<longrightarrow> br_published x = marked_count acts)"
proof (cases "dt_aware now \<and> (\<exists>ex. dt_plus now (pb_lease_duration p) = Inr ex)")
  case False
  then have "w' = w \<and> (\<exists>e. r = Inl e)"
    using assms(2) by (auto simp: publish_batch_def op_eval split: sum.splits if_splits)
  then show ?thesis by auto
next
  case True
  then obtain ex where ex: "dt_plus now (pb_lease_duration p) = Inr ex" by blast
  let ?claim = "repository_call p (\<lambda>n. claim_outbox (pb_clock p n) t (pb_publisher_id p) ex now
       (pb_batch_size p) (Some ''aegis.work'')) []"
  obtain q w1 where claim: "?claim w = (q, w1)" by fastforce
  have log1: "pb_log w1 = pb_log w" using repository_call_log [OF claim] by (simp split: sum.splits)
  show ?thesis
  proof (cases q)
    case (Inl e)
    then show ?thesis using assms(2) True ex claim log1 by (auto simp: publish_batch_def op_eval)
  next
    case (Inr cs)
    obtain q2 w2 where loop: "publish_claims p t now stop 0 cs w1 = (q2, w2)" by fastforce
    obtain acts where acts: "pb_log w2 = pb_log w @ acts" "batch_logged acts q2"
      using publish_claims_logs [OF assms(1), of t now stop 0 cs] loop log1 unfolding logs_def by metis
    have "w' = w2 \<and> (\<forall>x. r = Inr x \<longrightarrow> (\<exists>j. q2 = Inr (br_published x, j)))"
      using assms(2) True ex claim Inr loop by (auto simp: publish_batch_def op_eval split: sum.splits)
    with acts show ?thesis by (auto simp: batch_logged_def)
  qed
qed

lemma request_payload_wf: "request_ok r \<Longrightarrow> json_obj_wf (request_payload r)"
  by (auto simp: request_payload_def json_obj_wf_def request_ok_def json_opt_uuid_def split: option.splits)

lemma routing_ids_request:
  "routing_ids (request_payload r) = Inr (rq_work_id r, rq_correlation_id r, rq_causation_id r)"
  by (cases "rq_causation_id r")
    (simp_all add: routing_ids_def payload_uuid_def payload_item_def request_payload_def uuid_of_str_str json_opt_uuid_def)

lemma json_obj_eq_refl: "json_obj_wf d \<Longrightarrow> json_obj_eq d d"
  unfolding json_obj_eq_def json_obj_wf_def by (rule json_eq_refl)

text \<open>A claimed row that announces the request \<open>r\<close> of a tenant.\<close>

definition announces :: "outbox_row \<Rightarrow> WorkRequest \<Rightarrow> bool" where
  "announces b r = (ob_tenant_id b = rq_tenant_id r \<and> ob_status b \<in> {OB_LEASED, OB_PUBLISHED} \<and> ob_destination b \<noteq> []
     \<and> ob_payload b = request_payload r \<and> json_obj_wf (ob_headers b)
     \<and> map_of (ob_headers b) ''tenant_id'' = Some (JStr (rq_tenant_id r)))"

lemma publisher_envelope_announced:
  assumes "announces b r" and "request_ok r" and "claimed_message b = Inr c" and "dt_aware now"
  shows "publisher_envelope (rq_tenant_id r) c now = Inr
    \<lparr>me_message_id = ob_message_id b, me_tenant_id = rq_tenant_id r, me_work_id = rq_work_id r, me_event_id = ob_event_id b,
     me_destination = ob_destination b, me_correlation_id = rq_correlation_id r, me_causation_id = rq_causation_id r,
     me_occurred_at = now, me_payload = ob_payload b, me_headers = ob_headers b, me_schema_version = 1\<rparr>"
proof -
  have m: "cl_message c = \<lparr>om_message_id = ob_message_id b, om_destination = ob_destination b, om_payload = ob_payload b,
        om_headers = ob_headers b, om_available_at = dt_of_instant (ob_available_at b),
        om_max_attempts = ob_max_attempts b, om_event_id = ob_event_id b\<rparr>"
    using assms(3) by (auto simp: claimed_message_def init_OutboxMessage_def res_bind_Inr_iff)
  have "rq_tenant_id r \<noteq> []" using assms(2) by (simp add: request_ok_def)
  then show ?thesis
    using assms(1,4) request_payload_wf [OF assms(2)]
    by (simp add: publisher_envelope_def Let_def m announces_def routing_ids_request init_MessageEnvelope_def freeze_json_mapping_thaw)
qed


definition announcing_row :: outbox_row where
  "announcing_row = (new_outbox_row ''acme'' (sample_message\<lparr>om_payload := request_payload sample_request,
     om_headers := [(''tenant_id'', JStr ''acme'')]\<rparr>))\<lparr>ob_status := OB_PUBLISHED, ob_published_at := Some 0\<rparr>"

definition announcing_db :: db where
  "announcing_db = published_db\<lparr>db_outbox := [announcing_row]\<rparr>"

lemma announcing_row_facts:
  "outbox_inv announcing_db" "announces announcing_row sample_request" "\<exists>c. claimed_message announcing_row = Inr c"
  by (simp_all add: announcing_db_def outbox_inv_def outbox_row_ok_def announcing_row_def new_outbox_row_def sample_message_def
      announces_def sample_request_def json_obj_wf_def claimed_message_def init_OutboxMessage_def)


definition sample_publisher :: OutboxPublisher where
  "sample_publisher = \<lparr>pb_publisher_id = ''publisher'', pb_batch_size = 50, pb_lease_duration = 30000000,
     pb_retry_delay = default_retry_delay, pb_publish = (\<lambda>_ _. (True, Inr ())), pb_others = (\<lambda>_ s. s), pb_clock = (\<lambda>n. int n + 7)\<rparr>"

definition pending_world :: publisher_world where
  "pending_world = \<lparr>pb_shared = \<lparr>sh_db = announcing_db\<lparr>db_outbox := [announcing_row\<lparr>ob_status := OB_PENDING, ob_published_at := None\<rparr>]\<rparr>,
     sh_calls = 0\<rparr>, pb_sends = 0, pb_log = []\<rparr>"

theorem completed_only_after_added_witness:
  "let run = publish_batch sample_publisher ''acme'' (dt_of_instant 7) (\<lambda>_. False) pending_world in
   \<exists>acts. pb_log (snd run) = acts \<and> completes_added {} acts
     \<and> (case fst run of Inl _ \<Rightarrow> True | Inr x \<Rightarrow> br_published x = marked_count acts)"
  using completed_only_after_added [OF _ surjective_pairing, of sample_publisher "''acme''" "dt_of_instant 7" "\<lambda>_. False" pending_world]
  by (auto simp: sample_publisher_def pending_world_def Let_def split: sum.splits)

end
