(* ===== verification/Decimals.thy ===== *)
theory Decimals
  imports Json_Values Complex_Main
begin

text \<open>
  What the code uses of Python's \<^verbatim>\<open>decimal\<close> module, in its default context: numbers as sign, coefficient and
  exponent, the constructor from text, sums, products and quotients rounded half-even to 28 digits,
  comparisons, \<^verbatim>\<open>str\<close>; and PostgreSQL's \<^verbatim>\<open>numeric(p, s)\<close> columns. The limits on exponents (a magnitude of about
  one million) are not modelled, and the sum or product of infinities that Python refuses is a NaN here.
\<close>

section \<open>Numbers\<close>

datatype decimal = Dec bool nat int | Dec_Inf bool | Dec_NaN

fun is_finite :: "decimal \<Rightarrow> bool" where
  "is_finite (Dec _ _ _) = True"
| "is_finite _ = False"

definition pow10 :: "int \<Rightarrow> rat" where
  "pow10 e = (if 0 \<le> e then 10 ^ nat e else 1 / 10 ^ nat (- e))"

fun dec_value :: "decimal \<Rightarrow> rat" where
  "dec_value (Dec neg c e) = (if neg then - (of_nat c * pow10 e) else of_nat c * pow10 e)"
| "dec_value _ = 0"

definition dec_of_int :: "int \<Rightarrow> decimal" where
  "dec_of_int i = Dec (i < 0) (nat \<bar>i\<bar>) 0"

text \<open>\<^verbatim>\<open>a < b\<close> and \<^verbatim>\<open>a <= b\<close>; comparing with a NaN raises InvalidOperation.\<close>

fun dec_order :: "decimal \<Rightarrow> int" where
  "dec_order (Dec_Inf True) = - 1"
| "dec_order (Dec_Inf False) = 1"
| "dec_order _ = 0"

definition dec_less :: "decimal \<Rightarrow> decimal \<Rightarrow> bool" where
  "dec_less a b = (dec_order a < dec_order b \<or> (dec_order a = 0 \<and> dec_order b = 0 \<and> dec_value a < dec_value b))"

definition dec_lt :: "decimal \<Rightarrow> decimal \<Rightarrow> bool res" where
  "dec_lt a b = (if a = Dec_NaN \<or> b = Dec_NaN then Inl (RuntimeError ''InvalidOperation'') else Inr (dec_less a b))"

section \<open>Rounding and arithmetic\<close>

function digit_count :: "nat \<Rightarrow> nat" where
  "digit_count n = (if n < 10 then 1 else Suc (digit_count (n div 10)))"
  by auto
termination by (relation "measure id") auto

declare digit_count.simps [simp del]

definition round_quotient :: "nat \<Rightarrow> nat \<Rightarrow> nat" where
  "round_quotient c m =
     (let q = c div m; r = c mod m in
      if 2 * r < m then q else if m < 2 * r then q + 1 else if even q then q else q + 1)"

definition dec_fix :: "bool \<Rightarrow> nat \<Rightarrow> int \<Rightarrow> decimal" where
  "dec_fix neg c e =
     (if digit_count c \<le> 28 then Dec neg c e
      else let k = digit_count c - 28; q = round_quotient c (10 ^ k) in
           if q = 10 ^ 28 then Dec neg (10 ^ 27) (e + int k + 1) else Dec neg q (e + int k))"

definition signed :: "bool \<Rightarrow> nat \<Rightarrow> int" where
  "signed neg c = (if neg then - int c else int c)"

definition dec_add :: "decimal \<Rightarrow> decimal \<Rightarrow> decimal" where
  "dec_add a b = (case (a, b) of
     (Dec s1 c1 e1, Dec s2 c2 e2) \<Rightarrow>
       (let e = min e1 e2;
            i = signed s1 c1 * 10 ^ nat (e1 - e) + signed s2 c2 * 10 ^ nat (e2 - e) in
        dec_fix (i < 0 \<or> (i = 0 \<and> s1 \<and> s2)) (nat \<bar>i\<bar>) e)
   | (Dec_NaN, _) \<Rightarrow> Dec_NaN
   | (_, Dec_NaN) \<Rightarrow> Dec_NaN
   | (Dec_Inf s1, Dec_Inf s2) \<Rightarrow> if s1 = s2 then Dec_Inf s1 else Dec_NaN
   | (Dec_Inf s1, _) \<Rightarrow> Dec_Inf s1
   | (_, Dec_Inf s2) \<Rightarrow> Dec_Inf s2)"

fun dec_neg :: "decimal \<Rightarrow> decimal" where
  "dec_neg (Dec s c e) = Dec (\<not> s) c e"
| "dec_neg (Dec_Inf s) = Dec_Inf (\<not> s)"
| "dec_neg Dec_NaN = Dec_NaN"

definition dec_sub :: "decimal \<Rightarrow> decimal \<Rightarrow> decimal" where
  "dec_sub a b = dec_add a (dec_neg b)"

definition dec_mult :: "decimal \<Rightarrow> decimal \<Rightarrow> decimal" where
  "dec_mult a b = (case (a, b) of
     (Dec s1 c1 e1, Dec s2 c2 e2) \<Rightarrow> dec_fix (s1 \<noteq> s2) (c1 * c2) (e1 + e2)
   | (Dec_NaN, _) \<Rightarrow> Dec_NaN
   | (_, Dec_NaN) \<Rightarrow> Dec_NaN
   | (Dec_Inf s1, Dec_Inf s2) \<Rightarrow> Dec_Inf (s1 \<noteq> s2)
   | (Dec_Inf s1, Dec s2 c2 _) \<Rightarrow> if c2 = 0 then Dec_NaN else Dec_Inf (s1 \<noteq> s2)
   | (Dec s1 c1 _, Dec_Inf s2) \<Rightarrow> if c1 = 0 then Dec_NaN else Dec_Inf (s1 \<noteq> s2))"

text \<open>
  The quotient by a finite non-zero number: 29 or 30 digits are computed, the last one made sticky when there is a remainder,
  and the result rounded; an exact quotient loses trailing zeros down to the ideal exponent.
\<close>

function strip_zeros :: "nat \<Rightarrow> int \<Rightarrow> int \<Rightarrow> nat \<times> int" where
  "strip_zeros c e ideal = (if e < ideal \<and> c mod 10 = 0 then strip_zeros (c div 10) (e + 1) ideal else (c, e))"
  by auto
termination by (relation "measure (\<lambda>(c, e, ideal). nat (ideal - e))") auto

declare strip_zeros.simps [simp del]

definition dec_divide :: "decimal \<Rightarrow> bool \<Rightarrow> nat \<Rightarrow> int \<Rightarrow> decimal" where
  "dec_divide a s2 c2 e2 = (case a of
     Dec s1 c1 e1 \<Rightarrow>
       if c1 = 0 then dec_fix (s1 \<noteq> s2) 0 (e1 - e2)
       else let shift = int (digit_count c2) - int (digit_count c1) + 29;
                e = e1 - e2 - shift;
                num = (if 0 \<le> shift then c1 * 10 ^ nat shift else c1);
                den = (if 0 \<le> shift then c2 else c2 * 10 ^ nat (- shift));
                q = num div den in
            if num mod den \<noteq> 0 then dec_fix (s1 \<noteq> s2) (if q mod 5 = 0 then q + 1 else q) e
            else (case strip_zeros q e (e1 - e2) of (q', e') \<Rightarrow> dec_fix (s1 \<noteq> s2) q' e')
   | Dec_Inf s1 \<Rightarrow> Dec_Inf (s1 \<noteq> s2)
   | Dec_NaN \<Rightarrow> Dec_NaN)"

section \<open>Text\<close>

definition dec_digits :: "string \<Rightarrow> nat option" where
  "dec_digits s = (case text_digits 10 s of None \<Rightarrow> None | Some ds \<Rightarrow> Some (digits_value 10 ds))"

definition split_at :: "char \<Rightarrow> string \<Rightarrow> string \<times> string option" where
  "split_at c s = (case dropWhile (\<lambda>x. x \<noteq> c) s of [] \<Rightarrow> (s, None) | _ # rest \<Rightarrow> (takeWhile (\<lambda>x. x \<noteq> c) s, Some rest))"

definition split_sign :: "string \<Rightarrow> bool \<times> string" where
  "split_sign s = (case s of
     [] \<Rightarrow> (False, [])
   | c # rest \<Rightarrow> if c = CHR ''-'' then (True, rest) else if c = CHR ''+'' then (False, rest) else (False, s))"

definition parse_exponent :: "string option \<Rightarrow> int option" where
  "parse_exponent t = (case t of
     None \<Rightarrow> Some 0
   | Some s \<Rightarrow> (case split_sign s of (neg, ds) \<Rightarrow>
       if ds = [] then None else map_option (\<lambda>n. signed neg n) (dec_digits ds)))"

definition parse_number :: "bool \<Rightarrow> string \<Rightarrow> decimal option" where
  "parse_number neg s =
     (case split_at CHR ''e'' s of (mantissa, ex) \<Rightarrow>
      case split_at CHR ''.'' mantissa of (whole, fraction) \<Rightarrow>
      let frac = (case fraction of None \<Rightarrow> [] | Some f \<Rightarrow> f) in
      if whole @ frac = [] then None
      else (case (dec_digits (whole @ frac), parse_exponent ex) of
         (Some c, Some e) \<Rightarrow> Some (Dec neg c (e - int (length frac)))
       | _ \<Rightarrow> None))"

definition decimal_of :: "string \<Rightarrow> decimal option" where
  "decimal_of text =
     (case split_sign (map ascii_lower (filter (\<lambda>c. c \<noteq> CHR ''_'') (py_strip text))) of (neg, s) \<Rightarrow>
      if s \<in> {''inf'', ''infinity''} then Some (Dec_Inf neg)
      else if (take 3 s = ''nan'' \<and> dec_digits (drop 3 s) \<noteq> None) \<or> (take 4 s = ''snan'' \<and> dec_digits (drop 4 s) \<noteq> None)
      then Some Dec_NaN
      else parse_number neg s)"

fun decimal_str :: "decimal \<Rightarrow> string" where
  "decimal_str (Dec neg c e) =
     (let ds = nat_str c; left = e + int (length ds);
          dot = (if e \<le> 0 \<and> - 6 < left then left else 1);
          body = (if dot \<le> 0 then ''0.'' @ replicate (nat (- dot)) CHR ''0'' @ ds
                  else if int (length ds) \<le> dot then ds @ replicate (nat dot - length ds) CHR ''0''
                  else take (nat dot) ds @ ''.'' @ drop (nat dot) ds);
          ex = (if left = dot then [] else ''E'' @ (if left - dot < 0 then ''-'' else ''+'') @ nat_str (nat \<bar>left - dot\<bar>)) in
      (if neg then ''-'' else []) @ body @ ex)"
| "decimal_str (Dec_Inf neg) = (if neg then ''-Infinity'' else ''Infinity'')"
| "decimal_str Dec_NaN = ''NaN''"

section \<open>Numeric columns\<close>

text \<open>
  A value stored in a column \<^verbatim>\<open>numeric(p, s)\<close>: the number of units of \<open>10\<close> to the power \<open>-s\<close>, rounded half away from zero,
  or None for NaN; a value with more than \<open>p\<close> digits, or an infinity, is a numeric overflow.
\<close>

type_synonym numeric = "int option"

definition round_half_away :: "rat \<Rightarrow> int" where
  "round_half_away x = (if 0 \<le> x then \<lfloor>x + 1 / 2\<rfloor> else - \<lfloor>1 / 2 - x\<rfloor>)"

definition numeric_store :: "nat \<Rightarrow> int \<Rightarrow> numeric option" where
  "numeric_store p u = (if \<bar>u\<bar> < 10 ^ p then Some (Some u) else None)"

fun numeric_of :: "nat \<Rightarrow> nat \<Rightarrow> decimal \<Rightarrow> numeric option" where
  "numeric_of p s (Dec neg c e) = numeric_store p (round_half_away (dec_value (Dec neg c e) * 10 ^ s))"
| "numeric_of p s (Dec_Inf _) = None"
| "numeric_of p s Dec_NaN = Some None"

definition numeric_add :: "numeric \<Rightarrow> numeric \<Rightarrow> numeric" where
  "numeric_add a b = (case (a, b) of (Some x, Some y) \<Rightarrow> Some (x + y) | _ \<Rightarrow> None)"

section \<open>Rounded sums are monotone\<close>

lemma dec_lt_finite: "is_finite a \<Longrightarrow> is_finite b \<Longrightarrow> dec_lt a b = Inr (dec_value a < dec_value b)"
  by (cases a; cases b) (simp_all add: dec_lt_def dec_less_def)

lemma is_finite_fix [simp]: "is_finite (dec_fix s c e)"
  by (simp add: dec_fix_def Let_def)

lemma is_finite_add [simp]: "is_finite a \<Longrightarrow> is_finite b \<Longrightarrow> is_finite (dec_add a b)"
  by (cases a; cases b) (simp_all add: dec_add_def Let_def)

lemma digit_count_bounds: "n < 10 ^ digit_count n \<and> (0 < n \<longrightarrow> 10 ^ (digit_count n - 1) \<le> n)"
proof (induction n rule: digit_count.induct)
  case (1 n)
  show ?case
  proof (cases "n < 10")
    case True
    then show ?thesis by (simp add: digit_count.simps [of n])
  next
    case False
    then have d: "digit_count n = Suc (digit_count (n div 10))" by (simp add: digit_count.simps [of n])
    have pos: "0 < digit_count m" for m by (subst digit_count.simps) simp
    have IH: "n div 10 < 10 ^ digit_count (n div 10)" "10 ^ (digit_count (n div 10) - 1) \<le> n div 10" using 1 False by auto
    have "n < 10 * 10 ^ digit_count (n div 10)" using IH(1) by (simp add: less_mult_imp_div_less div_less_iff_less_mult mult.commute)
    moreover have "10 * 10 ^ (digit_count (n div 10) - 1) \<le> n" using IH(2) by linarith
    moreover have "10 * 10 ^ (digit_count (n div 10) - 1) = (10::nat) ^ digit_count (n div 10)"
      using pos [of "n div 10"] by (simp add: power_eq_if)
    ultimately show ?thesis by (simp add: d)
  qed
qed

lemma digit_count_le_iff: "0 < n \<Longrightarrow> digit_count n \<le> k \<longleftrightarrow> n < 10 ^ k"
proof
  assume "0 < n" "digit_count n \<le> k"
  then show "n < 10 ^ k" using digit_count_bounds [of n] by (meson le_less_trans less_le_trans nle_le numeral_One one_le_numeral power_increasing)
next
  assume n: "0 < n" "n < 10 ^ k"
  then have "(10::nat) ^ (digit_count n - 1) < 10 ^ k" using digit_count_bounds [of n] by (meson le_less_trans)
  then show "digit_count n \<le> k" by (simp add: power_strict_increasing_iff)
qed

lemma digit_count_mono: "m \<le> n \<Longrightarrow> digit_count m \<le> digit_count n"
proof (cases "m = 0")
  case True
  then show ?thesis by (subst digit_count.simps) (simp add: Suc_le_eq, subst digit_count.simps, simp)
next
  case False
  assume "m \<le> n"
  then show ?thesis using digit_count_le_iff [of m "digit_count n"] digit_count_bounds [of n] False by simp
qed

lemma round_quotient_mono: "0 < m \<Longrightarrow> a \<le> b \<Longrightarrow> round_quotient a m \<le> round_quotient b m"
proof -
  assume m: "0 < m" and "a \<le> b"
  then have q: "a div m \<le> b div m" by (simp add: div_le_mono)
  show ?thesis
  proof (cases "a div m = b div m")
    case True
    then have "a mod m \<le> b mod m" using \<open>a \<le> b\<close> by (metis add_le_cancel_left div_mult_mod_eq)
    then show ?thesis using True by (simp add: round_quotient_def Let_def)
  next
    case False
    then show ?thesis using q by (simp add: round_quotient_def Let_def)
  qed
qed

lemma round_quotient_scale: "0 < j \<Longrightarrow> round_quotient (c * j) (m * j) = round_quotient c m"
  by (simp add: round_quotient_def Let_def mult_mod_left [symmetric])

lemma round_quotient_exact: "0 < m \<Longrightarrow> round_quotient (c * m) m = c"
  by (simp add: round_quotient_def)

text \<open>The value of a rounded number depends on the rounded value alone, in a monotone way.\<close>

lemma pow10_powi: "pow10 e = 10 powi e"
  by (simp add: pow10_def power_int_def field_simps)

lemma pow10_add: "pow10 (a + b) = pow10 a * pow10 b"
  by (simp add: pow10_powi power_int_add)

lemma pow10_nat: "pow10 (int k) = 10 ^ k"
  by (simp add: pow10_def)

lemma pow10_pos [simp]: "0 < pow10 e" "\<not> pow10 e \<le> 0"
  by (simp_all add: pow10_def not_le)

definition rounded :: "nat \<Rightarrow> rat" where
  "rounded c = (let k = digit_count c - 28 in of_nat (round_quotient c (10 ^ k)) * 10 ^ k)"

lemma dec_value_fix: "dec_value (dec_fix neg c e) = (if neg then - (rounded c * pow10 e) else rounded c * pow10 e)"
proof -
  define k where "k = digit_count c - 28"
  have q: "round_quotient c 1 = c" by (simp add: round_quotient_def)
  have 1: "pow10 (e + int k + 1) = 10 * (10 ^ k * pow10 e)"
    by (simp add: pow10_add pow10_nat) (simp add: pow10_def)
  have 2: "pow10 (e + int k) = 10 ^ k * pow10 e" by (simp add: pow10_add pow10_nat)
  show ?thesis
  proof (cases "digit_count c \<le> 28")
    case True
    then show ?thesis by (simp add: dec_fix_def rounded_def q [simplified])
  next
    case False
    then show ?thesis using 1 2 by (simp add: dec_fix_def rounded_def Let_def k_def [symmetric])
  qed
qed

lemma digit_count_scale: "0 < c \<Longrightarrow> digit_count (c * 10 ^ j) = digit_count c + j"
proof (induction j)
  case (Suc j)
  have "0 < c * 10 ^ j" using Suc.prems by simp
  then have "digit_count (c * 10 ^ j * 10) = Suc (digit_count (c * 10 ^ j))" by (subst digit_count.simps) simp
  then show ?case using Suc by (simp add: mult.assoc mult.commute [of 10])
qed simp

lemma rounded_scale: "rounded (c * 10 ^ j) = rounded c * 10 ^ j"
proof (cases "c = 0")
  case False
  then have d: "digit_count (c * 10 ^ j) = digit_count c + j" by (simp add: digit_count_scale)
  define k where "k = digit_count c + j - 28"
  have q: "round_quotient c 1 = c" for c by (simp add: round_quotient_def)
  show ?thesis
  proof (cases "28 \<le> digit_count c")
    case True
    then have "10 ^ k = (10::nat) ^ (digit_count c - 28) * 10 ^ j" "10 ^ k = (10::rat) ^ (digit_count c - 28) * 10 ^ j"
      by (simp_all add: k_def power_add [symmetric])
    then show ?thesis by (simp add: rounded_def Let_def d k_def [symmetric] round_quotient_scale)
  next
    case False
    then have "k \<le> j" by (simp add: k_def)
    then have "c * 10 ^ j = c * 10 ^ (j - k) * 10 ^ k" "(10::rat) ^ j = 10 ^ (j - k) * 10 ^ k"
      by (simp_all add: power_add [symmetric])
    then have "round_quotient (c * 10 ^ j) (10 ^ k) = c * 10 ^ (j - k)" by (metis round_quotient_exact zero_less_numeral zero_less_power)
    then show ?thesis using False \<open>10 ^ j = 10 ^ (j - k) * 10 ^ k\<close>
      by (simp add: rounded_def Let_def d k_def [symmetric] q [simplified])
  qed
qed (simp add: rounded_def round_quotient_def)

lemma rounded_bounds: "rounded c \<le> 10 ^ digit_count c" "0 < c \<Longrightarrow> 10 ^ (digit_count c - 1) \<le> rounded c"
proof -
  define k where "k = digit_count c - 28"
  have q: "round_quotient c 1 = c" by (simp add: round_quotient_def)
  note b = digit_count_bounds [of c]
  show "rounded c \<le> 10 ^ digit_count c"
  proof (cases "k = 0")
    case True
    have "of_nat c \<le> (of_nat (10 ^ digit_count c) :: rat)" using b by (intro of_nat_mono) simp
    then show ?thesis using True by (simp add: rounded_def k_def [symmetric] q [simplified])
  next
    case False
    then have d: "digit_count c = 28 + k" by (simp add: k_def)
    have "round_quotient c (10 ^ k) \<le> round_quotient (10 ^ 28 * 10 ^ k) (10 ^ k)"
      using b by (intro round_quotient_mono) (simp_all add: d power_add)
    then have "of_nat (round_quotient c (10 ^ k)) \<le> (of_nat (10 ^ 28) :: rat)" by (simp add: round_quotient_exact del: of_nat_power)
    then show ?thesis by (simp add: rounded_def k_def [symmetric] d power_add)
  qed
  show "10 ^ (digit_count c - 1) \<le> rounded c" if "0 < c"
  proof (cases "k = 0")
    case True
    have "of_nat (10 ^ (digit_count c - 1)) \<le> (of_nat c :: rat)" using b that by (intro of_nat_mono) simp
    then show ?thesis using True by (simp add: rounded_def k_def [symmetric] q [simplified])
  next
    case False
    then have d: "digit_count c - Suc 0 = 27 + k" by (simp add: k_def)
    have "round_quotient (10 ^ 27 * 10 ^ k) (10 ^ k) \<le> round_quotient c (10 ^ k)"
      using b that by (intro round_quotient_mono) (simp_all add: d power_add)
    then have "of_nat (10 ^ 27) \<le> (of_nat (round_quotient c (10 ^ k)) :: rat)" by (simp add: round_quotient_exact del: of_nat_power)
    then show ?thesis by (simp add: rounded_def k_def [symmetric] d power_add)
  qed
qed

lemma rounded_mono: "a \<le> b \<Longrightarrow> rounded a \<le> rounded b"
proof -
  assume ab: "a \<le> b"
  consider "digit_count a = digit_count b" | "digit_count a < digit_count b" using digit_count_mono [OF ab] by linarith
  then show ?thesis
  proof cases
    case 1
    then show ?thesis by (simp add: rounded_def Let_def round_quotient_mono ab)
  next
    case 2
    then have "0 < b" using ab by (cases "b = 0") auto
    have "(10::rat) ^ digit_count a \<le> 10 ^ (digit_count b - 1)" using 2 by (intro power_increasing) auto
    then show ?thesis using rounded_bounds(1) [of a] rounded_bounds(2) [OF \<open>0 < b\<close>] by linarith
  qed
qed

text \<open>A sum of non-negative numbers, which the context rounds, grows with its summands.\<close>

definition non_negative :: "decimal \<Rightarrow> bool" where
  "non_negative d = (is_finite d \<and> 0 \<le> dec_value d)"

lemma non_negative_units: "non_negative (Dec s c e) \<Longrightarrow> signed s c = int c"
  by (auto simp: non_negative_def signed_def mult_le_0_iff zero_less_mult_iff not_le split: if_splits)

lemma dec_add_units:
  assumes "non_negative (Dec s1 c1 e1)" and "non_negative (Dec s2 c2 e2)" and "e \<le> e1" and "e \<le> e2"
  shows "dec_value (dec_add (Dec s1 c1 e1) (Dec s2 c2 e2)) = rounded (c1 * 10 ^ nat (e1 - e) + c2 * 10 ^ nat (e2 - e)) * pow10 e"
proof -
  let ?m = "min e1 e2"
  let ?c = "c1 * 10 ^ nat (e1 - ?m) + c2 * 10 ^ nat (e2 - ?m)"
  have "dec_value (dec_add (Dec s1 c1 e1) (Dec s2 c2 e2)) = rounded ?c * pow10 ?m"
  proof -
    have i: "signed s1 c1 * 10 ^ nat (e1 - ?m) + signed s2 c2 * 10 ^ nat (e2 - ?m) = int ?c"
      using non_negative_units assms(1,2) by simp
    have r: "rounded 0 = 0" by (simp add: rounded_def round_quotient_def)
    show ?thesis unfolding dec_add_def Let_def by (auto simp: i dec_value_fix r simp del: of_nat_add of_nat_mult of_nat_power)
  qed
  moreover have "c1 * 10 ^ nat (e1 - e) + c2 * 10 ^ nat (e2 - e) = ?c * 10 ^ nat (?m - e)"
    using assms(3,4) by (simp add: algebra_simps power_add [symmetric] nat_add_distrib [symmetric])
  moreover have "pow10 ?m = 10 ^ nat (?m - e) * pow10 e"
    using assms(3,4) pow10_add [of "?m - e" e] pow10_nat [of "nat (?m - e)"] by simp
  ultimately show ?thesis by (simp add: rounded_scale)
qed

lemma dec_value_units: "non_negative (Dec s c e) \<Longrightarrow> f \<le> e \<Longrightarrow> dec_value (Dec s c e) = of_nat (c * 10 ^ nat (e - f)) * pow10 f"
proof -
  assume "non_negative (Dec s c e)" "f \<le> e"
  moreover have "pow10 e = 10 ^ nat (e - f) * pow10 f"
    using \<open>f \<le> e\<close> pow10_add [of "e - f" f] pow10_nat [of "nat (e - f)"] by simp
  ultimately show ?thesis using non_negative_units [of s c e] by (auto simp: signed_def)
qed

lemma dec_add_mono:
  assumes "non_negative a" and "non_negative b" and "non_negative c" and "dec_value a \<le> dec_value b"
  shows "dec_value (dec_add a c) \<le> dec_value (dec_add b c)"
proof -
  obtain s1 c1 e1 where a: "a = Dec s1 c1 e1" using assms(1) by (cases a) (simp_all add: non_negative_def)
  obtain s2 c2 e2 where b: "b = Dec s2 c2 e2" using assms(2) by (cases b) (simp_all add: non_negative_def)
  obtain s3 c3 e3 where c: "c = Dec s3 c3 e3" using assms(3) by (cases c) (simp_all add: non_negative_def)
  define f where "f = min e1 (min e2 e3)"
  have f: "f \<le> e1" "f \<le> e2" "f \<le> e3" by (simp_all add: f_def)
  have "of_nat (c1 * 10 ^ nat (e1 - f)) * pow10 f \<le> of_nat (c2 * 10 ^ nat (e2 - f)) * pow10 f"
    using assms(4) dec_value_units [OF assms(1) [unfolded a] f(1)] dec_value_units [OF assms(2) [unfolded b] f(2)] unfolding a b by simp
  then have "c1 * 10 ^ nat (e1 - f) \<le> c2 * 10 ^ nat (e2 - f)"
    unfolding mult_le_cancel_right_pos [OF pow10_pos(1)] of_nat_le_iff .
  then have "rounded (c1 * 10 ^ nat (e1 - f) + c3 * 10 ^ nat (e3 - f)) \<le> rounded (c2 * 10 ^ nat (e2 - f) + c3 * 10 ^ nat (e3 - f))"
    by (intro rounded_mono) simp
  then show ?thesis
    unfolding a b c dec_add_units [OF assms(1) [unfolded a] assms(3) [unfolded c] f(1,3)]
      dec_add_units [OF assms(2) [unfolded b] assms(3) [unfolded c] f(2,3)] mult_le_cancel_right_pos [OF pow10_pos(1)] .
qed

end
