(* ===== verification/Projection_Tables.thy ===== *)
theory Projection_Tables
  imports Event_Ledger Decimals
begin

text \<open>
  \<^verbatim>\<open>PostgresProjectionRepository\<close> of \<^verbatim>\<open>event_store/postgres.py\<close>: six read models with a checkpoint each, all
  in one database with the ledger they are computed from.
\<close>

section \<open>Tables\<close>

record checkpoint_row =
  ck_tenant_id :: string
  ck_projection_name :: string
  ck_last_global_position :: int

record run_status_row =
  rs_tenant_id :: string
  rs_run_id :: string
  rs_status :: string
  rs_aggregate_sequence :: int
  rs_last_global_position :: int
  rs_updated_at :: instant

record artifact_row =
  ar_tenant_id :: string
  ar_artifact_id :: uuid
  ar_run_id :: string
  ar_artifact_kind :: string
  ar_source_reference :: string
  ar_summary :: string
  ar_event_id :: uuid
  ar_global_position :: int

record pending_approval_row =
  pa_tenant_id :: string
  pa_approval_id :: uuid
  pa_run_id :: string
  pa_proposal_reference :: string
  pa_requested_at :: instant
  pa_event_id :: uuid
  pa_global_position :: int

record model_usage_row =
  mu_tenant_id :: string
  mu_request_id :: uuid
  mu_run_id :: uuid
  mu_provider :: string
  mu_model :: string
  mu_price_version :: string
  mu_input_tokens :: int
  mu_output_tokens :: int
  mu_cache_read_tokens :: int
  mu_cache_write_tokens :: int
  mu_reasoning_tokens :: int
  mu_total_tokens :: int
  mu_cost_usd :: numeric
  mu_recorded_at :: instant

record usage_quota_row =
  uq_tenant_id :: string
  uq_usage_period :: string
  uq_tokens_used :: int
  uq_cost_usd :: numeric
  uq_last_global_position :: int

record tenant_listing_row =
  tl_tenant_id :: string
  tl_display_name :: string
  tl_enabled :: bool
  tl_last_global_position :: int

text \<open>\<open>pj_rebuild_locks\<close>: the advisory locks sessions hold while they rebuild a projection.\<close>

record projection_db = db +
  pj_rebuild_locks :: "(string \<times> string) list"
  pj_checkpoints :: "checkpoint_row list"
  pj_run_status :: "run_status_row list"
  pj_artifacts :: "artifact_row list"
  pj_approvals :: "pending_approval_row list"
  pj_model_usage :: "model_usage_row list"
  pj_usage_quota :: "usage_quota_row list"
  pj_tenants :: "tenant_listing_row list"

text \<open>\<^verbatim>\<open>INSERT ... ON CONFLICT (key) DO UPDATE SET f\<close>; \<^verbatim>\<open>DO NOTHING\<close> keeps the row.\<close>

definition sql_upsert :: "('r \<Rightarrow> bool) \<Rightarrow> ('r \<Rightarrow> 'r) \<Rightarrow> 'r \<Rightarrow> 'r list \<Rightarrow> 'r list" where
  "sql_upsert same f new rows = (if \<exists>r \<in> set rows. same r then sql_update same f rows else rows @ [new])"

definition int8_max :: int where
  "int8_max = 9223372036854775807"

section \<open>Reading payloads\<close>

datatype projection = RunStatus | ArtifactIndex | ModelUsage | PendingApprovals | TenantListing | UsageQuota

definition projection_table :: "string \<Rightarrow> projection res" where
  "projection_table name =
     (if name = ''run-status'' then Inr RunStatus
      else if name = ''artifact-index'' then Inr ArtifactIndex
      else if name = ''model-usage'' then Inr ModelUsage
      else if name = ''pending-approvals'' then Inr PendingApprovals
      else if name = ''tenant-listing'' then Inr TenantListing
      else if name = ''usage-quota'' then Inr UsageQuota
      else Inl (ValueError (''unknown projection: '' @ name)))"

definition domain_event_type :: "string \<Rightarrow> DomainEventType option" where
  "domain_event_type v = (case DomainEventType_of v of Inl _ \<Rightarrow> None | Inr t \<Rightarrow> Some t)"

definition required_string :: "json_obj \<Rightarrow> string \<Rightarrow> string res" where
  "required_string p field = (case map_of p field of
     Some (JStr v) \<Rightarrow> if v = [] then Inl (PermanentStorageError (''projection event requires string '' @ field)) else Inr v
   | _ \<Rightarrow> Inl (PermanentStorageError (''projection event requires string '' @ field)))"

definition required_int :: "json_obj \<Rightarrow> string \<Rightarrow> int res" where
  "required_int p field = (case map_of p field of
     Some (JInt v) \<Rightarrow> if v < 0 then Inl (PermanentStorageError (''projection event requires non-negative '' @ field)) else Inr v
   | _ \<Rightarrow> Inl (PermanentStorageError (''projection event requires non-negative '' @ field)))"

definition required_uuid :: "json_obj \<Rightarrow> string \<Rightarrow> uuid res" where
  "required_uuid p field =
     res_bind (required_string p field) (\<lambda>v.
     case uuid_of_str v of
       None \<Rightarrow> Inl (PermanentStorageError (''projection event requires uuid '' @ field))
     | Some u \<Rightarrow> Inr u)"

definition required_decimal :: "json_obj \<Rightarrow> string \<Rightarrow> decimal res" where
  "required_decimal p field =
     res_bind (required_string p field) (\<lambda>v.
     case decimal_of v of
       None \<Rightarrow> Inl (PermanentStorageError (''projection event requires finite non-negative '' @ field))
     | Some d \<Rightarrow>
         if \<not> is_finite d \<or> dec_less d (dec_of_int 0)
         then Inl (PermanentStorageError (''projection event requires finite non-negative '' @ field))
         else Inr d)"

text \<open>\<^verbatim>\<open>UUID(...)\<close> and \<^verbatim>\<open>Decimal(...)\<close> of a required string, whose exceptions \<^verbatim>\<open>apply\<close> turns into a storage error.\<close>

definition invalid_payload :: py_error where
  "invalid_payload = PermanentStorageError ''projection event payload is invalid''"

definition payload_uuid_of :: "json_obj \<Rightarrow> string \<Rightarrow> uuid res" where
  "payload_uuid_of p field =
     res_bind (required_string p field) (\<lambda>v. case uuid_of_str v of None \<Rightarrow> Inl invalid_payload | Some u \<Rightarrow> Inr u)"

definition payload_decimal_of :: "json_obj \<Rightarrow> string \<Rightarrow> decimal res" where
  "payload_decimal_of p field =
     res_bind (required_string p field) (\<lambda>v. case decimal_of v of None \<Rightarrow> Inl invalid_payload | Some d \<Rightarrow> Inr d)"

definition position_of :: "EventEnvelope \<Rightarrow> int" where
  "position_of e = (case global_position e of None \<Rightarrow> 0 | Some p \<Rightarrow> p)"

definition recorded_of :: "EventEnvelope \<Rightarrow> datetime" where
  "recorded_of e = (case recorded_at e of None \<Rightarrow> occurred_at e | Some d \<Rightarrow> d)"

definition bigints :: "int list \<Rightarrow> bool" where
  "bigints ns = (\<forall>n \<in> set ns. n \<le> int8_max)"

section \<open>Applying one event\<close>

text \<open>The constraints of the tables: the tenant exists, and for the rows that refer to their event, the event exists.\<close>

definition known_tenant :: "string \<Rightarrow> projection_db \<Rightarrow> bool" where
  "known_tenant t s = (t \<in> set (db_tenants s))"

definition known_event :: "EventEnvelope \<Rightarrow> projection_db \<Rightarrow> bool" where
  "known_event e s = (\<exists>r \<in> set (db_events s). er_tenant_id r = ev_tenant_id e \<and> er_event_id r = event_id e)"

definition checked_modify ::
  "(projection_db \<Rightarrow> bool) \<Rightarrow> (projection_db \<Rightarrow> projection_db) \<Rightarrow> (projection_db, unit) op" where
  "checked_modify ok f = op_bind (op_gets ok) (\<lambda>valid. op_bind (op_require valid integrity_error) (\<lambda>_. op_modify f))"

definition run_status_of :: "EventEnvelope \<Rightarrow> string option res" where
  "run_status_of e = (case domain_event_type (event_type e) of
     Some RUN_STATUS_CHANGED \<Rightarrow> res_bind (required_string (payload e) ''status'') (\<lambda>v. Inr (Some v))
   | Some RUN_STARTED \<Rightarrow> Inr (Some ''running'')
   | Some RUN_COMPLETED \<Rightarrow> Inr (Some ''completed'')
   | Some RUN_FAILED \<Rightarrow> Inr (Some ''failed'')
   | _ \<Rightarrow> Inr None)"

definition apply_run_status :: "EventEnvelope \<Rightarrow> (projection_db, unit) op" where
  "apply_run_status e =
     op_bind (op_lift (run_status_of e)) (\<lambda>status.
     (case status of
        None \<Rightarrow> op_return ()
      | Some v \<Rightarrow>
          let row = \<lparr>rs_tenant_id = ev_tenant_id e, rs_run_id = aggregate_id e, rs_status = v,
                     rs_aggregate_sequence = aggregate_sequence e, rs_last_global_position = position_of e,
                     rs_updated_at = dt_instant (recorded_of e)\<rparr> in
          checked_modify (\<lambda>s. known_tenant (ev_tenant_id e) s \<and> aggregate_id e \<noteq> [] \<and> 0 < aggregate_sequence e
              \<and> 0 < position_of e \<and> recorded_at e \<noteq> None)
            (\<lambda>s. s\<lparr>pj_run_status := sql_upsert
               (\<lambda>r. rs_tenant_id r = rs_tenant_id row \<and> rs_run_id r = rs_run_id row)
               (\<lambda>r. if rs_aggregate_sequence r < rs_aggregate_sequence row then row else r) row (pj_run_status s)\<rparr>)))"

definition apply_artifact :: "EventEnvelope \<Rightarrow> (projection_db, unit) op" where
  "apply_artifact e =
     (if domain_event_type (event_type e) \<noteq> Some ARTIFACT_RECORDED then op_return () else
      op_bind (op_lift (required_uuid (payload e) ''artifact_id'')) (\<lambda>i.
      op_bind (op_lift (required_string (payload e) ''artifact_kind'')) (\<lambda>kind.
      op_bind (op_lift (required_string (payload e) ''source_reference'')) (\<lambda>source.
      op_bind (op_lift (required_string (payload e) ''summary'')) (\<lambda>summary.
      checked_modify (\<lambda>s. known_tenant (ev_tenant_id e) s \<and> known_event e s \<and> aggregate_id e \<noteq> [] \<and> 0 < position_of e)
        (\<lambda>s. s\<lparr>pj_artifacts := sql_upsert (\<lambda>r. ar_tenant_id r = ev_tenant_id e \<and> ar_artifact_id r = i) (\<lambda>r. r)
           \<lparr>ar_tenant_id = ev_tenant_id e, ar_artifact_id = i, ar_run_id = aggregate_id e, ar_artifact_kind = kind,
            ar_source_reference = source, ar_summary = summary, ar_event_id = event_id e,
            ar_global_position = position_of e\<rparr> (pj_artifacts s)\<rparr>))))))"

definition apply_approval :: "EventEnvelope \<Rightarrow> (projection_db, unit) op" where
  "apply_approval e =
     (if domain_event_type (event_type e) = Some APPROVAL_REQUESTED then
        op_bind (op_lift (required_uuid (payload e) ''approval_id'')) (\<lambda>i.
        op_bind (op_lift (required_string (payload e) ''proposal_reference'')) (\<lambda>reference.
        checked_modify (\<lambda>s. known_tenant (ev_tenant_id e) s \<and> known_event e s \<and> aggregate_id e \<noteq> [] \<and> 0 < position_of e)
          (\<lambda>s. s\<lparr>pj_approvals := sql_upsert (\<lambda>r. pa_tenant_id r = ev_tenant_id e \<and> pa_approval_id r = i) (\<lambda>r. r)
             \<lparr>pa_tenant_id = ev_tenant_id e, pa_approval_id = i, pa_run_id = aggregate_id e,
              pa_proposal_reference = reference, pa_requested_at = dt_instant (occurred_at e), pa_event_id = event_id e,
              pa_global_position = position_of e\<rparr> (pj_approvals s)\<rparr>)))
      else if domain_event_type (event_type e) = Some APPROVAL_DECIDED then
        op_bind (op_lift (required_uuid (payload e) ''approval_id'')) (\<lambda>i.
        op_modify (\<lambda>s. s\<lparr>pj_approvals := filter (\<lambda>r. \<not> (pa_tenant_id r = ev_tenant_id e \<and> pa_approval_id r = i)) (pj_approvals s)\<rparr>))
      else op_return ())"

definition usage_row :: "EventEnvelope \<Rightarrow> model_usage_row res" where
  "usage_row e =
     (let p = payload e in
      res_bind (required_int p ''input_tokens'') (\<lambda>inp.
      res_bind (required_int p ''output_tokens'') (\<lambda>out.
      res_bind (required_int p ''cache_read_tokens'') (\<lambda>cread.
      res_bind (required_int p ''cache_write_tokens'') (\<lambda>cwrite.
      res_bind (required_int p ''reasoning_tokens'') (\<lambda>reason.
      res_bind (payload_uuid_of p ''request_id'') (\<lambda>request.
      res_bind (payload_uuid_of p ''run_id'') (\<lambda>run.
      res_bind (required_string p ''provider'') (\<lambda>provider.
      res_bind (required_string p ''model'') (\<lambda>model.
      res_bind (required_string p ''price_version'') (\<lambda>price.
      res_bind (payload_decimal_of p ''cost_usd'') (\<lambda>cost.
      res_bind (case numeric_of 20 10 cost of None \<Rightarrow> Inl integrity_error | Some c \<Rightarrow> Inr c) (\<lambda>units.
      Inr \<lparr>mu_tenant_id = ev_tenant_id e, mu_request_id = request, mu_run_id = run, mu_provider = provider,
           mu_model = model, mu_price_version = price, mu_input_tokens = inp, mu_output_tokens = out,
           mu_cache_read_tokens = cread, mu_cache_write_tokens = cwrite, mu_reasoning_tokens = reason,
           mu_total_tokens = inp + out + cread + cwrite + reason, mu_cost_usd = units,
           mu_recorded_at = dt_instant (recorded_of e)\<rparr>)))))))))))))"

definition apply_model_usage :: "EventEnvelope \<Rightarrow> (projection_db, unit) op" where
  "apply_model_usage e =
     (if domain_event_type (event_type e) \<noteq> Some MODEL_USAGE_RECORDED then op_return () else
      op_bind (op_lift (usage_row e)) (\<lambda>row.
      checked_modify (\<lambda>s. known_tenant (ev_tenant_id e) s \<and> mu_total_tokens row \<le> int8_max
          \<and> (case mu_cost_usd row of None \<Rightarrow> True | Some c \<Rightarrow> 0 \<le> c))
        (\<lambda>s. s\<lparr>pj_model_usage := sql_upsert
           (\<lambda>r. mu_tenant_id r = mu_tenant_id row \<and> mu_request_id r = mu_request_id row) (\<lambda>_. row) row (pj_model_usage s)\<rparr>)))"

definition add_usage :: "usage_quota_row \<Rightarrow> usage_quota_row \<Rightarrow> usage_quota_row" where
  "add_usage new r =
     (if uq_last_global_position r < uq_last_global_position new then
        r\<lparr>uq_tokens_used := uq_tokens_used r + uq_tokens_used new, uq_cost_usd := numeric_add (uq_cost_usd r) (uq_cost_usd new),
          uq_last_global_position := uq_last_global_position new\<rparr>
      else r)"

definition quota_row_ok :: "usage_quota_row \<Rightarrow> bool" where
  "quota_row_ok r = (uq_tokens_used r \<le> int8_max \<and> (case uq_cost_usd r of None \<Rightarrow> True | Some c \<Rightarrow> 0 \<le> c \<and> c < 10 ^ 20))"

definition apply_usage :: "EventEnvelope \<Rightarrow> (projection_db, unit) op" where
  "apply_usage e =
     (if domain_event_type (event_type e) \<noteq> Some USAGE_RECORDED then op_return () else
      op_bind (op_lift (required_string (payload e) ''period'')) (\<lambda>period.
      op_bind (op_lift (required_int (payload e) ''tokens'')) (\<lambda>tokens.
      op_bind (op_lift (required_decimal (payload e) ''cost_usd'')) (\<lambda>cost.
      op_bind (op_lift (case numeric_of 20 6 cost of None \<Rightarrow> Inl integrity_error | Some c \<Rightarrow> Inr c)) (\<lambda>units.
      let row = \<lparr>uq_tenant_id = ev_tenant_id e, uq_usage_period = period, uq_tokens_used = tokens, uq_cost_usd = units,
                 uq_last_global_position = position_of e\<rparr>;
          same = (\<lambda>r. uq_tenant_id r = ev_tenant_id e \<and> uq_usage_period r = period) in
      checked_modify (\<lambda>s. known_tenant (ev_tenant_id e) s \<and> 0 < position_of e \<and> quota_row_ok row
          \<and> (\<forall>r \<in> set (pj_usage_quota s). same r \<longrightarrow> quota_row_ok (add_usage row r)))
        (\<lambda>s. s\<lparr>pj_usage_quota := sql_upsert same (add_usage row) row (pj_usage_quota s)\<rparr>))))))"

definition apply_tenant :: "EventEnvelope \<Rightarrow> (projection_db, unit) op" where
  "apply_tenant e =
     (if domain_event_type (event_type e) \<noteq> Some TENANT_REGISTERED then op_return () else
      op_bind (op_lift (required_string (payload e) ''display_name'')) (\<lambda>name.
      op_bind (op_lift (case map_of (payload e) ''enabled'' of
          None \<Rightarrow> Inr True
        | Some (JBool b) \<Rightarrow> Inr b
        | Some _ \<Rightarrow> Inl (PermanentStorageError ''tenant projection event requires boolean enabled''))) (\<lambda>enabled.
      let row = \<lparr>tl_tenant_id = ev_tenant_id e, tl_display_name = name, tl_enabled = enabled,
                 tl_last_global_position = position_of e\<rparr> in
      checked_modify (\<lambda>s. known_tenant (ev_tenant_id e) s \<and> 0 < position_of e)
        (\<lambda>s. s\<lparr>pj_tenants := sql_upsert (\<lambda>r. tl_tenant_id r = ev_tenant_id e)
           (\<lambda>r. if tl_last_global_position r < position_of e then row else r) row (pj_tenants s)\<rparr>))))"

fun apply_event :: "projection \<Rightarrow> EventEnvelope \<Rightarrow> (projection_db, unit) op" where
  "apply_event RunStatus e = apply_run_status e"
| "apply_event ArtifactIndex e = apply_artifact e"
| "apply_event PendingApprovals e = apply_approval e"
| "apply_event ModelUsage e = apply_model_usage e"
| "apply_event UsageQuota e = apply_usage e"
| "apply_event TenantListing e = apply_tenant e"

section \<open>Operations of the repository\<close>

record ProjectionCheckpoint =
  pc_projection_name :: string
  pc_last_global_position :: int

definition is_checkpoint :: "string \<Rightarrow> string \<Rightarrow> checkpoint_row \<Rightarrow> bool" where
  "is_checkpoint t name c = (ck_tenant_id c = t \<and> ck_projection_name c = name)"

definition checkpoint_position :: "string \<Rightarrow> string \<Rightarrow> projection_db \<Rightarrow> int" where
  "checkpoint_position t name s = (case sql_one (is_checkpoint t name) (pj_checkpoints s) of
     None \<Rightarrow> 0 | Some c \<Rightarrow> ck_last_global_position c)"

definition projection_checkpoint :: "string \<Rightarrow> string \<Rightarrow> (projection_db, ProjectionCheckpoint) op" where
  "projection_checkpoint t name =
     op_bind (op_lift (projection_table name)) (\<lambda>_.
     tenant_transaction (op_gets (\<lambda>s.
       \<lparr>pc_projection_name = name, pc_last_global_position = checkpoint_position t name s\<rparr>)))"

definition insert_checkpoint :: "string \<Rightarrow> string \<Rightarrow> (projection_db, unit) op" where
  "insert_checkpoint t name =
     checked_modify (\<lambda>s. known_tenant t s)
       (\<lambda>s. s\<lparr>pj_checkpoints := sql_upsert (is_checkpoint t name) (\<lambda>c. c)
          \<lparr>ck_tenant_id = t, ck_projection_name = name, ck_last_global_position = 0\<rparr> (pj_checkpoints s)\<rparr>)"

definition apply_checked :: "string \<Rightarrow> projection \<Rightarrow> EventEnvelope \<Rightarrow> (projection_db, unit) op" where
  "apply_checked t p e =
     op_bind (op_require (ev_tenant_id e = t) (PermanentStorageError ''projection event tenant does not match context'')) (\<lambda>_.
     apply_event p e)"

definition set_checkpoint :: "string \<Rightarrow> string \<Rightarrow> int \<Rightarrow> (projection_db, unit) op" where
  "set_checkpoint t name pos =
     op_modify (\<lambda>s. s\<lparr>pj_checkpoints := sql_update (is_checkpoint t name)
       (\<lambda>c. c\<lparr>ck_last_global_position := pos\<rparr>) (pj_checkpoints s)\<rparr>)"

definition apply_page ::
  "string \<Rightarrow> string \<Rightarrow> projection \<Rightarrow> EventEnvelope list \<Rightarrow> int \<Rightarrow> (projection_db, int) op" where
  "apply_page t name p events expected =
     (let final = position_of (last events) in
      op_bind (insert_checkpoint t name) (\<lambda>_.
      op_bind (op_gets (checkpoint_position t name)) (\<lambda>actual.
      if final \<le> actual then op_return actual else
      op_bind (op_require (actual = expected) (ConcurrencyError expected actual)) (\<lambda>_.
      op_bind (op_iter (apply_checked t p) events) (\<lambda>_.
      op_bind (set_checkpoint t name final) (\<lambda>_.
      op_return final))))))"

definition projection_apply ::
  "string \<Rightarrow> string \<Rightarrow> EventEnvelope list \<Rightarrow> int \<Rightarrow> (projection_db, int) op" where
  "projection_apply t name events expected =
     op_bind (op_lift (projection_table name)) (\<lambda>p.
     if events = [] then op_return expected else
     op_bind (op_require (\<forall>e \<in> set events. global_position e \<noteq> None)
       (ReplayCorruptionError ''projection events require global positions'')) (\<lambda>_.
     tenant_transaction (apply_page t name p events expected)))"

fun clear_table :: "projection \<Rightarrow> string \<Rightarrow> projection_db \<Rightarrow> projection_db" where
  "clear_table RunStatus t s = s\<lparr>pj_run_status := filter (\<lambda>r. rs_tenant_id r \<noteq> t) (pj_run_status s)\<rparr>"
| "clear_table ArtifactIndex t s = s\<lparr>pj_artifacts := filter (\<lambda>r. ar_tenant_id r \<noteq> t) (pj_artifacts s)\<rparr>"
| "clear_table PendingApprovals t s = s\<lparr>pj_approvals := filter (\<lambda>r. pa_tenant_id r \<noteq> t) (pj_approvals s)\<rparr>"
| "clear_table ModelUsage t s = s\<lparr>pj_model_usage := filter (\<lambda>r. mu_tenant_id r \<noteq> t) (pj_model_usage s)\<rparr>"
| "clear_table UsageQuota t s = s\<lparr>pj_usage_quota := filter (\<lambda>r. uq_tenant_id r \<noteq> t) (pj_usage_quota s)\<rparr>"
| "clear_table TenantListing t s = s\<lparr>pj_tenants := filter (\<lambda>r. tl_tenant_id r \<noteq> t) (pj_tenants s)\<rparr>"

definition projection_reset :: "string \<Rightarrow> string \<Rightarrow> (projection_db, unit) op" where
  "projection_reset t name =
     op_bind (op_lift (projection_table name)) (\<lambda>p.
     tenant_transaction (
       op_bind (op_modify (clear_table p t)) (\<lambda>_.
       op_modify (\<lambda>s. s\<lparr>pj_checkpoints := filter (\<lambda>c. \<not> is_checkpoint t name c) (pj_checkpoints s)\<rparr>))))"

definition run_status_listing :: "string \<Rightarrow> int \<Rightarrow> (projection_db, json_obj list) op" where
  "run_status_listing t limit =
     op_bind (op_require (1 \<le> limit \<and> limit \<le> 1000)
       (ValueError ''projection query limit must be between 1 and 1000'')) (\<lambda>_.
     tenant_transaction (op_gets (\<lambda>s.
       map (\<lambda>r. [(''run_id'', JStr (rs_run_id r)), (''status'', JStr (rs_status r)),
                 (''aggregate_sequence'', JInt (rs_aggregate_sequence r)), (''global_position'', JInt (rs_last_global_position r)),
                 (''updated_at'', JStr (isoformat (dt_of_instant (rs_updated_at r))))])
         (take (nat limit) (rev (sort_key rs_last_global_position
           (filter (\<lambda>r. rs_tenant_id r = t) (pj_run_status s))))))))"

section \<open>One tenant's view\<close>

text \<open>The database with the read models restricted to one tenant and without checkpoints and locks; applying that tenant's events commutes with it.\<close>

definition tenant_view :: "string \<Rightarrow> projection_db \<Rightarrow> projection_db" where
  "tenant_view t s = s\<lparr>pj_run_status := filter (\<lambda>r. rs_tenant_id r = t) (pj_run_status s),
     pj_artifacts := filter (\<lambda>r. ar_tenant_id r = t) (pj_artifacts s),
     pj_approvals := filter (\<lambda>r. pa_tenant_id r = t) (pj_approvals s),
     pj_model_usage := filter (\<lambda>r. mu_tenant_id r = t) (pj_model_usage s),
     pj_usage_quota := filter (\<lambda>r. uq_tenant_id r = t) (pj_usage_quota s),
     pj_tenants := filter (\<lambda>r. tl_tenant_id r = t) (pj_tenants s), pj_checkpoints := [], pj_rebuild_locks := []\<rparr>"

definition viewed :: "string \<Rightarrow> (projection_db, 'a) op \<Rightarrow> bool" where
  "viewed t m = (\<forall>s. m (tenant_view t s) = (fst (m s), tenant_view t (snd (m s))))"

lemma viewed_basic [simp]:
  "viewed t (op_return a)" "viewed t (op_raise e)" "viewed t (op_lift r)" "viewed t (op_require b e)"
  by (simp_all add: viewed_def op_eval)

lemma viewed_bind: "viewed t m \<Longrightarrow> (\<And>a. viewed t (k a)) \<Longrightarrow> viewed t (op_bind m k)"
  unfolding viewed_def op_bind_def by (auto split: prod.splits sum.splits)

lemma viewed_checked:
  assumes "\<And>s. ok (tenant_view t s) = ok s" and "\<And>s. f (tenant_view t s) = tenant_view t (f s)"
  shows "viewed t (checked_modify ok f)"
  using assms unfolding checked_modify_def viewed_def by (simp add: op_eval)

lemma viewed_modify: "(\<And>s. f (tenant_view t s) = tenant_view t (f s)) \<Longrightarrow> viewed t (op_modify f)"
  by (simp add: viewed_def op_modify_def)

lemma filter_upsert:
  assumes "T new" and "\<And>r. same r \<Longrightarrow> T r" and "\<And>r. same r \<Longrightarrow> T (f r)"
  shows "filter T (sql_upsert same f new rows) = sql_upsert same f new (filter T rows)"
proof -
  have "filter T (sql_update same f qs) = sql_update same f (filter T qs)" for qs
    using assms(2,3) by (induction qs) auto
  then show ?thesis using assms(1,2) by (auto simp: sql_upsert_def)
qed

lemma known_view [simp]: "known_tenant u (tenant_view t s) = known_tenant u s" "known_event e (tenant_view t s) = known_event e s"
  by (simp_all add: known_tenant_def known_event_def tenant_view_def)

lemma tenant_view_fields [simp]:
  "pj_run_status (tenant_view t s) = filter (\<lambda>r. rs_tenant_id r = t) (pj_run_status s)"
  "pj_artifacts (tenant_view t s) = filter (\<lambda>r. ar_tenant_id r = t) (pj_artifacts s)"
  "pj_approvals (tenant_view t s) = filter (\<lambda>r. pa_tenant_id r = t) (pj_approvals s)"
  "pj_model_usage (tenant_view t s) = filter (\<lambda>r. mu_tenant_id r = t) (pj_model_usage s)"
  "pj_usage_quota (tenant_view t s) = filter (\<lambda>r. uq_tenant_id r = t) (pj_usage_quota s)"
  "pj_tenants (tenant_view t s) = filter (\<lambda>r. tl_tenant_id r = t) (pj_tenants s)"
  "pj_checkpoints (tenant_view t s) = []"
  "db_events (tenant_view t s) = db_events s"
  by (simp_all add: tenant_view_def)

lemma tenant_view_update:
  "tenant_view t (s\<lparr>pj_run_status := a\<rparr>) = (tenant_view t s)\<lparr>pj_run_status := filter (\<lambda>r. rs_tenant_id r = t) a\<rparr>"
  "tenant_view t (s\<lparr>pj_artifacts := b\<rparr>) = (tenant_view t s)\<lparr>pj_artifacts := filter (\<lambda>r. ar_tenant_id r = t) b\<rparr>"
  "tenant_view t (s\<lparr>pj_approvals := c\<rparr>) = (tenant_view t s)\<lparr>pj_approvals := filter (\<lambda>r. pa_tenant_id r = t) c\<rparr>"
  "tenant_view t (s\<lparr>pj_model_usage := d\<rparr>) = (tenant_view t s)\<lparr>pj_model_usage := filter (\<lambda>r. mu_tenant_id r = t) d\<rparr>"
  "tenant_view t (s\<lparr>pj_usage_quota := e\<rparr>) = (tenant_view t s)\<lparr>pj_usage_quota := filter (\<lambda>r. uq_tenant_id r = t) e\<rparr>"
  "tenant_view t (s\<lparr>pj_tenants := f\<rparr>) = (tenant_view t s)\<lparr>pj_tenants := filter (\<lambda>r. tl_tenant_id r = t) f\<rparr>"
  "tenant_view t (s\<lparr>pj_checkpoints := g\<rparr>) = tenant_view t s"
  "tenant_view t (s\<lparr>pj_rebuild_locks := h\<rparr>) = tenant_view t s"
  by (simp_all add: tenant_view_def)

lemma viewed_lift: "(\<And>a. r = Inr a \<Longrightarrow> viewed t (k a)) \<Longrightarrow> viewed t (op_bind (op_lift r) k)"
  by (cases r) (auto simp: viewed_def op_bind_def op_lift_def)

lemma viewed_if: "viewed t m \<Longrightarrow> viewed t n \<Longrightarrow> viewed t (if b then m else n)"
  by simp

lemma viewed_run_status: "viewed (ev_tenant_id e) (apply_run_status e)"
  unfolding apply_run_status_def Let_def
  by (auto intro!: viewed_lift viewed_checked simp: tenant_view_update split: option.splits) (subst filter_upsert; simp)

lemma viewed_artifact: "viewed (ev_tenant_id e) (apply_artifact e)"
  unfolding apply_artifact_def
  by (auto intro!: viewed_lift viewed_checked simp: tenant_view_update) (subst filter_upsert; simp)

lemma viewed_approval: "viewed (ev_tenant_id e) (apply_approval e)"
proof -
  have swap: "filter P (filter T rows) = filter T (filter P rows)" for P T :: "pending_approval_row \<Rightarrow> bool" and rows
    by (induction rows) auto
  have del: "viewed (ev_tenant_id e) (op_modify (\<lambda>s. s\<lparr>pj_approvals := filter (\<lambda>r. \<not> (pa_tenant_id r = ev_tenant_id e \<and> pa_approval_id r = i))
      (pj_approvals s)\<rparr>))" for i
    by (rule viewed_modify) (simp only: tenant_view_update tenant_view_fields, subst swap, rule refl)
  show ?thesis
    unfolding apply_approval_def
    by (intro viewed_if viewed_lift viewed_checked viewed_basic del)
      (simp, simp only: tenant_view_update tenant_view_fields, (subst filter_upsert; simp))
qed

lemma usage_row_tenant: "usage_row e = Inr row \<Longrightarrow> mu_tenant_id row = ev_tenant_id e"
  by (auto simp: usage_row_def Let_def res_bind_Inr_iff)

lemma viewed_model_usage: "viewed (ev_tenant_id e) (apply_model_usage e)"
  unfolding apply_model_usage_def
  by (auto intro!: viewed_lift viewed_checked dest!: usage_row_tenant simp: tenant_view_update) (subst filter_upsert; simp)

lemma viewed_usage: "viewed (ev_tenant_id e) (apply_usage e)"
  unfolding apply_usage_def Let_def
  by (auto intro!: viewed_lift viewed_checked simp: tenant_view_update) (subst filter_upsert; simp add: add_usage_def)

lemma viewed_tenant: "viewed (ev_tenant_id e) (apply_tenant e)"
  unfolding apply_tenant_def Let_def
  by (auto intro!: viewed_lift viewed_checked simp: tenant_view_update) (subst filter_upsert; simp)

lemma viewed_apply_event: "viewed (ev_tenant_id e) (apply_event p e)"
  by (cases p) (simp_all add: viewed_run_status viewed_artifact viewed_approval viewed_model_usage viewed_usage viewed_tenant)

text \<open>Applying an event of a projection changes no other table.\<close>

lemma apply_event_frame:
  "clear_table p t (tenant_view t (snd (apply_event p e s))) = clear_table p t (tenant_view t s)
   \<and> db_events (snd (apply_event p e s)) = db_events s \<and> pj_checkpoints (snd (apply_event p e s)) = pj_checkpoints s"
proof -
  have m: "snd (op_bind (op_lift r) k s) = (case r of Inl _ \<Rightarrow> s | Inr a \<Rightarrow> snd (k a s))"
    "snd (checked_modify ok f s) = (if ok s then f s else s)" "snd (op_return u s) = s" "snd (op_modify f s) = f s"
    for r :: "'x res" and k :: "'x \<Rightarrow> (projection_db, unit) op" and ok f and u :: unit
    by (auto simp: op_bind_def op_lift_def checked_modify_def op_gets_def op_require_def op_raise_def op_modify_def op_return_def
        split: sum.splits)
  have inv: "Q (snd (apply_event p e s))"
    if "Q s" and "\<And>x. p = RunStatus \<Longrightarrow> Q (s\<lparr>pj_run_status := x\<rparr>)" and "\<And>x. p = ArtifactIndex \<Longrightarrow> Q (s\<lparr>pj_artifacts := x\<rparr>)"
      and "\<And>x. p = PendingApprovals \<Longrightarrow> Q (s\<lparr>pj_approvals := x\<rparr>)" and "\<And>x. p = ModelUsage \<Longrightarrow> Q (s\<lparr>pj_model_usage := x\<rparr>)"
      and "\<And>x. p = UsageQuota \<Longrightarrow> Q (s\<lparr>pj_usage_quota := x\<rparr>)" and "\<And>x. p = TenantListing \<Longrightarrow> Q (s\<lparr>pj_tenants := x\<rparr>)" for Q
    using that
    by (cases p) (auto simp: apply_run_status_def apply_artifact_def apply_approval_def apply_model_usage_def apply_usage_def
        apply_tenant_def m Let_def split: sum.splits option.splits if_splits)
  show ?thesis
    by (rule inv) (simp_all add: tenant_view_update filter_True [symmetric] cong: filter_cong)
qed

end
