(* ===== verification/Projections.thy ===== *)
theory Projections
  imports Projection_Tables
begin

text \<open>
  \<^verbatim>\<open>projections/__init__.py\<close>: the engine that replays a tenant's ledger, page by page, into a read model. The read model
  is a function of the ledger: catching up from a checkpoint and rebuilding from scratch give the
  same rows, and both end.
\<close>

section \<open>The engine\<close>

text \<open>The page size an engine is constructed with.\<close>

definition init_ProjectionEngine :: "int \<Rightarrow> int res" where
  "init_ProjectionEngine page_size =
     (if \<not> (1 \<le> page_size \<and> page_size \<le> 1000)
      then Inl (ValueError ''projection page_size must be between 1 and 1000'') else Inr page_size)"

definition validate_positions :: "EventEnvelope list \<Rightarrow> int \<Rightarrow> unit res" where
  "validate_positions events cursor =
     res_bind (require (\<forall>e \<in> set events. global_position e \<noteq> None)
       (ReplayCorruptionError ''projection replay requires global positions'')) (\<lambda>_.
     res_bind (require (sorted_wrt (<) (map position_of events))
       (ReplayCorruptionError ''global event positions are not strictly monotonic'')) (\<lambda>_.
     require (events = [] \<or> cursor < position_of (hd events))
       (ReplayCorruptionError ''projection page overlaps its checkpoint'')))"

primrec validate_sequences :: "(string \<rightharpoonup> int) \<Rightarrow> EventEnvelope list \<Rightarrow> (string \<rightharpoonup> int) res" where
  "validate_sequences versions [] = Inr versions"
| "validate_sequences versions (e # es) =
     (let previous = (case versions (aggregate_id e) of None \<Rightarrow> previous_aggregate_sequence e | Some v \<Rightarrow> Some v) in
      if (case previous of None \<Rightarrow> False | Some v \<Rightarrow> aggregate_sequence e \<noteq> v + 1)
      then Inl (ReplayCorruptionError ''aggregate sequence gap detected during replay'')
      else validate_sequences (versions(aggregate_id e \<mapsto> aggregate_sequence e)) es)"

definition validate_page :: "EventEnvelope list \<Rightarrow> int \<Rightarrow> (string \<rightharpoonup> int) \<Rightarrow> (string \<rightharpoonup> int) res" where
  "validate_page events cursor versions =
     res_bind (validate_positions events cursor) (\<lambda>_. validate_sequences versions events)"

text \<open>
  The loop of \<^verbatim>\<open>catch_up\<close> with a bound on the number of pages; None is the bound reached. Every page but the
  last advances the cursor over at least one event, so one page more than there are events is enough.
\<close>

primrec catch_up_loop ::
  "nat \<Rightarrow> int \<Rightarrow> string \<Rightarrow> string \<Rightarrow> int \<Rightarrow> (string \<rightharpoonup> int) \<Rightarrow> projection_db
     \<Rightarrow> (ProjectionCheckpoint res \<times> projection_db) option" where
  "catch_up_loop 0 page_size t name cursor versions s = None"
| "catch_up_loop (Suc n) page_size t name cursor versions s =
     (case read_all t cursor page_size s of
        (Inl e, s1) \<Rightarrow> Some (Inl e, s1)
      | (Inr page, s1) \<Rightarrow>
          if pg_events page = [] then Some (Inr \<lparr>pc_projection_name = name, pc_last_global_position = cursor\<rparr>, s1)
          else (case validate_page (pg_events page) cursor versions of
             Inl e \<Rightarrow> Some (Inl e, s1)
           | Inr versions' \<Rightarrow>
               (case projection_apply t name (pg_events page) cursor s1 of
                  (Inl e, s2) \<Rightarrow> Some (Inl e, s2)
                | (Inr cursor', s2) \<Rightarrow>
                    if pg_next_cursor page = None
                    then Some (Inr \<lparr>pc_projection_name = name, pc_last_global_position = cursor'\<rparr>, s2)
                    else catch_up_loop n page_size t name cursor' versions' s2)))"

definition catch_up ::
  "int \<Rightarrow> string \<Rightarrow> string \<Rightarrow> projection_db \<Rightarrow> (ProjectionCheckpoint res \<times> projection_db) option" where
  "catch_up page_size t name s =
     (case projection_checkpoint t name s of
        (Inl e, s1) \<Rightarrow> Some (Inl e, s1)
      | (Inr c, s1) \<Rightarrow>
          catch_up_loop (Suc (length (db_events s))) page_size t name (pc_last_global_position c) (\<lambda>_. None) s1)"

definition budget_projections :: "string list" where
  "budget_projections = [''model-usage'']"

definition begin_rebuild :: "string \<Rightarrow> string \<Rightarrow> projection_db \<Rightarrow> projection_db" where
  "begin_rebuild t name s = s\<lparr>pj_rebuild_locks := (name, t) # pj_rebuild_locks s\<rparr>"

definition end_rebuild :: "string \<Rightarrow> string \<Rightarrow> projection_db \<Rightarrow> projection_db" where
  "end_rebuild t name s = s\<lparr>pj_rebuild_locks := remove1 (name, t) (pj_rebuild_locks s)\<rparr>"

definition rebuild ::
  "int \<Rightarrow> string \<Rightarrow> string \<Rightarrow> projection_db \<Rightarrow> (ProjectionCheckpoint res \<times> projection_db) option" where
  "rebuild page_size t name s =
     (let locked = name \<in> set budget_projections;
          s1 = (if locked then begin_rebuild t name s else s);
          release = (\<lambda>s2. if locked then end_rebuild t name s2 else s2) in
      case projection_reset t name s1 of
        (Inl e, s2) \<Rightarrow> Some (Inl e, release s2)
      | (Inr _, s2) \<Rightarrow> map_option (\<lambda>(r, s3). (r, release s3)) (catch_up page_size t name s2))"

section \<open>Pages of a sorted ledger\<close>

definition tenant_rows :: "string \<Rightarrow> int \<Rightarrow> projection_db \<Rightarrow> event_row list" where
  "tenant_rows t c s = filter (\<lambda>r. er_tenant_id r = t \<and> er_global_position r \<le> c) (db_events s)"

definition later_rows :: "string \<Rightarrow> int \<Rightarrow> projection_db \<Rightarrow> event_row list" where
  "later_rows t c s = filter (\<lambda>r. er_tenant_id r = t \<and> c < er_global_position r) (db_events s)"

lemma sorted_split:
  fixes f :: "'a \<Rightarrow> int"
  assumes "sorted_wrt (<) (map f xs)"
  shows "xs = filter (\<lambda>x. f x \<le> c) xs @ filter (\<lambda>x. c < f x) xs"
  using assms
proof (induction xs)
  case (Cons x xs)
  show ?case
  proof (cases "f x \<le> c")
    case False
    then have "\<forall>y \<in> set xs. c < f y" using Cons.prems by auto
    then have "filter (\<lambda>y. f y \<le> c) xs = []" "filter (\<lambda>y. c < f y) xs = xs" by (auto simp: filter_empty_conv filter_id_conv)
    then show ?thesis using False by simp
  qed (use Cons in simp)
qed simp

lemma sorted_last:
  fixes f :: "'a \<Rightarrow> int"
  assumes "sorted_wrt (<) (map f (xs @ ys @ zs))" and "ys \<noteq> []"
  shows "filter (\<lambda>x. f x \<le> f (last ys)) (xs @ ys @ zs) = xs @ ys" and "filter (\<lambda>x. f (last ys) < f x) (xs @ ys @ zs) = zs"
proof -
  obtain us u where u: "ys = us @ [u]" using assms(2) rev_exhaust by blast
  then have "\<forall>x \<in> set xs \<union> set us. f x < f u" "\<forall>z \<in> set zs. f u < f z" using assms(1) by (auto simp: sorted_wrt_append)
  then have 1: "\<forall>x \<in> set (xs @ ys). f x \<le> f (last ys)" and 2: "\<forall>z \<in> set zs. f (last ys) < f z" using u by (auto intro: less_imp_le)
  have "filter (\<lambda>x. f x \<le> f (last ys)) (xs @ ys) = xs @ ys" using 1 by (simp add: filter_id_conv)
  moreover have "filter (\<lambda>x. f x \<le> f (last ys)) zs = []" using 2 by (auto simp: filter_empty_conv)
  ultimately show "filter (\<lambda>x. f x \<le> f (last ys)) (xs @ ys @ zs) = xs @ ys" by simp
  have "filter (\<lambda>x. f (last ys) < f x) (xs @ ys) = []" using 1 by (simp add: filter_empty_conv not_less)
  moreover have "filter (\<lambda>x. f (last ys) < f x) zs = zs" using 2 by (simp add: filter_id_conv)
  ultimately show "filter (\<lambda>x. f (last ys) < f x) (xs @ ys @ zs) = zs" by simp
qed

lemma sorted_page_split:
  fixes f :: "'a \<Rightarrow> int"
  assumes "sorted_wrt (<) (map f xs)" and "filter (\<lambda>x. T x \<and> c < f x) xs = ys @ zs" and "ys \<noteq> []"
  shows "filter (\<lambda>x. T x \<and> f x \<le> f (last ys)) xs = filter (\<lambda>x. T x \<and> f x \<le> c) xs @ ys"
    and "filter (\<lambda>x. T x \<and> f (last ys) < f x) xs = zs"
proof -
  let ?L = "filter T xs"
  have s: "sorted_wrt (<) (map f ?L)" using assms(1) by (simp add: sorted_wrt_map sorted_wrt_filter)
  have L: "?L = filter (\<lambda>x. T x \<and> f x \<le> c) xs @ ys @ zs"
    using sorted_split [OF s, of c] assms(2) by (simp add: conj_commute)
  show "filter (\<lambda>x. T x \<and> f x \<le> f (last ys)) xs = filter (\<lambda>x. T x \<and> f x \<le> c) xs @ ys"
    using sorted_last(1) [OF s [unfolded L] assms(3)] unfolding L [symmetric] by (simp add: conj_commute)
  show "filter (\<lambda>x. T x \<and> f (last ys) < f x) xs = zs"
    using sorted_last(2) [OF s [unfolded L] assms(3)] unfolding L [symmetric] by (simp add: conj_commute)
qed

lemma select_all_page:
  assumes "sorted_wrt (<) (map er_global_position (db_events s))"
  shows "select_all s t c n = take (nat n) (later_rows t c s)"
proof -
  have "sorted_wrt (<) (map er_global_position (later_rows t c s))"
    using assms by (simp add: later_rows_def sorted_wrt_map sorted_wrt_filter)
  then have "sorted (map er_global_position (later_rows t c s))" by (rule strict_sorted_imp_sorted)
  then show ?thesis by (simp add: select_all_def later_rows_def sort_key_id_if_sorted)
qed

lemma events_from_rows_append:
  "events_from_rows T (xs @ ys) = res_bind (events_from_rows T xs) (\<lambda>es. res_bind (events_from_rows T ys) (\<lambda>fs. Inr (es @ fs)))"
proof (induction xs)
  case Nil
  then show ?case by (cases "events_from_rows T ys") simp_all
next
  case (Cons x xs)
  then show ?case
    by (cases "event_from_row x (lag_sequence T x)"; cases "events_from_rows T xs"; cases "events_from_rows T ys") simp_all
qed

lemma event_from_row_fields:
  assumes "event_from_row r prev = Inr e"
  shows "global_position e = Some (er_global_position r) \<and> ev_tenant_id e = er_tenant_id r"
  using assms by (auto simp: event_from_row_def new_envelope_def init_envelope_def res_bind_Inr_iff)

lemma events_from_rows_fields:
  "events_from_rows T rows = Inr es \<Longrightarrow>
    map position_of es = map er_global_position rows \<and> map ev_tenant_id es = map er_tenant_id rows"
proof (induction rows arbitrary: es)
  case (Cons r rows)
  then obtain e es' where e: "event_from_row r (lag_sequence T r) = Inr e" "events_from_rows T rows = Inr es'" "es = e # es'"
    by (auto simp: res_bind_Inr_iff)
  with Cons.IH event_from_row_fields [OF e(1)] show ?case by (simp add: position_of_def)
qed simp

section \<open>The read model is a replay of the ledger\<close>

definition replayed :: "projection \<Rightarrow> string \<Rightarrow> int \<Rightarrow> projection_db \<Rightarrow> bool" where
  "replayed p t c s = (\<exists>es. events_from_rows (db_events s) (tenant_rows t c s) = Inr es
     \<and> op_iter (apply_event p) es (clear_table p t (tenant_view t s)) = (Inr (), tenant_view t s))"

lemma op_iter_append: "op_iter f (xs @ ys) = op_bind (op_iter f xs) (\<lambda>_. op_iter f ys)"
proof (induction xs)
  case Nil
  then show ?case by (simp add: op_bind_def op_return_def)
next
  case (Cons x xs)
  then show ?case by (auto simp: op_bind_def fun_eq_iff split: prod.splits sum.splits)
qed

lemma op_iter_viewed:
  "\<forall>e \<in> set es. ev_tenant_id e = t \<Longrightarrow> viewed t (op_iter (apply_event p) es)"
proof (induction es)
  case (Cons e es)
  then have "viewed t (apply_event p e)" using viewed_apply_event [of e p] by auto
  then show ?case using Cons by (auto intro!: viewed_bind)
qed simp

lemma op_iter_frame:
  "clear_table p t (tenant_view t (snd (op_iter (apply_event p) es s))) = clear_table p t (tenant_view t s)
   \<and> db_events (snd (op_iter (apply_event p) es s)) = db_events s
   \<and> pj_checkpoints (snd (op_iter (apply_event p) es s)) = pj_checkpoints s"
proof (induction es arbitrary: s)
  case Nil
  then show ?case by (simp add: op_return_def)
next
  case (Cons e es)
  obtain r s1 where e: "apply_event p e s = (r, s1)" by fastforce
  have f: "clear_table p t (tenant_view t s1) = clear_table p t (tenant_view t s)" "db_events s1 = db_events s"
    "pj_checkpoints s1 = pj_checkpoints s"
    using apply_event_frame [of p t e s] e by simp_all
  show ?case using Cons.IH [of s1] f e by (cases r) (simp_all add: op_bind_def)
qed

lemma op_iter_checked:
  "op_iter (apply_checked t p) es s = (Inr u, s') \<Longrightarrow> op_iter (apply_event p) es s = (Inr u, s')"
proof (induction es arbitrary: s)
  case (Cons e es)
  then show ?case
    by (auto simp: apply_checked_def op_bind_Inr_iff op_require_iff)
qed simp

lemma replayed_extend:
  assumes sorted: "sorted_wrt (<) (map er_global_position (db_events s))" and re: "replayed p t c s"
    and rows: "later_rows t c s = rows @ rest" and es: "events_from_rows (db_events s) rows = Inr es" and ne: "es \<noteq> []"
    and run: "op_iter (apply_event p) es s = (Inr (), s')"
  shows "replayed p t (position_of (last es)) s'"
proof -
  obtain ds where ds: "events_from_rows (db_events s) (tenant_rows t c s) = Inr ds"
    "op_iter (apply_event p) ds (clear_table p t (tenant_view t s)) = (Inr (), tenant_view t s)"
    using re by (auto simp: replayed_def)
  have fields: "map position_of es = map er_global_position rows" "map ev_tenant_id es = map er_tenant_id rows"
    using events_from_rows_fields [OF es] by simp_all
  have rne: "rows \<noteq> []" using ne fields(1) by auto
  have last: "position_of (last es) = er_global_position (last rows)"
    using fields(1) ne rne by (metis last_map)
  have "set rows \<subseteq> set (later_rows t c s)" using rows by simp
  then have "er_tenant_id r = t" if "r \<in> set rows" for r using that by (auto simp: later_rows_def)
  then have tenant: "\<forall>e \<in> set es. ev_tenant_id e = t" using fields(2) by (metis (no_types, lifting) image_iff list.set_map)
  have frame: "clear_table p t (tenant_view t s') = clear_table p t (tenant_view t s)" "db_events s' = db_events s"
    using op_iter_frame [of p t es s] run by simp_all
  have "tenant_rows t (position_of (last es)) s' = tenant_rows t c s @ rows"
    using sorted_page_split(1) [OF sorted _ rne] rows frame(2) by (simp add: tenant_rows_def later_rows_def last)
  then have 1: "events_from_rows (db_events s') (tenant_rows t (position_of (last es)) s') = Inr (ds @ es)"
    using ds(1) es frame(2) by (simp add: events_from_rows_append)
  have "op_iter (apply_event p) es (tenant_view t s) = (Inr (), tenant_view t s')"
    using op_iter_viewed [OF tenant, of p] run unfolding viewed_def by simp
  then have 2: "op_iter (apply_event p) (ds @ es) (clear_table p t (tenant_view t s')) = (Inr (), tenant_view t s')"
    using ds(2) frame(1) by (simp add: op_iter_append op_bind_def)
  show ?thesis unfolding replayed_def using 1 2 by blast
qed

lemma events_from_rows_positions:
  "events_from_rows T rows = Inr es \<Longrightarrow> e \<in> set es \<Longrightarrow> global_position e \<noteq> None"
proof (induction rows arbitrary: es)
  case (Cons r rows)
  then show ?case using event_from_row_fields [of r "lag_sequence T r"] by (auto simp: res_bind_Inr_iff)
qed simp

section \<open>One page\<close>

lemma read_all_Inr:
  assumes "read_all t c n s = (Inr page, s1)" and "sorted_wrt (<) (map er_global_position (db_events s))"
  shows "s1 = s" and "events_from_rows (db_events s) (take (nat n) (later_rows t c s)) = Inr (pg_events page)"
    and "pg_next_cursor page = None \<Longrightarrow> drop (nat n) (later_rows t c s) = []" and "1 \<le> n"
proof -
  let ?rows = "take (nat n) (later_rows t c s)"
  have r: "s1 = s \<and> events_from_rows (db_events s) ?rows = Inr (pg_events page) \<and> 1 \<le> n
      \<and> pg_next_cursor page = (if int (length (pg_events page)) = n then global_position (last (pg_events page)) else None)"
    using assms(1) unfolding read_all_def
    by (auto simp: op_bind_Inr_iff op_lift_iff op_gets_iff op_require_iff op_return_iff validate_page_arguments_def res_bind_Inr_iff
        select_all_page [OF assms(2)] dest!: sym [of "Inr _"])
  then show "s1 = s" "events_from_rows (db_events s) ?rows = Inr (pg_events page)" "1 \<le> n" by auto
  have len: "length (pg_events page) = length ?rows"
    using events_from_rows_fields [of "db_events s" ?rows "pg_events page"] r by (metis length_map)
  show "drop (nat n) (later_rows t c s) = []" if "pg_next_cursor page = None"
  proof (cases "int (length (pg_events page)) = n")
    case True
    then have ne: "pg_events page \<noteq> []" using r by auto
    have "\<forall>e \<in> set (pg_events page). global_position e \<noteq> None"
      using r events_from_rows_positions by blast
    then have "global_position (last (pg_events page)) \<noteq> None" using ne last_in_set by blast
    then show ?thesis using that r True by simp
  next
    case False
    then show ?thesis using len r by (auto simp: min_def split: if_splits)
  qed
qed

lemma replayed_checkpoints [simp]: "replayed p t c (s\<lparr>pj_checkpoints := x\<rparr>) = replayed p t c s"
  by (simp add: replayed_def tenant_rows_def tenant_view_update)

lemma insert_checkpoint_Inr:
  assumes "insert_checkpoint t name s = (Inr u, s')"
  shows "\<exists>x. s' = s\<lparr>pj_checkpoints := x\<rparr> \<and> (\<exists>c \<in> set x. is_checkpoint t name c)"
    and "checkpoint_position t name s' = checkpoint_position t name s"
proof -
  let ?new = "\<lparr>ck_tenant_id = t, ck_projection_name = name, ck_last_global_position = 0\<rparr>"
  let ?x = "sql_upsert (is_checkpoint t name) (\<lambda>c. c) ?new (pj_checkpoints s)"
  have s': "s' = s\<lparr>pj_checkpoints := ?x\<rparr>"
    using assms by (auto simp: insert_checkpoint_def checked_modify_def op_bind_Inr_iff op_gets_iff op_require_iff op_modify_iff)
  have same: "sql_update (is_checkpoint t name) (\<lambda>c. c) (pj_checkpoints s) = pj_checkpoints s" by (simp add: sql_update_def)
  have new: "is_checkpoint t name ?new" by (simp add: is_checkpoint_def)
  have "\<exists>c \<in> set ?x. is_checkpoint t name c" using new by (auto simp: sql_upsert_def same)
  then show "\<exists>x. s' = s\<lparr>pj_checkpoints := x\<rparr> \<and> (\<exists>c \<in> set x. is_checkpoint t name c)" using s' by blast
  show "checkpoint_position t name s' = checkpoint_position t name s"
  proof (cases "\<exists>c \<in> set (pj_checkpoints s). is_checkpoint t name c")
    case True
    then show ?thesis by (simp add: s' checkpoint_position_def sql_upsert_def same)
  next
    case False
    moreover have "sql_one P rows = None \<and> sql_one P (rows @ [q]) = Some q" if "\<forall>r \<in> set rows. \<not> P r" "P q"
      for P and q :: checkpoint_row and rows using that by (induction rows) (auto simp: sql_one_def)
    ultimately have "sql_one (is_checkpoint t name) (pj_checkpoints s) = None \<and> sql_one (is_checkpoint t name) (pj_checkpoints s @ [?new]) = Some ?new"
      using new by blast
    then show ?thesis using False by (simp add: s' checkpoint_position_def sql_upsert_def)
  qed
qed

lemma checkpoint_position_set:
  assumes "\<exists>c \<in> set x. is_checkpoint t name c"
  shows "checkpoint_position t name (s\<lparr>pj_checkpoints := sql_update (is_checkpoint t name) (\<lambda>c. c\<lparr>ck_last_global_position := pos\<rparr>) x\<rparr>) = pos"
proof -
  have "\<exists>c. sql_one (is_checkpoint t name) (sql_update (is_checkpoint t name) (\<lambda>c. c\<lparr>ck_last_global_position := pos\<rparr>) x) = Some c
      \<and> ck_last_global_position c = pos"
    using assms by (induction x) (auto simp: sql_one_def is_checkpoint_def)
  then show ?thesis by (auto simp: checkpoint_position_def)
qed

lemma projection_apply_Inr:
  assumes "projection_apply t name es c s = (Inr c', s')" and "es \<noteq> []" and "projection_table name = Inr p"
  shows "position_of (last es) \<le> c'" and "db_events s' = db_events s"
    and "checkpoint_position t name s = c \<Longrightarrow> c < position_of (last es) \<Longrightarrow>
      c' = position_of (last es) \<and> checkpoint_position t name s' = c'
      \<and> (\<exists>x y s1. op_iter (apply_event p) es (s\<lparr>pj_checkpoints := x\<rparr>) = (Inr (), s1) \<and> s' = s1\<lparr>pj_checkpoints := y\<rparr>)"
proof -
  have run: "apply_page t name p es c s = (Inr c', s')"
    using assms by (auto simp: projection_apply_def op_bind_Inr_iff op_lift_iff op_require_iff tenant_transaction_Inr)
  obtain s0 where s0: "insert_checkpoint t name s = (Inr (), s0)"
    and rest: "(if position_of (last es) \<le> checkpoint_position t name s0 then op_return (checkpoint_position t name s0) else
      op_bind (op_require (checkpoint_position t name s0 = c) (ConcurrencyError c (checkpoint_position t name s0))) (\<lambda>_.
      op_bind (op_iter (apply_checked t p) es) (\<lambda>_.
      op_bind (set_checkpoint t name (position_of (last es))) (\<lambda>_.
      op_return (position_of (last es)))))) s0 = (Inr c', s')"
    using run by (auto simp: apply_page_def Let_def op_bind_Inr_iff op_gets_iff)
  obtain x where x: "s0 = s\<lparr>pj_checkpoints := x\<rparr>" "\<exists>c \<in> set x. is_checkpoint t name c"
    using insert_checkpoint_Inr(1) [OF s0] by blast
  have pos: "checkpoint_position t name s0 = checkpoint_position t name s" by (rule insert_checkpoint_Inr(2) [OF s0])
  show "position_of (last es) \<le> c'" using rest by (auto simp: op_return_iff op_bind_Inr_iff split: if_splits)
  have applied: "\<exists>s1. op_iter (apply_event p) es s0 = (Inr (), s1) \<and> c' = position_of (last es)
      \<and> s' = s1\<lparr>pj_checkpoints := sql_update (is_checkpoint t name) (\<lambda>c. c\<lparr>ck_last_global_position := position_of (last es)\<rparr>) (pj_checkpoints s1)\<rparr>"
    if "\<not> position_of (last es) \<le> checkpoint_position t name s0"
    using rest that op_iter_checked [of t p es s0]
    by (auto simp: op_bind_Inr_iff op_require_iff op_return_iff set_checkpoint_def op_modify_iff)
  show "db_events s' = db_events s"
  proof (cases "position_of (last es) \<le> checkpoint_position t name s0")
    case True
    then show ?thesis using rest x by (simp add: op_return_iff)
  next
    case False
    then show ?thesis using applied op_iter_frame [of p t es s0] x by auto
  qed
  assume c: "checkpoint_position t name s = c" "c < position_of (last es)"
  obtain s1 where s1: "op_iter (apply_event p) es s0 = (Inr (), s1)" "c' = position_of (last es)"
    "s' = s1\<lparr>pj_checkpoints := sql_update (is_checkpoint t name) (\<lambda>c. c\<lparr>ck_last_global_position := position_of (last es)\<rparr>) (pj_checkpoints s1)\<rparr>"
    using applied c pos by auto
  have "pj_checkpoints s1 = x" using op_iter_frame [of p t es s0] s1(1) x by simp
  then have "checkpoint_position t name s' = c'" using s1(2,3) checkpoint_position_set [OF x(2)] by simp
  then show "c' = position_of (last es) \<and> checkpoint_position t name s' = c'
      \<and> (\<exists>x y s1. op_iter (apply_event p) es (s\<lparr>pj_checkpoints := x\<rparr>) = (Inr (), s1) \<and> s' = s1\<lparr>pj_checkpoints := y\<rparr>)"
    using s1 x(1) by blast
qed

lemma page_advances:
  assumes "sorted_wrt (<) (map er_global_position (db_events s))"
    and "events_from_rows (db_events s) (take k (later_rows t c s)) = Inr es" and "es \<noteq> []"
  shows "later_rows t (position_of (last es)) s = drop k (later_rows t c s)" and "c < position_of (last es)"
    and "length (drop k (later_rows t c s)) < length (later_rows t c s)"
proof -
  let ?rows = "take k (later_rows t c s)"
  have f: "map position_of es = map er_global_position ?rows" using events_from_rows_fields [OF assms(2)] by simp
  have ne: "?rows \<noteq> []" using f assms(3) by (metis map_is_Nil_conv)
  have last: "position_of (last es) = er_global_position (last ?rows)" using f ne assms(3) by (metis last_map)
  show "later_rows t (position_of (last es)) s = drop k (later_rows t c s)"
    unfolding last
    using sorted_page_split(2) [OF assms(1), of "\<lambda>r. er_tenant_id r = t" c ?rows "drop k (later_rows t c s)"] ne
    by (simp add: later_rows_def)
  have "last ?rows \<in> set (later_rows t c s)" using ne by (meson in_set_takeD last_in_set)
  then show "c < position_of (last es)" by (simp add: last later_rows_def)
  show "length (drop k (later_rows t c s)) < length (later_rows t c s)" using ne by (cases "later_rows t c s"; cases k) auto
qed

lemma later_rows_mono: "c \<le> c' \<Longrightarrow> length (later_rows t c' s) \<le> length (later_rows t c s)"
proof -
  assume "c \<le> c'"
  then have "length (filter (\<lambda>r. er_tenant_id r = t \<and> c' < er_global_position r) xs)
      \<le> length (filter (\<lambda>r. er_tenant_id r = t \<and> c < er_global_position r) xs)" for xs
    by (induction xs) auto
  then show ?thesis by (simp add: later_rows_def)
qed

lemma catch_up_loop_returns:
  assumes "sorted_wrt (<) (map er_global_position (db_events s))" and "length (later_rows t c s) < n"
  shows "\<exists>r. catch_up_loop n page_size t name c versions s = Some r"
  using assms
proof (induction n arbitrary: c versions s)
  case (Suc n)
  obtain q s1 where page: "read_all t c page_size s = (q, s1)" by fastforce
  show ?case
  proof (cases q)
    case (Inl e)
    then show ?thesis using page by simp
  next
    case (Inr pg)
    note r = read_all_Inr [OF page [unfolded Inr] Suc.prems(1)]
    obtain a s2 where ap: "projection_apply t name (pg_events pg) c s1 = (a, s2)" by fastforce
    have rec: "\<exists>r. catch_up_loop n page_size t name c' v s2 = Some r" if "a = Inr c'" "pg_events pg \<noteq> []" for c' v
    proof -
      note adv = page_advances [OF Suc.prems(1) r(2) that(2)]
      have "\<exists>p. projection_table name = Inr p"
        using ap that(1) by (cases "projection_table name") (simp_all add: projection_apply_def op_bind_def op_lift_def)
      then obtain p where "projection_table name = Inr p" by blast
      note a = projection_apply_Inr [OF ap [unfolded that(1)] that(2) this]
      have "length (later_rows t c' s) \<le> length (later_rows t (position_of (last (pg_events pg))) s)" by (rule later_rows_mono [OF a(1)])
      then have "length (later_rows t c' s2) < n"
        using adv Suc.prems(2) a(2) r(1) by (simp add: later_rows_def)
      then show ?thesis using Suc.IH [of s2 c' v] Suc.prems(1) a(2) r(1) by simp
    qed
    then show ?thesis using page Inr ap by (auto split: sum.splits)
  qed
qed simp

text \<open>What catching up achieves: the read model replays the whole ledger of the tenant.\<close>

definition up_to_date :: "projection \<Rightarrow> string \<Rightarrow> string \<Rightarrow> int \<Rightarrow> projection_db \<Rightarrow> bool" where
  "up_to_date p name t c s = (replayed p t c s \<and> later_rows t c s = [] \<and> checkpoint_position t name s = c)"

lemma catch_up_loop_up_to_date:
  assumes "sorted_wrt (<) (map er_global_position (db_events s))" and "projection_table name = Inr p"
    and "replayed p t c s" and "checkpoint_position t name s = c"
    and "catch_up_loop n page_size t name c versions s = Some (Inr cp, s')"
  shows "up_to_date p name t (pc_last_global_position cp) s' \<and> db_events s' = db_events s
    \<and> clear_table p t (tenant_view t s') = clear_table p t (tenant_view t s)"
  using assms
proof (induction n arbitrary: c versions s)
  case (Suc n)
  obtain q s1 where page: "read_all t c page_size s = (q, s1)" by fastforce
  then obtain pg where Inr: "q = Inr pg" using Suc.prems(5) by (cases q) auto
  note r = read_all_Inr [OF page [unfolded Inr] Suc.prems(1)]
  show ?case
  proof (cases "pg_events pg = []")
    case True
    then have "take (nat page_size) (later_rows t c s) = []" using events_from_rows_fields [OF r(2)] by auto
    then have "later_rows t c s = []" using r(4) by (cases "later_rows t c s") auto
    then show ?thesis using Suc.prems page Inr True r(1) by (auto simp: up_to_date_def)
  next
    case False
    note adv = page_advances [OF Suc.prems(1) r(2) False]
    obtain v where v: "validate_page (pg_events pg) c versions = Inr v"
      using Suc.prems(5) page Inr False by (auto split: sum.splits)
    obtain c' s2 where ap: "projection_apply t name (pg_events pg) c s1 = (Inr c', s2)"
      using Suc.prems(5) page Inr False v by (auto split: prod.splits sum.splits)
    note a = projection_apply_Inr [OF ap False Suc.prems(2)]
    obtain x y s3 where s3: "c' = position_of (last (pg_events pg))" "checkpoint_position t name s2 = c'"
      "op_iter (apply_event p) (pg_events pg) (s\<lparr>pj_checkpoints := x\<rparr>) = (Inr (), s3)" "s2 = s3\<lparr>pj_checkpoints := y\<rparr>"
      using a(3) adv(2) Suc.prems(4) r(1) by blast
    have "replayed p t c' s3"
      unfolding s3(1)
      by (rule replayed_extend [where rest = "drop (nat page_size) (later_rows t c s)", OF _ _ _ _ False s3(3)])
        (use Suc.prems(1,3) r(2) in \<open>simp_all add: later_rows_def\<close>)
    then have re: "replayed p t c' s2" by (simp add: s3(4))
    have ev: "db_events s2 = db_events s" using a(2) r(1) by simp
    have fr: "clear_table p t (tenant_view t s2) = clear_table p t (tenant_view t s)"
      using op_iter_frame [of p t "pg_events pg" "s\<lparr>pj_checkpoints := x\<rparr>"] s3(3,4) by (simp add: tenant_view_update)
    show ?thesis
    proof (cases "pg_next_cursor pg = None")
      case True
      then have "later_rows t c' s2 = []" using r(3) adv(1) ev s3(1) by (simp add: later_rows_def)
      then show ?thesis using Suc.prems(5) page Inr False v ap True re s3(2) ev fr by (auto simp: up_to_date_def)
    next
      case False
      then have "catch_up_loop n page_size t name c' v s2 = Some (Inr cp, s')"
        using Suc.prems(5) page Inr \<open>pg_events pg \<noteq> []\<close> v ap by auto
      then show ?thesis using Suc.IH [OF _ Suc.prems(2) re s3(2)] Suc.prems(1) ev fr by simp
    qed
  qed
qed simp

lemma ledger_sorted: "ledger_inv s \<Longrightarrow> sorted_wrt (<) (map er_global_position (db_events s))"
  by (simp add: ledger_inv_def)

lemma projection_checkpoint_eq:
  "projection_table name = Inr p \<Longrightarrow> projection_checkpoint t name s
    = (Inr \<lparr>pc_projection_name = name, pc_last_global_position = checkpoint_position t name s\<rparr>, s)"
  by (simp add: projection_checkpoint_def op_bind_def op_lift_def op_gets_def tenant_transaction_def transaction_def)

lemma catch_up_result:
  assumes "ledger_inv s" and "projection_table name = Inr p" and "replayed p t (checkpoint_position t name s) s"
    and "catch_up page_size t name s = Some (Inr cp, s')"
  shows "up_to_date p name t (pc_last_global_position cp) s' \<and> db_events s' = db_events s
    \<and> clear_table p t (tenant_view t s') = clear_table p t (tenant_view t s)"
proof -
  have "catch_up_loop (Suc (length (db_events s))) page_size t name (checkpoint_position t name s) (\<lambda>_. None) s = Some (Inr cp, s')"
    using assms(4) unfolding catch_up_def projection_checkpoint_eq [OF assms(2)] by (simp del: catch_up_loop.simps)
  then show ?thesis by (rule catch_up_loop_up_to_date [OF ledger_sorted [OF assms(1)] assms(2,3) refl])
qed


text \<open>
  C22: catching up always ends. On a ledger that keeps its invariant the loop of \<^verbatim>\<open>catch_up\<close>, which the code runs
  without a bound, returns or raises within one page more than there are events, from any checkpoint and with any page size.
\<close>

theorem catch_up_ends:
  assumes "ledger_inv s"
  shows "\<exists>r. catch_up page_size t name s = Some r"
proof (cases "projection_table name")
  case (Inl e)
  then show ?thesis by (simp add: catch_up_def projection_checkpoint_def op_bind_def op_lift_def)
next
  case (Inr p)
  have "length (later_rows t c s) < Suc (length (db_events s))" for c
    unfolding later_rows_def by (meson length_filter_le less_Suc_eq_le)
  then show ?thesis
    unfolding catch_up_def projection_checkpoint_eq [OF Inr]
    using catch_up_loop_returns [OF ledger_sorted [OF assms]] by (simp del: catch_up_loop.simps)
qed

section \<open>Rebuilding\<close>

lemma clear_view_idem: "clear_table p t (tenant_view t (clear_table p t s)) = tenant_view t (clear_table p t s)"
  "clear_table p t (tenant_view t (clear_table p t s)) = clear_table p t (tenant_view t s)"
  by (cases p; simp add: tenant_view_update)+

lemma clear_table_fields [simp]:
  "db_events (clear_table p t s) = db_events s" "pj_rebuild_locks (clear_table p t s) = pj_rebuild_locks s"
  "pj_checkpoints (clear_table p t s) = pj_checkpoints s" "db_heads (clear_table p t s) = db_heads s"
  "db_next_position (clear_table p t s) = db_next_position s"
  by (cases p; simp)+

lemma projection_reset_eq:
  "projection_table name = Inr p \<Longrightarrow> projection_reset t name s
    = (Inr (), (clear_table p t s)\<lparr>pj_checkpoints := filter (\<lambda>c. \<not> is_checkpoint t name c) (pj_checkpoints s)\<rparr>)"
  by (simp add: projection_reset_def op_bind_def op_lift_def op_modify_def tenant_transaction_def transaction_def)

lemma reset_replayed:
  assumes "ledger_inv s" and "projection_table name = Inr p" and "projection_reset t name s = (Inr (), s')"
  shows "checkpoint_position t name s' = 0" and "replayed p t 0 s'" and "ledger_inv s'"
    and "clear_table p t (tenant_view t s') = clear_table p t (tenant_view t s)" and "db_events s' = db_events s"
proof -
  let ?ck = "filter (\<lambda>c. \<not> is_checkpoint t name c) (pj_checkpoints s)"
  have s': "s' = (clear_table p t s)\<lparr>pj_checkpoints := ?ck\<rparr>" using assms(3) by (simp add: projection_reset_eq [OF assms(2)])
  have "sql_one (is_checkpoint t name) ?ck = None" by (auto simp: sql_one_def find_None_iff)
  then show "checkpoint_position t name s' = 0" by (simp add: s' checkpoint_position_def)
  have "tenant_rows t 0 s = []" using assms(1) by (force simp: tenant_rows_def ledger_inv_def filter_empty_conv)
  then show "replayed p t 0 s'"
    by (simp add: s' replayed_def tenant_rows_def op_return_def tenant_view_update clear_view_idem(1))
  show "ledger_inv s'" by (rule ledger_inv_cong [OF _ _ _ assms(1)]) (simp_all add: s')
  show "clear_table p t (tenant_view t s') = clear_table p t (tenant_view t s)"
    by (simp add: s' tenant_view_update clear_view_idem(2))
  show "db_events s' = db_events s" by (simp add: s')
qed

lemma up_to_date_unique:
  assumes "up_to_date p n1 t c1 s1" and "up_to_date p n2 t c2 s2" and "db_events s1 = db_events s2"
    and "clear_table p t (tenant_view t s1) = clear_table p t (tenant_view t s2)"
  shows "tenant_view t s1 = tenant_view t s2"
proof -
  have all: "tenant_rows t c s = filter (\<lambda>r. er_tenant_id r = t) (db_events s)" if "later_rows t c s = []" for c s
    using that by (auto simp: tenant_rows_def later_rows_def filter_empty_conv not_less intro!: filter_cong)
  have "tenant_rows t c1 s1 = tenant_rows t c2 s2"
    using assms(1-3) all by (simp add: up_to_date_def)
  then show ?thesis using assms by (auto simp: up_to_date_def replayed_def)
qed

text \<open>
  Rebuilding gives what catching up gives. Whenever both succeed on the same database, discarding a tenant's projection and
  rebuilding it leaves exactly the rows, in every table, that catching up leaves; in particular the outcome does not depend on
  the page size, on how often the projection was caught up before, or on what the discarded rows were.
\<close>

theorem rebuild_agrees_with_catch_up:
  assumes "ledger_inv s" and "projection_table name = Inr p" and "replayed p t (checkpoint_position t name s) s"
    and "catch_up page_size1 t name s = Some (Inr c1, s1)" and "rebuild page_size2 t name s = Some (Inr c2, s2)"
  shows "tenant_view t s1 = tenant_view t s2"
proof -
  let ?b = "if name \<in> set budget_projections then begin_rebuild t name s else s"
  let ?release = "\<lambda>s. if name \<in> set budget_projections then end_rebuild t name s else s"
  note r1 = catch_up_result [OF assms(1-4)]
  have inv: "ledger_inv ?b" by (rule ledger_inv_cong [OF _ _ _ assms(1)]) (simp_all add: begin_rebuild_def)
  obtain s3 where reset: "projection_reset t name ?b = (Inr (), s3)" using projection_reset_eq [OF assms(2)] by blast
  note z = reset_replayed [OF inv assms(2) reset]
  obtain s4 where s4: "catch_up page_size2 t name s3 = Some (Inr c2, s4)" "s2 = ?release s4"
    using assms(5) reset by (auto simp: rebuild_def Let_def split: if_splits)
  have r2: "up_to_date p name t (pc_last_global_position c2) s4 \<and> db_events s4 = db_events s3
      \<and> clear_table p t (tenant_view t s4) = clear_table p t (tenant_view t s3)"
    by (rule catch_up_result [OF z(3) assms(2) _ s4(1)]) (simp add: z(1,2))
  have view: "tenant_view t s2 = tenant_view t s4" using s4(2) by (simp add: end_rebuild_def tenant_view_update)
  have "db_events s1 = db_events s4" using r1 r2 z(5) by (simp add: begin_rebuild_def)
  moreover have "clear_table p t (tenant_view t s1) = clear_table p t (tenant_view t s4)"
    using r1 r2 z(4) by (simp add: begin_rebuild_def tenant_view_update)
  ultimately show ?thesis using up_to_date_unique r1 r2 view by metis
qed


section \<open>A concrete read model\<close>

definition sample_row :: event_row where
  "sample_row = event_insert_values (sample_event 7 ''r'') 1 1 5"

definition sample_stored :: EventEnvelope where
  "sample_stored = stored_envelope (sample_event 7 ''r'') 1 1 5 None"

definition sample_read_model :: "checkpoint_row list \<Rightarrow> run_status_row list \<Rightarrow> projection_db" where
  "sample_read_model cks rows =
     \<lparr>db_tenants = [''acme''], db_commit_locks = [''acme''],
      db_heads = [\<lparr>hd_tenant_id = ''acme'', hd_aggregate_id = ''r'', hd_current_version = 1\<rparr>],
      db_events = [sample_row], db_next_position = 2, db_inbox = [], db_outbox = [], db_work_items = [], db_work_leases = [],
      db_work_dead_letters = [], db_work_requeue_approvals = [], pj_rebuild_locks = [], pj_checkpoints = cks,
      pj_run_status = rows, pj_artifacts = [], pj_approvals = [], pj_model_usage = [], pj_usage_quota = [], pj_tenants = []\<rparr>"

definition sample_checkpoint :: checkpoint_row where
  "sample_checkpoint = \<lparr>ck_tenant_id = ''acme'', ck_projection_name = ''run-status'', ck_last_global_position = 1\<rparr>"

definition sample_status :: run_status_row where
  "sample_status = \<lparr>rs_tenant_id = ''acme'', rs_run_id = ''r'', rs_status = ''running'', rs_aggregate_sequence = 1,
     rs_last_global_position = 1, rs_updated_at = 5\<rparr>"

lemma sample_row_fields [simp]:
  "er_global_position sample_row = 1" "er_tenant_id sample_row = ''acme''" "er_aggregate_id sample_row = ''r''"
  "er_aggregate_sequence sample_row = 1" "er_event_id sample_row = 7"
  by (simp_all add: sample_row_def event_insert_values_def sample_event_def)

lemma sample_stored_fields [simp]:
  "global_position sample_stored = Some 1" "ev_tenant_id sample_stored = ''acme''" "aggregate_id sample_stored = ''r''"
  "aggregate_sequence sample_stored = 1" "previous_aggregate_sequence sample_stored = None" "position_of sample_stored = 1"
  by (simp_all add: sample_stored_def stored_envelope_def sample_event_def position_of_def)

lemma sample_lag [simp]: "lag_sequence [sample_row] sample_row = None"
  by (simp add: lag_sequence_def in_stream_def)

lemma sample_decoded [simp]: "event_from_row sample_row None = Inr sample_stored"
  unfolding sample_row_def sample_stored_def by (rule event_from_row_insert) (use sample_event_ok in simp_all)

lemma sample_read_all:
  "read_all ''acme'' 0 1 (sample_read_model cks rows) = (Inr \<lparr>pg_events = [sample_stored], pg_next_cursor = Some 1\<rparr>, sample_read_model cks rows)"
  "read_all ''acme'' 1 1 (sample_read_model cks rows) = (Inr \<lparr>pg_events = [], pg_next_cursor = None\<rparr>, sample_read_model cks rows)"
  by (simp_all add: read_all_def op_eval validate_page_arguments_def select_all_def gap_free_row_def sample_read_model_def)

lemma sample_applied:
  "apply_run_status sample_stored (sample_read_model cks []) = (Inr (), sample_read_model cks [sample_status])"
proof -
  have "domain_event_type (event_type sample_stored) = Some RUN_STARTED"
    using DomainEventType_of_value [of RUN_STARTED]
    by (simp add: domain_event_type_def sample_stored_def stored_envelope_def sample_event_def)
  moreover have "recorded_at sample_stored = Some (dt_of_instant 5)" by (simp add: sample_stored_def stored_envelope_def)
  ultimately show ?thesis
    by (simp add: apply_run_status_def run_status_of_def checked_modify_def op_eval known_tenant_def sample_read_model_def
        sql_upsert_def sample_status_def recorded_of_def Let_def)
qed

lemma sample_page:
  "projection_apply ''acme'' ''run-status'' [sample_stored] 0 (sample_read_model [] []) = (Inr 1, sample_read_model [sample_checkpoint] [sample_status])"
proof -
  let ?ck = "sample_checkpoint\<lparr>ck_last_global_position := 0\<rparr>"
  have 1: "insert_checkpoint ''acme'' ''run-status'' (sample_read_model [] []) = (Inr (), sample_read_model [?ck] [])"
    by (simp add: insert_checkpoint_def checked_modify_def op_eval known_tenant_def sample_read_model_def sql_upsert_def sample_checkpoint_def)
  have 2: "checkpoint_position ''acme'' ''run-status'' (sample_read_model [?ck] []) = 0"
    by (simp add: checkpoint_position_def sample_read_model_def sql_one_def is_checkpoint_def sample_checkpoint_def)
  have 3: "set_checkpoint ''acme'' ''run-status'' 1 (sample_read_model [?ck] [sample_status]) = (Inr (), sample_read_model [sample_checkpoint] [sample_status])"
    by (simp add: set_checkpoint_def op_modify_def sample_read_model_def sql_update_def is_checkpoint_def sample_checkpoint_def)
  show ?thesis
    by (simp add: projection_apply_def projection_table_def tenant_transaction_def transaction_def apply_page_def apply_checked_def op_eval 1 2 3
        sample_applied)
qed

lemma sample_catch_up:
  "catch_up 1 ''acme'' ''run-status'' (sample_read_model [] [])
    = Some (Inr \<lparr>pc_projection_name = ''run-status'', pc_last_global_position = 1\<rparr>, sample_read_model [sample_checkpoint] [sample_status])"
proof -
  have t: "projection_table ''run-status'' = Inr RunStatus" by (simp add: projection_table_def)
  have c: "checkpoint_position ''acme'' ''run-status'' (sample_read_model [] []) = 0"
    by (simp add: checkpoint_position_def sample_read_model_def sql_one_def)
  have e: "length (db_events (sample_read_model [] [])) = 1" by (simp add: sample_read_model_def)
  have v: "validate_page [sample_stored] 0 (\<lambda>_. None) = Inr [''r'' \<mapsto> 1]"
    by (simp add: validate_page_def validate_positions_def require_def)
  show ?thesis
    unfolding catch_up_def projection_checkpoint_eq [OF t] by (simp add: c e v sample_read_all sample_page)
qed

lemma sample_reset:
  "projection_reset ''acme'' ''run-status'' (sample_read_model [] []) = (Inr (), sample_read_model [] [])"
proof -
  have t: "projection_table ''run-status'' = Inr RunStatus" by (simp add: projection_table_def)
  show ?thesis by (simp add: projection_reset_eq [OF t] sample_read_model_def)
qed

lemma sample_read_model_ok:
  "ledger_inv (sample_read_model cks rows)" "projection_table ''run-status'' = Inr RunStatus"
  "replayed RunStatus ''acme'' (checkpoint_position ''acme'' ''run-status'' (sample_read_model [] [])) (sample_read_model [] [])"
  by (simp_all add: ledger_inv_def sample_read_model_def in_stream_def is_head_def projection_table_def replayed_def tenant_rows_def
      checkpoint_position_def sql_one_def tenant_view_def op_return_def)


theorem catch_up_ends_witness: "\<exists>r. catch_up 1 ''acme'' ''run-status'' (sample_read_model [] []) = Some r"
  using catch_up_ends [OF sample_read_model_ok(1)] .

theorem rebuild_agrees_with_catch_up_witness:
  "case rebuild 1 ''acme'' ''run-status'' (sample_read_model [] []) of None \<Rightarrow> False
   | Some (r, s) \<Rightarrow> tenant_view ''acme'' (sample_read_model [sample_checkpoint] [sample_status]) = tenant_view ''acme'' s"
proof -
  have r: "rebuild 1 ''acme'' ''run-status'' (sample_read_model [] [])
      = Some (Inr \<lparr>pc_projection_name = ''run-status'', pc_last_global_position = 1\<rparr>, sample_read_model [sample_checkpoint] [sample_status])"
    by (simp add: rebuild_def budget_projections_def sample_reset sample_catch_up)
  show ?thesis unfolding r using rebuild_agrees_with_catch_up [OF sample_read_model_ok sample_catch_up r] by simp
qed

end
