(* ===== verification/Model_Domain.thy ===== *)
theory Model_Domain
  imports Domain_Events Decimals
begin

text \<open>
  \<^verbatim>\<open>domain/model.py\<close>: the provider-neutral contracts of the model gateway with their construction-time checks, token usage and prices.
  Timeouts are exact rationals; a float that is not a number is not a timeout the gateway can be given.
\<close>

section \<open>Enumerations\<close>

datatype MessageRole = ROLE_SYSTEM | ROLE_USER | ROLE_ASSISTANT | ROLE_TOOL

fun MessageRole_value :: "MessageRole \<Rightarrow> string" where
  "MessageRole_value ROLE_SYSTEM = ''system''"
| "MessageRole_value ROLE_USER = ''user''"
| "MessageRole_value ROLE_ASSISTANT = ''assistant''"
| "MessageRole_value ROLE_TOOL = ''tool''"

datatype FinishReason = FINISH_STOP | FINISH_LENGTH | FINISH_TOOL_CALLS | FINISH_REFUSAL | FINISH_CONTENT_FILTER | FINISH_CANCELLED
  | FINISH_UNKNOWN

fun FinishReason_value :: "FinishReason \<Rightarrow> string" where
  "FinishReason_value FINISH_STOP = ''stop''"
| "FinishReason_value FINISH_LENGTH = ''length''"
| "FinishReason_value FINISH_TOOL_CALLS = ''tool_calls''"
| "FinishReason_value FINISH_REFUSAL = ''refusal''"
| "FinishReason_value FINISH_CONTENT_FILTER = ''content_filter''"
| "FinishReason_value FINISH_CANCELLED = ''cancelled''"
| "FinishReason_value FINISH_UNKNOWN = ''unknown''"

datatype SafetyOutcome = SAFETY_ALLOWED | SAFETY_REFUSED | SAFETY_FILTERED

fun SafetyOutcome_value :: "SafetyOutcome \<Rightarrow> string" where
  "SafetyOutcome_value SAFETY_ALLOWED = ''allowed''"
| "SafetyOutcome_value SAFETY_REFUSED = ''refused''"
| "SafetyOutcome_value SAFETY_FILTERED = ''filtered''"

fun ModelErrorClass_value :: "ModelErrorClass \<Rightarrow> string" where
  "ModelErrorClass_value ME_AUTHENTICATION = ''authentication''"
| "ModelErrorClass_value ME_AUTHORIZATION = ''authorization''"
| "ModelErrorClass_value ME_INVALID_REQUEST = ''invalid_request''"
| "ModelErrorClass_value ME_CAPABILITY = ''capability''"
| "ModelErrorClass_value ME_SCHEMA = ''schema''"
| "ModelErrorClass_value ME_SAFETY = ''safety''"
| "ModelErrorClass_value ME_RATE_LIMIT = ''rate_limit''"
| "ModelErrorClass_value ME_TIMEOUT = ''timeout''"
| "ModelErrorClass_value ME_CANCELLED = ''cancelled''"
| "ModelErrorClass_value ME_TRANSIENT = ''transient''"
| "ModelErrorClass_value ME_PROVIDER_UNAVAILABLE = ''provider_unavailable''"
| "ModelErrorClass_value ME_MALFORMED_RESPONSE = ''malformed_response''"
| "ModelErrorClass_value ME_PROVIDER_BUG = ''provider_bug''"

section \<open>Content\<close>

record ToolCallProposal =
  tc_call_id :: string
  tc_tool_name :: string
  tc_arguments :: json_obj

datatype ContentPart =
    TextPart string
  | ImagePart string string
  | ToolCallPart ToolCallProposal
  | ToolResultPart string json bool

fun ContentKind_value :: "ContentPart \<Rightarrow> string" where
  "ContentKind_value (TextPart _) = ''text''"
| "ContentKind_value (ImagePart _ _) = ''image''"
| "ContentKind_value (ToolCallPart _) = ''tool_call''"
| "ContentKind_value (ToolResultPart _ _ _) = ''tool_result''"

definition init_TextPart :: "string \<Rightarrow> ContentPart res" where
  "init_TextPart text = (if text = [] then Inl (ValueError ''text content cannot be empty'') else Inr (TextPart text))"

definition init_ImagePart :: "string \<Rightarrow> string \<Rightarrow> ContentPart res" where
  "init_ImagePart media_type uri =
     res_bind (require (media_type \<in> set [''image/jpeg'', ''image/png'', ''image/gif'', ''image/webp''])
       (ValueError ''unsupported image media type'')) (\<lambda>_.
     res_bind (require (py_startswith uri ''https://'') (ValueError ''image uri must use an approved scheme'')) (\<lambda>_.
     Inr (ImagePart media_type uri)))"

definition init_ToolCallProposal :: "string \<Rightarrow> string \<Rightarrow> (pyval \<times> pyval) list \<Rightarrow> ToolCallProposal res" where
  "init_ToolCallProposal call_id tool_name arguments =
     res_bind (require (call_id \<noteq> [] \<and> tool_name \<noteq> []) (ValueError ''tool call id and name are required'')) (\<lambda>_.
     res_bind (freeze_json_mapping arguments) (\<lambda>args.
     Inr \<lparr>tc_call_id = call_id, tc_tool_name = tool_name, tc_arguments = args\<rparr>))"

definition init_ToolResultPart :: "string \<Rightarrow> pyval \<Rightarrow> bool \<Rightarrow> ContentPart res" where
  "init_ToolResultPart call_id content is_error =
     res_bind (require (call_id \<noteq> []) (ValueError ''tool result call id is required'')) (\<lambda>_.
     res_bind (freeze_json content) (\<lambda>c.
     Inr (ToolResultPart call_id c is_error)))"

fun is_text_part :: "ContentPart \<Rightarrow> bool" where
  "is_text_part (TextPart _) = True"
| "is_text_part _ = False"

fun is_image_part :: "ContentPart \<Rightarrow> bool" where
  "is_image_part (ImagePart _ _) = True"
| "is_image_part _ = False"

fun is_tool_result_part :: "ContentPart \<Rightarrow> bool" where
  "is_tool_result_part (ToolResultPart _ _ _) = True"
| "is_tool_result_part _ = False"

record ModelMessage =
  mm_role :: MessageRole
  mm_content :: "ContentPart list"
  mm_name :: "string option"

definition init_ModelMessage :: "ModelMessage \<Rightarrow> ModelMessage res" where
  "init_ModelMessage m =
     res_bind (require (mm_content m \<noteq> []) (ValueError ''message content cannot be empty'')) (\<lambda>_.
     res_bind (require (mm_name m \<noteq> Some []) (ValueError ''message name cannot be empty'')) (\<lambda>_.
     res_bind (require (\<not> (mm_role m = ROLE_SYSTEM \<and> (\<exists>p \<in> set (mm_content m). \<not> is_text_part p)))
       (ValueError ''system messages may contain only text'')) (\<lambda>_.
     res_bind (require (\<not> (mm_role m = ROLE_TOOL \<and> (\<exists>p \<in> set (mm_content m). \<not> is_tool_result_part p)))
       (ValueError ''tool messages require tool results'')) (\<lambda>_.
     Inr m))))"

section \<open>Schemas and tools\<close>

record JsonSchema =
  js_name :: string
  js_schema :: json_obj
  js_strict :: bool

definition dict_get :: "(pyval \<times> pyval) list \<Rightarrow> string \<Rightarrow> pyval" where
  "dict_get d k = (case map_of d (PStr k) of None \<Rightarrow> PNone | Some v \<Rightarrow> v)"

definition init_JsonSchema :: "string \<Rightarrow> (pyval \<times> pyval) list \<Rightarrow> bool \<Rightarrow> JsonSchema res" where
  "init_JsonSchema name schema strict =
     res_bind (require (name \<noteq> []) (ValueError ''schema name is required'')) (\<lambda>_.
     res_bind (require (dict_get schema ''type'' = PStr ''object'')
       (ValueError ''structured output schema root must be an object'')) (\<lambda>_.
     res_bind (freeze_json_mapping schema) (\<lambda>s.
     Inr \<lparr>js_name = name, js_schema = s, js_strict = strict\<rparr>)))"

record ToolDefinition =
  td_name :: string
  td_description :: string
  td_input_schema :: JsonSchema

definition init_ToolDefinition :: "ToolDefinition \<Rightarrow> ToolDefinition res" where
  "init_ToolDefinition t =
     (if td_name t = [] \<or> td_description t = [] then Inl (ValueError ''tool name and description are required'') else Inr t)"

section \<open>Models\<close>

record ModelCapabilities =
  cap_max_context_tokens :: int
  cap_max_output_tokens :: int
  cap_supports_tools :: bool
  cap_supports_vision :: bool
  cap_supports_structured_output :: bool
  cap_supports_reasoning_tokens :: bool
  cap_supports_cache_tokens :: bool

definition init_ModelCapabilities :: "ModelCapabilities \<Rightarrow> ModelCapabilities res" where
  "init_ModelCapabilities c =
     res_bind (require (1 \<le> cap_max_context_tokens c \<and> 1 \<le> cap_max_output_tokens c)
       (ValueError ''model token limits must be positive'')) (\<lambda>_.
     res_bind (require (cap_max_output_tokens c \<le> cap_max_context_tokens c)
       (ValueError ''output limit cannot exceed context limit'')) (\<lambda>_.
     Inr c))"

record ProviderIdentity =
  pi_provider :: string
  pi_region :: string

definition init_ProviderIdentity :: "ProviderIdentity \<Rightarrow> ProviderIdentity res" where
  "init_ProviderIdentity i =
     (if pi_provider i = [] \<or> pi_region i = [] then Inl (ValueError ''provider and region are required'') else Inr i)"

record ModelIdentity =
  mi_provider :: string
  mi_model :: string

definition init_ModelIdentity :: "ModelIdentity \<Rightarrow> ModelIdentity res" where
  "init_ModelIdentity i =
     (if mi_provider i = [] \<or> mi_model i = [] then Inl (ValueError ''provider and model are required'') else Inr i)"

definition catalog_key :: "ModelIdentity \<Rightarrow> string" where
  "catalog_key i = mi_provider i @ ''/'' @ mi_model i"

section \<open>Usage and prices\<close>

record TokenUsage =
  tu_input_tokens :: int
  tu_output_tokens :: int
  tu_cache_read_tokens :: int
  tu_cache_write_tokens :: int
  tu_reasoning_tokens :: int

definition init_TokenUsage :: "TokenUsage \<Rightarrow> TokenUsage res" where
  "init_TokenUsage u =
     (if \<exists>v \<in> set [tu_input_tokens u, tu_output_tokens u, tu_cache_read_tokens u, tu_cache_write_tokens u, tu_reasoning_tokens u]. v < 0
      then Inl (ValueError ''token usage cannot be negative'') else Inr u)"

definition billable_tokens :: "TokenUsage \<Rightarrow> int" where
  "billable_tokens u =
     tu_input_tokens u + tu_output_tokens u + tu_cache_read_tokens u + tu_cache_write_tokens u + tu_reasoning_tokens u"

record PricingVersion =
  pv_version :: string
  pv_effective_at :: datetime
  pv_input :: decimal
  pv_output :: decimal
  pv_cache_read :: decimal
  pv_cache_write :: decimal
  pv_reasoning :: decimal

definition prices :: "PricingVersion \<Rightarrow> decimal list" where
  "prices p = [pv_input p, pv_output p, pv_cache_read p, pv_cache_write p, pv_reasoning p]"

text \<open>\<^verbatim>\<open>any(value < 0 for value in ...)\<close>: stops at the first negative value, and a NaN before it raises.\<close>

primrec any_negative :: "decimal list \<Rightarrow> bool res" where
  "any_negative [] = Inr False"
| "any_negative (v # vs) = res_bind (dec_lt v (dec_of_int 0)) (\<lambda>negative. if negative then Inr True else any_negative vs)"

definition init_PricingVersion :: "PricingVersion \<Rightarrow> PricingVersion res" where
  "init_PricingVersion p =
     res_bind (require (pv_version p \<noteq> [] \<and> dt_aware (pv_effective_at p))
       (ValueError ''pricing version and timezone-aware effective time required'')) (\<lambda>_.
     res_bind (any_negative (prices p)) (\<lambda>negative.
     res_bind (require (\<not> negative) (ValueError ''prices cannot be negative'')) (\<lambda>_.
     Inr p)))"

text \<open>
  Arithmetic on numbers that are not NaN and gives a NaN is an InvalidOperation, which the default context raises; the
  constructors above let no NaN in.
\<close>

definition checked_decimal :: "decimal \<Rightarrow> decimal res" where
  "checked_decimal d = (if d = Dec_NaN then Inl (RuntimeError ''InvalidOperation'') else Inr d)"

definition per_million :: "decimal \<Rightarrow> decimal" where
  "per_million d = dec_divide d False 1000000 0"

definition pricing_cost :: "PricingVersion \<Rightarrow> TokenUsage \<Rightarrow> decimal res" where
  "pricing_cost p u =
     checked_decimal (per_million (dec_add (dec_add (dec_add (dec_add
       (dec_mult (dec_of_int (tu_input_tokens u)) (pv_input p))
       (dec_mult (dec_of_int (tu_output_tokens u)) (pv_output p)))
       (dec_mult (dec_of_int (tu_cache_read_tokens u)) (pv_cache_read p)))
       (dec_mult (dec_of_int (tu_cache_write_tokens u)) (pv_cache_write p)))
       (dec_mult (dec_of_int (tu_reasoning_tokens u)) (pv_reasoning p))))"

section \<open>Requests and responses\<close>

record SafetyResult =
  sr_outcome :: SafetyOutcome
  sr_reason_code :: "string option"

definition init_SafetyResult :: "SafetyResult \<Rightarrow> SafetyResult res" where
  "init_SafetyResult s =
     res_bind (require (\<not> (sr_outcome s = SAFETY_ALLOWED \<and> sr_reason_code s \<noteq> None))
       (ValueError ''allowed result cannot have a refusal reason'')) (\<lambda>_.
     res_bind (require (\<not> (sr_outcome s \<noteq> SAFETY_ALLOWED \<and> sr_reason_code s \<in> {None, Some []}))
       (ValueError ''refusal or filtering requires a reason code'')) (\<lambda>_.
     Inr s))"

record ModelRequest =
  mq_request_id :: uuid
  mq_tenant_id :: string
  mq_run_id :: uuid
  mq_messages :: "ModelMessage list"
  mq_max_output_tokens :: int
  mq_prompt_token_estimate :: int
  mq_requested_model :: "ModelIdentity option"
  mq_tools :: "ToolDefinition list"
  mq_response_schema :: "JsonSchema option"
  mq_temperature :: decimal
  mq_timeout_seconds :: rat
  mq_idempotency_key :: string

text \<open>\<^verbatim>\<open>low <= value <= high\<close>, of which the second comparison is made only if the first holds.\<close>

definition dec_between :: "decimal \<Rightarrow> decimal \<Rightarrow> decimal \<Rightarrow> bool res" where
  "dec_between low v high =
     res_bind (dec_lt v low) (\<lambda>below. if below then Inr False else res_bind (dec_lt high v) (\<lambda>above. Inr (\<not> above)))"

definition init_ModelRequest :: "ModelRequest \<Rightarrow> ModelRequest res" where
  "init_ModelRequest r =
     res_bind (require (mq_tenant_id r \<noteq> [] \<and> mq_messages r \<noteq> [] \<and> mq_idempotency_key r \<noteq> [])
       (ValueError ''tenant, messages, and idempotency key are required'')) (\<lambda>_.
     res_bind (require (1 \<le> mq_max_output_tokens r \<and> 1 \<le> mq_prompt_token_estimate r)
       (ValueError ''token estimates must be positive'')) (\<lambda>_.
     res_bind (require (0 < mq_timeout_seconds r \<and> mq_timeout_seconds r \<le> 600)
       (ValueError ''timeout must be between 0 and 600 seconds'')) (\<lambda>_.
     res_bind (dec_between (dec_of_int 0) (mq_temperature r) (dec_of_int 2)) (\<lambda>inside.
     res_bind (require inside (ValueError ''temperature must be between 0 and 2'')) (\<lambda>_.
     res_bind (require (distinct (map td_name (mq_tools r))) (ValueError ''tool names must be unique'')) (\<lambda>_.
     Inr r))))))"

record ModelResponse =
  mp_request_id :: uuid
  mp_model :: ModelIdentity
  mp_content :: "ContentPart list"
  mp_finish_reason :: FinishReason
  mp_safety :: SafetyResult
  mp_usage :: TokenUsage
  mp_latency_ms :: int
  mp_provider_request_id :: "string option"
  mp_structured_output :: "json_obj option"

definition init_ModelResponse :: "(pyval \<times> pyval) list option \<Rightarrow> ModelResponse \<Rightarrow> ModelResponse res" where
  "init_ModelResponse raw_output r =
     res_bind (require (0 \<le> mp_latency_ms r) (ValueError ''latency cannot be negative'')) (\<lambda>_.
     res_bind (require (mp_provider_request_id r \<noteq> Some []) (ValueError ''provider request id cannot be empty'')) (\<lambda>_.
     case raw_output of
       None \<Rightarrow> Inr (r\<lparr>mp_structured_output := None\<rparr>)
     | Some raw \<Rightarrow> res_bind (freeze_json_mapping raw) (\<lambda>o'. Inr (r\<lparr>mp_structured_output := Some o'\<rparr>))))"

text \<open>The exception itself: its constructor checks the code and the delay.\<close>

definition new_ModelGatewayError :: "ModelErrorClass \<Rightarrow> string \<Rightarrow> bool \<Rightarrow> int option \<Rightarrow> bool \<Rightarrow> py_error" where
  "new_ModelGatewayError c code retryable retry_after ambiguous =
     (if code = [] then ValueError ''error code is required''
      else if (case retry_after of None \<Rightarrow> False | Some d \<Rightarrow> d < 0) then ValueError ''retry delay cannot be negative''
      else ModelGatewayError c code retryable retry_after ambiguous)"

end
