(* ===== verification/Gateway_Resilience.thy ===== *)
theory Gateway_Resilience
  imports Retry_Backoff Model_Domain
begin

text \<open>
  \<^verbatim>\<open>gateway/resilience.py\<close>: the circuit breaker, the token bucket, the per-model controls and the retry policy of the gateway. The
  injected clock is the argument \<open>now\<close> of the operations that read it; times and amounts are exact rationals (the rounding
  of binary floats is not modelled). An object that a method mutates is the argument and part of the result.
\<close>

section \<open>Circuit breakers\<close>

datatype CircuitState = CIRCUIT_CLOSED | CIRCUIT_OPEN | CIRCUIT_HALF_OPEN

record CircuitBreaker =
  cb_failure_threshold :: int
  cb_recovery_seconds :: rat
  cb_failures :: int
  cb_opened_at :: "rat option"
  cb_half_open_inflight :: bool

definition new_CircuitBreaker :: "int \<Rightarrow> rat \<Rightarrow> CircuitBreaker res" where
  "new_CircuitBreaker threshold recovery =
     res_bind (require (\<not> (threshold < 1 \<or> recovery \<le> 0)) (ValueError ''circuit bounds must be positive'')) (\<lambda>_.
     Inr \<lparr>cb_failure_threshold = threshold, cb_recovery_seconds = recovery, cb_failures = 0, cb_opened_at = None,
          cb_half_open_inflight = False\<rparr>)"

definition circuit_state :: "rat \<Rightarrow> CircuitBreaker \<Rightarrow> CircuitState" where
  "circuit_state now c = (case cb_opened_at c of
     None \<Rightarrow> CIRCUIT_CLOSED
   | Some t \<Rightarrow> if cb_recovery_seconds c \<le> now - t then CIRCUIT_HALF_OPEN else CIRCUIT_OPEN)"

definition circuit_acquire :: "rat \<Rightarrow> (CircuitBreaker, unit) op" where
  "circuit_acquire now =
     op_bind (op_gets (circuit_state now)) (\<lambda>state.
     op_bind (op_require (state \<noteq> CIRCUIT_OPEN) (CircuitOpenError ''provider circuit is open'')) (\<lambda>_.
     if state = CIRCUIT_HALF_OPEN then
       op_bind (op_gets cb_half_open_inflight) (\<lambda>busy.
       op_bind (op_require (\<not> busy) (CircuitOpenError ''provider circuit half-open probe is busy'')) (\<lambda>_.
       op_modify (\<lambda>c. c\<lparr>cb_half_open_inflight := True\<rparr>)))
     else op_return ()))"

definition circuit_succeed :: "CircuitBreaker \<Rightarrow> CircuitBreaker" where
  "circuit_succeed c = c\<lparr>cb_failures := 0, cb_opened_at := None, cb_half_open_inflight := False\<rparr>"

definition circuit_fail :: "rat \<Rightarrow> CircuitBreaker \<Rightarrow> CircuitBreaker" where
  "circuit_fail now c =
     (let c1 = c\<lparr>cb_half_open_inflight := False, cb_failures := cb_failures c + 1\<rparr> in
      if cb_failure_threshold c1 \<le> cb_failures c1 then c1\<lparr>cb_opened_at := Some now\<rparr> else c1)"

definition circuit_abandon :: "CircuitBreaker \<Rightarrow> CircuitBreaker" where
  "circuit_abandon c = c\<lparr>cb_half_open_inflight := False\<rparr>"

definition circuit_release_probe :: "CircuitBreaker \<Rightarrow> CircuitBreaker" where
  "circuit_release_probe c = circuit_abandon c"

section \<open>Token buckets\<close>

record TokenBucket =
  tb_capacity :: rat
  tb_refill_per_second :: rat
  tb_tokens :: rat
  tb_updated_at :: rat

definition new_TokenBucket :: "rat \<Rightarrow> rat \<Rightarrow> rat \<Rightarrow> TokenBucket res" where
  "new_TokenBucket capacity refill now =
     res_bind (require (\<not> (capacity \<le> 0 \<or> refill \<le> 0)) (ValueError ''rate limit values must be positive'')) (\<lambda>_.
     Inr \<lparr>tb_capacity = capacity, tb_refill_per_second = refill, tb_tokens = capacity, tb_updated_at = now\<rparr>)"

definition bucket_refill :: "rat \<Rightarrow> TokenBucket \<Rightarrow> TokenBucket" where
  "bucket_refill now b =
     (let elapsed = max 0 (now - tb_updated_at b) in
      b\<lparr>tb_tokens := min (tb_capacity b) (tb_tokens b + elapsed * tb_refill_per_second b), tb_updated_at := now\<rparr>)"

definition bucket_consume :: "rat \<Rightarrow> rat \<Rightarrow> (TokenBucket, bool) op" where
  "bucket_consume amount now =
     op_bind (op_gets tb_capacity) (\<lambda>capacity.
     op_bind (op_require (\<not> (amount \<le> 0 \<or> capacity < amount)) (ValueError ''rate limit amount is invalid'')) (\<lambda>_.
     op_bind (op_modify (bucket_refill now)) (\<lambda>_.
     op_bind (op_gets tb_tokens) (\<lambda>tokens.
     if tokens < amount then op_return False
     else op_bind (op_modify (\<lambda>b. b\<lparr>tb_tokens := tb_tokens b - amount\<rparr>)) (\<lambda>_. op_return True)))))"

section \<open>Controls per model\<close>

text \<open>A semaphore is the number of its free permits.\<close>

record ProviderControls =
  pc_semaphores :: "ModelIdentity \<rightharpoonup> int"
  pc_request_buckets :: "ModelIdentity \<rightharpoonup> TokenBucket"
  pc_token_buckets :: "ModelIdentity \<rightharpoonup> TokenBucket"
  pc_circuits :: "ModelIdentity \<rightharpoonup> CircuitBreaker"

definition per_model :: "ModelIdentity list \<Rightarrow> 'v res \<Rightarrow> (ModelIdentity \<rightharpoonup> 'v) res" where
  "per_model models v = (if models = [] then Inr Map.empty
     else res_bind v (\<lambda>x. Inr (map_of (map (\<lambda>m. (m, x)) models))))"

text \<open>The clock is read once per bucket; the readings at construction are taken equal.\<close>

definition new_ProviderControls :: "ModelIdentity list \<Rightarrow> int \<Rightarrow> int \<Rightarrow> int \<Rightarrow> int \<Rightarrow> rat \<Rightarrow> ProviderControls res" where
  "new_ProviderControls models concurrency requests_per_minute tokens_per_minute threshold now =
     res_bind (require (1 \<le> concurrency) (ValueError ''concurrency must be positive'')) (\<lambda>_.
     res_bind (per_model models (Inr concurrency)) (\<lambda>semaphores.
     res_bind (per_model models (new_TokenBucket (of_int requests_per_minute) (of_int requests_per_minute / 60) now)) (\<lambda>requests.
     res_bind (per_model models (new_TokenBucket (of_int tokens_per_minute) (of_int tokens_per_minute / 60) now)) (\<lambda>tokens.
     res_bind (per_model models (new_CircuitBreaker threshold 30)) (\<lambda>circuits.
     Inr \<lparr>pc_semaphores = semaphores, pc_request_buckets = requests, pc_token_buckets = tokens, pc_circuits = circuits\<rparr>)))))"

definition known :: "(ModelIdentity \<rightharpoonup> 'v) \<Rightarrow> ModelIdentity \<Rightarrow> 'v res" where
  "known values m = (case values m of
     None \<Rightarrow> Inl (ValueError ''model is not configured for runtime controls'')
   | Some v \<Rightarrow> Inr v)"

text \<open>A method called on the object a dictionary holds for a model changes that object in place.\<close>

definition on_known ::
  "(ProviderControls \<Rightarrow> (ModelIdentity \<rightharpoonup> 'v)) \<Rightarrow> (((ModelIdentity \<rightharpoonup> 'v) \<Rightarrow> (ModelIdentity \<rightharpoonup> 'v)) \<Rightarrow> ProviderControls \<Rightarrow> ProviderControls)
     \<Rightarrow> ModelIdentity \<Rightarrow> ('v, 'a) op \<Rightarrow> (ProviderControls, 'a) op" where
  "on_known get upd m f =
     op_bind (op_gets get) (\<lambda>values.
     op_bind (op_lift (known values m)) (\<lambda>v.
     (\<lambda>c. case f v of (r, v1) \<Rightarrow> (r, upd (\<lambda>vs. vs(m \<mapsto> v1)) c))))"

abbreviation on_circuit :: "ModelIdentity \<Rightarrow> (CircuitBreaker, 'a) op \<Rightarrow> (ProviderControls, 'a) op" where
  "on_circuit \<equiv> on_known pc_circuits pc_circuits_update"

abbreviation on_request_bucket :: "ModelIdentity \<Rightarrow> (TokenBucket, 'a) op \<Rightarrow> (ProviderControls, 'a) op" where
  "on_request_bucket \<equiv> on_known pc_request_buckets pc_request_buckets_update"

abbreviation on_token_bucket :: "ModelIdentity \<Rightarrow> (TokenBucket, 'a) op \<Rightarrow> (ProviderControls, 'a) op" where
  "on_token_bucket \<equiv> on_known pc_token_buckets pc_token_buckets_update"

abbreviation on_semaphore :: "ModelIdentity \<Rightarrow> (int, 'a) op \<Rightarrow> (ProviderControls, 'a) op" where
  "on_semaphore \<equiv> on_known pc_semaphores pc_semaphores_update"

text \<open>\<open>now1\<close> and \<open>now2\<close> are the readings of the request bucket's and of the token bucket's clock.\<close>

definition controls_admit :: "ModelIdentity \<Rightarrow> int \<Rightarrow> rat \<Rightarrow> rat \<Rightarrow> (ProviderControls, bool) op" where
  "controls_admit m tokens now1 now2 =
     op_bind (on_token_bucket m (op_gets tb_capacity)) (\<lambda>capacity.
     if capacity < of_int tokens then op_return False
     else op_bind (on_request_bucket m (bucket_consume 1 now1)) (\<lambda>granted.
          if granted then on_token_bucket m (bucket_consume (of_int tokens) now2) else op_return False))"

section \<open>The retry policy\<close>

record RetryPolicy =
  rp_max_attempts :: int
  rp_max_failovers :: int
  rp_backoff :: ExponentialBackoff

definition init_RetryPolicy :: "RetryPolicy \<Rightarrow> RetryPolicy res" where
  "init_RetryPolicy p =
     res_bind (require (1 \<le> rp_max_attempts p \<and> rp_max_attempts p \<le> 10) (ValueError ''attempt limit must be between 1 and 10'')) (\<lambda>_.
     res_bind (require (0 \<le> rp_max_failovers p \<and> rp_max_failovers p \<le> 5) (ValueError ''failover limit must be between 0 and 5'')) (\<lambda>_.
     Inr p))"

fun error_retryable :: "py_error \<Rightarrow> bool" where
  "error_retryable (ModelGatewayError c code retryable retry_after ambiguous) = retryable"
| "error_retryable _ = False"

definition may_retry :: "RetryPolicy \<Rightarrow> py_error \<Rightarrow> int \<Rightarrow> bool" where
  "may_retry p e attempt = (error_retryable e \<and> attempt < rp_max_attempts p)"

section \<open>The rate a bucket grants\<close>

text \<open>The requests \<open>(amount, now)\<close> made of a bucket one after the other, and the amount granted in all.\<close>

primrec bucket_serve :: "(rat \<times> rat) list \<Rightarrow> TokenBucket \<Rightarrow> rat \<times> TokenBucket" where
  "bucket_serve [] b = (0, b)"
| "bucket_serve (q # qs) b = (case bucket_consume (fst q) (snd q) b of (r, b1) \<Rightarrow>
     (case bucket_serve qs b1 of (g, b2) \<Rightarrow> ((if r = Inr True then fst q else 0) + g, b2)))"

definition bucket_ok :: "TokenBucket \<Rightarrow> bool" where
  "bucket_ok b = (0 < tb_capacity b \<and> 0 < tb_refill_per_second b \<and> 0 \<le> tb_tokens b \<and> tb_tokens b \<le> tb_capacity b)"

lemma consume_effect:
  assumes "bucket_ok b" and "tb_updated_at b \<le> now" and "bucket_consume amount now b = (r, b1)"
  shows "bucket_ok b1 \<and> tb_capacity b1 = tb_capacity b \<and> tb_refill_per_second b1 = tb_refill_per_second b
    \<and> (b1 = b \<and> r \<noteq> Inr True \<or> tb_updated_at b1 = now
       \<and> (if r = Inr True then amount else 0) + tb_tokens b1
         = min (tb_capacity b) (tb_tokens b + (now - tb_updated_at b) * tb_refill_per_second b))"
proof (cases "0 < amount \<and> amount \<le> tb_capacity b")
  case True
  then show ?thesis
    using assms by (auto simp: bucket_consume_def op_eval bucket_refill_def bucket_ok_def Let_def not_less split: if_splits)
next
  case False
  then show ?thesis using assms by (auto simp: bucket_consume_def op_eval)
qed

text \<open>Granting takes from what the bucket held and what has flowed in since.\<close>

lemma serve_bound:
  assumes "bucket_ok b" and "sorted (tb_updated_at b # map snd qs @ [till])" and "bucket_serve qs b = (g, b')"
  shows "bucket_ok b' \<and> tb_capacity b' = tb_capacity b \<and> tb_refill_per_second b' = tb_refill_per_second b \<and> tb_updated_at b' \<le> till
    \<and> g \<le> tb_tokens b + (till - tb_updated_at b) * tb_refill_per_second b"
  using assms
proof (induction qs arbitrary: b g b')
  case Nil
  then show ?case by (auto simp: bucket_ok_def)
next
  case (Cons q qs)
  obtain r b1 where 1: "bucket_consume (fst q) (snd q) b = (r, b1)" by fastforce
  obtain h b2 where 2: "bucket_serve qs b1 = (h, b2)" by fastforce
  have e: "bucket_ok b1" "tb_capacity b1 = tb_capacity b" "tb_refill_per_second b1 = tb_refill_per_second b"
    and t: "tb_updated_at b1 \<le> snd q" "sorted (tb_updated_at b1 # map snd qs @ [till])"
    and u: "(if r = Inr True then fst q else 0) + tb_tokens b1
      \<le> tb_tokens b + (tb_updated_at b1 - tb_updated_at b) * tb_refill_per_second b"
    using consume_effect [OF Cons.prems(1) _ 1] Cons.prems(2) by auto
  have i: "bucket_ok b2 \<and> tb_capacity b2 = tb_capacity b1 \<and> tb_refill_per_second b2 = tb_refill_per_second b1 \<and> tb_updated_at b2 \<le> till
    \<and> h \<le> tb_tokens b1 + (till - tb_updated_at b1) * tb_refill_per_second b1"
    by (rule Cons.IH [OF e(1) t(2) 2])
  have "(tb_updated_at b1 - tb_updated_at b) * tb_refill_per_second b + (till - tb_updated_at b1) * tb_refill_per_second b
      = (till - tb_updated_at b) * tb_refill_per_second b" by (simp add: algebra_simps)
  then show ?case using i e u Cons.prems(3) by (auto simp: 1 2)
qed

lemma serve_window:
  assumes "bucket_ok b" and "sorted (tb_updated_at b # map snd qs @ [till])" and "\<forall>q \<in> set qs. since \<le> snd q" and "since \<le> till"
  shows "fst (bucket_serve qs b) \<le> tb_capacity b + (till - since) * tb_refill_per_second b"
  using assms
proof (induction qs arbitrary: b)
  case Nil
  then show ?case by (simp add: bucket_ok_def)
next
  case (Cons q qs)
  obtain r b1 where 1: "bucket_consume (fst q) (snd q) b = (r, b1)" by fastforce
  obtain h b2 where 2: "bucket_serve qs b1 = (h, b2)" by fastforce
  note e = consume_effect [OF Cons.prems(1) _ 1]
  show ?case
  proof (cases "b1 = b \<and> r \<noteq> Inr True")
    case True
    then have "sorted (tb_updated_at b # map snd qs @ [till])" using Cons.prems(2) by auto
    then have "fst (bucket_serve qs b) \<le> tb_capacity b + (till - since) * tb_refill_per_second b"
      using Cons.prems by (intro Cons.IH) auto
    then show ?thesis using True 1 2 by simp
  next
    case False
    then have u: "bucket_ok b1" "tb_refill_per_second b1 = tb_refill_per_second b" "tb_updated_at b1 = snd q"
        "(if r = Inr True then fst q else 0) + tb_tokens b1 \<le> tb_capacity b"
      using e Cons.prems(2) by auto
    have h: "h \<le> tb_tokens b1 + (till - tb_updated_at b1) * tb_refill_per_second b1"
      using serve_bound [OF u(1) _ 2, of till] Cons.prems(2) u(3) by simp
    have "(till - snd q) * tb_refill_per_second b \<le> (till - since) * tb_refill_per_second b"
      using Cons.prems(1,3) by (intro mult_right_mono) (auto simp: bucket_ok_def)
    then show ?thesis using h u by (auto simp: 1 2)
  qed
qed

text \<open>
  C19: the rate limiter limits the rate. Whatever requests a bucket served before, what it grants within any window of time is at most its
  capacity and what flows in during the window, when the clock does not run backwards; and it never refuses
  a valid amount for which enough time has passed since the last request.
\<close>

theorem token_bucket_limits_rate:
  assumes "new_TokenBucket capacity refill start = Inr b" and "sorted (start # map snd earlier @ map snd requests @ [till])"
    and "\<forall>q \<in> set requests. since \<le> snd q" and "since \<le> till" and "0 < amount" and "amount \<le> capacity"
    and "till + amount / refill \<le> later"
  shows "fst (bucket_serve requests (snd (bucket_serve earlier b))) \<le> capacity + (till - since) * refill
    \<and> fst (bucket_consume amount later (snd (bucket_serve (earlier @ requests) b))) = Inr True"
proof -
  have b: "bucket_ok b" "tb_capacity b = capacity" "tb_refill_per_second b = refill" "tb_updated_at b = start"
    using assms(1) by (auto simp: new_TokenBucket_def bucket_ok_def op_simps)
  obtain g c where 1: "bucket_serve earlier b = (g, c)" by fastforce
  obtain x xs where x: "map snd requests @ [till] = x # xs" by (cases requests) auto
  have s: "sorted (tb_updated_at b # map snd earlier @ [x])" "sorted (x # xs)"
    using assms(2) by (simp_all add: b(4) x sorted_append)
  have c: "bucket_ok c" "tb_capacity c = capacity" "tb_refill_per_second c = refill" "tb_updated_at c \<le> x"
    using serve_bound [OF b(1) s(1) 1] b by auto
  have w: "sorted (tb_updated_at c # map snd requests @ [till])" using s(2) c(4) by (auto simp: x)
  obtain h d where 2: "bucket_serve (earlier @ requests) b = (h, d)" by fastforce
  have d: "bucket_ok d" "tb_capacity d = capacity" "tb_refill_per_second d = refill" "tb_updated_at d \<le> till"
    using serve_bound [OF b(1) _ 2, of till] assms(2) b by auto
  have r: "0 < refill" using b by (simp add: bucket_ok_def)
  have "amount / refill * refill \<le> (later - tb_updated_at d) * refill"
    using assms(7) d(4) r by (intro mult_right_mono) auto
  then have "amount \<le> (later - tb_updated_at d) * refill" using r by simp
  moreover have "0 < amount / refill" using assms(5) r by simp
  then have "tb_updated_at d \<le> later" using assms(7) d(4) by linarith
  ultimately have "fst (bucket_consume amount later d) = Inr True"
    using d assms(5,6) by (auto simp: bucket_consume_def op_eval bucket_refill_def Let_def bucket_ok_def)
  then show ?thesis using serve_window [OF c(1) w assms(3,4)] c 1 2 by simp
qed

theorem token_bucket_limits_rate_witness:
  "fst (bucket_serve [(5, 1), (5, 2), (5, 3)] \<lparr>tb_capacity = 10, tb_refill_per_second = 1, tb_tokens = 10, tb_updated_at = 0\<rparr>) \<le> 12"
proof -
  have "new_TokenBucket 10 1 0 = Inr \<lparr>tb_capacity = 10, tb_refill_per_second = 1, tb_tokens = 10, tb_updated_at = 0\<rparr>"
    by (simp add: new_TokenBucket_def)
  from token_bucket_limits_rate [OF this, of "[]" "[(5, 1), (5, 2), (5, 3)]" 3 1 5 8] show ?thesis by simp
qed

section \<open>When a circuit admits calls\<close>

datatype circuit_event = Acquired_at rat | Succeeded | Failed_at rat | Abandoned

fun circuit_apply :: "circuit_event \<Rightarrow> CircuitBreaker \<Rightarrow> CircuitBreaker" where
  "circuit_apply (Acquired_at now) c = snd (circuit_acquire now c)"
| "circuit_apply Succeeded c = circuit_succeed c"
| "circuit_apply (Failed_at now) c = circuit_fail now c"
| "circuit_apply Abandoned c = circuit_abandon c"

text \<open>
  The specification in terms of the history alone: the times of the failures since the last success, and whether a probe is out.
\<close>

fun failures_then :: "circuit_event \<Rightarrow> rat list \<Rightarrow> rat list" where
  "failures_then (Failed_at now) ts = ts @ [now]"
| "failures_then Succeeded ts = []"
| "failures_then _ ts = ts"

fun probing_then :: "int \<Rightarrow> rat \<Rightarrow> circuit_event \<Rightarrow> rat list \<times> bool \<Rightarrow> rat list \<times> bool" where
  "probing_then threshold recovery (Acquired_at now) (ts, probing) =
     (ts, probing \<or> (threshold \<le> int (length ts) \<and> recovery \<le> now - last ts))"
| "probing_then threshold recovery e (ts, probing) = (failures_then e ts, False)"

definition circuit_history :: "int \<Rightarrow> rat \<Rightarrow> circuit_event list \<Rightarrow> rat list \<times> bool" where
  "circuit_history threshold recovery es = fold (probing_then threshold recovery) es ([], False)"

definition circuit_shows :: "int \<Rightarrow> rat \<Rightarrow> rat list \<times> bool \<Rightarrow> CircuitBreaker \<Rightarrow> bool" where
  "circuit_shows threshold recovery h c \<longleftrightarrow> cb_failure_threshold c = threshold \<and> cb_recovery_seconds c = recovery
     \<and> cb_failures c = int (length (fst h)) \<and> cb_half_open_inflight c = snd h
     \<and> cb_opened_at c = (if threshold \<le> int (length (fst h)) then Some (last (fst h)) else None)"

lemma circuit_apply_shows:
  assumes "circuit_shows threshold recovery h c" and "1 \<le> threshold"
  shows "circuit_shows threshold recovery (probing_then threshold recovery e h) (circuit_apply e c)"
  using assms
  by (cases h; cases e)
    (auto simp: circuit_shows_def circuit_acquire_def circuit_state_def op_eval circuit_succeed_def circuit_fail_def circuit_abandon_def
      Let_def split: if_splits)

lemma circuit_run_shows:
  assumes "circuit_shows threshold recovery h c" and "1 \<le> threshold"
  shows "circuit_shows threshold recovery (fold (probing_then threshold recovery) es h) (fold circuit_apply es c)"
  using assms by (induction es arbitrary: h c) (simp_all add: circuit_apply_shows)



text \<open>
  A call that was admitted before the circuit opened and is abandoned while a probe is out frees the probe's slot: the next call is
  admitted beside the probe.
\<close>

lemma stale_call_frees_probe:
  "let c = fold circuit_apply [Acquired_at 0, Acquired_at 0, Failed_at 1, Acquired_at 31, Abandoned]
     \<lparr>cb_failure_threshold = 1, cb_recovery_seconds = 30, cb_failures = 0, cb_opened_at = None, cb_half_open_inflight = False\<rparr>
   in circuit_state 32 c = CIRCUIT_HALF_OPEN \<and> fst (circuit_acquire 32 c) = Inr ()"
  by (simp add: circuit_acquire_def circuit_state_def op_eval circuit_fail_def circuit_abandon_def Let_def)

end
