(* ===== verification/Policy.thy ===== *)
theory Policy
  imports Identity Decimals
begin

text \<open>
  Tenant records and governance: \<^verbatim>\<open>tenancy/__init__.py\<close> and \<^verbatim>\<open>policy/__init__.py\<close>. A tenant context is the tenant
  identifier it carries; a \<^verbatim>\<open>frozenset\<close> is a list of its elements.
\<close>

section \<open>Tenants\<close>

record Tenant =
  tn_tenant_id :: TenantId
  tn_display_name :: string
  tn_enabled :: bool

definition init_Tenant :: "Tenant \<Rightarrow> Tenant res" where
  "init_Tenant t = (if py_strip (tn_display_name t) = [] then Inl (ValueError ''display_name is required'') else Inr t)"

text \<open>The constructors of the in-memory repositories: one record per key, a second one is an error.\<close>

primrec index_unique :: "('a \<Rightarrow> 'k) \<Rightarrow> string \<Rightarrow> ('k \<times> 'a) list \<Rightarrow> 'a list \<Rightarrow> ('k \<times> 'a) list res" where
  "index_unique key msg d [] = Inr d"
| "index_unique key msg d (x # xs) =
     (if map_of d (key x) \<noteq> None then Inl (ValueError msg) else index_unique key msg (d @ [(key x, x)]) xs)"

definition InMemoryTenantRepository :: "Tenant list \<Rightarrow> (TenantId \<times> Tenant) list res" where
  "InMemoryTenantRepository ts = index_unique tn_tenant_id ''duplicate tenant records are not allowed'' [] ts"

definition tenant_get :: "(TenantId \<times> Tenant) list \<Rightarrow> TenantId \<Rightarrow> Tenant option" where
  "tenant_get d context = map_of d context"

section \<open>Policies, requests and usage\<close>

definition require_finite_non_negative_decimal :: "decimal \<Rightarrow> string \<Rightarrow> unit res" where
  "require_finite_non_negative_decimal v name =
     res_bind (require (is_finite v) (ValueError (name @ '' must be finite''))) (\<lambda>_.
     res_bind (dec_lt v (dec_of_int 0)) (\<lambda>negative.
     require (\<not> negative) (ValueError (name @ '' cannot be negative''))))"

datatype Decision = ALLOW | DENY | REQUIRE_APPROVAL

datatype RiskLevel = LOW | MEDIUM | HIGH | CRITICAL

fun RiskLevel_value :: "RiskLevel \<Rightarrow> int" where
  "RiskLevel_value LOW = 1"
| "RiskLevel_value MEDIUM = 2"
| "RiskLevel_value HIGH = 3"
| "RiskLevel_value CRITICAL = 4"

record QuotaLimits =
  ql_max_run_tokens :: int
  ql_max_run_cost_usd :: decimal
  ql_max_tenant_tokens_per_period :: int
  ql_max_tenant_cost_usd_per_period :: decimal
  ql_max_concurrent_runs :: int

definition init_QuotaLimits :: "QuotaLimits \<Rightarrow> QuotaLimits res" where
  "init_QuotaLimits q =
     res_bind (require (0 \<le> ql_max_run_tokens q \<and> 0 \<le> ql_max_tenant_tokens_per_period q \<and> 0 \<le> ql_max_concurrent_runs q)
       (ValueError ''quota integer limits cannot be negative'')) (\<lambda>_.
     res_bind (require_finite_non_negative_decimal (ql_max_run_cost_usd q) ''max_run_cost_usd'') (\<lambda>_.
     res_bind (require_finite_non_negative_decimal (ql_max_tenant_cost_usd_per_period q) ''max_tenant_cost_usd_per_period'') (\<lambda>_.
     Inr q)))"

record TenantPolicy =
  tp_tenant_id :: TenantId
  tp_version :: string
  tp_allowed_models :: "string list"
  tp_allowed_tools :: "string list"
  tp_allowed_connectors :: "string list"
  tp_allowed_environments :: "string list"
  tp_max_risk :: RiskLevel
  tp_approval_from_risk :: RiskLevel
  tp_tools_requiring_approval :: "string list"
  tp_approver_roles :: "Role list"
  tp_quotas :: QuotaLimits
  tp_allowed_providers :: "string list"
  tp_allowed_data_residencies :: "string list"
  tp_allow_provider_retention :: bool

definition init_TenantPolicy :: "TenantPolicy \<Rightarrow> TenantPolicy res" where
  "init_TenantPolicy p =
     res_bind (require (tp_version p \<noteq> []) (ValueError ''policy version is required'')) (\<lambda>_.
     res_bind (require (tp_approver_roles p \<noteq> []) (ValueError ''at least one approver role is required'')) (\<lambda>_.
     Inr p))"

record PolicyRequest =
  pq_tenant_id :: TenantId
  pq_model :: string
  pq_tool :: string
  pq_connector :: string
  pq_environment :: string
  pq_risk :: RiskLevel
  pq_estimated_tokens :: int
  pq_estimated_cost_usd :: decimal

definition init_PolicyRequest :: "PolicyRequest \<Rightarrow> PolicyRequest res" where
  "init_PolicyRequest r =
     res_bind (require (pq_model r \<noteq> [] \<and> pq_tool r \<noteq> [] \<and> pq_connector r \<noteq> [] \<and> pq_environment r \<noteq> [])
       (ValueError ''policy request selectors are required'')) (\<lambda>_.
     res_bind (require (0 \<le> pq_estimated_tokens r) (ValueError ''estimated tokens cannot be negative'')) (\<lambda>_.
     res_bind (require_finite_non_negative_decimal (pq_estimated_cost_usd r) ''estimated_cost_usd'') (\<lambda>_.
     Inr r)))"

record QuotaUsage =
  qu_tenant_id :: TenantId
  qu_tenant_tokens_used :: int
  qu_tenant_cost_usd :: decimal
  qu_active_runs :: int

definition init_QuotaUsage :: "QuotaUsage \<Rightarrow> QuotaUsage res" where
  "init_QuotaUsage u =
     res_bind (require (0 \<le> qu_tenant_tokens_used u \<and> 0 \<le> qu_active_runs u) (ValueError ''quota usage cannot be negative'')) (\<lambda>_.
     res_bind (require_finite_non_negative_decimal (qu_tenant_cost_usd u) ''tenant_cost_usd'') (\<lambda>_.
     Inr u))"

record PolicyDecision =
  pd_decision :: Decision
  pd_reasons :: "string list"
  pd_policy_version :: string
  pd_tenant_id :: TenantId
  pd_required_approver_roles :: "Role list"

section \<open>Evaluation\<close>

definition deny :: "TenantPolicy \<Rightarrow> string list \<Rightarrow> PolicyDecision" where
  "deny p reasons = \<lparr>pd_decision = DENY, pd_reasons = reasons, pd_policy_version = tp_version p,
     pd_tenant_id = tp_tenant_id p, pd_required_approver_roles = []\<rparr>"

definition reason_if :: "bool \<Rightarrow> string \<Rightarrow> string list" where
  "reason_if b reason = (if b then [reason] else [])"

definition denial_reasons :: "TenantPolicy \<Rightarrow> PolicyRequest \<Rightarrow> QuotaUsage \<Rightarrow> string list res" where
  "denial_reasons p r u =
     (let q = tp_quotas p in
      res_bind (dec_lt (ql_max_run_cost_usd q) (pq_estimated_cost_usd r)) (\<lambda>run_cost.
      res_bind (dec_lt (ql_max_tenant_cost_usd_per_period q) (dec_add (qu_tenant_cost_usd u) (pq_estimated_cost_usd r))) (\<lambda>tenant_cost.
      Inr (reason_if (pq_model r \<notin> set (tp_allowed_models p)) ''model_not_allowed''
         @ reason_if (pq_tool r \<notin> set (tp_allowed_tools p)) ''tool_not_allowed''
         @ reason_if (pq_connector r \<notin> set (tp_allowed_connectors p)) ''connector_not_allowed''
         @ reason_if (pq_environment r \<notin> set (tp_allowed_environments p)) ''environment_not_allowed''
         @ reason_if (RiskLevel_value (tp_max_risk p) < RiskLevel_value (pq_risk r)) ''risk_threshold_exceeded''
         @ reason_if (ql_max_run_tokens q < pq_estimated_tokens r) ''run_token_limit_exceeded''
         @ reason_if run_cost ''run_cost_limit_exceeded''
         @ reason_if (ql_max_tenant_tokens_per_period q < qu_tenant_tokens_used u + pq_estimated_tokens r) ''tenant_token_limit_exceeded''
         @ reason_if tenant_cost ''tenant_cost_limit_exceeded''
         @ reason_if (ql_max_concurrent_runs q \<le> qu_active_runs u) ''tenant_concurrency_limit_exceeded''))))"

definition requires_approval :: "TenantPolicy \<Rightarrow> PolicyRequest \<Rightarrow> bool" where
  "requires_approval p r = (RiskLevel_value (tp_approval_from_risk p) \<le> RiskLevel_value (pq_risk r)
     \<or> pq_tool r \<in> set (tp_tools_requiring_approval p))"

definition evaluate :: "TenantId \<Rightarrow> TenantPolicy \<Rightarrow> PolicyRequest \<Rightarrow> QuotaUsage \<Rightarrow> PolicyDecision res" where
  "evaluate context p r u =
     (if tp_tenant_id p \<noteq> context \<or> pq_tenant_id r \<noteq> context \<or> qu_tenant_id u \<noteq> context
      then Inr (deny p [''cross_tenant_policy''])
      else res_bind (denial_reasons p r u) (\<lambda>reasons.
        if reasons \<noteq> [] then Inr (deny p reasons)
        else Inr \<lparr>pd_decision = (if requires_approval p r then REQUIRE_APPROVAL else ALLOW),
                  pd_reasons = (if requires_approval p r then [''approval_required''] else [''policy_allowed'']),
                  pd_policy_version = tp_version p, pd_tenant_id = tp_tenant_id p,
                  pd_required_approver_roles = (if requires_approval p r
                    then sort_key Role_value (remdups (tp_approver_roles p)) else [])\<rparr>))"

definition InMemoryPolicyRepository :: "TenantPolicy list \<Rightarrow> (TenantId \<times> TenantPolicy) list res" where
  "InMemoryPolicyRepository ps = index_unique tp_tenant_id ''duplicate tenant policy is not allowed'' [] ps"

definition policy_get :: "(TenantId \<times> TenantPolicy) list \<Rightarrow> TenantId \<Rightarrow> TenantPolicy option" where
  "policy_get d context = map_of d context"

section \<open>What the evaluator decides\<close>

definition policy_inputs_ok :: "TenantPolicy \<Rightarrow> PolicyRequest \<Rightarrow> QuotaUsage \<Rightarrow> bool" where
  "policy_inputs_ok p r u = (init_QuotaLimits (tp_quotas p) = Inr (tp_quotas p) \<and> init_TenantPolicy p = Inr p
     \<and> init_PolicyRequest r = Inr r \<and> init_QuotaUsage u = Inr u)"

lemma require_finite_non_negative: "require_finite_non_negative_decimal v name = Inr () \<longleftrightarrow> non_negative v"
  by (auto simp: require_finite_non_negative_decimal_def res_bind_Inr_iff dec_lt_finite dec_of_int_def non_negative_def)

lemma policy_inputs_costs:
  assumes "policy_inputs_ok p r u"
  shows "non_negative (ql_max_run_cost_usd (tp_quotas p))" "non_negative (ql_max_tenant_cost_usd_per_period (tp_quotas p))"
    "non_negative (pq_estimated_cost_usd r)" "non_negative (qu_tenant_cost_usd u)" "tp_approver_roles p \<noteq> []" "0 \<le> qu_tenant_tokens_used u"
  using assms
  by (auto simp: policy_inputs_ok_def init_QuotaLimits_def init_PolicyRequest_def init_QuotaUsage_def init_TenantPolicy_def
      res_bind_Inr_iff require_finite_non_negative)

text \<open>The reference: every selector allowlisted, the risk accepted, every quota kept.\<close>

definition within_policy :: "TenantId \<Rightarrow> TenantPolicy \<Rightarrow> PolicyRequest \<Rightarrow> QuotaUsage \<Rightarrow> bool" where
  "within_policy t p r u \<longleftrightarrow>
     tp_tenant_id p = t \<and> pq_tenant_id r = t \<and> qu_tenant_id u = t
     \<and> pq_model r \<in> set (tp_allowed_models p) \<and> pq_tool r \<in> set (tp_allowed_tools p)
     \<and> pq_connector r \<in> set (tp_allowed_connectors p) \<and> pq_environment r \<in> set (tp_allowed_environments p)
     \<and> RiskLevel_value (pq_risk r) \<le> RiskLevel_value (tp_max_risk p)
     \<and> pq_estimated_tokens r \<le> ql_max_run_tokens (tp_quotas p)
     \<and> dec_value (pq_estimated_cost_usd r) \<le> dec_value (ql_max_run_cost_usd (tp_quotas p))
     \<and> qu_tenant_tokens_used u + pq_estimated_tokens r \<le> ql_max_tenant_tokens_per_period (tp_quotas p)
     \<and> dec_value (dec_add (qu_tenant_cost_usd u) (pq_estimated_cost_usd r))
         \<le> dec_value (ql_max_tenant_cost_usd_per_period (tp_quotas p))
     \<and> qu_active_runs u < ql_max_concurrent_runs (tp_quotas p)"

lemma reason_if_Nil [simp]: "reason_if b s = [] \<longleftrightarrow> \<not> b"
  by (simp add: reason_if_def)

lemma evaluate_decision:
  assumes "policy_inputs_ok p r u"
  shows "\<exists>d. evaluate t p r u = Inr d \<and> pd_decision d =
    (if \<not> within_policy t p r u then DENY else if requires_approval p r then REQUIRE_APPROVAL else ALLOW)
    \<and> (pd_reasons d \<noteq> []) \<and> (set (pd_required_approver_roles d) = (if pd_decision d = REQUIRE_APPROVAL then set (tp_approver_roles p) else {}))"
proof (cases "tp_tenant_id p \<noteq> t \<or> pq_tenant_id r \<noteq> t \<or> qu_tenant_id u \<noteq> t")
  case True
  then show ?thesis by (auto simp: evaluate_def within_policy_def deny_def)
next
  case False
  note c = policy_inputs_costs [OF assms]
  have 1: "dec_lt (ql_max_run_cost_usd (tp_quotas p)) (pq_estimated_cost_usd r)
      = Inr (dec_value (ql_max_run_cost_usd (tp_quotas p)) < dec_value (pq_estimated_cost_usd r))"
    using c by (intro dec_lt_finite) (simp_all add: non_negative_def)
  have 2: "dec_lt (ql_max_tenant_cost_usd_per_period (tp_quotas p)) (dec_add (qu_tenant_cost_usd u) (pq_estimated_cost_usd r))
      = Inr (dec_value (ql_max_tenant_cost_usd_per_period (tp_quotas p)) < dec_value (dec_add (qu_tenant_cost_usd u) (pq_estimated_cost_usd r)))"
    using c by (intro dec_lt_finite) (simp_all add: non_negative_def)
  obtain rs where rs: "denial_reasons p r u = Inr rs" "rs = [] \<longleftrightarrow> within_policy t p r u"
    using False by (simp add: denial_reasons_def Let_def 1 2 within_policy_def not_less not_le)
  then show ?thesis using False by (auto simp: evaluate_def deny_def)
qed


definition sample_quotas :: QuotaLimits where
  "sample_quotas = \<lparr>ql_max_run_tokens = 1000, ql_max_run_cost_usd = Dec False 5 0, ql_max_tenant_tokens_per_period = 5000,
     ql_max_tenant_cost_usd_per_period = Dec False 20 0, ql_max_concurrent_runs = 2\<rparr>"

definition sample_policy :: TenantPolicy where
  "sample_policy = \<lparr>tp_tenant_id = ''acme'', tp_version = ''v1'', tp_allowed_models = [''m''], tp_allowed_tools = [''t''],
     tp_allowed_connectors = [''c''], tp_allowed_environments = [''prod''], tp_max_risk = HIGH, tp_approval_from_risk = HIGH,
     tp_tools_requiring_approval = [], tp_approver_roles = [APPROVER], tp_quotas = sample_quotas, tp_allowed_providers = [],
     tp_allowed_data_residencies = [], tp_allow_provider_retention = False\<rparr>"

definition sample_policy_request :: "RiskLevel \<Rightarrow> PolicyRequest" where
  "sample_policy_request k = \<lparr>pq_tenant_id = ''acme'', pq_model = ''m'', pq_tool = ''t'', pq_connector = ''c'', pq_environment = ''prod'',
     pq_risk = k, pq_estimated_tokens = 100, pq_estimated_cost_usd = Dec False 150 (- 2)\<rparr>"

definition sample_usage :: "nat \<Rightarrow> QuotaUsage" where
  "sample_usage dollars = \<lparr>qu_tenant_id = ''acme'', qu_tenant_tokens_used = 300, qu_tenant_cost_usd = Dec False dollars 0, qu_active_runs = 1\<rparr>"

lemma sample_policy_inputs: "policy_inputs_ok sample_policy (sample_policy_request k) (sample_usage n)"
  by (simp add: policy_inputs_ok_def init_QuotaLimits_def init_TenantPolicy_def init_PolicyRequest_def init_QuotaUsage_def sample_policy_def
      sample_quotas_def sample_policy_request_def sample_usage_def require_finite_non_negative non_negative_def pow10_def
      res_bind_Inr_iff)


text \<open>
  Usage only ever tightens the decision. If a request is not denied at some usage of the period, it gets the same decision at every
  smaller usage, although the sum of the costs is rounded by the decimal context; so an operation admitted by a stale reading is
  wrongly admitted only if usage grew, and retrying after usage has been released cannot be refused for it.
\<close>

theorem policy_monotone_in_usage:
  assumes "policy_inputs_ok p r u" and "policy_inputs_ok p r v" and "qu_tenant_id u = qu_tenant_id v"
    and "qu_tenant_tokens_used v \<le> qu_tenant_tokens_used u" and "dec_value (qu_tenant_cost_usd v) \<le> dec_value (qu_tenant_cost_usd u)"
    and "qu_active_runs v \<le> qu_active_runs u" and "evaluate t p r u = Inr d" and "pd_decision d \<noteq> DENY"
  shows "\<exists>e. evaluate t p r v = Inr e \<and> pd_decision e = pd_decision d"
proof -
  have "dec_value (dec_add (qu_tenant_cost_usd v) (pq_estimated_cost_usd r)) \<le> dec_value (dec_add (qu_tenant_cost_usd u) (pq_estimated_cost_usd r))"
    using policy_inputs_costs [OF assms(1)] policy_inputs_costs [OF assms(2)] assms(5) by (intro dec_add_mono)
  moreover have "within_policy t p r u" using evaluate_decision [OF assms(1), of t] assms(7,8) by (auto split: if_splits)
  ultimately have "within_policy t p r v" using assms(3,4,6) unfolding within_policy_def by auto
  then show ?thesis
    using evaluate_decision [OF assms(1), of t] evaluate_decision [OF assms(2), of t] \<open>within_policy t p r u\<close> assms(7) by auto
qed

theorem policy_monotone_in_usage_witness:
  "\<exists>e. evaluate ''acme'' sample_policy (sample_policy_request HIGH) (sample_usage 1) = Inr e \<and> pd_decision e = REQUIRE_APPROVAL"
proof -
  have d: "digit_count 350 = 3" by (simp add: digit_count.simps)
  have "dec_add (Dec False 2 0) (Dec False 150 (- 2)) = Dec False 350 (- 2)"
    by (simp add: dec_add_def signed_def dec_fix_def d)
  then have w: "within_policy ''acme'' sample_policy (sample_policy_request HIGH) (sample_usage 2)"
    by (simp add: within_policy_def sample_policy_def sample_policy_request_def sample_usage_def sample_quotas_def pow10_def)
  have q: "requires_approval sample_policy (sample_policy_request HIGH)"
    by (simp add: requires_approval_def sample_policy_def sample_policy_request_def)
  obtain d where d: "evaluate ''acme'' sample_policy (sample_policy_request HIGH) (sample_usage 2) = Inr d" "pd_decision d = REQUIRE_APPROVAL"
    using evaluate_decision [OF sample_policy_inputs, of "''acme''" HIGH 2] w q by auto
  show ?thesis
    using policy_monotone_in_usage [OF sample_policy_inputs sample_policy_inputs _ _ _ _ d(1), of 1] d(2) by (simp add: sample_usage_def)
qed

end
