(* ===== verification/Model_Catalog.thy ===== *)
theory Model_Catalog
  imports Model_Domain Policy "HOL-Library.Product_Lexorder"
begin

text \<open>
  \<^verbatim>\<open>gateway/catalog.py\<close>: the model catalog and the router that selects, for one request and tenant policy, the models a call may use and
  their order. \<^verbatim>\<open>Environment\<close> is the enumeration of \<^verbatim>\<open>config.py\<close>.
\<close>

section \<open>The catalog\<close>

datatype Environment = DEVELOPMENT | TEST | PRODUCTION

fun Environment_value :: "Environment \<Rightarrow> string" where
  "Environment_value DEVELOPMENT = ''development''"
| "Environment_value TEST = ''test''"
| "Environment_value PRODUCTION = ''production''"

datatype RoutePreference = PREFER_COST | PREFER_LATENCY

fun RoutePreference_value :: "RoutePreference \<Rightarrow> string" where
  "RoutePreference_value PREFER_COST = ''cost''"
| "RoutePreference_value PREFER_LATENCY = ''latency''"

record ModelCatalogEntry =
  ce_identity :: ModelIdentity
  ce_capabilities :: ModelCapabilities
  ce_pricing :: PricingVersion
  ce_environments :: "Environment list"
  ce_data_residencies :: "string list"
  ce_provider_retains_data :: bool
  ce_cost_rank :: int
  ce_latency_rank :: int
  ce_fallback_models :: "ModelIdentity list"

definition init_ModelCatalogEntry :: "ModelCatalogEntry \<Rightarrow> ModelCatalogEntry res" where
  "init_ModelCatalogEntry e =
     res_bind (require (ce_environments e \<noteq> [] \<and> ce_data_residencies e \<noteq> [])
       (ValueError ''catalog environment and residency must be explicit'')) (\<lambda>_.
     res_bind (require (0 \<le> ce_cost_rank e \<and> 0 \<le> ce_latency_rank e) (ValueError ''catalog ranks cannot be negative'')) (\<lambda>_.
     Inr e))"

type_synonym ModelCatalog = "(ModelIdentity \<times> ModelCatalogEntry) list"

definition new_ModelCatalog :: "ModelCatalogEntry list \<Rightarrow> ModelCatalog res" where
  "new_ModelCatalog entries =
     (let d = dict_update [] (map (\<lambda>e. (ce_identity e, e)) entries) in
      if length d \<noteq> length entries then Inl (ValueError ''duplicate catalog model identity'') else Inr d)"

definition catalog_get :: "ModelCatalog \<Rightarrow> ModelIdentity \<Rightarrow> ModelCatalogEntry res" where
  "catalog_get c i = (case map_of c i of
     None \<Rightarrow> Inl (CatalogError (''unknown model: '' @ catalog_key i))
   | Some e \<Rightarrow> Inr e)"

definition catalog_entries :: "ModelCatalog \<Rightarrow> ModelCatalogEntry list" where
  "catalog_entries c = sort_key (\<lambda>e. catalog_key (ce_identity e)) (map snd c)"

section \<open>Routing\<close>

record RouteDecision =
  rd_selected :: ModelCatalogEntry
  rd_candidates :: "ModelCatalogEntry list"
  rd_rationale :: "string list"

definition policy_failures :: "ModelCatalogEntry \<Rightarrow> TenantPolicy \<Rightarrow> Environment \<Rightarrow> string list" where
  "policy_failures e p environment =
     (let i = ce_identity e in
      reason_if (\<not> (catalog_key i \<in> set (tp_allowed_models p) \<or> mi_model i \<in> set (tp_allowed_models p))) ''model_not_allowed''
      @ reason_if (mi_provider i \<notin> set (tp_allowed_providers p)) ''provider_not_allowed''
      @ reason_if (environment \<notin> set (ce_environments e) \<or> Environment_value environment \<notin> set (tp_allowed_environments p))
          ''environment_not_allowed''
      @ reason_if (\<not> (\<exists>r \<in> set (ce_data_residencies e). r \<in> set (tp_allowed_data_residencies p))) ''residency_not_allowed''
      @ reason_if (ce_provider_retains_data e \<and> \<not> tp_allow_provider_retention p) ''retention_not_allowed'')"

definition uses_vision :: "ModelRequest \<Rightarrow> bool" where
  "uses_vision r = (\<exists>m \<in> set (mq_messages r). \<exists>p \<in> set (mm_content m). is_image_part p)"

definition route_failures ::
  "ModelRequest \<Rightarrow> TenantPolicy \<Rightarrow> Environment \<Rightarrow> ModelIdentity list \<Rightarrow> ModelCatalogEntry \<Rightarrow> string list" where
  "route_failures r p environment unavailable e =
     policy_failures e p environment
     @ reason_if (ce_identity e \<in> set unavailable) ''provider_unavailable''
     @ reason_if (cap_max_context_tokens (ce_capabilities e) < mq_prompt_token_estimate r + mq_max_output_tokens r)
         ''context_limit_exceeded''
     @ reason_if (cap_max_output_tokens (ce_capabilities e) < mq_max_output_tokens r) ''output_limit_exceeded''
     @ reason_if (mq_tools r \<noteq> [] \<and> \<not> cap_supports_tools (ce_capabilities e)) ''tools_unsupported''
     @ reason_if (uses_vision r \<and> \<not> cap_supports_vision (ce_capabilities e)) ''vision_unsupported''
     @ reason_if (mq_response_schema r \<noteq> None \<and> \<not> cap_supports_structured_output (ce_capabilities e))
         ''structured_output_unsupported''"

definition route_rank :: "RoutePreference \<Rightarrow> ModelCatalogEntry \<Rightarrow> int \<times> int \<times> string \<times> string" where
  "route_rank preference e =
     (let i = (mi_provider (ce_identity e), mi_model (ce_identity e)) in
      case preference of
        PREFER_COST \<Rightarrow> (ce_cost_rank e, ce_latency_rank e, i)
      | PREFER_LATENCY \<Rightarrow> (ce_latency_rank e, ce_cost_rank e, i))"

definition route ::
  "ModelRequest \<Rightarrow> ModelCatalog \<Rightarrow> TenantPolicy \<Rightarrow> Environment \<Rightarrow> ModelIdentity list \<Rightarrow> RoutePreference \<Rightarrow> RouteDecision res" where
  "route r catalog p environment unavailable preference =
     res_bind (require (tp_tenant_id p = mq_tenant_id r) (RouteDeniedError [''cross_tenant_policy''])) (\<lambda>_.
     res_bind (case mq_requested_model r of
         None \<Rightarrow> Inr (catalog_entries catalog)
       | Some i \<Rightarrow> res_bind (catalog_get catalog i) (\<lambda>e. Inr [e])) (\<lambda>entries.
     let eligible = filter (\<lambda>e. route_failures r p environment unavailable e = []) entries;
         denied = remdups (concat (map (route_failures r p environment unavailable) entries));
         ordered = sort_key (route_rank preference) eligible in
     if eligible = [] then Inl (RouteDeniedError (if denied = [] then [''no_catalog_candidates''] else sort_key id denied))
     else Inr \<lparr>rd_selected = hd ordered, rd_candidates = ordered,
               rd_rationale = (if mq_requested_model r \<noteq> None then [''explicit_model''] else [])
                 @ [''tenant_policy_allowed'', ''capabilities_matched'', RoutePreference_value preference @ ''_preference'']\<rparr>))"

end
