(* ===== verification/Sha256.thy ===== *)
theory Sha256
  imports Py_Values
begin

text \<open>
  \<^verbatim>\<open>hashlib.sha256(text.encode()).hexdigest()\<close> for ASCII text: padding to 64-byte blocks, the message schedule and the compression
  rounds on 32-bit words (FIPS 180-4).
\<close>

unbundle bit_operations_syntax

type_synonym w32 = "32 word"

definition rotr :: "nat \<Rightarrow> w32 \<Rightarrow> w32" where
  "rotr n x = drop_bit n x OR push_bit (32 - n) x"

text \<open>
  The constants are the first 32 bits of the fractional parts of the cube roots of the first 64 primes and of the square roots of the
  first 8: the integer part of a root of a prime scaled by a power of two, cut to 32 bits. \<open>int_root\<close> finds the root bit by bit.
\<close>

primrec int_root :: "nat \<Rightarrow> nat \<Rightarrow> nat \<Rightarrow> nat \<Rightarrow> nat" where
  "int_root k n 0 acc = acc"
| "int_root k n (Suc i) acc = int_root k n i (if (acc + 2 ^ i) ^ k \<le> n then acc + 2 ^ i else acc)"

definition small_primes :: "nat list" where
  "small_primes = filter (\<lambda>p. \<forall>d \<in> set [2..<p]. p mod d \<noteq> 0) [2..<312]"

definition sha_k :: "w32 list" where
  "sha_k = map (\<lambda>p. of_nat (int_root 3 (p * 2 ^ 96) 36 0)) small_primes"

definition sha_init :: "w32 list" where
  "sha_init = map (\<lambda>p. of_nat (int_root 2 (p * 2 ^ 64) 36 0)) (take 8 small_primes)"

text \<open>The message is followed by the bit 1, zeros, and its length in bits as 64 bits.\<close>

definition sha_pad :: "nat list \<Rightarrow> nat list" where
  "sha_pad bytes =
     (let n = length bytes in
      bytes @ [128] @ replicate ((119 - n mod 64) mod 64) 0 @ map (\<lambda>i. n * 8 div 256 ^ i mod 256) (rev [0..<8]))"

fun be_words :: "nat list \<Rightarrow> w32 list" where
  "be_words (a # b # c # d # rest) = of_nat (((a * 256 + b) * 256 + c) * 256 + d) # be_words rest"
| "be_words _ = []"

text \<open>The schedule is kept latest word first while it grows from 16 to 64 words.\<close>

primrec extend_schedule :: "nat \<Rightarrow> w32 list \<Rightarrow> w32 list" where
  "extend_schedule 0 ws = ws"
| "extend_schedule (Suc n) ws =
     (let w15 = ws ! 14; w2 = ws ! 1;
          s0 = rotr 7 w15 XOR rotr 18 w15 XOR drop_bit 3 w15;
          s1 = rotr 17 w2 XOR rotr 19 w2 XOR drop_bit 10 w2 in
      extend_schedule n ((ws ! 15 + s0 + ws ! 6 + s1) # ws))"

definition sha_round :: "w32 \<times> w32 \<Rightarrow> w32 list \<Rightarrow> w32 list" where
  "sha_round kw st = (case st of
     [a, b, c, d, e, f, g, h] \<Rightarrow>
       (let s1 = rotr 6 e XOR rotr 11 e XOR rotr 25 e;
            ch = (e AND f) XOR (NOT e AND g);
            t1 = h + s1 + ch + fst kw + snd kw;
            s0 = rotr 2 a XOR rotr 13 a XOR rotr 22 a;
            maj = (a AND b) XOR (a AND c) XOR (b AND c) in
        [t1 + (s0 + maj), a, b, c, d + t1, e, f, g])
   | _ \<Rightarrow> st)"

definition sha_block :: "w32 list \<Rightarrow> w32 list \<Rightarrow> w32 list" where
  "sha_block words st = map2 (+) st (fold sha_round (zip sha_k (rev (extend_schedule 48 (rev words)))) st)"

fun sha_blocks :: "nat \<Rightarrow> w32 list \<Rightarrow> w32 list \<Rightarrow> w32 list" where
  "sha_blocks 0 words st = st"
| "sha_blocks (Suc n) words st = sha_blocks n (drop 16 words) (sha_block (take 16 words) st)"

definition sha256_hexdigest :: "string \<Rightarrow> string" where
  "sha256_hexdigest text =
     (let words = be_words (sha_pad (map of_char text)) in
      concat (map (\<lambda>w. digits_text 16 8 (unat w)) (sha_blocks (length words div 16) words sha_init)))"

end
