(* ===== verification/Gateway_Ledger.thy ===== *)
theory Gateway_Ledger
  imports Model_Catalog Transport Sha256
begin

text \<open>
  \<^verbatim>\<open>InMemoryGatewayRepository\<close> of \<^verbatim>\<open>gateway/repository.py\<close>: model calls are admitted against token and cost budgets, executed under a
  worker's lease, and settled; every step is appended to an event list. The operations run under one lock and mutate in place, so
  an exception leaves what was done before it. Fresh UUIDs are taken from the argument \<open>ids\<close> in the order the code draws them.
\<close>

section \<open>State\<close>

record BudgetReservation =
  br_reservation_id :: uuid
  br_tenant_id :: string
  br_run_id :: uuid
  br_request_id :: uuid
  br_token_limit :: int
  br_cost_limit_usd :: decimal
  br_price_version :: string
  br_active :: bool
  br_status :: string
  br_charged_tokens :: int
  br_charged_cost_usd :: decimal
  br_created_at :: "datetime option"
  br_expires_at :: "datetime option"
  br_reconciled_at :: "datetime option"

record gateway_repo =
  gw_active_leases :: "(string \<times> uuid) \<rightharpoonup> WorkLease"
  gw_events :: "EventEnvelope list"
  gw_reservations :: "(uuid \<times> BudgetReservation) list"
  gw_inflight :: "(string \<times> string) \<rightharpoonup> (uuid \<times> string)"
  gw_completed :: "(string \<times> string) \<rightharpoonup> (string \<times> ModelResponse)"

definition new_gateway_repo :: "WorkLease list \<Rightarrow> gateway_repo" where
  "new_gateway_repo leases =
     \<lparr>gw_active_leases = map_of (dict_update [] (map (\<lambda>l. ((ls_tenant_id l, ls_work_id l), l)) leases)),
      gw_events = [], gw_reservations = [], gw_inflight = Map.empty, gw_completed = Map.empty\<rparr>"

definition replace_lease :: "WorkLease \<Rightarrow> gateway_repo \<Rightarrow> gateway_repo" where
  "replace_lease l s = s\<lparr>gw_active_leases := (gw_active_leases s)((ls_tenant_id l, ls_work_id l) \<mapsto> l)\<rparr>"

section \<open>Digests and helpers\<close>

fun content_part_payload :: "ContentPart \<Rightarrow> json" where
  "content_part_payload (TextPart text) = JObj [(''kind'', JStr ''text''), (''text'', JStr text)]"
| "content_part_payload (ImagePart media uri) =
     JObj [(''kind'', JStr ''image''), (''media_type'', JStr media), (''uri'', JStr uri)]"
| "content_part_payload (ToolCallPart p) =
     JObj [(''kind'', JStr ''tool_call''), (''call_id'', JStr (tc_call_id p)), (''tool_name'', JStr (tc_tool_name p)),
           (''arguments'', JObj (tc_arguments p))]"
| "content_part_payload (ToolResultPart i c err) =
     JObj [(''kind'', JStr ''tool_result''), (''call_id'', JStr i), (''content'', c), (''is_error'', JBool err)]"

definition message_payload :: "ModelMessage \<Rightarrow> json" where
  "message_payload m =
     JObj [(''role'', JStr (MessageRole_value (mm_role m))),
           (''name'', case mm_name m of None \<Rightarrow> JNull | Some n \<Rightarrow> JStr n),
           (''content'', JArr (map content_part_payload (mm_content m)))]"

definition model_identity_payload :: "ModelIdentity \<Rightarrow> json" where
  "model_identity_payload i = JObj [(''provider'', JStr (mi_provider i)), (''model'', JStr (mi_model i))]"

definition request_content :: "ModelRequest \<Rightarrow> json" where
  "request_content r =
     JObj [(''messages'', JArr (map message_payload (mq_messages r))),
           (''requested_model'', case mq_requested_model r of None \<Rightarrow> JNull | Some i \<Rightarrow> model_identity_payload i),
           (''max_output_tokens'', JInt (mq_max_output_tokens r)),
           (''prompt_token_estimate'', JInt (mq_prompt_token_estimate r)),
           (''temperature'', JStr (decimal_str (mq_temperature r))),
           (''tools'', JArr (map (\<lambda>t. JObj [(''name'', JStr (td_name t)), (''description'', JStr (td_description t)),
              (''strict'', JBool (js_strict (td_input_schema t))), (''schema'', JObj (js_schema (td_input_schema t)))]) (mq_tools r))),
           (''response_schema'', case mq_response_schema r of
              None \<Rightarrow> JNull
            | Some s \<Rightarrow> JObj [(''name'', JStr (js_name s)), (''strict'', JBool (js_strict s)), (''schema'', JObj (js_schema s))])]"

definition request_content_digest :: "ModelRequest \<Rightarrow> string" where
  "request_content_digest r = sha256_hexdigest (json_dumps (request_content r))"

definition validate_gateway_context :: "string \<Rightarrow> ModelRequest \<Rightarrow> WorkLease \<Rightarrow> unit res" where
  "validate_gateway_context context r l =
     res_bind (require (context = mq_tenant_id r \<and> context = ls_tenant_id l)
       (ValueError ''gateway tenant context, request, and lease must match'')) (\<lambda>_.
     require (mq_run_id r = ls_work_id l) (ValueError ''model run must be the fenced work aggregate''))"

text \<open>Midnight UTC on the first of the month of an aware time; leaving the calendar on the way to UTC is an OverflowError.\<close>

definition billing_period_start :: "datetime \<Rightarrow> datetime res" where
  "billing_period_start tm =
     (let i = dt_instant tm in
      if 0 \<le> i \<and> i < int (3652059 * day_micros) then
        (case days_to_ymd (nat i div day_micros) of (y, m, d) \<Rightarrow>
           Inr \<lparr>dt_wall = ymd_to_days (y, m, 1) * day_micros, dt_offset = Some 0\<rparr>)
      else Inl (OverflowError ''date value out of range''))"

fun failure_event_type :: "ModelErrorClass \<Rightarrow> DomainEventType" where
  "failure_event_type ME_TIMEOUT = MODEL_CALL_TIMED_OUT"
| "failure_event_type ME_RATE_LIMIT = MODEL_CALL_RATE_LIMITED"
| "failure_event_type ME_CANCELLED = MODEL_CALL_CANCELLED"
| "failure_event_type _ = MODEL_CALL_FAILED"

definition usage_totals :: "PricingVersion \<Rightarrow> ModelResponse \<Rightarrow> (int \<times> decimal) res" where
  "usage_totals p r = res_bind (pricing_cost p (mp_usage r)) (\<lambda>c. Inr (billable_tokens (mp_usage r), c))"

definition actual_usage :: "PricingVersion \<Rightarrow> ModelResponse \<Rightarrow> BudgetReservation \<Rightarrow> (int \<times> decimal) res" where
  "actual_usage p r b =
     res_bind (usage_totals p r) (\<lambda>(tokens, cost).
     res_bind (require (tokens \<le> br_token_limit b)
       (ModelGatewayError ME_PROVIDER_BUG ''usage_exceeded_token_reservation'' False None True)) (\<lambda>_.
     res_bind (dec_lt (br_cost_limit_usd b) cost) (\<lambda>exceeded.
     res_bind (require (\<not> exceeded)
       (ModelGatewayError ME_PROVIDER_BUG ''usage_exceeded_cost_reservation'' False None True)) (\<lambda>_.
     Inr (tokens, cost)))))"

definition usage_payload :: "TokenUsage \<Rightarrow> json_obj" where
  "usage_payload u =
     [(''input_tokens'', JInt (tu_input_tokens u)), (''output_tokens'', JInt (tu_output_tokens u)),
      (''cache_read_tokens'', JInt (tu_cache_read_tokens u)), (''cache_write_tokens'', JInt (tu_cache_write_tokens u)),
      (''reasoning_tokens'', JInt (tu_reasoning_tokens u))]"

text \<open>\<^verbatim>\<open>max\<close> keeps the first of equal values; the prices are not NaN.\<close>

definition dec_max :: "decimal \<Rightarrow> decimal \<Rightarrow> decimal" where
  "dec_max a b = (if dec_less a b then b else a)"

definition estimate_cost :: "PricingVersion \<Rightarrow> int \<Rightarrow> int \<Rightarrow> decimal res" where
  "estimate_cost p prompt_tokens max_output_tokens =
     (let highest = fold (\<lambda>x acc. dec_max acc x) (tl (prices p)) (hd (prices p)) in
      checked_decimal (per_million (dec_mult (dec_of_int (prompt_tokens + max_output_tokens)) highest)))"

section \<open>Fences and appends\<close>

definition require_fence :: "WorkLease \<Rightarrow> datetime \<Rightarrow> (gateway_repo, unit) op" where
  "require_fence l tm =
     op_bind (op_gets (\<lambda>s. gw_active_leases s (ls_tenant_id l, ls_work_id l))) (\<lambda>current.
     (case current of
        None \<Rightarrow> op_raise (FencingError (ls_generation l) 0)
      | Some c \<Rightarrow>
          if ls_token c \<noteq> ls_token l \<or> ls_generation c \<noteq> ls_generation l
          then op_raise (FencingError (ls_generation l) (ls_generation c))
          else op_bind (op_lift (dt_le (ls_expires_at c) tm)) (\<lambda>expired.
               op_require (\<not> expired) (FencingError (ls_generation l) (ls_generation c)))))"

definition require_active :: "BudgetReservation \<Rightarrow> (gateway_repo, unit) op" where
  "require_active b =
     op_bind (op_gets (\<lambda>s. map_of (gw_reservations s) (br_reservation_id b))) (\<lambda>current.
     op_require (case current of None \<Rightarrow> False | Some c \<Rightarrow> br_active c) (ValueError ''budget reservation is not active''))"

definition gateway_event ::
  "ModelRequest \<Rightarrow> WorkLease \<Rightarrow> datetime \<Rightarrow> uuid \<Rightarrow> int \<Rightarrow> uuid option \<Rightarrow> DomainEventType \<Rightarrow> json_obj \<Rightarrow> EventEnvelope" where
  "gateway_event r l tm i sequence causation ty details =
     \<lparr>event_id = i, ev_tenant_id = mq_tenant_id r, aggregate_id = uuid_str (ls_work_id l),
      event_type = DomainEventType_value ty, schema_version = 1, occurred_at = tm,
      payload = dict_update details
        [(''work_id'', JStr (uuid_str (ls_work_id l))), (''run_id'', JStr (uuid_str (mq_run_id r))),
         (''lease_token'', JStr (uuid_str (ls_token l))), (''lease_generation'', JInt (ls_generation l))],
      correlation_id = Some (mq_run_id r), causation_id = causation, aggregate_sequence = sequence,
      global_position = None, recorded_at = None, actor = None, identity_reference = None, policy_reference = None,
      audit_reference = None,
      idempotency_key = Some (mq_idempotency_key r @ '':'' @ DomainEventType_value ty @ '':'' @ int_str sequence),
      trace_context = None, previous_aggregate_sequence = None, metadata = []\<rparr>"

primrec append_from ::
  "ModelRequest \<Rightarrow> WorkLease \<Rightarrow> datetime \<Rightarrow> (nat \<Rightarrow> uuid) \<Rightarrow> nat \<Rightarrow> int \<Rightarrow> uuid option \<Rightarrow> (DomainEventType \<times> json_obj) list
     \<Rightarrow> (gateway_repo, unit) op" where
  "append_from r l tm ids n sequence causation [] = op_return ()"
| "append_from r l tm ids n sequence causation (e # es) =
     op_bind (op_lift (new_envelope (gateway_event r l tm (ids n) (sequence + 1) causation (fst e) (snd e)))) (\<lambda>ev.
     op_bind (op_modify (\<lambda>s. s\<lparr>gw_events := gw_events s @ [ev]\<rparr>)) (\<lambda>_.
     append_from r l tm ids (Suc n) (sequence + 1) (Some (ids n)) es))"

definition gateway_append ::
  "ModelRequest \<Rightarrow> WorkLease \<Rightarrow> datetime \<Rightarrow> (nat \<Rightarrow> uuid) \<Rightarrow> nat \<Rightarrow> (DomainEventType \<times> json_obj) list \<Rightarrow> (gateway_repo, unit) op" where
  "gateway_append r l tm ids n es =
     op_bind (op_require (dt_aware tm) (ValueError ''event time must be timezone-aware'')) (\<lambda>_.
     op_bind (op_gets (\<lambda>s. int (length (filter (\<lambda>e. aggregate_id e = uuid_str (ls_work_id l)) (gw_events s))))) (\<lambda>sequence.
     append_from r l tm ids n sequence None es))"

section \<open>Reading budgets\<close>

primrec res_filter :: "('a \<Rightarrow> bool res) \<Rightarrow> 'a list \<Rightarrow> 'a list res" where
  "res_filter P [] = Inr []"
| "res_filter P (x # xs) = res_bind (P x) (\<lambda>b. res_bind (res_filter P xs) (\<lambda>ys. Inr (if b then x # ys else ys)))"

definition reservations_of :: "gateway_repo \<Rightarrow> BudgetReservation list" where
  "reservations_of s = map snd (gw_reservations s)"

definition is_charged :: "BudgetReservation \<Rightarrow> bool" where
  "is_charged b = (br_status b = ''charged'')"

definition dec_sum :: "decimal list \<Rightarrow> decimal" where
  "dec_sum ds = foldl dec_add (Dec False 0 0) ds"

definition active_of_tenant :: "string \<Rightarrow> gateway_repo \<Rightarrow> BudgetReservation list" where
  "active_of_tenant t s = filter (\<lambda>b. br_tenant_id b = t \<and> br_active b) (reservations_of s)"

definition charged_in_period :: "string \<Rightarrow> datetime \<Rightarrow> gateway_repo \<Rightarrow> BudgetReservation list res" where
  "charged_in_period t start s =
     res_filter (\<lambda>b. if br_tenant_id b = t \<and> is_charged b
        then (case br_reconciled_at b of None \<Rightarrow> Inr False | Some d \<Rightarrow> dt_le start d) else Inr False) (reservations_of s)"

definition charged_of_run :: "string \<Rightarrow> uuid \<Rightarrow> gateway_repo \<Rightarrow> BudgetReservation list" where
  "charged_of_run t run s = filter (\<lambda>b. br_tenant_id b = t \<and> br_run_id b = run \<and> is_charged b) (reservations_of s)"

definition committed_tokens :: "BudgetReservation list \<Rightarrow> BudgetReservation list \<Rightarrow> int" where
  "committed_tokens active charged = sum_list (map br_token_limit active) + sum_list (map br_charged_tokens charged)"

definition committed_cost :: "BudgetReservation list \<Rightarrow> BudgetReservation list \<Rightarrow> decimal" where
  "committed_cost active charged = dec_add (dec_sum (map br_cost_limit_usd active)) (dec_sum (map br_charged_cost_usd charged))"

definition deny_over :: "decimal \<Rightarrow> decimal \<Rightarrow> string \<Rightarrow> unit res" where
  "deny_over amount limit reason =
     res_bind (dec_lt limit amount) (\<lambda>over. require (\<not> over) (BudgetDeniedError reason))"

definition check_budgets ::
  "ModelRequest \<Rightarrow> QuotaLimits \<Rightarrow> int \<Rightarrow> decimal \<Rightarrow> datetime \<Rightarrow> gateway_repo \<Rightarrow> unit res" where
  "check_budgets r q token_limit cost_limit tm s =
     (let t = mq_tenant_id r; run = mq_run_id r; active = active_of_tenant t s;
          run_active = filter (\<lambda>b. br_run_id b = run) active; run_charged = charged_of_run t run s in
      res_bind (billing_period_start tm) (\<lambda>start.
      res_bind (charged_in_period t start s) (\<lambda>charged.
      res_bind (require (committed_tokens run_active run_charged + token_limit \<le> ql_max_run_tokens q)
        (BudgetDeniedError ''run_token_budget_exceeded'')) (\<lambda>_.
      res_bind (deny_over (dec_add (committed_cost run_active run_charged) cost_limit) (ql_max_run_cost_usd q)
        ''run_cost_budget_exceeded'') (\<lambda>_.
      res_bind (require (committed_tokens active charged + token_limit \<le> ql_max_tenant_tokens_per_period q)
        (BudgetDeniedError ''tenant_token_budget_exceeded'')) (\<lambda>_.
      deny_over (dec_add (committed_cost active charged) cost_limit) (ql_max_tenant_cost_usd_per_period q)
        ''tenant_cost_budget_exceeded''))))))"

section \<open>Operations\<close>

definition gateway_completed ::
  "string \<Rightarrow> ModelRequest \<Rightarrow> WorkLease \<Rightarrow> datetime \<Rightarrow> (gateway_repo, ModelResponse option) op" where
  "gateway_completed context r l tm =
     op_bind (op_lift (validate_gateway_context context r l)) (\<lambda>_.
     op_bind (require_fence l tm) (\<lambda>_.
     op_gets (\<lambda>s. case gw_completed s (context, mq_idempotency_key r) of
         None \<Rightarrow> None
       | Some (digest, response) \<Rightarrow> if digest = request_content_digest r then Some response else None)))"

definition reserved_events ::
  "ModelRequest \<Rightarrow> WorkLease \<Rightarrow> RouteDecision \<Rightarrow> BudgetReservation \<Rightarrow> (DomainEventType \<times> json_obj) list" where
  "reserved_events r l rt b =
     (let base = [(''work_id'', JStr (uuid_str (ls_work_id l))), (''lease_token'', JStr (uuid_str (ls_token l))),
                  (''lease_generation'', JInt (ls_generation l)), (''request_id'', JStr (uuid_str (mq_request_id r)))];
          chosen = [(''provider'', JStr (mi_provider (ce_identity (rd_selected rt)))),
                    (''model'', JStr (mi_model (ce_identity (rd_selected rt))))] in
      [(MODEL_ROUTE_DECIDED, base @ chosen @
         [(''candidate_count'', JInt (int (length (rd_candidates rt)))), (''rationale'', JArr (map JStr (rd_rationale rt)))]),
       (MODEL_CALL_REQUESTED, base @ chosen @
         [(''message_count'', JInt (int (length (mq_messages r)))), (''content_digest'', JStr (request_content_digest r)),
          (''max_output_tokens'', JInt (mq_max_output_tokens r)), (''prompt_token_estimate'', JInt (mq_prompt_token_estimate r)),
          (''has_tools'', JBool (mq_tools r \<noteq> [])), (''has_structured_output'', JBool (mq_response_schema r \<noteq> None)),
          (''persistence_policy'', JStr ''metadata_and_digest_only'')]),
       (MODEL_BUDGET_RESERVED, base @
         [(''reservation_id'', JStr (uuid_str (br_reservation_id b))), (''token_limit'', JInt (br_token_limit b)),
          (''cost_limit_usd'', JStr (decimal_str (br_cost_limit_usd b))), (''price_version'', JStr (br_price_version b))])])"

definition new_reservation ::
  "uuid \<Rightarrow> ModelRequest \<Rightarrow> WorkLease \<Rightarrow> int \<Rightarrow> decimal \<Rightarrow> string \<Rightarrow> datetime \<Rightarrow> BudgetReservation" where
  "new_reservation i r l token_limit cost_limit price_version tm =
     \<lparr>br_reservation_id = i, br_tenant_id = mq_tenant_id r, br_run_id = mq_run_id r, br_request_id = mq_request_id r,
      br_token_limit = token_limit, br_cost_limit_usd = cost_limit, br_price_version = price_version, br_active = True,
      br_status = ''active'', br_charged_tokens = 0, br_charged_cost_usd = Dec False 0 0, br_created_at = Some tm,
      br_expires_at = Some (ls_expires_at l), br_reconciled_at = None\<rparr>"

definition admit_reservation :: "ModelRequest \<Rightarrow> BudgetReservation \<Rightarrow> gateway_repo \<Rightarrow> gateway_repo" where
  "admit_reservation r b s = s\<lparr>gw_reservations := AList.update (br_reservation_id b) b (gw_reservations s),
     gw_inflight := (gw_inflight s)((mq_tenant_id r, mq_idempotency_key r) \<mapsto> (br_reservation_id b, request_content_digest r))\<rparr>"

definition gateway_reserve ::
  "(nat \<Rightarrow> uuid) \<Rightarrow> string \<Rightarrow> ModelRequest \<Rightarrow> WorkLease \<Rightarrow> RouteDecision \<Rightarrow> QuotaLimits \<Rightarrow> int \<Rightarrow> decimal \<Rightarrow> string \<Rightarrow> datetime
     \<Rightarrow> (gateway_repo, BudgetReservation) op" where
  "gateway_reserve ids context r l rt q token_limit cost_limit price_version tm =
     op_bind (op_lift (validate_gateway_context context r l)) (\<lambda>_.
     op_bind (op_lift (if token_limit < 1 then Inr True else dec_lt cost_limit (dec_of_int 0))) (\<lambda>bad.
     op_bind (op_require (\<not> bad \<and> price_version \<noteq> []) (ValueError ''reservation values and price version are required'')) (\<lambda>_.
     op_bind (require_fence l tm) (\<lambda>_.
     let key = (mq_tenant_id r, mq_idempotency_key r); digest = request_content_digest r in
     op_bind (op_gets (\<lambda>s. gw_completed s key)) (\<lambda>done_before.
     op_bind (op_lift (case done_before of
         None \<Rightarrow> Inr ()
       | Some (d, _) \<Rightarrow> Inl (if d \<noteq> digest then ValueError ''idempotency key already belongs to another request''
                             else ValueError ''completed duplicate must be read before reservation''))) (\<lambda>_.
     op_bind (op_gets (\<lambda>s. gw_inflight s key)) (\<lambda>inflight.
     op_bind (op_require (inflight = None) (DuplicateCallInProgressError ''model call is already in progress'')) (\<lambda>_.
     op_bind (op_gets (check_budgets r q token_limit cost_limit tm)) (\<lambda>verdict.
     op_bind (op_lift verdict) (\<lambda>_.
     let b = new_reservation (ids 0) r l token_limit cost_limit price_version tm in
     op_bind (op_modify (admit_reservation r b)) (\<lambda>_.
     op_bind (gateway_append r l tm ids 1 (reserved_events r l rt b)) (\<lambda>_.
     op_return b))))))))))))"

definition record_attempt ::
  "(nat \<Rightarrow> uuid) \<Rightarrow> string \<Rightarrow> ModelRequest \<Rightarrow> WorkLease \<Rightarrow> BudgetReservation \<Rightarrow> string \<Rightarrow> string \<Rightarrow> int \<Rightarrow> int \<Rightarrow> datetime
     \<Rightarrow> (gateway_repo, unit) op" where
  "record_attempt ids context r l b provider model attempt fallback_index tm =
     op_bind (op_lift (validate_gateway_context context r l)) (\<lambda>_.
     op_bind (op_require (1 \<le> attempt \<and> 0 \<le> fallback_index) (ValueError ''attempt and fallback index are invalid'')) (\<lambda>_.
     op_bind (require_active b) (\<lambda>_.
     op_bind (require_fence l tm) (\<lambda>_.
     gateway_append r l tm ids 0
       ((if 0 < fallback_index \<and> attempt = 1
         then [(MODEL_FALLBACK_SELECTED, [(''provider'', JStr provider), (''model'', JStr model), (''fallback_index'', JInt fallback_index)])]
         else []) @
        [(if attempt = 1 \<and> fallback_index = 0 then MODEL_CALL_STARTED else MODEL_CALL_ATTEMPTED,
          [(''provider'', JStr provider), (''model'', JStr model), (''attempt'', JInt attempt), (''fallback_index'', JInt fallback_index),
           (''reservation_id'', JStr (uuid_str (br_reservation_id b)))])])))))"

text \<open>A reservation is settled by writing its final record under its id; the call is no longer in flight.\<close>

definition settle :: "ModelRequest \<Rightarrow> BudgetReservation \<Rightarrow> gateway_repo \<Rightarrow> gateway_repo" where
  "settle r b s = s\<lparr>gw_reservations := AList.update (br_reservation_id b) b (gw_reservations s),
     gw_inflight := (gw_inflight s)((mq_tenant_id r, mq_idempotency_key r) := None)\<rparr>"

definition charged_reservation :: "BudgetReservation \<Rightarrow> int \<Rightarrow> decimal \<Rightarrow> datetime \<Rightarrow> BudgetReservation" where
  "charged_reservation b tokens cost tm = b\<lparr>br_active := False, br_status := ''charged'', br_charged_tokens := tokens,
     br_charged_cost_usd := cost, br_reconciled_at := Some tm\<rparr>"

definition released_reservation :: "BudgetReservation \<Rightarrow> datetime \<Rightarrow> BudgetReservation" where
  "released_reservation b tm = b\<lparr>br_active := False, br_status := ''released'', br_charged_tokens := 0,
     br_charged_cost_usd := Dec False 0 0, br_reconciled_at := Some tm\<rparr>"

definition settlement_details :: "ModelRequest \<Rightarrow> BudgetReservation \<Rightarrow> ModelResponse \<Rightarrow> PricingVersion \<Rightarrow> json_obj" where
  "settlement_details r b response p =
     [(''reservation_id'', JStr (uuid_str (br_reservation_id b))), (''request_id'', JStr (uuid_str (mq_request_id r))),
      (''provider'', JStr (mi_provider (mp_model response))), (''model'', JStr (mi_model (mp_model response))),
      (''price_version'', JStr (pv_version p))]"

definition charge_events :: "json_obj \<Rightarrow> ModelResponse \<Rightarrow> int \<Rightarrow> decimal \<Rightarrow> (DomainEventType \<times> json_obj) list" where
  "charge_events details response tokens cost =
     [(MODEL_USAGE_RECORDED, details @ usage_payload (mp_usage response) @ [(''cost_usd'', JStr (decimal_str cost))]),
      (MODEL_BUDGET_CHARGED, details @ [(''tokens'', JInt tokens), (''cost_usd'', JStr (decimal_str cost))])]"

definition success_events ::
  "ModelRequest \<Rightarrow> BudgetReservation \<Rightarrow> ModelResponse \<Rightarrow> PricingVersion \<Rightarrow> int \<Rightarrow> decimal \<Rightarrow> (DomainEventType \<times> json_obj) list" where
  "success_events r b response p tokens cost =
     (let details = settlement_details r b response p in
      [(MODEL_CALL_SUCCEEDED, details @
         [(''finish_reason'', JStr (FinishReason_value (mp_finish_reason response))),
          (''safety_outcome'', JStr (SafetyOutcome_value (sr_outcome (mp_safety response)))),
          (''latency_ms'', JInt (mp_latency_ms response)),
          (''provider_request_id'', case mp_provider_request_id response of None \<Rightarrow> JNull | Some i \<Rightarrow> JStr i)])]
      @ charge_events details response tokens cost
      @ [(MODEL_BUDGET_RELEASED, details @
          [(''tokens_released'', JInt (br_token_limit b - tokens)),
           (''cost_released_usd'', JStr (decimal_str (dec_sub (br_cost_limit_usd b) cost)))])])"

definition gateway_succeed ::
  "(nat \<Rightarrow> uuid) \<Rightarrow> string \<Rightarrow> ModelRequest \<Rightarrow> WorkLease \<Rightarrow> BudgetReservation \<Rightarrow> ModelResponse \<Rightarrow> PricingVersion \<Rightarrow> datetime
     \<Rightarrow> (gateway_repo, unit) op" where
  "gateway_succeed ids context r l b response p tm =
     op_bind (op_lift (validate_gateway_context context r l)) (\<lambda>_.
     op_bind (op_lift (actual_usage p response b)) (\<lambda>(tokens, cost).
     op_bind (require_active b) (\<lambda>_.
     op_bind (require_fence l tm) (\<lambda>_.
     op_bind (op_modify (\<lambda>s. settle r (charged_reservation b tokens cost tm) (s\<lparr>gw_completed :=
       (gw_completed s)((mq_tenant_id r, mq_idempotency_key r) \<mapsto> (request_content_digest r, response))\<rparr>))) (\<lambda>_.
     gateway_append r l tm ids 0 (success_events r b response p tokens cost))))))"

text \<open>The error of a failed call is always a \<^verbatim>\<open>ModelGatewayError\<close>.\<close>

fun error_details :: "py_error \<Rightarrow> json_obj" where
  "error_details (ModelGatewayError c code retryable retry_after ambiguous) =
     [(''error_class'', JStr (ModelErrorClass_value c)), (''error_code'', JStr code), (''retryable'', JBool retryable),
      (''billing_ambiguous'', JBool ambiguous)]"
| "error_details _ = []"

fun error_event_type :: "py_error \<Rightarrow> DomainEventType" where
  "error_event_type (ModelGatewayError c code retryable retry_after ambiguous) = failure_event_type c"
| "error_event_type _ = MODEL_CALL_FAILED"

definition usage_failure_events ::
  "ModelRequest \<Rightarrow> BudgetReservation \<Rightarrow> ModelResponse \<Rightarrow> PricingVersion \<Rightarrow> py_error \<Rightarrow> int \<Rightarrow> decimal
     \<Rightarrow> (DomainEventType \<times> json_obj) list" where
  "usage_failure_events r b response p err tokens cost =
     (let details = settlement_details r b response p in
      [(error_event_type err, details @ error_details err)]
      @ charge_events details response tokens cost
      @ [(MODEL_BUDGET_RELEASED, details @
          [(''tokens_released'', JInt (max (br_token_limit b - tokens) 0)),
           (''cost_released_usd'', JStr (decimal_str (dec_max (dec_sub (br_cost_limit_usd b) cost) (Dec False 0 0)))),
           (''reason'', JStr ''validation_failed_after_provider_response'')])])"

definition record_usage_failure ::
  "(nat \<Rightarrow> uuid) \<Rightarrow> string \<Rightarrow> ModelRequest \<Rightarrow> WorkLease \<Rightarrow> BudgetReservation \<Rightarrow> ModelResponse \<Rightarrow> PricingVersion \<Rightarrow> py_error \<Rightarrow> datetime
     \<Rightarrow> (gateway_repo, unit) op" where
  "record_usage_failure ids context r l b response p err tm =
     op_bind (op_lift (validate_gateway_context context r l)) (\<lambda>_.
     op_bind (op_lift (usage_totals p response)) (\<lambda>(tokens, cost).
     op_bind (require_active b) (\<lambda>_.
     op_bind (require_fence l tm) (\<lambda>_.
     op_bind (op_modify (settle r (charged_reservation b tokens cost tm))) (\<lambda>_.
     gateway_append r l tm ids 0 (usage_failure_events r b response p err tokens cost))))))"

definition record_attempt_failure ::
  "(nat \<Rightarrow> uuid) \<Rightarrow> string \<Rightarrow> ModelRequest \<Rightarrow> WorkLease \<Rightarrow> BudgetReservation \<Rightarrow> py_error \<Rightarrow> string \<Rightarrow> string \<Rightarrow> int \<Rightarrow> int \<Rightarrow> datetime
     \<Rightarrow> (gateway_repo, unit) op" where
  "record_attempt_failure ids context r l b err provider model attempt fallback_index tm =
     op_bind (op_lift (validate_gateway_context context r l)) (\<lambda>_.
     op_bind (require_active b) (\<lambda>_.
     op_bind (require_fence l tm) (\<lambda>_.
     gateway_append r l tm ids 0
       [(error_event_type err,
         [(''reservation_id'', JStr (uuid_str (br_reservation_id b))), (''request_id'', JStr (uuid_str (mq_request_id r))),
          (''provider'', JStr provider), (''model'', JStr model), (''attempt'', JInt attempt), (''fallback_index'', JInt fallback_index)]
         @ error_details err)])))"

definition failure_events :: "ModelRequest \<Rightarrow> BudgetReservation \<Rightarrow> py_error \<Rightarrow> (DomainEventType \<times> json_obj) list" where
  "failure_events r b err =
     (let details = [(''reservation_id'', JStr (uuid_str (br_reservation_id b))), (''request_id'', JStr (uuid_str (mq_request_id r)))]
           @ error_details err in
      [(error_event_type err, details),
       (MODEL_BUDGET_RELEASED, details @
         [(''tokens_released'', JInt (br_token_limit b)), (''cost_released_usd'', JStr (decimal_str (br_cost_limit_usd b))),
          (''reason'', JStr ''model_call_failed'')])])"

definition gateway_fail ::
  "(nat \<Rightarrow> uuid) \<Rightarrow> string \<Rightarrow> ModelRequest \<Rightarrow> WorkLease \<Rightarrow> BudgetReservation \<Rightarrow> py_error \<Rightarrow> datetime \<Rightarrow> (gateway_repo, unit) op" where
  "gateway_fail ids context r l b err tm =
     op_bind (op_lift (validate_gateway_context context r l)) (\<lambda>_.
     op_bind (require_active b) (\<lambda>_.
     op_bind (require_fence l tm) (\<lambda>_.
     op_bind (op_modify (settle r (released_reservation b tm))) (\<lambda>_.
     gateway_append r l tm ids 0 (failure_events r b err)))))"

definition usage_summary :: "string \<Rightarrow> gateway_repo \<Rightarrow> json_obj" where
  "usage_summary t s =
     (let charged = filter (\<lambda>b. br_tenant_id b = t \<and> is_charged b) (reservations_of s) in
      [(''tokens'', JInt (sum_list (map br_charged_tokens charged))),
       (''cost_usd'', JStr (decimal_str (dec_sum (map br_charged_cost_usd charged)))),
       (''calls'', JInt (int (length charged)))])"

end
