(* ===== verification/Gateway_Service.thy ===== *)
theory Gateway_Service
  imports Gateway_Resilience Gateway_Ledger Async_Ops
begin

text \<open>
  \<^verbatim>\<open>ModelGateway\<close> of \<^verbatim>\<open>gateway/service.py\<close> with the validation of \<^verbatim>\<open>gateway/structured.py\<close>: one model call from its
  route over its reservation, attempts, retries and failovers to its settlement. The repository is the in-memory one; the
  providers, the JSON Schema validator, the clocks and fresh UUIDs are parameters. Other tasks run whenever the call
  awaits: what they do to the shared repository and controls is an arbitrary function at every such point. Metrics and spans are left out.
\<close>

section \<open>The world of a call\<close>

text \<open>
  How a wait ends: by itself (the delay has passed, or the semaphore's wait is over, with a permit if one is free), because the
  caller's cancellation token was set, or because the task of the call was cancelled.
\<close>

datatype wait_outcome = WaitEnded | TokenSet | TaskCancelled

record gateway_world =
  gv_repo :: gateway_repo
  gv_controls :: ProviderControls
  gv_tick :: nat
  gv_calls :: "(ModelIdentity \<times> ModelRequest) list"

text \<open>Everything outside the gateway, indexed by the number of the observation made.\<close>

record gateway_env =
  ge_clock :: "nat \<Rightarrow> datetime"
  ge_loop_time :: "nat \<Rightarrow> rat"
  ge_monotonic :: "nat \<Rightarrow> rat"
  ge_ids :: "nat \<Rightarrow> nat \<Rightarrow> uuid"
  ge_provider :: "nat \<Rightarrow> ModelIdentity \<Rightarrow> ModelRequest \<Rightarrow> worker_error + ModelResponse"
  ge_cancelled :: "nat \<Rightarrow> bool"
  ge_wait :: "nat \<Rightarrow> rat \<Rightarrow> wait_outcome"
  ge_others :: "nat \<Rightarrow> gateway_repo \<times> ProviderControls \<Rightarrow> gateway_repo \<times> ProviderControls"
  ge_schema_ok :: "pyval \<Rightarrow> bool"
  ge_instance_ok :: "pyval \<Rightarrow> pyval \<Rightarrow> bool"

record ModelGateway =
  mg_catalog :: ModelCatalog
  mg_providers :: "string list"
  mg_retry_policy :: RetryPolicy

definition init_ModelGateway :: "ModelGateway \<Rightarrow> ModelGateway res" where
  "init_ModelGateway g =
     res_bind (require (set (mg_providers g) = set (map (\<lambda>e. mi_provider (ce_identity e)) (catalog_entries (mg_catalog g))))
       (ValueError ''every catalog provider requires exactly one adapter'')) (\<lambda>_. Inr g)"

definition observe :: "(nat \<Rightarrow> 'a) \<Rightarrow> (gateway_world, 'a) wop" where
  "observe f = (\<lambda>w. (Inr (f (gv_tick w)), w\<lparr>gv_tick := gv_tick w + 1\<rparr>))"

definition await_others :: "gateway_env \<Rightarrow> (gateway_world, unit) wop" where
  "await_others v = (\<lambda>w. case ge_others v (gv_tick w) (gv_repo w, gv_controls w) of (repo, controls) \<Rightarrow>
     (Inr (), w\<lparr>gv_repo := repo, gv_controls := controls, gv_tick := gv_tick w + 1\<rparr>))"

definition on_repo :: "(gateway_repo, 'a) op \<Rightarrow> (gateway_world, 'a) wop" where
  "on_repo m = (\<lambda>w. case m (gv_repo w) of
     (Inl e, s) \<Rightarrow> (Inl (Raised e), w\<lparr>gv_repo := s\<rparr>)
   | (Inr a, s) \<Rightarrow> (Inr a, w\<lparr>gv_repo := s\<rparr>))"

definition on_controls :: "(ProviderControls, 'a) op \<Rightarrow> (gateway_world, 'a) wop" where
  "on_controls m = (\<lambda>w. case m (gv_controls w) of
     (Inl e, s) \<Rightarrow> (Inl (Raised e), w\<lparr>gv_controls := s\<rparr>)
   | (Inr a, s) \<Rightarrow> (Inr a, w\<lparr>gv_controls := s\<rparr>))"

text \<open>\<^verbatim>\<open>await self._repository.operation(..., at=self._clock())\<close>: the time is read, then the repository's lock is awaited.\<close>

definition repo_call :: "gateway_env \<Rightarrow> ((nat \<Rightarrow> uuid) \<Rightarrow> datetime \<Rightarrow> (gateway_repo, 'a) op) \<Rightarrow> (gateway_world, 'a) wop" where
  "repo_call v f =
     w_bind (observe (ge_clock v)) (\<lambda>tm.
     w_bind (await_others v) (\<lambda>_.
     w_bind (observe (ge_ids v)) (\<lambda>ids. on_repo (f ids tm))))"

fun is_gateway_error :: "worker_error \<Rightarrow> bool" where
  "is_gateway_error (Raised (ModelGatewayError c code retryable retry_after ambiguous)) = True"
| "is_gateway_error _ = False"

text \<open>\<^verbatim>\<open>try: m; except ModelGatewayError as e: h e; else: k\<close>\<close>

definition try_gateway :: "('s, 'a) wop \<Rightarrow> (py_error \<Rightarrow> ('s, 'b) wop) \<Rightarrow> ('a \<Rightarrow> ('s, 'b) wop) \<Rightarrow> ('s, 'b) wop" where
  "try_gateway m h k = (\<lambda>s. case m s of
     (Inl e, s1) \<Rightarrow> (case e of Raised x \<Rightarrow> if is_gateway_error e then h x s1 else (Inl e, s1) | _ \<Rightarrow> (Inl e, s1))
   | (Inr a, s1) \<Rightarrow> k a s1)"

section \<open>Validation\<close>

definition validate_schema :: "gateway_env \<Rightarrow> JsonSchema \<Rightarrow> unit res" where
  "validate_schema v s = require (ge_schema_ok v (thaw_json (JObj (js_schema s))))
     (ModelGatewayError ME_SCHEMA ''invalid_json_schema'' False None False)"

definition validate_object :: "gateway_env \<Rightarrow> json_obj \<Rightarrow> JsonSchema \<Rightarrow> json_obj res" where
  "validate_object v value s =
     res_bind (validate_schema v s) (\<lambda>_.
     res_bind (require (ge_instance_ok v (thaw_json (JObj (js_schema s))) (thaw_json (JObj value)))
       (ModelGatewayError ME_SCHEMA ''structured_output_validation_failed'' False None False)) (\<lambda>_.
     Inr value))"

primrec res_iter :: "('a \<Rightarrow> unit res) \<Rightarrow> 'a list \<Rightarrow> unit res" where
  "res_iter f [] = Inr ()"
| "res_iter f (x # xs) = res_bind (f x) (\<lambda>_. res_iter f xs)"

definition gateway_validate_request :: "gateway_env \<Rightarrow> ModelRequest \<Rightarrow> unit res" where
  "gateway_validate_request v r =
     res_bind (case mq_response_schema r of None \<Rightarrow> Inr () | Some s \<Rightarrow> validate_schema v s) (\<lambda>_.
     res_iter (\<lambda>t. validate_schema v (td_input_schema t)) (mq_tools r))"

fun validate_tool_call :: "gateway_env \<Rightarrow> (string \<times> JsonSchema) list \<Rightarrow> ContentPart \<Rightarrow> unit res" where
  "validate_tool_call v schemas (ToolCallPart p) = (case map_of schemas (tc_tool_name p) of
     None \<Rightarrow> Inl (ModelGatewayError ME_SCHEMA ''unknown_tool_call'' False None True)
   | Some s \<Rightarrow> res_bind (validate_object v (tc_arguments p) s) (\<lambda>_. Inr ()))"
| "validate_tool_call v schemas _ = Inr ()"

definition gateway_validate_response :: "gateway_env \<Rightarrow> ModelRequest \<Rightarrow> ModelResponse \<Rightarrow> ModelIdentity \<Rightarrow> unit res" where
  "gateway_validate_response v r response expected =
     res_bind (require (mp_request_id response = mq_request_id r)
       (ModelGatewayError ME_MALFORMED_RESPONSE ''response_request_id_mismatch'' False None True)) (\<lambda>_.
     res_bind (require (mp_model response = expected)
       (ModelGatewayError ME_MALFORMED_RESPONSE ''response_model_mismatch'' False None True)) (\<lambda>_.
     res_bind (case mq_response_schema r of
         None \<Rightarrow> Inr ()
       | Some s \<Rightarrow> (case mp_structured_output response of
            None \<Rightarrow> Inl (ModelGatewayError ME_SCHEMA ''structured_output_missing'' False None True)
          | Some output \<Rightarrow> res_bind (validate_object v output s) (\<lambda>_. Inr ()))) (\<lambda>_.
     let schemas = dict_update [] (map (\<lambda>t. (td_name t, td_input_schema t)) (mq_tools r)) in
     res_iter (validate_tool_call v schemas) (mp_content response))))"

fun provider_health_failure :: "py_error \<Rightarrow> bool" where
  "provider_health_failure (ModelGatewayError c code retryable retry_after ambiguous) =
     (if c = ME_RATE_LIMIT then code \<noteq> ''local_rate_limit''
      else if c = ME_TIMEOUT then code \<noteq> ''gateway_concurrency_timeout''
      else c \<in> set [ME_TRANSIENT, ME_PROVIDER_UNAVAILABLE, ME_MALFORMED_RESPONSE, ME_PROVIDER_BUG])"
| "provider_health_failure _ = False"

section \<open>Waiting\<close>

text \<open>\<open>token\<close> tells whether the caller passed a cancellation token.\<close>

definition wait_for_retry :: "gateway_env \<Rightarrow> bool \<Rightarrow> rat \<Rightarrow> (gateway_world, bool) wop" where
  "wait_for_retry v token delay =
     w_bind (await_others v) (\<lambda>_.
     w_bind (observe (\<lambda>n. ge_wait v n delay)) (\<lambda>outcome.
     case outcome of
       WaitEnded \<Rightarrow> w_return True
     | TokenSet \<Rightarrow> w_return (\<not> token)
     | TaskCancelled \<Rightarrow> w_raise CancelledError))"

text \<open>
  A permit obtained at the moment the token is set is given back. When the task itself is cancelled while it waits beside a token, the
  pending acquisition is still awaited, and a permit it obtains is kept.
\<close>

definition acquire_semaphore :: "gateway_env \<Rightarrow> ModelIdentity \<Rightarrow> rat \<Rightarrow> bool \<Rightarrow> (gateway_world, unit) wop" where
  "acquire_semaphore v m deadline token =
     (let cancelled = Raised (ModelGatewayError ME_CANCELLED ''gateway_concurrency_cancelled'' False None False);
          timed_out = Raised (ModelGatewayError ME_TIMEOUT ''gateway_concurrency_timeout'' True None False);
          take_permit = on_controls (on_semaphore m (op_modify (\<lambda>k. k - 1))) in
      w_bind (if token then observe (ge_cancelled v) else w_return False) (\<lambda>already.
      if already then w_raise cancelled else
      w_bind (observe (ge_loop_time v)) (\<lambda>time.
      let remaining = deadline - time in
      if remaining \<le> 0 then w_raise timed_out else
      w_bind (await_others v) (\<lambda>_.
      w_bind (observe (\<lambda>n. ge_wait v n remaining)) (\<lambda>outcome.
      w_bind (on_controls (on_semaphore m (op_gets (\<lambda>k. 0 < k)))) (\<lambda>free.
      if outcome = TaskCancelled then
        w_bind (if token \<and> free then take_permit else w_return ()) (\<lambda>_. w_raise CancelledError)
      else if outcome = TokenSet \<and> token then w_raise cancelled
      else if free then take_permit else w_raise timed_out))))))"

section \<open>Attempts at one model\<close>

datatype attempt_outcome = Responded ModelResponse | GaveUp py_error | TryAgain py_error

text \<open>The arguments every step of a call shares.\<close>

record model_call =
  mc_tenant :: string
  mc_request :: ModelRequest
  mc_lease :: WorkLease
  mc_token :: bool
  mc_deadline :: rat
  mc_reservation :: BudgetReservation

definition retry_delay_seconds :: "RetryPolicy \<Rightarrow> py_error \<Rightarrow> int \<Rightarrow> rat res" where
  "retry_delay_seconds p e attempt = (case e of
     ModelGatewayError c code retryable (Some d) ambiguous \<Rightarrow> Inr (total_seconds d)
   | _ \<Rightarrow> res_bind (backoff_delay (rp_backoff p) attempt) (\<lambda>d. Inr (total_seconds d)))"

definition handle_attempt_error ::
  "ModelGateway \<Rightarrow> gateway_env \<Rightarrow> model_call \<Rightarrow> ModelIdentity \<Rightarrow> int \<Rightarrow> int \<Rightarrow> bool \<Rightarrow> py_error \<Rightarrow> (gateway_world, attempt_outcome) wop" where
  "handle_attempt_error g v c m index attempt started e =
     w_bind (if started then repo_call v (\<lambda>ids tm. record_attempt_failure ids (mc_tenant c) (mc_request c) (mc_lease c) (mc_reservation c) e
         (mi_provider m) (mi_model m) attempt index tm) else w_return ()) (\<lambda>_.
     if \<not> may_retry (mg_retry_policy g) e attempt then w_return (GaveUp e) else
     w_bind (w_lift (retry_delay_seconds (mg_retry_policy g) e attempt)) (\<lambda>delay.
     w_bind (observe (ge_loop_time v)) (\<lambda>time.
     let remaining = mc_deadline c - time in
     if remaining \<le> 0 then w_return (GaveUp e) else
     w_bind (wait_for_retry v (mc_token c) (min delay remaining)) (\<lambda>waited.
     if \<not> waited then w_return (GaveUp (ModelGatewayError ME_CANCELLED ''gateway_retry_cancelled'' False None False))
     else w_return (TryAgain e)))))"

definition call_provider :: "gateway_env \<Rightarrow> ModelIdentity \<Rightarrow> ModelRequest \<Rightarrow> (gateway_world, ModelResponse) wop" where
  "call_provider v m r = (\<lambda>w. w_bind (await_others v) (\<lambda>_. w_bind (observe (\<lambda>n. ge_provider v n m r)) (\<lambda>outcome.
     case outcome of Inl e \<Rightarrow> w_raise e | Inr response \<Rightarrow> w_return response)) (w\<lparr>gv_calls := gv_calls w @ [(m, r)]\<rparr>))"

definition invoke_model :: "gateway_env \<Rightarrow> model_call \<Rightarrow> ModelIdentity \<Rightarrow> (gateway_world, ModelResponse) wop" where
  "invoke_model v c m =
     w_bind (observe (ge_loop_time v)) (\<lambda>time.
     let remaining = mc_deadline c - time in
     if remaining \<le> 0 then w_raise (Raised (ModelGatewayError ME_TIMEOUT ''provider_attempt_timeout'' True None False)) else
     w_bind (w_lift (init_ModelRequest ((mc_request c)\<lparr>mq_timeout_seconds := min (mq_timeout_seconds (mc_request c)) remaining\<rparr>))) (\<lambda>r.
     call_provider v m r))"

definition release_permit :: "ModelIdentity \<Rightarrow> (gateway_world, unit) wop" where
  "release_permit m = on_controls (on_semaphore m (op_modify (\<lambda>k. k + 1)))"

definition attempt_once ::
  "ModelGateway \<Rightarrow> gateway_env \<Rightarrow> model_call \<Rightarrow> ModelIdentity \<Rightarrow> int \<Rightarrow> int \<Rightarrow> (gateway_world, attempt_outcome) wop" where
  "attempt_once g v c m index attempt =
     try_gateway (acquire_semaphore v m (mc_deadline c) (mc_token c)) (handle_attempt_error g v c m index attempt False) (\<lambda>_.
     w_finally
       (try_gateway (repo_call v (\<lambda>ids tm. record_attempt ids (mc_tenant c) (mc_request c) (mc_lease c) (mc_reservation c)
            (mi_provider m) (mi_model m) attempt index tm)) (handle_attempt_error g v c m index attempt False) (\<lambda>_.
        try_gateway (invoke_model v c m) (handle_attempt_error g v c m index attempt True) (\<lambda>response.
        w_return (Responded response))))
       (release_permit m))"

definition admit_attempt :: "gateway_env \<Rightarrow> model_call \<Rightarrow> ModelIdentity \<Rightarrow> (gateway_world, bool) wop" where
  "admit_attempt v c m =
     w_bind (observe (ge_monotonic v)) (\<lambda>now1.
     w_bind (observe (ge_monotonic v)) (\<lambda>now2.
     on_controls (controls_admit m (mq_prompt_token_estimate (mc_request c) + mq_max_output_tokens (mc_request c)) now1 now2)))"

primrec attempt_loop ::
  "ModelGateway \<Rightarrow> gateway_env \<Rightarrow> model_call \<Rightarrow> ModelIdentity \<Rightarrow> int \<Rightarrow> py_error option \<Rightarrow> int list
     \<Rightarrow> (gateway_world, ModelResponse option \<times> py_error option) wop" where
  "attempt_loop g v c m index last_error [] = w_return (None, last_error)"
| "attempt_loop g v c m index last_error (attempt # attempts) =
     w_bind (admit_attempt v c m) (\<lambda>admitted.
     if \<not> admitted then w_return (None, Some (ModelGatewayError ME_RATE_LIMIT ''local_rate_limit'' True None False)) else
     w_bind (attempt_once g v c m index attempt) (\<lambda>outcome.
     case outcome of
       Responded response \<Rightarrow> w_bind (on_controls (on_circuit m (op_modify circuit_succeed))) (\<lambda>_. w_return (Some response, None))
     | GaveUp e \<Rightarrow> w_return (None, Some e)
     | TryAgain e \<Rightarrow> attempt_loop g v c m index (Some e) attempts))"

definition acquire_circuit :: "gateway_env \<Rightarrow> ModelIdentity \<Rightarrow> (gateway_world, bool option) wop" where
  "acquire_circuit v m =
     w_try
       (w_bind (observe (ge_monotonic v)) (\<lambda>now.
        w_bind (on_controls (on_circuit m (circuit_acquire now))) (\<lambda>_.
        w_bind (observe (ge_monotonic v)) (\<lambda>now2.
        w_bind (on_controls (on_circuit m (op_gets (circuit_state now2)))) (\<lambda>state.
        w_return (Some (state = CIRCUIT_HALF_OPEN)))))))
       (\<lambda>e. case e of Raised (CircuitOpenError reason) \<Rightarrow> w_return None | _ \<Rightarrow> w_raise e)"

definition report_health :: "gateway_env \<Rightarrow> ModelIdentity \<Rightarrow> py_error option \<Rightarrow> (gateway_world, unit) wop" where
  "report_health v m last_error = (case last_error of
     None \<Rightarrow> w_return ()
   | Some e \<Rightarrow>
       if provider_health_failure e
       then w_bind (observe (ge_monotonic v)) (\<lambda>now. on_controls (on_circuit m (op_modify (circuit_fail now))))
       else on_controls (on_circuit m (op_modify circuit_abandon)))"

definition try_model ::
  "ModelGateway \<Rightarrow> gateway_env \<Rightarrow> model_call \<Rightarrow> ModelCatalogEntry \<Rightarrow> int \<Rightarrow> (gateway_world, ModelResponse option \<times> py_error option) wop" where
  "try_model g v c candidate index =
     (let m = ce_identity candidate in
      w_bind (acquire_circuit v m) (\<lambda>acquired.
      case acquired of
        None \<Rightarrow> w_return (None, Some (ModelGatewayError ME_PROVIDER_UNAVAILABLE ''provider_circuit_open'' True None False))
      | Some probe \<Rightarrow>
          w_bind (w_lift (require (mi_provider m \<in> set (mg_providers g)) (KeyError (mi_provider m)))) (\<lambda>_.
          w_bind (w_finally
            (attempt_loop g v c m index None (map int [1..<nat (rp_max_attempts (mg_retry_policy g)) + 1]))
            (if probe then on_controls (on_circuit m (op_modify circuit_release_probe)) else w_return ())) (\<lambda>(response, last_error).
          case response of
            Some answer \<Rightarrow> w_return (Some answer, None)
          | None \<Rightarrow> w_bind (report_health v m last_error) (\<lambda>_. w_return (None, last_error))))))"

section \<open>A call\<close>

definition fail_call :: "gateway_env \<Rightarrow> model_call \<Rightarrow> py_error option \<Rightarrow> (gateway_world, ModelResponse) wop" where
  "fail_call v c last_error =
     (let e = (case last_error of
        None \<Rightarrow> ModelGatewayError ME_PROVIDER_UNAVAILABLE ''no_provider_attempt_succeeded'' True None False
      | Some e \<Rightarrow> e) in
      w_bind (repo_call v (\<lambda>ids tm. gateway_fail ids (mc_tenant c) (mc_request c) (mc_lease c) (mc_reservation c) e tm)) (\<lambda>_.
      w_raise (Raised e)))"

definition settle_response ::
  "gateway_env \<Rightarrow> model_call \<Rightarrow> ModelCatalogEntry \<Rightarrow> ModelResponse \<Rightarrow> (gateway_world, ModelResponse) wop" where
  "settle_response v c candidate response =
     try_gateway
       (w_bind (w_lift (gateway_validate_response v (mc_request c) response (ce_identity candidate))) (\<lambda>_.
        repo_call v (\<lambda>ids tm. gateway_succeed ids (mc_tenant c) (mc_request c) (mc_lease c) (mc_reservation c) response
          (ce_pricing candidate) tm)))
       (\<lambda>e. w_bind (repo_call v (\<lambda>ids tm. record_usage_failure ids (mc_tenant c) (mc_request c) (mc_lease c) (mc_reservation c) response
          (ce_pricing candidate) e tm)) (\<lambda>_. w_raise (Raised e)))
       (\<lambda>_. w_bind (w_lift (pricing_cost (ce_pricing candidate) (mp_usage response))) (\<lambda>_. w_return response))"

primrec try_candidates ::
  "ModelGateway \<Rightarrow> gateway_env \<Rightarrow> model_call \<Rightarrow> int \<Rightarrow> py_error option \<Rightarrow> ModelCatalogEntry list \<Rightarrow> (gateway_world, ModelResponse) wop" where
  "try_candidates g v c index last_error [] = fail_call v c last_error"
| "try_candidates g v c index last_error (candidate # candidates) =
     w_bind (try_model g v c candidate index) (\<lambda>(response, error).
     case response of
       Some answer \<Rightarrow> settle_response v c candidate answer
     | None \<Rightarrow>
         if (case error of None \<Rightarrow> False | Some e \<Rightarrow> \<not> error_retryable e) then fail_call v c error
         else try_candidates g v c (index + 1) error candidates)"

primrec open_circuits :: "gateway_env \<Rightarrow> ModelCatalogEntry list \<Rightarrow> (gateway_world, ModelIdentity list) wop" where
  "open_circuits v [] = w_return []"
| "open_circuits v (e # es) =
     w_bind (observe (ge_monotonic v)) (\<lambda>now.
     w_bind (on_controls (on_circuit (ce_identity e) (op_gets (circuit_state now)))) (\<lambda>state.
     w_bind (open_circuits v es) (\<lambda>rest.
     w_return (if state = CIRCUIT_OPEN then ce_identity e # rest else rest))))"

primrec largest_estimate :: "ModelRequest \<Rightarrow> decimal \<Rightarrow> ModelCatalogEntry list \<Rightarrow> decimal res" where
  "largest_estimate r largest [] = Inr largest"
| "largest_estimate r largest (e # es) =
     res_bind (estimate_cost (ce_pricing e) (mq_prompt_token_estimate r) (mq_max_output_tokens r)) (\<lambda>cost.
     largest_estimate r (dec_max largest cost) es)"

definition reservation_cost :: "ModelRequest \<Rightarrow> ModelCatalogEntry list \<Rightarrow> decimal res" where
  "reservation_cost r candidates = (case candidates of
     [] \<Rightarrow> Inl (ValueError ''max() iterable argument is empty'')
   | e # es \<Rightarrow> res_bind (estimate_cost (ce_pricing e) (mq_prompt_token_estimate r) (mq_max_output_tokens r)) (\<lambda>cost.
       largest_estimate r cost es))"

definition gateway_complete ::
  "ModelGateway \<Rightarrow> gateway_env \<Rightarrow> string \<Rightarrow> ModelRequest \<Rightarrow> WorkLease \<Rightarrow> TenantPolicy \<Rightarrow> Environment \<Rightarrow> RoutePreference \<Rightarrow> bool
     \<Rightarrow> (gateway_world, ModelResponse) wop" where
  "gateway_complete g v tenant r l policy environment preference token =
     w_bind (w_lift (gateway_validate_request v r)) (\<lambda>_.
     w_bind (repo_call v (\<lambda>ids tm. gateway_completed tenant r l tm)) (\<lambda>cached.
     case cached of
       Some response \<Rightarrow> w_return response
     | None \<Rightarrow>
         w_bind (open_circuits v (catalog_entries (mg_catalog g))) (\<lambda>unavailable.
         w_bind (observe (ge_loop_time v)) (\<lambda>time.
         w_bind (w_lift (route r (mg_catalog g) policy environment unavailable preference)) (\<lambda>rt.
         let candidates = take (nat (rp_max_failovers (mg_retry_policy g) + 1)) (rd_candidates rt);
             token_limit = mq_prompt_token_estimate r + mq_max_output_tokens r in
         w_bind (w_lift (reservation_cost r candidates)) (\<lambda>cost.
         w_bind (repo_call v (\<lambda>ids tm. gateway_reserve ids tenant r l rt (tp_quotas policy) token_limit cost
           (pv_version (ce_pricing (rd_selected rt))) tm)) (\<lambda>b.
         try_candidates g v \<lparr>mc_tenant = tenant, mc_request = r, mc_lease = l, mc_token = token,
             mc_deadline = time + mq_timeout_seconds r, mc_reservation = b\<rparr> 0 None candidates)))))))"

end
