(* ===== verification/Gateway_Budget.thy ===== *)
theory Gateway_Budget
  imports Gateway_Ledger
begin

text \<open>
  What the gateway repository guarantees over every sequence of its operations: token budgets are never exceeded beyond what providers
  over-delivered, and the budgets are what replaying the event list gives.
\<close>

section \<open>Events\<close>

primrec appended ::
  "ModelRequest \<Rightarrow> WorkLease \<Rightarrow> datetime \<Rightarrow> (nat \<Rightarrow> uuid) \<Rightarrow> nat \<Rightarrow> int \<Rightarrow> uuid option \<Rightarrow> (DomainEventType \<times> json_obj) list
     \<Rightarrow> EventEnvelope list" where
  "appended r l tm ids n sequence causation [] = []"
| "appended r l tm ids n sequence causation (e # es) =
     gateway_event r l tm (ids n) (sequence + 1) causation (fst e) (snd e) # appended r l tm ids (Suc n) (sequence + 1) (Some (ids n)) es"

definition details_ok :: "(DomainEventType \<times> json_obj) list \<Rightarrow> bool" where
  "details_ok es = (\<forall>e \<in> set es. json_obj_wf (snd e))"

text \<open>Type names of events and UUIDs have no blanks to strip.\<close>

lemma event_type_not_blank [simp]: "py_strip (DomainEventType_value ty) \<noteq> []"
  by (cases ty) (simp_all add: py_strip_def strip_by_def py_isspace_def)

lemma uuid_not_blank [simp]: "py_strip (uuid_str u) \<noteq> []"
proof -
  have "\<forall>c \<in> set (uuid_str u). \<not> py_isspace c"
    using set_uuid_str [of _ u] hex_char_cases by (fastforce simp: py_isspace_def)
  then show ?thesis by (simp add: py_strip_def strip_by_id)
qed

lemma gateway_event_new:
  assumes "json_obj_wf details" and "dt_aware tm" and "py_strip (mq_tenant_id r) \<noteq> []" and "0 \<le> sequence"
  shows "new_envelope (gateway_event r l tm i sequence causation ty details) = Inr (gateway_event r l tm i sequence causation ty details)"
proof -
  let ?e = "gateway_event r l tm i sequence causation ty details"
  have "json_obj_wf (payload ?e)"
    unfolding gateway_event_def EventEnvelope.simps by (rule json_obj_wf_update [OF assms(1)]) auto
  then have wf: "json_obj_wf (payload ?e)" "json_obj_wf (metadata ?e)" by (simp_all add: gateway_event_def)
  then have "envelope_ok ?e" using assms by (simp add: envelope_ok_def) (simp add: gateway_event_def)
  then show ?thesis using new_envelope_Inr [OF wf] by blast
qed

lemma append_from_eq:
  assumes "details_ok es" and "dt_aware tm" and "py_strip (mq_tenant_id r) \<noteq> []" and "0 \<le> sequence"
  shows "append_from r l tm ids n sequence causation es s
    = (Inr (), s\<lparr>gw_events := gw_events s @ appended r l tm ids n sequence causation es\<rparr>)"
  using assms
proof (induction es arbitrary: n sequence causation s)
  case (Cons e es)
  have "append_from r l tm ids (Suc n) (sequence + 1) (Some (ids n)) es s1
      = (Inr (), s1\<lparr>gw_events := gw_events s1 @ appended r l tm ids (Suc n) (sequence + 1) (Some (ids n)) es\<rparr>)" for s1
    using Cons.prems by (intro Cons.IH) (simp_all add: details_ok_def)
  moreover have "json_obj_wf (snd e)" using Cons.prems(1) by (simp add: details_ok_def)
  ultimately show ?case
    using Cons.prems gateway_event_new [of "snd e" tm r "sequence + 1" l "ids n" causation "fst e"]
    by (simp add: op_bind_def op_lift_def op_modify_def)
qed (simp add: op_return_def)

lemma append_from_frame:
  "gw_reservations (snd (append_from r l tm ids n sequence causation es s)) = gw_reservations s
   \<and> gw_active_leases (snd (append_from r l tm ids n sequence causation es s)) = gw_active_leases s"
  by (induction es arbitrary: n sequence causation s) (auto simp: op_eval split: sum.splits)

lemma gateway_append_eq:
  assumes "details_ok es" and "dt_aware tm" and "py_strip (mq_tenant_id r) \<noteq> []"
  shows "\<exists>sequence. gateway_append r l tm ids n es s
    = (Inr (), s\<lparr>gw_events := gw_events s @ appended r l tm ids n sequence None es\<rparr>)"
proof -
  have "gateway_append r l tm ids n es s = append_from r l tm ids n
      (int (length (filter (\<lambda>e. aggregate_id e = uuid_str (ls_work_id l)) (gw_events s)))) None es s"
    using assms(2) by (simp add: gateway_append_def op_eval)
  then show ?thesis using append_from_eq [OF assms, of "int (length (filter (\<lambda>e. aggregate_id e = uuid_str (ls_work_id l)) (gw_events s)))"] by auto
qed

lemma gateway_append_frame [simp]:
  "gw_reservations (snd (gateway_append r l tm ids n es s)) = gw_reservations s"
  "gw_active_leases (snd (gateway_append r l tm ids n es s)) = gw_active_leases s"
  using append_from_frame by (auto simp: gateway_append_def op_eval)

lemma reads_fence [simp, intro]: "reads (require_fence l tm)"
  unfolding require_fence_def by (rule reads_bind) (auto split: option.splits)

lemma reads_active [simp, intro]: "reads (require_active b)"
  unfolding require_active_def by (rule reads_bind) auto

section \<open>What each operation does\<close>

text \<open>Passing the fence means that the time is aware, when the registered leases are.\<close>

definition leases_aware :: "gateway_repo \<Rightarrow> bool" where
  "leases_aware s = (\<forall>l \<in> ran (gw_active_leases s). dt_aware (ls_expires_at l))"

lemma fence_aware: "require_fence l tm s = (Inr (), s1) \<Longrightarrow> leases_aware s \<Longrightarrow> dt_aware tm"
  by (force simp: require_fence_def op_eval dt_le_def leases_aware_def ran_def split: option.splits if_splits sum.splits)

definition stored :: "uuid \<Rightarrow> gateway_repo \<Rightarrow> BudgetReservation option" where
  "stored i s = map_of (gw_reservations s) i"

lemma active_stored: "require_active b s = (Inr (), s1) \<Longrightarrow> \<exists>c. stored (br_reservation_id b) s = Some c \<and> br_active c"
  by (auto simp: require_active_def op_eval stored_def split: option.splits if_splits)

lemma reserve_effect:
  assumes "gateway_reserve ids context r l rt q tokens cost pv tm s = (x, s')"
  shows "s' = s \<or> (check_budgets r q tokens cost tm s = Inr () \<and> 1 \<le> tokens \<and> require_fence l tm s = (Inr (), s)
    \<and> s' = snd (gateway_append r l tm ids 1 (reserved_events r l rt (new_reservation (ids 0) r l tokens cost pv tm))
        (admit_reservation r (new_reservation (ids 0) r l tokens cost pv tm) s)))"
  using assms unfolding gateway_reserve_def Let_def
  by - ((erule reads_bindE, simp, simp)+, auto simp: op_eval split: prod.splits sum.splits if_splits)

text \<open>The amounts charged by a list of events.\<close>

definition token_amount :: "json_obj \<Rightarrow> int" where
  "token_amount d = (case map_of d ''tokens'' of Some (JInt n) \<Rightarrow> n | _ \<Rightarrow> 0)"

definition charged_amounts :: "(DomainEventType \<times> json_obj) list \<Rightarrow> int list" where
  "charged_amounts es = map (\<lambda>e. token_amount (snd e)) (filter (\<lambda>e. fst e = MODEL_BUDGET_CHARGED) es)"

definition charges_of :: "string \<Rightarrow> EventEnvelope list \<Rightarrow> int list" where
  "charges_of t evs = map (\<lambda>e. token_amount (payload e))
     (filter (\<lambda>e. ev_tenant_id e = t \<and> event_type e = DomainEventType_value MODEL_BUDGET_CHARGED) evs)"

lemma token_amount_event [simp]: "token_amount (payload (gateway_event r l tm i sequence causation ty details)) = token_amount details"
  by (simp add: gateway_event_def token_amount_def update_conv')

lemma charges_of_appended:
  "charges_of t (appended r l tm ids n sequence causation es) = (if mq_tenant_id r = t then charged_amounts es else [])"
proof (induction es arbitrary: n sequence causation)
  case (Cons e es)
  have "ev_tenant_id (gateway_event r l tm i sequence causation ty d) = mq_tenant_id r"
    "event_type (gateway_event r l tm i sequence causation ty d) = DomainEventType_value ty" for i sequence causation ty d
    by (simp_all add: gateway_event_def)
  then show ?case using Cons by (simp add: charges_of_def charged_amounts_def del: DomainEventType_value.simps)
qed (simp add: charges_of_def charged_amounts_def)

lemma details_ok_Cons [simp]:
  "details_ok ((ty, d) # es) \<longleftrightarrow> distinct (map fst d) \<and> (\<forall>kv \<in> set d. json_wf (snd kv)) \<and> details_ok es" "details_ok []"
  by (auto simp: details_ok_def json_obj_wf_def)

lemma error_event_not_charge [simp]: "error_event_type err \<noteq> MODEL_BUDGET_CHARGED"
proof (cases err)
  case (ModelGatewayError c code retryable retry_after ambiguous)
  then show ?thesis by (cases c) simp_all
qed simp_all

lemma error_details_cases:
  "error_details err = [] \<or> (\<exists>c code retryable ambiguous. error_details err =
     [(''error_class'', JStr c), (''error_code'', JStr code), (''retryable'', JBool retryable), (''billing_ambiguous'', JBool ambiguous)])"
  by (cases err) simp_all

lemma reserved_events_ok: "details_ok (reserved_events r l rt b)" "charged_amounts (reserved_events r l rt b) = []"
  by (simp_all add: reserved_events_def charged_amounts_def)

lemma success_events_ok:
  "details_ok (success_events r b response p tokens cost)" "charged_amounts (success_events r b response p tokens cost) = [tokens]"
  by (simp_all add: success_events_def settlement_details_def charge_events_def usage_payload_def charged_amounts_def token_amount_def
      split: option.splits)

lemma usage_failure_events_ok:
  "details_ok (usage_failure_events r b response p err tokens cost)"
  "charged_amounts (usage_failure_events r b response p err tokens cost) = [tokens]"
  using error_details_cases [of err]
  by (auto simp: usage_failure_events_def settlement_details_def charge_events_def usage_payload_def charged_amounts_def token_amount_def)

lemma failure_events_ok: "details_ok (failure_events r b err)" "charged_amounts (failure_events r b err) = []"
  using error_details_cases [of err] by (auto simp: failure_events_def charged_amounts_def)

lemmas events_ok = reserved_events_ok success_events_ok usage_failure_events_ok failure_events_ok

section \<open>What each operation does\<close>

text \<open>
  The operations that end a call leave the state as it is, or settle the reservation after finding it active and the lease valid.
\<close>

definition settles ::
  "ModelRequest \<Rightarrow> WorkLease \<Rightarrow> BudgetReservation \<Rightarrow> datetime \<Rightarrow> BudgetReservation \<Rightarrow> (DomainEventType \<times> json_obj) list
     \<Rightarrow> gateway_repo \<Rightarrow> gateway_repo \<Rightarrow> bool" where
  "settles r l b tm final es s s' \<longleftrightarrow> require_active b s = (Inr (), s) \<and> require_fence l tm s = (Inr (), s)
     \<and> (\<exists>ids c. s' = snd (gateway_append r l tm ids 0 es (settle r final (s\<lparr>gw_completed := c\<rparr>))))"

lemma settlesI:
  assumes "require_active b s = (Inr (), s)" and "require_fence l tm s = (Inr (), s)"
  shows "gateway_append r l tm ids 0 es (settle r final (s\<lparr>gw_completed := c\<rparr>)) = (x, s') \<Longrightarrow> settles r l b tm final es s s'"
    and "gateway_append r l tm ids 0 es (settle r final s) = (x, s') \<Longrightarrow> settles r l b tm final es s s'"
  unfolding settles_def using assms
proof -
  have same: "s = s\<lparr>gw_completed := gw_completed s\<rparr>" by simp
  assume "gateway_append r l tm ids 0 es (settle r final s) = (x, s')"
  then have "s' = snd (gateway_append r l tm ids 0 es (settle r final (s\<lparr>gw_completed := gw_completed s\<rparr>)))" by simp
  then show "require_active b s = (Inr (), s) \<and> require_fence l tm s = (Inr (), s)
     \<and> (\<exists>ids c. s' = snd (gateway_append r l tm ids 0 es (settle r final (s\<lparr>gw_completed := c\<rparr>))))" using assms by blast
qed (metis snd_conv)

lemma succeed_effect:
  assumes "gateway_succeed ids context r l b response p tm s = (x, s')"
  shows "s' = s \<or> (\<exists>tokens cost. actual_usage p response b = Inr (tokens, cost)
    \<and> settles r l b tm (charged_reservation b tokens cost tm) (success_events r b response p tokens cost) s s')"
  using assms unfolding gateway_succeed_def split_beta
  by - ((erule reads_bindE, simp, simp)+, auto simp: op_lift_def op_bind_def op_modify_def dest: settlesI)

lemma usage_failure_effect:
  assumes "record_usage_failure ids context r l b response p err tm s = (x, s')"
  shows "s' = s \<or> (\<exists>tokens cost. usage_totals p response = Inr (tokens, cost)
    \<and> settles r l b tm (charged_reservation b tokens cost tm) (usage_failure_events r b response p err tokens cost) s s')"
  using assms unfolding record_usage_failure_def split_beta
  by - ((erule reads_bindE, simp, simp)+, auto simp: op_lift_def op_bind_def op_modify_def dest: settlesI)

lemma fail_effect:
  assumes "gateway_fail ids context r l b err tm s = (x, s')"
  shows "s' = s \<or> settles r l b tm (released_reservation b tm) (failure_events r b err) s s'"
  using assms unfolding gateway_fail_def
  by - ((erule reads_bindE, simp, simp)+, auto simp: op_bind_def op_modify_def dest: settlesI)

text \<open>The operations that only record progress append events that charge nothing.\<close>

definition annotates :: "ModelRequest \<Rightarrow> WorkLease \<Rightarrow> datetime \<Rightarrow> gateway_repo \<Rightarrow> gateway_repo \<Rightarrow> bool" where
  "annotates r l tm s s' \<longleftrightarrow> require_fence l tm s = (Inr (), s)
     \<and> (\<exists>ids es. details_ok es \<and> charged_amounts es = [] \<and> s' = snd (gateway_append r l tm ids 0 es s))"

lemma annotatesI:
  "require_fence l tm s = (Inr u, s) \<Longrightarrow> gateway_append r l tm ids 0 es s = (x, s') \<Longrightarrow> details_ok es \<Longrightarrow> charged_amounts es = []
   \<Longrightarrow> annotates r l tm s s'"
  unfolding annotates_def by (metis snd_conv old.unit.exhaust)

lemma attempt_effect:
  assumes "record_attempt ids context r l b provider model attempt index tm s = (x, s')"
  shows "s' = s \<or> annotates r l tm s s'"
  using assms unfolding record_attempt_def
  by - ((erule reads_bindE, simp, simp)+, rule disjI2, erule (1) annotatesI, simp_all add: charged_amounts_def)

lemma attempt_failure_effect:
  assumes "record_attempt_failure ids context r l b err provider model attempt index tm s = (x, s')"
  shows "s' = s \<or> annotates r l tm s s'"
  using assms error_details_cases [of err] unfolding record_attempt_failure_def
  by - ((erule reads_bindE, simp, simp)+, rule disjI2, erule (1) annotatesI, auto simp: charged_amounts_def)

section \<open>Runs\<close>

text \<open>
  A run is any sequence of operations, each of which may return or raise. The callers are those of the gateway service: they present a
  reservation together with the request it was issued for, responses whose usage passed its constructor, valid tenant
  identifiers and aware leases; a new reservation gets a fresh id. \<open>q\<close> gives the quotas of each tenant's policy; reservations are
  made in billing periods that begin no later than \<open>P\<close>.
\<close>

definition issued :: "ModelRequest \<Rightarrow> BudgetReservation \<Rightarrow> gateway_repo \<Rightarrow> bool" where
  "issued r b s = (case stored (br_reservation_id b) s of
     None \<Rightarrow> True
   | Some c \<Rightarrow> \<not> br_active c \<or> (c = b \<and> br_tenant_id b = mq_tenant_id r \<and> br_run_id b = mq_run_id r))"

definition valid_tenant :: "ModelRequest \<Rightarrow> bool" where
  "valid_tenant r = (new_TenantId (mq_tenant_id r) = Inr (mq_tenant_id r))"

definition usage_ok :: "ModelResponse \<Rightarrow> bool" where
  "usage_ok response = (init_TokenUsage (mp_usage response) = Inr (mp_usage response))"

inductive gateway_step :: "(string \<Rightarrow> QuotaLimits) \<Rightarrow> int \<Rightarrow> gateway_repo \<Rightarrow> gateway_repo \<Rightarrow> bool" for q P where
  reserve: "gateway_reserve ids context r l rt (q (mq_tenant_id r)) tokens cost pv tm s = (x, s') \<Longrightarrow> valid_tenant r
    \<Longrightarrow> stored (ids 0) s = None \<Longrightarrow> (\<And>start. billing_period_start tm = Inr start \<Longrightarrow> dt_instant start \<le> P) \<Longrightarrow> gateway_step q P s s'"
| attempt: "record_attempt ids context r l b provider model n index tm s = (x, s') \<Longrightarrow> valid_tenant r \<Longrightarrow> gateway_step q P s s'"
| attempt_failure: "record_attempt_failure ids context r l b err provider model n index tm s = (x, s') \<Longrightarrow> valid_tenant r
    \<Longrightarrow> gateway_step q P s s'"
| succeed: "gateway_succeed ids context r l b response p tm s = (x, s') \<Longrightarrow> valid_tenant r \<Longrightarrow> issued r b s \<Longrightarrow> usage_ok response
    \<Longrightarrow> gateway_step q P s s'"
| usage_failure: "record_usage_failure ids context r l b response p err tm s = (x, s') \<Longrightarrow> valid_tenant r \<Longrightarrow> issued r b s
    \<Longrightarrow> usage_ok response \<Longrightarrow> gateway_step q P s s'"
| failed: "gateway_fail ids context r l b err tm s = (x, s') \<Longrightarrow> valid_tenant r \<Longrightarrow> issued r b s \<Longrightarrow> gateway_step q P s s'"
| lease: "dt_aware (ls_expires_at l) \<Longrightarrow> gateway_step q P s (replace_lease l s)"

section \<open>Sums over reservations\<close>

definition over_reservations :: "(BudgetReservation \<Rightarrow> int) \<Rightarrow> gateway_repo \<Rightarrow> int" where
  "over_reservations f s = sum_list (map f (reservations_of s))"

lemma sum_update:
  fixes f :: "'v \<Rightarrow> int"
  assumes "distinct (map fst d)"
  shows "sum_list (map f (map snd (AList.update k v d)))
    = sum_list (map f (map snd d)) - (case map_of d k of None \<Rightarrow> 0 | Some c \<Rightarrow> f c) + f v"
  using assms by (induction d) (auto split: option.splits dest: map_of_SomeD)

text \<open>What a reservation holds of a budget: its limit while active, and what it was charged up to the limit; a charge above the limit is the overrun.\<close>

definition held :: "(BudgetReservation \<Rightarrow> bool) \<Rightarrow> (BudgetReservation \<Rightarrow> bool) \<Rightarrow> BudgetReservation \<Rightarrow> int" where
  "held A C b = (if br_active b \<and> A b then br_token_limit b else 0)
     + (if is_charged b \<and> C b then min (br_charged_tokens b) (br_token_limit b) else 0)"

definition overrun :: "(BudgetReservation \<Rightarrow> bool) \<Rightarrow> BudgetReservation \<Rightarrow> int" where
  "overrun C b = (if is_charged b \<and> C b then max 0 (br_charged_tokens b - br_token_limit b) else 0)"

definition in_run :: "string \<Rightarrow> uuid \<Rightarrow> BudgetReservation \<Rightarrow> bool" where
  "in_run t run b = (br_tenant_id b = t \<and> br_run_id b = run)"

definition of_tenant :: "string \<Rightarrow> BudgetReservation \<Rightarrow> bool" where
  "of_tenant t b = (br_tenant_id b = t)"

definition since :: "string \<Rightarrow> int \<Rightarrow> BudgetReservation \<Rightarrow> bool" where
  "since t P b = (br_tenant_id b = t \<and> (case br_reconciled_at b of None \<Rightarrow> False | Some d \<Rightarrow> P \<le> dt_instant d))"

lemma committed_split:
  "sum_list (map br_token_limit (filter (\<lambda>b. A b \<and> br_active b) bs)) + sum_list (map br_charged_tokens (filter (\<lambda>b. C b \<and> is_charged b) bs))
   = sum_list (map (held A C) bs) + sum_list (map (overrun C) bs)"
  by (induction bs) (auto simp: held_def overrun_def)

lemma run_committed:
  "committed_tokens (filter (\<lambda>b. br_run_id b = run) (active_of_tenant t s)) (charged_of_run t run s)
   = over_reservations (held (in_run t run) (in_run t run)) s + over_reservations (overrun (in_run t run)) s"
  using committed_split [of "in_run t run" "reservations_of s" "in_run t run"]
  by (simp add: committed_tokens_def active_of_tenant_def charged_of_run_def over_reservations_def in_run_def conj_ac)

lemma tenant_committed:
  "committed_tokens (active_of_tenant t s) (filter (\<lambda>b. since t P b \<and> is_charged b) (reservations_of s))
   = over_reservations (held (of_tenant t) (since t P)) s + over_reservations (overrun (since t P)) s"
  using committed_split [of "of_tenant t" "reservations_of s" "since t P"]
  by (simp add: committed_tokens_def active_of_tenant_def over_reservations_def of_tenant_def)

lemma overrun_nonneg [simp]: "0 \<le> overrun C b"
  by (simp add: overrun_def)

lemma over_reservations_nonneg: "(\<And>b. 0 \<le> f b) \<Longrightarrow> 0 \<le> over_reservations f s"
  by (auto simp: over_reservations_def intro!: sum_list_nonneg)

lemma res_filter_Inr: "res_filter P xs = Inr ys \<Longrightarrow> ys = filter (\<lambda>x. P x = Inr True) xs \<and> (\<forall>x \<in> set xs. \<exists>b. P x = Inr b)"
  by (induction xs arbitrary: ys) (auto simp: res_bind_Inr_iff split: if_splits)

text \<open>The charges counted from an earlier period's start are at least those counted from a later one's.\<close>

lemma period_committed:
  assumes "charged_in_period t start s = Inr charged" and "dt_instant start \<le> P" and "dt_aware start"
    and "\<forall>b \<in> set (reservations_of s). 0 \<le> br_charged_tokens b \<and> 0 \<le> br_token_limit b"
  shows "over_reservations (held (of_tenant t) (since t P)) s \<le> committed_tokens (active_of_tenant t s) charged"
proof -
  let ?C = "since t (dt_instant start)"
  let ?p = "\<lambda>b. if br_tenant_id b = t \<and> is_charged b
        then (case br_reconciled_at b of None \<Rightarrow> Inr False | Some d \<Rightarrow> dt_le start d) else Inr False"
  have r: "charged = filter (\<lambda>b. ?p b = Inr True) (reservations_of s)" "\<forall>b \<in> set (reservations_of s). \<exists>v. ?p b = Inr v"
    using res_filter_Inr [of ?p] assms(1) by (auto simp: charged_in_period_def)
  have "?p b = Inr True \<longleftrightarrow> ?C b \<and> is_charged b" if "b \<in> set (reservations_of s)" for b
    using r(2) that by (auto simp: since_def dt_le_def split: option.splits if_splits)
  then have c: "charged = filter (\<lambda>b. ?C b \<and> is_charged b) (reservations_of s)" unfolding r(1) by (intro filter_cong) auto
  have "committed_tokens (active_of_tenant t s) charged
      = over_reservations (held (of_tenant t) ?C) s + over_reservations (overrun ?C) s"
    unfolding c by (rule tenant_committed)
  moreover have "over_reservations (held (of_tenant t) (since t P)) s \<le> over_reservations (held (of_tenant t) ?C) s"
    unfolding over_reservations_def
    using assms(2,4) by (intro sum_list_mono) (auto simp: held_def since_def min_def split: option.splits)
  moreover have "0 \<le> over_reservations (overrun ?C) s" by (rule over_reservations_nonneg) simp
  ultimately show ?thesis by simp
qed

lemma billing_period_aware: "billing_period_start tm = Inr start \<Longrightarrow> dt_aware start"
  by (auto simp: billing_period_start_def Let_def dt_aware_def split: prod.splits if_splits)

section \<open>The invariant\<close>

definition charge_of :: "string \<Rightarrow> BudgetReservation \<Rightarrow> int" where
  "charge_of t b = (if br_tenant_id b = t \<and> is_charged b then br_charged_tokens b else 0)"

definition call_of :: "string \<Rightarrow> BudgetReservation \<Rightarrow> int" where
  "call_of t b = (if br_tenant_id b = t \<and> is_charged b then 1 else 0)"

definition reservation_ok :: "BudgetReservation \<Rightarrow> bool" where
  "reservation_ok b = (1 \<le> br_token_limit b \<and> 0 \<le> br_charged_tokens b \<and> (br_active b \<longrightarrow> \<not> is_charged b))"

definition reservations_ok :: "gateway_repo \<Rightarrow> bool" where
  "reservations_ok s = (leases_aware s \<and> distinct (map fst (gw_reservations s)) \<and> (\<forall>b \<in> set (reservations_of s). reservation_ok b))"

definition within_budgets :: "(string \<Rightarrow> QuotaLimits) \<Rightarrow> int \<Rightarrow> gateway_repo \<Rightarrow> bool" where
  "within_budgets q P s =
     ((\<forall>t run. over_reservations (held (in_run t run) (in_run t run)) s \<le> ql_max_run_tokens (q t))
      \<and> (\<forall>t. over_reservations (held (of_tenant t) (since t P)) s \<le> ql_max_tenant_tokens_per_period (q t)))"

definition events_agree :: "gateway_repo \<Rightarrow> bool" where
  "events_agree s = (\<forall>t. sum_list (charges_of t (gw_events s)) = over_reservations (charge_of t) s
     \<and> int (length (charges_of t (gw_events s))) = over_reservations (call_of t) s)"

definition gateway_inv :: "(string \<Rightarrow> QuotaLimits) \<Rightarrow> int \<Rightarrow> gateway_repo \<Rightarrow> bool" where
  "gateway_inv q P s = (reservations_ok s \<and> within_budgets q P s \<and> events_agree s)"

lemma over_update:
  assumes "distinct (map fst (gw_reservations s))" and "gw_reservations s' = AList.update i b (gw_reservations s)"
  shows "over_reservations f s' = over_reservations f s - (case stored i s of None \<Rightarrow> 0 | Some c \<Rightarrow> f c) + f b"
  using sum_update [OF assms(1), of f i b] by (simp add: over_reservations_def reservations_of_def stored_def assms(2))

lemma over_same: "gw_reservations s' = gw_reservations s \<Longrightarrow> over_reservations f s' = over_reservations f s"
  by (simp add: over_reservations_def reservations_of_def)

lemma reservations_ok_update:
  assumes "reservations_ok s" and "gw_reservations s' = AList.update i b (gw_reservations s)" and "gw_active_leases s' = gw_active_leases s"
    and "reservation_ok b"
  shows "reservations_ok s'"
proof -
  have "snd ` set (AList.update i b d) \<subseteq> insert b (snd ` set d)" for d :: "(uuid \<times> BudgetReservation) list"
    by (induction d) auto
  then show ?thesis
    using assms by (fastforce simp: reservations_ok_def reservations_of_def leases_aware_def distinct_update)
qed

lemma append_state:
  assumes "details_ok es" and "dt_aware tm" and "valid_tenant r"
  obtains evs where "gw_reservations (snd (gateway_append r l tm ids n es s)) = gw_reservations s"
    and "gw_active_leases (snd (gateway_append r l tm ids n es s)) = gw_active_leases s"
    and "gw_events (snd (gateway_append r l tm ids n es s)) = gw_events s @ evs"
    and "\<And>t. charges_of t evs = (if mq_tenant_id r = t then charged_amounts es else [])"
proof -
  have "py_strip (mq_tenant_id r) \<noteq> []"
    using assms(3) by (auto simp: valid_tenant_def new_TenantId_def validate_identifier_def res_bind_Inr_iff)
  then obtain sequence where "gateway_append r l tm ids n es s
      = (Inr (), s\<lparr>gw_events := gw_events s @ appended r l tm ids n sequence None es\<rparr>)"
    using gateway_append_eq [OF assms(1,2)] by blast
  then show thesis using that charges_of_appended by simp
qed

lemma charges_of_append: "charges_of t (xs @ ys) = charges_of t xs @ charges_of t ys"
  by (simp add: charges_of_def)

lemma inv_annotates:
  assumes "gateway_inv q P s" and "annotates r l tm s s'" and "valid_tenant r"
  shows "gateway_inv q P s'"
proof -
  obtain ids es where es: "details_ok es" "charged_amounts es = []" "s' = snd (gateway_append r l tm ids 0 es s)"
    and fence: "require_fence l tm s = (Inr (), s)"
    using assms(2) by (auto simp: annotates_def)
  have "dt_aware tm" using fence_aware [OF fence] assms(1) by (simp add: gateway_inv_def reservations_ok_def)
  from append_state [OF es(1) this assms(3), of l ids 0 s] obtain evs where
    e: "gw_reservations s' = gw_reservations s" "gw_active_leases s' = gw_active_leases s" "gw_events s' = gw_events s @ evs"
    "\<And>t. charges_of t evs = (if mq_tenant_id r = t then charged_amounts es else [])"
    unfolding es(3) by blast
  have over: "over_reservations f s' = over_reservations f s" for f by (rule over_same [OF e(1)])
  show ?thesis
    using assms(1)
    by (simp add: e es(2) over gateway_inv_def reservations_ok_def within_budgets_def events_agree_def reservations_of_def leases_aware_def
        charges_of_append)
qed

lemma inv_settles:
  assumes inv: "gateway_inv q P s" and st: "settles r l b tm final es s s'" and r: "valid_tenant r" "issued r b s"
    and es: "details_ok es" "charged_amounts es = (if is_charged final then [br_charged_tokens final] else [])"
    and final: "br_reservation_id final = br_reservation_id b" "br_tenant_id final = br_tenant_id b" "br_run_id final = br_run_id b"
      "br_token_limit final = br_token_limit b" "\<not> br_active final" "0 \<le> br_charged_tokens final"
  shows "gateway_inv q P s'"
proof -
  let ?i = "br_reservation_id b"
  obtain ids c where s': "s' = snd (gateway_append r l tm ids 0 es (settle r final (s\<lparr>gw_completed := c\<rparr>)))"
    and act: "require_active b s = (Inr (), s)" and fence: "require_fence l tm s = (Inr (), s)"
    using st by (auto simp: settles_def)
  have ok: "reservations_ok s" "within_budgets q P s" "events_agree s" using inv by (simp_all add: gateway_inv_def)
  have old: "stored ?i s = Some b" "br_active b" "br_tenant_id b = mq_tenant_id r"
    using active_stored [OF act] r(2) by (auto simp: issued_def)
  then have "b \<in> set (reservations_of s)" by (force simp: stored_def reservations_of_def dest: map_of_SomeD)
  then have b: "1 \<le> br_token_limit b" "\<not> is_charged b" using ok(1) old(2) by (auto simp: reservations_ok_def reservation_ok_def)
  have "dt_aware tm" using fence_aware [OF fence] ok(1) by (simp add: reservations_ok_def)
  then obtain evs where s2: "gw_reservations s' = AList.update ?i final (gw_reservations s)" "gw_active_leases s' = gw_active_leases s"
    "gw_events s' = gw_events s @ evs" "\<And>t. charges_of t evs = (if mq_tenant_id r = t then charged_amounts es else [])"
    using append_state [OF es(1) _ r(1), of tm l ids 0 "settle r final (s\<lparr>gw_completed := c\<rparr>)"] unfolding s'
    by (auto simp: settle_def final(1))
  have d: "distinct (map fst (gw_reservations s))" using ok(1) by (simp add: reservations_ok_def)
  have over: "over_reservations f s' = over_reservations f s - f b + f final" for f
    using over_update [OF d s2(1), of f] old(1) by simp
  have held: "held A C final \<le> held A C b" if "C final \<Longrightarrow> A b" for A C
    using that b old(2) final by (auto simp: held_def)
  have "reservation_ok final" using b(1) final by (simp add: reservation_ok_def)
  then have 1: "reservations_ok s'" by (rule reservations_ok_update [OF ok(1) s2(1,2)])
  have "over_reservations (held (in_run t run) (in_run t run)) s' \<le> over_reservations (held (in_run t run) (in_run t run)) s" for t run
    using held [of "in_run t run" "in_run t run"] final by (simp add: over in_run_def)
  moreover have "over_reservations (held (of_tenant t) (since t P)) s' \<le> over_reservations (held (of_tenant t) (since t P)) s" for t
    using held [of "since t P" "of_tenant t"] final by (simp add: over since_def of_tenant_def)
  ultimately have 2: "within_budgets q P s'" using ok(2) unfolding within_budgets_def by (meson order_trans)
  have 3: "events_agree s'"
    using ok(3) b(2) old(3) final(2) es(2) by (auto simp: events_agree_def over s2(3,4) charges_of_append charge_of_def call_of_def)
  show ?thesis using 1 2 3 by (simp add: gateway_inv_def)
qed

lemma check_budgets_Inr:
  assumes "check_budgets r q tokens cost tm s = Inr ()"
  obtains start charged where "billing_period_start tm = Inr start" and "charged_in_period (mq_tenant_id r) start s = Inr charged"
    and "committed_tokens (filter (\<lambda>b. br_run_id b = mq_run_id r) (active_of_tenant (mq_tenant_id r) s))
        (charged_of_run (mq_tenant_id r) (mq_run_id r) s) + tokens \<le> ql_max_run_tokens q"
    and "committed_tokens (active_of_tenant (mq_tenant_id r) s) charged + tokens \<le> ql_max_tenant_tokens_per_period q"
  using assms by (auto simp: check_budgets_def Let_def res_bind_Inr_iff)

lemma inv_reserve:
  assumes inv: "gateway_inv q P s" and step: "gateway_reserve ids context r l rt (q (mq_tenant_id r)) tokens cost pv tm s = (x, s')"
    and r: "valid_tenant r" "stored (ids 0) s = None" "\<And>start. billing_period_start tm = Inr start \<Longrightarrow> dt_instant start \<le> P"
  shows "gateway_inv q P s'"
proof (cases "s' = s")
  case False
  define t run b where defs: "t = mq_tenant_id r" "run = mq_run_id r" "b = new_reservation (ids 0) r l tokens cost pv tm"
  have chk: "check_budgets r (q t) tokens cost tm s = Inr ()" and pos: "1 \<le> tokens" and fence: "require_fence l tm s = (Inr (), s)"
    and s': "s' = snd (gateway_append r l tm ids 1 (reserved_events r l rt b) (admit_reservation r b s))"
    using reserve_effect [OF step] False by (simp_all add: defs)
  have ok: "reservations_ok s" "within_budgets q P s" "events_agree s" using inv by (simp_all add: gateway_inv_def)
  have b: "br_reservation_id b = ids 0" "br_tenant_id b = t" "br_run_id b = run" "br_token_limit b = tokens" "br_active b"
    "\<not> is_charged b" "br_charged_tokens b = 0"
    by (simp_all add: defs new_reservation_def is_charged_def)
  have "dt_aware tm" using fence_aware [OF fence] ok(1) by (simp add: reservations_ok_def)
  from append_state [OF reserved_events_ok(1) this r(1), of l ids 1 r l rt b "admit_reservation r b s"] obtain evs where
    s2: "gw_reservations s' = AList.update (ids 0) b (gw_reservations s)" "gw_active_leases s' = gw_active_leases s"
    "gw_events s' = gw_events s @ evs" "\<And>t. charges_of t evs = []"
    unfolding s' reserved_events_ok(2) by (auto simp: admit_reservation_def b(1))
  have d: "distinct (map fst (gw_reservations s))" using ok(1) by (simp add: reservations_ok_def)
  have over: "over_reservations f s' = over_reservations f s + f b" for f using over_update [OF d s2(1), of f] r(2) by simp
  obtain start charged where period: "billing_period_start tm = Inr start" "charged_in_period t start s = Inr charged"
    and run: "committed_tokens (filter (\<lambda>b. br_run_id b = run) (active_of_tenant t s)) (charged_of_run t run s) + tokens \<le> ql_max_run_tokens (q t)"
    and tenant: "committed_tokens (active_of_tenant t s) charged + tokens \<le> ql_max_tenant_tokens_per_period (q t)"
    using check_budgets_Inr [OF chk] unfolding defs(1,2) [symmetric] by blast
  have 1: "reservations_ok s'" by (rule reservations_ok_update [OF ok(1) s2(1,2)]) (use b pos in \<open>simp add: reservation_ok_def\<close>)
  have "over_reservations (held (in_run u v) (in_run u v)) s' \<le> ql_max_run_tokens (q u)" for u v
  proof (cases "in_run u v b")
    case True
    then have uv: "u = t" "v = run" using b by (simp_all add: in_run_def)
    have "0 \<le> over_reservations (overrun (in_run t run)) s" by (rule over_reservations_nonneg) simp
    then show ?thesis using run True b unfolding uv over run_committed by (simp add: held_def)
  next
    case False
    then show ?thesis using ok(2) b by (simp add: over held_def within_budgets_def)
  qed
  moreover have "over_reservations (held (of_tenant u) (since u P)) s' \<le> ql_max_tenant_tokens_per_period (q u)" for u
  proof (cases "of_tenant u b")
    case True
    then have u: "u = t" using b by (simp add: of_tenant_def)
    have "over_reservations (held (of_tenant t) (since t P)) s \<le> committed_tokens (active_of_tenant t s) charged"
      using ok(1) by (intro period_committed [OF period(2) r(3) [OF period(1)] billing_period_aware [OF period(1)]])
        (auto simp: reservations_ok_def reservation_ok_def)
    then show ?thesis using tenant True b unfolding u over by (simp add: held_def)
  next
    case False
    then show ?thesis using ok(2) b by (simp add: over held_def within_budgets_def)
  qed
  ultimately have 2: "within_budgets q P s'" by (simp add: within_budgets_def)
  have 3: "events_agree s'" using ok(3) b by (simp add: events_agree_def over s2(3,4) charges_of_append charge_of_def call_of_def)
  show ?thesis using 1 2 3 by (simp add: gateway_inv_def)
qed (use inv in simp)

lemma usage_ok_tokens: "usage_ok response \<Longrightarrow> usage_totals p response = Inr (tokens, cost) \<Longrightarrow> 0 \<le> tokens"
  by (auto simp: usage_ok_def init_TokenUsage_def usage_totals_def res_bind_Inr_iff billable_tokens_def split: if_splits)

lemma actual_usage_totals: "actual_usage p response b = Inr (tokens, cost) \<Longrightarrow> usage_totals p response = Inr (tokens, cost)"
  by (auto simp: actual_usage_def res_bind_Inr_iff)

lemma gateway_step_inv:
  assumes "gateway_step q P s s'" and inv: "gateway_inv q P s"
  shows "gateway_inv q P s'"
  using assms(1)
proof cases
  case (reserve ids ctx r l rt tokens cost pv tm x)
  then show ?thesis using inv_reserve [OF inv] by blast
next
  case (attempt ids ctx r l b provider model n index tm x)
  then show ?thesis using attempt_effect inv_annotates [OF inv] inv by blast
next
  case (attempt_failure ids ctx r l b err provider model n index tm x)
  then show ?thesis using attempt_failure_effect inv_annotates [OF inv] inv by blast
next
  case (succeed ids ctx r l b response p tm x)
  show ?thesis
    using succeed_effect [OF succeed(1)] inv
      inv_settles [OF inv _ succeed(2,3) success_events_ok(1)] usage_ok_tokens [OF succeed(4) actual_usage_totals]
    by (auto simp: charged_reservation_def is_charged_def success_events_ok(2))
next
  case (usage_failure ids ctx r l b response p err tm x)
  show ?thesis
    using usage_failure_effect [OF usage_failure(1)] inv
      inv_settles [OF inv _ usage_failure(2,3) usage_failure_events_ok(1)] usage_ok_tokens [OF usage_failure(4)]
    by (auto simp: charged_reservation_def is_charged_def usage_failure_events_ok(2))
next
  case (failed ids ctx r l b err tm x)
  show ?thesis
    using fail_effect [OF failed(1)] inv inv_settles [OF inv _ failed(2,3) failure_events_ok(1)]
    by (auto simp: released_reservation_def is_charged_def failure_events_ok(2))
next
  case (lease l)
  then show ?thesis
    using inv by (auto simp: gateway_inv_def reservations_ok_def within_budgets_def events_agree_def over_reservations_def
        reservations_of_def leases_aware_def replace_lease_def ran_def)
qed

lemma gateway_inv_initial:
  assumes "\<forall>t. init_QuotaLimits (q t) = Inr (q t)" and "\<forall>l \<in> set leases. init_WorkLease l = Inr l"
  shows "gateway_inv q P (new_gateway_repo leases)"
proof -
  have "0 \<le> ql_max_run_tokens (q t)" "0 \<le> ql_max_tenant_tokens_per_period (q t)" for t
    using assms(1) [rule_format, of t] by (auto simp: init_QuotaLimits_def res_bind_Inr_iff)
  moreover have sub: "snd ` set (dict_update d (map (\<lambda>l. ((ls_tenant_id l, ls_work_id l), l)) ls)) \<subseteq> snd ` set d \<union> set ls"
    for d :: "((string \<times> uuid) \<times> WorkLease) list" and ls
  proof (induction ls arbitrary: d)
    case (Cons l ls)
    have "snd ` set (AList.update k l d) \<subseteq> insert l (snd ` set d)" for k by (induction d) auto
    then show ?case
      using Cons.IH [of "AList.update (ls_tenant_id l, ls_work_id l) l d"]
      unfolding list.map dict_update_Cons list.set by blast
  qed simp
  have "ran (map_of d) \<subseteq> snd ` set d" for d :: "((string \<times> uuid) \<times> WorkLease) list"
    by (auto simp: ran_def dest!: map_of_SomeD intro: rev_image_eqI)
  then have "ran (gw_active_leases (new_gateway_repo leases)) \<subseteq> set leases"
    using sub [of "[]" leases] unfolding new_gateway_repo_def by (simp del: dict_update_Cons) blast
  then have "leases_aware (new_gateway_repo leases)"
    using assms(2) unfolding leases_aware_def init_WorkLease_Inr lease_ok_def by blast
  ultimately show ?thesis
    by (simp add: gateway_inv_def reservations_ok_def within_budgets_def events_agree_def over_reservations_def reservations_of_def
        new_gateway_repo_def charges_of_def leases_aware_def)
qed

lemma gateway_run_inv:
  assumes "\<forall>t. init_QuotaLimits (q t) = Inr (q t)" and "\<forall>l \<in> set leases. init_WorkLease l = Inr l"
    and "(gateway_step q P)\<^sup>*\<^sup>* (new_gateway_repo leases) s"
  shows "gateway_inv q P s"
  using assms(3) by (induction rule: rtranclp_induct) (auto intro: gateway_inv_initial [OF assms(1,2)] gateway_step_inv)

section \<open>Properties\<close>

text \<open>
  C14: token budgets hold. Whatever sequence of admissions, attempts, settlements and lease changes the repository goes through, the
  tokens reserved by active calls of a run together with the tokens charged to it stay within the run's quota, and those of
  a tenant within its quota of the billing period, except for what providers delivered above the reserved limit and the repository
  recorded all the same.
\<close>

theorem token_budgets_hold:
  assumes "\<forall>t. init_QuotaLimits (q t) = Inr (q t)" and "\<forall>l \<in> set leases. init_WorkLease l = Inr l"
    and "(gateway_step q P)\<^sup>*\<^sup>* (new_gateway_repo leases) s"
  shows "committed_tokens (filter (\<lambda>b. br_run_id b = run) (active_of_tenant t s)) (charged_of_run t run s)
      \<le> ql_max_run_tokens (q t) + over_reservations (overrun (in_run t run)) s
    \<and> committed_tokens (active_of_tenant t s) (filter (\<lambda>b. since t P b \<and> is_charged b) (reservations_of s))
      \<le> ql_max_tenant_tokens_per_period (q t) + over_reservations (overrun (since t P)) s"
  using gateway_run_inv [OF assms] by (simp add: gateway_inv_def run_committed tenant_committed within_budgets_def)

text \<open>
  The budget projection is rebuildable. In every state of a run the tokens and the number of calls the usage summary of a tenant
  reports, which it computes from the reservations, are those of the tenant's \<^verbatim>\<open>model.budget_charged\<close> events: every charge was recorded,
  once, and nothing else is charged.
\<close>

theorem usage_summary_replays_events:
  assumes "\<forall>t. init_QuotaLimits (q t) = Inr (q t)" and "\<forall>l \<in> set leases. init_WorkLease l = Inr l"
    and "(gateway_step q P)\<^sup>*\<^sup>* (new_gateway_repo leases) s"
  shows "map_of (usage_summary t s) ''tokens'' = Some (JInt (sum_list (charges_of t (gw_events s))))
    \<and> map_of (usage_summary t s) ''calls'' = Some (JInt (int (length (charges_of t (gw_events s)))))"
proof -
  have "sum_list (map br_charged_tokens (filter (\<lambda>b. br_tenant_id b = t \<and> is_charged b) bs)) = sum_list (map (charge_of t) bs)"
    "int (length (filter (\<lambda>b. br_tenant_id b = t \<and> is_charged b) bs)) = sum_list (map (call_of t) bs)" for bs
    by (induction bs) (auto simp: charge_of_def call_of_def)
  then show ?thesis
    using gateway_run_inv [OF assms] by (simp add: gateway_inv_def events_agree_def usage_summary_def over_reservations_def Let_def)
qed

section \<open>A concrete call\<close>

definition sample_model_request :: ModelRequest where
  "sample_model_request = \<lparr>mq_request_id = 3, mq_tenant_id = ''acme'', mq_run_id = 5,
     mq_messages = [\<lparr>mm_role = ROLE_USER, mm_content = [TextPart ''hi''], mm_name = None\<rparr>], mq_max_output_tokens = 60,
     mq_prompt_token_estimate = 40, mq_requested_model = None, mq_tools = [], mq_response_schema = None, mq_temperature = Dec False 0 0,
     mq_timeout_seconds = 30, mq_idempotency_key = ''k1''\<rparr>"

definition gateway_lease :: WorkLease where
  "gateway_lease = \<lparr>ls_work_id = 5, ls_tenant_id = ''acme'', ls_token = 8, ls_generation = 1, ls_owner = ''w'', ls_attempt = 1,
     ls_acquired_at = dt_of_instant 0, ls_heartbeat_at = dt_of_instant 0, ls_expires_at = dt_of_instant 9\<rparr>"

definition sample_pricing :: PricingVersion where
  "sample_pricing = \<lparr>pv_version = ''p1'', pv_effective_at = dt_of_instant 0, pv_input = Dec False 0 0, pv_output = Dec False 0 0,
     pv_cache_read = Dec False 0 0, pv_cache_write = Dec False 0 0, pv_reasoning = Dec False 0 0\<rparr>"

definition sample_entry :: ModelCatalogEntry where
  "sample_entry = \<lparr>ce_identity = \<lparr>mi_provider = ''fake'', mi_model = ''m''\<rparr>,
     ce_capabilities = \<lparr>cap_max_context_tokens = 1000, cap_max_output_tokens = 100, cap_supports_tools = True, cap_supports_vision = False,
       cap_supports_structured_output = True, cap_supports_reasoning_tokens = False, cap_supports_cache_tokens = False\<rparr>,
     ce_pricing = sample_pricing, ce_environments = [PRODUCTION], ce_data_residencies = [''eu''], ce_provider_retains_data = False,
     ce_cost_rank = 1, ce_latency_rank = 1, ce_fallback_models = []\<rparr>"

definition sample_route :: RouteDecision where
  "sample_route = \<lparr>rd_selected = sample_entry, rd_candidates = [sample_entry], rd_rationale = [''cost_preference'']\<rparr>"

definition sample_response :: "int \<Rightarrow> ModelResponse" where
  "sample_response n = \<lparr>mp_request_id = 3, mp_model = ce_identity sample_entry, mp_content = [TextPart ''ok''], mp_finish_reason = FINISH_STOP,
     mp_safety = \<lparr>sr_outcome = SAFETY_ALLOWED, sr_reason_code = None\<rparr>,
     mp_usage = \<lparr>tu_input_tokens = n, tu_output_tokens = 0, tu_cache_read_tokens = 0, tu_cache_write_tokens = 0, tu_reasoning_tokens = 0\<rparr>,
     mp_latency_ms = 1, mp_provider_request_id = None, mp_structured_output = None\<rparr>"

definition call_ids :: "nat \<Rightarrow> uuid" where
  "call_ids n = of_nat (100 + n)"

definition reserved_call :: gateway_repo where
  "reserved_call = snd (gateway_reserve call_ids ''acme'' sample_model_request gateway_lease sample_route sample_quotas 100 (Dec False 2 0) ''p1''
     (dt_of_instant 0) (new_gateway_repo [gateway_lease]))"

definition sample_reservation :: BudgetReservation where
  "sample_reservation = new_reservation 100 sample_model_request gateway_lease 100 (Dec False 2 0) ''p1'' (dt_of_instant 0)"

definition charged_call :: gateway_repo where
  "charged_call = snd (gateway_succeed call_ids ''acme'' sample_model_request gateway_lease sample_reservation (sample_response 40) sample_pricing
     (dt_of_instant 1) reserved_call)"

lemma sample_quotas_ok: "\<forall>t :: string. init_QuotaLimits sample_quotas = Inr sample_quotas"
  using sample_policy_inputs [of LOW 0] by (simp add: policy_inputs_ok_def sample_policy_def)

lemma gateway_lease_ok: "\<forall>l \<in> set [gateway_lease]. init_WorkLease l = Inr l"
  by (simp add: init_WorkLease_Inr lease_ok_def gateway_lease_def)

lemma sample_valid_tenant: "valid_tenant sample_model_request"
  by (simp add: valid_tenant_def new_TenantId_def validate_identifier_def sample_model_request_def py_strip_def strip_by_def py_isspace_def)

lemma first_period: "billing_period_start (dt_of_instant 0) = Inr \<lparr>dt_wall = 0, dt_offset = Some 0\<rparr>"
  by (simp add: billing_period_start_def dt_instant_def dt_of_instant_def days_to_ymd_def ymd_to_days_def find_month.simps days_in_month_def
      days_before_year_def day_micros_def)

lemma fence_passed:
  "gw_active_leases s = gw_active_leases (new_gateway_repo [gateway_lease]) \<Longrightarrow> 0 \<le> i \<Longrightarrow> i < 9
   \<Longrightarrow> require_fence gateway_lease (dt_of_instant i) s = (Inr (), s)"
  by (simp add: require_fence_def op_eval new_gateway_repo_def gateway_lease_def dt_le_def)

lemma reserved_run: "gateway_step (\<lambda>_. sample_quotas) 0 (new_gateway_repo [gateway_lease]) reserved_call"
proof (rule gateway_step.reserve [OF prod.collapse [symmetric, of "gateway_reserve call_ids ''acme'' sample_model_request gateway_lease sample_route
      sample_quotas 100 (Dec False 2 0) ''p1'' (dt_of_instant 0) (new_gateway_repo [gateway_lease])", folded reserved_call_def] sample_valid_tenant])
  show "stored (call_ids 0) (new_gateway_repo [gateway_lease]) = None" by (simp add: stored_def new_gateway_repo_def)
  show "dt_instant start \<le> 0" if "billing_period_start (dt_of_instant 0) = Inr start" for start
    using that by (auto simp: first_period dt_instant_def)
qed

lemma sample_admitted:
  "check_budgets sample_model_request sample_quotas 100 (Dec False 2 0) (dt_of_instant 0) (new_gateway_repo [gateway_lease]) = Inr ()"
proof -
  have d: "digit_count 0 = 1" "digit_count 2 = 1" by (simp_all add: digit_count.simps)
  have "dec_add (Dec False 0 0) (Dec False 0 0) = Dec False 0 0" "dec_add (Dec False 0 0) (Dec False 2 0) = Dec False 2 0"
    by (simp_all add: dec_add_def signed_def dec_fix_def d)
  then show ?thesis
    by (simp add: check_budgets_def first_period charged_in_period_def active_of_tenant_def charged_of_run_def reservations_of_def new_gateway_repo_def
        committed_tokens_def committed_cost_def dec_sum_def deny_over_def dec_lt_def dec_less_def sample_quotas_def pow10_def)
qed

lemma reserved_state:
  "gw_reservations reserved_call = [(100, sample_reservation)]" "gw_active_leases reserved_call = gw_active_leases (new_gateway_repo [gateway_lease])"
proof -
  let ?s = "new_gateway_repo [gateway_lease]"
  have i: "call_ids 0 = 100" by (simp add: call_ids_def)
  have v: "validate_gateway_context ''acme'' sample_model_request gateway_lease = Inr ()"
    by (simp add: validate_gateway_context_def sample_model_request_def gateway_lease_def)
  have c: "dec_lt (Dec False 2 0) (dec_of_int 0) = Inr False" by (simp add: dec_lt_def dec_less_def dec_of_int_def pow10_def)
  have f: "require_fence gateway_lease (dt_of_instant 0) ?s = (Inr (), ?s)" by (rule fence_passed) simp_all
  have e: "gw_completed ?s k = None" "gw_inflight ?s k = None" "gw_reservations ?s = []" for k by (simp_all add: new_gateway_repo_def)
  have r: "reserved_call = snd (gateway_append sample_model_request gateway_lease (dt_of_instant 0) call_ids 1
      (reserved_events sample_model_request gateway_lease sample_route sample_reservation) (admit_reservation sample_model_request sample_reservation ?s))"
    unfolding reserved_call_def gateway_reserve_def Let_def
    by (simp add: op_eval v c f e i sample_admitted sample_reservation_def split: prod.split sum.split)
  have "br_reservation_id sample_reservation = 100" by (simp add: sample_reservation_def new_reservation_def)
  then show "gw_reservations reserved_call = [(100, sample_reservation)]" "gw_active_leases reserved_call = gw_active_leases ?s"
    unfolding r by (simp_all add: admit_reservation_def e(3))
qed

lemma charged_run: "gateway_step (\<lambda>_. sample_quotas) 0 reserved_call charged_call"
proof (rule gateway_step.succeed [OF prod.collapse [symmetric, of "gateway_succeed call_ids ''acme'' sample_model_request gateway_lease
      sample_reservation (sample_response 40) sample_pricing (dt_of_instant 1) reserved_call", folded charged_call_def] sample_valid_tenant])
  show "issued sample_model_request sample_reservation reserved_call"
    by (simp add: issued_def stored_def reserved_state sample_reservation_def new_reservation_def)
  show "usage_ok (sample_response 40)" by (simp add: usage_ok_def init_TokenUsage_def sample_response_def)
qed

lemma charged_reachable: "(gateway_step (\<lambda>_. sample_quotas) 0)\<^sup>*\<^sup>* (new_gateway_repo [gateway_lease]) charged_call"
  using reserved_run charged_run by (meson converse_rtranclp_into_rtranclp rtranclp.rtrancl_refl)

lemma charged_state: "\<exists>b. gw_reservations charged_call = [(100, b)] \<and> br_tenant_id b = ''acme'' \<and> is_charged b \<and> br_charged_tokens b = 40"
proof -
  let ?b = "sample_reservation"
  have i: "br_reservation_id ?b = 100" "br_active ?b" "br_token_limit ?b = 100" "br_cost_limit_usd ?b = Dec False 2 0" "br_tenant_id ?b = ''acme''"
    by (simp_all add: sample_reservation_def new_reservation_def sample_model_request_def)
  have v: "validate_gateway_context ''acme'' sample_model_request gateway_lease = Inr ()"
    by (simp add: validate_gateway_context_def sample_model_request_def gateway_lease_def)
  have d: "digit_count 0 = 1" by (simp add: digit_count.simps)
  have z: "pricing_cost sample_pricing (mp_usage (sample_response 40)) = Inr (Dec False 0 0)"
    by (simp add: pricing_cost_def sample_pricing_def sample_response_def dec_mult_def dec_of_int_def dec_fix_def d dec_add_def signed_def
        per_million_def dec_divide_def checked_decimal_def)
  have u: "actual_usage sample_pricing (sample_response 40) ?b = Inr (40, Dec False 0 0)"
    by (simp add: actual_usage_def usage_totals_def z i billable_tokens_def dec_lt_def dec_less_def pow10_def) (simp add: sample_response_def)
  have a: "require_active ?b reserved_call = (Inr (), reserved_call)" by (simp add: require_active_def op_eval reserved_state i)
  have f: "require_fence gateway_lease (dt_of_instant 1) reserved_call = (Inr (), reserved_call)" by (rule fence_passed [OF reserved_state(2)]) simp_all
  have "gw_reservations charged_call = [(100, charged_reservation ?b 40 (Dec False 0 0) (dt_of_instant 1))]"
    unfolding charged_call_def gateway_succeed_def
    by (simp add: op_bind_def op_lift_def op_modify_def v u a f settle_def reserved_state) (simp add: charged_reservation_def i)
  then show ?thesis by (simp add: charged_reservation_def is_charged_def i)
qed

theorem token_budgets_hold_witness:
  "committed_tokens (active_of_tenant ''acme'' charged_call) (filter (\<lambda>b. since ''acme'' 0 b \<and> is_charged b) (reservations_of charged_call))
   \<le> 5000 + over_reservations (overrun (since ''acme'' 0)) charged_call"
  using token_budgets_hold [OF sample_quotas_ok gateway_lease_ok charged_reachable, of 5 "''acme''"] by (simp add: sample_quotas_def)

theorem usage_summary_replays_events_witness:
  "map_of (usage_summary ''acme'' charged_call) ''tokens'' = Some (JInt 40) \<and> sum_list (charges_of ''acme'' (gw_events charged_call)) = 40"
proof -
  obtain b where b: "gw_reservations charged_call = [(100, b)]" "br_tenant_id b = ''acme''" "is_charged b" "br_charged_tokens b = 40"
    using charged_state by blast
  then have "map_of (usage_summary ''acme'' charged_call) ''tokens'' = Some (JInt 40)" by (simp add: usage_summary_def reservations_of_def)
  then show ?thesis using usage_summary_replays_events [OF sample_quotas_ok gateway_lease_ok charged_reachable, of "''acme''"] by simp
qed

end
