(* ===== verification/Gateway_Calls.thy ===== *)
theory Gateway_Calls
  imports Gateway_Service Gateway_Budget
begin

text \<open>
  What a model call does, for every behaviour of providers, clocks and concurrent tasks: which providers it calls and how often, and that it
  leaves no budget reserved.
\<close>

section \<open>Calls of providers\<close>

text \<open>\<open>issues P n m\<close>: the operation \<open>m\<close> calls providers at most \<open>n\<close> times, each time with \<open>P\<close>.\<close>

definition issues :: "(ModelIdentity \<times> ModelRequest \<Rightarrow> bool) \<Rightarrow> nat \<Rightarrow> (gateway_world, 'a) wop \<Rightarrow> bool" where
  "issues P n m = (\<forall>w x w'. m w = (x, w') \<longrightarrow> (\<exists>calls. gv_calls w' = gv_calls w @ calls \<and> length calls \<le> n \<and> set calls \<subseteq> Collect P))"

lemma issuesD: "issues P n m \<Longrightarrow> m w = (x, w') \<Longrightarrow> \<exists>calls. gv_calls w' = gv_calls w @ calls \<and> length calls \<le> n \<and> set calls \<subseteq> Collect P"
  by (simp add: issues_def)

lemma issues_silent: "(\<And>w. gv_calls (snd (m w)) = gv_calls w) \<Longrightarrow> issues P n m"
  unfolding issues_def by (metis append.right_neutral empty_subsetI le0 list.set(1) list.size(3) snd_conv)

lemma issues_mono: "issues P n m \<Longrightarrow> n \<le> k \<Longrightarrow> (\<And>c. P c \<Longrightarrow> Q c) \<Longrightarrow> issues Q k m"
  unfolding issues_def by (meson Collect_mono le_trans subset_trans)

lemma issues_then:
  assumes "\<exists>calls. gv_calls w1 = gv_calls w @ calls \<and> length calls \<le> a \<and> set calls \<subseteq> Collect P"
    and "\<exists>calls. gv_calls w' = gv_calls w1 @ calls \<and> length calls \<le> b \<and> set calls \<subseteq> Collect P"
  shows "\<exists>calls. gv_calls w' = gv_calls w @ calls \<and> length calls \<le> a + b \<and> set calls \<subseteq> Collect P"
  using assms by (elim exE) (rule exI [of _ "_ @ _"], auto)

lemma issues_now:
  "\<exists>calls. gv_calls w' = gv_calls w @ calls \<and> length calls \<le> a \<and> set calls \<subseteq> Collect P
   \<Longrightarrow> \<exists>calls. gv_calls w' = gv_calls w @ calls \<and> length calls \<le> a + b \<and> set calls \<subseteq> Collect P"
  by (blast intro: trans_le_add1)

lemma issues_bind:
  assumes "issues P a m" and "\<And>x. issues P b (k x)"
  shows "issues P (a + b) (w_bind m k)"
  unfolding issues_def
  by (auto elim!: w_bindE dest!: issuesD [OF assms(1)] issuesD [OF assms(2)] intro: issues_then issues_now)

lemma issues_try_gateway:
  assumes "issues P a m" and "\<And>e. issues P b (h e)" and "\<And>x. issues P b (k x)"
  shows "issues P (a + b) (try_gateway m h k)"
  unfolding issues_def
proof (intro allI impI)
  fix w x w'
  assume t: "try_gateway m h k w = (x, w')"
  obtain r w1 where m: "m w = (r, w1)" by fastforce
  have "w1 = w' \<or> (\<exists>e. h e w1 = (x, w')) \<or> (\<exists>a. k a w1 = (x, w'))"
    using t m by (auto simp: try_gateway_def split: sum.splits worker_error.splits if_splits)
  then show "\<exists>calls. gv_calls w' = gv_calls w @ calls \<and> length calls \<le> a + b \<and> set calls \<subseteq> Collect P"
    using issuesD [OF assms(1) m] by (auto intro: issues_then issues_now dest!: issuesD [OF assms(2)] issuesD [OF assms(3)])
qed

lemma issues_try:
  assumes "issues P a m" and "\<And>e. issues P b (h e)"
  shows "issues P (a + b) (w_try m h)"
  unfolding issues_def
  by (auto elim!: w_tryE dest!: issuesD [OF assms(1)] issuesD [OF assms(2)] intro: issues_then issues_now)

lemma issues_finally:
  assumes "issues P a m" and "issues P b f"
  shows "issues P (a + b) (w_finally m f)"
  unfolding issues_def
  by (auto elim!: w_finallyE dest!: issuesD [OF assms(1)] issuesD [OF assms(2)] intro: issues_then)

lemma issues_basic:
  "issues P n (w_return a)" "issues P n (w_raise e)" "issues P n (w_lift r)" "issues P n (observe f)" "issues P n (await_others v)"
  "issues P n (on_repo m)" "issues P n (on_controls c)"
  by (rule issues_silent; simp add: w_defs observe_def await_others_def on_repo_def on_controls_def split: sum.splits prod.splits)+

lemma issues_if: "issues P n m \<Longrightarrow> issues P n k \<Longrightarrow> issues P n (if b then m else k)"
  by simp

lemma issues_option: "issues P n m \<Longrightarrow> (\<And>x. issues P n (k x)) \<Longrightarrow> issues P n (case a of None \<Rightarrow> m | Some x \<Rightarrow> k x)"
  by (cases a) simp_all

lemmas issues_bind0 = issues_bind [where a = 0 and b = 0, simplified]
lemmas issues_bind_right = issues_bind [where a = 0, simplified]
lemmas issues_silently = issues_basic issues_if issues_bind0

lemma issues_repo_call: "issues P 0 (repo_call v f)"
  unfolding repo_call_def by (intro issues_silently)

lemma issues_acquire_semaphore: "issues P 0 (acquire_semaphore v m deadline token)"
  unfolding acquire_semaphore_def Let_def by (intro issues_silently)

lemma issues_wait_for_retry: "issues P 0 (wait_for_retry v token delay)"
  unfolding wait_for_retry_def by (intro issues_silently) (simp add: issues_basic split: wait_outcome.splits)

lemma issues_handle_error: "issues P 0 (handle_attempt_error g v c m index attempt started e)"
  unfolding handle_attempt_error_def Let_def by (intro issues_silently issues_repo_call issues_wait_for_retry)

lemma issues_admit_attempt: "issues P 0 (admit_attempt v c m)"
  unfolding admit_attempt_def by (intro issues_silently)

lemma issues_acquire_circuit: "issues P 0 (acquire_circuit v m)"
  unfolding acquire_circuit_def
  by (rule issues_try [where a = 0 and b = 0, simplified], intro issues_silently)
    (simp add: issues_basic split: worker_error.splits py_error.splits)

lemma issues_report_health: "issues P 0 (report_health v m e)"
  unfolding report_health_def by (auto intro!: issues_silently split: option.splits)

lemma issues_open_circuits: "issues P 0 (open_circuits v es)"
  by (induction es) (auto intro!: issues_silently)

text \<open>The request a provider sees is the caller's with a timeout that is positive and no longer.\<close>

definition call_of_model :: "ModelRequest \<Rightarrow> ModelIdentity \<Rightarrow> ModelIdentity \<times> ModelRequest \<Rightarrow> bool" where
  "call_of_model r m call \<longleftrightarrow> fst call = m \<and> r\<lparr>mq_timeout_seconds := mq_timeout_seconds (snd call)\<rparr> = snd call
     \<and> 0 < mq_timeout_seconds (snd call) \<and> mq_timeout_seconds (snd call) \<le> mq_timeout_seconds r"

lemma issues_call_provider:
  assumes "P (m, r)"
  shows "issues P 1 (call_provider v m r)"
  unfolding issues_def
proof (intro allI impI)
  fix w x w'
  assume "call_provider v m r w = (x, w')"
  then have "w_bind (await_others v) (\<lambda>_. w_bind (observe (\<lambda>n. ge_provider v n m r)) (\<lambda>outcome.
     case outcome of Inl e \<Rightarrow> w_raise e | Inr response \<Rightarrow> w_return response)) (w\<lparr>gv_calls := gv_calls w @ [(m, r)]\<rparr>) = (x, w')"
    by (simp add: call_provider_def)
  moreover have "issues P 0 (w_bind (await_others v) (\<lambda>_. w_bind (observe (\<lambda>n. ge_provider v n m r)) (\<lambda>outcome.
     case outcome of Inl e \<Rightarrow> w_raise e | Inr response \<Rightarrow> w_return response)))"
    by (intro issues_silently) (simp add: issues_basic split: sum.splits)
  ultimately show "\<exists>calls. gv_calls w' = gv_calls w @ calls \<and> length calls \<le> 1 \<and> set calls \<subseteq> Collect P"
    using assms by (auto dest: issuesD)
qed

lemma issues_invoke: "issues (call_of_model (mc_request c) m) 1 (invoke_model v c m)"
proof -
  have "issues (call_of_model (mc_request c) m) 1 (w_bind (w_lift (init_ModelRequest r)) (call_provider v m))"
    if r: "r = (mc_request c)\<lparr>mq_timeout_seconds := min (mq_timeout_seconds (mc_request c)) t\<rparr>" for r t
  proof (cases "init_ModelRequest r")
    case (Inl e)
    then show ?thesis by (intro issues_silent) (simp add: w_defs)
  next
    case (Inr q)
    then have "q = r" "0 < mq_timeout_seconds r" by (auto simp: init_ModelRequest_def op_simps)
    then have "call_of_model (mc_request c) m (m, q)" by (simp add: call_of_model_def r)
    then show ?thesis using issues_call_provider [of _ m q v] Inr by (simp add: w_defs issues_def)
  qed
  then have "issues (call_of_model (mc_request c) m) 1
      (w_bind (w_lift (init_ModelRequest ((mc_request c)\<lparr>mq_timeout_seconds := min (mq_timeout_seconds (mc_request c)) t\<rparr>))) (call_provider v m))" for t
    by blast
  then show ?thesis
    unfolding invoke_model_def Let_def by (intro issues_bind_right [OF issues_basic(4)] issues_if issues_basic(2)) auto
qed

lemmas issues_first_silent = issues_try_gateway [where a = 0, simplified]
lemmas issues_rest_silent = issues_try_gateway [where b = 0, simplified]
lemmas issues_silent_cleanup = issues_finally [where b = 0, simplified]

lemma issues_attempt: "issues (call_of_model (mc_request c) m) 1 (attempt_once g v c m index attempt)"
  unfolding attempt_once_def release_permit_def
  by (intro issues_first_silent issues_silent_cleanup issues_rest_silent issues_acquire_semaphore issues_repo_call issues_basic
      issues_invoke issues_handle_error issues_mono [OF issues_handle_error]) simp_all

lemma issues_attempt_loop: "issues (call_of_model (mc_request c) m) (length as) (attempt_loop g v c m index last_error as)"
proof (induction as arbitrary: last_error)
  case Nil
  then show ?case by (simp add: issues_basic)
next
  case (Cons a as)
  have "issues (call_of_model (mc_request c) m) (length as) (case outcome of
       Responded response \<Rightarrow> w_bind (on_controls (on_circuit m (op_modify circuit_succeed))) (\<lambda>_. w_return (Some response, None))
     | GaveUp e \<Rightarrow> w_return (None, Some e)
     | TryAgain e \<Rightarrow> attempt_loop g v c m index (Some e) as)" for outcome
    using Cons.IH by (cases outcome) (auto intro!: issues_bind_right issues_basic)
  from issues_bind [OF issues_attempt this] show ?case
    unfolding attempt_loop.simps by (intro issues_bind_right [OF issues_admit_attempt] issues_if issues_basic(1)) simp
qed

lemma issues_try_model:
  "issues (call_of_model (mc_request c) (ce_identity candidate)) (nat (rp_max_attempts (mg_retry_policy g))) (try_model g v c candidate index)"
proof -
  let ?n = "nat (rp_max_attempts (mg_retry_policy g))" and ?m = "ce_identity candidate"
  have l: "issues (call_of_model (mc_request c) ?m) ?n (attempt_loop g v c ?m index None (map int [1..<?n + 1]))"
    by (rule issues_mono [OF issues_attempt_loop]) (unfold length_map length_upt, simp_all)
  have r: "issues (call_of_model (mc_request c) ?m) 0 (case p of (response, last_error) \<Rightarrow> (case response of
            Some answer \<Rightarrow> w_return (Some answer, None)
          | None \<Rightarrow> w_bind (report_health v ?m last_error) (\<lambda>_. w_return (None, last_error))))" for p
    by (auto intro!: issues_silently issues_report_health split: prod.splits option.splits)
  show ?thesis unfolding try_model_def Let_def
    by (intro issues_bind_right [OF issues_acquire_circuit] issues_option issues_bind_right [OF issues_basic(3)]
        issues_bind [where b = 0, simplified] issues_silent_cleanup issues_if issues_basic l r)
qed

lemma issues_fail_call: "issues P 0 (fail_call v c e)"
  unfolding fail_call_def Let_def by (intro issues_silently issues_repo_call)

lemma issues_settle_response: "issues P 0 (settle_response v c candidate response)"
  unfolding settle_response_def by (intro issues_rest_silent issues_silently issues_repo_call)

lemma issues_try_candidates:
  "issues (\<lambda>call. \<exists>e \<in> set es. call_of_model (mc_request c) (ce_identity e) call)
     (nat (rp_max_attempts (mg_retry_policy g)) * length es) (try_candidates g v c index last_error es)"
proof (induction es arbitrary: index last_error)
  case Nil
  then show ?case by (simp add: issues_fail_call)
next
  case (Cons e es)
  let ?P = "\<lambda>call. \<exists>e \<in> set (e # es). call_of_model (mc_request c) (ce_identity e) call"
  have 1: "issues ?P (nat (rp_max_attempts (mg_retry_policy g))) (try_model g v c e index)"
    by (rule issues_mono [OF issues_try_model]) auto
  have rest: "issues ?P (nat (rp_max_attempts (mg_retry_policy g)) * length es) (try_candidates g v c (index + 1) err es)" for err
    by (rule issues_mono [OF Cons.IH]) auto
  have 2: "issues ?P (nat (rp_max_attempts (mg_retry_policy g)) * length es) (case p of (response, error) \<Rightarrow> (case response of
       Some answer \<Rightarrow> settle_response v c e answer
     | None \<Rightarrow>
         if (case error of None \<Rightarrow> False | Some e \<Rightarrow> \<not> error_retryable e) then fail_call v c error
         else try_candidates g v c (index + 1) error es))" for p
    using rest by (auto intro: issues_mono [OF issues_settle_response] issues_mono [OF issues_fail_call] split: prod.splits option.splits)
  show ?case using issues_bind [OF 1 2] by simp
qed

lemma route_candidates:
  assumes "route r catalog p environment unavailable preference = Inr rt" and "e \<in> set (rd_candidates rt)"
  shows "e \<in> set (catalog_entries catalog) \<and> route_failures r p environment [] e = [] \<and> ce_identity e \<notin> set unavailable
    \<and> tp_tenant_id p = mq_tenant_id r \<and> (\<forall>i. mq_requested_model r = Some i \<longrightarrow> map_of catalog i = Some e)"
proof -
  obtain entries where t: "tp_tenant_id p = mq_tenant_id r"
    and i: "(case mq_requested_model r of None \<Rightarrow> Inr (catalog_entries catalog)
       | Some i \<Rightarrow> res_bind (catalog_get catalog i) (\<lambda>e. Inr [e])) = Inr entries"
    and rt: "rd_candidates rt = sort_key (route_rank preference) (filter (\<lambda>e. route_failures r p environment unavailable e = []) entries)"
    using assms(1) unfolding route_def by (auto simp: op_simps Let_def simp del: res_bind_simps split: if_splits)
  have e: "e \<in> set entries" "route_failures r p environment unavailable e = []" using assms(2) rt by auto
  have "e \<in> set (catalog_entries catalog) \<and> (\<forall>i. mq_requested_model r = Some i \<longrightarrow> map_of catalog i = Some e)"
    using i e(1) by (cases "mq_requested_model r")
      (auto simp: op_simps catalog_get_def catalog_entries_def split: option.splits dest: map_of_SomeD intro: rev_image_eqI)
  then show ?thesis using e(2) t by (auto simp: route_failures_def reason_if_def split: if_splits)
qed


section \<open>Settlement\<close>

text \<open>\<open>unsettled v w\<close> are the reservations of this call that are active; \<open>holding v b\<close> says that \<open>b\<close> is the only one.\<close>

definition reserved_here :: "gateway_env \<Rightarrow> uuid \<Rightarrow> bool" where
  "reserved_here v i = (\<exists>n. i = ge_ids v n 0)"

definition active_here :: "gateway_env \<Rightarrow> gateway_repo \<Rightarrow> uuid \<Rightarrow> bool" where
  "active_here v s i \<longleftrightarrow> reserved_here v i \<and> (\<exists>b. stored i s = Some b \<and> br_active b)"

definition settled_all :: "gateway_env \<Rightarrow> gateway_world \<Rightarrow> bool" where
  "settled_all v w = (\<forall>i. \<not> active_here v (gv_repo w) i)"

definition holding :: "gateway_env \<Rightarrow> BudgetReservation \<Rightarrow> gateway_world \<Rightarrow> bool" where
  "holding v b w = (\<forall>i. active_here v (gv_repo w) i \<longrightarrow> i = br_reservation_id b)"

text \<open>Other tasks leave the reservations of this call alone: they settle what they reserved themselves.\<close>

definition undisturbed :: "gateway_env \<Rightarrow> bool" where
  "undisturbed v = (\<forall>n i p. reserved_here v i \<longrightarrow> stored i (fst (ge_others v n p)) = stored i (fst p))"

definition completed_as :: "ModelRequest \<Rightarrow> ModelResponse \<Rightarrow> gateway_repo \<Rightarrow> bool" where
  "completed_as r response s = (gw_completed s (mq_tenant_id r, mq_idempotency_key r) = Some (request_content_digest r, response))"

abbreviation not_gateway :: "worker_error \<Rightarrow> 'w \<Rightarrow> bool" where
  "not_gateway e w \<equiv> \<not> is_gateway_error e"

lemma settled_others:
  assumes "undisturbed v"
  shows "active_here v (fst (ge_others v n p)) i = active_here v (fst p) i"
  using assms by (cases p) (auto simp: active_here_def undisturbed_def)

lemma triple_observe: "(\<And>w n. P w \<Longrightarrow> P (w\<lparr>gv_tick := n\<rparr>)) \<Longrightarrow> w_triple P (observe f) (\<lambda>_. P) E"
  by (simp add: w_triple_def observe_def)

lemma triple_observe_value:
  assumes "\<And>w n. P w \<Longrightarrow> P (w\<lparr>gv_tick := n\<rparr>)"
  shows "w_triple P (observe f) (\<lambda>a w. (\<exists>n. a = f n) \<and> P w) E"
  using assms by (auto simp: w_triple_def observe_def)

lemma triple_await_others:
  assumes "\<And>w n repo controls. P w \<Longrightarrow> ge_others v (gv_tick w) (gv_repo w, gv_controls w) = (repo, controls)
     \<Longrightarrow> P (w\<lparr>gv_repo := repo, gv_controls := controls, gv_tick := n\<rparr>)"
  shows "w_triple P (await_others v) (\<lambda>_. P) E"
  using assms by (auto simp: w_triple_def await_others_def split: prod.splits)

lemma triple_on_repo:
  assumes "\<And>w a s. P w \<Longrightarrow> m (gv_repo w) = (Inr a, s) \<Longrightarrow> Q a (w\<lparr>gv_repo := s\<rparr>)"
    and "\<And>w e s. P w \<Longrightarrow> m (gv_repo w) = (Inl e, s) \<Longrightarrow> E (Raised e) (w\<lparr>gv_repo := s\<rparr>)"
  shows "w_triple P (on_repo m) Q E"
  using assms by (simp add: w_triple_def on_repo_def split: prod.splits sum.splits)

lemma triple_on_controls:
  assumes "\<And>w c. P w \<Longrightarrow> P (w\<lparr>gv_controls := c\<rparr>)" and "\<And>w e s. P w \<Longrightarrow> m (gv_controls w) = (Inl e, s) \<Longrightarrow> E (Raised e) (w\<lparr>gv_controls := s\<rparr>)"
  shows "w_triple P (on_controls m) (\<lambda>_. P) E"
  using assms by (simp add: w_triple_def on_controls_def split: prod.splits sum.splits)

lemma triple_try_gateway:
  assumes "w_triple P m R F" and "\<And>x. is_gateway_error (Raised x) \<Longrightarrow> w_triple (F (Raised x)) (h x) Q E" and "\<And>a. w_triple (R a) (k a) Q E"
    and "\<And>e w. F e w \<Longrightarrow> \<not> is_gateway_error e \<Longrightarrow> E e w"
  shows "w_triple P (try_gateway m h k) Q E"
proof (rule tripleI)
  fix w a w'
  assume P: "P w" and t: "try_gateway m h k w = (Inr a, w')"
  then show "Q a w'"
    using tripleD [OF assms(1) P] tripleD [OF assms(2)] tripleD [OF assms(3)]
    by (auto simp: try_gateway_def split: prod.splits sum.splits worker_error.splits if_splits)
next
  fix w e w'
  assume P: "P w" and t: "try_gateway m h k w = (Inl e, w')"
  then show "E e w'"
    using tripleD [OF assms(1) P] tripleD [OF assms(2)] tripleD [OF assms(3)] assms(4)
    by (auto simp: try_gateway_def split: prod.splits sum.splits worker_error.splits if_splits)
qed

text \<open>A repository call with the interference before it: \<open>P\<close> must be kept by other tasks.\<close>

definition stable :: "gateway_env \<Rightarrow> (gateway_world \<Rightarrow> bool) \<Rightarrow> bool" where
  "stable v P = ((\<forall>w n. P w \<longrightarrow> P (w\<lparr>gv_tick := n\<rparr>)) \<and> (\<forall>w c. P w \<longrightarrow> P (w\<lparr>gv_controls := c\<rparr>)) \<and> (\<forall>w cs. P w \<longrightarrow> P (w\<lparr>gv_calls := cs\<rparr>))
     \<and> (\<forall>w n. P w \<longrightarrow> P (w\<lparr>gv_repo := fst (ge_others v n (gv_repo w, gv_controls w))\<rparr>)))"

lemma stable_holding: "undisturbed v \<Longrightarrow> stable v (holding v b)" and stable_settled: "undisturbed v \<Longrightarrow> stable v (settled_all v)"
  by (auto simp: stable_def holding_def settled_all_def settled_others)

lemma triple_stable:
  assumes "stable v P"
  shows "w_triple P (observe f) (\<lambda>_. P) E" "w_triple P (await_others v) (\<lambda>_. P) E" "w_triple P (on_controls op) (\<lambda>_. P) (\<lambda>e w. P w \<and> (\<exists>x c d. e = Raised x \<and> op c = (Inl x, d)))"
proof -
  show "w_triple P (observe f) (\<lambda>_. P) E" by (rule triple_observe) (use assms in \<open>simp add: stable_def\<close>)
  show "w_triple P (await_others v) (\<lambda>_. P) E"
  proof (rule triple_await_others)
    fix w n repo controls
    assume P: "P w" and g: "ge_others v (gv_tick w) (gv_repo w, gv_controls w) = (repo, controls)"
    have "P (w\<lparr>gv_repo := fst (ge_others v (gv_tick w) (gv_repo w, gv_controls w))\<rparr>)" using P assms by (simp add: stable_def)
    then have "P (w\<lparr>gv_repo := repo\<rparr>\<lparr>gv_controls := controls\<rparr>\<lparr>gv_tick := n\<rparr>)" using assms g unfolding stable_def by simp
    then show "P (w\<lparr>gv_repo := repo, gv_controls := controls, gv_tick := n\<rparr>)" by simp
  qed
  show "w_triple P (on_controls op) (\<lambda>_. P) (\<lambda>e w. P w \<and> (\<exists>x c d. e = Raised x \<and> op c = (Inl x, d)))"
    by (rule triple_on_controls) (use assms in \<open>auto simp: stable_def\<close>)
qed

lemma triple_repo_call:
  assumes "stable v P"
    and "\<And>w n tm a s. P w \<Longrightarrow> f (ge_ids v n) tm (gv_repo w) = (Inr a, s) \<Longrightarrow> Q a (w\<lparr>gv_repo := s\<rparr>)"
    and "\<And>w n tm e s. P w \<Longrightarrow> f (ge_ids v n) tm (gv_repo w) = (Inl e, s) \<Longrightarrow> E (Raised e) (w\<lparr>gv_repo := s\<rparr>)"
  shows "w_triple P (repo_call v f) Q E"
  unfolding repo_call_def
proof (rule triple_bind [OF triple_stable(1) [OF assms(1)]], rule triple_bind [OF triple_stable(2) [OF assms(1)]])
  fix tm u
  have t: "P w \<Longrightarrow> P (w\<lparr>gv_tick := n\<rparr>)" for w n using assms(1) by (simp add: stable_def)
  show "w_triple P (w_bind (observe (ge_ids v)) (\<lambda>ids. on_repo (f ids tm))) Q E"
    by (rule triple_bind [where R = "\<lambda>a w. (\<exists>n. a = ge_ids v n) \<and> P w"], rule triple_observe_value, erule t, rule triple_on_repo)
      (auto intro: assms(2,3))
qed

section \<open>Which operations raise gateway errors\<close>

definition res_plain :: "'a res \<Rightarrow> bool" where
  "res_plain x = (\<forall>e. x = Inl e \<longrightarrow> \<not> is_gateway_error (Raised e))"

definition op_plain :: "('s, 'a) op \<Rightarrow> bool" where
  "op_plain m = (\<forall>s e s'. m s = (Inl e, s') \<longrightarrow> \<not> is_gateway_error (Raised e))"

lemma op_plainD: "op_plain m \<Longrightarrow> m s = (Inl e, s') \<Longrightarrow> \<not> is_gateway_error (Raised e)"
  unfolding op_plain_def by blast

lemma res_plain_simps [simp]: "res_plain (Inr a)" "res_plain (Inl e) \<longleftrightarrow> \<not> is_gateway_error (Raised e)"
  "res_plain (require b e) \<longleftrightarrow> b \<or> \<not> is_gateway_error (Raised e)"
  by (auto simp: res_plain_def require_def)

lemma res_plain_bind [intro!]: "res_plain x \<Longrightarrow> (\<And>a. res_plain (k a)) \<Longrightarrow> res_plain (res_bind x k)"
  by (cases x) auto

lemma op_plain_simps [intro, simp]: "op_plain (op_return a)" "op_plain (op_gets f)" "op_plain (op_modify g)"
  "res_plain x \<Longrightarrow> op_plain (op_lift x)" "b \<or> \<not> is_gateway_error (Raised e) \<Longrightarrow> op_plain (op_require b e)"
  "\<not> is_gateway_error (Raised e) \<Longrightarrow> op_plain (op_raise e)"
  by (auto simp: op_plain_def res_plain_def op_eval split: if_splits)

lemma op_plain_bind [intro!]:
  assumes "op_plain m" and "\<And>a. op_plain (k a)"
  shows "op_plain (op_bind m k)"
  using assms unfolding op_plain_def by (metis op_bind_Inl_iff)

lemma freeze_plain: "res_plain (freeze_json x)" "res_plain (freeze_items d kvs)" "res_plain (freeze_seq xs)"
  by (induction x and d kvs and xs rule: freeze_json_freeze_items_freeze_seq.induct) (auto split: pyval.splits)

lemma new_envelope_plain: "res_plain (new_envelope e)"
  unfolding new_envelope_def init_envelope_def check_envelope_def freeze_json_mapping_def require_aware_datetime_def
  by (intro res_plain_bind freeze_plain) (auto split: option.splits)

lemma append_plain: "op_plain (gateway_append r l tm ids n es)"
proof -
  have "op_plain (append_from r l tm ids n sequence causation es)" for n sequence causation
    by (induction es arbitrary: n sequence causation) (auto intro!: op_plain_bind simp: new_envelope_plain)
  then show ?thesis unfolding gateway_append_def by auto
qed

lemma guards_plain: "res_plain (validate_gateway_context tenant r l)" "op_plain (require_fence l tm)" "op_plain (require_active b)"
  "res_plain (dec_lt x y)" "res_plain (usage_totals p response)" "res_plain (pricing_cost p u)"
  by (auto simp: validate_gateway_context_def require_fence_def require_active_def dt_le_def dec_lt_def usage_totals_def pricing_cost_def
      checked_decimal_def split: option.splits)

lemma budgets_plain: "res_plain (check_budgets r q tokens cost tm s)"
proof -
  have "res_plain (res_filter P bs)" if "\<And>b. res_plain (P b)" for P :: "BudgetReservation \<Rightarrow> bool res" and bs
    using that by (induction bs) auto
  then have "res_plain (charged_in_period t start s)" for t start
    by (auto simp: charged_in_period_def dt_le_def split: option.splits)
  then show ?thesis
    unfolding check_budgets_def Let_def deny_over_def billing_period_start_def
    by (intro res_plain_bind guards_plain) (auto split: prod.splits)
qed

lemma repository_plain:
  "op_plain (gateway_completed tenant r l tm)" "op_plain (record_attempt ids tenant r l b provider model n index tm)"
  "op_plain (record_attempt_failure ids tenant r l b err provider model n index tm)" "op_plain (gateway_fail ids tenant r l b err tm)"
  "op_plain (record_usage_failure ids tenant r l b response p err tm)" "op_plain (gateway_reserve ids tenant r l rt q tokens cost pv tm)"
proof -
  show "op_plain (gateway_completed tenant r l tm)"
    unfolding gateway_completed_def by (intro op_plain_bind op_plain_simps(4) guards_plain) auto
  show "op_plain (record_attempt ids tenant r l b provider model n index tm)"
    unfolding record_attempt_def by (intro op_plain_bind op_plain_simps(4) guards_plain append_plain) auto
  show "op_plain (record_attempt_failure ids tenant r l b err provider model n index tm)"
    unfolding record_attempt_failure_def by (intro op_plain_bind op_plain_simps(4) guards_plain append_plain)
  show "op_plain (gateway_fail ids tenant r l b err tm)"
    unfolding gateway_fail_def by (intro op_plain_bind op_plain_simps(3,4) guards_plain append_plain)
  show "op_plain (record_usage_failure ids tenant r l b response p err tm)"
    unfolding record_usage_failure_def split_beta by (intro op_plain_bind op_plain_simps(3,4) guards_plain append_plain)
  have verdict: "op_plain (op_bind (op_gets (check_budgets r q tokens cost tm)) (\<lambda>verdict. op_bind (op_lift verdict) k))"
    if "\<And>u. op_plain (k u)" for k :: "unit \<Rightarrow> (gateway_repo, BudgetReservation) op"
    using that budgets_plain unfolding op_plain_def res_plain_def
    by (auto simp: op_eval split: sum.splits prod.splits)
  show "op_plain (gateway_reserve ids tenant r l rt q tokens cost pv tm)"
    unfolding gateway_reserve_def Let_def
    by (intro op_plain_bind [of "op_lift _"] op_plain_bind [of "op_require _ _"] op_plain_bind [of "require_fence _ _"]
        op_plain_bind [of "op_modify _"] op_plain_bind [of "gateway_append _ _ _ _ _ _"] op_plain_bind [of "op_gets (\<lambda>s. gw_completed s _)"]
        op_plain_bind [of "op_gets (\<lambda>s. gw_inflight s _)"] verdict op_plain_simps(1-4) guards_plain append_plain)
      (auto simp: guards_plain split: option.splits)
qed

lemma controls_plain:
  assumes "op_plain m"
  shows "op_plain (on_known get upd i m)"
  unfolding on_known_def
proof (intro op_plain_bind)
  show "op_plain (op_lift (known vals i))" for vals :: "ModelIdentity \<rightharpoonup> 'a" by (auto simp: known_def split: option.splits)
  show "op_plain (\<lambda>c. case m a of (r, v1) \<Rightarrow> (r, upd (\<lambda>vs. vs(i \<mapsto> v1)) c))" for a
    using assms by (auto simp: op_plain_def split: prod.splits)
qed simp

lemma admit_plain: "op_plain (controls_admit m tokens now1 now2)"
  unfolding controls_admit_def bucket_consume_def by (intro op_plain_bind controls_plain) (auto intro!: op_plain_bind controls_plain)

section \<open>Attempts keep the reservation\<close>

text \<open>\<open>keeps P m E\<close>: \<open>m\<close> keeps \<open>P\<close> when it returns, and an exception satisfies \<open>E\<close>.\<close>

abbreviation keeps :: "(gateway_world \<Rightarrow> bool) \<Rightarrow> (gateway_world, 'a) wop \<Rightarrow> (worker_error \<Rightarrow> gateway_world \<Rightarrow> bool) \<Rightarrow> bool" where
  "keeps P m E \<equiv> w_triple P m (\<lambda>_. P) E"

lemma keeps_bind: "keeps P m E \<Longrightarrow> (\<And>a. keeps P (k a) E) \<Longrightarrow> keeps P (w_bind m k) E"
  by (rule triple_bind)

lemma keeps_option: "keeps P m E \<Longrightarrow> (\<And>a. keeps P (k a) E) \<Longrightarrow> keeps P (case x of None \<Rightarrow> m | Some a \<Rightarrow> k a) E"
  by (cases x) simp_all

lemma keeps_return: "keeps P (w_return a) E"
  by (rule triple_return)

lemma keeps_raise: "keeps P (w_raise e) (\<lambda>_. P)" and raise_plain: "\<not> is_gateway_error e \<Longrightarrow> keeps P (w_raise e) not_gateway"
  and keeps_lift: "keeps P (w_lift x) (\<lambda>_. P)" and lift_plain: "res_plain x \<Longrightarrow> keeps P (w_lift x) not_gateway"
  by (auto intro!: triple_raise triple_lift simp: res_plain_def)

lemma keeps_controls: "stable v P \<Longrightarrow> keeps P (on_controls m) (\<lambda>_. P)"
  by (rule triple_weaken [OF triple_stable(3)]) auto

lemma controls_keep_plain: "stable v P \<Longrightarrow> op_plain m \<Longrightarrow> keeps P (on_controls m) not_gateway"
  by (rule triple_weaken [OF triple_stable(3)]) (auto simp: op_plain_def)

lemma controls_keep_both: "stable v P \<Longrightarrow> op_plain m \<Longrightarrow> keeps P (on_controls m) (\<lambda>e w. P w \<and> \<not> is_gateway_error e)"
  by (rule triple_weaken [OF triple_stable(3)]) (auto simp: op_plain_def)

lemmas keeps_intros = keeps_bind keeps_option keeps_return triple_if

lemma keeps_acquire_semaphore: "stable v P \<Longrightarrow> keeps P (acquire_semaphore v m deadline token) (\<lambda>_. P)"
proof -
  assume s: "stable v P"
  show ?thesis unfolding acquire_semaphore_def Let_def by (intro keeps_intros triple_stable(1,2) [OF s] keeps_raise keeps_controls [OF s])
qed

lemma keeps_wait_for_retry: "stable v P \<Longrightarrow> keeps P (wait_for_retry v token delay) not_gateway"
proof -
  assume s: "stable v P"
  show ?thesis unfolding wait_for_retry_def
    by (intro keeps_bind triple_stable(1,2) [OF s]) (auto intro: keeps_return raise_plain split: wait_outcome.splits)
qed

lemma keeps_from: "keeps P m E \<Longrightarrow> (\<And>w. P w \<Longrightarrow> P (f w)) \<Longrightarrow> keeps P (\<lambda>w. m (f w)) E"
  by (simp add: w_triple_def)

lemma keeps_invoke: "stable v P \<Longrightarrow> keeps P (invoke_model v c m) (\<lambda>_. P)"
proof -
  assume s: "stable v P"
  have "keeps P (w_bind (await_others v) (\<lambda>_. w_bind (observe (\<lambda>n. ge_provider v n m q)) (\<lambda>outcome.
     case outcome of Inl e \<Rightarrow> w_raise e | Inr response \<Rightarrow> w_return response))) (\<lambda>_. P)" for q
    by (intro keeps_bind triple_stable(1,2) [OF s]) (auto intro: keeps_return keeps_raise split: sum.splits)
  then have "keeps P (call_provider v m q) (\<lambda>_. P)" for q
    unfolding call_provider_def by (rule keeps_from) (use s in \<open>simp add: stable_def\<close>)
  then show ?thesis unfolding invoke_model_def Let_def by (intro keeps_intros triple_stable(1,2) [OF s] keeps_raise keeps_lift)
qed

lemma attempt_stored:
  "record_attempt ids tenant r l b provider model n index tm s = (x, s') \<Longrightarrow> stored i s' = stored i s"
  "record_attempt_failure ids tenant r l b err provider model n index tm s = (x, s') \<Longrightarrow> stored i s' = stored i s"
  by (drule attempt_effect attempt_failure_effect; auto simp: annotates_def stored_def)+

lemma holding_frame: "(\<And>i. stored i s = stored i (gv_repo w)) \<Longrightarrow> holding v b w \<Longrightarrow> holding v b (w\<lparr>gv_repo := s\<rparr>)"
  by (simp add: holding_def active_here_def)

lemma keeps_record:
  assumes "undisturbed v"
  shows "keeps (holding v b) (repo_call v (\<lambda>ids tm. record_attempt ids tenant r l b1 provider model n index tm)) not_gateway"
    and "keeps (holding v b) (repo_call v (\<lambda>ids tm. record_attempt_failure ids tenant r l b1 err provider model n index tm)) not_gateway"
  by (rule triple_repo_call [OF stable_holding [OF assms]];
      auto intro: holding_frame attempt_stored dest: op_plainD [OF repository_plain(2)] op_plainD [OF repository_plain(3)])+

lemma retry_delay_plain: "res_plain (retry_delay_seconds p e attempt)"
  unfolding retry_delay_seconds_def backoff_delay_def Let_def by (auto split: py_error.splits option.splits)

lemma keeps_handle_error:
  assumes "undisturbed v"
  shows "keeps (holding v b) (handle_attempt_error g v c m index attempt started e) not_gateway"
  unfolding handle_attempt_error_def Let_def
  by (intro keeps_intros triple_stable(1) [OF stable_holding [OF assms]] keeps_record [OF assms] lift_plain retry_delay_plain
      keeps_wait_for_retry [OF stable_holding [OF assms]])

lemma keeps_attempt:
  assumes "undisturbed v"
  shows "keeps (holding v b) (attempt_once g v c m index attempt) not_gateway"
proof -
  note s = stable_holding [OF assms, of b]
  have h: "keeps (holding v b) (handle_attempt_error g v c m index attempt started e) not_gateway" for started e
    by (rule keeps_handle_error [OF assms])
  have "keeps (holding v b) (try_gateway (invoke_model v c m) (handle_attempt_error g v c m index attempt True)
      (\<lambda>response. w_return (Responded response))) not_gateway"
    by (rule triple_try_gateway [OF keeps_invoke [OF s] h keeps_return])
  then have "keeps (holding v b) (try_gateway (repo_call v (\<lambda>ids tm. record_attempt ids (mc_tenant c) (mc_request c) (mc_lease c) (mc_reservation c)
            (mi_provider m) (mi_model m) attempt index tm)) (handle_attempt_error g v c m index attempt False) (\<lambda>_.
        try_gateway (invoke_model v c m) (handle_attempt_error g v c m index attempt True) (\<lambda>response.
        w_return (Responded response)))) not_gateway"
    by (intro triple_try_gateway [OF keeps_record(1) [OF assms]]) auto
  moreover have "w_triple Q (release_permit m) (\<lambda>_. Q) not_gateway" if "\<And>w c. Q w \<Longrightarrow> Q (w\<lparr>gv_controls := c\<rparr>)" for Q
    unfolding release_permit_def using that op_plainD [OF controls_plain [OF op_plain_simps(3)]]
    by (intro triple_on_controls) blast+
  then have "keeps (holding v b) (release_permit m) not_gateway"
    "w_triple (\<lambda>_. \<not> is_gateway_error e) (release_permit m) (\<lambda>_ _. \<not> is_gateway_error e) not_gateway" for e
    using s by (simp_all add: stable_def)
  ultimately have "keeps (holding v b) (w_finally (try_gateway (repo_call v (\<lambda>ids tm. record_attempt ids (mc_tenant c) (mc_request c) (mc_lease c)
            (mc_reservation c) (mi_provider m) (mi_model m) attempt index tm)) (handle_attempt_error g v c m index attempt False) (\<lambda>_.
        try_gateway (invoke_model v c m) (handle_attempt_error g v c m index attempt True) (\<lambda>response.
        w_return (Responded response)))) (release_permit m)) not_gateway"
    by (rule triple_finally)
  then show ?thesis
    unfolding attempt_once_def by (intro triple_try_gateway [OF keeps_acquire_semaphore [OF s] h])
qed

lemma keeps_attempt_loop:
  assumes "undisturbed v"
  shows "keeps (holding v b) (attempt_loop g v c m index last_error as) not_gateway"
proof (induction as arbitrary: last_error)
  case Nil
  then show ?case by (simp add: keeps_return)
next
  case (Cons a as)
  note s = stable_holding [OF assms, of b]
  have "keeps (holding v b) (case outcome of
       Responded response \<Rightarrow> w_bind (on_controls (on_circuit m (op_modify circuit_succeed))) (\<lambda>_. w_return (Some response, None))
     | GaveUp e \<Rightarrow> w_return (None, Some e)
     | TryAgain e \<Rightarrow> attempt_loop g v c m index (Some e) as) not_gateway" for outcome
    using Cons.IH by (cases outcome) (auto intro!: keeps_bind keeps_return controls_keep_plain [OF s] controls_plain)
  then show ?case
    unfolding attempt_loop.simps admit_attempt_def
    by (intro keeps_intros triple_stable(1) [OF s] controls_keep_plain [OF s] admit_plain keeps_attempt [OF assms])
qed

lemma circuit_acquire_plain: "op_plain (circuit_acquire now)"
  unfolding circuit_acquire_def by auto

lemma keeps_acquire_circuit:
  assumes "stable v P"
  shows "keeps P (acquire_circuit v m) not_gateway"
  unfolding acquire_circuit_def
proof (rule triple_try)
  show "keeps P (w_bind (observe (ge_monotonic v)) (\<lambda>now.
        w_bind (on_controls (on_circuit m (circuit_acquire now))) (\<lambda>_.
        w_bind (observe (ge_monotonic v)) (\<lambda>now2.
        w_bind (on_controls (on_circuit m (op_gets (circuit_state now2)))) (\<lambda>state.
        w_return (Some (state = CIRCUIT_HALF_OPEN))))))) (\<lambda>e w. P w \<and> \<not> is_gateway_error e)"
    by (intro keeps_bind triple_stable(1) [OF assms] keeps_return controls_keep_both [OF assms] controls_plain circuit_acquire_plain op_plain_simps)
next
  show "w_triple (\<lambda>w. P w \<and> \<not> is_gateway_error e) (case e of Raised (CircuitOpenError reason) \<Rightarrow> w_return None | _ \<Rightarrow> w_raise e) (\<lambda>_. P) not_gateway" for e
  proof (cases e)
    case (Raised x)
    then show ?thesis by (cases x) (simp_all add: triple_return triple_raise)
  qed (simp_all add: triple_raise)
qed

lemma keeps_report_health: "stable v P \<Longrightarrow> keeps P (report_health v m e) not_gateway"
proof -
  assume s: "stable v P"
  show ?thesis unfolding report_health_def
    by (intro keeps_intros triple_stable(1) [OF s] controls_keep_plain [OF s] controls_plain op_plain_simps)
qed

lemma keeps_try_model:
  assumes "undisturbed v"
  shows "keeps (holding v b) (try_model g v c candidate index) not_gateway"
proof -
  note s = stable_holding [OF assms, of b]
  let ?m = "ce_identity candidate"
  have f: "keeps (holding v b) (if probe then on_controls (on_circuit ?m (op_modify circuit_release_probe)) else w_return ()) not_gateway" for probe
    by (intro triple_if keeps_return controls_keep_plain [OF s] controls_plain op_plain_simps)
  have e: "w_triple (\<lambda>_. \<not> is_gateway_error e) (if probe then on_controls (on_circuit ?m (op_modify circuit_release_probe)) else w_return ())
      (\<lambda>_ _. \<not> is_gateway_error e) not_gateway" for e probe
    by (intro triple_if triple_return triple_on_controls) (auto dest: op_plainD [OF controls_plain [OF op_plain_simps(3)]])
  have r: "keeps (holding v b) (case p of (response, last_error) \<Rightarrow> (case response of
            Some answer \<Rightarrow> w_return (Some answer, None)
          | None \<Rightarrow> w_bind (report_health v ?m last_error) (\<lambda>_. w_return (None, last_error)))) not_gateway" for p
    by (cases p) (auto intro!: keeps_intros keeps_report_health [OF s])
  show ?thesis
    unfolding try_model_def Let_def
    by (intro keeps_bind keeps_acquire_circuit [OF s] keeps_option keeps_return lift_plain r
        triple_finally [OF keeps_attempt_loop [OF assms] f e]) simp
qed

section \<open>What ends a call\<close>

lemma append_completed [simp]: "gw_completed (snd (gateway_append r l tm ids n es s)) = gw_completed s"
proof -
  have "gw_completed (snd (append_from r l tm ids n sequence causation es s)) = gw_completed s" for n sequence causation s
    by (induction es arbitrary: n sequence causation s) (auto simp: op_eval split: sum.splits)
  then show ?thesis by (simp add: gateway_append_def op_eval)
qed

lemma append_stored: "gateway_append r l tm ids n es s = (x, s') \<Longrightarrow> stored i s' = stored i s"
  using gateway_append_frame(1) [of r l tm ids n es s] by (simp add: stored_def)

lemma stored_settle: "stored i (settle r b s) = (if i = br_reservation_id b then Some b else stored i s)"
  by (simp add: settle_def stored_def update_conv')

text \<open>An operation that replaces the record of a reservation by an inactive one.\<close>

definition closes :: "uuid \<Rightarrow> gateway_repo \<Rightarrow> gateway_repo \<Rightarrow> bool" where
  "closes k s s' \<longleftrightarrow> (\<exists>b. \<not> br_active b \<and> (\<forall>i. stored i s' = (if i = k then Some b else stored i s)))"

lemma closesI:
  assumes "gateway_append r l tm ids n es (settle r b1 s1) = (x, s')" and "\<not> br_active b1" and "\<And>i. stored i s1 = stored i s"
  shows "closes (br_reservation_id b1) s s'"
  unfolding closes_def using assms(2,3) append_stored [OF assms(1)] by (auto simp: stored_settle)

lemma succeed_done:
  assumes "gateway_succeed ids tenant r l b response p tm s = (Inr u, s')"
  shows "closes (br_reservation_id b) s s' \<and> completed_as r response s'"
proof -
  obtain tokens cost where a: "gateway_append r l tm ids 0 (success_events r b response p tokens cost)
      (settle r (charged_reservation b tokens cost tm) (s\<lparr>gw_completed :=
       (gw_completed s)((mq_tenant_id r, mq_idempotency_key r) \<mapsto> (request_content_digest r, response))\<rparr>)) = (Inr (), s')"
    using assms unfolding gateway_succeed_def split_beta
    by - ((erule reads_bindE, simp, simp)+, auto simp: op_bind_def op_modify_def)
  have "closes (br_reservation_id (charged_reservation b tokens cost tm)) s s'"
    by (rule closesI [OF a]) (simp_all add: charged_reservation_def stored_def)
  moreover have "gw_completed s' = (gw_completed s)((mq_tenant_id r, mq_idempotency_key r) \<mapsto> (request_content_digest r, response))"
    using append_completed [of r l tm ids 0 "success_events r b response p tokens cost"] a by (metis (no_types, lifting) snd_conv settle_def
      gateway_repo.select_convs(5) gateway_repo.surjective gateway_repo.update_convs(3,4,5))
  ultimately show ?thesis by (simp add: charged_reservation_def completed_as_def)
qed

lemma succeed_refused:
  assumes "gateway_succeed ids tenant r l b response p tm s = (Inl e, s')" and "is_gateway_error (Raised e)"
  shows "s' = s"
  using assms(1) op_plainD [OF append_plain _] assms(2) unfolding gateway_succeed_def split_beta
  by - ((erule reads_bindE, simp, simp)+, auto simp: op_bind_def op_modify_def)

lemma failure_done:
  "gateway_fail ids tenant r l b err tm s = (Inr u, s') \<Longrightarrow> closes (br_reservation_id b) s s'"
  "record_usage_failure ids tenant r l b response p err tm s = (Inr u, s') \<Longrightarrow> closes (br_reservation_id b) s s'"
proof -
  assume "gateway_fail ids tenant r l b err tm s = (Inr u, s')"
  then have "gateway_append r l tm ids 0 (failure_events r b err) (settle r (released_reservation b tm) s) = (Inr u, s')"
    unfolding gateway_fail_def by - ((erule reads_bindE, simp, simp)+, auto simp: op_bind_def op_modify_def)
  then show "closes (br_reservation_id b) s s'" by (drule_tac closesI) (auto simp: released_reservation_def)
next
  assume "record_usage_failure ids tenant r l b response p err tm s = (Inr u, s')"
  then obtain tokens cost where
    "gateway_append r l tm ids 0 (usage_failure_events r b response p err tokens cost) (settle r (charged_reservation b tokens cost tm) s) = (Inr u, s')"
    unfolding record_usage_failure_def split_beta by - ((erule reads_bindE, simp, simp)+, auto simp: op_bind_def op_modify_def)
  then show "closes (br_reservation_id b) s s'" by (drule_tac closesI) (auto simp: charged_reservation_def)
qed

lemma reserve_done:
  assumes "gateway_reserve ids tenant r l rt q tokens cost pv tm s = (Inr b, s')"
  shows "br_reservation_id b = ids 0 \<and> (\<forall>i. i \<noteq> ids 0 \<longrightarrow> stored i s' = stored i s)"
proof -
  let ?b = "new_reservation (ids 0) r l tokens cost pv tm"
  have "gateway_append r l tm ids 1 (reserved_events r l rt ?b) (admit_reservation r ?b s) = (Inr (), s') \<and> b = ?b"
    using assms unfolding gateway_reserve_def Let_def
    by - ((erule reads_bindE, simp, simp)+, auto simp: op_bind_def op_modify_def op_return_def split: prod.splits sum.splits)
  then show ?thesis using append_stored [of r l tm ids 1 "reserved_events r l rt ?b" "admit_reservation r ?b s" "Inr ()" s']
    by (auto simp: new_reservation_def admit_reservation_def stored_def update_conv')
qed

lemma completed_found:
  assumes "gateway_completed tenant r l tm s = (Inr (Some response), s')"
  shows "s' = s \<and> completed_as r response s"
  using assms unfolding gateway_completed_def
  by - ((erule reads_bindE, simp, simp)+,
      auto simp: op_lift_def op_gets_def validate_gateway_context_def completed_as_def res_bind_Inr_iff split: option.splits if_splits)

text \<open>The postconditions of a call: when it returns, and when it raises.\<close>

definition answered :: "gateway_env \<Rightarrow> ModelRequest \<Rightarrow> ModelResponse \<Rightarrow> gateway_world \<Rightarrow> bool" where
  "answered v r response w \<longleftrightarrow> settled_all v w \<and> completed_as r response (gv_repo w)"

abbreviation settled_if_gateway :: "gateway_env \<Rightarrow> worker_error \<Rightarrow> gateway_world \<Rightarrow> bool" where
  "settled_if_gateway v e w \<equiv> is_gateway_error e \<longrightarrow> settled_all v w"

lemma closes_settled: "holding v b w \<Longrightarrow> closes (br_reservation_id b) (gv_repo w) s \<Longrightarrow> settled_all v (w\<lparr>gv_repo := s\<rparr>)"
  unfolding holding_def settled_all_def active_here_def closes_def by (simp, metis option.inject)

lemma fail_call_settles:
  assumes "undisturbed v"
  shows "w_triple (holding v (mc_reservation c)) (fail_call v c e) Q (settled_if_gateway v)"
  unfolding fail_call_def Let_def
  by (rule triple_bind [where R = "\<lambda>_. settled_all v"], rule triple_repo_call [OF stable_holding [OF assms]])
    (auto intro: closes_settled failure_done(1) triple_raise dest: op_plainD [OF repository_plain(4)])

lemma settle_response_settles:
  assumes "undisturbed v"
  shows "w_triple (holding v (mc_reservation c)) (settle_response v c candidate response)
    (answered v (mc_request c)) (settled_if_gateway v)"
  unfolding settle_response_def
proof (rule triple_try_gateway)
  show "w_triple (holding v (mc_reservation c))
     (w_bind (w_lift (gateway_validate_response v (mc_request c) response (ce_identity candidate))) (\<lambda>_.
        repo_call v (\<lambda>ids tm. gateway_succeed ids (mc_tenant c) (mc_request c) (mc_lease c) (mc_reservation c) response
          (ce_pricing candidate) tm)))
     (\<lambda>_. answered v (mc_request c) response) (\<lambda>e w. is_gateway_error e \<longrightarrow> holding v (mc_reservation c) w)"
  proof (rule triple_bind [where R = "\<lambda>_. holding v (mc_reservation c)"], rule triple_lift)
    show "w_triple (holding v (mc_reservation c)) (repo_call v (\<lambda>ids tm. gateway_succeed ids (mc_tenant c) (mc_request c) (mc_lease c)
        (mc_reservation c) response (ce_pricing candidate) tm)) (\<lambda>_. answered v (mc_request c) response)
        (\<lambda>e w. is_gateway_error e \<longrightarrow> holding v (mc_reservation c) w)"
      by (rule triple_repo_call [OF stable_holding [OF assms]])
        (auto simp: answered_def dest!: succeed_done intro: closes_settled dest: succeed_refused)
  qed auto
  show "w_triple (\<lambda>w. is_gateway_error (Raised x) \<longrightarrow> holding v (mc_reservation c) w)
     (w_bind (repo_call v (\<lambda>ids tm. record_usage_failure ids (mc_tenant c) (mc_request c) (mc_lease c) (mc_reservation c) response
          (ce_pricing candidate) x tm)) (\<lambda>_. w_raise (Raised x))) (answered v (mc_request c)) (settled_if_gateway v)"
    if "is_gateway_error (Raised x)" for x
    using that
    by (intro triple_bind [where R = "\<lambda>_. settled_all v"], simp, intro triple_repo_call [OF stable_holding [OF assms]])
      (auto intro: closes_settled failure_done(2) triple_raise dest: op_plainD [OF repository_plain(5)])
  show "w_triple (answered v (mc_request c) response) (w_bind (w_lift (pricing_cost (ce_pricing candidate) (mp_usage response)))
      (\<lambda>_. w_return response)) (answered v (mc_request c)) (settled_if_gateway v)"
    by (rule triple_bind [where R = "\<lambda>_. answered v (mc_request c) response"], rule triple_lift)
      (auto simp: answered_def intro: triple_return)
qed simp

lemma try_candidates_settles:
  assumes "undisturbed v"
  shows "w_triple (holding v (mc_reservation c)) (try_candidates g v c index last_error es) (answered v (mc_request c)) (settled_if_gateway v)"
proof (induction es arbitrary: index last_error)
  case Nil
  then show ?case by (simp add: fail_call_settles [OF assms])
next
  case (Cons e es)
  have "keeps (holding v (mc_reservation c)) (try_model g v c e index) (settled_if_gateway v)"
    by (rule triple_weaken [OF keeps_try_model [OF assms]]) auto
  then show ?case
    unfolding try_candidates.simps
    by (rule triple_bind) (auto intro!: fail_call_settles [OF assms] settle_response_settles [OF assms] Cons.IH split: prod.splits option.splits)
qed

lemma open_circuits_keeps: "stable v P \<Longrightarrow> keeps P (open_circuits v es) not_gateway"
proof (induction es)
  case (Cons e es)
  then show ?case
    by (auto intro!: keeps_bind keeps_return triple_stable(1) [OF Cons.prems] controls_keep_plain [OF Cons.prems] controls_plain)
qed (simp add: keeps_return)

lemma reservation_cost_plain: "res_plain (reservation_cost r es)"
proof -
  have e: "res_plain (estimate_cost p n k)" for p n k by (simp add: estimate_cost_def Let_def checked_decimal_def)
  have "res_plain (largest_estimate r x es)" for x es by (induction es arbitrary: x) (auto simp: e)
  then show ?thesis by (auto simp: reservation_cost_def e split: list.splits)
qed

lemma route_plain: "res_plain (route r catalog p environment unavailable preference)"
  unfolding route_def Let_def catalog_get_def by (auto split: option.splits)

lemma keeps_weak: "keeps (settled_all v) m not_gateway \<Longrightarrow> keeps (settled_all v) m (settled_if_gateway v)"
  by (erule triple_weaken) auto

lemma gateway_complete_settles:
  assumes "undisturbed v"
  shows "w_triple (settled_all v) (gateway_complete g v tenant r l policy environment preference token) (answered v r) (settled_if_gateway v)"
proof -
  note s = stable_settled [OF assms]
  have reserve: "w_triple (settled_all v) (repo_call v (\<lambda>ids tm. gateway_reserve ids tenant r l rt q tokens cost pv tm))
      (\<lambda>b. holding v b) (settled_if_gateway v)" for rt q tokens cost pv
    by (rule triple_repo_call [OF s])
      (auto simp: holding_def settled_all_def active_here_def dest: op_plainD [OF repository_plain(6)] dest!: reserve_done)
  have first: "w_triple (settled_all v) (repo_call v (\<lambda>ids tm. gateway_completed tenant r l tm))
      (\<lambda>cached w. settled_all v w \<and> (\<forall>response. cached = Some response \<longrightarrow> completed_as r response (gv_repo w))) (settled_if_gateway v)"
  proof (rule triple_repo_call [OF s])
    fix w tm a s1
    assume "settled_all v w" and "gateway_completed tenant r l tm (gv_repo w) = (Inr a, s1)"
    moreover have "reads (gateway_completed tenant r l tm)" unfolding gateway_completed_def by (intro reads_bind) auto
    ultimately have "s1 = gv_repo w" "settled_all v w" "\<And>response. a = Some response \<Longrightarrow> completed_as r response s1"
      by (simp add: reads_def, blast, auto dest: completed_found)
    then show "settled_all v (w\<lparr>gv_repo := s1\<rparr>) \<and> (\<forall>response. a = Some response \<longrightarrow> completed_as r response (gv_repo (w\<lparr>gv_repo := s1\<rparr>)))"
      by simp
  qed (auto dest: op_plainD [OF repository_plain(1)])
  have rest: "w_triple (settled_all v)
      (w_bind (open_circuits v (catalog_entries (mg_catalog g))) (\<lambda>unavailable.
         w_bind (observe (ge_loop_time v)) (\<lambda>time.
         w_bind (w_lift (route r (mg_catalog g) policy environment unavailable preference)) (\<lambda>rt.
         w_bind (w_lift (reservation_cost r (cands rt))) (\<lambda>cost.
         w_bind (repo_call v (\<lambda>ids tm. gateway_reserve ids tenant r l rt q n cost (pv_version (ce_pricing (rd_selected rt))) tm)) (\<lambda>b.
         try_candidates g v \<lparr>mc_tenant = tenant, mc_request = r, mc_lease = l, mc_token = token,
             mc_deadline = time + mq_timeout_seconds r, mc_reservation = b\<rparr> 0 None (cands rt)))))))
      (answered v r) (settled_if_gateway v)" for cands q n
    by (rule triple_bind [OF keeps_weak [OF open_circuits_keeps [OF s]]], rule triple_bind [OF triple_stable(1) [OF s]],
        rule triple_bind [OF keeps_weak [OF lift_plain [OF route_plain]]],
        rule triple_bind [OF keeps_weak [OF lift_plain [OF reservation_cost_plain]]],
        rule triple_bind [OF reserve], rule triple_weaken [OF try_candidates_settles [OF assms]]) simp_all
  have validated: "keeps (settled_all v) (w_lift (gateway_validate_request v r)) (settled_if_gateway v)" by (rule triple_lift) simp_all
  show ?thesis
    unfolding gateway_complete_def Let_def
  proof (rule triple_bind [OF validated], rule triple_bind [OF first], goal_cases)
    case (1 u cached)
    then show ?case
      using rest by (cases cached) (auto intro: triple_return simp: answered_def elim: triple_weaken)
  qed
qed

section \<open>Settlement of a call\<close>

text \<open>
  C17: a call leaves no budget reserved. As long as other tasks leave the reservations of this call alone, a call that returns an answer has
  settled every reservation it made and recorded the answer under the request's idempotency key, and a call that fails with a
  \<^verbatim>\<open>ModelGatewayError\<close> has settled every reservation too, whatever providers, clocks, rate limits, circuits and concurrent tasks did.
\<close>

theorem gateway_call_settles_budget:
  assumes "undisturbed v" and "settled_all v w"
    and "gateway_complete g v tenant r l policy environment preference token w = (x, w')"
  shows "(case x of Inr response \<Rightarrow> settled_all v w' \<and> completed_as r response (gv_repo w')
    | Inl e \<Rightarrow> is_gateway_error e \<longrightarrow> settled_all v w')"
  using tripleD [OF gateway_complete_settles [OF assms(1)] assms(2)] assms(3) by (cases x) (auto simp: answered_def)

definition sample_gateway :: ModelGateway where
  "sample_gateway = \<lparr>mg_catalog = [(ce_identity sample_entry, sample_entry)], mg_providers = [''fake''],
     mg_retry_policy = \<lparr>rp_max_attempts = 3, rp_max_failovers = 1, rp_backoff = default_backoff\<rparr>\<rparr>"

definition sample_gateway_policy :: TenantPolicy where
  "sample_gateway_policy = sample_policy\<lparr>tp_allowed_environments := [''production''], tp_allowed_providers := [''fake''],
     tp_allowed_data_residencies := [''eu'']\<rparr>"

definition sample_gateway_env :: gateway_env where
  "sample_gateway_env = \<lparr>ge_clock = (\<lambda>_. dt_of_instant 0), ge_loop_time = (\<lambda>_. 0), ge_monotonic = (\<lambda>_. 0), ge_ids = (\<lambda>_. call_ids),
     ge_provider = (\<lambda>_ _ _. Inr (sample_response 40)), ge_cancelled = (\<lambda>_. False), ge_wait = (\<lambda>_ _. WaitEnded), ge_others = (\<lambda>_ p. p),
     ge_schema_ok = (\<lambda>_. True), ge_instance_ok = (\<lambda>_ _. True)\<rparr>"

definition sample_controls :: ProviderControls where
  "sample_controls =
     \<lparr>pc_semaphores = [ce_identity sample_entry \<mapsto> 2],
      pc_request_buckets = [ce_identity sample_entry \<mapsto>
        \<lparr>tb_capacity = 60, tb_refill_per_second = 1, tb_tokens = 60, tb_updated_at = 0\<rparr>],
      pc_token_buckets = [ce_identity sample_entry \<mapsto>
        \<lparr>tb_capacity = 60, tb_refill_per_second = 1, tb_tokens = 60, tb_updated_at = 0\<rparr>],
      pc_circuits = [ce_identity sample_entry \<mapsto>
        \<lparr>cb_failure_threshold = 3, cb_recovery_seconds = 30, cb_failures = 0, cb_opened_at = None, cb_half_open_inflight = False\<rparr>]\<rparr>"

definition sample_gateway_world :: gateway_world where
  "sample_gateway_world = \<lparr>gv_repo = new_gateway_repo [gateway_lease], gv_controls = sample_controls, gv_tick = 0, gv_calls = []\<rparr>"

lemma sample_controls_built: "new_ProviderControls [ce_identity sample_entry] 2 60 60 3 0 = Inr sample_controls"
  by (simp add: new_ProviderControls_def per_model_def new_TokenBucket_def new_CircuitBreaker_def sample_controls_def)

definition sample_decision :: RouteDecision where
  "sample_decision = \<lparr>rd_selected = sample_entry, rd_candidates = [sample_entry],
     rd_rationale = [''tenant_policy_allowed'', ''capabilities_matched'', ''cost_preference'']\<rparr>"

lemma sample_routed:
  "route sample_model_request (mg_catalog sample_gateway) sample_gateway_policy PRODUCTION [] PREFER_COST = Inr sample_decision"
  by (simp add: route_def sample_gateway_def sample_gateway_policy_def sample_policy_def sample_model_request_def catalog_entries_def Let_def
      route_failures_def policy_failures_def reason_if_def sample_entry_def uses_vision_def sample_decision_def)

lemma sample_cost: "reservation_cost sample_model_request [sample_entry] = Inr (Dec False 0 0)"
proof -
  have d: "digit_count 0 = 1" by (simp add: digit_count.simps)
  show ?thesis
    by (simp add: reservation_cost_def estimate_cost_def prices_def sample_entry_def sample_pricing_def sample_model_request_def Let_def dec_max_def
        dec_less_def pow10_def dec_mult_def dec_of_int_def dec_fix_def d signed_def per_million_def dec_divide_def checked_decimal_def)
qed

definition sample_hold :: BudgetReservation where
  "sample_hold = new_reservation 100 sample_model_request gateway_lease 100 (Dec False 0 0) ''p1'' (dt_of_instant 0)"

lemma sample_context: "validate_gateway_context ''acme'' sample_model_request gateway_lease = Inr ()"
  by (simp add: validate_gateway_context_def sample_model_request_def gateway_lease_def)

lemma sample_time: "dt_aware (dt_of_instant 0)" "py_strip (mq_tenant_id sample_model_request) \<noteq> []"
  by (simp_all add: sample_model_request_def py_strip_def strip_by_def py_isspace_def)

lemma sample_within_budget:
  "check_budgets sample_model_request sample_quotas 100 (Dec False 0 0) (dt_of_instant 0) (new_gateway_repo [gateway_lease]) = Inr ()"
proof -
  have d: "digit_count 0 = 1" by (simp add: digit_count.simps)
  have "dec_add (Dec False 0 0) (Dec False 0 0) = Dec False 0 0" by (simp add: dec_add_def signed_def dec_fix_def d)
  then show ?thesis
    by (simp add: check_budgets_def first_period charged_in_period_def active_of_tenant_def charged_of_run_def reservations_of_def new_gateway_repo_def
        committed_tokens_def committed_cost_def dec_sum_def deny_over_def dec_lt_def dec_less_def sample_quotas_def pow10_def)
qed

lemma sample_reserves:
  "\<exists>s. gateway_reserve call_ids ''acme'' sample_model_request gateway_lease sample_decision sample_quotas 100 (Dec False 0 0) ''p1'' (dt_of_instant 0)
      (new_gateway_repo [gateway_lease]) = (Inr sample_hold, s)
    \<and> gw_reservations s = [(100, sample_hold)] \<and> gw_active_leases s = gw_active_leases (new_gateway_repo [gateway_lease])"
proof -
  let ?s = "new_gateway_repo [gateway_lease]"
  have i: "call_ids 0 = 100" by (simp add: call_ids_def)
  have c: "dec_lt (Dec False 0 0) (dec_of_int 0) = Inr False" by (simp add: dec_lt_def dec_less_def dec_of_int_def pow10_def)
  have f: "require_fence gateway_lease (dt_of_instant 0) ?s = (Inr (), ?s)" by (rule fence_passed) simp_all
  have e: "gw_completed ?s k = None" "gw_inflight ?s k = None" "gw_reservations ?s = []" for k by (simp_all add: new_gateway_repo_def)
  obtain sequence where a: "gateway_append sample_model_request gateway_lease (dt_of_instant 0) call_ids 1
      (reserved_events sample_model_request gateway_lease sample_decision sample_hold) (admit_reservation sample_model_request sample_hold ?s)
      = (Inr (), (admit_reservation sample_model_request sample_hold ?s)\<lparr>gw_events := gw_events (admit_reservation sample_model_request sample_hold ?s)
          @ appended sample_model_request gateway_lease (dt_of_instant 0) call_ids 1 sequence None
            (reserved_events sample_model_request gateway_lease sample_decision sample_hold)\<rparr>)"
    using gateway_append_eq [of "reserved_events sample_model_request gateway_lease sample_decision sample_hold" "dt_of_instant 0"
        sample_model_request, OF reserved_events_ok(1) sample_time] by blast
  have "br_reservation_id sample_hold = 100" by (simp add: sample_hold_def new_reservation_def)
  then show ?thesis
    unfolding gateway_reserve_def Let_def
    by (simp add: op_eval sample_context c f e i sample_within_budget sample_hold_def [symmetric] a [unfolded One_nat_def]) (simp add: admit_reservation_def e(3))
qed

lemma sample_fails:
  assumes "gw_reservations s = [(100, sample_hold)]" and "gw_active_leases s = gw_active_leases (new_gateway_repo [gateway_lease])"
  shows "\<exists>s1. gateway_fail call_ids ''acme'' sample_model_request gateway_lease sample_hold err (dt_of_instant 0) s = (Inr (), s1)"
proof -
  have i: "br_reservation_id sample_hold = 100" "br_active sample_hold" by (simp_all add: sample_hold_def new_reservation_def)
  have a: "require_active sample_hold s = (Inr (), s)" by (simp add: require_active_def op_eval assms(1) i)
  have f: "require_fence gateway_lease (dt_of_instant 0) s = (Inr (), s)" by (rule fence_passed [OF assms(2)]) simp_all
  show ?thesis
    using gateway_append_eq [of "failure_events sample_model_request sample_hold err" "dt_of_instant 0" sample_model_request gateway_lease call_ids 0
        "settle sample_model_request (released_reservation sample_hold (dt_of_instant 0)) s", OF failure_events_ok(1) sample_time]
    unfolding gateway_fail_def by (simp add: op_eval sample_context a f) (metis prod.case sum.case(2))
qed

abbreviation rate_limited :: py_error where
  "rate_limited \<equiv> ModelGatewayError ME_RATE_LIMIT ''local_rate_limit'' True None False"

lemma sample_tries:
  assumes "gv_controls w = sample_controls" and "mc_request c = sample_model_request"
  shows "\<exists>w1. try_model sample_gateway sample_gateway_env c sample_entry 0 w = (Inr (None, Some rate_limited), w1) \<and> gv_repo w1 = gv_repo w"
proof -
  have k: "on_controls (on_circuit (ce_identity sample_entry) (circuit_acquire 0)) w = (Inr (), w)"
    "on_controls (on_circuit (ce_identity sample_entry) (op_gets (circuit_state 0))) w = (Inr CIRCUIT_CLOSED, w)"
    if "gv_controls w = sample_controls" for w
    using that by (cases w; simp add: on_controls_def on_known_def known_def sample_controls_def op_eval circuit_state_def circuit_acquire_def)+
  have a: "acquire_circuit sample_gateway_env (ce_identity sample_entry) w = (Inr (Some False), w\<lparr>gv_tick := gv_tick w + 2\<rparr>)"
    unfolding acquire_circuit_def using assms(1) by (simp add: w_defs observe_def sample_gateway_env_def k)
  have m: "admit_attempt sample_gateway_env c (ce_identity sample_entry) u = (Inr False, u\<lparr>gv_tick := gv_tick u + 2\<rparr>)"
    if "gv_controls u = sample_controls" for u
    unfolding admit_attempt_def using assms(2) that
    by (cases u) (simp add: w_defs observe_def sample_gateway_env_def on_controls_def controls_admit_def on_known_def known_def op_eval
        sample_controls_def sample_model_request_def)
  have l: "\<exists>as. map int [1..<nat (rp_max_attempts (mg_retry_policy sample_gateway)) + 1] = 1 # as" by (simp add: sample_gateway_def upt_rec)
  have p: "mi_provider (ce_identity sample_entry) \<in> set (mg_providers sample_gateway)" by (simp add: sample_gateway_def sample_entry_def)
  show ?thesis
    unfolding try_model_def Let_def using l p assms(1)
    by (auto simp: w_bind_def [of "acquire_circuit _ _"] a w_bind_def w_lift_def w_return_def w_finally_def m report_health_def on_controls_def on_known_def
        known_def op_eval sample_controls_def simp del: upt_Suc split: option.splits)
qed

lemma sample_repo_call:
  "repo_call sample_gateway_env f w = (case f call_ids (dt_of_instant 0) (gv_repo w) of
     (Inl e, s) \<Rightarrow> (Inl (Raised e), w\<lparr>gv_repo := s, gv_tick := gv_tick w + 3\<rparr>)
   | (Inr a, s) \<Rightarrow> (Inr a, w\<lparr>gv_repo := s, gv_tick := gv_tick w + 3\<rparr>))"
  by (cases w) (auto simp: repo_call_def w_bind_def observe_def await_others_def on_repo_def sample_gateway_env_def split: prod.splits sum.splits)

lemma sample_rate_limited:
  "fst (gateway_complete sample_gateway sample_gateway_env ''acme'' sample_model_request gateway_lease sample_gateway_policy PRODUCTION PREFER_COST
     False sample_gateway_world) = Inl (Raised (ModelGatewayError ME_RATE_LIMIT ''local_rate_limit'' True None False))"
proof -
  let ?s = "new_gateway_repo [gateway_lease]"
  obtain s where r: "gateway_reserve call_ids ''acme'' sample_model_request gateway_lease sample_decision sample_quotas 100 (Dec False 0 0) ''p1''
      (dt_of_instant 0) ?s = (Inr sample_hold, s)"
    and s: "gw_reservations s = [(100, sample_hold)]" "gw_active_leases s = gw_active_leases ?s"
    using sample_reserves by blast
  obtain s1 where f: "gateway_fail call_ids ''acme'' sample_model_request gateway_lease sample_hold
      (ModelGatewayError ME_RATE_LIMIT ''local_rate_limit'' True None False) (dt_of_instant 0) s = (Inr (), s1)"
    using sample_fails [OF s] by blast
  have c: "gateway_completed ''acme'' sample_model_request gateway_lease (dt_of_instant 0) ?s = (Inr None, ?s)"
    using fence_passed [of ?s 0] unfolding gateway_completed_def by (simp add: op_eval sample_context) (simp add: new_gateway_repo_def)
  have q: "mq_tools sample_model_request = []" "mq_response_schema sample_model_request = None" "mq_prompt_token_estimate sample_model_request = 40"
      "mq_max_output_tokens sample_model_request = 60" "mq_timeout_seconds sample_model_request = 30" by (simp_all add: sample_model_request_def)
  have p: "tp_quotas sample_gateway_policy = sample_quotas" by (simp add: sample_gateway_policy_def sample_policy_def)
  have e: "pv_version (ce_pricing sample_entry) = ''p1''" "mi_provider (ce_identity sample_entry) = ''fake''"
    by (simp_all add: sample_entry_def sample_pricing_def)
  have n: "catalog_entries (mg_catalog sample_gateway) = [sample_entry]" "rp_max_failovers (mg_retry_policy sample_gateway) = 1"
      "rp_max_attempts (mg_retry_policy sample_gateway) = 3" "mg_providers sample_gateway = [''fake'']"
    by (simp_all add: sample_gateway_def catalog_entries_def)
  have d: "rd_candidates sample_decision = [sample_entry]" "rd_selected sample_decision = sample_entry" by (simp_all add: sample_decision_def)
  have o: "open_circuits sample_gateway_env [sample_entry] w = (Inr [], w\<lparr>gv_tick := gv_tick w + 1\<rparr>)" if "gv_controls w = sample_controls" for w
    using that by (cases w) (simp add: w_defs observe_def sample_gateway_env_def on_controls_def on_known_def known_def op_eval sample_controls_def
        circuit_state_def)
  have b: "observe (ge_loop_time sample_gateway_env) w = (Inr 0, w\<lparr>gv_tick := gv_tick w + 1\<rparr>)" for w
    by (simp add: observe_def sample_gateway_env_def)
  obtain t where t: "\<And>w c. gv_controls w = sample_controls \<Longrightarrow> mc_request c = sample_model_request \<Longrightarrow>
      try_model sample_gateway sample_gateway_env c sample_entry 0 w = (Inr (None, Some rate_limited), t w c) \<and> gv_repo (t w c) = gv_repo w"
    using sample_tries by metis
  show ?thesis
    unfolding gateway_complete_def gateway_validate_request_def sample_gateway_world_def Let_def n d
    by (simp add: w_bind_def w_lift_def w_return_def w_raise_def sample_repo_call q c o b sample_routed d sample_cost e p r f t fail_call_def Let_def
        del: open_circuits.simps)
qed

theorem gateway_call_settles_budget_witness:
  "settled_all sample_gateway_env (snd (gateway_complete sample_gateway sample_gateway_env ''acme'' sample_model_request gateway_lease
     sample_gateway_policy PRODUCTION PREFER_COST False sample_gateway_world))"
proof -
  have "undisturbed sample_gateway_env" by (simp add: undisturbed_def sample_gateway_env_def)
  moreover have "settled_all sample_gateway_env sample_gateway_world"
    by (simp add: settled_all_def active_here_def sample_gateway_world_def stored_def new_gateway_repo_def)
  ultimately show ?thesis
    using gateway_call_settles_budget [OF _ _ prod.collapse [symmetric], of sample_gateway_env sample_gateway_world sample_gateway "''acme''"
        sample_model_request gateway_lease sample_gateway_policy PRODUCTION PREFER_COST False]
    by (simp add: sample_rate_limited)
qed


section \<open>A permit that is not given back\<close>

text \<open>
  When the task of a call with a cancellation token is cancelled while it waits for a permit, the acquisition it started is still awaited,
  and a permit obtained that way is not released: the semaphore ends one permit short.
\<close>

lemma cancelled_wait_keeps_permit:
  "(let v = sample_gateway_env\<lparr>ge_wait := \<lambda>_ _. TaskCancelled\<rparr>; m = ce_identity sample_entry;
        (x, w) = acquire_semaphore v m 30 True sample_gateway_world in
    x = Inl CancelledError \<and> pc_semaphores sample_controls m = Some 2 \<and> pc_semaphores (gv_controls w) m = Some 1)"
  by (simp add: acquire_semaphore_def w_defs observe_def await_others_def on_controls_def on_known_def known_def op_eval sample_gateway_env_def
      sample_gateway_world_def sample_controls_def Let_def)

end
