(* ===== verification/Gateway_Postgres.thy ===== *)
theory Gateway_Postgres
  imports Projection_Tables Gateway_Ledger
begin

text \<open>
  \<^verbatim>\<open>PostgresGatewayRepository\<close> of \<^verbatim>\<open>gateway/postgres.py\<close>: the durable reservations of model calls. Every operation appends its events to
  the stream of the leased work item, fenced by the lease, and changes the reservation rows in the same transaction. The
  tables are those of the ledger and the projections with three more; the constraints of the schema are checked where rows are written. The
  session's time zone is UTC; the collisions of \<^verbatim>\<open>hashtext\<close> in advisory-lock keys are not modelled.
\<close>

section \<open>Tables\<close>

record reservation_row =
  rv_tenant_id :: string
  rv_reservation_id :: uuid
  rv_run_id :: uuid
  rv_work_id :: uuid
  rv_request_id :: uuid
  rv_idempotency_key :: string
  rv_token_limit :: int
  rv_cost_limit_usd :: numeric
  rv_price_version :: string
  rv_status :: string
  rv_charged_tokens :: int
  rv_charged_cost_usd :: numeric
  rv_lease_token :: uuid
  rv_lease_generation :: int
  rv_created_at :: instant
  rv_expires_at :: "instant option"
  rv_reconciled_at :: "instant option"

record tenant_quota_row =
  tq_tenant_id :: string
  tq_max_run_tokens :: int
  tq_max_run_cost_usd :: numeric
  tq_max_tenant_tokens_per_period :: int
  tq_max_tenant_cost_usd_per_period :: numeric
  tq_max_concurrent_runs :: int

record gateway_db = projection_db +
  gd_budget_locks :: "string list"
  gd_reservations :: "reservation_row list"
  gd_quotas :: "tenant_quota_row list"

text \<open>A \<^verbatim>\<open>numeric\<close> column of scale \<open>s\<close> read as a \<^verbatim>\<open>Decimal\<close>, and \<^verbatim>\<open>COALESCE(sum(column), 0)\<close>.\<close>

definition dec_of_numeric :: "nat \<Rightarrow> numeric \<Rightarrow> decimal" where
  "dec_of_numeric s n = (case n of None \<Rightarrow> Dec_NaN | Some u \<Rightarrow> Dec (u < 0) (nat \<bar>u\<bar>) (- int s))"

definition numeric_sum :: "numeric list \<Rightarrow> numeric" where
  "numeric_sum ns = foldl numeric_add (Some 0) ns"

definition numeric_non_negative :: "numeric \<Rightarrow> bool" where
  "numeric_non_negative n = (case n of None \<Rightarrow> True | Some u \<Rightarrow> 0 \<le> u)"

definition store_numeric :: "nat \<Rightarrow> nat \<Rightarrow> decimal \<Rightarrow> numeric res" where
  "store_numeric p s d = (case numeric_of p s d of None \<Rightarrow> Inl integrity_error | Some n \<Rightarrow> Inr n)"

section \<open>Events\<close>

definition pg_validate :: "string \<Rightarrow> ModelRequest \<Rightarrow> WorkLease \<Rightarrow> datetime \<Rightarrow> unit res" where
  "pg_validate context r l tm =
     res_bind (require (context = mq_tenant_id r \<and> mq_tenant_id r = ls_tenant_id l \<and> mq_run_id r = ls_work_id l)
       (ValueError ''tenant, request, run, and fence must match'')) (\<lambda>_.
     require (dt_aware tm) (ValueError ''gateway event time must be timezone-aware''))"

definition pg_common :: "ModelRequest \<Rightarrow> WorkLease \<Rightarrow> BudgetReservation \<Rightarrow> json_obj" where
  "pg_common r l b =
     [(''work_id'', JStr (uuid_str (ls_work_id l))), (''run_id'', JStr (uuid_str (mq_run_id r))),
      (''lease_token'', JStr (uuid_str (ls_token l))), (''lease_generation'', JInt (ls_generation l)),
      (''request_id'', JStr (uuid_str (mq_request_id r))), (''reservation_id'', JStr (uuid_str (br_reservation_id b)))]"

text \<open>\<^verbatim>\<open>str(payload.get(key, default))\<close> for the keys the repository writes, which hold integers or strings.\<close>

definition payload_text :: "json_obj \<Rightarrow> string \<Rightarrow> string \<Rightarrow> string" where
  "payload_text p key otherwise = (case map_of p key of Some (JInt n) \<Rightarrow> int_str n | Some (JStr s) \<Rightarrow> s | _ \<Rightarrow> otherwise)"

definition text_parts :: "json option \<Rightarrow> string list" where
  "text_parts v = (case v of Some (JStr s) \<Rightarrow> (if s = [] then [] else [s]) | _ \<Rightarrow> [])"

fun colon_join :: "string list \<Rightarrow> string" where
  "colon_join [] = []"
| "colon_join [s] = s"
| "colon_join (s # ss) = s @ '':'' @ colon_join ss"

definition event_idempotency_key :: "ModelRequest \<Rightarrow> DomainEventType \<Rightarrow> json_obj \<Rightarrow> nat \<Rightarrow> string" where
  "event_idempotency_key r ty p index =
     colon_join ([mq_idempotency_key r, DomainEventType_value ty, payload_text p ''fallback_index'' ''0'', payload_text p ''attempt'' ''0'',
        payload_text p ''reservation_id'' '''', int_str (int index)]
      @ text_parts (map_of p ''provider'') @ text_parts (map_of p ''model''))"

definition pg_event ::
  "ModelRequest \<Rightarrow> WorkLease \<Rightarrow> datetime \<Rightarrow> uuid \<Rightarrow> uuid option \<Rightarrow> nat \<Rightarrow> DomainEventType \<Rightarrow> json_obj \<Rightarrow> EventEnvelope" where
  "pg_event r l tm i causation index ty details =
     \<lparr>event_id = i, ev_tenant_id = mq_tenant_id r, aggregate_id = uuid_str (ls_work_id l), event_type = DomainEventType_value ty,
      schema_version = 1, occurred_at = tm, payload = details, correlation_id = Some (mq_run_id r), causation_id = causation,
      aggregate_sequence = 0, global_position = None, recorded_at = None, actor = None, identity_reference = None, policy_reference = None,
      audit_reference = None, idempotency_key = Some (event_idempotency_key r ty details index), trace_context = None,
      previous_aggregate_sequence = None, metadata = []\<rparr>"

primrec pg_events_from ::
  "ModelRequest \<Rightarrow> WorkLease \<Rightarrow> datetime \<Rightarrow> (nat \<Rightarrow> uuid) \<Rightarrow> nat \<Rightarrow> uuid option \<Rightarrow> (DomainEventType \<times> json_obj) list \<Rightarrow> EventEnvelope list res" where
  "pg_events_from r l tm ids index causation [] = Inr []"
| "pg_events_from r l tm ids index causation (v # vs) =
     res_bind (new_envelope (pg_event r l tm (ids index) causation index (fst v) (snd v))) (\<lambda>e.
     res_bind (pg_events_from r l tm ids (Suc index) (Some (ids index)) vs) (\<lambda>es. Inr (e # es)))"

definition pg_events ::
  "ModelRequest \<Rightarrow> WorkLease \<Rightarrow> datetime \<Rightarrow> (nat \<Rightarrow> uuid) \<Rightarrow> (DomainEventType \<times> json_obj) list \<Rightarrow> EventEnvelope list res" where
  "pg_events r l tm ids vs = pg_events_from r l tm ids 1 None vs"

text \<open>
  \<^verbatim>\<open>_append_fenced\<close>: the version is read in one transaction and the append made in another. \<open>pg_commit\<close> is the second, for any
  version read before.
\<close>

definition pg_commit ::
  "instant \<Rightarrow> string \<Rightarrow> WorkLease \<Rightarrow> EventEnvelope list \<Rightarrow> datetime \<Rightarrow> (gateway_db, unit) op option \<Rightarrow> int \<Rightarrow> (gateway_db, unit) op" where
  "pg_commit now context l events tm mutation expected =
     op_bind (append_fenced now context events expected (ls_work_id l) (ls_token l) (ls_generation l) tm [] mutation) (\<lambda>_. op_return ())"

definition pg_append_fenced ::
  "instant \<Rightarrow> string \<Rightarrow> WorkLease \<Rightarrow> EventEnvelope list \<Rightarrow> datetime \<Rightarrow> (gateway_db, unit) op option \<Rightarrow> (gateway_db, unit) op" where
  "pg_append_fenced now context l events tm mutation =
     op_bind (current_version context (uuid_str (ls_work_id l))) (pg_commit now context l events tm mutation)"

section \<open>Admission\<close>

definition lock_budget :: "string \<Rightarrow> (gateway_db, unit) op" where
  "lock_budget t =
     op_bind (op_gets (\<lambda>s. t \<in> set (db_tenants s))) (\<lambda>known.
     op_bind (op_require known integrity_error) (\<lambda>_.
     op_modify (\<lambda>s. s\<lparr>gd_budget_locks := (if t \<in> set (gd_budget_locks s) then gd_budget_locks s else gd_budget_locks s @ [t])\<rparr>)))"

definition quota_limits :: "string \<Rightarrow> (gateway_db, QuotaLimits) op" where
  "quota_limits t =
     op_bind (op_gets (\<lambda>s. sql_one (\<lambda>q. tq_tenant_id q = t) (gd_quotas s))) (\<lambda>row.
     (case row of
        None \<Rightarrow> op_raise (BudgetDeniedError ''tenant_quota_not_configured'')
      | Some q \<Rightarrow> op_lift (init_QuotaLimits
          \<lparr>ql_max_run_tokens = tq_max_run_tokens q, ql_max_run_cost_usd = dec_of_numeric 6 (tq_max_run_cost_usd q),
           ql_max_tenant_tokens_per_period = tq_max_tenant_tokens_per_period q,
           ql_max_tenant_cost_usd_per_period = dec_of_numeric 6 (tq_max_tenant_cost_usd_per_period q),
           ql_max_concurrent_runs = tq_max_concurrent_runs q\<rparr>)))"

text \<open>\<^verbatim>\<open>==\<close> of decimals, false for NaN, and of \<^verbatim>\<open>QuotaLimits\<close>.\<close>

definition dec_eq :: "decimal \<Rightarrow> decimal \<Rightarrow> bool" where
  "dec_eq a b = (a \<noteq> Dec_NaN \<and> b \<noteq> Dec_NaN \<and> \<not> dec_less a b \<and> \<not> dec_less b a)"

definition same_quotas :: "QuotaLimits \<Rightarrow> QuotaLimits \<Rightarrow> bool" where
  "same_quotas p q = (ql_max_run_tokens p = ql_max_run_tokens q \<and> dec_eq (ql_max_run_cost_usd p) (ql_max_run_cost_usd q)
     \<and> ql_max_tenant_tokens_per_period p = ql_max_tenant_tokens_per_period q
     \<and> dec_eq (ql_max_tenant_cost_usd_per_period p) (ql_max_tenant_cost_usd_per_period q)
     \<and> ql_max_concurrent_runs p = ql_max_concurrent_runs q)"

definition pg_check_budget ::
  "QuotaLimits \<Rightarrow> int \<Rightarrow> decimal \<Rightarrow> int \<Rightarrow> decimal \<Rightarrow> int \<Rightarrow> decimal \<Rightarrow> unit res" where
  "pg_check_budget q tenant_tokens tenant_cost run_tokens run_cost token_limit cost_limit =
     res_bind (dec_lt (ql_max_run_cost_usd q) (dec_add run_cost cost_limit)) (\<lambda>run_cost_denied.
     res_bind (dec_lt (ql_max_tenant_cost_usd_per_period q) (dec_add tenant_cost cost_limit)) (\<lambda>tenant_cost_denied.
     res_bind (require (run_tokens + token_limit \<le> ql_max_run_tokens q) (BudgetDeniedError ''run_token_budget_exceeded'')) (\<lambda>_.
     res_bind (require (\<not> run_cost_denied) (BudgetDeniedError ''run_cost_budget_exceeded'')) (\<lambda>_.
     res_bind (require (tenant_tokens + token_limit \<le> ql_max_tenant_tokens_per_period q)
       (BudgetDeniedError ''tenant_token_budget_exceeded'')) (\<lambda>_.
     require (\<not> tenant_cost_denied) (BudgetDeniedError ''tenant_cost_budget_exceeded''))))))"

definition rv_active :: "reservation_row \<Rightarrow> bool" where
  "rv_active v = (rv_status v = ''active'')"

definition active_rows :: "string \<Rightarrow> gateway_db \<Rightarrow> reservation_row list" where
  "active_rows t s = filter (\<lambda>v. rv_tenant_id v = t \<and> rv_active v) (gd_reservations s)"

definition run_active_rows :: "string \<Rightarrow> uuid \<Rightarrow> gateway_db \<Rightarrow> reservation_row list" where
  "run_active_rows t run s = filter (\<lambda>v. rv_tenant_id v = t \<and> rv_run_id v = run \<and> rv_active v) (gd_reservations s)"

definition period_usage :: "string \<Rightarrow> instant \<Rightarrow> gateway_db \<Rightarrow> model_usage_row list" where
  "period_usage t start s = filter (\<lambda>u. mu_tenant_id u = t \<and> start \<le> mu_recorded_at u) (pj_model_usage s)"

definition run_usage :: "string \<Rightarrow> uuid \<Rightarrow> gateway_db \<Rightarrow> model_usage_row list" where
  "run_usage t run s = filter (\<lambda>u. mu_tenant_id u = t \<and> mu_run_id u = run) (pj_model_usage s)"

definition pg_tokens :: "reservation_row list \<Rightarrow> model_usage_row list \<Rightarrow> int" where
  "pg_tokens vs us = sum_list (map rv_token_limit vs) + sum_list (map mu_total_tokens us)"

definition pg_cost :: "reservation_row list \<Rightarrow> model_usage_row list \<Rightarrow> decimal" where
  "pg_cost vs us = dec_add (dec_of_numeric 10 (numeric_sum (map rv_cost_limit_usd vs))) (dec_of_numeric 10 (numeric_sum (map mu_cost_usd us)))"

definition pg_admission :: "ModelRequest \<Rightarrow> QuotaLimits \<Rightarrow> int \<Rightarrow> decimal \<Rightarrow> datetime \<Rightarrow> gateway_db \<Rightarrow> unit res" where
  "pg_admission r q token_limit cost_limit tm s =
     (let t = mq_tenant_id r; run = mq_run_id r in
      res_bind (billing_period_start tm) (\<lambda>start.
      pg_check_budget q
        (pg_tokens (active_rows t s) (period_usage t (dt_instant start) s)) (pg_cost (active_rows t s) (period_usage t (dt_instant start) s))
        (pg_tokens (run_active_rows t run s) (run_usage t run s)) (pg_cost (run_active_rows t run s) (run_usage t run s))
        token_limit cost_limit))"

text \<open>The partial unique indexes on requests and idempotency keys cover active and charged rows.\<close>

definition occupies :: "reservation_row \<Rightarrow> bool" where
  "occupies v = (rv_status v = ''active'' \<or> rv_status v = ''charged'')"

definition reservation_insert_valid :: "reservation_row \<Rightarrow> gateway_db \<Rightarrow> bool" where
  "reservation_insert_valid v s =
     (rv_tenant_id v \<in> set (db_tenants s)
      \<and> (\<exists>w \<in> set (db_work_items s). wi_tenant_id w = rv_tenant_id v \<and> wi_work_id w = rv_work_id v)
      \<and> rv_idempotency_key v \<noteq> [] \<and> 0 < rv_token_limit v \<and> rv_token_limit v \<le> int8_max \<and> numeric_non_negative (rv_cost_limit_usd v)
      \<and> rv_price_version v \<noteq> [] \<and> 0 < rv_lease_generation v \<and> rv_lease_generation v \<le> int8_max
      \<and> (\<forall>u \<in> set (gd_reservations s). rv_tenant_id u = rv_tenant_id v \<longrightarrow> rv_reservation_id u \<noteq> rv_reservation_id v
          \<and> (occupies u \<longrightarrow> rv_request_id u \<noteq> rv_request_id v \<and> rv_idempotency_key u \<noteq> rv_idempotency_key v)))"

definition insert_reservation :: "reservation_row \<Rightarrow> (gateway_db, unit) op" where
  "insert_reservation v =
     op_bind (op_gets (reservation_insert_valid v)) (\<lambda>valid.
     op_bind (op_require valid integrity_error) (\<lambda>_.
     op_modify (\<lambda>s. s\<lparr>gd_reservations := gd_reservations s @ [v]\<rparr>)))"

definition reservation_insert_values ::
  "ModelRequest \<Rightarrow> WorkLease \<Rightarrow> BudgetReservation \<Rightarrow> numeric \<Rightarrow> datetime \<Rightarrow> reservation_row" where
  "reservation_insert_values r l b cost tm =
     \<lparr>rv_tenant_id = mq_tenant_id r, rv_reservation_id = br_reservation_id b, rv_run_id = mq_run_id r, rv_work_id = ls_work_id l,
      rv_request_id = mq_request_id r, rv_idempotency_key = mq_idempotency_key r, rv_token_limit = br_token_limit b,
      rv_cost_limit_usd = cost, rv_price_version = br_price_version b, rv_status = ''active'', rv_charged_tokens = 0,
      rv_charged_cost_usd = Some 0, rv_lease_token = ls_token l, rv_lease_generation = ls_generation l, rv_created_at = dt_instant tm,
      rv_expires_at = Some (dt_instant (ls_expires_at l)), rv_reconciled_at = None\<rparr>"

definition reserve_mutation ::
  "ModelRequest \<Rightarrow> WorkLease \<Rightarrow> QuotaLimits \<Rightarrow> BudgetReservation \<Rightarrow> datetime \<Rightarrow> (gateway_db, unit) op" where
  "reserve_mutation r l q b tm =
     op_bind (lock_budget (mq_tenant_id r)) (\<lambda>_.
     op_bind (op_gets (\<lambda>s. (''model-usage'', mq_tenant_id r) \<in> set (pj_rebuild_locks s))) (\<lambda>rebuilding.
     op_bind (op_require (\<not> rebuilding) (BudgetDeniedError ''model_usage_projection_under_maintenance'')) (\<lambda>_.
     op_bind (quota_limits (mq_tenant_id r)) (\<lambda>configured.
     op_bind (op_require (same_quotas configured q) (BudgetDeniedError ''policy_quota_projection_mismatch'')) (\<lambda>_.
     op_bind (op_gets (pg_admission r q (br_token_limit b) (br_cost_limit_usd b) tm)) (\<lambda>verdict.
     op_bind (op_lift verdict) (\<lambda>_.
     op_bind (op_lift (store_numeric 20 10 (br_cost_limit_usd b))) (\<lambda>cost.
     insert_reservation (reservation_insert_values r l b cost tm)))))))))"

section \<open>Operations\<close>

definition pg_completed :: "string \<Rightarrow> ModelRequest \<Rightarrow> WorkLease \<Rightarrow> datetime \<Rightarrow> (gateway_db, ModelResponse option) op" where
  "pg_completed context r l tm = op_return None"

definition pg_reservation :: "uuid \<Rightarrow> ModelRequest \<Rightarrow> int \<Rightarrow> decimal \<Rightarrow> string \<Rightarrow> BudgetReservation" where
  "pg_reservation i r token_limit cost_limit price_version =
     \<lparr>br_reservation_id = i, br_tenant_id = mq_tenant_id r, br_run_id = mq_run_id r, br_request_id = mq_request_id r,
      br_token_limit = token_limit, br_cost_limit_usd = cost_limit, br_price_version = price_version, br_active = True,
      br_status = ''active'', br_charged_tokens = 0, br_charged_cost_usd = Dec False 0 0, br_created_at = None, br_expires_at = None,
      br_reconciled_at = None\<rparr>"

definition pg_reserved_events ::
  "ModelRequest \<Rightarrow> WorkLease \<Rightarrow> RouteDecision \<Rightarrow> BudgetReservation \<Rightarrow> (DomainEventType \<times> json_obj) list" where
  "pg_reserved_events r l rt b =
     (let common = pg_common r l b;
          chosen = [(''provider'', JStr (mi_provider (ce_identity (rd_selected rt)))),
                    (''model'', JStr (mi_model (ce_identity (rd_selected rt))))] in
      [(MODEL_ROUTE_DECIDED, common @ chosen @
         [(''candidate_count'', JInt (int (length (rd_candidates rt)))), (''rationale'', JArr (map JStr (rd_rationale rt)))]),
       (MODEL_CALL_REQUESTED, common @ chosen @
         [(''message_count'', JInt (int (length (mq_messages r)))), (''content_digest'', JStr (request_content_digest r)),
          (''max_output_tokens'', JInt (mq_max_output_tokens r)), (''prompt_token_estimate'', JInt (mq_prompt_token_estimate r)),
          (''has_tools'', JBool (mq_tools r \<noteq> [])), (''has_structured_output'', JBool (mq_response_schema r \<noteq> None)),
          (''persistence_policy'', JStr ''metadata_and_digest_only'')]),
       (MODEL_BUDGET_RESERVED, common @
         [(''token_limit'', JInt (br_token_limit b)), (''cost_limit_usd'', JStr (decimal_str (br_cost_limit_usd b))),
          (''price_version'', JStr (br_price_version b))])])"

text \<open>
  The operations are given for the way the append is made: \<open>appender\<close> is \<open>pg_append_fenced now context l\<close> when an operation runs alone,
  and \<open>pg_commit\<close> with a version read earlier when others ran in between.
\<close>

type_synonym pg_appender = "EventEnvelope list \<Rightarrow> datetime \<Rightarrow> (gateway_db, unit) op option \<Rightarrow> (gateway_db, unit) op"

definition pg_reserve ::
  "pg_appender \<Rightarrow> (nat \<Rightarrow> uuid) \<Rightarrow> string \<Rightarrow> ModelRequest \<Rightarrow> WorkLease \<Rightarrow> RouteDecision \<Rightarrow> QuotaLimits \<Rightarrow> int \<Rightarrow> decimal \<Rightarrow> string \<Rightarrow> datetime
     \<Rightarrow> (gateway_db, BudgetReservation) op" where
  "pg_reserve appender ids context r l rt q token_limit cost_limit price_version tm =
     op_bind (op_lift (pg_validate context r l tm)) (\<lambda>_.
     let b = pg_reservation (ids 0) r token_limit cost_limit price_version in
     op_bind (op_lift (pg_events r l tm ids (pg_reserved_events r l rt b))) (\<lambda>events.
     op_bind (appender events tm (Some (reserve_mutation r l q b tm))) (\<lambda>_.
     op_return b)))"

definition pg_record_attempt ::
  "pg_appender \<Rightarrow> (nat \<Rightarrow> uuid) \<Rightarrow> string \<Rightarrow> ModelRequest \<Rightarrow> WorkLease \<Rightarrow> BudgetReservation \<Rightarrow> string \<Rightarrow> string \<Rightarrow> int \<Rightarrow> int \<Rightarrow> datetime
     \<Rightarrow> (gateway_db, unit) op" where
  "pg_record_attempt appender ids context r l b provider model attempt fallback_index tm =
     op_bind (op_lift (pg_validate context r l tm)) (\<lambda>_.
     let chosen = pg_common r l b @ [(''provider'', JStr provider), (''model'', JStr model)] in
     op_bind (op_lift (pg_events r l tm ids
       ((if 0 < fallback_index \<and> attempt = 1 then [(MODEL_FALLBACK_SELECTED, chosen @ [(''fallback_index'', JInt fallback_index)])] else []) @
        [(if fallback_index = 0 \<and> attempt = 1 then MODEL_CALL_STARTED else MODEL_CALL_ATTEMPTED,
          chosen @ [(''attempt'', JInt attempt), (''fallback_index'', JInt fallback_index)])]))) (\<lambda>events.
     appender events tm None))"

text \<open>
  A settlement updates the active reservation made under the lease, with values the table's constraints accept (\<open>ok\<close>); when no row or several
  match it is a ConcurrencyError.
\<close>

definition held_under :: "ModelRequest \<Rightarrow> WorkLease \<Rightarrow> BudgetReservation \<Rightarrow> reservation_row \<Rightarrow> bool" where
  "held_under r l b v = (rv_tenant_id v = mq_tenant_id r \<and> rv_reservation_id v = br_reservation_id b \<and> rv_active v
     \<and> rv_lease_token v = ls_token l \<and> rv_lease_generation v = ls_generation l)"

definition update_reservation ::
  "ModelRequest \<Rightarrow> WorkLease \<Rightarrow> BudgetReservation \<Rightarrow> bool \<Rightarrow> (reservation_row \<Rightarrow> reservation_row) \<Rightarrow> (gateway_db, unit) op" where
  "update_reservation r l b ok f =
     op_bind (op_gets (\<lambda>s. sql_count (held_under r l b) (gd_reservations s))) (\<lambda>rowcount.
     op_bind (op_require (rowcount = 0 \<or> ok) integrity_error) (\<lambda>_.
     op_bind (op_modify (\<lambda>s. s\<lparr>gd_reservations := sql_update (held_under r l b) f (gd_reservations s)\<rparr>)) (\<lambda>_.
     op_require (rowcount = 1) (ConcurrencyError 1 0))))"

definition usage_insert_valid :: "model_usage_row \<Rightarrow> gateway_db \<Rightarrow> bool" where
  "usage_insert_valid u s =
     (mu_tenant_id u \<in> set (db_tenants s) \<and> mu_provider u \<noteq> [] \<and> mu_model u \<noteq> [] \<and> mu_price_version u \<noteq> []
      \<and> (\<forall>n \<in> set [mu_input_tokens u, mu_output_tokens u, mu_cache_read_tokens u, mu_cache_write_tokens u, mu_reasoning_tokens u,
            mu_total_tokens u]. 0 \<le> n \<and> n \<le> int8_max)
      \<and> numeric_non_negative (mu_cost_usd u)
      \<and> (\<forall>x \<in> set (pj_model_usage s). \<not> (mu_tenant_id x = mu_tenant_id u \<and> mu_request_id x = mu_request_id u)))"

definition insert_usage :: "model_usage_row \<Rightarrow> (gateway_db, unit) op" where
  "insert_usage u =
     op_bind (op_gets (usage_insert_valid u)) (\<lambda>valid.
     op_bind (op_require valid integrity_error) (\<lambda>_.
     op_modify (\<lambda>s. s\<lparr>pj_model_usage := pj_model_usage s @ [u]\<rparr>)))"

definition usage_insert_values ::
  "ModelRequest \<Rightarrow> ModelResponse \<Rightarrow> PricingVersion \<Rightarrow> int \<Rightarrow> numeric \<Rightarrow> datetime \<Rightarrow> model_usage_row" where
  "usage_insert_values r response p tokens cost tm =
     (let u = mp_usage response in
      \<lparr>mu_tenant_id = mq_tenant_id r, mu_request_id = mq_request_id r, mu_run_id = mq_run_id r, mu_provider = mi_provider (mp_model response),
       mu_model = mi_model (mp_model response), mu_price_version = pv_version p, mu_input_tokens = tu_input_tokens u,
       mu_output_tokens = tu_output_tokens u, mu_cache_read_tokens = tu_cache_read_tokens u, mu_cache_write_tokens = tu_cache_write_tokens u,
       mu_reasoning_tokens = tu_reasoning_tokens u, mu_total_tokens = tokens, mu_cost_usd = cost, mu_recorded_at = dt_instant tm\<rparr>)"

definition charge_mutation ::
  "ModelRequest \<Rightarrow> WorkLease \<Rightarrow> BudgetReservation \<Rightarrow> ModelResponse \<Rightarrow> PricingVersion \<Rightarrow> int \<Rightarrow> decimal \<Rightarrow> datetime \<Rightarrow> (gateway_db, unit) op" where
  "charge_mutation r l b response p tokens cost tm =
     (let stored_cost = numeric_of 20 10 cost; units = (case stored_cost of None \<Rightarrow> None | Some n \<Rightarrow> n);
          ok = (stored_cost \<noteq> None \<and> 0 \<le> tokens \<and> tokens \<le> int8_max \<and> numeric_non_negative units) in
      op_bind (update_reservation r l b ok (\<lambda>v. v\<lparr>rv_status := ''charged'', rv_charged_tokens := tokens, rv_charged_cost_usd := units,
        rv_reconciled_at := Some (dt_instant tm)\<rparr>)) (\<lambda>_.
      insert_usage (usage_insert_values r response p tokens units tm)))"

definition pg_settlement_details :: "ModelRequest \<Rightarrow> WorkLease \<Rightarrow> BudgetReservation \<Rightarrow> ModelResponse \<Rightarrow> PricingVersion \<Rightarrow> json_obj" where
  "pg_settlement_details r l b response p =
     pg_common r l b @ [(''provider'', JStr (mi_provider (mp_model response))), (''model'', JStr (mi_model (mp_model response))),
       (''price_version'', JStr (pv_version p))]"

definition pg_succeed ::
  "pg_appender \<Rightarrow> (nat \<Rightarrow> uuid) \<Rightarrow> string \<Rightarrow> ModelRequest \<Rightarrow> WorkLease \<Rightarrow> BudgetReservation \<Rightarrow> ModelResponse \<Rightarrow> PricingVersion \<Rightarrow> datetime
     \<Rightarrow> (gateway_db, unit) op" where
  "pg_succeed appender ids context r l b response p tm =
     op_bind (op_lift (pg_validate context r l tm)) (\<lambda>_.
     op_bind (op_lift (actual_usage p response b)) (\<lambda>(tokens, cost).
     let details = pg_settlement_details r l b response p in
     op_bind (op_lift (pg_events r l tm ids
       ([(MODEL_CALL_SUCCEEDED, details @
          [(''finish_reason'', JStr (FinishReason_value (mp_finish_reason response))),
           (''safety_outcome'', JStr (SafetyOutcome_value (sr_outcome (mp_safety response)))),
           (''latency_ms'', JInt (mp_latency_ms response)),
           (''provider_request_id'', case mp_provider_request_id response of None \<Rightarrow> JNull | Some i \<Rightarrow> JStr i)])]
        @ charge_events details response tokens cost
        @ [(MODEL_BUDGET_RELEASED, details @
            [(''tokens_released'', JInt (br_token_limit b - tokens)),
             (''cost_released_usd'', JStr (decimal_str (dec_sub (br_cost_limit_usd b) cost)))])]))) (\<lambda>events.
     appender events tm (Some (charge_mutation r l b response p tokens cost tm)))))"

definition pg_record_usage_failure ::
  "pg_appender \<Rightarrow> (nat \<Rightarrow> uuid) \<Rightarrow> string \<Rightarrow> ModelRequest \<Rightarrow> WorkLease \<Rightarrow> BudgetReservation \<Rightarrow> ModelResponse \<Rightarrow> PricingVersion \<Rightarrow> py_error \<Rightarrow> datetime
     \<Rightarrow> (gateway_db, unit) op" where
  "pg_record_usage_failure appender ids context r l b response p err tm =
     op_bind (op_lift (pg_validate context r l tm)) (\<lambda>_.
     op_bind (op_lift (usage_totals p response)) (\<lambda>(tokens, cost).
     let details = pg_settlement_details r l b response p in
     op_bind (op_lift (pg_events r l tm ids
       ([(error_event_type err, details @ error_details err)]
        @ charge_events details response tokens cost
        @ [(MODEL_BUDGET_RELEASED, details @
            [(''tokens_released'', JInt (max (br_token_limit b - tokens) 0)),
             (''cost_released_usd'', JStr (decimal_str (dec_max (dec_sub (br_cost_limit_usd b) cost) (Dec False 0 0)))),
             (''reason'', JStr ''validation_failed_after_provider_response'')])]))) (\<lambda>events.
     appender events tm (Some (charge_mutation r l b response p tokens cost tm)))))"

definition pg_record_attempt_failure ::
  "pg_appender \<Rightarrow> (nat \<Rightarrow> uuid) \<Rightarrow> string \<Rightarrow> ModelRequest \<Rightarrow> WorkLease \<Rightarrow> BudgetReservation \<Rightarrow> py_error \<Rightarrow> string \<Rightarrow> string \<Rightarrow> int \<Rightarrow> int \<Rightarrow> datetime
     \<Rightarrow> (gateway_db, unit) op" where
  "pg_record_attempt_failure appender ids context r l b err provider model attempt fallback_index tm =
     op_bind (op_lift (pg_validate context r l tm)) (\<lambda>_.
     op_bind (op_lift (pg_events r l tm ids
       [(error_event_type err, pg_common r l b @ [(''provider'', JStr provider), (''model'', JStr model), (''attempt'', JInt attempt),
          (''fallback_index'', JInt fallback_index)] @ error_details err)])) (\<lambda>events.
     appender events tm None))"

definition release_mutation :: "ModelRequest \<Rightarrow> WorkLease \<Rightarrow> BudgetReservation \<Rightarrow> datetime \<Rightarrow> (gateway_db, unit) op" where
  "release_mutation r l b tm =
     update_reservation r l b True (\<lambda>v. v\<lparr>rv_status := ''released'', rv_reconciled_at := Some (dt_instant tm)\<rparr>)"

definition pg_fail ::
  "pg_appender \<Rightarrow> (nat \<Rightarrow> uuid) \<Rightarrow> string \<Rightarrow> ModelRequest \<Rightarrow> WorkLease \<Rightarrow> BudgetReservation \<Rightarrow> py_error \<Rightarrow> datetime \<Rightarrow> (gateway_db, unit) op" where
  "pg_fail appender ids context r l b err tm =
     op_bind (op_lift (pg_validate context r l tm)) (\<lambda>_.
     let details = pg_common r l b @ error_details err in
     op_bind (op_lift (pg_events r l tm ids
       [(error_event_type err, details),
        (MODEL_BUDGET_RELEASED, details @
          [(''tokens_released'', JInt (br_token_limit b)), (''cost_released_usd'', JStr (decimal_str (br_cost_limit_usd b))),
           (''reason'', JStr ''model_call_failed'')])])) (\<lambda>events.
     appender events tm (Some (release_mutation r l b tm))))"

end
