(* ===== verification/Gateway_Durable.thy ===== *)
theory Gateway_Durable
  imports Gateway_Postgres Gateway_Budget "HOL-Library.Multiset"
begin

text \<open>
  What the durable gateway repository guarantees over every interleaving of its transactions: usage is recorded exactly for the charged
  reservations, a request and an idempotency key hold one reservation at a time, and the token budgets hold.
\<close>

section \<open>What a transaction does\<close>

definition same_gateway :: "gateway_db \<Rightarrow> gateway_db \<Rightarrow> bool" where
  "same_gateway s s' \<longleftrightarrow> gd_reservations s' = gd_reservations s \<and> pj_model_usage s' = pj_model_usage s \<and> gd_quotas s' = gd_quotas s"

lemma same_gateway_refl [simp]: "same_gateway s s"
  by (simp add: same_gateway_def)

lemma pg_commit_effect:
  assumes "pg_commit now context l es tm mutation expected s = (x, s')"
  shows "same_gateway s s' \<or> (\<exists>s1 m. same_gateway s s1 \<and> mutation = Some m \<and> m s1 = (Inr (), s'))"
proof -
  let ?body = "op_bind (op_gets (\<lambda>s. sql_one (fence_matches now context (ls_work_id l) (ls_token l) (ls_generation l)) (db_work_leases s))) (\<lambda>row.
       op_bind (op_require (row \<noteq> None) (FencingError (ls_generation l) 0)) (\<lambda>_.
       op_bind (append_in_transaction now es expected []) (\<lambda>version.
       op_bind (case mutation of None \<Rightarrow> op_return () | Some m \<Rightarrow> m) (\<lambda>_.
       op_return version))))"
  have "s' = s \<or> (\<exists>y. tenant_transaction ?body s = (y, s'))"
    using assms unfolding pg_commit_def append_fenced_def
    by (auto simp: op_bind_def op_return_def op_lift_def op_require_def op_raise_def split: prod.splits sum.splits if_splits)
  moreover have "same_gateway s s' \<or> (\<exists>s1 m. same_gateway s s1 \<and> mutation = Some m \<and> m s1 = (Inr (), s'))"
    if t: "tenant_transaction ?body s = (y, s')" for y
  proof (cases y)
    case (Inl e)
    then show ?thesis using t by (auto simp: tenant_transaction_Inl same_gateway_def)
  next
    case (Inr v)
    then obtain w s1 where a: "append_in_transaction now es expected [] s = (Inr w, s1)"
      and m: "(case mutation of None \<Rightarrow> op_return () | Some m \<Rightarrow> m) s1 = (Inr (), s')"
      using t by (auto simp: op_simps)
    have "same_gateway s s1" using append_in_transaction_Inr(4) [OF a] by (simp add: same_gateway_def)
    then show ?thesis using m by (cases mutation) (auto simp: op_simps)
  qed
  ultimately show ?thesis by auto
qed

abbreviation committing :: "instant \<Rightarrow> string \<Rightarrow> WorkLease \<Rightarrow> int \<Rightarrow> pg_appender" where
  "committing now context l expected es tm mutation \<equiv> pg_commit now context l es tm mutation expected"

section \<open>Runs\<close>

text \<open>
  A run is any sequence of the repository's transactions, each with a version that was read earlier, and of other transactions, which leave
  the reservations, the usage rows and the quotas alone. A caller presents a reservation with the request it was issued for; reservations
  are made in billing periods that begin no later than \<open>P\<close>.
\<close>

definition issued_for :: "ModelRequest \<Rightarrow> BudgetReservation \<Rightarrow> gateway_db \<Rightarrow> bool" where
  "issued_for r b s = (\<forall>v \<in> set (gd_reservations s). rv_tenant_id v = mq_tenant_id r \<and> rv_reservation_id v = br_reservation_id b
     \<longrightarrow> rv_request_id v = mq_request_id r \<and> rv_run_id v = mq_run_id r)"

inductive pg_step :: "int \<Rightarrow> gateway_db \<Rightarrow> gateway_db \<Rightarrow> bool" for P where
  reserve: "pg_reserve (committing now context l expected) ids context r l rt q tokens cost pv tm s = (x, s')
    \<Longrightarrow> (\<And>start. billing_period_start tm = Inr start \<Longrightarrow> dt_instant start \<le> P) \<Longrightarrow> pg_step P s s'"
| attempt: "pg_record_attempt (committing now context l expected) ids context r l b provider model n index tm s = (x, s') \<Longrightarrow> pg_step P s s'"
| attempt_failure: "pg_record_attempt_failure (committing now context l expected) ids context r l b err provider model n index tm s = (x, s')
    \<Longrightarrow> pg_step P s s'"
| succeed: "pg_succeed (committing now context l expected) ids context r l b response p tm s = (x, s') \<Longrightarrow> issued_for r b s \<Longrightarrow> pg_step P s s'"
| usage_failure: "pg_record_usage_failure (committing now context l expected) ids context r l b response p err tm s = (x, s')
    \<Longrightarrow> issued_for r b s \<Longrightarrow> pg_step P s s'"
| failed: "pg_fail (committing now context l expected) ids context r l b err tm s = (x, s') \<Longrightarrow> pg_step P s s'"
| other: "same_gateway s s' \<Longrightarrow> pg_step P s s'"

text \<open>The four things a step can do.\<close>

inductive pg_change :: "int \<Rightarrow> gateway_db \<Rightarrow> gateway_db \<Rightarrow> bool" for P where
  none: "same_gateway s s' \<Longrightarrow> pg_change P s s'"
| admitted: "same_gateway s s1 \<Longrightarrow> reserve_mutation r l q b tm s1 = (Inr (), s')
    \<Longrightarrow> (\<And>start. billing_period_start tm = Inr start \<Longrightarrow> dt_instant start \<le> P) \<Longrightarrow> pg_change P s s'"
| charged: "same_gateway s s1 \<Longrightarrow> charge_mutation r l b response p tokens cost tm s1 = (Inr (), s') \<Longrightarrow> issued_for r b s \<Longrightarrow> pg_change P s s'"
| released: "same_gateway s s1 \<Longrightarrow> release_mutation r l b tm s1 = (Inr (), s') \<Longrightarrow> pg_change P s s'"

lemma pg_step_change: "pg_step P s s' \<Longrightarrow> pg_change P s s'"
proof (induction rule: pg_step.induct)
  case (reserve now ctx l expected ids r rt q tokens cost pv tm s x s')
  from reserve(1) show ?case
    unfolding pg_reserve_def Let_def
    by - ((erule reads_bindE, simp, simp add: pg_change.none)+, auto simp: op_bind_def op_return_def op_lift_def split: prod.splits sum.splits
        dest!: pg_commit_effect intro: pg_change.none pg_change.admitted [OF _ _ reserve(2)])
next
  case (attempt now ctx l expected ids r b provider model n index tm s x s')
  then show ?case unfolding pg_record_attempt_def Let_def
    by - ((erule reads_bindE, simp, simp add: pg_change.none)+, auto dest!: pg_commit_effect intro: pg_change.none)
next
  case (attempt_failure now ctx l expected ids r b err provider model n index tm s x s')
  then show ?case unfolding pg_record_attempt_failure_def
    by - ((erule reads_bindE, simp, simp add: pg_change.none)+, auto dest!: pg_commit_effect intro: pg_change.none)
next
  case (succeed now ctx l expected ids r b response p tm s x s')
  from succeed(1) show ?case unfolding pg_succeed_def Let_def split_beta
    by - ((erule reads_bindE, simp, simp add: pg_change.none)+, auto dest!: pg_commit_effect intro: pg_change.none pg_change.charged [OF _ _ succeed(2)])
next
  case (usage_failure now ctx l expected ids r b response p err tm s x s')
  from usage_failure(1) show ?case unfolding pg_record_usage_failure_def Let_def split_beta
    by - ((erule reads_bindE, simp, simp add: pg_change.none)+,
      auto dest!: pg_commit_effect intro: pg_change.none pg_change.charged [OF _ _ usage_failure(2)])
next
  case (failed now ctx l expected ids r b err tm s x s')
  then show ?case unfolding pg_fail_def Let_def
    by - ((erule reads_bindE, simp, simp add: pg_change.none)+, auto dest!: pg_commit_effect intro: pg_change.none pg_change.released)
qed (rule pg_change.none)

section \<open>The mutations\<close>

lemma quota_limits_effect:
  assumes "quota_limits t s = (Inr k, s1)"
  shows "\<exists>q. sql_one (\<lambda>q. tq_tenant_id q = t) (gd_quotas s) = Some q \<and> ql_max_run_tokens k = tq_max_run_tokens q
    \<and> ql_max_tenant_tokens_per_period k = tq_max_tenant_tokens_per_period q"
proof -
  have i: "init_QuotaLimits q = Inr k \<Longrightarrow> k = q" for q :: QuotaLimits by (auto simp: init_QuotaLimits_def op_simps)
  show ?thesis using assms unfolding quota_limits_def by (auto simp: op_bind_def op_gets_def op_lift_def op_raise_def split: option.splits dest!: i)
qed

lemma reserve_mutation_effect:
  assumes "reserve_mutation r l q b tm s = (Inr (), s')"
  shows "\<exists>k cost. sql_one (\<lambda>q. tq_tenant_id q = mq_tenant_id r) (gd_quotas s) = Some k
    \<and> tq_max_run_tokens k = ql_max_run_tokens q \<and> tq_max_tenant_tokens_per_period k = ql_max_tenant_tokens_per_period q
    \<and> pg_admission r q (br_token_limit b) (br_cost_limit_usd b) tm s = Inr ()
    \<and> reservation_insert_valid (reservation_insert_values r l b cost tm) s
    \<and> gd_reservations s' = gd_reservations s @ [reservation_insert_values r l b cost tm]
    \<and> pj_model_usage s' = pj_model_usage s \<and> gd_quotas s' = gd_quotas s"
proof -
  define s1 where "s1 = s\<lparr>gd_budget_locks := (if mq_tenant_id r \<in> set (gd_budget_locks s) then gd_budget_locks s
    else gd_budget_locks s @ [mq_tenant_id r])\<rparr>"
  have p: "pg_admission r q t c tm s1 = pg_admission r q t c tm s" for t c
    by (simp add: pg_admission_def active_rows_def run_active_rows_def period_usage_def run_usage_def s1_def)
  have v: "reservation_insert_valid u s1 = reservation_insert_valid u s" for u by (simp add: reservation_insert_valid_def s1_def)
  have q: "reads (quota_limits t)" for t unfolding quota_limits_def by (intro reads_bind) (auto split: option.splits)
  from assms have "op_bind (op_gets (\<lambda>s. (''model-usage'', mq_tenant_id r) \<in> set (pj_rebuild_locks s))) (\<lambda>rebuilding.
     op_bind (op_require (\<not> rebuilding) (BudgetDeniedError ''model_usage_projection_under_maintenance'')) (\<lambda>_.
     op_bind (quota_limits (mq_tenant_id r)) (\<lambda>configured.
     op_bind (op_require (same_quotas configured q) (BudgetDeniedError ''policy_quota_projection_mismatch'')) (\<lambda>_.
     op_bind (op_gets (pg_admission r q (br_token_limit b) (br_cost_limit_usd b) tm)) (\<lambda>verdict.
     op_bind (op_lift verdict) (\<lambda>_.
     op_bind (op_lift (store_numeric 20 10 (br_cost_limit_usd b))) (\<lambda>cost.
     insert_reservation (reservation_insert_values r l b cost tm)))))))) s1 = (Inr (), s')"
    unfolding reserve_mutation_def lock_budget_def s1_def by (simp add: op_bind_def op_gets_def op_require_def op_modify_def op_return_def op_raise_def
        split: if_splits)
  then obtain k cost where "quota_limits (mq_tenant_id r) s1 = (Inr k, s1)" "same_quotas k q"
    "pg_admission r q (br_token_limit b) (br_cost_limit_usd b) tm s1 = Inr ()"
    "insert_reservation (reservation_insert_values r l b cost tm) s1 = (Inr (), s')"
    by - ((erule reads_bindE, simp add: q, simp)+, auto simp: op_gets_def op_lift_def op_require_iff)
  then have "quota_limits (mq_tenant_id r) s1 = (Inr k, s1)" "same_quotas k q"
    "pg_admission r q (br_token_limit b) (br_cost_limit_usd b) tm s1 = Inr ()"
    "reservation_insert_valid (reservation_insert_values r l b cost tm) s1"
    "s' = s1\<lparr>gd_reservations := gd_reservations s1 @ [reservation_insert_values r l b cost tm]\<rparr>"
    by (auto simp: insert_reservation_def op_simps)
  moreover from this have "pg_admission r q (br_token_limit b) (br_cost_limit_usd b) tm s = Inr ()"
    "reservation_insert_valid (reservation_insert_values r l b cost tm) s" by (simp_all add: p v)
  moreover have "gd_quotas s1 = gd_quotas s" "gd_reservations s1 = gd_reservations s" "pj_model_usage s1 = pj_model_usage s" by (simp_all add: s1_def)
  ultimately show ?thesis using quota_limits_effect [of "mq_tenant_id r" s1 k s1] by (auto simp: same_quotas_def)
qed

lemma sql_count_1_split:
  assumes "sql_count Q rows = 1"
  obtains xs v ys where "rows = xs @ v # ys" and "Q v" and "\<And>f. sql_update Q f rows = xs @ f v # ys"
proof -
  from sql_count_1_ex [OF assms] obtain v where "v \<in> set rows" "Q v" by blast
  then obtain xs ys where r: "rows = xs @ v # ys" by (meson split_list)
  then have "sql_count Q xs = 0" "sql_count Q ys = 0" using assms \<open>Q v\<close> by simp_all
  then have "sql_update Q f rows = xs @ f v # ys" for f
    using r \<open>Q v\<close> by (auto simp: sql_count_0_iff sql_update_none)
  with r \<open>Q v\<close> show thesis using that by blast
qed

lemma update_reservation_effect:
  assumes "update_reservation r l b ok f s = (Inr (), s1)"
  shows "sql_count (held_under r l b) (gd_reservations s) = 1 \<and> ok
    \<and> s1 = s\<lparr>gd_reservations := sql_update (held_under r l b) f (gd_reservations s)\<rparr>"
  using assms unfolding update_reservation_def by (auto simp: op_simps)

definition rv_charged :: "reservation_row \<Rightarrow> bool" where
  "rv_charged v = (rv_status v = ''charged'')"

text \<open>A settlement replaces one active row by a charged or released one that differs in nothing but the settlement.\<close>

definition settled_row :: "reservation_row \<Rightarrow> reservation_row \<Rightarrow> bool" where
  "settled_row v w \<longleftrightarrow> rv_active v \<and> \<not> rv_active w \<and> rv_tenant_id w = rv_tenant_id v \<and> rv_reservation_id w = rv_reservation_id v
     \<and> rv_run_id w = rv_run_id v \<and> rv_request_id w = rv_request_id v \<and> rv_idempotency_key w = rv_idempotency_key v
     \<and> rv_token_limit w = rv_token_limit v"

lemma charge_mutation_effect:
  assumes "charge_mutation r l b response p tokens cost tm s = (Inr (), s')" and "issued_for r b s"
  shows "\<exists>xs v w ys u. gd_reservations s = xs @ v # ys \<and> gd_reservations s' = xs @ w # ys \<and> settled_row v w \<and> rv_charged w
    \<and> pj_model_usage s' = pj_model_usage s @ [u] \<and> gd_quotas s' = gd_quotas s \<and> 0 \<le> tokens
    \<and> rv_charged_tokens w = tokens \<and> mu_total_tokens u = tokens \<and> rv_reconciled_at w = Some (mu_recorded_at u)
    \<and> mu_tenant_id u = rv_tenant_id w \<and> mu_run_id u = rv_run_id w \<and> mu_request_id u = rv_request_id w"
proof -
  define n where "n = (case numeric_of 20 10 cost of None \<Rightarrow> None | Some n \<Rightarrow> n)"
  define f :: "reservation_row \<Rightarrow> reservation_row" where "f = (\<lambda>v. v\<lparr>rv_status := ''charged'', rv_charged_tokens := tokens, rv_charged_cost_usd := n,
        rv_reconciled_at := Some (dt_instant tm)\<rparr>)"
  define ok where "ok \<longleftrightarrow> numeric_of 20 10 cost \<noteq> None \<and> 0 \<le> tokens \<and> tokens \<le> int8_max \<and> numeric_non_negative n"
  obtain s1 where u: "update_reservation r l b ok f s = (Inr (), s1)"
    and i: "insert_usage (usage_insert_values r response p tokens n tm) s1 = (Inr (), s')"
    using assms(1) unfolding charge_mutation_def Let_def n_def [symmetric] f_def [symmetric] ok_def [symmetric] op_bind_Inr_iff by auto
  from update_reservation_effect [OF u] have c: "sql_count (held_under r l b) (gd_reservations s) = 1" and t: "0 \<le> tokens"
    and s1: "s1 = s\<lparr>gd_reservations := sql_update (held_under r l b) f (gd_reservations s)\<rparr>" by (auto simp: ok_def)
  from sql_count_1_split [OF c] obtain xs v ys where v: "gd_reservations s = xs @ v # ys" "held_under r l b v"
    "\<And>f. sql_update (held_under r l b) f (gd_reservations s) = xs @ f v # ys" by metis
  have s': "s' = s1\<lparr>pj_model_usage := pj_model_usage s1 @ [usage_insert_values r response p tokens n tm]\<rparr>"
    using i unfolding insert_usage_def by (auto simp: op_simps)
  have "rv_tenant_id v = mq_tenant_id r" "rv_request_id v = mq_request_id r" "rv_run_id v = mq_run_id r" "rv_active v"
    using assms(2) v(1,2) by (auto simp: issued_for_def held_under_def)
  moreover have "gd_reservations s1 = xs @ f v # ys" "pj_model_usage s1 = pj_model_usage s" "gd_quotas s1 = gd_quotas s" using v(3) by (simp_all add: s1)
  ultimately show ?thesis
    using v(1) t by (intro exI [of _ xs] exI [of _ v] exI [of _ "f v"] exI [of _ ys] exI [of _ "usage_insert_values r response p tokens n tm"])
      (simp add: s' settled_row_def, simp add: f_def rv_active_def rv_charged_def usage_insert_values_def Let_def)
qed

lemma release_mutation_effect:
  assumes "release_mutation r l b tm s = (Inr (), s')"
  shows "\<exists>xs v w ys. gd_reservations s = xs @ v # ys \<and> gd_reservations s' = xs @ w # ys \<and> settled_row v w \<and> \<not> rv_charged w
    \<and> pj_model_usage s' = pj_model_usage s \<and> gd_quotas s' = gd_quotas s"
proof -
  from update_reservation_effect [OF assms [unfolded release_mutation_def]]
  have c: "sql_count (held_under r l b) (gd_reservations s) = 1"
    and s': "s' = s\<lparr>gd_reservations := sql_update (held_under r l b) (\<lambda>v. v\<lparr>rv_status := ''released'', rv_reconciled_at := Some (dt_instant tm)\<rparr>)
      (gd_reservations s)\<rparr>" by auto
  from sql_count_1_split [OF c] obtain xs v ys where v: "gd_reservations s = xs @ v # ys" "held_under r l b v"
    "\<And>f. sql_update (held_under r l b) f (gd_reservations s) = xs @ f v # ys" by metis
  then show ?thesis
    by (intro exI [of _ xs] exI [of _ v] exI [of _ "v\<lparr>rv_status := ''released'', rv_reconciled_at := Some (dt_instant tm)\<rparr>"] exI [of _ ys])
      (simp add: s' settled_row_def rv_active_def rv_charged_def held_under_def)
qed

section \<open>The invariant\<close>

definition over_rows :: "(reservation_row \<Rightarrow> int) \<Rightarrow> gateway_db \<Rightarrow> int" where
  "over_rows f s = sum_list (map f (gd_reservations s))"

text \<open>
  What a row holds of a budget: its limit while active if \<open>A\<close>, and if \<open>C\<close> what was charged up to the limit; what was charged above it
  is the excess.
\<close>

definition row_hold :: "(reservation_row \<Rightarrow> bool) \<Rightarrow> (reservation_row \<Rightarrow> bool) \<Rightarrow> reservation_row \<Rightarrow> int" where
  "row_hold A C v = (if rv_active v \<and> A v then rv_token_limit v else 0)
     + (if rv_charged v \<and> C v then min (rv_charged_tokens v) (rv_token_limit v) else 0)"

definition row_excess :: "(reservation_row \<Rightarrow> bool) \<Rightarrow> reservation_row \<Rightarrow> int" where
  "row_excess C v = (if rv_charged v \<and> C v then max 0 (rv_charged_tokens v - rv_token_limit v) else 0)"

definition row_of_run :: "string \<Rightarrow> uuid \<Rightarrow> reservation_row \<Rightarrow> bool" where
  "row_of_run t run v = (rv_tenant_id v = t \<and> rv_run_id v = run)"

definition row_of_tenant :: "string \<Rightarrow> reservation_row \<Rightarrow> bool" where
  "row_of_tenant t v = (rv_tenant_id v = t)"

definition row_since :: "string \<Rightarrow> int \<Rightarrow> reservation_row \<Rightarrow> bool" where
  "row_since t P v = (rv_tenant_id v = t \<and> (case rv_reconciled_at v of None \<Rightarrow> False | Some i \<Rightarrow> P \<le> i))"

type_synonym charge_key = "string \<times> uuid \<times> uuid \<times> int \<times> instant option"

definition usage_key :: "model_usage_row \<Rightarrow> charge_key" where
  "usage_key u = (mu_tenant_id u, mu_run_id u, mu_request_id u, mu_total_tokens u, Some (mu_recorded_at u))"

definition charge_key_of :: "reservation_row \<Rightarrow> charge_key" where
  "charge_key_of v = (rv_tenant_id v, rv_run_id v, rv_request_id v, rv_charged_tokens v, rv_reconciled_at v)"

definition usage_is_charges :: "gateway_db \<Rightarrow> bool" where
  "usage_is_charges s \<longleftrightarrow> mset (map usage_key (pj_model_usage s)) = mset (map charge_key_of (filter rv_charged (gd_reservations s)))"

definition one_reservation_per_call :: "gateway_db \<Rightarrow> bool" where
  "one_reservation_per_call s \<longleftrightarrow>
     distinct (map (\<lambda>v. (rv_tenant_id v, rv_request_id v)) (filter occupies (gd_reservations s)))
     \<and> distinct (map (\<lambda>v. (rv_tenant_id v, rv_idempotency_key v)) (filter occupies (gd_reservations s)))"

definition rows_ok :: "gateway_db \<Rightarrow> bool" where
  "rows_ok s \<longleftrightarrow> (\<forall>v \<in> set (gd_reservations s). 0 \<le> rv_token_limit v \<and> (rv_charged v \<longrightarrow> 0 \<le> rv_charged_tokens v))"

definition quota_of :: "gateway_db \<Rightarrow> string \<Rightarrow> tenant_quota_row option" where
  "quota_of s t = sql_one (\<lambda>q. tq_tenant_id q = t) (gd_quotas s)"

definition pg_within_budgets :: "int \<Rightarrow> gateway_db \<Rightarrow> bool" where
  "pg_within_budgets P s \<longleftrightarrow> (\<forall>t k. quota_of s t = Some k \<longrightarrow>
     (\<forall>run. over_rows (row_hold (row_of_run t run) (row_of_run t run)) s \<le> tq_max_run_tokens k)
     \<and> over_rows (row_hold (row_of_tenant t) (row_since t P)) s \<le> tq_max_tenant_tokens_per_period k)"

definition pg_inv :: "int \<Rightarrow> gateway_db \<Rightarrow> bool" where
  "pg_inv P s \<longleftrightarrow> usage_is_charges s \<and> one_reservation_per_call s \<and> rows_ok s \<and> pg_within_budgets P s"

lemma pg_inv_cong: "same_gateway s s' \<Longrightarrow> pg_inv P s' = pg_inv P s"
  by (simp add: same_gateway_def pg_inv_def usage_is_charges_def one_reservation_per_call_def rows_ok_def pg_within_budgets_def over_rows_def
      quota_of_def)

lemma active_not_charged: "rv_active v \<Longrightarrow> \<not> rv_charged v"
  by (simp add: rv_active_def rv_charged_def)

text \<open>What admission adds up is what the rows hold and the excess, as usage is what was charged.\<close>

lemma sum_by_key:
  assumes "usage_is_charges s"
  shows "sum_list (map mu_total_tokens (filter (\<lambda>u. C (usage_key u)) (pj_model_usage s)))
    = sum_list (map (\<lambda>v. if rv_charged v \<and> C (charge_key_of v) then rv_charged_tokens v else 0) (gd_reservations s))"
proof -
  let ?f = "\<lambda>k :: charge_key. if C k then fst (snd (snd (snd k))) else 0"
  have 1: "sum_list (map mu_total_tokens (filter (\<lambda>u. C (usage_key u)) us)) = sum_list (map ?f (map usage_key us))" for us
    by (induction us) (auto simp: usage_key_def)
  have 2: "sum_list (map ?f (map charge_key_of (filter rv_charged vs)))
      = sum_list (map (\<lambda>v. if rv_charged v \<and> C (charge_key_of v) then rv_charged_tokens v else 0) vs)" for vs
    by (induction vs) (auto simp: charge_key_of_def)
  have "sum_list (map ?f xs) = sum_list (map ?f ys)" if "mset xs = mset ys" for xs ys
    using arg_cong [OF that, of "\<lambda>m. sum_mset (image_mset ?f m)"] by (simp only: mset_map [symmetric] sum_mset_sum_list)
  note 3 = this [OF assms [unfolded usage_is_charges_def]]
  show ?thesis unfolding 1 3 2 ..
qed

lemma held_and_excess:
  "sum_list (map rv_token_limit (filter (\<lambda>v. A v \<and> rv_active v) vs))
     + sum_list (map (\<lambda>v. if rv_charged v \<and> C v then rv_charged_tokens v else 0) vs)
   = sum_list (map (row_hold A C) vs) + sum_list (map (row_excess C) vs)"
  by (induction vs) (auto simp: row_hold_def row_excess_def)

lemma run_tokens:
  assumes "usage_is_charges s"
  shows "pg_tokens (run_active_rows t run s) (run_usage t run s)
    = over_rows (row_hold (row_of_run t run) (row_of_run t run)) s + over_rows (row_excess (row_of_run t run)) s"
proof -
  have "sum_list (map mu_total_tokens (run_usage t run s))
      = sum_list (map (\<lambda>v. if rv_charged v \<and> row_of_run t run v then rv_charged_tokens v else 0) (gd_reservations s))"
    using sum_by_key [OF assms, of "\<lambda>k. fst k = t \<and> fst (snd k) = run"]
    by (simp add: run_usage_def usage_key_def charge_key_of_def row_of_run_def)
  then show ?thesis
    using held_and_excess [of "row_of_run t run" "gd_reservations s" "row_of_run t run"]
    by (simp add: pg_tokens_def run_active_rows_def over_rows_def row_of_run_def)
qed

lemma tenant_tokens:
  assumes "usage_is_charges s"
  shows "pg_tokens (active_rows t s) (period_usage t P s)
    = over_rows (row_hold (row_of_tenant t) (row_since t P)) s + over_rows (row_excess (row_since t P)) s"
proof -
  have "sum_list (map mu_total_tokens (period_usage t P s))
      = sum_list (map (\<lambda>v. if rv_charged v \<and> row_since t P v then rv_charged_tokens v else 0) (gd_reservations s))"
    using sum_by_key [OF assms, of "\<lambda>k. fst k = t \<and> (case snd (snd (snd (snd k))) of None \<Rightarrow> False | Some i \<Rightarrow> P \<le> i)"]
    by (simp add: period_usage_def usage_key_def charge_key_of_def row_since_def)
  then show ?thesis
    using held_and_excess [of "row_of_tenant t" "gd_reservations s" "row_since t P"]
    by (simp add: pg_tokens_def active_rows_def over_rows_def row_of_tenant_def)
qed

lemma over_rows_nonneg: "(\<And>v. 0 \<le> f v) \<Longrightarrow> 0 \<le> over_rows f s"
  unfolding over_rows_def by (rule sum_list_nonneg) auto

lemma hold_since_mono:
  assumes "rows_ok s" and "start \<le> P"
  shows "over_rows (row_hold (row_of_tenant t) (row_since t P)) s \<le> over_rows (row_hold (row_of_tenant t) (row_since t start)) s"
  unfolding over_rows_def
  using assms by (intro sum_list_mono) (auto simp: row_hold_def row_since_def rows_ok_def split: option.splits)

lemma admission_tokens:
  assumes "pg_admission r q n c tm s = Inr ()"
  shows "pg_tokens (run_active_rows (mq_tenant_id r) (mq_run_id r) s) (run_usage (mq_tenant_id r) (mq_run_id r) s) + n \<le> ql_max_run_tokens q
    \<and> (\<exists>start. billing_period_start tm = Inr start
      \<and> pg_tokens (active_rows (mq_tenant_id r) s) (period_usage (mq_tenant_id r) (dt_instant start) s) + n \<le> ql_max_tenant_tokens_per_period q)"
  using assms unfolding pg_admission_def pg_check_budget_def Let_def by (auto simp: res_bind_Inr_iff)

lemma admitted_inv:
  assumes "reserve_mutation r l q b tm s = (Inr (), s')" and "pg_inv P s"
    and "\<And>start. billing_period_start tm = Inr start \<Longrightarrow> dt_instant start \<le> P"
  shows "pg_inv P s'"
proof -
  obtain k v where k: "quota_of s (mq_tenant_id r) = Some k" "tq_max_run_tokens k = ql_max_run_tokens q"
      "tq_max_tenant_tokens_per_period k = ql_max_tenant_tokens_per_period q"
    and a: "pg_admission r q (br_token_limit b) (br_cost_limit_usd b) tm s = Inr ()" and ok: "reservation_insert_valid v s"
    and v: "rv_tenant_id v = mq_tenant_id r" "rv_run_id v = mq_run_id r" "rv_token_limit v = br_token_limit b" "rv_status v = ''active''"
    and s': "gd_reservations s' = gd_reservations s @ [v]" "pj_model_usage s' = pj_model_usage s" "gd_quotas s' = gd_quotas s"
    using reserve_mutation_effect [OF assms(1)] by (auto simp: quota_of_def reservation_insert_values_def)
  have act: "rv_active v" "\<not> rv_charged v" "occupies v" using v(4) by (simp_all add: rv_active_def rv_charged_def occupies_def)
  have u: "usage_is_charges s" "one_reservation_per_call s" "rows_ok s" "pg_within_budgets P s" using assms(2) by (simp_all add: pg_inv_def)
  let ?t = "mq_tenant_id r" and ?run = "mq_run_id r"
  have ex: "0 \<le> over_rows (row_excess C) s" for C by (rule over_rows_nonneg) (simp add: row_excess_def)
  have run: "over_rows (row_hold (row_of_run ?t ?run) (row_of_run ?t ?run)) s + br_token_limit b \<le> ql_max_run_tokens q"
    using admission_tokens [OF a] ex [of "row_of_run ?t ?run"] unfolding run_tokens [OF u(1)] by linarith
  obtain start where start: "dt_instant start \<le> P"
    and "pg_tokens (active_rows ?t s) (period_usage ?t (dt_instant start) s) + br_token_limit b \<le> ql_max_tenant_tokens_per_period q"
    using admission_tokens [OF a] assms(3) by blast
  then have ten: "over_rows (row_hold (row_of_tenant ?t) (row_since ?t (dt_instant start))) s + br_token_limit b
      \<le> ql_max_tenant_tokens_per_period q"
    using ex [of "row_since ?t (dt_instant start)"] unfolding tenant_tokens [OF u(1)] by linarith
  have lim: "0 < rv_token_limit v" using ok by (simp add: reservation_insert_valid_def)
  have over: "over_rows f s' = over_rows f s + f v" for f by (simp add: over_rows_def s'(1))
  have "usage_is_charges s'" using u(1) act by (simp add: usage_is_charges_def s')
  moreover have "one_reservation_per_call s'"
    using u(2) ok act unfolding one_reservation_per_call_def s'(1) by (auto simp: reservation_insert_valid_def)
  moreover have "rows_ok s'" using u(3) lim act by (auto simp: rows_ok_def s'(1))
  moreover have "pg_within_budgets P s'"
    unfolding pg_within_budgets_def
  proof (intro allI impI conjI)
    fix t kk run'
    assume q: "quota_of s' t = Some kk"
    then have old: "quota_of s t = Some kk" by (simp add: quota_of_def s'(3))
    show "over_rows (row_hold (row_of_run t run') (row_of_run t run')) s' \<le> tq_max_run_tokens kk"
      using run old k u(4) v act by (auto simp: over row_hold_def row_of_run_def pg_within_budgets_def)
    show "over_rows (row_hold (row_of_tenant t) (row_since t P)) s' \<le> tq_max_tenant_tokens_per_period kk"
      using ten hold_since_mono [OF u(3) start, of t] old k u(4) v act by (auto simp: over row_hold_def row_of_tenant_def pg_within_budgets_def)
  qed
  ultimately show ?thesis by (simp add: pg_inv_def)
qed

lemma settled_hold:
  assumes "settled_row v w" and "\<And>v. C v \<Longrightarrow> A v" and "A w = A v" and "0 \<le> rv_token_limit v"
  shows "row_hold A C w \<le> row_hold A C v"
  using assms(1,3,4) assms(2) [of w] active_not_charged [of v] by (auto simp: row_hold_def settled_row_def)

lemma settled_inv:
  assumes "gd_reservations s = xs @ v # ys" and "gd_reservations s' = xs @ w # ys" and "settled_row v w" and "gd_quotas s' = gd_quotas s"
    and "pg_inv P s" and "usage_is_charges s'" and "rv_charged w \<Longrightarrow> 0 \<le> rv_charged_tokens w"
  shows "pg_inv P s'"
proof -
  have u: "one_reservation_per_call s" "rows_ok s" "pg_within_budgets P s" using assms(5) by (simp_all add: pg_inv_def)
  have sr: "rv_active v" "rv_tenant_id w = rv_tenant_id v" "rv_run_id w = rv_run_id v" "rv_token_limit w = rv_token_limit v"
      "rv_request_id w = rv_request_id v" "rv_idempotency_key w = rv_idempotency_key v" "occupies v"
    using assms(3) by (simp_all add: settled_row_def occupies_def rv_active_def)
  have lim: "0 \<le> rv_token_limit v" using u(2) assms(1) by (simp add: rows_ok_def)
  have over: "over_rows (row_hold A C) s' \<le> over_rows (row_hold A C) s" if "\<And>v. C v \<Longrightarrow> A v" and "A w = A v" for A C
    using settled_hold [OF assms(3) that lim] by (simp add: over_rows_def assms(1,2))
  have "one_reservation_per_call s'" using u(1) sr unfolding one_reservation_per_call_def assms(1,2) by (cases "occupies w") auto
  moreover have "rows_ok s'" using u(2) assms(7) sr(4) by (auto simp: rows_ok_def assms(1,2))
  moreover have "pg_within_budgets P s'"
    unfolding pg_within_budgets_def
  proof (intro allI impI conjI)
    fix t k run
    assume "quota_of s' t = Some k"
    then have k: "quota_of s t = Some k" by (simp add: quota_of_def assms(4))
    have b: "over_rows (row_hold (row_of_run t run) (row_of_run t run)) s \<le> tq_max_run_tokens k"
      "over_rows (row_hold (row_of_tenant t) (row_since t P)) s \<le> tq_max_tenant_tokens_per_period k"
      using u(3) k by (simp_all add: pg_within_budgets_def)
    have "over_rows (row_hold (row_of_run t run) (row_of_run t run)) s' \<le> over_rows (row_hold (row_of_run t run) (row_of_run t run)) s"
      by (rule over) (simp_all add: row_of_run_def sr)
    then show "over_rows (row_hold (row_of_run t run) (row_of_run t run)) s' \<le> tq_max_run_tokens k"
      using b by linarith
    have "over_rows (row_hold (row_of_tenant t) (row_since t P)) s' \<le> over_rows (row_hold (row_of_tenant t) (row_since t P)) s"
      by (rule over) (simp_all add: row_of_tenant_def row_since_def sr)
    then show "over_rows (row_hold (row_of_tenant t) (row_since t P)) s' \<le> tq_max_tenant_tokens_per_period k"
      using b by linarith
  qed
  ultimately show ?thesis using assms(6) by (simp add: pg_inv_def)
qed

lemma pg_change_inv: "pg_change P s s' \<Longrightarrow> pg_inv P s \<Longrightarrow> pg_inv P s'"
proof (induction rule: pg_change.induct)
  case (none s s')
  then show ?case using pg_inv_cong [OF none(1)] by simp
next
  case (admitted s s1 r l q b tm s')
  then show ?case using pg_inv_cong [OF admitted(1)] admitted_inv [OF admitted(2) _ admitted(3)] by simp
next
  case (charged s s1 r l b response p tokens cost tm s')
  have i: "issued_for r b s1" "pg_inv P s1"
    using pg_inv_cong [OF charged(1)] charged by (simp_all add: issued_for_def same_gateway_def)
  from charge_mutation_effect [OF charged(2) i(1)] obtain xs v w ys u where e: "gd_reservations s1 = xs @ v # ys" "gd_reservations s' = xs @ w # ys"
    "settled_row v w" "rv_charged w" "pj_model_usage s' = pj_model_usage s1 @ [u]" "gd_quotas s' = gd_quotas s1" "0 \<le> rv_charged_tokens w"
    "usage_key u = charge_key_of w"
    by (auto simp: usage_key_def charge_key_of_def)
  have "\<not> rv_charged v" using e(3) active_not_charged by (auto simp: settled_row_def)
  then have "usage_is_charges s'" using i(2) e by (simp add: pg_inv_def usage_is_charges_def)
  then show ?case using settled_inv [OF e(1-3,6) i(2)] e(7) by simp
next
  case (released s s1 r l b tm s')
  have i: "pg_inv P s1" using pg_inv_cong [OF released(1)] released by simp
  from release_mutation_effect [OF released(2)] obtain xs v w ys where e: "gd_reservations s1 = xs @ v # ys" "gd_reservations s' = xs @ w # ys"
    "settled_row v w" "\<not> rv_charged w" "pj_model_usage s' = pj_model_usage s1" "gd_quotas s' = gd_quotas s1" by blast
  have "\<not> rv_charged v" using e(3) active_not_charged by (auto simp: settled_row_def)
  then have "usage_is_charges s'" using i e by (simp add: pg_inv_def usage_is_charges_def)
  then show ?case using settled_inv [OF e(1-3,6) i] e(4) by simp
qed

definition fresh_gateway :: "gateway_db \<Rightarrow> bool" where
  "fresh_gateway s \<longleftrightarrow> gd_reservations s = [] \<and> pj_model_usage s = []
     \<and> (\<forall>k \<in> set (gd_quotas s). 0 \<le> tq_max_run_tokens k \<and> 0 \<le> tq_max_tenant_tokens_per_period k)"

lemma pg_run_inv:
  assumes "fresh_gateway s0" and "(pg_step P)\<^sup>*\<^sup>* s0 s"
  shows "pg_inv P s"
  using assms(2)
proof (induction rule: rtranclp_induct)
  case base
  then show ?case using assms(1)
    by (auto simp: pg_inv_def fresh_gateway_def usage_is_charges_def one_reservation_per_call_def rows_ok_def pg_within_budgets_def over_rows_def
        quota_of_def dest: sql_one_Some)
qed (auto intro: pg_change_inv pg_step_change)

lemma pg_run_quotas: "(pg_step P)\<^sup>*\<^sup>* s0 s \<Longrightarrow> quota_of s t = quota_of s0 t"
proof (induction rule: rtranclp_induct)
  case (step s s')
  from pg_step_change [OF step(2)] have "gd_quotas s' = gd_quotas s"
    by (induction rule: pg_change.induct)
      (auto simp: same_gateway_def issued_for_def dest!: reserve_mutation_effect charge_mutation_effect release_mutation_effect)
  then show ?case using step.IH by (simp add: quota_of_def)
qed simp

text \<open>An operation that runs alone reads the version and appends: it is the interleaved one at the version it reads.\<close>

lemma pg_append_fenced_eq:
  "pg_append_fenced now context l es tm mutation s
    = pg_commit now context l es tm mutation (stream_version s context (uuid_str (ls_work_id l))) s"
  using uuid_not_blank [of "ls_work_id l"] unfolding pg_append_fenced_def current_version_def tenant_transaction_def transaction_def
  by (auto simp: op_eval py_strip_def)

lemma alone_is_interleaved:
  fixes s now ctx l
  defines "alone \<equiv> pg_append_fenced now ctx l"
    and "now_committing \<equiv> committing now ctx l (stream_version s ctx (uuid_str (ls_work_id l)))"
  shows "pg_reserve alone ids ctx r l rt q tokens cost pv tm s = pg_reserve now_committing ids ctx r l rt q tokens cost pv tm s"
    and "pg_record_attempt alone ids ctx r l b provider model n index tm s
      = pg_record_attempt now_committing ids ctx r l b provider model n index tm s"
    and "pg_record_attempt_failure alone ids ctx r l b err provider model n index tm s
      = pg_record_attempt_failure now_committing ids ctx r l b err provider model n index tm s"
    and "pg_succeed alone ids ctx r l b response p tm s = pg_succeed now_committing ids ctx r l b response p tm s"
    and "pg_record_usage_failure alone ids ctx r l b response p err tm s
      = pg_record_usage_failure now_committing ids ctx r l b response p err tm s"
    and "pg_fail alone ids ctx r l b err tm s = pg_fail now_committing ids ctx r l b err tm s"
  unfolding alone_def now_committing_def pg_reserve_def pg_record_attempt_def pg_record_attempt_failure_def pg_succeed_def pg_record_usage_failure_def
    pg_fail_def Let_def
  by (simp_all add: op_bind_def op_lift_def pg_append_fenced_eq split: sum.splits prod.splits)

section \<open>Properties\<close>

text \<open>
  C15: durable token budgets hold. Over every interleaving of the repository's transactions with stale versions and of other work on the
  database, the tokens reserved by active calls of a run and the tokens recorded as its usage stay within the run's quota, and those of a
  tenant within its quota of the billing period, except for what providers delivered above the reserved limit.
\<close>

theorem durable_token_budgets_hold:
  assumes "fresh_gateway s0" and "(pg_step P)\<^sup>*\<^sup>* s0 s" and "quota_of s0 t = Some k"
  shows "pg_tokens (run_active_rows t run s) (run_usage t run s) \<le> tq_max_run_tokens k + over_rows (row_excess (row_of_run t run)) s
    \<and> pg_tokens (active_rows t s) (period_usage t P s) \<le> tq_max_tenant_tokens_per_period k + over_rows (row_excess (row_since t P)) s"
proof -
  have i: "usage_is_charges s" "pg_within_budgets P s" using pg_run_inv [OF assms(1,2)] by (simp_all add: pg_inv_def)
  moreover have "quota_of s t = Some k" using pg_run_quotas [OF assms(2)] assms(3) by simp
  ultimately show ?thesis unfolding run_tokens [OF i(1)] tenant_tokens [OF i(1)] by (auto simp: pg_within_budgets_def)
qed

text \<open>
  C16: every charge is recorded as usage exactly once. Over every interleaving the usage rows are those of the charged reservations, one for
  each, with the charged tokens and the time of the settlement; and a request and an idempotency key of a tenant have at most one reservation
  that is active or charged.
\<close>

theorem usage_recorded_exactly_once:
  assumes "fresh_gateway s0" and "(pg_step P)\<^sup>*\<^sup>* s0 s"
  shows "mset (map usage_key (pj_model_usage s)) = mset (map charge_key_of (filter rv_charged (gd_reservations s)))
    \<and> one_reservation_per_call s"
  using pg_run_inv [OF assms] by (simp add: pg_inv_def usage_is_charges_def)


section \<open>A concrete call\<close>

text \<open>The database of a leased work item of tenant \<^verbatim>\<open>acme\<close>, with the quotas of its policy, before and after a call is reserved.\<close>

definition quota_row :: tenant_quota_row where
  "quota_row = \<lparr>tq_tenant_id = ''acme'', tq_max_run_tokens = 1000, tq_max_run_cost_usd = Some 5000000, tq_max_tenant_tokens_per_period = 5000,
     tq_max_tenant_cost_usd_per_period = Some 20000000, tq_max_concurrent_runs = 2\<rparr>"

definition leased_item :: work_row where
  "leased_item = \<lparr>wi_tenant_id = ''acme'', wi_work_id = 5, wi_work_kind = ''agent.run'', wi_idempotency_key = ''k1'', wi_status = CLAIMED,
     wi_requested_at = 0, wi_available_at = 0, wi_attempt_count = 1, wi_max_attempts = 3, wi_timeout_seconds = 60, wi_request_event_id = 10,
     wi_correlation_id = 6, wi_causation_id = None, wi_request_payload = [], wi_cancel_requested_at = None, wi_completed_at = None,
     wi_last_error_code = None\<rparr>"

definition leased_row :: lease_row where
  "leased_row = \<lparr>wl_tenant_id = ''acme'', wl_work_id = 5, wl_lease_token = 8, wl_generation = 1, wl_owner = ''w'', wl_acquired_at = 0,
     wl_heartbeat_at = 0, wl_expires_at = 9, wl_released_at = None, wl_release_reason = None\<rparr>"

definition leased_db :: gateway_db where
  "leased_db = \<lparr>db_tenants = [''acme''], db_commit_locks = [], db_heads = [], db_events = [], db_next_position = 1, db_inbox = [],
     db_outbox = [], db_work_items = [leased_item], db_work_leases = [leased_row], db_work_dead_letters = [], db_work_requeue_approvals = [],
     pj_rebuild_locks = [], pj_checkpoints = [], pj_run_status = [], pj_artifacts = [], pj_approvals = [], pj_model_usage = [],
     pj_usage_quota = [], pj_tenants = [], gd_budget_locks = [], gd_reservations = [], gd_quotas = [quota_row]\<rparr>"

definition reserving :: "(gateway_db, BudgetReservation) op" where
  "reserving = pg_reserve (pg_append_fenced 0 ''acme'' gateway_lease) call_ids ''acme'' sample_model_request gateway_lease sample_route sample_quotas
     100 (Dec False 2 0) ''p1'' (dt_of_instant 0)"

definition call_row :: reservation_row where
  "call_row = reservation_insert_values sample_model_request gateway_lease (pg_reservation 100 sample_model_request 100 (Dec False 2 0) ''p1'')
     (Some 20000000000) (dt_of_instant 0)"

lemma quotas_configured: "quota_limits ''acme'' s = (Inr \<lparr>ql_max_run_tokens = 1000, ql_max_run_cost_usd = Dec False 5000000 (-6),
     ql_max_tenant_tokens_per_period = 5000, ql_max_tenant_cost_usd_per_period = Dec False 20000000 (-6), ql_max_concurrent_runs = 2\<rparr>, s)"
  if "gd_quotas s = [quota_row]"
  using that by (simp add: quota_limits_def op_eval quota_row_def dec_of_numeric_def init_QuotaLimits_def pow10_def require_finite_non_negative_decimal_def
      res_bind_def dec_lt_def dec_less_def dec_of_int_def)

lemma call_admitted:
  assumes "gd_reservations s = []" and "pj_model_usage s = []"
  shows "pg_admission sample_model_request sample_quotas 100 (Dec False 2 0) (dt_of_instant 0) s = Inr ()"
proof -
  have d: "digit_count 0 = 1" "digit_count 2 = 1" "digit_count 20000000000 = 11" by (simp_all add: digit_count.simps)
  show ?thesis using assms
    by (simp add: pg_admission_def first_period Let_def pg_check_budget_def pg_tokens_def pg_cost_def active_rows_def run_active_rows_def
        period_usage_def run_usage_def numeric_sum_def dec_of_numeric_def)
      (simp add: dec_lt_def dec_less_def sample_quotas_def pow10_def dec_add_def signed_def dec_fix_def d)
qed


lemma call_mutation:
  assumes "gd_quotas s = [quota_row]" "gd_reservations s = []" "pj_model_usage s = []" "pj_rebuild_locks s = []" "db_tenants s = [''acme'']"
    and "db_work_items s = [leased_item]"
  shows "reserve_mutation sample_model_request gateway_lease sample_quotas (pg_reservation 100 sample_model_request 100 (Dec False 2 0) ''p1'')
      (dt_of_instant 0) s
    = (Inr (), s\<lparr>gd_budget_locks := (if ''acme'' \<in> set (gd_budget_locks s) then gd_budget_locks s else gd_budget_locks s @ [''acme'']),
        gd_reservations := [call_row]\<rparr>)"
proof -
  let ?s = "s\<lparr>gd_budget_locks := (if ''acme'' \<in> set (gd_budget_locks s) then gd_budget_locks s else gd_budget_locks s @ [''acme''])\<rparr>"
  have t: "mq_tenant_id sample_model_request = ''acme''" by (simp add: sample_model_request_def)
  have b: "br_token_limit (pg_reservation 100 sample_model_request 100 (Dec False 2 0) ''p1'') = 100"
    "br_cost_limit_usd (pg_reservation 100 sample_model_request 100 (Dec False 2 0) ''p1'') = Dec False 2 0" by (simp_all add: pg_reservation_def)
  have l: "lock_budget ''acme'' s = (Inr (), ?s)" using assms by (simp add: lock_budget_def op_eval)
  have q: "quota_limits ''acme'' ?s = (Inr \<lparr>ql_max_run_tokens = 1000, ql_max_run_cost_usd = Dec False 5000000 (-6),
     ql_max_tenant_tokens_per_period = 5000, ql_max_tenant_cost_usd_per_period = Dec False 20000000 (-6), ql_max_concurrent_runs = 2\<rparr>, ?s)"
    by (rule quotas_configured) (simp add: assms)
  have a: "pg_admission sample_model_request sample_quotas 100 (Dec False 2 0) (dt_of_instant 0) ?s = Inr ()" by (rule call_admitted) (simp_all add: assms)
  have n: "store_numeric 20 10 (Dec False 2 0) = Inr (Some 20000000000)" by (simp add: store_numeric_def numeric_store_def round_half_away_def pow10_def floor_eq_iff)
  have e: "same_quotas \<lparr>ql_max_run_tokens = 1000, ql_max_run_cost_usd = Dec False 5000000 (-6),
     ql_max_tenant_tokens_per_period = 5000, ql_max_tenant_cost_usd_per_period = Dec False 20000000 (-6), ql_max_concurrent_runs = 2\<rparr> sample_quotas"
    by (simp add: same_quotas_def sample_quotas_def dec_eq_def dec_less_def pow10_def)
  have v: "reservation_insert_valid call_row ?s"
    using assms by (simp add: reservation_insert_valid_def call_row_def reservation_insert_values_def sample_model_request_def gateway_lease_def
        leased_item_def pg_reservation_def int8_max_def numeric_non_negative_def)
  show ?thesis
    using assms by (simp add: reserve_mutation_def op_eval t b l q a n e insert_reservation_def v call_row_def [symmetric])
qed


definition call_events :: "EventEnvelope list" where
  "call_events = (let r = sample_model_request; b = pg_reservation 100 r 100 (Dec False 2 0) ''p1'';
       vs = pg_reserved_events r gateway_lease sample_route b; event = pg_event r gateway_lease (dt_of_instant 0) in
     [event 101 None 1 (fst (vs ! 0)) (snd (vs ! 0)), event 102 (Some 101) 2 (fst (vs ! 1)) (snd (vs ! 1)),
      event 103 (Some 102) 3 (fst (vs ! 2)) (snd (vs ! 2))])"

lemmas call_eval = pg_event_def pg_reserved_events_def pg_common_def sample_model_request_def gateway_lease_def sample_route_def sample_entry_def
  pg_reservation_def Let_def

lemma call_envelope_ok:
  "e \<in> set call_events \<Longrightarrow> new_envelope e = Inr e"
proof -
  have k: "event_idempotency_key sample_model_request ty p n \<noteq> []" for ty p n
    by (simp add: event_idempotency_key_def sample_model_request_def)
  have s: "py_strip (uuid_str 5) \<noteq> []" using uuid_not_blank [of 5] by simp
  have "\<forall>e \<in> set call_events. json_obj_wf (payload e) \<and> metadata e = [] \<and> envelope_ok e"
    by (simp add: call_events_def Let_def pg_event_def k envelope_ok_def)
      (simp add: call_eval s json_obj_wf_def py_strip_def strip_by_def py_isspace_def)
  then show "e \<in> set call_events \<Longrightarrow> new_envelope e = Inr e" by (simp add: new_envelope_Inr)
qed


lemma call_events_built:
  "pg_events sample_model_request gateway_lease (dt_of_instant 0) call_ids
     (pg_reserved_events sample_model_request gateway_lease sample_route (pg_reservation 100 sample_model_request 100 (Dec False 2 0) ''p1''))
   = Inr call_events"
proof -
  have i: "call_ids (Suc 0) = 101" "call_ids 2 = 102" "call_ids 3 = 103" by (simp_all add: call_ids_def)
  obtain x y z where e: "pg_reserved_events sample_model_request gateway_lease sample_route
      (pg_reservation 100 sample_model_request 100 (Dec False 2 0) ''p1'') = [x, y, z]"
    by (simp add: pg_reserved_events_def Let_def)
  show ?thesis
    using call_envelope_ok
    by (simp add: e pg_events_def call_events_def Let_def i numeral_2_eq_2 [symmetric] numeral_3_eq_3 [symmetric] res_bind_def)
qed


definition call_event :: "EventEnvelope \<Rightarrow> uuid \<Rightarrow> bool" where
  "call_event e i = (ev_tenant_id e = ''acme'' \<and> aggregate_id e = uuid_str 5 \<and> event_type e \<noteq> [] \<and> schema_version e = 1 \<and> actor e = None
     \<and> aggregate_sequence e = 0 \<and> global_position e = None \<and> event_id e = i \<and> (\<exists>k. idempotency_key e = Some k \<and> k \<noteq> []))"

lemma three_events_appended:
  assumes e: "call_event a 101" "call_event b 102" "call_event c 103"
    and d: "distinct [idempotency_key a, idempotency_key b, idempotency_key c]"
  shows "\<exists>s. append_in_transaction 0 [a, b, c] 0 [] leased_db = (Inr 3, s)"
proof -
  have n: "uuid_str 5 \<noteq> []" using uuid_not_blank [of 5] by (auto simp: py_strip_def strip_by_def)
  show ?thesis
    using e d n by (auto simp: call_event_def leased_db_def append_in_transaction_def op_eval Let_def insert_commit_lock_def insert_head_def insert_event_def
     is_head_def event_row_valid_def event_insert_values_def int4_max_def)
qed

lemma call_events_shape:
  obtains a b c where "call_events = [a, b, c]" "call_event a 101" "call_event b 102" "call_event c 103"
    "distinct [idempotency_key a, idempotency_key b, idempotency_key c]"
proof -
  let ?r = "sample_model_request" and ?l = gateway_lease
  have k: "idempotency_key (pg_event ?r ?l tm i ca n ty p) = Some (event_idempotency_key ?r ty p n)" for tm i ca n ty p
    by (simp add: pg_event_def)
  have "idempotency_key (call_events ! 0) \<noteq> idempotency_key (call_events ! 1)" "idempotency_key (call_events ! 0) \<noteq> idempotency_key (call_events ! 2)"
    "idempotency_key (call_events ! 1) \<noteq> idempotency_key (call_events ! 2)"
    by (simp_all add: call_events_def Let_def k event_idempotency_key_def pg_reserved_events_def)
  moreover have "call_event (call_events ! 0) 101" "call_event (call_events ! 1) 102" "call_event (call_events ! 2) 103"
    by (simp_all add: call_event_def call_events_def Let_def k, simp_all add: call_eval event_idempotency_key_def)
  moreover have "call_events = [call_events ! 0, call_events ! 1, call_events ! 2]" by (simp add: call_events_def Let_def)
  ultimately show ?thesis using that by (metis distinct_length_2_or_more distinct_singleton)
qed


lemma reserving_run:
  "fst (reserving leased_db) = Inr (pg_reservation 100 sample_model_request 100 (Dec False 2 0) ''p1'')"
  "gd_reservations (snd (reserving leased_db)) = [call_row]" "pj_model_usage (snd (reserving leased_db)) = []"
proof -
  let ?b = "pg_reservation 100 sample_model_request 100 (Dec False 2 0) ''p1''"
  obtain a b c where e: "call_events = [a, b, c]" and c: "call_event a 101" "call_event b 102" "call_event c 103"
    and d: "distinct [idempotency_key a, idempotency_key b, idempotency_key c]"
    by (rule call_events_shape)
  from three_events_appended [OF c d] obtain s where s: "append_in_transaction 0 call_events 0 [] leased_db = (Inr 3, s)" by (auto simp: e)
  note s_tables = append_in_transaction_Inr(4) [OF s]
  have m: "reserve_mutation sample_model_request gateway_lease sample_quotas ?b (dt_of_instant 0) s
    = (Inr (), s\<lparr>gd_budget_locks := (if ''acme'' \<in> set (gd_budget_locks s) then gd_budget_locks s else gd_budget_locks s @ [''acme'']),
        gd_reservations := [call_row]\<rparr>)"
    by (rule call_mutation) (simp_all add: s_tables, simp_all add: leased_db_def)
  have v: "pg_validate ''acme'' sample_model_request gateway_lease (dt_of_instant 0) = Inr ()"
    by (simp add: pg_validate_def sample_model_request_def gateway_lease_def)
  have z: "stream_version leased_db ''acme'' (uuid_str 5) = 0" by (simp add: stream_version_def leased_db_def)
  have f: "sql_one (fence_matches 0 ''acme'' 5 8 1) (db_work_leases leased_db) = Some leased_row"
    by (simp add: leased_db_def leased_row_def fence_matches_def)
  have l: "ls_work_id gateway_lease = 5" "ls_token gateway_lease = 8" "ls_generation gateway_lease = 1" by (simp_all add: gateway_lease_def)
  have p: "\<forall>x \<in> set call_events. map_of (payload x) ''lease_token'' = Some (JStr (uuid_str 8)) \<and> json_get_eq_int (map_of (payload x) ''lease_generation'') 1"
    by (simp add: call_events_def Let_def, simp add: call_eval)
  have va: "validate_append ''acme'' call_events 0 = Inr ()" using c by (simp add: validate_append_Inr same_stream_def e call_event_def)
  have g: "\<forall>x \<in> set call_events. aggregate_id x = uuid_str 5" using c by (simp add: e call_event_def)
  have "reserving leased_db = (Inr ?b, s\<lparr>gd_budget_locks := (if ''acme'' \<in> set (gd_budget_locks s) then gd_budget_locks s else gd_budget_locks s @ [''acme'']),
        gd_reservations := [call_row]\<rparr>)"
    unfolding reserving_def pg_reserve_def
    using p by (simp add: op_eval v Let_def call_ids_def call_events_built [simplified call_ids_def] pg_append_fenced_eq z l pg_commit_def append_fenced_def va
        tenant_transaction_def transaction_def f s m g)
  then show "fst (reserving leased_db) = Inr ?b" "gd_reservations (snd (reserving leased_db)) = [call_row]" "pj_model_usage (snd (reserving leased_db)) = []"
    by (simp_all add: s_tables leased_db_def)
qed


lemma reserving_step: "(pg_step 0)\<^sup>*\<^sup>* leased_db (snd (reserving leased_db))"
proof -
  obtain x s' where r: "reserving leased_db = (x, s')" by fastforce
  have "pg_reserve (committing 0 ''acme'' gateway_lease (stream_version leased_db ''acme'' (uuid_str (ls_work_id gateway_lease))))
      call_ids ''acme'' sample_model_request gateway_lease sample_route sample_quotas 100 (Dec False 2 0) ''p1'' (dt_of_instant 0) leased_db = (x, s')"
    unfolding r [symmetric] reserving_def by (rule alone_is_interleaved [symmetric])
  then have "pg_step 0 leased_db s'" by (rule pg_step.reserve) (auto simp: first_period dt_instant_def)
  then show ?thesis using r by simp
qed

lemma leased_fresh: "fresh_gateway leased_db" "quota_of leased_db ''acme'' = Some quota_row"
  by (simp_all add: fresh_gateway_def quota_of_def leased_db_def quota_row_def)

theorem durable_token_budgets_hold_witness:
  "100 \<le> tq_max_run_tokens quota_row + over_rows (row_excess (row_of_run ''acme'' 5)) (snd (reserving leased_db))
   \<and> pg_tokens (run_active_rows ''acme'' 5 (snd (reserving leased_db))) (run_usage ''acme'' 5 (snd (reserving leased_db))) = 100"
proof -
  have t: "pg_tokens (run_active_rows ''acme'' 5 (snd (reserving leased_db))) (run_usage ''acme'' 5 (snd (reserving leased_db))) = 100"
    by (simp add: pg_tokens_def run_active_rows_def run_usage_def reserving_run call_row_def reservation_insert_values_def sample_model_request_def
        pg_reservation_def rv_active_def)
  show ?thesis
    using durable_token_budgets_hold [OF leased_fresh(1) reserving_step leased_fresh(2), of 5] by (simp add: t)
qed

theorem usage_recorded_exactly_once_witness:
  "mset (map usage_key (pj_model_usage (snd (reserving leased_db))))
     = mset (map charge_key_of (filter rv_charged (gd_reservations (snd (reserving leased_db)))))
   \<and> gd_reservations (snd (reserving leased_db)) = [call_row]"
  using usage_recorded_exactly_once [OF leased_fresh(1) reserving_step] reserving_run by simp

end
