(* ===== verification/Json_Text.thy ===== *)
theory Json_Text
  imports Transport
begin

text \<open>
  JSON text: \<^verbatim>\<open>json.dumps(value, separators=(",", ":"))\<close> in the order of the members, and \<^verbatim>\<open>json.loads\<close> on texts of eight-bit
  characters (an escape above \<^verbatim>\<open>00ff\<close> has no character here and is refused, the nesting limit of the interpreter is left out). The value of a
  number with a fraction or an exponent is a parameter: the \<^verbatim>\<open>repr\<close> of the float the literal denotes. What was printed is read back.
\<close>

section \<open>Printing\<close>

fun json_compact :: "json \<Rightarrow> string" where
  "json_compact JNull = ''null''"
| "json_compact (JBool b) = (if b then ''true'' else ''false'')"
| "json_compact (JInt i) = int_str i"
| "json_compact (JFloat r) = r"
| "json_compact (JStr s) = json_string s"
| "json_compact (JArr xs) = ''['' @ join_with '','' (map json_compact xs) @ '']''"
| "json_compact (JObj kvs) = ''{'' @ join_with '','' (map (\<lambda>(k, v). json_string k @ '':'' @ json_compact v) kvs) @ ''}''"

section \<open>Reading\<close>

abbreviation "quote_char \<equiv> char_of (34::nat) :: char"
abbreviation "backslash_char \<equiv> char_of (92::nat) :: char"

definition json_space :: "char \<Rightarrow> bool" where
  "json_space c = ((of_char c :: nat) \<in> {9, 10, 13, 32})"

definition skip_space :: "string \<Rightarrow> string" where
  "skip_space s = dropWhile json_space s"

definition simple_escape :: "char \<Rightarrow> char option" where
  "simple_escape c = (let n = (of_char c :: nat) in
     if n = 34 \<or> n = 92 \<or> n = 47 then Some c
     else if c = CHR ''n'' then Some (char_of (10::nat))
     else if c = CHR ''r'' then Some (char_of (13::nat))
     else if c = CHR ''t'' then Some (char_of (9::nat))
     else if c = CHR ''f'' then Some (char_of (12::nat))
     else if c = CHR ''b'' then Some (char_of (8::nat))
     else None)"

definition unicode_escape :: "string \<Rightarrow> char option" where
  "unicode_escape h = (case text_digits 16 h of
     Some ds \<Rightarrow> if digits_value 16 ds < 256 then Some (char_of (digits_value 16 ds)) else None
   | None \<Rightarrow> None)"

text \<open>The characters of a string up to its closing quote, and the rest.\<close>

fun json_chars :: "string \<Rightarrow> (string \<times> string) option" where
  "json_chars [] = None"
| "json_chars (c # s) =
     (if c = quote_char then Some ([], s)
      else if c = backslash_char then
        (case s of
           e # s1 \<Rightarrow>
             if e = CHR ''u'' then
               (case s1 of
                  h1 # h2 # h3 # h4 # s2 \<Rightarrow>
                    (case unicode_escape [h1, h2, h3, h4] of
                       Some x \<Rightarrow> map_option (\<lambda>(cs, r). (x # cs, r)) (json_chars s2)
                     | None \<Rightarrow> None)
                | _ \<Rightarrow> None)
             else (case simple_escape e of
                     Some x \<Rightarrow> map_option (\<lambda>(cs, r). (x # cs, r)) (json_chars s1)
                   | None \<Rightarrow> None)
         | [] \<Rightarrow> None)
      else if (of_char c :: nat) < 32 then None
      else map_option (\<lambda>(cs, r). (c # cs, r)) (json_chars s))"

text \<open>A number: sign, integer part without leading zeros, fraction, exponent; more than 4300 digits are refused for integers.\<close>

definition whole_part :: "string \<Rightarrow> (string \<times> string) option" where
  "whole_part s = (case s of
     [] \<Rightarrow> None
   | c # r \<Rightarrow> if c = CHR ''0'' then Some ([c], r)
             else if is_dec c then Some (takeWhile is_dec s, dropWhile is_dec s) else None)"

definition fraction_part :: "string \<Rightarrow> string \<times> string" where
  "fraction_part s = (case s of
     c # r \<Rightarrow> if c = CHR ''.'' \<and> takeWhile is_dec r \<noteq> [] then (c # takeWhile is_dec r, dropWhile is_dec r) else ([], s)
   | [] \<Rightarrow> ([], s))"

definition exponent_part :: "string \<Rightarrow> string \<times> string" where
  "exponent_part s = (case s of
     c # r \<Rightarrow>
       if c = CHR ''e'' \<or> c = CHR ''E'' then
         (let sgn = (case r of x # _ \<Rightarrow> if x = CHR ''+'' \<or> x = CHR ''-'' then [x] else [] | [] \<Rightarrow> []); ds = drop (length sgn) r in
          if takeWhile is_dec ds \<noteq> [] then (c # sgn @ takeWhile is_dec ds, dropWhile is_dec ds) else ([], s))
       else ([], s)
   | [] \<Rightarrow> ([], s))"

definition json_numeral :: "(string \<Rightarrow> pyfloat) \<Rightarrow> string \<Rightarrow> (pyval \<times> string) option" where
  "json_numeral fl s0 =
     (let sgn = (case s0 of x # _ \<Rightarrow> if x = CHR ''-'' then [x] else [] | [] \<Rightarrow> []) in
      case whole_part (drop (length sgn) s0) of
        None \<Rightarrow> None
      | Some (ds, r) \<Rightarrow>
          (case fraction_part r of (f, r1) \<Rightarrow>
          (case exponent_part r1 of (e, r2) \<Rightarrow>
             if f = [] \<and> e = [] then
               (if length ds \<le> 4300 then map_option (\<lambda>i. (PInt i, r2)) (py_int (sgn @ ds)) else None)
             else Some (PFloat (fl (sgn @ ds @ f @ e)), r2))))"

definition json_constants :: "(string \<times> pyval) list" where
  "json_constants = [(''null'', PNone), (''true'', PBool True), (''false'', PBool False), (''NaN'', PFloat (NonFiniteFloat ''nan'')),
     (''Infinity'', PFloat (NonFiniteFloat ''inf'')), (''-Infinity'', PFloat (NonFiniteFloat ''-inf''))]"

definition json_scalar :: "(string \<Rightarrow> pyfloat) \<Rightarrow> string \<Rightarrow> (pyval \<times> string) option" where
  "json_scalar fl s = (case find (\<lambda>(name, v). py_startswith s name) json_constants of
     Some (name, v) \<Rightarrow> Some (v, drop (length name) s)
   | None \<Rightarrow> json_numeral fl s)"

text \<open>
  Values, the elements of a list and the members of an object. Each call takes one unit of fuel; \<open>json_loads\<close> gives twice the length of
  the text, which is enough. A repeated key overwrites.
\<close>

fun json_value :: "(string \<Rightarrow> pyfloat) \<Rightarrow> nat \<Rightarrow> string \<Rightarrow> (pyval \<times> string) option"
  and json_elements :: "(string \<Rightarrow> pyfloat) \<Rightarrow> nat \<Rightarrow> string \<Rightarrow> (pyval list \<times> string) option"
  and json_members :: "(string \<Rightarrow> pyfloat) \<Rightarrow> nat \<Rightarrow> string \<Rightarrow> ((pyval \<times> pyval) list \<times> string) option" where
  "json_value fl 0 s = None"
| "json_value fl (Suc n) s = (case s of
     [] \<Rightarrow> None
   | c # r \<Rightarrow>
       if c = quote_char then map_option (\<lambda>(cs, t). (PStr cs, t)) (json_chars r)
       else if c = CHR ''['' then
         (case skip_space r of
            [] \<Rightarrow> None
          | d # t \<Rightarrow> if d = CHR '']'' then Some (PList [], t)
                    else map_option (\<lambda>(vs, u). (PList vs, u)) (json_elements fl n (d # t)))
       else if c = CHR ''{'' then
         (case skip_space r of
            [] \<Rightarrow> None
          | d # t \<Rightarrow> if d = CHR ''}'' then Some (PDict [], t)
                    else map_option (\<lambda>(kvs, u). (PDict (dict_update [] kvs), u)) (json_members fl n (d # t)))
       else json_scalar fl s)"
| "json_elements fl 0 s = None"
| "json_elements fl (Suc n) s = (case json_value fl n s of
     None \<Rightarrow> None
   | Some (v, r) \<Rightarrow> (case skip_space r of
       [] \<Rightarrow> None
     | d # t \<Rightarrow>
         if d = CHR '','' then map_option (\<lambda>(vs, u). (v # vs, u)) (json_elements fl n (skip_space t))
         else if d = CHR '']'' then Some ([v], t) else None))"
| "json_members fl 0 s = None"
| "json_members fl (Suc n) s = (case s of
     [] \<Rightarrow> None
   | c # s1 \<Rightarrow>
       if c = quote_char then
         (case json_chars s1 of
            None \<Rightarrow> None
          | Some (k, r) \<Rightarrow> (case skip_space r of
              [] \<Rightarrow> None
            | d # t \<Rightarrow>
                if d = CHR '':'' then
                  (case json_value fl n (skip_space t) of
                     None \<Rightarrow> None
                   | Some (v, r1) \<Rightarrow> (case skip_space r1 of
                       [] \<Rightarrow> None
                     | e # u \<Rightarrow>
                         if e = CHR '','' then map_option (\<lambda>(kvs, u1). ((PStr k, v) # kvs, u1)) (json_members fl n (skip_space u))
                         else if e = CHR ''}'' then Some ([(PStr k, v)], u) else None))
                else None))
       else None)"

definition json_loads :: "(string \<Rightarrow> pyfloat) \<Rightarrow> string \<Rightarrow> pyval option" where
  "json_loads fl s =
     (let t = skip_space s in
      case json_value fl (Suc (2 * length t)) t of
        Some (v, r) \<Rightarrow> if skip_space r = [] then Some v else None
      | None \<Rightarrow> None)"

section \<open>Fuel\<close>

lemma skip_space_le: "length (skip_space s) \<le> length s"
  by (simp add: skip_space_def length_dropWhile_le)

lemma skip_space_eq: "skip_space s = d # t \<Longrightarrow> length t < length s"
  using skip_space_le [of s] by auto

lemma json_chars_shorter: "json_chars s = Some (cs, r) \<Longrightarrow> length r < length s"
  by (induction s arbitrary: cs r rule: json_chars.induct) (force split: if_splits list.splits option.splits)+

lemma whole_part_shorter: "whole_part s = Some (ds, r) \<Longrightarrow> length r < length s"
  using length_dropWhile_le [of is_dec] by (auto simp: whole_part_def le_imp_less_Suc split: list.splits if_splits)

lemma tail_parts_le: "fraction_part s = (f, r) \<Longrightarrow> length r \<le> length s" "exponent_part s = (e, r) \<Longrightarrow> length r \<le> length s"
proof -
  have "length (dropWhile is_dec t) \<le> Suc (length t)" "length (dropWhile is_dec t) \<le> Suc (Suc (length t))" for t
    using length_dropWhile_le [of is_dec t] by simp_all
  then show "fraction_part s = (f, r) \<Longrightarrow> length r \<le> length s" "exponent_part s = (e, r) \<Longrightarrow> length r \<le> length s"
    by (auto simp: fraction_part_def exponent_part_def Let_def split: list.splits if_splits)
qed

lemma json_numeral_shorter:
  assumes "json_numeral fl s = Some (v, r)"
  shows "length r < length s"
proof -
  obtain k ds r0 f r1 e where "whole_part (drop k s) = Some (ds, r0)" "fraction_part r0 = (f, r1)" "exponent_part r1 = (e, r)"
    using assms by (auto simp: json_numeral_def Let_def split: option.splits prod.splits if_splits)
  then show ?thesis using whole_part_shorter [of "drop k s"] tail_parts_le [of r0 f r1] tail_parts_le [of r1 e r] by fastforce
qed

lemma json_scalar_shorter:
  assumes "json_scalar fl s = Some (v, r)"
  shows "length r < length s"
proof (cases "find (\<lambda>(name, v). py_startswith s name) json_constants")
  case None
  then show ?thesis using assms json_numeral_shorter by (simp add: json_scalar_def)
next
  case (Some nv)
  then obtain name w where nv: "nv = (name, w)" "py_startswith s name" "name \<noteq> []"
    by (auto simp: json_constants_def split: if_splits)
  then have "s \<noteq> []" by (auto simp: py_startswith_def)
  then show ?thesis using assms Some nv by (cases s; cases name) (auto simp: json_scalar_def)
qed

lemma json_shorter:
  "json_value fl n s = Some (v, r) \<Longrightarrow> length r < length s"
  "json_elements fl n s = Some (vs, r) \<Longrightarrow> length r < length s"
  "json_members fl n s = Some (kvs, r) \<Longrightarrow> length r < length s"
proof (induction fl n s and fl n s and fl n s arbitrary: v r and vs r and kvs r rule: json_value_json_elements_json_members.induct)
  case (2 fl n s)
  show ?case
  proof (cases s)
    case (Cons c t)
    then show ?thesis
      using 2 json_chars_shorter [of t] json_scalar_shorter [of fl s v r] skip_space_le [of t]
      by (fastforce split: if_splits list.splits dest: skip_space_eq)
  qed (use 2 in simp)
next
  case (4 fl n s)
  obtain v r1 d t where v: "json_value fl n s = Some (v, r1)" "skip_space r1 = d # t"
    using 4(3) by (auto split: option.splits list.splits)
  have "length t < length s" using 4(1) [OF v(1)] skip_space_eq [OF v(2)] by simp
  then show ?case
    using 4(2) [OF v(1) refl v(2)] 4(3) v skip_space_le [of t] by (fastforce split: if_splits)
next
  case (6 fl n s)
  obtain s1 k r0 d t v1 r1 e u where s: "s = quote_char # s1" and k: "json_chars s1 = Some (k, r0)" "skip_space r0 = d # t" "d = CHR '':''"
    and v: "json_value fl n (skip_space t) = Some (v1, r1)" "skip_space r1 = e # u"
    using 6(3) by (auto split: option.splits list.splits if_splits)
  have "length (skip_space t) < length s1"
    using json_chars_shorter [OF k(1)] skip_space_eq [OF k(2)] skip_space_le [of t] by simp
  moreover have "length r1 < length (skip_space t)" using 6(1) [OF s refl k(1) refl k(2,3) v(1)] .
  ultimately have "length u < length s" using skip_space_eq [OF v(2)] s by simp
  then show ?case
    using 6(2) [OF s refl k(1) refl k(2,3) v(1) refl v(2)] 6(3) s k v skip_space_le [of u] by (fastforce split: if_splits)
qed simp_all

lemma json_fuel:
  "2 * length s < n \<Longrightarrow> 2 * length s < m \<Longrightarrow> json_value fl n s = json_value fl m s"
  "Suc (2 * length s) < n \<Longrightarrow> Suc (2 * length s) < m \<Longrightarrow> json_elements fl n s = json_elements fl m s"
  "Suc (2 * length s) < n \<Longrightarrow> Suc (2 * length s) < m \<Longrightarrow> json_members fl n s = json_members fl m s"
proof (induction fl n s and fl n s and fl n s arbitrary: m and m and m rule: json_value_json_elements_json_members.induct)
  case (2 fl n s)
  obtain m' where m: "m = Suc m'" using 2(4) by (cases m) auto
  show ?case
  proof (cases s)
    case (Cons c t)
    have "json_elements fl n (d # u) = json_elements fl m' (d # u)" if "c \<noteq> quote_char" "c = CHR ''[''" "skip_space t = d # u" "d \<noteq> CHR '']''" for d u
      using that 2(1) [OF Cons that, of m'] 2(3,4) skip_space_le [of t] by (simp add: m Cons)
    moreover have "json_members fl n (d # u) = json_members fl m' (d # u)"
      if "c \<noteq> quote_char" "c \<noteq> CHR ''[''" "c = CHR ''{''" "skip_space t = d # u" "d \<noteq> CHR ''}''" for d u
      using that 2(2) [OF Cons that, of m'] 2(3,4) skip_space_le [of t] by (simp add: m Cons)
    ultimately show ?thesis by (cases "skip_space t") (simp_all add: m Cons)
  qed (simp add: m)
next
  case (4 fl n s)
  obtain m' where m: "m = Suc m'" using 4(4) by (cases m) auto
  have v: "json_value fl n s = json_value fl m' s" using 4(1) [of m'] 4(3,4) by (simp add: m)
  have "json_elements fl n (skip_space t) = json_elements fl m' (skip_space t)"
    if "json_value fl n s = Some (v, r)" "skip_space r = d # t" "d = CHR '',''" for v r d t
  proof -
    have "length (skip_space t) < length s"
      using json_shorter(1) [OF that(1)] skip_space_eq [OF that(2)] skip_space_le [of t] by simp
    then show ?thesis using 4(2) [OF that(1) refl that(2,3), of m'] 4(3,4) by (simp add: m)
  qed
  then show ?case unfolding m json_elements.simps v [symmetric] by (auto split: option.splits list.splits)
next
  case (6 fl n s)
  obtain m' where m: "m = Suc m'" using 6(4) by (cases m) auto
  have v: "json_value fl n (skip_space t) = json_value fl m' (skip_space t)"
    if "s = c # s1" "c = quote_char" "json_chars s1 = Some (k, r)" "skip_space r = d # t" "d = CHR '':''" for c s1 k r d t
    using 6(1) [OF that(1,2,3) refl that(4,5), of m'] 6(3,4) json_chars_shorter [OF that(3)] skip_space_eq [OF that(4)] skip_space_le [of t]
    by (simp add: m that(1))
  moreover have "json_members fl n (skip_space u) = json_members fl m' (skip_space u)"
    if "s = c # s1" "c = quote_char" "json_chars s1 = Some (k, r)" "skip_space r = d # t" "d = CHR '':''"
      "json_value fl n (skip_space t) = Some (w, r1)" "skip_space r1 = e # u" "e = CHR '',''" for c s1 k r d t w r1 e u
  proof -
    have "length (skip_space u) < length s"
      using json_shorter(1) [OF that(6)] json_chars_shorter [OF that(3)] skip_space_eq [OF that(4)] skip_space_eq [OF that(7)] skip_space_le [of t]
        skip_space_le [of u] that(1) by simp
    then show ?thesis using 6(2) [OF that(1,2,3) refl that(4,5,6) refl that(7,8), of m'] 6(3,4) by (simp add: m)
  qed
  ultimately show ?case unfolding m json_members.simps by (auto split: option.splits list.splits)
qed simp_all


section \<open>What is printed is read back\<close>

text \<open>A text that may follow a value: the end, a separator or a closing bracket.\<close>

definition ends_value :: "string \<Rightarrow> bool" where
  "ends_value r = (r = [] \<or> hd r = CHR '','' \<or> hd r = CHR '']'' \<or> hd r = CHR ''}'')"

text \<open>A float prints as a literal that the reader takes for the same float; integers have at most 4300 digits.\<close>

definition float_literal :: "(string \<Rightarrow> pyfloat) \<Rightarrow> string \<Rightarrow> bool" where
  "float_literal fl r = (json_numeral fl r = Some (PFloat (FiniteFloat r), []))"

fun printable :: "(string \<Rightarrow> pyfloat) \<Rightarrow> json \<Rightarrow> bool" where
  "printable fl (JInt i) = (length (nat_str (nat \<bar>i\<bar>)) \<le> 4300)"
| "printable fl (JFloat r) = float_literal fl r"
| "printable fl (JArr xs) = (\<forall>x \<in> set xs. printable fl x)"
| "printable fl (JObj kvs) = (\<forall>kv \<in> set kvs. printable fl (snd kv))"
| "printable fl _ = True"

lemma ends_value_dec: "ends_value r \<Longrightarrow> takeWhile is_dec r = [] \<and> dropWhile is_dec r = r"
  by (cases r) (auto simp: ends_value_def is_dec_def digit_val_def)

lemma dec_append: "ends_value r \<Longrightarrow> takeWhile is_dec (s @ r) = takeWhile is_dec s \<and> dropWhile is_dec (s @ r) = dropWhile is_dec s @ r"
  by (induction s) (auto simp: ends_value_dec)

lemma whole_part_append: "whole_part s = Some (ds, t) \<Longrightarrow> ends_value r \<Longrightarrow> whole_part (s @ r) = Some (ds, t @ r)"
  using dec_append [of r s] by (auto simp: whole_part_def split: list.splits if_splits)

lemma fraction_part_append: "fraction_part s = (f, t) \<Longrightarrow> ends_value r \<Longrightarrow> fraction_part (s @ r) = (f, t @ r)"
  using dec_append [of r "tl s"] by (cases s; cases r) (auto simp: fraction_part_def ends_value_def split: if_splits)

lemma exponent_part_append:
  assumes "exponent_part s = (e, t)" and "ends_value r"
  shows "exponent_part (s @ r) = (e, t @ r)"
proof (cases s)
  case Nil
  then show ?thesis using assms by (cases r) (auto simp: exponent_part_def ends_value_def)
next
  case (Cons c u)
  show ?thesis
  proof (cases u)
    case Nil
    then show ?thesis using assms Cons by (cases r) (auto simp: exponent_part_def ends_value_def Let_def is_dec_def digit_val_def split: if_splits)
  next
    case u: (Cons x y)
    then show ?thesis
      using assms Cons dec_append [OF assms(2), of y] by (auto simp: exponent_part_def Let_def split: if_splits)
  qed
qed

lemma json_numeral_append:
  assumes "json_numeral fl s = Some (v, [])" and "ends_value r"
  shows "json_numeral fl (s @ r) = Some (v, r)"
proof -
  define sgn where "sgn = (case s of x # _ \<Rightarrow> if x = CHR ''-'' then [x] else [] | [] \<Rightarrow> [])"
  have ne: "s \<noteq> []" using json_numeral_shorter [OF assms(1)] by auto
  have sr: "(case s @ r of x # _ \<Rightarrow> if x = CHR ''-'' then [x] else [] | [] \<Rightarrow> []) = sgn" "drop (length sgn) (s @ r) = drop (length sgn) s @ r"
    using ne by (cases s; simp add: sgn_def)+
  obtain ds r0 f r1 e where p: "whole_part (drop (length sgn) s) = Some (ds, r0)" "fraction_part r0 = (f, r1)" "exponent_part r1 = (e, [])"
    and v: "if f = [] \<and> e = [] then length ds \<le> 4300 \<and> (\<exists>i. py_int (sgn @ ds) = Some i \<and> v = PInt i) else v = PFloat (fl (sgn @ ds @ f @ e))"
    using assms(1) by (auto simp: json_numeral_def Let_def sgn_def [symmetric] split: option.splits prod.splits if_splits)
  have "whole_part (drop (length sgn) (s @ r)) = Some (ds, r0 @ r)" "fraction_part (r0 @ r) = (f, r1 @ r)" "exponent_part (r1 @ r) = (e, r)"
    using whole_part_append [OF p(1) assms(2)] fraction_part_append [OF p(2) assms(2)] exponent_part_append [OF p(3) assms(2)] sr(2) by simp_all
  then show ?thesis using v by (auto simp: json_numeral_def Let_def sr(1) split: if_splits)
qed

lemma numeral_start:
  assumes "json_numeral fl s = Some (v, r)"
  shows "\<exists>c t. s = c # t \<and> (is_dec c \<or> c = CHR ''-'' \<and> (\<exists>d u. t = d # u \<and> is_dec d))"
proof -
  have "\<exists>c t. w = c # t \<and> is_dec c" if "whole_part w = Some q" for w q
    using that by (cases w) (auto simp: whole_part_def is_dec_def digit_val_def split: if_splits)
  note w = this
  obtain q where q: "whole_part (drop (length (case s of x # _ \<Rightarrow> if x = CHR ''-'' then [x] else [] | [] \<Rightarrow> [])) s) = Some q"
    using assms by (auto simp: json_numeral_def Let_def split: option.splits)
  show ?thesis
  proof (cases s)
    case Nil
    then show ?thesis using q by (simp add: whole_part_def)
  next
    case (Cons c t)
    show ?thesis
    proof (cases "c = CHR ''-''")
      case True
      then have "whole_part t = Some q" using q Cons by simp
      then show ?thesis using w [of t q] Cons True by blast
    next
      case False
      then have "whole_part s = Some q" using q Cons by simp
      then show ?thesis using w [of s q] Cons by blast
    qed
  qed
qed

lemma json_scalar_numeral:
  assumes "json_numeral fl s = Some (v, [])" and "ends_value r"
  shows "json_scalar fl (s @ r) = Some (v, r)"
proof -
  obtain c t where s: "s = c # t" "is_dec c \<or> c = CHR ''-'' \<and> (\<exists>d u. t = d # u \<and> is_dec d)" using numeral_start [OF assms(1)] by blast
  have nd: "\<not> is_dec CHR ''n''" "\<not> is_dec CHR ''t''" "\<not> is_dec CHR ''f''" "\<not> is_dec CHR ''N''" "\<not> is_dec CHR ''I''" "\<not> is_dec CHR ''-''"
    by (simp_all add: is_dec_def digit_val_def)
  have "find (\<lambda>(name, v). py_startswith (s @ r) name) json_constants = None"
  proof (cases "is_dec c")
    case True
    then have "c \<noteq> CHR ''n''" "c \<noteq> CHR ''t''" "c \<noteq> CHR ''f''" "c \<noteq> CHR ''N''" "c \<noteq> CHR ''I''" "c \<noteq> CHR ''-''" using nd by auto
    then show ?thesis by (simp add: json_constants_def py_startswith_def s(1))
  next
    case False
    then obtain d u where "c = CHR ''-''" "t = d # u" "is_dec d" using s(2) by blast
    moreover from this have "d \<noteq> CHR ''I''" using nd by auto
    ultimately show ?thesis by (simp add: json_constants_def py_startswith_def s(1))
  qed
  then show ?thesis using json_numeral_append [OF assms] by (simp add: json_scalar_def)
qed


lemma char_of_iff: "k < 256 \<Longrightarrow> c = char_of k \<longleftrightarrow> (of_char c :: nat) = k"
  by (metis char_of_char of_char_of mod_less)

lemma of_char_less: "(of_char c :: nat) < 256"
  by simp

lemma unicode_escape_text: "unicode_escape (digits_text 16 4 (of_char c)) = Some c"
proof -
  have l: "(of_char c :: nat) < 256" by (rule of_char_less)
  have "text_digits 16 (digits_text 16 4 (of_char c)) = Some (fixed_digits 16 4 (of_char c))"
    unfolding digits_text_def using fixed_digits_lt [of 16 4 "of_char c"] by (intro text_digits_map) simp_all
  moreover have "digits_value 16 (fixed_digits 16 4 (of_char c)) = (of_char c :: nat)"
    using digits_value_fixed [of 16 4 "of_char c"] mod_less [OF less_le_trans [OF l, of "16 ^ 4"]] by simp
  ultimately show ?thesis using l by (simp add: unicode_escape_def)
qed

lemma json_chars_escape: "json_chars (json_escape c @ t) = map_option (\<lambda>(cs, r). (c # cs, r)) (json_chars t)"
proof -
  define n where "n = (of_char c :: nat)"
  have eq: "c = char_of k \<longleftrightarrow> n = k" if "k < 256" for k using char_of_iff [OF that] by (simp add: n_def)
  consider (same) "n = 34 \<or> n = 92" | (named) "n \<in> {10, 13, 9, 12, 8}" | (hex) "n \<notin> {34, 92, 10, 13, 9, 12, 8}" "n < 32 \<or> 127 \<le> n"
    | (plain) "n \<noteq> 34" "n \<noteq> 92" "32 \<le> n" "n < 127" by force
  then show ?thesis
  proof cases
    case same
    then show ?thesis using eq [of 34] eq [of 92] by (auto simp: json_escape_def n_def simple_escape_def Let_def)
  next
    case named
    then have "c = char_of n" "n \<in> {10, 13, 9, 12, 8}" using eq [of n] by auto
    then show ?thesis by (auto simp: json_escape_def simple_escape_def Let_def)
  next
    case hex
    obtain h1 h2 h3 h4 where h: "digits_text 16 4 n = [h1, h2, h3, h4]"
      using length_digits_text [of 16 4 n] by (auto simp: numeral_eq_Suc length_Suc_conv simp del: length_digits_text)
    have "json_escape c = [backslash_char, CHR ''u''] @ digits_text 16 4 n"
      using hex by (auto simp: json_escape_def n_def [symmetric] Let_def)
    moreover have "unicode_escape [h1, h2, h3, h4] = Some c" using unicode_escape_text [of c] h by (simp add: n_def)
    ultimately show ?thesis by (simp add: h)
  next
    case plain
    then have "json_escape c = [c]" by (simp add: json_escape_def n_def [symmetric] Let_def)
    moreover have "c \<noteq> quote_char" "c \<noteq> backslash_char" using plain eq [of 34] eq [of 92] by auto
    ultimately show ?thesis using plain by (simp add: n_def)
  qed
qed

lemma json_chars_string: "json_chars (concat (map json_escape s) @ quote_char # r) = Some (s, r)"
  by (induction s) (simp_all add: json_chars_escape del: json_chars.simps(2), simp)

lemma nat_str_is_dec: "c \<in> set (nat_str n) \<Longrightarrow> is_dec c"
  using nat_digits_lt [of n] by (auto simp: nat_str_def is_dec_def)

lemma hd_nat_digits: "0 < n \<Longrightarrow> hd (nat_digits n) \<noteq> 0"
proof (induction n rule: nat_digits.induct)
  case (1 n)
  then show ?case by (subst nat_digits.simps) auto
qed

lemma whole_part_nat_str: "whole_part (nat_str n) = Some (nat_str n, [])"
proof (cases n)
  case 0
  have "nat_str 0 = [CHR ''0'']" by code_simp
  then show ?thesis by (simp add: 0 whole_part_def)
next
  case (Suc k)
  obtain d ds where d: "nat_digits n = d # ds" by (cases "nat_digits n") auto
  have "d < 10" "d \<noteq> 0" using nat_digits_lt [of n] hd_nat_digits [of n] Suc d by auto
  then have "digit_char d \<noteq> CHR ''0''" using digit_val_char [of d] by (auto simp: digit_val_def)
  moreover have "is_dec (digit_char d)" "takeWhile is_dec (nat_str n) = nat_str n" "dropWhile is_dec (nat_str n) = []"
    using nat_str_is_dec [of _ n] d by (auto simp: nat_str_def)
  ultimately show ?thesis using d by (simp add: whole_part_def nat_str_def)
qed

lemma json_numeral_int:
  assumes "length (nat_str (nat \<bar>i\<bar>)) \<le> 4300"
  shows "json_numeral fl (int_str i) = Some (PInt i, [])"
proof -
  have w: "whole_part (nat_str (nat \<bar>i\<bar>)) = Some (nat_str (nat \<bar>i\<bar>), [])" by (rule whole_part_nat_str)
  have h: "nat_str (nat \<bar>i\<bar>) = c # t \<Longrightarrow> c \<noteq> CHR ''-''" for c t using nat_str_chars [of c "nat \<bar>i\<bar>"] by auto
  have e: "fraction_part [] = ([], [])" "exponent_part [] = ([], [])" by (simp_all add: fraction_part_def exponent_part_def)
  show ?thesis
  proof (cases "i < 0")
    case True
    then have "int_str i = CHR ''-'' # nat_str (nat \<bar>i\<bar>)" by (simp add: int_str_def)
    then show ?thesis using w e assms py_int_int_str [of i] by (simp add: json_numeral_def)
  next
    case False
    then have s: "int_str i = nat_str (nat \<bar>i\<bar>)" by (simp add: int_str_def)
    have "(case int_str i of x # _ \<Rightarrow> if x = CHR ''-'' then [x] else [] | [] \<Rightarrow> []) = []" using h s by (auto split: list.splits)
    then show ?thesis using w e assms py_int_int_str [of i] by (simp add: json_numeral_def s)
  qed
qed


lemma json_value_string: "0 < n \<Longrightarrow> json_value fl n (json_string s @ r) = Some (PStr s, r)"
  by (cases n) (simp_all add: json_string_def json_chars_string)

text \<open>The first character of a printed value: neither a space nor a closing bracket.\<close>

definition value_start :: "char \<Rightarrow> bool" where
  "value_start c = (c \<in> {quote_char, CHR ''['', CHR ''{'', CHR ''n'', CHR ''t'', CHR ''f'', CHR ''-''} \<or> is_dec c)"

lemma quote_char_code: "quote_char = CHR 0x22"
  by code_simp

lemma value_start_plain: "value_start c \<Longrightarrow> \<not> json_space c \<and> c \<noteq> CHR '']'' \<and> c \<noteq> CHR ''}''"
  unfolding value_start_def quote_char_code by (auto simp: json_space_def is_dec_def digit_val_def)

lemma printed_start:
  assumes "printable fl j"
  shows "\<exists>c t. json_compact j = c # t \<and> value_start c"
proof (cases j)
  case (JInt i)
  then show ?thesis using numeral_start [OF json_numeral_int [of i fl]] assms by (auto simp: value_start_def)
next
  case (JFloat r)
  then show ?thesis using numeral_start [of fl r] assms by (auto simp: value_start_def float_literal_def)
qed (auto simp: value_start_def json_string_def)

lemma printed_skip: "printable fl j \<Longrightarrow> skip_space (json_compact j @ r) = json_compact j @ r"
  using printed_start [of fl j] value_start_plain by (auto simp: skip_space_def)

lemma skip_punctuation [simp]:
  "skip_space (CHR '','' # r) = CHR '','' # r" "skip_space (CHR '']'' # r) = CHR '']'' # r" "skip_space (CHR ''}'' # r) = CHR ''}'' # r"
  "skip_space (CHR '':'' # r) = CHR '':'' # r" "skip_space [] = []"
  by (simp_all add: skip_space_def json_space_def)

lemma printed_member_skip: "skip_space (json_string k @ r) = json_string k @ r"
  by (simp add: json_string_def skip_space_def json_space_def)

lemma ends_value_simps [simp]: "ends_value []" "ends_value (CHR '','' # r)" "ends_value (CHR '']'' # r)" "ends_value (CHR ''}'' # r)"
  by (simp_all add: ends_value_def)

text \<open>\<open>reads_back fl j\<close>: with enough fuel the reader takes the printed value and leaves what follows.\<close>

definition reads_back :: "(string \<Rightarrow> pyfloat) \<Rightarrow> json \<Rightarrow> bool" where
  "reads_back fl j = (\<forall>n r. 2 * length (json_compact j) < n \<longrightarrow> ends_value r \<longrightarrow> json_value fl n (json_compact j @ r) = Some (thaw_json j, r))"

lemma reads_backD: "reads_back fl j \<Longrightarrow> 2 * length (json_compact j) < n \<Longrightarrow> ends_value r \<Longrightarrow> json_value fl n (json_compact j @ r) = Some (thaw_json j, r)"
  by (simp add: reads_back_def)

lemma elements_read_back:
  assumes "\<And>x. x \<in> set xs \<Longrightarrow> reads_back fl x \<and> printable fl x" and "xs \<noteq> []"
    and "Suc (2 * length (join_with '','' (map json_compact xs))) < n"
  shows "json_elements fl n (join_with '','' (map json_compact xs) @ CHR '']'' # r) = Some (map thaw_json xs, r)"
  using assms
proof (induction xs arbitrary: n)
  case (Cons x xs)
  obtain m where n: "n = Suc m" using Cons.prems(3) by (cases n) auto
  show ?case
  proof (cases xs)
    case Nil
    then have "json_value fl m (json_compact x @ CHR '']'' # r) = Some (thaw_json x, CHR '']'' # r)"
      using Cons.prems n by (intro reads_backD) auto
    then show ?thesis by (simp add: n Nil)
  next
    case (Cons y ys)
    let ?rest = "join_with '','' (map json_compact xs)"
    have l: "length (join_with '','' (map json_compact (x # xs))) = length (json_compact x) + Suc (length ?rest)"
      by (simp add: Cons)
    have "json_value fl m (json_compact x @ CHR '','' # ?rest @ CHR '']'' # r) = Some (thaw_json x, CHR '','' # ?rest @ CHR '']'' # r)"
      using Cons.prems(1,3) n l by (intro reads_backD) auto
    moreover have "json_elements fl m (?rest @ CHR '']'' # r) = Some (map thaw_json xs, r)"
      using Cons.prems(1,3) n l Cons by (intro Cons.IH) auto
    moreover have "skip_space (?rest @ CHR '']'' # r) = ?rest @ CHR '']'' # r"
    proof -
      obtain z where z: "?rest = json_compact y @ z" by (cases ys) (auto simp: Cons)
      have "printable fl y" using Cons.prems(1) Cons by auto
      then show ?thesis unfolding z append_assoc by (rule printed_skip)
    qed
    ultimately show ?thesis by (simp add: n Cons)
  qed
qed simp


lemma json_value_scalar:
  assumes "s = c # t" and "value_start c" and "c \<notin> {quote_char, CHR ''['', CHR ''{''}" and "json_scalar fl (s @ r) = Some (v, r)" and "0 < n"
  shows "json_value fl n (s @ r) = Some (v, r)"
  using assms by (cases n) auto

lemma json_value_constant:
  "0 < n \<Longrightarrow> json_value fl n (CHR ''n'' # CHR ''u'' # CHR ''l'' # CHR ''l'' # r) = Some (PNone, r)"
  "0 < n \<Longrightarrow> json_value fl n (CHR ''t'' # CHR ''r'' # CHR ''u'' # CHR ''e'' # r) = Some (PBool True, r)"
  "0 < n \<Longrightarrow> json_value fl n (CHR ''f'' # CHR ''a'' # CHR ''l'' # CHR ''s'' # CHR ''e'' # r) = Some (PBool False, r)"
  by (cases n; simp add: quote_char_code json_scalar_def json_constants_def py_startswith_def)+

lemma json_value_numeral:
  assumes "json_numeral fl s = Some (v, [])" and "ends_value r" and "0 < n"
  shows "json_value fl n (s @ r) = Some (v, r)"
proof -
  obtain c t where s: "s = c # t" "is_dec c \<or> c = CHR ''-''" using numeral_start [OF assms(1)] by blast
  have nd: "\<not> is_dec CHR 0x22" "\<not> is_dec CHR ''[''" "\<not> is_dec CHR ''{''" by (simp_all add: is_dec_def digit_val_def)
  have "c \<notin> {quote_char, CHR ''['', CHR ''{''}" unfolding quote_char_code using s(2) nd by auto
  moreover have "value_start c" using s(2) by (auto simp: value_start_def)
  ultimately show ?thesis using json_value_scalar [OF s(1)] json_scalar_numeral [OF assms(1,2)] assms(3) by blast
qed

definition printed_member :: "string \<times> json \<Rightarrow> string" where
  "printed_member kv = json_string (fst kv) @ '':'' @ json_compact (snd kv)"

lemma members_read_back:
  assumes "\<And>kv. kv \<in> set kvs \<Longrightarrow> reads_back fl (snd kv) \<and> printable fl (snd kv)" and "kvs \<noteq> []"
    and "Suc (2 * length (join_with '','' (map printed_member kvs))) < n"
  shows "json_members fl n (join_with '','' (map printed_member kvs) @ CHR ''}'' # r) = Some (map (\<lambda>(k, v). (PStr k, thaw_json v)) kvs, r)"
  using assms
proof (induction kvs arbitrary: n)
  case (Cons kv kvs)
  obtain k v where kv: "kv = (k, v)" by fastforce
  obtain m where n: "n = Suc m" using Cons.prems(3) by (cases n) auto
  have p: "reads_back fl v" "printable fl v" using Cons.prems(1) [of kv] kv by auto
  have str: "json_string k = quote_char # concat (map json_escape k) @ [quote_char]" by (simp add: json_string_def)
  show ?case
  proof (cases kvs)
    case Nil
    then have "json_value fl m (json_compact v @ CHR ''}'' # r) = Some (thaw_json v, CHR ''}'' # r)"
      using Cons.prems(3) n kv by (intro reads_backD p) (auto simp: printed_member_def)
    then show ?thesis using printed_skip [OF p(2)] by (simp add: n Nil kv printed_member_def str json_chars_string)
  next
    case kvs: (Cons kv' rest)
    let ?rest = "join_with '','' (map printed_member kvs)"
    have j: "join_with '','' (map printed_member (kv # kvs)) = printed_member kv @ CHR '','' # ?rest" by (simp add: kvs)
    have l: "length (join_with '','' (map printed_member (kv # kvs))) = length (json_string k) + Suc (length (json_compact v) + Suc (length ?rest))"
      unfolding j by (simp add: kv printed_member_def)
    have "json_value fl m (json_compact v @ CHR '','' # ?rest @ CHR ''}'' # r) = Some (thaw_json v, CHR '','' # ?rest @ CHR ''}'' # r)"
      using Cons.prems(3) n l by (intro reads_backD p) simp_all
    moreover have "json_members fl m (?rest @ CHR ''}'' # r) = Some (map (\<lambda>(k, v). (PStr k, thaw_json v)) kvs, r)"
      using Cons.prems(1,3) n l kvs by (intro Cons.IH) simp_all
    moreover have "skip_space (?rest @ CHR ''}'' # r) = ?rest @ CHR ''}'' # r"
    proof -
      obtain z where z: "?rest = json_string (fst kv') @ z" by (cases rest) (auto simp: kvs printed_member_def)
      show ?thesis unfolding z append_assoc by (rule printed_member_skip)
    qed
    ultimately show ?thesis
      using printed_skip [OF p(2)] unfolding j by (simp add: n kv printed_member_def str json_chars_string)
  qed
qed simp

lemma dict_of_members: "distinct (map fst kvs) \<Longrightarrow> dict_update [] (map (\<lambda>(k, v). (PStr k, thaw_json v)) kvs) = map (\<lambda>(k, v). (PStr k, thaw_json v)) kvs"
proof -
  assume d: "distinct (map fst kvs)"
  have "map fst (map (\<lambda>(k, v). (PStr k, thaw_json v)) kvs) = map PStr (map fst kvs)" by (induction kvs) auto
  then have "distinct (map fst (map (\<lambda>(k, v). (PStr k, thaw_json v)) kvs))" using d by (simp add: distinct_map inj_on_def)
  then show ?thesis by (subst dict_update_disjoint) simp_all
qed

lemma printed_reads_back: "json_wf j \<Longrightarrow> printable fl j \<Longrightarrow> reads_back fl j"
  unfolding reads_back_def
proof (induction j)
  case (JArr xs)
  show ?case
  proof (intro allI impI)
    fix n r assume n: "2 * length (json_compact (JArr xs)) < n" and r: "ends_value r"
    then obtain m where m: "n = Suc m" by (cases n) auto
    show "json_value fl n (json_compact (JArr xs) @ r) = Some (thaw_json (JArr xs), r)"
    proof (cases xs)
      case (Cons x ys)
      have e: "json_elements fl m (join_with '','' (map json_compact xs) @ CHR '']'' # r) = Some (map thaw_json xs, r)"
        using JArr n m Cons by (intro elements_read_back) (auto simp: reads_back_def)
      obtain z where z: "join_with '','' (map json_compact xs) = json_compact x @ z" by (cases ys) (auto simp: Cons)
      have x: "printable fl x" using JArr.prems Cons by simp
      obtain c t where c: "json_compact x = c # t" "value_start c" using printed_start [OF x] by blast
      have "skip_space (join_with '','' (map json_compact xs) @ CHR '']'' # r) = c # t @ z @ CHR '']'' # r"
        unfolding z append_assoc printed_skip [OF x] by (simp add: c)
      then show ?thesis using e z c value_start_plain [OF c(2)] by (simp add: m quote_char_code)
    qed (simp add: m quote_char_code)
  qed
next
  case (JObj kvs)
  show ?case
  proof (intro allI impI)
    fix n r assume n: "2 * length (json_compact (JObj kvs)) < n" and r: "ends_value r"
    then obtain m where m: "n = Suc m" by (cases n) auto
    have pm: "(\<lambda>(k, v). json_string k @ '':'' @ json_compact v) = printed_member" by (auto simp: printed_member_def)
    show "json_value fl n (json_compact (JObj kvs) @ r) = Some (thaw_json (JObj kvs), r)"
    proof (cases kvs)
      case (Cons kv rest)
      have sq: "snd q \<in> Basic_BNFs.snds q" for q :: "string \<times> json" by (cases q) simp
      have rb: "reads_back fl (snd q) \<and> printable fl (snd q)" if "q \<in> set kvs" for q
        using JObj.IH [OF that sq] JObj.prems that by (simp add: reads_back_def)
      have e: "json_members fl m (join_with '','' (map printed_member kvs) @ CHR ''}'' # r) = Some (map (\<lambda>(k, v). (PStr k, thaw_json v)) kvs, r)"
        using n m Cons unfolding json_compact.simps pm by (intro members_read_back rb) simp_all
      obtain z where z: "join_with '','' (map printed_member kvs) = quote_char # z" by (cases rest) (auto simp: Cons printed_member_def json_string_def)
      have "distinct (map fst kvs)" using JObj.prems by simp
      from dict_of_members [OF this] e z show ?thesis
        unfolding json_compact.simps pm by (simp add: m quote_char_code skip_space_def json_space_def)
    qed (simp add: m quote_char_code)
  qed
next
  case (JInt i)
  then show ?case using json_value_numeral [OF json_numeral_int [of i fl]] by auto
next
  case (JFloat x)
  then show ?case using json_value_numeral [of fl x] by (auto simp: float_literal_def)
next
  case JNull
  then show ?case by (auto simp: json_value_constant)
next
  case (JBool b)
  then show ?case by (auto simp: json_value_constant)
next
  case (JStr s)
  then show ?case by (auto simp: json_value_string)
qed


section \<open>Sorted keys\<close>

text \<open>\<^verbatim>\<open>sort_keys=True\<close>: every object with its members in the order of the keys.\<close>

fun json_sorted :: "json \<Rightarrow> json" where
  "json_sorted (JArr xs) = JArr (map json_sorted xs)"
| "json_sorted (JObj kvs) = JObj (sort_key fst (map (\<lambda>(k, v). (k, json_sorted v)) kvs))"
| "json_sorted j = j"

lemma insort_key_map: "(\<And>x. f (g x) = h x) \<Longrightarrow> insort_key f (g a) (map g xs) = map g (insort_key h a xs)"
  by (induction xs) auto

lemma sort_key_map: "(\<And>x. f (g x) = h x) \<Longrightarrow> sort_key f (map g xs) = map g (sort_key h xs)"
  by (induction xs) (simp_all add: insort_key_map)

lemma sort_members: "sort_key fst (map (\<lambda>(k, v). (k, f v)) kvs) = map (\<lambda>(k, v). (k, f v)) (sort_key fst kvs)"
  by (rule sort_key_map) auto

lemma json_dumps_sorted: "json_dumps j = json_compact (json_sorted j)"
proof (induction j)
  case (JArr xs)
  then have "map json_dumps xs = map json_compact (map json_sorted xs)" by simp
  then show ?case by (simp only: json_dumps.simps json_sorted.simps json_compact.simps)
next
  case (JObj kvs)
  have "json_dumps v = json_compact (json_sorted v)" if "(k, v) \<in> set kvs" for k v using JObj [of "(k, v)" v] that by simp
  then have "map (\<lambda>(k, t). json_string k @ '':'' @ t) (sort_key fst (map (\<lambda>(k, v). (k, json_dumps v)) kvs))
      = map (\<lambda>(k, v). json_string k @ '':'' @ json_compact v) (sort_key fst (map (\<lambda>(k, v). (k, json_sorted v)) kvs))"
    unfolding sort_members by auto
  then show ?case by (simp only: json_dumps.simps json_sorted.simps json_compact.simps)
qed simp_all

lemma distinct_sort_members: "distinct (map fst (sort_key fst kvs)) = distinct (map fst kvs)" for kvs :: json_obj
proof -
  have "distinct xs \<longleftrightarrow> card (set xs) = length xs" for xs :: "string list" using card_distinct distinct_card by blast
  from this [of "map fst (sort_key fst kvs)"] this [of "map fst kvs"] show ?thesis by simp
qed

lemma json_sorted_wf: "json_wf j \<Longrightarrow> json_wf (json_sorted j)"
proof (induction j)
  case (JObj kvs)
  have "json_wf (json_sorted v)" if "(k, v) \<in> set kvs" for k v using JObj that by force
  moreover have "fst \<circ> (\<lambda>(k, v). (k, json_sorted v)) = (fst :: string \<times> json \<Rightarrow> string)" by (auto simp: fun_eq_iff)
  ultimately show ?case using JObj.prems distinct_sort_members [of kvs] by (auto simp: sort_members)
qed auto

lemma json_sorted_printable: "printable fl j \<Longrightarrow> printable fl (json_sorted j)"
proof (induction j)
  case (JObj kvs)
  have "printable fl (json_sorted v)" if "(k, v) \<in> set kvs" for k v using JObj that by force
  then show ?case by (auto simp: sort_members)
qed auto

lemma json_sorted_eq: "json_wf j \<Longrightarrow> json_eq j (json_sorted j)"
proof (induction j)
  case (JArr xs)
  then show ?case by (auto simp: zip_map2 zip_same_conv_map)
next
  case (JObj kvs)
  let ?s = "sort_key fst (map (\<lambda>(k, v). (k, json_sorted v)) kvs)"
  have d: "distinct (map fst ?s)" using json_sorted_wf [OF JObj.prems] by simp
  have "map_of ?s k = Some (json_sorted v) \<and> json_eq v (json_sorted v)" if "(k, v) \<in> set kvs" for k v
  proof
    have "(k, json_sorted v) \<in> set ?s" using that by force
    then show "map_of ?s k = Some (json_sorted v)" using d by (simp add: map_of_is_SomeI)
    show "json_eq v (json_sorted v)" using JObj that by force
  qed
  then show ?case by auto
qed auto

lemma printed_loads:
  assumes "json_wf j" and "printable fl j"
  shows "json_loads fl (json_compact j) = Some (thaw_json j)"
  using printed_skip [OF assms(2), of "[]"] reads_backD [OF printed_reads_back [OF assms], of "Suc (2 * length (json_compact j))" "[]"]
  by (simp add: json_loads_def)

text \<open>
  JSON text is read back. For every well-formed value whose floats print as their own literals, parsing what \<^verbatim>\<open>json.dumps\<close> prints gives the
  value: exactly, when the members keep their order, and with the members of every object sorted by key under \<^verbatim>\<open>sort_keys\<close>, which Python
  compares equal.
\<close>

theorem json_text_roundtrip:
  assumes "json_wf j" and "printable fl j"
  shows "json_loads fl (json_compact j) = Some (thaw_json j) \<and> json_loads fl (json_dumps j) = Some (thaw_json (json_sorted j))
    \<and> json_eq j (json_sorted j)"
  using printed_loads [OF assms] printed_loads [OF json_sorted_wf [OF assms(1)] json_sorted_printable [OF assms(2)]] json_sorted_eq [OF assms(1)]
  by (simp add: json_dumps_sorted)

definition sample_json :: json where
  "sample_json = JObj [(''b'', JArr [JInt (- 12), JFloat ''1.5e-07'', JNull]), (''a'', JStr [CHR ''x'', char_of (34::nat), char_of (233::nat)]), (''c'', JObj [])]"

theorem json_text_roundtrip_witness:
  "json_loads FiniteFloat (json_dumps sample_json)
     = Some (PDict [(PStr ''a'', PStr [CHR ''x'', char_of (34::nat), char_of (233::nat)]),
         (PStr ''b'', PList [PInt (- 12), PFloat (FiniteFloat ''1.5e-07''), PNone]), (PStr ''c'', PDict [])])"
proof -
  have w: "json_wf sample_json" by (simp add: sample_json_def)
  have "length (nat_str (nat \<bar>- 12\<bar>)) \<le> 4300" "float_literal FiniteFloat ''1.5e-07''" by code_simp+
  then have p: "printable FiniteFloat sample_json" by (simp add: sample_json_def)
  have "json_sorted sample_json = JObj [(''a'', JStr [CHR ''x'', char_of (34::nat), char_of (233::nat)]),
      (''b'', JArr [JInt (- 12), JFloat ''1.5e-07'', JNull]), (''c'', JObj [])]"
    by code_simp
  then show ?thesis using json_text_roundtrip [OF w p] by simp
qed


section \<open>UTF-8\<close>

text \<open>The encoding of texts of characters up to \<^verbatim>\<open>00ff\<close>; the bytes of a larger character are refused.\<close>

fun utf8_decode :: "string \<Rightarrow> string option" where
  "utf8_decode [] = Some []"
| "utf8_decode (c # s) =
     (let n = (of_char c :: nat) in
      if n < 128 then map_option ((#) c) (utf8_decode s)
      else if n = 194 \<or> n = 195 then
        (case s of
           d # t \<Rightarrow> (let k = (of_char d :: nat) in
             if 128 \<le> k \<and> k < 192 then map_option ((#) (char_of (64 * (n - 192) + (k - 128)))) (utf8_decode t) else None)
         | [] \<Rightarrow> None)
      else None)"

definition utf8_encode :: "string \<Rightarrow> string" where
  "utf8_encode s = concat (map (\<lambda>c. let n = (of_char c :: nat) in if n < 128 then [c] else [char_of (192 + n div 64), char_of (128 + n mod 64)]) s)"

definition ascii_text :: "string \<Rightarrow> bool" where
  "ascii_text s = (\<forall>c \<in> set s. (of_char c :: nat) < 128)"

lemma ascii_text_simps [simp]:
  "ascii_text []" "ascii_text (c # s) \<longleftrightarrow> (of_char c :: nat) < 128 \<and> ascii_text s" "ascii_text (s @ t) \<longleftrightarrow> ascii_text s \<and> ascii_text t"
  by (auto simp: ascii_text_def)

lemma utf8_decode_ascii: "ascii_text s \<Longrightarrow> utf8_decode s = Some s"
  by (induction s) (auto simp: Let_def)

lemma utf8_roundtrip: "utf8_decode (utf8_encode s) = Some s"
proof (induction s)
  case (Cons c s)
  define n where "n = (of_char c :: nat)"
  have c: "c = char_of n" and n: "n < 256" by (simp_all add: n_def)
  have lo: "(of_char (char_of (128 + n mod 64)) :: nat) = 128 + n mod 64" and hi: "(of_char (char_of (192 + n div 64)) :: nat) = 192 + n div 64"
    using n by simp_all
  have "128 \<le> n \<Longrightarrow> n div 64 = 2 \<or> n div 64 = 3" using n by linarith
  then show ?case using Cons n lo hi
    by (auto simp: utf8_encode_def Let_def c)
qed (simp add: utf8_encode_def)

end
