(* ===== verification/Operations.thy ===== *)
theory Operations
  imports Identity Work_Repository Gateway_Ledger Gateway_Resilience
begin

text \<open>
  The authorization boundaries of operators: \<^verbatim>\<open>WorkerOperations\<close> of \<^verbatim>\<open>runtime/operations.py\<close> over the work repository, and
  \<^verbatim>\<open>GatewayOperations\<close> of \<^verbatim>\<open>gateway/operations.py\<close> over the model catalog, the provider controls and the usage summary.
\<close>

section \<open>Worker operations\<close>

text \<open>\<^verbatim>\<open>_require\<close>: the decision must allow, else its reason is raised.\<close>

definition require_permission :: "(string \<Rightarrow> py_error) \<Rightarrow> Principal \<Rightarrow> TenantId \<Rightarrow> Permission \<Rightarrow> datetime \<Rightarrow> unit res" where
  "require_permission denied p context perm tm =
     res_bind (decide p context (Known perm) tm) (\<lambda>decision. require (ad_allowed decision) (denied (ad_reason decision)))"

definition ops_work_status ::
  "Principal \<Rightarrow> TenantId \<Rightarrow> datetime \<Rightarrow> WorkStatus option \<Rightarrow> int \<Rightarrow> page_cursor option \<Rightarrow> ('z db_scheme, json_obj list) op" where
  "ops_work_status p context tm status limit c =
     op_bind (op_lift (require_permission OperationDeniedError p context QUEUE_READ tm)) (\<lambda>_.
     status_page context status limit c)"

definition ops_pending :: "Principal \<Rightarrow> TenantId \<Rightarrow> datetime \<Rightarrow> int \<Rightarrow> page_cursor option \<Rightarrow> ('z db_scheme, json_obj list) op" where
  "ops_pending p context tm limit c =
     op_bind (op_lift (require_permission OperationDeniedError p context QUEUE_READ tm)) (\<lambda>_.
     pending_status context limit c)"

text \<open>The operations that change work take the database's clock and the identifiers they draw as further arguments.\<close>

definition ops_cancel :: "instant \<Rightarrow> Principal \<Rightarrow> TenantId \<Rightarrow> uuid \<Rightarrow> datetime \<Rightarrow> uuid \<Rightarrow> uuid \<Rightarrow> ('z db_scheme, unit) op" where
  "ops_cancel clk p context w tm eid1 eid2 =
     op_bind (op_lift (require_permission OperationDeniedError p context WORK_CANCEL tm)) (\<lambda>_.
     op_bind (op_lift (principal_actor_id p)) (\<lambda>actor_id.
     cancel_by_id clk context w tm actor_id eid1 eid2))"

definition ops_requeue_dead_letter ::
  "instant \<Rightarrow> Principal \<Rightarrow> TenantId \<Rightarrow> uuid \<Rightarrow> RequeueApproval \<Rightarrow> datetime \<Rightarrow> uuid \<Rightarrow> uuid \<Rightarrow> ('z db_scheme, unit) op" where
  "ops_requeue_dead_letter clk p context w approval tm eid mid =
     op_bind (op_lift (require_permission OperationDeniedError p context DLQ_REQUEUE tm)) (\<lambda>_.
     op_bind (op_lift (principal_actor_id p)) (\<lambda>actor_id.
     op_bind (op_require (ra_approved_by approval \<noteq> actor_id) (OperationDeniedError ''requeue requires a different approving actor'')) (\<lambda>_.
     requeue_dead_letter clk context w tm approval actor_id eid mid)))"

definition ops_approve_dead_letter_requeue ::
  "Principal \<Rightarrow> TenantId \<Rightarrow> uuid \<Rightarrow> uuid \<Rightarrow> datetime \<Rightarrow> datetime \<Rightarrow> ('z db_scheme, RequeueApproval) op" where
  "ops_approve_dead_letter_requeue p context w approval_id tm expires_at =
     op_bind (op_lift (require_permission OperationDeniedError p context DLQ_REQUEUE tm)) (\<lambda>_.
     op_bind (op_lift (principal_actor_id p)) (\<lambda>actor_id.
     op_bind (op_lift (init_RequeueApproval
       \<lparr>ra_approval_id = approval_id, ra_approved_by = actor_id, ra_approved_at = tm, ra_scope = ''dlq:requeue''\<rparr>)) (\<lambda>approval.
     op_bind (approve_dead_letter_requeue context w approval expires_at) (\<lambda>_.
     op_return approval))))"

definition reconcile_authorized :: "Principal \<Rightarrow> TenantId \<Rightarrow> datetime \<Rightarrow> unit res" where
  "reconcile_authorized p context tm =
     res_bind (decide p context (Known WORK_RECONCILE) tm) (\<lambda>decision.
     require (ad_allowed decision \<and> (\<exists>r \<in> set (ad_active_roles decision). r = TENANT_ADMIN \<or> r = PLATFORM_ADMIN))
       (OperationDeniedError ''tenant admin or platform admin required''))"

definition ops_reconcile :: "instant \<Rightarrow> Principal \<Rightarrow> TenantId \<Rightarrow> datetime \<Rightarrow> int \<Rightarrow> (nat \<Rightarrow> uuid) \<Rightarrow> ('z db_scheme, uuid list) op" where
  "ops_reconcile clk p context tm limit fresh =
     op_bind (op_lift (reconcile_authorized p context tm)) (\<lambda>_.
     reconcile_expired clk context tm limit fresh)"

section \<open>Gateway operations\<close>

record GatewayOperations =
  go_catalog :: ModelCatalog
  go_controls :: ProviderControls
  go_usage :: "TenantId \<Rightarrow> json_obj res"
  go_environment :: Environment

fun CircuitState_value :: "CircuitState \<Rightarrow> string" where
  "CircuitState_value CIRCUIT_CLOSED = ''closed''"
| "CircuitState_value CIRCUIT_OPEN = ''open''"
| "CircuitState_value CIRCUIT_HALF_OPEN = ''half_open''"

definition catalog_item :: "ModelCatalogEntry \<Rightarrow> json_obj" where
  "catalog_item e =
     [(''provider'', JStr (mi_provider (ce_identity e))), (''model'', JStr (mi_model (ce_identity e))),
      (''pricing_version'', JStr (pv_version (ce_pricing e))),
      (''max_context_tokens'', JInt (cap_max_context_tokens (ce_capabilities e))),
      (''max_output_tokens'', JInt (cap_max_output_tokens (ce_capabilities e))),
      (''supports_tools'', JBool (cap_supports_tools (ce_capabilities e))),
      (''supports_vision'', JBool (cap_supports_vision (ce_capabilities e))),
      (''supports_structured_output'', JBool (cap_supports_structured_output (ce_capabilities e))),
      (''data_residencies'', JArr (map JStr (sort_key id (ce_data_residencies e)))),
      (''provider_retains_data'', JBool (ce_provider_retains_data e))]"

text \<open>The entries a policy admits; the views are made of them.\<close>

definition admitted_entries :: "GatewayOperations \<Rightarrow> TenantPolicy \<Rightarrow> ModelCatalogEntry list" where
  "admitted_entries g policy = filter (\<lambda>e. policy_failures e policy (go_environment g) = []) (catalog_entries (go_catalog g))"

definition gateway_catalog :: "GatewayOperations \<Rightarrow> Principal \<Rightarrow> TenantId \<Rightarrow> TenantPolicy \<Rightarrow> datetime \<Rightarrow> json_obj list res" where
  "gateway_catalog g p context policy tm =
     res_bind (require_permission PermissionError p context MODEL_READ tm) (\<lambda>_.
     res_bind (require (tp_tenant_id policy = context) (PermissionError ''cross_tenant_policy'')) (\<lambda>_.
     Inr (map catalog_item (admitted_entries g policy))))"

definition gateway_usage :: "GatewayOperations \<Rightarrow> Principal \<Rightarrow> TenantId \<Rightarrow> datetime \<Rightarrow> json_obj res" where
  "gateway_usage g p context tm =
     res_bind (require_permission PermissionError p context MODEL_READ tm) (\<lambda>_. go_usage g context)"

definition text_of_item :: "json_obj \<Rightarrow> string \<Rightarrow> string" where
  "text_of_item item k = (case map_of item k of Some (JStr s) \<Rightarrow> s | _ \<Rightarrow> [])"

definition health_item :: "GatewayOperations \<Rightarrow> rat \<Rightarrow> json_obj \<Rightarrow> json_obj res" where
  "health_item g now item =
     (let provider = text_of_item item ''provider''; model = text_of_item item ''model'' in
      res_bind (init_ModelIdentity \<lparr>mi_provider = provider, mi_model = model\<rparr>) (\<lambda>i.
      res_bind (known (pc_circuits (go_controls g)) i) (\<lambda>circuit.
      Inr [(''provider'', JStr provider), (''model'', JStr model), (''circuit_state'', JStr (CircuitState_value (circuit_state now circuit)))])))"

primrec health_items :: "GatewayOperations \<Rightarrow> rat \<Rightarrow> json_obj list \<Rightarrow> json_obj list res" where
  "health_items g now [] = Inr []"
| "health_items g now (item # items) = res_bind (health_item g now item) (\<lambda>h. res_bind (health_items g now items) (\<lambda>hs. Inr (h # hs)))"

definition gateway_health :: "GatewayOperations \<Rightarrow> rat \<Rightarrow> Principal \<Rightarrow> TenantId \<Rightarrow> TenantPolicy \<Rightarrow> datetime \<Rightarrow> json_obj list res" where
  "gateway_health g now p context policy tm =
     res_bind (require_permission PermissionError p context MODEL_READ tm) (\<lambda>_.
     res_bind (gateway_catalog g p context policy tm) (health_items g now))"


section \<open>What an operation needs\<close>

text \<open>Who may act: a principal of the tenant with a role binding that grants the permission at the time.\<close>

definition may_act :: "Principal \<Rightarrow> TenantId \<Rightarrow> Permission \<Rightarrow> int \<Rightarrow> bool" where
  "may_act p t perm i = (pr_tenant_id p = t \<and> (\<exists>b \<in> set (pr_role_bindings p). active_at b i \<and> perm \<in> set (ROLE_PERMISSIONS (rb_role b))))"

lemma require_permission_iff:
  assumes "principal_ok p" and "dt_aware tm"
  shows "require_permission denied p t perm tm = Inr () \<longleftrightarrow> may_act p t perm (dt_instant tm)"
    and "require_permission denied p t perm tm = Inl e \<Longrightarrow> \<not> may_act p t perm (dt_instant tm) \<and> (\<exists>m. e = denied m)"
  using decide_allowed [OF assms, of t "Known perm"] by (auto simp: require_permission_def may_act_def require_def split: if_splits)

text \<open>
  The shared contract: an operation made of a check that only reads and an action. When the check fails, its error is raised and nothing
  changes; a value or a change of state means that the check had passed.
\<close>

locale guarded_operation =
  fixes operation :: "('s, 'a) op" and check :: "unit res" and action :: "('s, 'a) op"
  assumes guarded: "operation = op_bind (op_lift check) (\<lambda>_. action)"
begin

lemma denied: "check = Inl e \<Longrightarrow> operation s = (Inl e, s)"
  by (simp add: guarded op_eval)

lemma allowed: "check = Inr u \<Longrightarrow> operation s = action s"
  by (simp add: guarded op_eval)

lemma effect_needs_check: "operation s = (x, s') \<Longrightarrow> s' \<noteq> s \<or> (\<exists>v. x = Inr v) \<Longrightarrow> check = Inr ()"
  by (cases check) (auto simp: guarded op_eval)

end

interpretation work_status: guarded_operation "ops_work_status p t tm status limit c"
    "require_permission OperationDeniedError p t QUEUE_READ tm" "status_page t status limit c" for p t tm status limit c
  by unfold_locales (simp add: ops_work_status_def)

interpretation pending: guarded_operation "ops_pending p t tm limit c" "require_permission OperationDeniedError p t QUEUE_READ tm"
    "pending_status t limit c" for p t tm limit c
  by unfold_locales (simp add: ops_pending_def)

interpretation cancel: guarded_operation "ops_cancel clk p t w tm eid1 eid2" "require_permission OperationDeniedError p t WORK_CANCEL tm"
    "op_bind (op_lift (principal_actor_id p)) (\<lambda>actor. cancel_by_id clk t w tm actor eid1 eid2)" for clk p t w tm eid1 eid2
  by unfold_locales (simp add: ops_cancel_def)

interpretation requeue: guarded_operation "ops_requeue_dead_letter clk p t w approval tm eid mid"
    "require_permission OperationDeniedError p t DLQ_REQUEUE tm"
    "op_bind (op_lift (principal_actor_id p)) (\<lambda>actor.
     op_bind (op_require (ra_approved_by approval \<noteq> actor) (OperationDeniedError ''requeue requires a different approving actor'')) (\<lambda>_.
     requeue_dead_letter clk t w tm approval actor eid mid))" for clk p t w approval tm eid mid
  by unfold_locales (simp add: ops_requeue_dead_letter_def)

interpretation approve: guarded_operation "ops_approve_dead_letter_requeue p t w i tm expires_at"
    "require_permission OperationDeniedError p t DLQ_REQUEUE tm"
    "op_bind (op_lift (principal_actor_id p)) (\<lambda>actor.
     op_bind (op_lift (init_RequeueApproval \<lparr>ra_approval_id = i, ra_approved_by = actor, ra_approved_at = tm, ra_scope = ''dlq:requeue''\<rparr>)) (\<lambda>approval.
     op_bind (approve_dead_letter_requeue t w approval expires_at) (\<lambda>_. op_return approval)))" for p t w i tm expires_at
  by unfold_locales (simp add: ops_approve_dead_letter_requeue_def)

interpretation reconcile: guarded_operation "ops_reconcile clk p t tm limit fresh" "reconcile_authorized p t tm"
    "reconcile_expired clk t tm limit fresh" for clk p t tm limit fresh
  by unfold_locales (simp add: ops_reconcile_def)

text \<open>The operations as requests, with what each answers and the permission it needs.\<close>

datatype worker_request =
    WorkStatusRequest "WorkStatus option" int "page_cursor option"
  | PendingRequest int "page_cursor option"
  | CancelRequest uuid uuid uuid
  | RequeueRequest uuid RequeueApproval uuid uuid
  | ApproveRequest uuid uuid datetime
  | ReconcileRequest int "nat \<Rightarrow> uuid"

datatype worker_answer = Listing "json_obj list" | Approval RequeueApproval | Reconciled "uuid list" | Accepted

definition op_map :: "('a \<Rightarrow> 'b) \<Rightarrow> ('s, 'a) op \<Rightarrow> ('s, 'b) op" where
  "op_map f m = op_bind m (\<lambda>a. op_return (f a))"

fun perform :: "instant \<Rightarrow> Principal \<Rightarrow> TenantId \<Rightarrow> datetime \<Rightarrow> worker_request \<Rightarrow> ('z db_scheme, worker_answer) op" where
  "perform clk p t tm (WorkStatusRequest status limit c) = op_map Listing (ops_work_status p t tm status limit c)"
| "perform clk p t tm (PendingRequest limit c) = op_map Listing (ops_pending p t tm limit c)"
| "perform clk p t tm (CancelRequest w eid1 eid2) = op_map (\<lambda>_. Accepted) (ops_cancel clk p t w tm eid1 eid2)"
| "perform clk p t tm (RequeueRequest w approval eid mid) = op_map (\<lambda>_. Accepted) (ops_requeue_dead_letter clk p t w approval tm eid mid)"
| "perform clk p t tm (ApproveRequest w i expires_at) = op_map Approval (ops_approve_dead_letter_requeue p t w i tm expires_at)"
| "perform clk p t tm (ReconcileRequest limit fresh) = op_map Reconciled (ops_reconcile clk p t tm limit fresh)"

fun needed_permission :: "worker_request \<Rightarrow> Permission" where
  "needed_permission (CancelRequest _ _ _) = WORK_CANCEL"
| "needed_permission (RequeueRequest _ _ _ _) = DLQ_REQUEUE"
| "needed_permission (ApproveRequest _ _ _) = DLQ_REQUEUE"
| "needed_permission (ReconcileRequest _ _) = WORK_RECONCILE"
| "needed_permission _ = QUEUE_READ"

lemma op_map_simps:
  "m s = (Inl e, s') \<Longrightarrow> op_map f m s = (Inl e, s')" "op_map f m s = (Inr v, s') \<Longrightarrow> \<exists>u. m s = (Inr u, s')"
  by (auto simp: op_map_def op_simps)

lemma unauthorized:
  assumes "principal_ok p" and "dt_aware tm" and "\<not> may_act p t perm (dt_instant tm)"
  shows "\<exists>m. require_permission OperationDeniedError p t perm tm = Inl (OperationDeniedError m)"
    and "perm = WORK_RECONCILE \<Longrightarrow> \<exists>m. reconcile_authorized p t tm = Inl (OperationDeniedError m)"
  using decide_allowed [OF assms(1,2), of t "Known perm"] assms(3)
  by (auto simp: require_permission_def reconcile_authorized_def may_act_def require_def)

text \<open>
  C37: every operation of an operator needs its permission. Whatever a valid principal asks of the worker operations at an aware time, an answer or any
  change of the database means that a role binding of the principal in that very tenant was active and grants the permission of the operation;
  without it the operation raises an OperationDeniedError and changes nothing. A requeue moreover never succeeds on an approval the principal
  gave itself.
\<close>

theorem worker_operations_need_permission:
  assumes "principal_ok p" and "dt_aware tm" and "perform clk p t tm q s = (x, s')"
  shows "(if may_act p t (needed_permission q) (dt_instant tm)
      then \<forall>w approval eid mid actor v. q = RequeueRequest w approval eid mid \<and> principal_actor_id p = Inr actor \<and> x = Inr v \<longrightarrow> ra_approved_by approval \<noteq> actor
      else s' = s \<and> (\<exists>m. x = Inl (OperationDeniedError m)))"
proof (cases "may_act p t (needed_permission q) (dt_instant tm)")
  case False
  then have "\<exists>m. perform clk p t tm q s = (Inl (OperationDeniedError m), s)"
    using unauthorized [OF assms(1,2) False]
    by (cases q) (auto intro!: op_map_simps(1) dest: work_status.denied pending.denied cancel.denied requeue.denied approve.denied reconcile.denied)
  then show ?thesis using False assms(3) by auto
next
  case True
  have "ra_approved_by approval \<noteq> actor"
    if "q = RequeueRequest w approval eid mid" "principal_actor_id p = Inr actor" "x = Inr v" for w approval eid mid actor v
    using assms(3) that by (auto simp: ops_requeue_dead_letter_def op_simps dest!: op_map_simps(2))
  then show ?thesis using True by simp
qed

theorem worker_operations_need_permission_witness:
  "fst (perform 0 sample_principal ''globex'' (dt_of_instant 50) (CancelRequest 5 6 7) sample_db)
     = Inl (OperationDeniedError ''cross_tenant_access_denied'')
   \<and> snd (perform 0 sample_principal ''globex'' (dt_of_instant 50) (CancelRequest 5 6 7) sample_db) = sample_db"
proof -
  obtain x s' where r: "perform 0 sample_principal ''globex'' (dt_of_instant 50) (CancelRequest 5 6 7) sample_db = (x, s')" by fastforce
  have "\<not> may_act sample_principal ''globex'' (needed_permission (CancelRequest 5 6 7)) (dt_instant (dt_of_instant 50))"
    by (simp add: may_act_def sample_principal_def)
  then have "s' = sample_db" using worker_operations_need_permission [OF sample_principal_ok _ r] by simp
  moreover have "x = Inl (OperationDeniedError ''cross_tenant_access_denied'')"
    using r by (simp add: op_map_def ops_cancel_def require_permission_def decide_def sample_principal_def op_eval)
  ultimately show ?thesis using r by simp
qed

section \<open>What the gateway's views show\<close>

text \<open>
  The catalog an operator sees is the catalog the tenant can use. A principal that may read models gets exactly the entries the policy admits, and
  every candidate the router ever returns for that tenant under the policy is among them, whatever the request asks for.
\<close>

theorem catalog_view_covers_routing:
  assumes "principal_ok p" and "dt_aware tm" and "may_act p t MODEL_READ (dt_instant tm)" and "tp_tenant_id policy = t"
  shows "gateway_catalog g p t policy tm = Inr (map catalog_item (admitted_entries g policy))
    \<and> (\<forall>r unavailable preference d e. route r (go_catalog g) policy (go_environment g) unavailable preference = Inr d \<and> e \<in> set (rd_candidates d)
        \<longrightarrow> e \<in> set (admitted_entries g policy))"
proof -
  have "route_failures r policy (go_environment g) unavailable e = [] \<Longrightarrow> policy_failures e policy (go_environment g) = []" for r unavailable e
    by (simp add: route_failures_def)
  moreover have "e \<in> set (catalog_entries (go_catalog g))" if "catalog_get (go_catalog g) i = Inr e" for i e
    using that by (auto simp: catalog_get_def catalog_entries_def image_iff split: option.splits dest!: map_of_SomeD) (metis snd_conv)
  ultimately have "e \<in> set (admitted_entries g policy)"
    if "route r (go_catalog g) policy (go_environment g) unavailable preference = Inr d" "e \<in> set (rd_candidates d)" for r unavailable preference d e
    using that by (auto simp: route_def res_bind_Inr_iff Let_def admitted_entries_def split: option.splits if_splits)
  then show ?thesis
    using require_permission_iff(1) [OF assms(1,2), of PermissionError t MODEL_READ] assms(3,4) by (auto simp: gateway_catalog_def)
qed


definition viewed_entry :: ModelCatalogEntry where
  "viewed_entry = \<lparr>ce_identity = \<lparr>mi_provider = ''fake'', mi_model = ''m''\<rparr>,
     ce_capabilities = \<lparr>cap_max_context_tokens = 1000, cap_max_output_tokens = 100, cap_supports_tools = True, cap_supports_vision = False,
       cap_supports_structured_output = True, cap_supports_reasoning_tokens = False, cap_supports_cache_tokens = False\<rparr>,
     ce_pricing = \<lparr>pv_version = ''p1'', pv_effective_at = dt_of_instant 0, pv_input = Dec False 0 0, pv_output = Dec False 0 0,
       pv_cache_read = Dec False 0 0, pv_cache_write = Dec False 0 0, pv_reasoning = Dec False 0 0\<rparr>,
     ce_environments = [PRODUCTION], ce_data_residencies = [''eu''], ce_provider_retains_data = False, ce_cost_rank = 1, ce_latency_rank = 1,
     ce_fallback_models = []\<rparr>"

definition sample_operations :: GatewayOperations where
  "sample_operations = \<lparr>go_catalog = [(ce_identity viewed_entry, viewed_entry)],
     go_controls = \<lparr>pc_semaphores = Map.empty, pc_request_buckets = Map.empty, pc_token_buckets = Map.empty, pc_circuits = Map.empty\<rparr>,
     go_usage = (\<lambda>_. Inr []), go_environment = PRODUCTION\<rparr>"

definition viewing_policy :: TenantPolicy where
  "viewing_policy = sample_policy\<lparr>tp_allowed_providers := [''fake''], tp_allowed_environments := [''production''], tp_allowed_data_residencies := [''eu'']\<rparr>"

theorem catalog_view_covers_routing_witness:
  "gateway_catalog sample_operations sample_principal ''acme'' viewing_policy (dt_of_instant 50) = Inr [catalog_item viewed_entry]"
proof -
  have m: "may_act sample_principal ''acme'' MODEL_READ (dt_instant (dt_of_instant 50))"
    by (simp add: may_act_def sample_principal_def sample_binding_def active_at_def)
  have "admitted_entries sample_operations viewing_policy = [viewed_entry]"
    by (simp add: admitted_entries_def sample_operations_def catalog_entries_def policy_failures_def viewing_policy_def sample_policy_def viewed_entry_def
        reason_if_def)
  then show ?thesis
    using catalog_view_covers_routing [OF sample_principal_ok _ m, of viewing_policy sample_operations] by (simp add: viewing_policy_def sample_policy_def)
qed

end
