(* ===== verification/Audit_Log.thy ===== *)
theory Audit_Log
  imports Identity
begin

text \<open>
  The security audit trail, \<^verbatim>\<open>audit.py\<close>: events whose details are redacted when they are built, and the tenant-scoped
  append-only store. The two regular expressions of the module are modelled as the functions that search and substitute
  their matches on Latin-1 text.
\<close>

section \<open>Regular expressions\<close>

definition REDACTED :: string where
  "REDACTED = ''[REDACTED]''"

text \<open>A pattern without operators, ignoring case, found anywhere in a text.\<close>

definition lower_text :: "string \<Rightarrow> string" where
  "lower_text s = map ascii_lower s"

definition sensitive_key :: "string \<Rightarrow> bool" where
  "sensitive_key k = (\<exists>w \<in> set [''authorization'', ''credential'', ''password'', ''prompt'', ''secret'', ''token''].
     occurs_in w (lower_text k))"

text \<open>The word characters of a pattern: letters, digits, other numerals and the underscore.\<close>

definition py_isword :: "char \<Rightarrow> bool" where
  "py_isword c = (let n = (of_char c :: nat) in
     (48 \<le> n \<and> n \<le> 57) \<or> (65 \<le> n \<and> n \<le> 90) \<or> n = 95 \<or> (97 \<le> n \<and> n \<le> 122) \<or> n \<in> {170, 178, 179, 181, 185, 186, 188, 189, 190}
     \<or> (192 \<le> n \<and> n \<noteq> 215 \<and> n \<noteq> 247))"

text \<open>
  \<^verbatim>\<open>\bBearer\s+\S+\<close> at the front of a text whose preceding character is a word character or not: the credential it matches
  and the text behind it.
\<close>

definition match_bearer :: "bool \<Rightarrow> string \<Rightarrow> (string \<times> string) option" where
  "match_bearer word s =
     (let gap = drop 6 s; rest = dropWhile py_isspace gap; credential = takeWhile (\<lambda>c. \<not> py_isspace c) rest in
      if \<not> word \<and> lower_text (take 6 s) = ''bearer'' \<and> takeWhile py_isspace gap \<noteq> [] \<and> credential \<noteq> []
      then Some (credential, dropWhile (\<lambda>c. \<not> py_isspace c) rest) else None)"

lemma length_dropWhile_less_eq: "length (dropWhile P s) \<le> length s"
  by (induction s) auto

lemma match_bearer_shorter: "match_bearer word s = Some (m, rest) \<Longrightarrow> length rest < length s"
  using length_dropWhile_less_eq [of py_isspace "drop 6 s"]
    length_dropWhile_less_eq [of "\<lambda>c. \<not> py_isspace c" "dropWhile py_isspace (drop 6 s)"]
  by (auto simp: match_bearer_def Let_def lower_text_def split: if_splits) (cases s; simp)

text \<open>\<^verbatim>\<open>_BEARER_VALUE.sub(REDACTED, value)\<close>: the matches from left to right, each search going on behind the last match.\<close>

function substitute_bearer :: "bool \<Rightarrow> string \<Rightarrow> string" where
  "substitute_bearer word s =
     (case match_bearer word s of
        Some (m, rest) \<Rightarrow> REDACTED @ substitute_bearer (py_isword (last m)) rest
      | None \<Rightarrow> (case s of [] \<Rightarrow> [] | c # r \<Rightarrow> c # substitute_bearer (py_isword c) r))"
  by pat_completeness auto
termination
  by (relation "measure (\<lambda>(_, s). length s)") (auto dest: match_bearer_shorter)

declare substitute_bearer.simps [simp del]

lemma substitute_bearer_simps [simp]:
  "substitute_bearer word [] = []"
  "match_bearer word s = Some (m, rest) \<Longrightarrow> substitute_bearer word s = REDACTED @ substitute_bearer (py_isword (last m)) rest"
  "match_bearer word (c # s) = None \<Longrightarrow> substitute_bearer word (c # s) = c # substitute_bearer (py_isword c) s"
  by (simp_all add: substitute_bearer.simps [of word "[]"] substitute_bearer.simps [of word s] substitute_bearer.simps [of word "c # s"]
      match_bearer_def lower_text_def split: prod.splits)

section \<open>Redaction\<close>

fun redact_value :: "json \<Rightarrow> json" where
  "redact_value (JStr s) = JStr (substitute_bearer False s)"
| "redact_value (JObj kvs) = JObj (map (\<lambda>(k, v). (k, if sensitive_key k then JStr REDACTED else redact_value v)) kvs)"
| "redact_value (JArr xs) = JArr (map redact_value xs)"
| "redact_value v = v"

definition redact_details :: "json_obj \<Rightarrow> json_obj" where
  "redact_details details = map (\<lambda>(k, v). (k, if sensitive_key k then JStr REDACTED else redact_value v)) details"

section \<open>Events and the store\<close>

datatype AuditEventType =
    AUTHENTICATION_OUTCOME | AUTHORIZATION_DECISION | POLICY_EVALUATION | APPROVAL_IDENTITY_RECORDED | ADMINISTRATIVE_CHANGE

datatype AuditOutcome = OUTCOME_SUCCESS | OUTCOME_DENIED | OUTCOME_FAILURE

fun AuditEventType_value :: "AuditEventType \<Rightarrow> string" where
  "AuditEventType_value AUTHENTICATION_OUTCOME = ''security.authentication_outcome.v1''"
| "AuditEventType_value AUTHORIZATION_DECISION = ''security.authorization_decision.v1''"
| "AuditEventType_value POLICY_EVALUATION = ''security.policy_evaluation.v1''"
| "AuditEventType_value APPROVAL_IDENTITY_RECORDED = ''security.approval_identity_recorded.v1''"
| "AuditEventType_value ADMINISTRATIVE_CHANGE = ''security.administrative_change.v1''"

fun AuditOutcome_value :: "AuditOutcome \<Rightarrow> string" where
  "AuditOutcome_value OUTCOME_SUCCESS = ''success''"
| "AuditOutcome_value OUTCOME_DENIED = ''denied''"
| "AuditOutcome_value OUTCOME_FAILURE = ''failure''"

record AuditEvent =
  ae_event_id :: uuid
  ae_tenant_id :: TenantId
  ae_event_type :: AuditEventType
  ae_occurred_at :: datetime
  ae_outcome :: AuditOutcome
  ae_actor_id :: string
  ae_action :: string
  ae_resource :: string
  ae_correlation_id :: uuid
  ae_details :: json_obj
  ae_schema_version :: int

definition init_AuditEvent :: "AuditEvent \<Rightarrow> AuditEvent res" where
  "init_AuditEvent e =
     res_bind (require_aware_datetime (ae_occurred_at e) ''occurred_at'') (\<lambda>_.
     res_bind (require (ae_schema_version e = 1) (ValueError ''audit schema changes must use a new additive event type'')) (\<lambda>_.
     res_bind (require (ae_actor_id e \<noteq> [] \<and> ae_action e \<noteq> [] \<and> ae_resource e \<noteq> [])
       (ValueError ''audit actor, action, and resource are required'')) (\<lambda>_.
     Inr (e\<lparr>ae_details := redact_details (ae_details e)\<rparr>))))"

definition audit_append :: "TenantId \<Rightarrow> AuditEvent \<Rightarrow> (AuditEvent list, unit) op" where
  "audit_append context e =
     op_bind (op_require (context = ae_tenant_id e) (ValueError ''audit event tenant does not match trusted context'')) (\<lambda>_.
     op_modify (\<lambda>es. es @ [e]))"

definition audit_query :: "TenantId \<Rightarrow> int \<Rightarrow> (AuditEvent list, AuditEvent list) op" where
  "audit_query context limit =
     op_bind (op_require (1 \<le> limit \<and> limit \<le> 1000) (ValueError ''audit query limit must be between 1 and 1000'')) (\<lambda>_.
     op_gets (\<lambda>es. let own = filter (\<lambda>e. ae_tenant_id e = context) es in drop (length own - nat limit) own))"


section \<open>What redaction removes\<close>

text \<open>
  The reference: a text carries a bearer credential when the word \<^verbatim>\<open>bearer\<close>, in any case and not preceded by a word character, is followed
  by white space and then by anything else. The first argument says whether the text stands behind a word character.
\<close>

definition carries_bearer :: "bool \<Rightarrow> string \<Rightarrow> bool" where
  "carries_bearer word s = (\<exists>p b gap c q. s = p @ b @ gap @ c # q \<and> (if p = [] then \<not> word else \<not> py_isword (last p))
     \<and> lower_text b = ''bearer'' \<and> gap \<noteq> [] \<and> (\<forall>x \<in> set gap. py_isspace x) \<and> \<not> py_isspace c)"

fun clean_json :: "json \<Rightarrow> bool" where
  "clean_json (JStr s) = (\<not> carries_bearer False s)"
| "clean_json (JObj kvs) = (\<forall>kv \<in> set kvs. if sensitive_key (fst kv) then snd kv = JStr REDACTED else clean_json (snd kv))"
| "clean_json (JArr xs) = (\<forall>x \<in> set xs. clean_json x)"
| "clean_json v = True"

lemma lower_text_simps [simp]: "length (lower_text s) = length s" "lower_text s = [] \<longleftrightarrow> s = []" "lower_text (x @ y) = lower_text x @ lower_text y"
  by (simp_all add: lower_text_def)

lemma match_bearer_iff:
  "(\<exists>m rest. match_bearer word s = Some (m, rest))
   \<longleftrightarrow> \<not> word \<and> (\<exists>b gap c q. s = b @ gap @ c # q \<and> lower_text b = ''bearer'' \<and> gap \<noteq> [] \<and> (\<forall>x \<in> set gap. py_isspace x) \<and> \<not> py_isspace c)"
  (is "?m \<longleftrightarrow> ?r")
proof
  assume ?m
  then have w: "\<not> word" "lower_text (take 6 s) = ''bearer''" "takeWhile py_isspace (drop 6 s) \<noteq> []"
    "takeWhile (\<lambda>c. \<not> py_isspace c) (dropWhile py_isspace (drop 6 s)) \<noteq> []"
    by (auto simp: match_bearer_def Let_def split: if_splits)
  then obtain c q where q: "dropWhile py_isspace (drop 6 s) = c # q" "\<not> py_isspace c"
    by (cases "dropWhile py_isspace (drop 6 s)") (auto split: if_splits)
  have "s = take 6 s @ takeWhile py_isspace (drop 6 s) @ c # q"
    using q(1) by (metis append_take_drop_id takeWhile_dropWhile_id)
  then show ?r using w(1-3) q(2) set_takeWhileD [of _ py_isspace "drop 6 s"] by blast
next
  assume ?r
  then obtain b gap c q where r: "\<not> word" "s = b @ gap @ c # q" "lower_text b = ''bearer''" "gap \<noteq> []" "\<forall>x \<in> set gap. py_isspace x" "\<not> py_isspace c"
    by blast
  have "length b = 6" using arg_cong [OF r(3), of length] by simp
  then have "take 6 s = b" "drop 6 s = gap @ c # q" using r(2) by simp_all
  moreover have "takeWhile py_isspace (gap @ c # q) = gap" "dropWhile py_isspace (gap @ c # q) = c # q"
    using r(5,6) by (simp_all add: takeWhile_append2 dropWhile_append2)
  ultimately show ?m using r by (simp add: match_bearer_def)
qed

lemma carries_bearer_Cons:
  "carries_bearer word (c # s) \<longleftrightarrow> (\<exists>m rest. match_bearer word (c # s) = Some (m, rest)) \<or> carries_bearer (py_isword c) s"
proof
  assume "carries_bearer word (c # s)"
  then obtain p b gap d q where r: "c # s = p @ b @ gap @ d # q" "if p = [] then \<not> word else \<not> py_isword (last p)"
    "lower_text b = ''bearer''" "gap \<noteq> []" "\<forall>x \<in> set gap. py_isspace x" "\<not> py_isspace d"
    unfolding carries_bearer_def by blast
  show "(\<exists>m rest. match_bearer word (c # s) = Some (m, rest)) \<or> carries_bearer (py_isword c) s"
  proof (cases p)
    case Nil
    then show ?thesis using r match_bearer_iff [of word "c # s"] by auto
  next
    case (Cons x p')
    have "carries_bearer (py_isword c) s" unfolding carries_bearer_def
      using r Cons by (intro exI [of _ p'] exI [of _ b] exI [of _ gap] exI [of _ d] exI [of _ q]) (auto split: if_splits)
    then show ?thesis ..
  qed
next
  assume "(\<exists>m rest. match_bearer word (c # s) = Some (m, rest)) \<or> carries_bearer (py_isword c) s"
  then show "carries_bearer word (c # s)"
  proof
    assume "\<exists>m rest. match_bearer word (c # s) = Some (m, rest)"
    then obtain b gap d q where "\<not> word" "c # s = b @ gap @ d # q" "lower_text b = ''bearer''" "gap \<noteq> []" "\<forall>x \<in> set gap. py_isspace x" "\<not> py_isspace d"
      unfolding match_bearer_iff by blast
    then show ?thesis unfolding carries_bearer_def
      by (intro exI [of _ "[]"] exI [of _ b] exI [of _ gap] exI [of _ d] exI [of _ q]) simp
  next
    assume "carries_bearer (py_isword c) s"
    then obtain p b gap d q where r: "s = p @ b @ gap @ d # q" "if p = [] then \<not> py_isword c else \<not> py_isword (last p)"
      "lower_text b = ''bearer''" "gap \<noteq> []" "\<forall>x \<in> set gap. py_isspace x" "\<not> py_isspace d"
      unfolding carries_bearer_def by blast
    then show ?thesis unfolding carries_bearer_def
      by (intro exI [of _ "c # p"] exI [of _ b] exI [of _ gap] exI [of _ d] exI [of _ q]) (auto split: if_splits)
  qed
qed

lemma carries_bearer_Nil [simp]: "\<not> carries_bearer word []"
  by (simp add: carries_bearer_def)

lemma substitute_clean: "\<not> carries_bearer word s \<Longrightarrow> substitute_bearer word s = s"
proof (induction s arbitrary: word)
  case Nil
  then show ?case by simp
next
  case (Cons c s)
  have "match_bearer word (c # s) = None" using Cons.prems carries_bearer_Cons [of word c s] by (cases "match_bearer word (c # s)") auto
  then show ?case using Cons carries_bearer_Cons [of word c s] by simp
qed


lemma match_bearer_hd:
  assumes "match_bearer word (c # s) = Some x"
  shows "(of_char c :: nat) \<in> {66, 98}"
proof -
  have "ascii_lower c = CHR ''b''" using assms by (auto simp: match_bearer_def lower_text_def Let_def split: if_splits)
  then have "(of_char (ascii_lower c) :: nat) = 98" by simp
  then show ?thesis by (auto simp: ascii_lower_def Let_def split: if_splits)
qed

lemma no_match: "(of_char c :: nat) \<notin> {66, 98} \<Longrightarrow> match_bearer word (c # s) = None"
  using match_bearer_hd [of word c s] by (cases "match_bearer word (c # s)") blast+

lemma space_no_match: "py_isspace c \<Longrightarrow> match_bearer word (c # s) = None"
  by (rule no_match) (auto simp: py_isspace_def Let_def)

lemma match_bearer_rest: "match_bearer word s = Some (m, rest) \<Longrightarrow> rest = [] \<or> py_isspace (hd rest)"
  using hd_dropWhile [of "\<lambda>c. \<not> py_isspace c" "dropWhile py_isspace (drop 6 s)"] by (clarsimp simp: match_bearer_def Let_def simp del: dropWhile_eq_Nil_conv split: if_splits) blast

lemma substitute_prefix:
  "substitute_bearer word s = x @ y \<Longrightarrow> CHR ''['' \<notin> set x \<Longrightarrow> \<exists>s' word'. s = x @ s' \<and> y = substitute_bearer word' s'"
proof (induction x arbitrary: word s)
  case Nil
  then show ?case by auto
next
  case (Cons a x)
  have "match_bearer word s = None"
    using Cons.prems by (cases "match_bearer word s") (auto simp: REDACTED_def)
  then obtain r where "s = a # r" "substitute_bearer (py_isword a) r = x @ y"
    using Cons.prems(1) by (cases s) auto
  then show ?case using Cons.IH [of "py_isword a" r] Cons.prems(2) by auto
qed

lemma substitute_nonspace:
  assumes "substitute_bearer word s = c # q" and "\<not> py_isspace c"
  shows "\<exists>c' q'. s = c' # q' \<and> \<not> py_isspace c'"
proof (cases s)
  case Nil
  then show ?thesis using assms(1) by simp
next
  case (Cons d r)
  have "\<not> py_isspace d"
  proof
    assume "py_isspace d"
    then have "d = c" using assms(1) space_no_match [of d word r] Cons by simp
    then show False using \<open>py_isspace d\<close> assms(2) by simp
  qed
  then show ?thesis using Cons by simp
qed

lemma carries_bearer_redacted: "carries_bearer word (REDACTED @ t) \<longleftrightarrow> carries_bearer False t"
proof -
  have "match_bearer w (c # u) = None" if "c \<in> set REDACTED" for w c u
    using that by (intro no_match) (auto simp: REDACTED_def)
  then show ?thesis by (simp add: REDACTED_def carries_bearer_Cons) (simp add: py_isword_def)
qed

lemma substitute_removes: "\<not> carries_bearer word (substitute_bearer word s)"
proof (induction word s rule: substitute_bearer.induct)
  case (1 word s)
  show ?case
  proof (cases "match_bearer word s")
    case (Some mr)
    obtain m rest where mr: "mr = (m, rest)" by fastforce
    have ih: "\<not> carries_bearer (py_isword (last m)) (substitute_bearer (py_isword (last m)) rest)"
      by (rule 1(2) [OF Some mr [symmetric]])
    have "\<not> carries_bearer False (substitute_bearer (py_isword (last m)) rest)"
    proof (cases rest)
      case Nil
      then show ?thesis by simp
    next
      case (Cons d r)
      then have d: "py_isspace d" using match_bearer_rest [of word s m rest] Some mr by simp
      then have "substitute_bearer (py_isword (last m)) rest = d # substitute_bearer (py_isword d) r"
        using Cons by (simp add: space_no_match)
      then show ?thesis using ih d by (simp add: carries_bearer_Cons space_no_match)
    qed
    then show ?thesis using Some mr by (simp add: carries_bearer_redacted)
  next
    case None
    show ?thesis
    proof (cases s)
      case Nil
      then show ?thesis by simp
    next
      case (Cons c r)
      have ih: "\<not> carries_bearer (py_isword c) (substitute_bearer (py_isword c) r)" using 1(1) [OF None Cons] by simp
      have out: "substitute_bearer word s = c # substitute_bearer (py_isword c) r" using None Cons by simp
      have "False" if "match_bearer word (substitute_bearer word s) = Some x" for x
      proof -
        obtain b gap d q where b: "\<not> word" "substitute_bearer word s = (b @ gap) @ d # q" "lower_text b = ''bearer''" "gap \<noteq> []"
          "\<forall>x \<in> set gap. py_isspace x" "\<not> py_isspace d"
          using \<open>match_bearer word (substitute_bearer word s) = Some x\<close> match_bearer_iff [of word "substitute_bearer word s"] by (cases x) auto
        have "ascii_lower CHR ''['' \<notin> set ''bearer''" "\<not> py_isspace CHR ''[''" by (simp_all add: ascii_lower_def py_isspace_def)
        then have "CHR ''['' \<notin> set (b @ gap)" using b(3,5) unfolding lower_text_def by (metis UnE image_eqI set_append set_map)
        from substitute_prefix [OF b(2) this] obtain s' w' where s: "s = (b @ gap) @ s'" "d # q = substitute_bearer w' s'" by blast
        obtain c' q' where "s' = c' # q'" "\<not> py_isspace c'" using substitute_nonspace [OF s(2) [symmetric] b(6)] by blast
        then have "\<exists>m rest. match_bearer word s = Some (m, rest)" unfolding match_bearer_iff using s(1) b by auto
        then show False using None by simp
      qed
      then show ?thesis using ih out by (auto simp: carries_bearer_Cons)
    qed
  qed
qed


lemma redact_value_clean: "clean_json (redact_value v)"
  by (induction v rule: redact_value.induct) (auto simp: substitute_removes)

lemma clean_redact_value: "clean_json v \<Longrightarrow> redact_value v = v"
  by (induction v rule: redact_value.induct) (auto simp: substitute_clean intro!: map_idI split: if_splits)

lemma redact_details_value: "redact_value (JObj d) = JObj (redact_details d)"
  by (simp add: redact_details_def)

text \<open>
  C36: redaction removes every secret and nothing else. In what redaction leaves, at every depth, the value of a key that names a credential, a
  prompt, a secret or a token is the placeholder and no text carries a bearer credential; details without such values are kept as they are.
\<close>

theorem redaction_removes_secrets:
  "clean_json (JObj (redact_details d)) \<and> (clean_json (JObj d) \<longrightarrow> redact_details d = d)"
  using redact_value_clean [of "JObj d"] clean_redact_value [of "JObj d"] unfolding redact_details_value by blast

theorem redaction_removes_secrets_witness:
  "redact_details [(''subject'', JStr ''alice''), (''note'', JStr ''sent Bearer abc today''), (''api_Token'', JInt 7)]
     = [(''subject'', JStr ''alice''), (''note'', JStr ''sent [REDACTED] today''), (''api_Token'', JStr ''[REDACTED]'')]
   \<and> redact_details [(''subject'', JStr ''alice''), (''note'', JStr ''sent [REDACTED] today''), (''api_Token'', JStr ''[REDACTED]'')]
     = [(''subject'', JStr ''alice''), (''note'', JStr ''sent [REDACTED] today''), (''api_Token'', JStr ''[REDACTED]'')]"
proof -
  have r: "redact_details [(''subject'', JStr ''alice''), (''note'', JStr ''sent Bearer abc today''), (''api_Token'', JInt 7)]
     = [(''subject'', JStr ''alice''), (''note'', JStr ''sent [REDACTED] today''), (''api_Token'', JStr ''[REDACTED]'')]"
    by code_simp
  show ?thesis
    using redaction_removes_secrets [of "[(''subject'', JStr ''alice''), (''note'', JStr ''sent Bearer abc today''), (''api_Token'', JInt 7)]"]
      redaction_removes_secrets [of "[(''subject'', JStr ''alice''), (''note'', JStr ''sent [REDACTED] today''), (''api_Token'', JStr ''[REDACTED]'')]"]
    unfolding r by blast
qed

end
