(* ===== verification/Authentication.thy ===== *)
theory Authentication
  imports Policy
begin

text \<open>
  \<^verbatim>\<open>identity/authentication.py\<close>: verification of bearer tokens against a set of signing keys, the cached remote key set, and the resolution
  of verified subjects through the identity records. The token library (PyJWT), the RSA key construction (cryptography) and the network are
  parameters; times of the monotonic clock are exact rationals.
\<close>

section \<open>Errors\<close>

fun AuthenticationErrorCode_value :: "AuthenticationErrorCode \<Rightarrow> string" where
  "AuthenticationErrorCode_value MISSING_TOKEN = ''missing_token''"
| "AuthenticationErrorCode_value MALFORMED_TOKEN = ''malformed_token''"
| "AuthenticationErrorCode_value EXPIRED_TOKEN = ''expired_token''"
| "AuthenticationErrorCode_value WRONG_ISSUER = ''wrong_issuer''"
| "AuthenticationErrorCode_value WRONG_AUDIENCE = ''wrong_audience''"
| "AuthenticationErrorCode_value INVALID_SIGNATURE = ''invalid_signature''"
| "AuthenticationErrorCode_value UNSUPPORTED_ALGORITHM = ''unsupported_algorithm''"
| "AuthenticationErrorCode_value SIGNING_KEY_UNAVAILABLE = ''signing_key_unavailable''"
| "AuthenticationErrorCode_value INVALID_CLAIMS = ''invalid_claims''"
| "AuthenticationErrorCode_value UNKNOWN_IDENTITY = ''unknown_identity''"
| "AuthenticationErrorCode_value TENANT_MISMATCH = ''tenant_mismatch''"
| "AuthenticationErrorCode_value IDENTITY_DISABLED = ''identity_disabled''"

fun is_authentication_error :: "py_error \<Rightarrow> bool" where
  "is_authentication_error (AuthenticationError _ _) = True"
| "is_authentication_error _ = False"

section \<open>The libraries\<close>

text \<open>
  What PyJWT raises, by the \<^verbatim>\<open>except\<close> clauses that tell the classes apart; \<open>JWT_OTHER\<close> is any exception none of them names.
\<close>

datatype jwt_failure =
    ExpiredSignatureError | InvalidIssuerError | InvalidAudienceError | InvalidSignatureError | InvalidTokenError
  | JWT_TypeError | JWT_OverflowError | JWT_OTHER py_error

text \<open>
  \<^verbatim>\<open>jwt.get_unverified_header\<close>; \<^verbatim>\<open>jwt.decode\<close> of a token with a key, the accepted algorithms, the audience, the issuer and the
  leeway in microseconds; the PEM text of the RSA key with a base64url modulus and exponent (None when they are rejected with a TypeError or
  ValueError); and the microseconds since 1970 that \<^verbatim>\<open>datetime.fromtimestamp\<close> rounds a float of seconds to (None for NaN and infinities).
\<close>

record token_library =
  tl_header :: "string \<Rightarrow> jwt_failure + (string \<times> pyval) list"
  tl_decode :: "string \<Rightarrow> string \<Rightarrow> string list \<Rightarrow> string \<Rightarrow> string \<Rightarrow> int \<Rightarrow> jwt_failure + (string \<times> pyval) list"
  tl_rsa_pem :: "string \<Rightarrow> string \<Rightarrow> string option"
  tl_float_micros :: "pyfloat \<Rightarrow> int option"

section \<open>Signing keys\<close>

record VerificationKey =
  vk_key_id :: string
  vk_algorithm :: string
  vk_pem :: string

definition init_VerificationKey :: "VerificationKey \<Rightarrow> VerificationKey res" where
  "init_VerificationKey k =
     res_bind (require (vk_key_id k \<noteq> [] \<and> vk_algorithm k \<noteq> [] \<and> vk_pem k \<noteq> []) (ValueError ''verification key fields are required'')) (\<lambda>_.
     Inr k)"

definition new_StaticJwksProvider :: "VerificationKey list \<Rightarrow> (string \<times> VerificationKey) list res" where
  "new_StaticJwksProvider ks = index_unique vk_key_id ''duplicate signing key ids are not allowed'' [] ks"

definition key_not_found :: py_error where
  "key_not_found = AuthenticationError SIGNING_KEY_UNAVAILABLE ''signing key was not found''"

definition static_get_key :: "string \<Rightarrow> ((string \<times> VerificationKey) list, VerificationKey) op" where
  "static_get_key k = (\<lambda>d. case map_of d k of Some v \<Rightarrow> (Inr v, d) | None \<Rightarrow> (Inl key_not_found, d))"

text \<open>A value that is there and is a \<^verbatim>\<open>str\<close>.\<close>

definition text_value :: "pyval option \<Rightarrow> string option" where
  "text_value v = (case v of Some (PStr s) \<Rightarrow> Some s | _ \<Rightarrow> None)"

lemma text_value_Some [simp]: "text_value v = Some s \<longleftrightarrow> v = Some (PStr s)"
  by (auto simp: text_value_def split: option.splits pyval.splits)

definition require_text :: "pyval option \<Rightarrow> py_error \<Rightarrow> string res" where
  "require_text v e = (case text_value v of Some s \<Rightarrow> Inr s | None \<Rightarrow> Inl e)"

lemma require_text_simps [simp]:
  "require_text v e = Inr s \<longleftrightarrow> v = Some (PStr s)" "Inr s = require_text v e \<longleftrightarrow> v = Some (PStr s)"
  "require_text v e = Inl e' \<longleftrightarrow> (\<forall>s. v \<noteq> Some (PStr s)) \<and> e' = e" "Inl e' = require_text v e \<longleftrightarrow> (\<forall>s. v \<noteq> Some (PStr s)) \<and> e' = e"
  by (auto simp: require_text_def text_value_def split: option.splits pyval.splits)

text \<open>\<^verbatim>\<open>_parse_rsa_jwk\<close>: None for an entry that is not an RSA key with the required text fields.\<close>

definition parse_rsa_jwk :: "token_library \<Rightarrow> pyval \<Rightarrow> VerificationKey option res" where
  "parse_rsa_jwk lib raw_key = (case raw_key of
     PDict d \<Rightarrow>
       (let field = (\<lambda>f. text_value (map_of d (PStr f))) in
        case (field ''kid'', field ''alg'', field ''kty'', field ''n'', field ''e'') of
          (Some kid, Some alg, Some kty, Some n, Some e) \<Rightarrow>
            (if kty \<noteq> ''RSA'' then Inr None
             else (case tl_rsa_pem lib n e of
                None \<Rightarrow> Inl (AuthenticationError SIGNING_KEY_UNAVAILABLE ''JWKS key material is invalid'')
              | Some pem \<Rightarrow> res_bind (init_VerificationKey \<lparr>vk_key_id = kid, vk_algorithm = alg, vk_pem = pem\<rparr>) (\<lambda>k. Inr (Some k))))
        | _ \<Rightarrow> Inr None)
   | _ \<Rightarrow> Inr None)"

primrec collect_keys :: "token_library \<Rightarrow> (string \<times> VerificationKey) list \<Rightarrow> pyval list \<Rightarrow> (string \<times> VerificationKey) list res" where
  "collect_keys lib d [] = Inr d"
| "collect_keys lib d (raw # raws) =
     res_bind (parse_rsa_jwk lib raw) (\<lambda>key. case key of
        None \<Rightarrow> collect_keys lib d raws
      | Some k \<Rightarrow>
          (if map_of d (vk_key_id k) \<noteq> None
           then Inl (AuthenticationError SIGNING_KEY_UNAVAILABLE ''JWKS document contains duplicate key IDs'')
           else collect_keys lib (d @ [(vk_key_id k, k)]) raws))"

section \<open>The remote key set\<close>

record RemoteJwksProvider =
  rj_jwks_url :: string
  rj_allow_http :: bool
  rj_cache_ttl_seconds :: rat
  rj_cached_keys :: "(string \<times> VerificationKey) list"
  rj_document_expires_at :: rat

definition secure_url :: "bool \<Rightarrow> string \<Rightarrow> bool" where
  "secure_url allow_http url = (py_startswith url ''https://'' \<or> (allow_http \<and> py_startswith url ''http://''))"

definition new_RemoteJwksProvider :: "string \<Rightarrow> bool \<Rightarrow> rat \<Rightarrow> RemoteJwksProvider res" where
  "new_RemoteJwksProvider url allow_http ttl =
     res_bind (require (secure_url allow_http url) (ValueError ''JWKS URL must use HTTPS outside explicit development'')) (\<lambda>_.
     res_bind (require (1 \<le> ttl \<and> ttl \<le> 3600) (ValueError ''JWKS cache TTL must be between 1 and 3600 seconds'')) (\<lambda>_.
     Inr \<lparr>rj_jwks_url = url, rj_allow_http = allow_http, rj_cache_ttl_seconds = ttl, rj_cached_keys = [], rj_document_expires_at = 0\<rparr>))"

text \<open>
  What the endpoint gives: an error of the transport that the adapter classifies, another exception, or a response with its final URL (None
  when the response has no \<^verbatim>\<open>geturl\<close>) and the document its body decodes to (None when it is not UTF-8 JSON).
\<close>

datatype fetch_outcome = FetchFailed | FetchRaised py_error | Fetched "string option" "pyval option"

definition jwks_unavailable :: "string \<Rightarrow> py_error" where
  "jwks_unavailable msg = AuthenticationError SIGNING_KEY_UNAVAILABLE msg"

definition fetch_document :: "RemoteJwksProvider \<Rightarrow> fetch_outcome \<Rightarrow> pyval res" where
  "fetch_document p fetched = (case fetched of
     FetchFailed \<Rightarrow> Inl (jwks_unavailable ''JWKS endpoint could not provide signing keys'')
   | FetchRaised e \<Rightarrow> Inl e
   | Fetched url document \<Rightarrow>
       res_bind (require (secure_url (rj_allow_http p) (case url of Some u \<Rightarrow> u | None \<Rightarrow> rj_jwks_url p))
         (jwks_unavailable ''JWKS endpoint redirected to a non-HTTPS URL'')) (\<lambda>_.
       (case document of
          None \<Rightarrow> Inl (jwks_unavailable ''JWKS endpoint could not provide signing keys'')
        | Some d \<Rightarrow> Inr d)))"

definition document_keys :: "token_library \<Rightarrow> pyval \<Rightarrow> (string \<times> VerificationKey) list res" where
  "document_keys lib document = (case document of
     PDict d \<Rightarrow> (case map_of d (PStr ''keys'') of
         Some (PList raws) \<Rightarrow> collect_keys lib [] raws
       | _ \<Rightarrow> Inl (jwks_unavailable ''JWKS document is invalid''))
   | _ \<Rightarrow> Inl (jwks_unavailable ''JWKS document is invalid''))"

definition jwks_refresh :: "token_library \<Rightarrow> rat \<Rightarrow> fetch_outcome \<Rightarrow> (RemoteJwksProvider, unit) op" where
  "jwks_refresh lib now fetched =
     op_bind (op_gets (\<lambda>p. fetch_document p fetched)) (\<lambda>got.
     op_bind (op_lift got) (\<lambda>document.
     op_bind (op_lift (document_keys lib document)) (\<lambda>keys.
     op_modify (\<lambda>p. p\<lparr>rj_cached_keys := keys, rj_document_expires_at := now + rj_cache_ttl_seconds p\<rparr>))))"

text \<open>\<^verbatim>\<open>get_key\<close> at a reading of the monotonic clock; the lock makes it one step.\<close>

definition remote_get_key :: "token_library \<Rightarrow> rat \<Rightarrow> fetch_outcome \<Rightarrow> string \<Rightarrow> (RemoteJwksProvider, VerificationKey) op" where
  "remote_get_key lib now fetched k =
     op_bind (op_gets (\<lambda>p. rj_document_expires_at p \<le> now)) (\<lambda>stale.
     op_bind (if stale then jwks_refresh lib now fetched else op_return ()) (\<lambda>_.
     op_bind (op_gets (\<lambda>p. map_of (rj_cached_keys p) k)) (\<lambda>key.
     (case key of Some v \<Rightarrow> op_return v | None \<Rightarrow> op_raise key_not_found))))"


section \<open>Token verification\<close>

record JwtValidationConfig =
  jc_issuer :: string
  jc_audience :: string
  jc_clock_skew :: int
  jc_algorithms :: "string list"

definition init_JwtValidationConfig :: "JwtValidationConfig \<Rightarrow> JwtValidationConfig res" where
  "init_JwtValidationConfig c =
     res_bind (require (jc_issuer c \<noteq> [] \<and> jc_audience c \<noteq> []) (ValueError ''issuer and audience are required'')) (\<lambda>_.
     res_bind (require (0 \<le> jc_clock_skew c \<and> jc_clock_skew c \<le> 300000000) (ValueError ''clock skew must be between zero and five minutes'')) (\<lambda>_.
     res_bind (require (jc_algorithms c \<noteq> []) (ValueError ''at least one signing algorithm is required'')) (\<lambda>_.
     Inr c)))"

record VerifiedClaims =
  vc_issuer :: string
  vc_subject :: string
  vc_audiences :: "string list"
  vc_expires_at :: datetime
  vc_issued_at :: datetime
  vc_asserted_tenant_id :: "TenantId option"
  vc_authorized_party :: "string option"

definition invalid_claims :: "string \<Rightarrow> py_error" where
  "invalid_claims msg = AuthenticationError INVALID_CLAIMS msg"

text \<open>The microseconds since 1970 of a claim of type int (bool among them) or float, and the datetime in UTC they are.\<close>

definition epoch_micros :: int where
  "epoch_micros = 719162 * 86400000000"

definition claim_micros :: "token_library \<Rightarrow> pyval \<Rightarrow> int option" where
  "claim_micros lib v = (case v of
     PInt i \<Rightarrow> Some (i * 1000000) | PBool b \<Rightarrow> Some (if b then 1000000 else 0) | PFloat f \<Rightarrow> tl_float_micros lib f | _ \<Rightarrow> None)"

definition require_number :: "pyval option \<Rightarrow> py_error \<Rightarrow> pyval res" where
  "require_number v e = (case v of
     Some (PInt i) \<Rightarrow> Inr (PInt i) | Some (PBool b) \<Rightarrow> Inr (PBool b) | Some (PFloat f) \<Rightarrow> Inr (PFloat f) | _ \<Rightarrow> Inl e)"

definition numeric_date :: "token_library \<Rightarrow> pyval \<Rightarrow> string \<Rightarrow> datetime res" where
  "numeric_date lib v claim_name = (case claim_micros lib v of
     Some m \<Rightarrow>
       (if 0 \<le> m + epoch_micros \<and> m + epoch_micros < int (3652059 * day_micros) then Inr (dt_of_instant (m + epoch_micros))
        else Inl (invalid_claims (claim_name @ '' claim has an invalid value'')))
   | None \<Rightarrow> Inl (invalid_claims (claim_name @ '' claim has an invalid value'')))"

fun text_items :: "pyval list \<Rightarrow> string list option" where
  "text_items [] = Some []"
| "text_items (PStr s # vs) = map_option (\<lambda>ss. s # ss) (text_items vs)"
| "text_items (_ # vs) = None"

definition claimed_audiences :: "pyval option \<Rightarrow> string list res" where
  "claimed_audiences aud = (case aud of
     Some (PStr s) \<Rightarrow> Inr [s]
   | Some (PList vs) \<Rightarrow> (case text_items vs of Some ss \<Rightarrow> Inr ss | None \<Rightarrow> Inl (invalid_claims ''audience claim has an invalid type''))
   | _ \<Rightarrow> Inl (invalid_claims ''audience claim has an invalid type''))"

definition claimed_tenant :: "pyval option \<Rightarrow> TenantId option res" where
  "claimed_tenant claim = (case claim of
     None \<Rightarrow> Inr None
   | Some (PStr s) \<Rightarrow> (case new_TenantId s of Inr t \<Rightarrow> Inr (Some t) | Inl _ \<Rightarrow> Inl (invalid_claims ''tenant claim has an invalid value''))
   | Some _ \<Rightarrow> Inl (invalid_claims ''tenant claim has an invalid type''))"

definition claimed_party :: "pyval option \<Rightarrow> string option res" where
  "claimed_party claim = (case claim of
     None \<Rightarrow> Inr None | Some PNone \<Rightarrow> Inr None | Some (PStr s) \<Rightarrow> Inr (Some s)
   | Some _ \<Rightarrow> Inl (invalid_claims ''authorized party claim has an invalid type''))"

definition verified_claims :: "token_library \<Rightarrow> (string \<times> pyval) list \<Rightarrow> VerifiedClaims res" where
  "verified_claims lib body =
     (let bad_types = invalid_claims ''required token claims have invalid types'' in
      res_bind (require_text (map_of body ''sub'') bad_types) (\<lambda>subject.
      res_bind (require (subject \<noteq> []) bad_types) (\<lambda>_.
      res_bind (require_text (map_of body ''iss'') bad_types) (\<lambda>issuer.
      res_bind (require_number (map_of body ''exp'') bad_types) (\<lambda>expires_at.
      res_bind (require_number (map_of body ''iat'') bad_types) (\<lambda>issued_at.
      res_bind (claimed_audiences (map_of body ''aud'')) (\<lambda>audiences.
      res_bind (claimed_tenant (map_of body ''tenant_id'')) (\<lambda>tenant.
      res_bind (claimed_party (map_of body ''azp'')) (\<lambda>party.
      res_bind (numeric_date lib expires_at ''exp'') (\<lambda>expires.
      res_bind (numeric_date lib issued_at ''iat'') (\<lambda>issued.
      Inr \<lparr>vc_issuer = issuer, vc_subject = subject, vc_audiences = audiences, vc_expires_at = expires, vc_issued_at = issued,
           vc_asserted_tenant_id = tenant, vc_authorized_party = party\<rparr>)))))))))))"

definition header_failure :: "jwt_failure \<Rightarrow> py_error" where
  "header_failure f = (case f of
     JWT_OTHER e \<Rightarrow> e
   | JWT_TypeError \<Rightarrow> TypeError ''''
   | JWT_OverflowError \<Rightarrow> OverflowError ''''
   | _ \<Rightarrow> AuthenticationError MALFORMED_TOKEN ''bearer token is malformed'')"

definition decode_failure :: "jwt_failure \<Rightarrow> py_error" where
  "decode_failure f = (case f of
     ExpiredSignatureError \<Rightarrow> AuthenticationError EXPIRED_TOKEN ''bearer token has expired''
   | InvalidIssuerError \<Rightarrow> AuthenticationError WRONG_ISSUER ''bearer token issuer is not trusted''
   | InvalidAudienceError \<Rightarrow> AuthenticationError WRONG_AUDIENCE ''bearer token audience is not accepted''
   | InvalidSignatureError \<Rightarrow> AuthenticationError INVALID_SIGNATURE ''bearer token signature is invalid''
   | JWT_OTHER e \<Rightarrow> e
   | _ \<Rightarrow> invalid_claims ''bearer token claims are invalid'')"

definition lift_jwt :: "(jwt_failure \<Rightarrow> py_error) \<Rightarrow> jwt_failure + 'a \<Rightarrow> 'a res" where
  "lift_jwt h r = (case r of Inl f \<Rightarrow> Inl (h f) | Inr a \<Rightarrow> Inr a)"

definition verify :: "token_library \<Rightarrow> JwtValidationConfig \<Rightarrow> (string \<Rightarrow> ('s, VerificationKey) op) \<Rightarrow> string \<Rightarrow> ('s, VerifiedClaims) op" where
  "verify lib c get_key token =
     (let unsupported = AuthenticationError UNSUPPORTED_ALGORITHM ''token signing algorithm is not allowed'';
          unidentified = AuthenticationError MALFORMED_TOKEN ''token does not identify a signing key'' in
      op_bind (op_require (token \<noteq> []) (AuthenticationError MISSING_TOKEN ''bearer token is required'')) (\<lambda>_.
      op_bind (op_lift (lift_jwt header_failure (tl_header lib token))) (\<lambda>header.
      op_bind (op_lift (require_text (map_of header ''alg'') unsupported)) (\<lambda>algorithm.
      op_bind (op_require (algorithm \<in> set (jc_algorithms c)) unsupported) (\<lambda>_.
      op_bind (op_lift (require_text (map_of header ''kid'') unidentified)) (\<lambda>key_id.
      op_bind (op_require (key_id \<noteq> []) unidentified) (\<lambda>_.
      op_bind (get_key key_id) (\<lambda>key.
      op_bind (op_require (vk_algorithm key = algorithm)
        (AuthenticationError UNSUPPORTED_ALGORITHM ''token and signing key algorithms do not match'')) (\<lambda>_.
      op_bind (op_lift (lift_jwt decode_failure
        (tl_decode lib token (vk_pem key) (jc_algorithms c) (jc_audience c) (jc_issuer c) (jc_clock_skew c)))) (\<lambda>body.
      op_lift (verified_claims lib body)))))))))))"

section \<open>Identity records\<close>

record IdentityRecord =
  ir_issuer :: string
  ir_subject :: string
  ir_tenant_id :: TenantId
  ir_kind :: PrincipalKind
  ir_role_bindings :: "RoleBinding list"
  ir_enabled :: bool
  ir_user_id :: "string option"
  ir_service_identity :: "string option"

definition init_IdentityRecord :: "IdentityRecord \<Rightarrow> IdentityRecord res" where
  "init_IdentityRecord r =
     res_bind (require (ir_issuer r \<noteq> []) (ValueError ''identity record issuer must not be empty'')) (\<lambda>_.
     res_bind (require (ir_subject r \<noteq> []) (ValueError ''identity record subject must not be empty'')) (\<lambda>_.
     res_bind (require ((ir_user_id r \<noteq> None) \<noteq> (ir_service_identity r \<noteq> None))
       (ValueError ''identity record must have exactly one internal identity'')) (\<lambda>_.
     res_bind (require (\<not> (ir_kind r = KIND_USER \<and> ir_user_id r = None)) (ValueError ''user identity record requires user_id'')) (\<lambda>_.
     res_bind (require (\<not> (ir_kind r = KIND_SERVICE \<and> ir_service_identity r = None))
       (ValueError ''service identity record requires service_identity'')) (\<lambda>_.
     res_bind (require (\<forall>b \<in> set (ir_role_bindings r). rb_tenant_id b = ir_tenant_id r)
       (ValueError ''identity record role bindings must match the tenant'')) (\<lambda>_.
     Inr r))))))"

definition record_principal :: "IdentityRecord \<Rightarrow> Principal" where
  "record_principal r =
     \<lparr>pr_subject = ir_subject r, pr_issuer = ir_issuer r, pr_tenant_id = ir_tenant_id r, pr_kind = ir_kind r,
      pr_role_bindings = ir_role_bindings r, pr_user_id = ir_user_id r, pr_service_identity = ir_service_identity r\<rparr>"

definition to_principal :: "IdentityRecord \<Rightarrow> Principal res" where
  "to_principal r = init_Principal (record_principal r)"

type_synonym identity_directory = "((string \<times> string) \<times> IdentityRecord) list"

definition new_InMemoryIdentityDirectory :: "IdentityRecord list \<Rightarrow> identity_directory res" where
  "new_InMemoryIdentityDirectory rs =
     index_unique (\<lambda>r. (ir_issuer r, ir_subject r)) ''duplicate identity records are not allowed'' [] rs"

definition resolve :: "identity_directory \<Rightarrow> VerifiedClaims \<Rightarrow> Principal res" where
  "resolve d claims = (case map_of d (vc_issuer claims, vc_subject claims) of
     None \<Rightarrow> Inl (AuthenticationError UNKNOWN_IDENTITY ''verified subject is not registered'')
   | Some r \<Rightarrow>
       res_bind (require (ir_enabled r) (AuthenticationError IDENTITY_DISABLED ''identity is disabled'')) (\<lambda>_.
       res_bind (require (vc_asserted_tenant_id claims = None \<or> vc_asserted_tenant_id claims = Some (ir_tenant_id r))
         (AuthenticationError TENANT_MISMATCH ''signed tenant claim does not match the identity record'')) (\<lambda>_.
       to_principal r)))"

section \<open>The service\<close>

text \<open>
  \<^verbatim>\<open>header.partition(" ")\<close> gives the scheme, the separator when there is one, and the rest. Only ASCII letters fold to the letters
  of \<^verbatim>\<open>bearer\<close>.
\<close>

definition bearer_token :: "string option \<Rightarrow> string res" where
  "bearer_token header = (case header of
     None \<Rightarrow> Inl (AuthenticationError MISSING_TOKEN ''authorization header is required'')
   | Some h \<Rightarrow>
       (let scheme = takeWhile (\<lambda>c. c \<noteq> CHR '' '') h; rest = dropWhile (\<lambda>c. c \<noteq> CHR '' '') h; token = py_strip (tl rest) in
        res_bind (require (rest \<noteq> [] \<and> map ascii_lower scheme = ''bearer'' \<and> token \<noteq> [])
          (AuthenticationError MALFORMED_TOKEN ''authorization header must contain a bearer token'')) (\<lambda>_.
        Inr token)))"

definition authenticate ::
  "token_library \<Rightarrow> JwtValidationConfig \<Rightarrow> (string \<Rightarrow> ('s, VerificationKey) op) \<Rightarrow> (VerifiedClaims \<Rightarrow> Principal res) \<Rightarrow> string option
     \<Rightarrow> ('s, Principal) op" where
  "authenticate lib c get_key resolve_claims header =
     op_bind (op_lift (bearer_token header)) (\<lambda>token.
     op_bind (verify lib c get_key token) (\<lambda>claims.
     op_lift (resolve_claims claims)))"

section \<open>The steps of verification\<close>

lemma lift_jwt_simps [simp]:
  "lift_jwt h r = Inr a \<longleftrightarrow> r = Inr a"
  "Inr a = lift_jwt h r \<longleftrightarrow> r = Inr a"
  "lift_jwt h r = Inl e \<longleftrightarrow> (\<exists>f. r = Inl f \<and> e = h f)"
  "Inl e = lift_jwt h r \<longleftrightarrow> (\<exists>f. r = Inl f \<and> e = h f)"
  by (cases r; auto simp: lift_jwt_def)+

lemma verify_InrE:
  assumes "verify lib c get_key token s = (Inr claims, s')"
  obtains algorithm key_id key body where "algorithm \<in> set (jc_algorithms c)" "get_key key_id s = (Inr key, s')" "vk_algorithm key = algorithm"
    "tl_decode lib token (vk_pem key) (jc_algorithms c) (jc_audience c) (jc_issuer c) (jc_clock_skew c) = Inr body"
    "verified_claims lib body = Inr claims"
  using assms by (auto simp: verify_def Let_def op_simps)

lemma verify_InlE:
  assumes "verify lib c get_key token s = (Inl e, s')"
  obtains (classified) code msg where "e = AuthenticationError code msg"
    | (header) f where "tl_header lib token = Inl f" "e = header_failure f"
    | (key) k where "get_key k s = (Inl e, s')"
    | (decode) pem f where "tl_decode lib token pem (jc_algorithms c) (jc_audience c) (jc_issuer c) (jc_clock_skew c) = Inl f" "e = decode_failure f"
    | (claims) body where "verified_claims lib body = Inl e"
  using assms by (auto simp: verify_def op_bind_Inl_iff op_require_Inl_iff op_simps Let_def)

lemma verified_claims_Inr:
  assumes "verified_claims lib body = Inr claims"
  shows "map_of body ''sub'' = Some (PStr (vc_subject claims))" "map_of body ''iss'' = Some (PStr (vc_issuer claims))"
    "claimed_tenant (map_of body ''tenant_id'') = Inr (vc_asserted_tenant_id claims)"
  using assms by (auto simp: verified_claims_def res_bind_Inr_iff Let_def)

lemma res_bind_Inl_iff: "res_bind r k = Inl e \<longleftrightarrow> r = Inl e \<or> (\<exists>a. r = Inr a \<and> k a = Inl e)"
  by (cases r) auto

lemma require_Inl_iff [simp]: "require b e = Inl e' \<longleftrightarrow> \<not> b \<and> e' = e"
  by (auto simp: require_def)

lemma claims_errors:
  "claimed_audiences v = Inl e \<Longrightarrow> is_authentication_error e" "claimed_tenant v = Inl e \<Longrightarrow> is_authentication_error e"
  "claimed_party v = Inl e \<Longrightarrow> is_authentication_error e" "numeric_date lib w n = Inl e \<Longrightarrow> is_authentication_error e"
  "require_number v (invalid_claims m) = Inl e \<Longrightarrow> is_authentication_error e" "is_authentication_error (invalid_claims m)"
  by (auto simp: invalid_claims_def claimed_audiences_def claimed_tenant_def claimed_party_def numeric_date_def require_number_def
      split: option.splits pyval.splits sum.splits if_splits)

lemma verified_claims_Inl: "verified_claims lib body = Inl e \<Longrightarrow> is_authentication_error e"
  by (auto simp: verified_claims_def res_bind_Inl_iff Let_def dest: claims_errors(1-5) simp: claims_errors(6))


section \<open>What a key source promises\<close>

text \<open>
  The verifier asks a key source for the key of a token. Whatever the source, in a state that satisfies its invariant it answers with a key
  of that identifier which it trusts, and keeps the invariant.
\<close>

locale jwks_source =
  fixes get_key :: "string \<Rightarrow> ('s, VerificationKey) op" and inv :: "'s \<Rightarrow> bool" and trusted :: "'s \<Rightarrow> VerificationKey \<Rightarrow> bool"
  assumes key_trusted: "inv s \<Longrightarrow> get_key k s = (Inr v, s') \<Longrightarrow> trusted s' v \<and> vk_key_id v = k"
    and keeps_inv: "inv s \<Longrightarrow> get_key k s = (x, s') \<Longrightarrow> inv s'"
begin

lemma authenticate_sound:
  assumes "inv s" and "authenticate lib c get_key resolve_claims header s = (Inr who, s')"
  obtains token key body claims where "bearer_token header = Inr token" "trusted s' key" "vk_algorithm key \<in> set (jc_algorithms c)"
    "tl_decode lib token (vk_pem key) (jc_algorithms c) (jc_audience c) (jc_issuer c) (jc_clock_skew c) = Inr body"
    "verified_claims lib body = Inr claims" "resolve_claims claims = Inr who"
proof -
  obtain token claims where t: "bearer_token header = Inr token" "verify lib c get_key token s = (Inr claims, s')" "resolve_claims claims = Inr who"
    using assms(2) unfolding authenticate_def op_simps by (metis)
  from t(2) show thesis by (rule verify_InrE) (use t that key_trusted [OF assms(1)] in blast)
qed

end

text \<open>A source that classifies its failures, and then so does authentication.\<close>

definition library_classifies :: "token_library \<Rightarrow> bool" where
  "library_classifies lib = ((\<forall>token f. tl_header lib token = Inl f \<longrightarrow> is_authentication_error (header_failure f))
     \<and> (\<forall>token pem algorithms audience issuer leeway f. tl_decode lib token pem algorithms audience issuer leeway = Inl f
          \<longrightarrow> is_authentication_error (decode_failure f)))"

locale classified_source = jwks_source +
  assumes key_error: "inv s \<Longrightarrow> get_key k s = (Inl e, s') \<Longrightarrow> is_authentication_error e"
begin

lemma authenticate_error:
  assumes "inv s" and "library_classifies lib" and "authenticate lib c get_key resolve_claims header s = (Inl e, s')"
  shows "is_authentication_error e \<or> (\<exists>claims. resolve_claims claims = Inl e)"
proof -
  have b: "is_authentication_error e" if "bearer_token header = Inl e"
    using that by (auto simp: bearer_token_def res_bind_Inl_iff Let_def split: option.splits)
  consider "bearer_token header = Inl e" | token where "verify lib c get_key token s = (Inl e, s')" | claims where "resolve_claims claims = Inl e"
    using assms(3) by (auto simp: authenticate_def op_bind_Inl_iff op_simps)
  then show ?thesis
  proof cases
    case (2 token)
    from 2 have "is_authentication_error e"
      by (rule verify_InlE) (use assms(2) key_error [OF assms(1)] verified_claims_Inl in \<open>auto simp: library_classifies_def\<close>)
    then show ?thesis ..
  qed (use b in auto)
qed

end

section \<open>The two sources\<close>

definition keys_named :: "(string \<times> VerificationKey) list \<Rightarrow> bool" where
  "keys_named d = (\<forall>kv \<in> set d. vk_key_id (snd kv) = fst kv)"

lemma keys_named_lookup: "keys_named d \<Longrightarrow> map_of d k = Some v \<Longrightarrow> v \<in> snd ` set d \<and> vk_key_id v = k"
  by (force simp: keys_named_def dest: map_of_SomeD)

lemma index_unique_set: "index_unique key msg d xs = Inr d' \<Longrightarrow> set d' = set d \<union> (\<lambda>x. (key x, x)) ` set xs"
  by (induction xs arbitrary: d) (auto split: if_splits)

lemma collect_keys_named: "collect_keys lib d raws = Inr d' \<Longrightarrow> keys_named d \<Longrightarrow> keys_named d'"
proof (induction raws arbitrary: d)
  case (Cons raw raws)
  from Cons.prems(1) obtain key where key: "parse_rsa_jwk lib raw = Inr key"
    and rest: "(case key of None \<Rightarrow> collect_keys lib d raws
      | Some k \<Rightarrow> (if map_of d (vk_key_id k) \<noteq> None
           then Inl (AuthenticationError SIGNING_KEY_UNAVAILABLE ''JWKS document contains duplicate key IDs'')
           else collect_keys lib (d @ [(vk_key_id k, k)]) raws)) = Inr d'"
    by (auto simp: res_bind_Inr_iff)
  show ?case
  proof (cases key)
    case None
    then show ?thesis using rest Cons by simp
  next
    case (Some k)
    then have "collect_keys lib (d @ [(vk_key_id k, k)]) raws = Inr d'" using rest by (simp split: if_splits)
    then show ?thesis by (rule Cons.IH) (use Cons.prems(2) in \<open>simp add: keys_named_def\<close>)
  qed
qed simp

lemma document_keys_named: "document_keys lib document = Inr d \<Longrightarrow> keys_named d"
  by (auto simp: document_keys_def split: pyval.splits option.splits dest!: collect_keys_named) (simp_all add: keys_named_def)

interpretation static_source: classified_source static_get_key keys_named "\<lambda>d k. k \<in> snd ` set d"
  by unfold_locales (auto simp: static_get_key_def key_not_found_def dest: keys_named_lookup split: option.splits)

lemma jwks_refresh_effect:
  assumes "jwks_refresh lib now fetched p = (x, p')"
  shows "(p' = p \<and> (\<exists>e. x = Inl e)) \<or> (\<exists>document keys. fetch_document p fetched = Inr document \<and> document_keys lib document = Inr keys
    \<and> p' = p\<lparr>rj_cached_keys := keys, rj_document_expires_at := now + rj_cache_ttl_seconds p\<rparr>)"
  using assms by (cases "fetch_document p fetched"; cases "document_keys lib (projr (fetch_document p fetched))") (auto simp: jwks_refresh_def op_eval)

lemma remote_get_key_cases:
  assumes "remote_get_key lib now fetched k p = (x, p')"
  obtains (kept) "p' = p" "x = Inr v \<Longrightarrow> now < rj_document_expires_at p" 
    | (refreshed) document keys where "fetch_document p fetched = Inr document" "document_keys lib document = Inr keys"
        "p' = p\<lparr>rj_cached_keys := keys, rj_document_expires_at := now + rj_cache_ttl_seconds p\<rparr>"
proof (cases "rj_document_expires_at p \<le> now")
  case True
  obtain y q where r: "jwks_refresh lib now fetched p = (y, q)" by fastforce
  have q: "p' = q" "\<exists>e. y = Inl e \<Longrightarrow> \<exists>e. x = Inl e"
    using assms r True by (auto simp: remote_get_key_def op_eval split: sum.splits option.splits)
  show ?thesis using jwks_refresh_effect [OF r] q that by auto
next
  case False
  then show ?thesis using assms that(1) by (auto simp: remote_get_key_def op_eval split: option.splits)
qed

lemma remote_get_key_Inr: "remote_get_key lib now fetched k p = (Inr v, p') \<Longrightarrow> map_of (rj_cached_keys p') k = Some v"
  by (auto simp: remote_get_key_def op_simps split: option.splits)

interpretation remote_source: jwks_source "remote_get_key lib now fetched" "\<lambda>p. keys_named (rj_cached_keys p)"
    "\<lambda>p k. k \<in> snd ` set (rj_cached_keys p)" for lib now fetched
proof -
  have inv: "keys_named (rj_cached_keys p')" if "keys_named (rj_cached_keys p)" "remote_get_key lib now fetched k p = (x, p')" for p p' k x
    using that(2) by (rule remote_get_key_cases) (use that document_keys_named in auto)
  show "jwks_source (remote_get_key lib now fetched) (\<lambda>p. keys_named (rj_cached_keys p)) (\<lambda>p k. k \<in> snd ` set (rj_cached_keys p))"
    by unfold_locales (rule keys_named_lookup, blast intro: inv, blast intro: remote_get_key_Inr, blast intro: inv)
qed


section \<open>Properties\<close>

lemma resolve_Inr:
  assumes "new_InMemoryIdentityDirectory rs = Inr d" and "resolve d claims = Inr who"
  obtains r where "r \<in> set rs" "ir_issuer r = vc_issuer claims" "ir_subject r = vc_subject claims" "ir_enabled r"
    "vc_asserted_tenant_id claims = None \<or> vc_asserted_tenant_id claims = Some (ir_tenant_id r)"
    "who = record_principal r" "init_Principal who = Inr who"
proof -
  obtain r where r: "map_of d (vc_issuer claims, vc_subject claims) = Some r" "ir_enabled r"
    "vc_asserted_tenant_id claims = None \<or> vc_asserted_tenant_id claims = Some (ir_tenant_id r)" "init_Principal (record_principal r) = Inr who"
    using assms(2) by (auto simp: resolve_def res_bind_Inr_iff to_principal_def split: option.splits)
  have "set d = (\<lambda>x. ((ir_issuer x, ir_subject x), x)) ` set rs"
    using index_unique_set [OF assms(1) [unfolded new_InMemoryIdentityDirectory_def]] by simp
  then have "r \<in> set rs" "ir_issuer r = vc_issuer claims" "ir_subject r = vc_subject claims" using map_of_SomeD [OF r(1)] by auto
  moreover have "who = record_principal r" using r(4) by (auto simp: init_Principal_def res_bind_Inr_iff)
  ultimately show thesis using that r by simp
qed

lemma claimed_tenant_Inr: "claimed_tenant v = Inr t \<Longrightarrow> v = map_option PStr t"
  by (auto simp: claimed_tenant_def new_TenantId_def res_bind_Inr_iff split: option.splits pyval.splits sum.splits)

text \<open>
  What the token library documents of \<^verbatim>\<open>jwt.decode\<close>: a payload it returns was signed with the key, and was issued by the issuer asked for.
\<close>

definition decode_sound :: "token_library \<Rightarrow> (string \<Rightarrow> string \<Rightarrow> (string \<times> pyval) list \<Rightarrow> bool) \<Rightarrow> bool" where
  "decode_sound lib issued = (\<forall>token pem algorithms audience issuer leeway body.
     tl_decode lib token pem algorithms audience issuer leeway = Inr body \<longrightarrow> issued pem token body \<and> map_of body ''iss'' = Some (PStr issuer))"

text \<open>
  C11: identities come from signed tokens and from the platform's own records. Whoever is authenticated presented a bearer token signed with a
  key of the trusted key set, under an allowed algorithm, by the configured issuer for a registered subject; the principal is what the enabled
  record of that subject says, and a tenant the token names is the record's tenant.
\<close>

theorem authentication_is_authoritative:
  assumes "decode_sound lib issued" and "keys_named (rj_cached_keys p)" and "new_InMemoryIdentityDirectory rs = Inr d"
    and "authenticate lib c (remote_get_key lib now fetched) (resolve d) header p = (Inr who, p')"
  shows "\<exists>token key body r. bearer_token header = Inr token \<and> key \<in> snd ` set (rj_cached_keys p') \<and> vk_algorithm key \<in> set (jc_algorithms c)
    \<and> issued (vk_pem key) token body \<and> r \<in> set rs \<and> ir_enabled r \<and> ir_issuer r = jc_issuer c \<and> map_of body ''sub'' = Some (PStr (ir_subject r))
    \<and> map_of body ''tenant_id'' \<in> {None, Some (PStr (ir_tenant_id r))} \<and> who = record_principal r"
proof -
  obtain token key body claims where t: "bearer_token header = Inr token" "key \<in> snd ` set (rj_cached_keys p')"
    "vk_algorithm key \<in> set (jc_algorithms c)"
    "tl_decode lib token (vk_pem key) (jc_algorithms c) (jc_audience c) (jc_issuer c) (jc_clock_skew c) = Inr body"
    "verified_claims lib body = Inr claims" "resolve d claims = Inr who"
    by (rule remote_source.authenticate_sound [OF assms(2,4)])
  note v = verified_claims_Inr [OF t(5)]
  have s: "issued (vk_pem key) token body" "vc_issuer claims = jc_issuer c" using assms(1) t(4) v(2) by (auto simp: decode_sound_def)
  obtain r where r: "r \<in> set rs" "ir_issuer r = vc_issuer claims" "ir_subject r = vc_subject claims" "ir_enabled r"
    "vc_asserted_tenant_id claims = None \<or> vc_asserted_tenant_id claims = Some (ir_tenant_id r)" "who = record_principal r"
    by (rule resolve_Inr [OF assms(3) t(6)])
  show ?thesis
    by (intro exI [of _ token] exI [of _ key] exI [of _ body] exI [of _ r]) (use r t(1-3) s v(1) claimed_tenant_Inr [OF v(3)] in auto)
qed

lemma authenticated_principal_ok:
  assumes "\<forall>r \<in> set rs. init_IdentityRecord r = Inr r \<and> (\<forall>b \<in> set (ir_role_bindings r). binding_ok b)"
    and "new_InMemoryIdentityDirectory rs = Inr d" and "authenticate lib c get_key (resolve d) header s = (Inr who, s')"
  shows "principal_ok who"
proof -
  obtain claims where "resolve d claims = Inr who" using assms(3) unfolding authenticate_def op_simps by metis
  from resolve_Inr [OF assms(2) this] obtain r where r: "r \<in> set rs" "who = record_principal r" "init_Principal who = Inr who" by blast
  then show ?thesis using assms(1) by (auto simp: principal_ok_def record_principal_def)
qed




text \<open>The answers to a sequence of calls, each with the clock's reading, what the endpoint would give, and the key asked for.\<close>

primrec jwks_calls :: "token_library \<Rightarrow> RemoteJwksProvider \<Rightarrow> (rat \<times> fetch_outcome \<times> string) list \<Rightarrow> VerificationKey res list" where
  "jwks_calls lib p [] = []"
| "jwks_calls lib p (c # cs) = (case c of (now, fetched, k) \<Rightarrow>
     let (x, p') = remote_get_key lib now fetched k p in x # jwks_calls lib p' cs)"

text \<open>Where an answer may come from: a document fetched by one of the calls so far that has not expired.\<close>

definition served_by :: "token_library \<Rightarrow> RemoteJwksProvider \<Rightarrow> rat \<times> fetch_outcome \<times> string \<Rightarrow> rat \<Rightarrow> string \<Rightarrow> VerificationKey \<Rightarrow> bool" where
  "served_by lib p c now k v = (\<exists>document keys. fetch_document p (fst (snd c)) = Inr document \<and> document_keys lib document = Inr keys
     \<and> now < fst c + rj_cache_ttl_seconds p \<and> map_of keys k = Some v)"

lemma fetch_document_cong [simp]: "fetch_document (p\<lparr>rj_cached_keys := ks, rj_document_expires_at := t\<rparr>) f = fetch_document p f"
  by (auto simp: fetch_document_def split: fetch_outcome.splits option.splits)

lemma served_by_cong [simp]: "served_by lib (p\<lparr>rj_cached_keys := ks, rj_document_expires_at := t\<rparr>) = served_by lib p"
  by (simp add: served_by_def fun_eq_iff)

lemma jwks_calls_served:
  assumes "0 < rj_cache_ttl_seconds p" and "i < length cs" and "cs ! i = (now, fetched, k)" and "jwks_calls lib p cs ! i = Inr v"
  shows "(\<exists>j \<le> i. served_by lib p (cs ! j) now k v) \<or> (now < rj_document_expires_at p \<and> map_of (rj_cached_keys p) k = Some v)"
  using assms
proof (induction cs arbitrary: p i)
  case (Cons c cs)
  obtain t f key where c: "c = (t, f, key)" by (cases c)
  obtain x p' where call: "remote_get_key lib t f key p = (x, p')" by fastforce
  have step: "served_by lib p c u w y \<or> (u < rj_document_expires_at p \<and> map_of (rj_cached_keys p) w = Some y)"
    if "u < rj_document_expires_at p'" "map_of (rj_cached_keys p') w = Some y" for u w y
    using call by (rule remote_get_key_cases) (use that c in \<open>auto simp: served_by_def\<close>)
  show ?case
  proof (cases i)
    case 0
    then have v: "x = Inr v" "t = now" "key = k" using Cons.prems c call by simp_all
    have "t < rj_document_expires_at p'"
      using call by (rule remote_get_key_cases) (use v Cons.prems(1) in auto)
    moreover have "map_of (rj_cached_keys p') k = Some v" using remote_get_key_Inr call v by blast
    ultimately show ?thesis using step [of now k v] v 0 by auto
  next
    case (Suc i')
    have same: "rj_cache_ttl_seconds p' = rj_cache_ttl_seconds p" "served_by lib p' = served_by lib p"
      using call by (rule remote_get_key_cases, simp, simp)+
    have "(\<exists>j \<le> i'. served_by lib p (cs ! j) now k v) \<or> (now < rj_document_expires_at p' \<and> map_of (rj_cached_keys p') k = Some v)"
      using Cons.IH [of p' i'] Cons.prems Suc c call same by simp
    then show ?thesis using step [of now k v] Suc by (metis Suc_le_mono bot_nat_0.extremum nth_Cons_0 nth_Cons_Suc)
  qed
qed simp



section \<open>A concrete authentication\<close>

definition sample_library :: token_library where
  "sample_library = \<lparr>tl_header = (\<lambda>_. Inr [(''alg'', PStr ''RS256''), (''kid'', PStr ''k1'')]),
     tl_decode = (\<lambda>token pem algorithms audience issuer leeway. if token = ''tok''
       then Inr [(''iss'', PStr issuer), (''sub'', PStr ''alice''), (''exp'', PInt 9), (''iat'', PInt 1), (''aud'', PStr audience)]
       else Inl InvalidSignatureError),
     tl_rsa_pem = (\<lambda>n e. Some ''pem''), tl_float_micros = (\<lambda>_. None)\<rparr>"

definition sample_jwk :: "string \<Rightarrow> pyval" where
  "sample_jwk alg = PDict [(PStr ''kid'', PStr ''k1''), (PStr ''alg'', PStr alg), (PStr ''kty'', PStr ''RSA''), (PStr ''n'', PStr ''n1''),
     (PStr ''e'', PStr ''AQAB'')]"

definition sample_fetch :: "string \<Rightarrow> fetch_outcome" where
  "sample_fetch alg = Fetched None (Some (PDict [(PStr ''keys'', PList [sample_jwk alg])]))"

definition sample_key :: VerificationKey where
  "sample_key = \<lparr>vk_key_id = ''k1'', vk_algorithm = ''RS256'', vk_pem = ''pem''\<rparr>"

definition sample_remote :: RemoteJwksProvider where
  "sample_remote = \<lparr>rj_jwks_url = ''https://idp/keys'', rj_allow_http = False, rj_cache_ttl_seconds = 300, rj_cached_keys = [],
     rj_document_expires_at = 0\<rparr>"

definition sample_jwt_config :: JwtValidationConfig where
  "sample_jwt_config = \<lparr>jc_issuer = ''idp'', jc_audience = ''aegis'', jc_clock_skew = 30000000, jc_algorithms = [''RS256'']\<rparr>"

definition sample_record :: "string \<Rightarrow> IdentityRecord" where
  "sample_record subject = \<lparr>ir_issuer = ''idp'', ir_subject = subject, ir_tenant_id = ''acme'', ir_kind = KIND_USER,
     ir_role_bindings = [sample_binding], ir_enabled = True, ir_user_id = Some ''u1'', ir_service_identity = None\<rparr>"

definition sample_directory :: identity_directory where
  "sample_directory = [((''idp'', ''alice''), sample_record ''alice'')]"

lemmas sample_auth_defs = sample_library_def sample_jwk_def sample_fetch_def sample_key_def sample_remote_def sample_jwt_config_def sample_record_def
  sample_directory_def

lemmas auth_eval = authenticate_def bearer_token_def verify_def lift_jwt_def remote_get_key_def jwks_refresh_def fetch_document_def document_keys_def
  parse_rsa_jwk_def init_VerificationKey_def secure_url_def op_eval Let_def verified_claims_def require_number_def claimed_audiences_def
  claimed_tenant_def claimed_party_def numeric_date_def claim_micros_def epoch_micros_def day_micros_def resolve_def to_principal_def
  record_principal_def py_startswith_def py_strip_def strip_by_def py_isspace_def ascii_lower_def require_text_def text_value_def

lemma sample_directory_built: "new_InMemoryIdentityDirectory [sample_record ''alice''] = Inr sample_directory"
  by (simp add: new_InMemoryIdentityDirectory_def sample_auth_defs)

lemma sample_remote_built: "new_RemoteJwksProvider ''https://idp/keys'' False 300 = Inr sample_remote"
  by (simp add: new_RemoteJwksProvider_def sample_auth_defs secure_url_def py_startswith_def)

lemma sample_record_ok:
  "\<forall>r \<in> set [sample_record ''alice'']. init_IdentityRecord r = Inr r \<and> (\<forall>b \<in> set (ir_role_bindings r). binding_ok b)"
  using sample_principal_ok by (simp add: principal_ok_def sample_principal_def) (simp add: init_IdentityRecord_def sample_record_def sample_binding_def)

lemma sample_principal_record: "record_principal (sample_record ''alice'') = sample_principal"
  by (simp add: record_principal_def sample_record_def sample_principal_def)

definition sample_body :: "(string \<times> pyval) list" where
  "sample_body = [(''iss'', PStr ''idp''), (''sub'', PStr ''alice''), (''exp'', PInt 9), (''iat'', PInt 1), (''aud'', PStr ''aegis'')]"

lemma sample_key_found:
  "remote_get_key sample_library 5 (sample_fetch ''RS256'') ''k1'' sample_remote
   = (Inr sample_key, sample_remote\<lparr>rj_cached_keys := [(''k1'', sample_key)], rj_document_expires_at := 305\<rparr>)"
  by (simp add: auth_eval sample_auth_defs)

lemma sample_verified:
  "\<exists>claims. verified_claims sample_library sample_body = Inr claims \<and> resolve sample_directory claims = Inr sample_principal"
proof -
  have "init_Principal (record_principal (sample_record ''alice'')) = Inr sample_principal"
    using sample_principal_ok by (simp add: principal_ok_def sample_principal_record)
  then show ?thesis
    by (simp add: verified_claims_def sample_body_def require_number_def claimed_audiences_def claimed_tenant_def claimed_party_def numeric_date_def
        claim_micros_def epoch_micros_def day_micros_def require_text_def text_value_def Let_def resolve_def sample_directory_def to_principal_def)
      (simp add: sample_record_def)
qed

lemma sample_authenticated:
  "authenticate sample_library sample_jwt_config (remote_get_key sample_library 5 (sample_fetch ''RS256'')) (resolve sample_directory)
     (Some ''Bearer tok'') sample_remote
   = (Inr sample_principal, sample_remote\<lparr>rj_cached_keys := [(''k1'', sample_key)], rj_document_expires_at := 305\<rparr>)"
proof -
  have t: "bearer_token (Some ''Bearer tok'') = Inr ''tok''" by code_simp
  have d: "tl_decode sample_library ''tok'' (vk_pem sample_key) (jc_algorithms sample_jwt_config) (jc_audience sample_jwt_config)
      (jc_issuer sample_jwt_config) (jc_clock_skew sample_jwt_config) = Inr sample_body"
    by (simp add: sample_library_def sample_body_def sample_jwt_config_def)
  have h: "tl_header sample_library ''tok'' = Inr [(''alg'', PStr ''RS256''), (''kid'', PStr ''k1'')]" by (simp add: sample_library_def)
  have a: "''RS256'' \<in> set (jc_algorithms sample_jwt_config)" "vk_algorithm sample_key = ''RS256''" by (simp_all add: sample_jwt_config_def sample_key_def)
  from sample_verified obtain claims where c: "verified_claims sample_library sample_body = Inr claims" "resolve sample_directory claims = Inr sample_principal"
    by blast
  show ?thesis
    by (simp add: authenticate_def verify_def Let_def op_eval t h a c d sample_key_found lift_jwt_def require_text_def text_value_def)
qed

theorem authentication_is_authoritative_witness:
  "\<exists>token key body r. bearer_token (Some ''Bearer tok'') = Inr token \<and> key \<in> {sample_key} \<and> vk_algorithm key \<in> {''RS256''}
    \<and> map_of body ''sub'' = Some (PStr (ir_subject r)) \<and> r \<in> {sample_record ''alice''} \<and> ir_enabled r \<and> ir_issuer r = ''idp''
    \<and> map_of body ''tenant_id'' \<in> {None, Some (PStr (ir_tenant_id r))} \<and> sample_principal = record_principal r"
proof -
  have "decode_sound sample_library (\<lambda>pem token body. True)" by (simp add: decode_sound_def sample_library_def)
  moreover have "keys_named (rj_cached_keys sample_remote)" by (simp add: keys_named_def sample_remote_def)
  ultimately show ?thesis
    using authentication_is_authoritative [OF _ _ sample_directory_built sample_authenticated] by (simp add: sample_jwt_config_def) fast
qed


lemma sample_library_classifies: "library_classifies sample_library"
  by (simp add: library_classifies_def sample_library_def decode_failure_def)



text \<open>
  A key set whose only flaw is an RSA key with an empty algorithm makes every lookup raise the ValueError of the key's constructor, which is not
  an AuthenticationError; and a record whose subject is not normalized is accepted but can never be authenticated.
\<close>

lemma empty_algorithm_breaks_lookup:
  "remote_get_key sample_library 5 (sample_fetch []) ''k2'' sample_remote = (Inl (ValueError ''verification key fields are required''), sample_remote)"
  by (simp add: auth_eval sample_auth_defs)

lemma unnormalized_subject_accepted:
  "init_IdentityRecord (sample_record '' alice'') = Inr (sample_record '' alice'')"
  "to_principal (sample_record '' alice'') = Inl (ValueError ''subject must be a non-empty normalized identifier'')"
  by (simp_all add: init_IdentityRecord_def to_principal_def init_Principal_def record_principal_def sample_record_def sample_binding_def
      validate_identifier_def py_strip_def strip_by_def py_isspace_def)

end
