(* ===== verification/Governance_Postgres.thy ===== *)
theory Governance_Postgres
  imports Audit_Log Authentication Gateway_Postgres
begin

text \<open>
  \<^verbatim>\<open>persistence/postgres.py\<close>: the PostgreSQL adapters for tenants, identities, policies and the audit trail, over the tables of
  \<^verbatim>\<open>migrations/0001_identity_governance.sql\<close>. Each reads or writes in one transaction, with the rows of the tenant of its context.
\<close>

section \<open>Tables\<close>

record identity_row =
  in_identity_id :: uuid
  in_tenant_id :: string
  in_issuer :: string
  in_subject :: string
  in_identity_kind :: string
  in_user_id :: "string option"
  in_service_identity :: "string option"
  in_enabled :: bool

record role_binding_row =
  rr_tenant_id :: string
  rr_identity_id :: uuid
  rr_role :: string
  rr_assigned_by :: string
  rr_assigned_by_kind :: string
  rr_assigned_at :: instant
  rr_expires_at :: "instant option"
  rr_revoked_at :: "instant option"

record policy_row =
  pw_tenant_id :: string
  pw_policy_version :: string
  pw_policy_document :: json

record audit_row =
  au_event_id :: uuid
  au_tenant_id :: string
  au_event_type :: string
  au_schema_version :: int
  au_occurred_at :: instant
  au_outcome :: string
  au_actor_id :: string
  au_action :: string
  au_resource :: string
  au_correlation_id :: uuid
  au_details :: json_obj

text \<open>The audit table is kept in the order of its sequence numbers.\<close>

record governance_db =
  gv_tenants :: "Tenant list"
  gv_identities :: "identity_row list"
  gv_role_bindings :: "role_binding_row list"
  gv_policies :: "policy_row list"
  gv_tenant_quotas :: "tenant_quota_row list"
  gv_audit_events :: "audit_row list"

text \<open>A member of an enumeration by its value; another value is a ValueError.\<close>

definition enum_of :: "('a \<Rightarrow> 'v) \<Rightarrow> 'a list \<Rightarrow> 'v \<Rightarrow> 'a res" where
  "enum_of val members v = (case List.find (\<lambda>m. val m = v) members of Some m \<Rightarrow> Inr m | None \<Rightarrow> Inl (ValueError ''not a valid value''))"

section \<open>Tenants\<close>

definition pg_tenant_get :: "TenantId \<Rightarrow> governance_db \<Rightarrow> Tenant option res" where
  "pg_tenant_get context s = (case sql_one (\<lambda>t. tn_tenant_id t = context) (gv_tenants s) of
     None \<Rightarrow> Inr None
   | Some t \<Rightarrow>
       res_bind (new_TenantId (tn_tenant_id t)) (\<lambda>i.
       res_bind (init_Tenant \<lparr>tn_tenant_id = i, tn_display_name = tn_display_name t, tn_enabled = tn_enabled t\<rparr>) (\<lambda>tenant. Inr (Some tenant))))"

section \<open>Identities\<close>

definition lookup_identity_by_subject :: "string \<Rightarrow> string \<Rightarrow> governance_db \<Rightarrow> identity_row option" where
  "lookup_identity_by_subject issuer subject s = sql_one (\<lambda>r. in_issuer r = issuer \<and> in_subject r = subject) (gv_identities s)"

definition all_roles :: "Role list" where
  "all_roles = [VIEWER, INVESTIGATOR, APPROVER, OPERATOR, TENANT_ADMIN, PLATFORM_ADMIN]"

definition role_binding_from_row :: "TenantId \<Rightarrow> role_binding_row \<Rightarrow> RoleBinding res" where
  "role_binding_from_row t r =
     res_bind (if rr_assigned_by_kind r = ''service'' then new_ServiceIdentity (rr_assigned_by r) else new_UserId (rr_assigned_by r)) (\<lambda>assigned_by.
     res_bind (enum_of Role_value all_roles (rr_role r)) (\<lambda>role.
     init_RoleBinding \<lparr>rb_tenant_id = t, rb_role = role, rb_assigned_by = assigned_by, rb_assigned_at = dt_of_instant (rr_assigned_at r),
       rb_expires_at = map_option dt_of_instant (rr_expires_at r), rb_revoked_at = map_option dt_of_instant (rr_revoked_at r)\<rparr>))"

primrec res_map :: "('a \<Rightarrow> 'b res) \<Rightarrow> 'a list \<Rightarrow> 'b list res" where
  "res_map f [] = Inr []"
| "res_map f (x # xs) = res_bind (f x) (\<lambda>y. res_bind (res_map f xs) (\<lambda>ys. Inr (y # ys)))"

definition bindings_of :: "TenantId \<Rightarrow> uuid \<Rightarrow> governance_db \<Rightarrow> role_binding_row list" where
  "bindings_of t i s = sort_key rr_assigned_at (sort_key rr_role (filter (\<lambda>r. rr_tenant_id r = t \<and> rr_identity_id r = i) (gv_role_bindings s)))"

definition optional_id :: "(string \<Rightarrow> Identity_id res) \<Rightarrow> string option \<Rightarrow> string option res" where
  "optional_id mk v = (case v of None \<Rightarrow> Inr None | Some i \<Rightarrow> res_bind (mk i) (\<lambda>x. Inr (Some (identity_value x))))"

definition PrincipalKind_value :: "PrincipalKind \<Rightarrow> string" where
  "PrincipalKind_value k = (case k of KIND_USER \<Rightarrow> ''user'' | KIND_SERVICE \<Rightarrow> ''service'')"

definition principal_from_rows :: "VerifiedClaims \<Rightarrow> TenantId \<Rightarrow> identity_row \<Rightarrow> role_binding_row list \<Rightarrow> Principal res" where
  "principal_from_rows claims t r bindings =
     res_bind (enum_of PrincipalKind_value [KIND_USER, KIND_SERVICE] (in_identity_kind r)) (\<lambda>kind.
     res_bind (res_map (role_binding_from_row t) bindings) (\<lambda>role_bindings.
     res_bind (optional_id new_UserId (in_user_id r)) (\<lambda>user_id.
     res_bind (optional_id new_ServiceIdentity (in_service_identity r)) (\<lambda>service_identity.
     init_Principal \<lparr>pr_subject = vc_subject claims, pr_issuer = vc_issuer claims, pr_tenant_id = t, pr_kind = kind,
       pr_role_bindings = role_bindings, pr_user_id = user_id, pr_service_identity = service_identity\<rparr>))))"

definition pg_resolve :: "governance_db \<Rightarrow> VerifiedClaims \<Rightarrow> Principal res" where
  "pg_resolve s claims = (case lookup_identity_by_subject (vc_issuer claims) (vc_subject claims) s of
     None \<Rightarrow> Inl (AuthenticationError UNKNOWN_IDENTITY ''verified subject is not registered'')
   | Some r \<Rightarrow>
       res_bind (require (in_enabled r) (AuthenticationError IDENTITY_DISABLED ''identity is disabled'')) (\<lambda>_.
       res_bind (new_TenantId (in_tenant_id r)) (\<lambda>t.
       res_bind (require (vc_asserted_tenant_id claims = None \<or> vc_asserted_tenant_id claims = Some t)
         (AuthenticationError TENANT_MISMATCH ''signed tenant claim does not match authoritative tenant'')) (\<lambda>_.
       principal_from_rows claims t r (bindings_of t (in_identity_id r) s)))))"

section \<open>Policies\<close>

text \<open>
  The readers of the policy document. A key that is missing gives the default, when there is one; \<^verbatim>\<open>_required_bool\<close> also takes
  a number equal to \<^verbatim>\<open>False\<close> for the default.
\<close>

fun text_list :: "json list \<Rightarrow> string list option" where
  "text_list [] = Some []"
| "text_list (JStr s # vs) = (if s = [] then None else map_option (\<lambda>ss. s # ss) (text_list vs))"
| "text_list (_ # vs) = None"

definition string_set :: "json_obj \<Rightarrow> string \<Rightarrow> string list option \<Rightarrow> string list res" where
  "string_set document key absent =
     (let wrong = Inl (ValueError (key @ '' must be a list of strings'')) in
      case map_of document key of
        None \<Rightarrow> (case absent of Some d \<Rightarrow> Inr d | None \<Rightarrow> wrong)
      | Some (JArr vs) \<Rightarrow> (case text_list vs of Some ss \<Rightarrow> Inr (remdups ss) | None \<Rightarrow> wrong)
      | Some _ \<Rightarrow> wrong)"

definition document_int :: "json_obj \<Rightarrow> string \<Rightarrow> int res" where
  "document_int document key = (case map_of document key of
     None \<Rightarrow> Inl (KeyError key) | Some (JInt i) \<Rightarrow> Inr i | Some _ \<Rightarrow> Inl (ValueError (key @ '' must be an integer'')))"

definition zero_text :: "string \<Rightarrow> bool" where
  "zero_text t = (set t \<subseteq> {CHR ''0'', CHR ''.'', CHR ''-''})"

definition document_bool :: "json_obj \<Rightarrow> string \<Rightarrow> bool res" where
  "document_bool document key = (case map_of document key of
     None \<Rightarrow> Inr False
   | Some (JBool b) \<Rightarrow> Inr b
   | Some (JInt i) \<Rightarrow> (if i = 0 then Inr False else Inl (ValueError (key @ '' must be a boolean'')))
   | Some (JFloat t) \<Rightarrow> (if zero_text t then Inr False else Inl (ValueError (key @ '' must be a boolean'')))
   | Some _ \<Rightarrow> Inl (ValueError (key @ '' must be a boolean'')))"

definition policy_from_document :: "TenantId \<Rightarrow> string \<Rightarrow> json_obj \<Rightarrow> tenant_quota_row \<Rightarrow> TenantPolicy res" where
  "policy_from_document context version document q =
     res_bind (string_set document ''allowed_models'' None) (\<lambda>models.
     res_bind (string_set document ''allowed_tools'' None) (\<lambda>tools.
     res_bind (string_set document ''allowed_connectors'' None) (\<lambda>connectors.
     res_bind (string_set document ''allowed_environments'' None) (\<lambda>environments.
     res_bind (document_int document ''max_risk'') (\<lambda>max_risk.
     res_bind (enum_of RiskLevel_value [LOW, MEDIUM, HIGH, CRITICAL] max_risk) (\<lambda>max_level.
     res_bind (document_int document ''approval_from_risk'') (\<lambda>from_risk.
     res_bind (enum_of RiskLevel_value [LOW, MEDIUM, HIGH, CRITICAL] from_risk) (\<lambda>from_level.
     res_bind (string_set document ''tools_requiring_approval'' None) (\<lambda>approval_tools.
     res_bind (string_set document ''approver_roles'' None) (\<lambda>role_names.
     res_bind (res_map (enum_of Role_value all_roles) role_names) (\<lambda>roles.
     res_bind (init_QuotaLimits \<lparr>ql_max_run_tokens = tq_max_run_tokens q, ql_max_run_cost_usd = dec_of_numeric 6 (tq_max_run_cost_usd q),
         ql_max_tenant_tokens_per_period = tq_max_tenant_tokens_per_period q,
         ql_max_tenant_cost_usd_per_period = dec_of_numeric 6 (tq_max_tenant_cost_usd_per_period q),
         ql_max_concurrent_runs = tq_max_concurrent_runs q\<rparr>) (\<lambda>quotas.
     res_bind (string_set document ''allowed_providers'' (Some [])) (\<lambda>providers.
     res_bind (string_set document ''allowed_data_residencies'' (Some [])) (\<lambda>residencies.
     res_bind (document_bool document ''allow_provider_retention'') (\<lambda>retention.
     init_TenantPolicy \<lparr>tp_tenant_id = context, tp_version = version, tp_allowed_models = models, tp_allowed_tools = tools,
       tp_allowed_connectors = connectors, tp_allowed_environments = environments, tp_max_risk = max_level, tp_approval_from_risk = from_level,
       tp_tools_requiring_approval = approval_tools, tp_approver_roles = roles, tp_quotas = quotas, tp_allowed_providers = providers,
       tp_allowed_data_residencies = residencies, tp_allow_provider_retention = retention\<rparr>)))))))))))))))"

definition invalid_policy_schema :: py_error where
  "invalid_policy_schema = PermanentStorageError ''policy document has an invalid schema''"

text \<open>The \<^verbatim>\<open>except (KeyError, TypeError, ValueError)\<close> clause.\<close>

definition schema_failure :: "py_error \<Rightarrow> py_error" where
  "schema_failure e = (case e of KeyError _ \<Rightarrow> invalid_policy_schema | TypeError _ \<Rightarrow> invalid_policy_schema | ValueError _ \<Rightarrow> invalid_policy_schema
     | _ \<Rightarrow> e)"

definition pg_policy_get :: "TenantId \<Rightarrow> governance_db \<Rightarrow> TenantPolicy option res" where
  "pg_policy_get context s = (case (sql_one (\<lambda>p. pw_tenant_id p = context) (gv_policies s),
       sql_one (\<lambda>q. tq_tenant_id q = context) (gv_tenant_quotas s)) of
     (Some p, Some q) \<Rightarrow>
       (case pw_policy_document p of
          JObj document \<Rightarrow>
            (case policy_from_document context (pw_policy_version p) document q of
               Inr policy \<Rightarrow> Inr (Some policy)
             | Inl e \<Rightarrow> Inl (schema_failure e))
        | _ \<Rightarrow> Inl (PermanentStorageError ''policy document must be a JSON object''))
   | _ \<Rightarrow> Inr None)"

section \<open>The audit trail\<close>

definition audit_insert_values :: "AuditEvent \<Rightarrow> audit_row" where
  "audit_insert_values e =
     \<lparr>au_event_id = ae_event_id e, au_tenant_id = ae_tenant_id e, au_event_type = AuditEventType_value (ae_event_type e),
      au_schema_version = ae_schema_version e, au_occurred_at = dt_instant (ae_occurred_at e), au_outcome = AuditOutcome_value (ae_outcome e),
      au_actor_id = ae_actor_id e, au_action = ae_action e, au_resource = ae_resource e, au_correlation_id = ae_correlation_id e,
      au_details = ae_details e\<rparr>"

definition audit_row_valid :: "audit_row \<Rightarrow> governance_db \<Rightarrow> bool" where
  "audit_row_valid r s = (au_tenant_id r \<in> tn_tenant_id ` set (gv_tenants s) \<and> au_event_type r \<noteq> [] \<and> 0 < au_schema_version r
     \<and> au_outcome r \<in> {''success'', ''denied'', ''failure''} \<and> au_actor_id r \<noteq> [] \<and> au_action r \<noteq> [] \<and> au_resource r \<noteq> []
     \<and> (\<forall>q \<in> set (gv_audit_events s). au_event_id q \<noteq> au_event_id r))"

definition pg_audit_append :: "TenantId \<Rightarrow> AuditEvent \<Rightarrow> (governance_db, unit) op" where
  "pg_audit_append context e =
     op_bind (op_require (context = ae_tenant_id e) (ValueError ''audit event tenant does not match trusted context'')) (\<lambda>_.
     op_bind (op_gets (audit_row_valid (audit_insert_values e))) (\<lambda>valid.
     op_bind (op_require valid integrity_error) (\<lambda>_.
     op_modify (\<lambda>s. s\<lparr>gv_audit_events := gv_audit_events s @ [audit_insert_values e]\<rparr>))))"

definition all_audit_event_types :: "AuditEventType list" where
  "all_audit_event_types =
     [AUTHENTICATION_OUTCOME, AUTHORIZATION_DECISION, POLICY_EVALUATION, APPROVAL_IDENTITY_RECORDED, ADMINISTRATIVE_CHANGE]"

definition audit_event_from_row :: "audit_row \<Rightarrow> AuditEvent res" where
  "audit_event_from_row r =
     res_bind (new_TenantId (au_tenant_id r)) (\<lambda>t.
     res_bind (enum_of AuditEventType_value all_audit_event_types (au_event_type r)) (\<lambda>ty.
     res_bind (enum_of AuditOutcome_value [OUTCOME_SUCCESS, OUTCOME_DENIED, OUTCOME_FAILURE] (au_outcome r)) (\<lambda>outcome.
     init_AuditEvent \<lparr>ae_event_id = au_event_id r, ae_tenant_id = t, ae_event_type = ty, ae_occurred_at = dt_of_instant (au_occurred_at r),
       ae_outcome = outcome, ae_actor_id = au_actor_id r, ae_action = au_action r, ae_resource = au_resource r,
       ae_correlation_id = au_correlation_id r, ae_details = au_details r, ae_schema_version = au_schema_version r\<rparr>)))"

text \<open>\<^verbatim>\<open>ORDER BY sequence_number DESC LIMIT limit\<close>, and the rows reversed again.\<close>

definition pg_audit_query :: "TenantId \<Rightarrow> int \<Rightarrow> (governance_db, AuditEvent list) op" where
  "pg_audit_query context limit =
     op_bind (op_require (1 \<le> limit \<and> limit \<le> 1000) (ValueError ''audit query limit must be between 1 and 1000'')) (\<lambda>_.
     op_bind (op_gets (\<lambda>s. take (nat limit) (rev (filter (\<lambda>r. au_tenant_id r = context) (gv_audit_events s))))) (\<lambda>rows.
     op_lift (res_map audit_event_from_row (rev rows))))"


section \<open>What the adapters guarantee\<close>

lemma res_map_Inr: "res_map f xs = Inr ys \<longleftrightarrow> list_all2 (\<lambda>x y. f x = Inr y) xs ys"
  by (induction xs arbitrary: ys) (auto simp: res_bind_Inr_iff list_all2_Cons1)

lemma res_map_all: "(\<And>x. x \<in> set xs \<Longrightarrow> f x = Inr (g x)) \<Longrightarrow> res_map f xs = Inr (map g xs)"
  by (induction xs) auto

lemma enum_of_simps: "enum_of val members v = Inr m \<Longrightarrow> val m = v" "enum_of val members v = Inl e \<Longrightarrow> is_value_error e"
  by (auto simp: enum_of_def find_Some_iff split: option.splits)

lemma role_of_value [simp]: "enum_of Role_value all_roles (Role_value r) = Inr r"
  by (cases r) (simp_all add: enum_of_def all_roles_def)

subsection \<open>Identities\<close>

text \<open>
  The rows are valid when their kinds, identifiers and role bindings are ones the domain types accept: the schema enforces the kinds and
  roles, not the form of identifiers. Valid rows are the records of an in-memory directory.
\<close>

definition identity_rows_valid :: "governance_db \<Rightarrow> bool" where
  "identity_rows_valid s = (\<forall>r \<in> set (gv_identities s). in_identity_kind r \<in> {''user'', ''service''} \<and> new_TenantId (in_tenant_id r) = Inr (in_tenant_id r)
     \<and> optional_id new_UserId (in_user_id r) = Inr (in_user_id r) \<and> optional_id new_ServiceIdentity (in_service_identity r) = Inr (in_service_identity r)
     \<and> (\<forall>b \<in> set (bindings_of (in_tenant_id r) (in_identity_id r) s). \<exists>rb. role_binding_from_row (in_tenant_id r) b = Inr rb))"

definition record_of_row :: "governance_db \<Rightarrow> identity_row \<Rightarrow> IdentityRecord" where
  "record_of_row s r =
     \<lparr>ir_issuer = in_issuer r, ir_subject = in_subject r, ir_tenant_id = in_tenant_id r,
      ir_kind = (if in_identity_kind r = ''service'' then KIND_SERVICE else KIND_USER),
      ir_role_bindings = map (\<lambda>b. projr (role_binding_from_row (in_tenant_id r) b)) (bindings_of (in_tenant_id r) (in_identity_id r) s),
      ir_enabled = in_enabled r, ir_user_id = in_user_id r, ir_service_identity = in_service_identity r\<rparr>"

definition directory_of :: "governance_db \<Rightarrow> identity_directory" where
  "directory_of s = map (\<lambda>r. ((in_issuer r, in_subject r), record_of_row s r)) (gv_identities s)"

text \<open>Outcomes compared by what callers tell apart: the value, or the code of an authentication error without its message.\<close>

definition without_message :: "'a res \<Rightarrow> 'a res" where
  "without_message x = (case x of Inl (AuthenticationError c m) \<Rightarrow> Inl (AuthenticationError c []) | _ \<Rightarrow> x)"

lemma lookup_is_directory:
  "map_of (directory_of s) (i, j) = map_option (record_of_row s) (lookup_identity_by_subject i j s)"
proof -
  have "map_of (map (\<lambda>r. ((in_issuer r, in_subject r), g r)) rs) (i, j)
      = map_option g (List.find (\<lambda>r. in_issuer r = i \<and> in_subject r = j) rs)" for g :: "identity_row \<Rightarrow> IdentityRecord" and rs
    by (induction rs) auto
  then show ?thesis by (simp add: directory_of_def lookup_identity_by_subject_def sql_one_def)
qed

lemma rows_give_record:
  assumes "identity_rows_valid s" and "lookup_identity_by_subject (vc_issuer claims) (vc_subject claims) s = Some r"
  shows "principal_from_rows claims (in_tenant_id r) r (bindings_of (in_tenant_id r) (in_identity_id r) s) = to_principal (record_of_row s r)"
    and "new_TenantId (in_tenant_id r) = Inr (in_tenant_id r)"
proof -
  have r: "r \<in> set (gv_identities s)" "in_issuer r = vc_issuer claims" "in_subject r = vc_subject claims"
    using assms(2) by (auto simp: lookup_identity_by_subject_def dest!: sql_one_Some)
  then have v: "in_identity_kind r \<in> {''user'', ''service''}" "optional_id new_UserId (in_user_id r) = Inr (in_user_id r)"
    "optional_id new_ServiceIdentity (in_service_identity r) = Inr (in_service_identity r)"
    "\<And>b. b \<in> set (bindings_of (in_tenant_id r) (in_identity_id r) s) \<Longrightarrow> role_binding_from_row (in_tenant_id r) b = Inr (projr (role_binding_from_row (in_tenant_id r) b))"
    using assms(1) by (fastforce simp: identity_rows_valid_def)+
  show "new_TenantId (in_tenant_id r) = Inr (in_tenant_id r)" using assms(1) r(1) by (simp add: identity_rows_valid_def)
  have k: "enum_of PrincipalKind_value [KIND_USER, KIND_SERVICE] (in_identity_kind r) = Inr (if in_identity_kind r = ''service'' then KIND_SERVICE else KIND_USER)"
    using v(1) by (auto simp: enum_of_def PrincipalKind_value_def)
  show "principal_from_rows claims (in_tenant_id r) r (bindings_of (in_tenant_id r) (in_identity_id r) s) = to_principal (record_of_row s r)"
    using r(2,3) by (simp add: principal_from_rows_def k res_map_all [OF v(4)] v(2,3) to_principal_def record_principal_def record_of_row_def)
qed

text \<open>
  The durable directory is the in-memory one. For valid rows, resolving a verified subject against the tables gives the same principal, or an
  authentication error of the same code, as the in-memory directory holding the rows as records.
\<close>

theorem durable_directory_agrees:
  assumes "identity_rows_valid s"
  shows "without_message (pg_resolve s claims) = without_message (resolve (directory_of s) claims)"
proof (cases "lookup_identity_by_subject (vc_issuer claims) (vc_subject claims) s")
  case None
  then show ?thesis by (simp add: pg_resolve_def resolve_def lookup_is_directory)
next
  case (Some r)
  have "ir_enabled (record_of_row s r) = in_enabled r" "ir_tenant_id (record_of_row s r) = in_tenant_id r" by (simp_all add: record_of_row_def)
  then show ?thesis
    using Some rows_give_record [OF assms Some]
    by (auto simp: pg_resolve_def resolve_def lookup_is_directory require_def without_message_def)
qed

subsection \<open>Policies\<close>

lemma string_set_error: "string_set d k a = Inl e \<Longrightarrow> is_value_error e"
  by (auto simp: string_set_def Let_def split: option.splits json.splits)

lemma document_bool_error: "document_bool d k = Inl e \<Longrightarrow> is_value_error e"
  by (auto simp: document_bool_def split: option.splits json.splits if_splits)

lemma document_int_error: "document_int d k = Inl e \<Longrightarrow> is_value_error e \<or> (\<exists>m. e = KeyError m)"
  by (auto simp: document_int_def split: option.splits json.splits)

lemma res_map_error: "res_map f xs = Inl e \<Longrightarrow> \<exists>x \<in> set xs. f x = Inl e"
  by (induction xs) (auto simp: res_bind_Inl_iff)

definition schema_error :: "py_error \<Rightarrow> bool" where
  "schema_error e = (schema_failure e = invalid_policy_schema)"

lemma schema_errorI [intro]: "is_value_error e \<Longrightarrow> schema_error e" "schema_error (KeyError m)" "schema_error (TypeError m)"
  by (cases e) (simp_all add: schema_error_def schema_failure_def)

lemma schema_error_bind: "res_bind r k = Inl e \<Longrightarrow> (\<And>e. r = Inl e \<Longrightarrow> schema_error e) \<Longrightarrow> (\<And>a e. r = Inr a \<Longrightarrow> k a = Inl e \<Longrightarrow> schema_error e) \<Longrightarrow> schema_error e"
  by (auto simp: res_bind_Inl_iff)


lemma quota_error: "init_QuotaLimits q = Inl e \<Longrightarrow> schema_error e"
  by (auto simp: init_QuotaLimits_def require_finite_non_negative_decimal_def res_bind_Inl_iff dec_lt_finite dec_of_int_def intro!: schema_errorI)

lemma policy_document_error: "policy_from_document context version document q = Inl e \<Longrightarrow> schema_error e"
  unfolding policy_from_document_def
  by (erule schema_error_bind, blast dest: string_set_error document_int_error document_bool_error enum_of_simps(2) quota_error res_map_error)+
    (auto simp: init_TenantPolicy_def res_bind_Inl_iff intro!: schema_errorI)

text \<open>
  Policies are read whole or not at all. Whatever the policy document holds, reading a tenant's policy gives none when the policy or its quotas are
  missing, a policy of that tenant that passes all construction-time checks, or a PermanentStorageError.
\<close>

theorem policy_reads_fail_closed:
  "case pg_policy_get context s of
     Inl e \<Rightarrow> \<exists>m. e = PermanentStorageError m
   | Inr None \<Rightarrow> (\<forall>p \<in> set (gv_policies s). pw_tenant_id p \<noteq> context) \<or> (\<forall>q \<in> set (gv_tenant_quotas s). tq_tenant_id q \<noteq> context)
   | Inr (Some p) \<Rightarrow> tp_tenant_id p = context \<and> init_TenantPolicy p = Inr p \<and> init_QuotaLimits (tp_quotas p) = Inr (tp_quotas p)"
proof (cases "sql_one (\<lambda>p. pw_tenant_id p = context) (gv_policies s)")
  case None
  then have "\<forall>p \<in> set (gv_policies s). pw_tenant_id p \<noteq> context" by (simp add: sql_one_None_iff)
  then show ?thesis using None by (simp add: pg_policy_get_def)
next
  case p: (Some p)
  show ?thesis
  proof (cases "sql_one (\<lambda>q. tq_tenant_id q = context) (gv_tenant_quotas s)")
    case None
    then have "\<forall>q \<in> set (gv_tenant_quotas s). tq_tenant_id q \<noteq> context" by (simp add: sql_one_None_iff)
    then show ?thesis using p None by (simp add: pg_policy_get_def)
  next
    case q: (Some q)
    show ?thesis
    proof (cases "pw_policy_document p")
      case (JObj d)
      show ?thesis
      proof (cases "policy_from_document context (pw_policy_version p) d q")
        case (Inl e)
        then have "schema_failure e = invalid_policy_schema" using policy_document_error by (auto simp: schema_error_def)
        then show ?thesis using p q JObj Inl by (simp add: pg_policy_get_def invalid_policy_schema_def)
      next
        case (Inr r)
        have "init_QuotaLimits k' = Inr k'" if "init_QuotaLimits k = Inr k'" for k k'
          using that by (auto simp: init_QuotaLimits_def res_bind_Inr_iff)
        then have "init_TenantPolicy r = Inr r \<and> tp_tenant_id r = context \<and> init_QuotaLimits (tp_quotas r) = Inr (tp_quotas r)"
          using Inr unfolding policy_from_document_def by (auto simp: res_bind_Inr_iff init_TenantPolicy_def)
        then show ?thesis using p q JObj Inr by (simp add: pg_policy_get_def)
      qed
    qed (use p q in \<open>simp_all add: pg_policy_get_def\<close>)
  qed
qed


subsection \<open>The audit trail\<close>

text \<open>
  What an audit store promises: over states that satisfy its invariant, an append of a valid event either adds it at the end of the trail or changes
  nothing, and a query gives the last events of the tenant in the order they were appended. An event is valid when it was built by the constructor
  (its details are redacted) for a tenant identifier, at a time in UTC.
\<close>

definition valid_audit_event :: "AuditEvent \<Rightarrow> bool" where
  "valid_audit_event e = (init_AuditEvent e = Inr e \<and> new_TenantId (ae_tenant_id e) = Inr (ae_tenant_id e)
     \<and> ae_occurred_at e = dt_of_instant (dt_instant (ae_occurred_at e)))"

definition last_of_tenant :: "TenantId \<Rightarrow> nat \<Rightarrow> AuditEvent list \<Rightarrow> AuditEvent list" where
  "last_of_tenant t n es = (let own = filter (\<lambda>e. ae_tenant_id e = t) es in drop (length own - n) own)"

locale audit_trail =
  fixes append_event :: "TenantId \<Rightarrow> AuditEvent \<Rightarrow> ('s, unit) op" and query :: "TenantId \<Rightarrow> int \<Rightarrow> ('s, AuditEvent list) op"
    and trail :: "'s \<Rightarrow> AuditEvent list" and inv :: "'s \<Rightarrow> bool"
  assumes appended: "inv s \<Longrightarrow> valid_audit_event e \<Longrightarrow> append_event t e s = (Inr (), s') \<Longrightarrow> inv s' \<and> t = ae_tenant_id e \<and> trail s' = trail s @ [e]"
    and refused: "inv s \<Longrightarrow> append_event t e s = (Inl x, s') \<Longrightarrow> s' = s"
    and queried: "inv s \<Longrightarrow> 1 \<le> n \<Longrightarrow> n \<le> 1000 \<Longrightarrow> query t n s = (Inr (last_of_tenant t (nat n) (trail s)), s)"
begin

lemma append_all:
  assumes "inv s" and "\<forall>e \<in> set es. valid_audit_event e" and "op_iter (\<lambda>e. append_event (ae_tenant_id e) e) es s = (Inr (), s')"
  shows "inv s' \<and> trail s' = trail s @ es"
  using assms
proof (induction es arbitrary: s)
  case (Cons e es)
  then obtain s1 where s1: "append_event (ae_tenant_id e) e s = (Inr (), s1)" "op_iter (\<lambda>e. append_event (ae_tenant_id e) e) es s1 = (Inr (), s')"
    by (auto simp: op_simps)
  have "inv s1 \<and> trail s1 = trail s @ [e]" using appended [OF Cons.prems(1) _ s1(1)] Cons.prems(2) by auto
  then show ?case using Cons.IH [OF _ _ s1(2)] Cons.prems(2) by auto
qed (simp add: op_simps)

lemma query_after:
  assumes "inv s" and "\<forall>e \<in> set es. valid_audit_event e" and "op_iter (\<lambda>e. append_event (ae_tenant_id e) e) es s = (Inr (), s')"
    and "1 \<le> n" "n \<le> 1000"
  shows "fst (query t n s') = Inr (last_of_tenant t (nat n) (trail s @ es))"
  using append_all [OF assms(1-3)] queried [OF _ assms(4,5), of s' t] by simp

end

interpretation memory_trail: audit_trail audit_append audit_query "\<lambda>es. es" "\<lambda>es. True"
  by unfold_locales (auto simp: audit_append_def op_simps op_bind_Inl_iff op_require_Inl_iff, simp add: audit_query_def op_eval last_of_tenant_def)

definition row_event :: "audit_row \<Rightarrow> AuditEvent" where
  "row_event r = projr (audit_event_from_row r)"

lemma audit_event_roundtrip:
  assumes "valid_audit_event e"
  shows "audit_event_from_row (audit_insert_values e) = Inr e"
proof -
  have ty: "enum_of AuditEventType_value all_audit_event_types (AuditEventType_value (ae_event_type e)) = Inr (ae_event_type e)"
    by (cases "ae_event_type e") (simp_all add: enum_of_def all_audit_event_types_def)
  have out: "enum_of AuditOutcome_value [OUTCOME_SUCCESS, OUTCOME_DENIED, OUTCOME_FAILURE] (AuditOutcome_value (ae_outcome e)) = Inr (ae_outcome e)"
    by (cases "ae_outcome e") (simp_all add: enum_of_def)
  have v: "init_AuditEvent e = Inr e" "new_TenantId (ae_tenant_id e) = Inr (ae_tenant_id e)" "dt_of_instant (dt_instant (ae_occurred_at e)) = ae_occurred_at e"
    using assms by (simp_all add: valid_audit_event_def)
  have "\<lparr>ae_event_id = ae_event_id e, ae_tenant_id = ae_tenant_id e, ae_event_type = ae_event_type e, ae_occurred_at = ae_occurred_at e,
      ae_outcome = ae_outcome e, ae_actor_id = ae_actor_id e, ae_action = ae_action e, ae_resource = ae_resource e,
      ae_correlation_id = ae_correlation_id e, ae_details = ae_details e, ae_schema_version = ae_schema_version e\<rparr> = e"
    by simp
  then show ?thesis by (simp only: audit_event_from_row_def audit_insert_values_def audit_row.select_convs v ty out res_bind_simps)
qed

definition audit_rows_valid :: "governance_db \<Rightarrow> bool" where
  "audit_rows_valid s = (\<forall>r \<in> set (gv_audit_events s). audit_event_from_row r = Inr (row_event r) \<and> ae_tenant_id (row_event r) = au_tenant_id r)"

interpretation durable_trail: audit_trail pg_audit_append pg_audit_query "\<lambda>s. map row_event (gv_audit_events s)" audit_rows_valid
proof unfold_locales
  fix s t e s'
  assume "audit_rows_valid s" "valid_audit_event e" "pg_audit_append t e s = (Inr (), s')"
  then show "audit_rows_valid s' \<and> t = ae_tenant_id e \<and> map row_event (gv_audit_events s') = map row_event (gv_audit_events s) @ [e]"
    by (auto simp: pg_audit_append_def op_simps audit_rows_valid_def row_event_def audit_event_roundtrip) (simp add: audit_insert_values_def)
next
  fix s t e x s'
  assume "pg_audit_append t e s = (Inl x, s')"
  then show "s' = s" by (auto simp: pg_audit_append_def op_bind_Inl_iff op_require_Inl_iff op_simps)
next
  fix s and n :: int and t
  assume s: "audit_rows_valid s" and n: "1 \<le> n" "n \<le> 1000"
  define own where "own = filter (\<lambda>r. au_tenant_id r = t) (gv_audit_events s)"
  have take: "rev (take (nat n) (rev own)) = drop (length own - nat n) own" by (simp add: rev_take)
  have "res_map audit_event_from_row (drop (length own - nat n) own) = Inr (map row_event (drop (length own - nat n) own))"
    by (rule res_map_all) (use s set_drop_subset [of "length own - nat n" own] in \<open>auto simp: audit_rows_valid_def own_def\<close>)
  moreover have "filter (\<lambda>e. ae_tenant_id e = t) (map row_event (gv_audit_events s)) = map row_event own"
    using s by (auto simp: own_def filter_map o_def audit_rows_valid_def intro!: arg_cong [of _ _ "map row_event"] filter_cong)
  ultimately show "pg_audit_query t n s = (Inr (last_of_tenant t (nat n) (map row_event (gv_audit_events s))), s)"
    using n by (simp add: pg_audit_query_def op_eval own_def [symmetric] take last_of_tenant_def drop_map)
qed

text \<open>
  The durable audit trail is the in-memory one. After the same valid events were appended to both stores, from empty trails, every admissible query
  gives the same answer: the last events of the tenant asked for, each as it was appended, in the order of their appending.
\<close>

theorem audit_stores_agree:
  assumes "gv_audit_events s = []" and "\<forall>e \<in> set es. valid_audit_event e"
    and "op_iter (\<lambda>e. pg_audit_append (ae_tenant_id e) e) es s = (Inr (), s')" and "op_iter (\<lambda>e. audit_append (ae_tenant_id e) e) es [] = (Inr (), m)"
    and "1 \<le> n" and "n \<le> 1000"
  shows "fst (pg_audit_query t n s') = Inr (last_of_tenant t (nat n) es) \<and> fst (audit_query t n m) = Inr (last_of_tenant t (nat n) es)"
proof
  have "audit_rows_valid s" using assms(1) by (simp add: audit_rows_valid_def)
  from durable_trail.query_after [OF this assms(2,3,5,6)] show "fst (pg_audit_query t n s') = Inr (last_of_tenant t (nat n) es)"
    using assms(1) by simp
  from memory_trail.query_after [OF _ assms(2,4,5,6)] show "fst (audit_query t n m) = Inr (last_of_tenant t (nat n) es)" by simp
qed


section \<open>A concrete database\<close>

definition sample_document :: json_obj where
  "sample_document = [(''allowed_models'', JArr [JStr ''m'']), (''allowed_tools'', JArr []), (''allowed_connectors'', JArr []),
     (''allowed_environments'', JArr [JStr ''prod'']), (''max_risk'', JInt 3), (''approval_from_risk'', JInt 2),
     (''tools_requiring_approval'', JArr []), (''approver_roles'', JArr [JStr ''approver''])]"

definition sample_governance :: governance_db where
  "sample_governance =
     \<lparr>gv_tenants = [\<lparr>tn_tenant_id = ''acme'', tn_display_name = ''Acme'', tn_enabled = True\<rparr>],
      gv_identities = [\<lparr>in_identity_id = 1, in_tenant_id = ''acme'', in_issuer = ''idp'', in_subject = ''alice'', in_identity_kind = ''user'',
        in_user_id = Some ''u1'', in_service_identity = None, in_enabled = True\<rparr>],
      gv_role_bindings = [\<lparr>rr_tenant_id = ''acme'', rr_identity_id = 1, rr_role = ''operator'', rr_assigned_by = ''root'', rr_assigned_by_kind = ''user'',
        rr_assigned_at = 10, rr_expires_at = Some 100, rr_revoked_at = None\<rparr>],
      gv_policies = [\<lparr>pw_tenant_id = ''acme'', pw_policy_version = ''v1'', pw_policy_document = JObj sample_document\<rparr>],
      gv_tenant_quotas = [\<lparr>tq_tenant_id = ''acme'', tq_max_run_tokens = 10, tq_max_run_cost_usd = Some 0, tq_max_tenant_tokens_per_period = 20,
        tq_max_tenant_cost_usd_per_period = Some 0, tq_max_concurrent_runs = 2\<rparr>],
      gv_audit_events = []\<rparr>"

definition sample_claims :: VerifiedClaims where
  "sample_claims = \<lparr>vc_issuer = ''idp'', vc_subject = ''alice'', vc_audiences = [''aegis''], vc_expires_at = dt_of_instant 90, vc_issued_at = dt_of_instant 10,
     vc_asserted_tenant_id = None, vc_authorized_party = None\<rparr>"

lemmas identifier_eval = new_TenantId_def new_UserId_def new_ServiceIdentity_def validate_identifier_def py_strip_def strip_by_def py_isspace_def

lemma sample_rows_valid: "identity_rows_valid sample_governance"
  by (simp add: identity_rows_valid_def sample_governance_def optional_id_def bindings_of_def role_binding_from_row_def init_RoleBinding_def
      identifier_eval enum_of_def all_roles_def require_aware_datetime_def dt_le_def)

lemma sample_resolved: "pg_resolve sample_governance sample_claims = Inr sample_principal"
  by (simp add: pg_resolve_def lookup_identity_by_subject_def sql_one_def sample_governance_def sample_claims_def principal_from_rows_def bindings_of_def
      role_binding_from_row_def init_RoleBinding_def identifier_eval enum_of_def all_roles_def require_aware_datetime_def dt_le_def optional_id_def
      PrincipalKind_value_def init_Principal_def sample_principal_def sample_binding_def)

theorem durable_directory_agrees_witness:
  "without_message (resolve (directory_of sample_governance) sample_claims) = Inr sample_principal"
  using durable_directory_agrees [OF sample_rows_valid, of sample_claims] by (simp add: sample_resolved without_message_def)

theorem policy_reads_fail_closed_witness:
  "\<exists>p. pg_policy_get ''acme'' sample_governance = Inr (Some p) \<and> tp_tenant_id p = ''acme'' \<and> tp_approver_roles p = [APPROVER]
     \<and> init_TenantPolicy p = Inr p"
proof -
  have "\<exists>p. pg_policy_get ''acme'' sample_governance = Inr (Some p) \<and> tp_approver_roles p = [APPROVER]"
    by (simp add: pg_policy_get_def sample_governance_def sql_one_def policy_from_document_def sample_document_def string_set_def document_int_def
        document_bool_def enum_of_def all_roles_def init_QuotaLimits_def require_finite_non_negative_decimal_def dec_of_numeric_def dec_lt_def
        dec_less_def dec_of_int_def init_TenantPolicy_def)
  then show ?thesis using policy_reads_fail_closed [of sample_governance "''acme''"] by auto
qed

definition sample_audit_event :: AuditEvent where
  "sample_audit_event = \<lparr>ae_event_id = 1, ae_tenant_id = ''acme'', ae_event_type = AUTHENTICATION_OUTCOME, ae_occurred_at = dt_of_instant 5,
     ae_outcome = OUTCOME_SUCCESS, ae_actor_id = ''u1'', ae_action = ''authenticate'', ae_resource = ''control-plane'', ae_correlation_id = 2,
     ae_details = [], ae_schema_version = 1\<rparr>"

theorem audit_stores_agree_witness:
  "fst (pg_audit_query ''acme'' 100 (snd (pg_audit_append ''acme'' sample_audit_event sample_governance))) = Inr [sample_audit_event]"
proof -
  have v: "\<forall>e \<in> set [sample_audit_event]. valid_audit_event e"
    by (simp add: valid_audit_event_def sample_audit_event_def init_AuditEvent_def redact_details_def identifier_eval require_aware_datetime_def)
  have p: "op_iter (\<lambda>e. pg_audit_append (ae_tenant_id e) e) [sample_audit_event] sample_governance
    = (Inr (), snd (pg_audit_append ''acme'' sample_audit_event sample_governance))"
    by (simp add: op_eval pg_audit_append_def audit_row_valid_def audit_insert_values_def sample_governance_def sample_audit_event_def)
  have m: "op_iter (\<lambda>e. audit_append (ae_tenant_id e) e) [sample_audit_event] [] = (Inr (), [sample_audit_event])"
    by (simp add: op_eval audit_append_def)
  have "last_of_tenant ''acme'' (nat 100) [sample_audit_event] = [sample_audit_event]" by (simp add: last_of_tenant_def sample_audit_event_def)
  then show ?thesis using audit_stores_agree [OF _ v p m, of 100 "''acme''"] by (simp add: sample_governance_def)
qed

end
