(* ===== verification/Control_Plane.thy ===== *)
theory Control_Plane
  imports Json_Text Operations Governance_Postgres Projections
begin

text \<open>
  \<^verbatim>\<open>control_plane/api.py\<close>: the HTTP boundary of the platform. A request is an ASGI scope; handling it sends messages and appends to the audit trail.
  Authentication, the repositories, the event store and the read models are the services the application is built with; the clock and the
  fresh identifiers are functions of the number of readings so far. Writing to the socket does not fail.
\<close>

section \<open>Responses\<close>

datatype asgi_message = ResponseStart int "(string \<times> string) list" | ResponseBody string

record cp_world =
  cw_tick :: nat
  cw_audit :: "AuditEvent list"
  cw_sent :: "asgi_message list"

definition respond :: "int \<Rightarrow> json_obj \<Rightarrow> (string \<times> string) list \<Rightarrow> (cp_world, unit) op" where
  "respond status body extra_headers =
     (let encoded = json_compact (JObj body);
          headers = [(''content-type'', ''application/json''), (''content-length'', nat_str (length encoded)), (''cache-control'', ''no-store'')]
            @ extra_headers in
      op_modify (\<lambda>w. w\<lparr>cw_sent := cw_sent w @ [ResponseStart status headers, ResponseBody encoded]\<rparr>))"

definition error_code :: "string \<Rightarrow> json_obj" where
  "error_code code = [(''error'', JObj [(''code'', JStr code)])]"

definition not_found :: json_obj where
  "not_found = [(''status'', JStr ''not-found'')]"

section \<open>The application\<close>

record event_reader =
  ev_read_all :: "TenantId \<Rightarrow> int \<Rightarrow> int \<Rightarrow> EventPage res"
  ev_read_stream :: "TenantId \<Rightarrow> string \<Rightarrow> int \<Rightarrow> int \<Rightarrow> EventEnvelope list res"

record ControlPlaneApp =
  ca_authentication :: "(string option \<Rightarrow> Principal res) option"
  ca_tenants :: "TenantId \<Rightarrow> Tenant option res"
  ca_policies :: "TenantId \<Rightarrow> TenantPolicy option res"
  ca_event_store :: "event_reader option"
  ca_projections :: "(TenantId \<Rightarrow> int \<Rightarrow> json_obj list res) option"
  ca_storage_ready :: "bool res option"
  ca_gateway_operations :: "GatewayOperations option"
  ca_configuration_error :: "string option"
  ca_clock :: "nat \<Rightarrow> datetime"
  ca_ids :: "nat \<Rightarrow> uuid"
  ca_monotonic :: "nat \<Rightarrow> rat"

text \<open>The durable services: the ledger's reads, and the run-status listing.\<close>

definition durable_reader :: "projection_db \<Rightarrow> event_reader" where
  "durable_reader s =
     \<lparr>ev_read_all = (\<lambda>t after_position limit. fst (read_all t after_position limit s)),
      ev_read_stream = (\<lambda>t a after_version limit. case read_stream t a after_version limit s of (es, None) \<Rightarrow> Inr es | (es, Some e) \<Rightarrow> Inl e)\<rparr>"

definition durable_run_status :: "projection_db \<Rightarrow> TenantId \<Rightarrow> int \<Rightarrow> json_obj list res" where
  "durable_run_status s t limit = fst (run_status_listing t limit s)"

definition take_tick :: "(cp_world, nat) op" where
  "take_tick = op_bind (op_gets cw_tick) (\<lambda>n. op_bind (op_modify (\<lambda>w. w\<lparr>cw_tick := Suc n\<rparr>)) (\<lambda>_. op_return n))"

definition now_utc :: "ControlPlaneApp \<Rightarrow> (cp_world, datetime) op" where
  "now_utc app = op_bind take_tick (\<lambda>n. op_return (ca_clock app n))"

definition new_uuid :: "ControlPlaneApp \<Rightarrow> (cp_world, uuid) op" where
  "new_uuid app = op_bind take_tick (\<lambda>n. op_return (ca_ids app n))"

section \<open>Reading the request\<close>

type_synonym asgi_scope = "(string \<times> pyval) list"

definition matching_header :: "string \<Rightarrow> pyval \<Rightarrow> string option" where
  "matching_header name item = (case item of
     PTuple [PBytes k, PBytes v] \<Rightarrow> if map ascii_lower k = name then Some v else None
   | _ \<Rightarrow> None)"

definition single_header :: "asgi_scope \<Rightarrow> string \<Rightarrow> string option" where
  "single_header scope name = (case map_of scope ''headers'' of
     Some (PList items) \<Rightarrow> (case List.map_filter (matching_header name) items of [v] \<Rightarrow> Some v | _ \<Rightarrow> None)
   | _ \<Rightarrow> None)"

text \<open>
  \<^verbatim>\<open>parse_qs\<close> on an ASCII query: fields between ampersands, empty ones skipped, a plus for a space, percent escapes decoded byte by byte. A byte
  escaped above 127 stays one character, where Python decodes UTF-8 sequences: such names and digits are outside the model.
\<close>

fun split_on :: "char \<Rightarrow> string \<Rightarrow> string list" where
  "split_on c [] = [[]]"
| "split_on c (x # s) = (if x = c then [] # split_on c s else (case split_on c s of f # fs \<Rightarrow> (x # f) # fs | [] \<Rightarrow> [[x]]))"

fun percent_decode :: "string \<Rightarrow> string" where
  "percent_decode (x # h # l # s) =
     (if x = CHR ''%'' then
        (case (digit_val h, digit_val l) of
           (Some a, Some b) \<Rightarrow> if a < 16 \<and> b < 16 then char_of (16 * a + b) # percent_decode s else x # percent_decode (h # l # s)
         | _ \<Rightarrow> x # percent_decode (h # l # s))
      else x # percent_decode (h # l # s))"
| "percent_decode s = s"

definition unquote_plus :: "string \<Rightarrow> string" where
  "unquote_plus s = percent_decode (map (\<lambda>c. if c = CHR ''+'' then CHR '' '' else c) s)"

definition query_field :: "string \<Rightarrow> string \<times> string" where
  "query_field f = (unquote_plus (takeWhile (\<lambda>c. c \<noteq> CHR ''='') f), unquote_plus (tl (dropWhile (\<lambda>c. c \<noteq> CHR ''='') f)))"

definition query_values :: "string \<Rightarrow> string \<Rightarrow> string list" where
  "query_values name query = map snd (filter (\<lambda>(n, v). n = name) (map query_field (filter (\<lambda>f. f \<noteq> []) (split_on CHR ''&'' query))))"

definition is_ascii :: "string \<Rightarrow> bool" where
  "is_ascii s = (\<forall>c \<in> set s. (of_char c :: nat) < 128)"

definition invalid_cursor :: "string \<Rightarrow> py_error" where
  "invalid_cursor msg = ValueError msg"

definition cursor_parameter :: "asgi_scope \<Rightarrow> int res" where
  "cursor_parameter scope = (case map_of scope ''query_string'' of
     None \<Rightarrow> Inr 0
   | Some (PBytes query) \<Rightarrow>
       res_bind (require (is_ascii query) (invalid_cursor ''query string must be ASCII'')) (\<lambda>_.
       (case query_values ''cursor'' query of
          [] \<Rightarrow> Inr 0
        | [v] \<Rightarrow>
            res_bind (require (v \<noteq> [] \<and> (\<forall>c \<in> set v. is_dec c)) (invalid_cursor ''cursor must be one non-negative integer'')) (\<lambda>_.
            (case py_int v of
               Some n \<Rightarrow> res_bind (require (n \<le> int8_max) (invalid_cursor ''cursor exceeds maximum database cursor value'')) (\<lambda>_. Inr n)
             | None \<Rightarrow> Inl (invalid_cursor ''cursor must be one non-negative integer'')))
        | _ \<Rightarrow> Inl (invalid_cursor ''cursor must be one non-negative integer'')))
   | Some _ \<Rightarrow> Inl (invalid_cursor ''query string must be bytes''))"


section \<open>Bodies\<close>

text \<open>\<^verbatim>\<open>format(value, "f")\<close>: fixed-point notation, never an exponent.\<close>

fun decimal_fixed :: "decimal \<Rightarrow> string" where
  "decimal_fixed (Dec neg c e) =
     (let ds = nat_str c; e' = (if c = 0 \<and> 0 < e then 0 else e); left = int (length ds) + e' in
      (if neg then ''-'' else []) @
      (if 0 \<le> e' then ds @ replicate (nat e') CHR ''0''
       else if left \<le> 0 then ''0.'' @ replicate (nat (- left)) CHR ''0'' @ ds
       else take (nat left) ds @ ''.'' @ drop (nat left) ds))"
| "decimal_fixed (Dec_Inf neg) = (if neg then ''-Infinity'' else ''Infinity'')"
| "decimal_fixed Dec_NaN = ''NaN''"

primrec active_role_names :: "datetime \<Rightarrow> RoleBinding list \<Rightarrow> string list res" where
  "active_role_names tm [] = Inr []"
| "active_role_names tm (b # bs) =
     res_bind (is_active b tm) (\<lambda>active. res_bind (active_role_names tm bs) (\<lambda>rs. Inr (if active then Role_value (rb_role b) # rs else rs)))"

definition principal_body :: "Principal \<Rightarrow> datetime \<Rightarrow> json_obj res" where
  "principal_body p tm =
     res_bind (active_role_names tm (pr_role_bindings p)) (\<lambda>roles.
     res_bind (principal_actor_id p) (\<lambda>actor_id.
     Inr [(''actor_id'', JStr actor_id), (''kind'', JStr (PrincipalKind_value (pr_kind p))), (''tenant_id'', JStr (pr_tenant_id p)),
          (''roles'', JArr (map JStr (sort_key id (remdups roles))))]))"

definition tenant_body :: "Tenant \<Rightarrow> json_obj" where
  "tenant_body t = [(''tenant_id'', JStr (tn_tenant_id t)), (''display_name'', JStr (tn_display_name t)), (''enabled'', JBool (tn_enabled t))]"

fun risk_name :: "RiskLevel \<Rightarrow> string" where
  "risk_name LOW = ''low''" | "risk_name MEDIUM = ''medium''" | "risk_name HIGH = ''high''" | "risk_name CRITICAL = ''critical''"

definition sorted_texts :: "string list \<Rightarrow> json" where
  "sorted_texts ss = JArr (map JStr (sort_key id ss))"

definition policy_body :: "TenantPolicy \<Rightarrow> json_obj" where
  "policy_body p =
     (let q = tp_quotas p in
      [(''tenant_id'', JStr (tp_tenant_id p)), (''version'', JStr (tp_version p)),
       (''allow'', JObj [(''models'', sorted_texts (tp_allowed_models p)), (''providers'', sorted_texts (tp_allowed_providers p)),
          (''tools'', sorted_texts (tp_allowed_tools p)), (''connectors'', sorted_texts (tp_allowed_connectors p)),
          (''environments'', sorted_texts (tp_allowed_environments p)),
          (''data_residencies'', sorted_texts (tp_allowed_data_residencies p))]),
       (''data'', JObj [(''allow_provider_retention'', JBool (tp_allow_provider_retention p))]),
       (''risk'', JObj [(''maximum'', JStr (risk_name (tp_max_risk p))), (''approval_from'', JStr (risk_name (tp_approval_from_risk p)))]),
       (''quotas'', JObj [(''max_run_tokens'', JInt (ql_max_run_tokens q)),
          (''max_run_cost_usd'', JStr (decimal_fixed (ql_max_run_cost_usd q))),
          (''max_tenant_tokens_per_period'', JInt (ql_max_tenant_tokens_per_period q)),
          (''max_tenant_cost_usd_per_period'', JStr (decimal_fixed (ql_max_tenant_cost_usd_per_period q))),
          (''max_concurrent_runs'', JInt (ql_max_concurrent_runs q))])])"

definition json_option :: "('a \<Rightarrow> json) \<Rightarrow> 'a option \<Rightarrow> json" where
  "json_option f v = (case v of None \<Rightarrow> JNull | Some x \<Rightarrow> f x)"

definition event_body :: "EventEnvelope \<Rightarrow> json_obj" where
  "event_body e =
     [(''event_id'', JStr (uuid_str (event_id e))), (''aggregate_id'', JStr (aggregate_id e)), (''aggregate_sequence'', JInt (aggregate_sequence e)),
      (''global_position'', json_option JInt (global_position e)), (''event_type'', JStr (event_type e)), (''schema_version'', JInt (schema_version e)),
      (''occurred_at'', JStr (isoformat (occurred_at e))), (''recorded_at'', json_option (\<lambda>d. JStr (isoformat d)) (recorded_at e)),
      (''correlation_id'', json_option (\<lambda>i. JStr (uuid_str i)) (correlation_id e)),
      (''payload'', JObj (redact_details (payload e))), (''metadata'', JObj (redact_details (metadata e)))]"

section \<open>Audit and access control\<close>

definition audit_event ::
  "ControlPlaneApp \<Rightarrow> TenantId \<Rightarrow> AuditEventType \<Rightarrow> AuditOutcome \<Rightarrow> string \<Rightarrow> string \<Rightarrow> string \<Rightarrow> uuid \<Rightarrow> json_obj \<Rightarrow> (cp_world, unit) op" where
  "audit_event app tenant ty outcome actr action resource correlation details =
     op_bind (new_uuid app) (\<lambda>i.
     op_bind (now_utc app) (\<lambda>tm.
     op_bind (op_lift (init_AuditEvent
       \<lparr>ae_event_id = i, ae_tenant_id = tenant, ae_event_type = ty, ae_occurred_at = tm, ae_outcome = outcome, ae_actor_id = actr,
        ae_action = action, ae_resource = resource, ae_correlation_id = correlation, ae_details = details, ae_schema_version = 1\<rparr>)) (\<lambda>e.
     (\<lambda>w. case audit_append tenant e (cw_audit w) of (x, es) \<Rightarrow> (x, w\<lparr>cw_audit := es\<rparr>)))))"

text \<open>The answer of the authentication service, and what each failure becomes: None when a response was sent.\<close>

definition authenticate_request :: "ControlPlaneApp \<Rightarrow> asgi_scope \<Rightarrow> uuid \<Rightarrow> (cp_world, Principal option) op" where
  "authenticate_request app scope correlation = (case ca_authentication app of
     None \<Rightarrow> op_bind (respond 503 (error_code ''authentication_not_configured'') []) (\<lambda>_. op_return None)
   | Some authentication \<Rightarrow>
       (case authentication (single_header scope ''authorization'') of
          Inl (AuthenticationError code msg) \<Rightarrow>
            op_bind (audit_event app PLATFORM_TENANT_ID AUTHENTICATION_OUTCOME OUTCOME_FAILURE ''unauthenticated'' ''authenticate'' ''control-plane''
              correlation [(''error_code'', JStr (AuthenticationErrorCode_value code))]) (\<lambda>_.
            op_bind (respond 401 [(''error'', JObj [(''code'', JStr (AuthenticationErrorCode_value code)), (''message'', JStr ''authentication failed'')])]
              [(''www-authenticate'', ''Bearer realm=\"aegis\"'')]) (\<lambda>_.
            op_return None))
        | Inl TransientStorageError \<Rightarrow> op_bind (respond 503 (error_code ''storage_unavailable'') []) (\<lambda>_. op_return None)
        | Inl e \<Rightarrow> op_raise e
        | Inr p \<Rightarrow>
            op_bind (op_lift (principal_actor_id p)) (\<lambda>actor_id.
            op_bind (audit_event app (pr_tenant_id p) AUTHENTICATION_OUTCOME OUTCOME_SUCCESS actor_id ''authenticate'' ''control-plane'' correlation
              [(''subject'', JStr (pr_subject p)), (''issuer'', JStr (pr_issuer p))]) (\<lambda>_.
            op_return (Some p)))))"

definition audit_authorization :: "ControlPlaneApp \<Rightarrow> Principal \<Rightarrow> string \<Rightarrow> AuthorizationDecision \<Rightarrow> uuid \<Rightarrow> (cp_world, unit) op" where
  "audit_authorization app p resource d correlation =
     op_bind (op_lift (principal_actor_id p)) (\<lambda>actor_id.
     audit_event app (pr_tenant_id p) AUTHORIZATION_DECISION (if ad_allowed d then OUTCOME_SUCCESS else OUTCOME_DENIED) actor_id (ad_permission d)
       resource correlation
       [(''attempted_tenant_id'', JStr (ad_tenant_id d)), (''reason'', JStr (ad_reason d)),
        (''roles'', JArr (map (\<lambda>r. JStr (Role_value r)) (ad_active_roles d)))])"

definition authorize :: "ControlPlaneApp \<Rightarrow> Principal \<Rightarrow> TenantId \<Rightarrow> Permission \<Rightarrow> uuid \<Rightarrow> string \<Rightarrow> (cp_world, bool) op" where
  "authorize app p t perm correlation resource =
     op_bind (now_utc app) (\<lambda>tm.
     op_bind (op_lift (decide p t (Known perm) tm)) (\<lambda>d.
     op_bind (audit_authorization app p resource d correlation) (\<lambda>_.
     if ad_allowed d then op_return True
     else op_bind (respond 403 [(''error'', JObj [(''code'', JStr ''authorization_denied''), (''reason'', JStr (ad_reason d))])] []) (\<lambda>_.
       op_return False))))"

text \<open>
  Every view of a tenant's data begins with \<open>authorize\<close> and is made only when it allows. A storage read that fails for now becomes
  a 503 response; other errors are raised.
\<close>

definition authorized_view :: "ControlPlaneApp \<Rightarrow> Principal \<Rightarrow> TenantId \<Rightarrow> Permission \<Rightarrow> uuid \<Rightarrow> string \<Rightarrow> (cp_world, unit) op \<Rightarrow> (cp_world, unit) op" where
  "authorized_view app p t perm correlation resource view =
     op_bind (authorize app p t perm correlation resource) (\<lambda>allowed. if allowed then view else op_return ())"

definition storage_read :: "'a res \<Rightarrow> ('a \<Rightarrow> (cp_world, unit) op) \<Rightarrow> (cp_world, unit) op" where
  "storage_read r k = (case r of
     Inl TransientStorageError \<Rightarrow> respond 503 (error_code ''storage_unavailable'') []
   | Inl e \<Rightarrow> op_raise e
   | Inr a \<Rightarrow> k a)"

section \<open>The views\<close>

definition tenant_resource :: "TenantId \<Rightarrow> string \<Rightarrow> string" where
  "tenant_resource t rest = ''tenant/'' @ t @ rest"

definition get_tenant :: "ControlPlaneApp \<Rightarrow> Principal \<Rightarrow> TenantId \<Rightarrow> uuid \<Rightarrow> (cp_world, unit) op" where
  "get_tenant app p t correlation =
     authorized_view app p t TENANT_READ correlation (tenant_resource t [])
       (storage_read (ca_tenants app t) (\<lambda>found. case found of
          None \<Rightarrow> respond 404 (error_code ''tenant_not_found'') []
        | Some tenant \<Rightarrow> respond 200 (tenant_body tenant) []))"

definition get_policy :: "ControlPlaneApp \<Rightarrow> Principal \<Rightarrow> TenantId \<Rightarrow> uuid \<Rightarrow> (cp_world, unit) op" where
  "get_policy app p t correlation =
     authorized_view app p t POLICY_READ correlation (tenant_resource t ''/policy'')
       (storage_read (ca_policies app t) (\<lambda>found. case found of
          None \<Rightarrow> respond 404 (error_code ''policy_not_found'') []
        | Some policy \<Rightarrow> respond 200 (policy_body policy) []))"

text \<open>The bodies of the gateway's views. The policy is read without the guard of the other reads: a transient failure is raised.\<close>

definition model_view_body :: "GatewayOperations \<Rightarrow> rat \<Rightarrow> Principal \<Rightarrow> TenantId \<Rightarrow> TenantPolicy \<Rightarrow> datetime \<Rightarrow> string \<Rightarrow> json_obj res" where
  "model_view_body g now p t policy tm view =
     (if view = ''models'' then res_bind (gateway_catalog g p t policy tm) (\<lambda>items. Inr [(''models'', JArr (map JObj items))])
      else if view = ''model-usage'' then gateway_usage g p t tm
      else res_bind (gateway_health g now p t policy tm) (\<lambda>items. Inr [(''providers'', JArr (map JObj items))]))"

definition get_model_view :: "ControlPlaneApp \<Rightarrow> Principal \<Rightarrow> TenantId \<Rightarrow> uuid \<Rightarrow> string \<Rightarrow> (cp_world, unit) op" where
  "get_model_view app p t correlation view =
     authorized_view app p t MODEL_READ correlation (tenant_resource t (''/'' @ view))
       (case ca_gateway_operations app of
          None \<Rightarrow> respond 503 (error_code ''gateway_not_configured'') []
        | Some g \<Rightarrow>
            op_bind (op_lift (ca_policies app t)) (\<lambda>found. case found of
              None \<Rightarrow> respond 404 (error_code ''policy_not_found'') []
            | Some policy \<Rightarrow>
                op_bind (now_utc app) (\<lambda>tm.
                op_bind take_tick (\<lambda>n.
                (case model_view_body g (ca_monotonic app n) p t policy tm view of
                   Inl (PermissionError m) \<Rightarrow> respond 403 (error_code ''permission_denied'') []
                 | Inl e \<Rightarrow> op_raise e
                 | Inr body \<Rightarrow> respond 200 body [])))))"

definition ledger_body :: "EventPage \<Rightarrow> json_obj" where
  "ledger_body page = [(''events'', JArr (map (\<lambda>e. JObj (event_body e)) (EventPage.pg_events page))), (''next_cursor'', json_option JInt (pg_next_cursor page))]"

definition get_ledger :: "ControlPlaneApp \<Rightarrow> Principal \<Rightarrow> TenantId \<Rightarrow> uuid \<Rightarrow> int \<Rightarrow> (cp_world, unit) op" where
  "get_ledger app p t correlation after_position =
     authorized_view app p t RESOURCE_READ correlation (tenant_resource t ''/ledger'')
       (case ca_event_store app of
          None \<Rightarrow> respond 503 (error_code ''storage_not_configured'') []
        | Some store \<Rightarrow> storage_read (ev_read_all store t after_position 100) (\<lambda>page. respond 200 (ledger_body page) []))"

definition timeline_body :: "string \<Rightarrow> EventEnvelope list \<Rightarrow> json_obj" where
  "timeline_body run_id events =
     [(''run_id'', JStr run_id), (''events'', JArr (map (\<lambda>e. JObj (event_body e)) events)),
      (''next_cursor'', if length events = 100 then JInt (aggregate_sequence (last events)) else JNull)]"

definition get_timeline :: "ControlPlaneApp \<Rightarrow> Principal \<Rightarrow> TenantId \<Rightarrow> string \<Rightarrow> uuid \<Rightarrow> int \<Rightarrow> (cp_world, unit) op" where
  "get_timeline app p t run_id correlation after_version =
     (if run_id = [] then respond 400 (error_code ''invalid_run_id'') []
      else authorized_view app p t RESOURCE_READ correlation (tenant_resource t (''/runs/'' @ run_id @ ''/timeline''))
        (case ca_event_store app of
           None \<Rightarrow> respond 503 (error_code ''storage_not_configured'') []
         | Some store \<Rightarrow> storage_read (ev_read_stream store t run_id after_version 100) (\<lambda>events. respond 200 (timeline_body run_id events) [])))"

definition get_run_status :: "ControlPlaneApp \<Rightarrow> Principal \<Rightarrow> TenantId \<Rightarrow> uuid \<Rightarrow> (cp_world, unit) op" where
  "get_run_status app p t correlation =
     authorized_view app p t RESOURCE_READ correlation (tenant_resource t ''/projections/run-status'')
       (case ca_projections app of
          None \<Rightarrow> respond 503 (error_code ''storage_not_configured'') []
        | Some run_status \<Rightarrow> storage_read (run_status t 100) (\<lambda>rows. respond 200 [(''runs'', JArr (map JObj rows))] []))"

definition readiness :: "ControlPlaneApp \<Rightarrow> (cp_world, unit) op" where
  "readiness app = (case ca_configuration_error app of
     Some reason \<Rightarrow> respond 503 [(''status'', JStr ''not-ready''), (''reason'', JStr reason)] []
   | None \<Rightarrow> (case ca_storage_ready app of
       None \<Rightarrow> respond 200 [(''status'', JStr ''ready''), (''checks'', JArr [JStr ''configuration''])] []
     | Some probe \<Rightarrow>
         op_bind (op_lift probe) (\<lambda>ready.
         if ready then respond 200 [(''status'', JStr ''ready''), (''checks'', JArr [JStr ''configuration'', JStr ''storage''])] []
         else respond 503 [(''status'', JStr ''not-ready''), (''reason'', JStr ''storage_unavailable'')] [])))"

section \<open>The dispatcher\<close>

definition path_segments :: "string \<Rightarrow> string list" where
  "path_segments path = filter (\<lambda>s. s \<noteq> []) (split_on CHR ''/'' path)"

definition with_cursor :: "asgi_scope \<Rightarrow> (int \<Rightarrow> (cp_world, unit) op) \<Rightarrow> (cp_world, unit) op" where
  "with_cursor scope view = (case cursor_parameter scope of
     Inl _ \<Rightarrow> respond 400 (error_code ''invalid_cursor'') []
   | Inr after \<Rightarrow> view after)"

fun tenant_route :: "ControlPlaneApp \<Rightarrow> asgi_scope \<Rightarrow> Principal \<Rightarrow> TenantId \<Rightarrow> uuid \<Rightarrow> string list \<Rightarrow> (cp_world, unit) op" where
  "tenant_route app scope p t correlation [] = get_tenant app p t correlation"
| "tenant_route app scope p t correlation [a] =
     (if a = ''policy'' then get_policy app p t correlation
      else if a \<in> {''models'', ''model-usage'', ''provider-health''} then get_model_view app p t correlation a
      else if a = ''ledger'' then with_cursor scope (get_ledger app p t correlation)
      else respond 404 not_found [])"
| "tenant_route app scope p t correlation [a, b] =
     (if a = ''projections'' \<and> b = ''run-status'' then get_run_status app p t correlation else respond 404 not_found [])"
| "tenant_route app scope p t correlation [a, b, c] =
     (if a = ''runs'' \<and> c = ''timeline'' then with_cursor scope (get_timeline app p t b correlation) else respond 404 not_found [])"
| "tenant_route app scope p t correlation _ = respond 404 not_found []"

definition route_request :: "ControlPlaneApp \<Rightarrow> asgi_scope \<Rightarrow> Principal \<Rightarrow> uuid \<Rightarrow> string \<Rightarrow> (cp_world, unit) op" where
  "route_request app scope p correlation path =
     (if path = ''/v1/me'' then op_bind (now_utc app) (\<lambda>tm. op_bind (op_lift (principal_body p tm)) (\<lambda>body. respond 200 body []))
      else (case path_segments path of
        v # ts # segment # rest \<Rightarrow>
          if v = ''v1'' \<and> ts = ''tenants'' then
            (case new_TenantId segment of
               Inl (ValueError m) \<Rightarrow> respond 400 (error_code ''invalid_tenant_id'') []
             | Inl e \<Rightarrow> op_raise e
             | Inr t \<Rightarrow> tenant_route app scope p t correlation rest)
          else respond 404 not_found []
      | _ \<Rightarrow> respond 404 not_found []))"

fun hashable :: "pyval \<Rightarrow> bool" where
  "hashable (PList _) = False" | "hashable (PDict _) = False" | "hashable (PTuple vs) = (\<forall>v \<in> set vs. hashable v)" | "hashable _ = True"

definition handle :: "ControlPlaneApp \<Rightarrow> asgi_scope \<Rightarrow> (cp_world, unit) op" where
  "handle app scope =
     (let path = (case map_of scope ''path'' of Some v \<Rightarrow> v | None \<Rightarrow> PNone);
          method = (case map_of scope ''method'' of Some v \<Rightarrow> v | None \<Rightarrow> PStr ''GET'') in
      if map_of scope ''type'' \<noteq> Some (PStr ''http'') then op_return ()
      else if method \<noteq> PStr ''GET'' then respond 405 (error_code ''method_not_allowed'') []
      else if \<not> hashable path then op_raise (TypeError ''unhashable type'')
      else if path \<in> {PStr ''/healthz'', PStr ''/health/live''} then respond 200 [(''status'', JStr ''ok''), (''service'', JStr ''control-plane'')] []
      else if path \<in> {PStr ''/readyz'', PStr ''/health/ready''} then readiness app
      else (case path of
        PStr pth \<Rightarrow>
          if take 4 pth = ''/v1/'' then
            op_bind (new_uuid app) (\<lambda>correlation.
            op_bind (authenticate_request app scope correlation) (\<lambda>found. case found of
              None \<Rightarrow> op_return ()
            | Some p \<Rightarrow> route_request app scope p correlation pth))
          else respond 404 not_found []
      | _ \<Rightarrow> respond 404 not_found []))"

section \<open>One response for each request\<close>

text \<open>The two messages of a response: the status with the fixed headers, and a body of the announced length.\<close>

definition well_framed :: "asgi_message list \<Rightarrow> bool" where
  "well_framed ms = (\<exists>status extra body. ms = [ResponseStart status ([(''content-type'', ''application/json''),
     (''content-length'', nat_str (length body)), (''cache-control'', ''no-store'')] @ extra), ResponseBody body])"

text \<open>
  \<open>answers S m\<close>: the operation only appends to the trail and the messages. A result in \<open>S\<close> means that one response was sent; any other
  result, and an exception, means that none was.
\<close>

definition answers :: "('a \<Rightarrow> bool) \<Rightarrow> (cp_world, 'a) op \<Rightarrow> bool" where
  "answers S m = (\<forall>w x w'. m w = (x, w') \<longrightarrow> (\<exists>es ms. cw_audit w' = cw_audit w @ es \<and> cw_sent w' = cw_sent w @ ms
     \<and> (case x of Inr a \<Rightarrow> if S a then well_framed ms else ms = [] | Inl _ \<Rightarrow> ms = [])))"

abbreviation silent :: "(cp_world, 'a) op \<Rightarrow> bool" where
  "silent m \<equiv> answers (\<lambda>_. False) m"

abbreviation answers_once :: "(cp_world, unit) op \<Rightarrow> bool" where
  "answers_once m \<equiv> answers (\<lambda>_. True) m"

named_theorems answering \<open>how each operation of the control plane answers\<close>

lemma answersE:
  assumes "answers S m" and "m w = (x, w')"
  obtains es ms where "cw_audit w' = cw_audit w @ es" "cw_sent w' = cw_sent w @ ms"
    "case x of Inr a \<Rightarrow> if S a then well_framed ms else ms = [] | Inl _ \<Rightarrow> ms = []"
  using assms unfolding answers_def by blast

lemma answers_raise [answering]: "answers S (op_raise e)"
  by (auto simp: answers_def op_eval)

lemma silent_basics [answering]: "silent (op_return a)" "silent (op_lift r)" "silent (op_gets f)" "silent take_tick"
  by (auto simp: answers_def op_eval take_tick_def split: sum.splits)

lemma answers_return [answering]: "\<not> S a \<Longrightarrow> answers S (op_return a)"
  by (auto simp: answers_def op_eval)

lemma answers_bind:
  assumes m: "answers S m" and sent: "\<And>a. S a \<Longrightarrow> \<exists>b. k a = op_return b \<and> S' b" and unsent: "\<And>a. \<not> S a \<Longrightarrow> answers S' (k a)"
  shows "answers S' (op_bind m k)"
  unfolding answers_def
proof (intro allI impI)
  fix w x w' assume b: "op_bind m k w = (x, w')"
  obtain y w1 where y: "m w = (y, w1)" by fastforce
  obtain es ms where 1: "cw_audit w1 = cw_audit w @ es" "cw_sent w1 = cw_sent w @ ms"
    "case y of Inr a \<Rightarrow> if S a then well_framed ms else ms = [] | Inl _ \<Rightarrow> ms = []"
    using answersE [OF m y] by metis
  show "\<exists>es ms. cw_audit w' = cw_audit w @ es \<and> cw_sent w' = cw_sent w @ ms
     \<and> (case x of Inr a \<Rightarrow> if S' a then well_framed ms else ms = [] | Inl _ \<Rightarrow> ms = [])"
  proof (cases y)
    case (Inl e)
    then show ?thesis using b y 1 by (auto simp: op_bind_def)
  next
    case (Inr a)
    then have k: "k a w1 = (x, w')" using b y by (simp add: op_bind_def)
    show ?thesis
    proof (cases "S a")
      case True
      then obtain r where "k a = op_return r" "S' r" using sent by blast
      then show ?thesis using k 1 Inr True by (auto simp: op_return_def)
    next
      case False
      obtain es' ms' where "cw_audit w' = cw_audit w1 @ es'" "cw_sent w' = cw_sent w1 @ ms'"
        "case x of Inr a \<Rightarrow> if S' a then well_framed ms' else ms' = [] | Inl _ \<Rightarrow> ms' = []"
        using answersE [OF unsent [OF False] k] by metis
      then show ?thesis using 1 Inr False by auto
    qed
  qed
qed

lemma answers_silent_bind: "silent m \<Longrightarrow> (\<And>a. answers S (k a)) \<Longrightarrow> answers S (op_bind m k)"
  by (rule answers_bind [where S = "\<lambda>_. False"]) simp_all

lemma answers_respond [answering]: "answers_once (respond status body extra)"
  by (auto simp: answers_def respond_def well_framed_def Let_def op_eval)

lemma answers_respond_return [answering]: "S r \<Longrightarrow> answers S (op_bind (respond status body extra) (\<lambda>_. op_return r))"
  by (rule answers_bind [OF answers_respond]) auto

lemma silent_clock [answering]: "silent (now_utc app)" "silent (new_uuid app)"
  unfolding now_utc_def new_uuid_def by (intro answers_silent_bind answering)+

lemma silent_audit_event [answering]: "silent (audit_event app tenant ty outcome actr action resource correlation details)"
  unfolding audit_event_def
  by (intro answers_silent_bind answering)
    (auto simp: answers_def audit_append_def op_eval split: if_splits)

lemma answers_authenticate [answering]: "answers (\<lambda>p. p = None) (authenticate_request app scope correlation)"
  unfolding authenticate_request_def
  by (auto split: option.splits sum.splits py_error.splits intro!: answering answers_silent_bind)

lemma answers_authorize [answering]: "answers (\<lambda>b. \<not> b) (authorize app p t perm correlation resource)"
  unfolding authorize_def audit_authorization_def
  by (auto intro!: answering answers_silent_bind)

lemma answers_authorized_view [answering]: "answers_once view \<Longrightarrow> answers_once (authorized_view app p t perm correlation resource view)"
  unfolding authorized_view_def by (rule answers_bind [OF answers_authorize]) simp_all

lemma answers_storage_read [answering]: "(\<And>a. answers_once (k a)) \<Longrightarrow> answers_once (storage_read r k)"
  by (auto simp: storage_read_def split: sum.splits py_error.splits intro!: answering)


lemma answers_views [answering]:
  "answers_once (get_tenant app p t correlation)" "answers_once (get_policy app p t correlation)"
  "answers_once (get_ledger app p t correlation after)" "answers_once (get_timeline app p t run_id correlation after)"
  "answers_once (get_run_status app p t correlation)"
  unfolding get_tenant_def get_policy_def get_ledger_def get_timeline_def get_run_status_def
  by (auto intro!: answering split: option.splits)

lemma answers_model_view [answering]: "answers_once (get_model_view app p t correlation view)"
  unfolding get_model_view_def
  by (auto intro!: answering answers_silent_bind split: option.splits sum.splits py_error.splits)

lemma answers_tenant_route [answering]: "answers_once (tenant_route app scope p t correlation rest)"
  by (cases "(app, scope, p, t, correlation, rest)" rule: tenant_route.cases)
    (auto simp: with_cursor_def intro!: answering split: sum.splits)

lemma answers_route [answering]: "answers_once (route_request app scope p correlation path)"
  unfolding route_request_def
  by (auto intro!: answering answers_silent_bind split: list.splits sum.splits py_error.splits)

lemma answers_readiness [answering]: "answers_once (readiness app)"
  unfolding readiness_def by (auto intro!: answering answers_silent_bind split: option.splits)

lemma answers_found: "answers_once (case found of None \<Rightarrow> op_return () | Some p \<Rightarrow> route_request app scope p correlation path)" if "found \<noteq> None"
  using that by (auto intro: answers_route)

lemma answers_handle: "map_of scope ''type'' = Some (PStr ''http'') \<Longrightarrow> answers_once (handle app scope)"
  unfolding handle_def Let_def
  by (auto intro!: answering answers_silent_bind answers_bind [OF answers_authenticate] split: pyval.splits option.splits)

text \<open>
  C34: every request is answered exactly once or not at all. Handling an HTTP request only ever appends to the messages and to the audit trail. When
  it returns, exactly one response was sent: a start message with the content type, the length of the very body that follows and a no-store directive,
  and then that body. When an exception escapes, nothing was sent, so the server can still answer. A request of another protocol has no effect.
\<close>

theorem request_answered_once:
  assumes "handle app scope w = (x, w')"
  shows "\<exists>es ms. cw_audit w' = cw_audit w @ es \<and> cw_sent w' = cw_sent w @ ms
    \<and> (if map_of scope ''type'' = Some (PStr ''http'') then (case x of Inr _ \<Rightarrow> well_framed ms | Inl _ \<Rightarrow> ms = []) else w' = w \<and> x = Inr ())"
proof (cases "map_of scope ''type'' = Some (PStr ''http'')")
  case True
  obtain es ms where "cw_audit w' = cw_audit w @ es" "cw_sent w' = cw_sent w @ ms" "case x of Inr _ \<Rightarrow> well_framed ms | Inl _ \<Rightarrow> ms = []"
    using answersE [OF answers_handle [OF True] assms] unfolding if_True by blast
  then show ?thesis using True by auto
next
  case False
  then show ?thesis using assms by (simp add: handle_def op_eval)
qed


section \<open>Tenant data needs authority\<close>

definition trail_kept :: "(cp_world, 'a) op \<Rightarrow> bool" where
  "trail_kept m = (\<forall>w. cw_audit (snd (m w)) = cw_audit w)"

named_theorems trail \<open>operations that leave the audit trail alone\<close>

lemma trail_basics [trail]:
  "trail_kept (op_return a)" "trail_kept (op_raise e)" "trail_kept (op_lift r)" "trail_kept take_tick" "trail_kept (respond status body extra)"
  by (auto simp: trail_kept_def op_eval take_tick_def respond_def Let_def)

lemma trail_bind [trail]: "trail_kept m \<Longrightarrow> (\<And>a. trail_kept (k a)) \<Longrightarrow> trail_kept (op_bind m k)"
  by (simp add: trail_kept_def op_bind_def split: prod.splits sum.splits) (metis snd_conv)

lemma trail_clock [trail]: "trail_kept (now_utc app)"
  unfolding now_utc_def by (intro trail)

lemma trail_storage_read [trail]: "(\<And>a. trail_kept (k a)) \<Longrightarrow> trail_kept (storage_read r k)"
  by (auto simp: storage_read_def split: sum.splits py_error.splits intro!: trail)

text \<open>The audit record of a decision that allowed access, and of an authentication that succeeded.\<close>

definition access_record :: "Principal \<Rightarrow> Permission \<Rightarrow> uuid \<Rightarrow> AuditEvent \<Rightarrow> bool" where
  "access_record p perm correlation e =
     (ae_event_type e = AUTHORIZATION_DECISION \<and> ae_outcome e = OUTCOME_SUCCESS \<and> ae_tenant_id e = pr_tenant_id p
      \<and> principal_actor_id p = Inr (ae_actor_id e) \<and> ae_action e = Permission_value perm \<and> ae_correlation_id e = correlation)"

definition login_record :: "Principal \<Rightarrow> uuid \<Rightarrow> AuditEvent \<Rightarrow> bool" where
  "login_record p correlation e =
     (ae_event_type e = AUTHENTICATION_OUTCOME \<and> ae_outcome e = OUTCOME_SUCCESS \<and> ae_tenant_id e = pr_tenant_id p
      \<and> principal_actor_id p = Inr (ae_actor_id e) \<and> ae_action e = ''authenticate'' \<and> ae_correlation_id e = correlation)"

lemma audit_append_eval: "audit_append t e es = (if t = ae_tenant_id e then (Inr (), es @ [e])
    else (Inl (ValueError ''audit event tenant does not match trusted context''), es))"
  by (simp add: audit_append_def op_eval)

lemma init_AuditEvent_Inr: "Inr e' = init_AuditEvent e \<Longrightarrow> ae_event_type e' = ae_event_type e \<and> ae_outcome e' = ae_outcome e
    \<and> ae_tenant_id e' = ae_tenant_id e \<and> ae_actor_id e' = ae_actor_id e \<and> ae_action e' = ae_action e \<and> ae_correlation_id e' = ae_correlation_id e"
  unfolding init_AuditEvent_def by (drule sym) (auto simp: res_bind_Inr_iff)

lemma audit_event_Inr:
  assumes "audit_event app tenant ty outcome actr action resource correlation details w = (Inr u, w')"
  shows "cw_sent w' = cw_sent w \<and> (\<exists>e. cw_audit w' = cw_audit w @ [e] \<and> ae_event_type e = ty \<and> ae_outcome e = outcome \<and> ae_tenant_id e = tenant
    \<and> ae_actor_id e = actr \<and> ae_action e = action \<and> ae_correlation_id e = correlation)"
  using assms
  by (auto simp: audit_event_def new_uuid_def now_utc_def take_tick_def op_simps audit_append_eval
      dest!: init_AuditEvent_Inr split: if_splits)

lemma now_utc_eval: "now_utc app w = (Inr (ca_clock app (cw_tick w)), w\<lparr>cw_tick := Suc (cw_tick w)\<rparr>)"
  by (simp add: now_utc_def take_tick_def op_eval)

lemma authorize_effect:
  assumes "principal_ok p" and "\<And>n. dt_aware (ca_clock app n)" and "authorize app p t perm correlation resource w = (Inr allowed, w')"
  shows "if allowed then may_act p t perm (dt_instant (ca_clock app (cw_tick w))) \<and> cw_sent w' = cw_sent w
      \<and> (\<exists>e. cw_audit w' = cw_audit w @ [e] \<and> access_record p perm correlation e)
    else \<exists>hs b. cw_sent w' = cw_sent w @ [ResponseStart 403 hs, b]"
proof -
  let ?tm = "ca_clock app (cw_tick w)"
  obtain d where d: "decide p t (Known perm) ?tm = Inr d" "ad_allowed d \<longleftrightarrow> may_act p t perm (dt_instant ?tm)"
    using decide_allowed [OF assms(1) assms(2), of t "Known perm"] by (force simp: may_act_def)
  have perm: "ad_permission d = Permission_value perm"
    using d(1) by (auto simp: decide_def res_bind_Inr_iff Let_def split: if_splits)
  obtain w1 where a: "audit_authorization app p resource d correlation (w\<lparr>cw_tick := Suc (cw_tick w)\<rparr>) = (Inr (), w1)"
    and r: "(if ad_allowed d then op_return True
       else op_bind (respond 403 [(''error'', JObj [(''code'', JStr ''authorization_denied''), (''reason'', JStr (ad_reason d))])] [])
         (\<lambda>_. op_return False)) w1 = (Inr allowed, w')"
    using assms(3) by (auto simp: authorize_def op_bind_Inr_iff now_utc_eval op_lift_iff d)
  obtain actr where act: "principal_actor_id p = Inr actr"
    using a by (auto simp: audit_authorization_def op_simps dest: sym)
  then have "cw_sent w1 = cw_sent w \<and> (\<exists>e. cw_audit w1 = cw_audit w @ [e] \<and> (ad_allowed d \<longrightarrow> access_record p perm correlation e))"
    using a by (auto simp: audit_authorization_def op_eval access_record_def perm dest!: audit_event_Inr)
  then show ?thesis
    using r d(2) by (auto simp: op_eval respond_def Let_def split: if_splits)
qed


text \<open>A view is guarded when a 200 response means that the principal had the permission and the decision was recorded.\<close>

definition guarded_view :: "ControlPlaneApp \<Rightarrow> Principal \<Rightarrow> TenantId \<Rightarrow> Permission \<Rightarrow> uuid \<Rightarrow> (cp_world, unit) op \<Rightarrow> bool" where
  "guarded_view app p t perm correlation m = (\<forall>w w' hs b. m w = (Inr (), w') \<and> cw_sent w' = cw_sent w @ [ResponseStart 200 hs, b]
     \<longrightarrow> may_act p t perm (dt_instant (ca_clock app (cw_tick w))) \<and> (\<exists>e. cw_audit w' = cw_audit w @ [e] \<and> access_record p perm correlation e))"

lemma guarded_respond: "status \<noteq> 200 \<Longrightarrow> guarded_view app p t perm correlation (respond status body extra)"
  by (auto simp: guarded_view_def respond_def Let_def op_eval)

lemma guarded_raise: "guarded_view app p t perm correlation (op_raise e)"
  by (auto simp: guarded_view_def op_eval)

lemma guarded_authorized_view:
  assumes ok: "principal_ok p" "\<And>n. dt_aware (ca_clock app n)" and view: "trail_kept view"
  shows "guarded_view app p t perm correlation (authorized_view app p t perm correlation resource view)"
  unfolding guarded_view_def
proof (intro allI impI, elim conjE)
  fix w w' hs b
  assume r: "authorized_view app p t perm correlation resource view w = (Inr (), w')" and s: "cw_sent w' = cw_sent w @ [ResponseStart 200 hs, b]"
  obtain allowed w1 where a: "authorize app p t perm correlation resource w = (Inr allowed, w1)"
    and v: "(if allowed then view else op_return ()) w1 = (Inr (), w')"
    using r by (auto simp: authorized_view_def op_bind_Inr_iff)
  have "allowed" using authorize_effect [OF ok a] v s by (auto simp: op_eval split: if_splits)
  moreover have "cw_audit w' = cw_audit w1" if "allowed" using view v that unfolding trail_kept_def by (metis snd_conv)
  ultimately show "may_act p t perm (dt_instant (ca_clock app (cw_tick w))) \<and> (\<exists>e. cw_audit w' = cw_audit w @ [e] \<and> access_record p perm correlation e)"
    using authorize_effect [OF ok a] by auto
qed

text \<open>The permission of each view of a tenant.\<close>

definition view_permission :: "string list \<Rightarrow> Permission" where
  "view_permission rest = (if rest = [] then TENANT_READ else if rest = [''policy''] then POLICY_READ
     else if rest = [''models''] \<or> rest = [''model-usage''] \<or> rest = [''provider-health''] then MODEL_READ else RESOURCE_READ)"

lemmas guarded_rules = guarded_respond guarded_raise guarded_authorized_view

lemma guarded_tenant_route:
  assumes "principal_ok p" and "\<And>n. dt_aware (ca_clock app n)"
  shows "guarded_view app p t (view_permission rest) correlation (tenant_route app scope p t correlation rest)"
proof -
  have "guarded_view app p t TENANT_READ correlation (get_tenant app p t correlation)"
    "guarded_view app p t POLICY_READ correlation (get_policy app p t correlation)"
    "\<And>view. guarded_view app p t MODEL_READ correlation (get_model_view app p t correlation view)"
    "guarded_view app p t RESOURCE_READ correlation (with_cursor scope (get_ledger app p t correlation))"
    "\<And>r. guarded_view app p t RESOURCE_READ correlation (with_cursor scope (get_timeline app p t r correlation))"
    "guarded_view app p t RESOURCE_READ correlation (get_run_status app p t correlation)"
    unfolding get_tenant_def get_policy_def get_model_view_def get_ledger_def get_timeline_def get_run_status_def with_cursor_def
    by (auto intro!: guarded_rules assms trail split: option.splits sum.splits py_error.splits)
  then show ?thesis
    by (cases "(app, scope, p, t, correlation, rest)" rule: tenant_route.cases) (auto simp: view_permission_def intro!: guarded_rules)
qed

lemma authenticate_request_Some:
  assumes "authenticate_request app scope correlation w = (Inr (Some p), w')"
  shows "cw_sent w' = cw_sent w \<and> (\<exists>e f. ca_authentication app = Some f \<and> f (single_header scope ''authorization'') = Inr p
    \<and> cw_audit w' = cw_audit w @ [e] \<and> login_record p correlation e)"
  using assms
  by (auto simp: authenticate_request_def op_simps login_record_def split: option.splits sum.splits py_error.splits dest!: audit_event_Inr)


lemma respond_Inr: "respond status body extra w = (Inr u, w') \<Longrightarrow> \<exists>hs b. cw_sent w' = cw_sent w @ [ResponseStart status hs, b]"
  by (auto simp: respond_def Let_def op_simps)

lemma authenticate_request_None:
  assumes "authenticate_request app scope correlation w = (Inr None, w')"
  shows "\<exists>status hs b. status \<noteq> 200 \<and> cw_sent w' = cw_sent w @ [ResponseStart status hs, b]"
proof -
  have n: "(503::int) \<noteq> 200" "(401::int) \<noteq> 200" by simp_all
  show ?thesis
    using assms
    by (auto simp: authenticate_request_def op_simps split: option.splits sum.splits py_error.splits dest!: audit_event_Inr respond_Inr intro: n)
qed

lemma new_TenantId_Inr: "new_TenantId s = Inr t \<Longrightarrow> t = s"
  by (auto simp: new_TenantId_def res_bind_Inr_iff)

lemma route_request_tenant:
  assumes "path_segments pth = ''v1'' # ''tenants'' # t # rest" and "route_request app scope p correlation pth w = (Inr (), w')"
    and "cw_sent w' = cw_sent w @ [ResponseStart 200 hs, b]"
  shows "tenant_route app scope p t correlation rest w = (Inr (), w')"
proof -
  have "pth \<noteq> ''/v1/me''" using assms(1) by (auto simp: path_segments_def)
  then show ?thesis
    using assms by (auto simp: route_request_def op_eval respond_def Let_def dest!: new_TenantId_Inr split: sum.splits py_error.splits)
qed

lemma tenant_path:
  assumes "path_segments pth = ''v1'' # ''tenants'' # rest"
  shows "pth \<noteq> ''/healthz'' \<and> pth \<noteq> ''/health/live'' \<and> pth \<noteq> ''/readyz'' \<and> pth \<noteq> ''/health/ready''"
  using assms by (auto simp: path_segments_def)

text \<open>
  C10: a tenant's data is only shown to a principal with authority in that tenant, and never silently. Whenever a request for a path below
  \<open>/v1/tenants/t\<close> is answered with 200, its authorization header authenticated a principal that belongs to tenant \<open>t\<close> and holds there, at a time
  read while serving the request, an active role granting the permission of that view; and the trail gained exactly two records with one
  correlation id: the successful authentication of that principal and the decision that allowed that permission. This holds for every way the
  application is configured.
\<close>

theorem tenant_views_are_authorized:
  assumes valid: "\<And>f h p. ca_authentication app = Some f \<Longrightarrow> f h = Inr p \<Longrightarrow> principal_ok p"
    and clock: "\<And>n. dt_aware (ca_clock app n)"
    and path: "map_of scope ''path'' = Some (PStr pth)" "path_segments pth = ''v1'' # ''tenants'' # t # rest"
    and handled: "handle app scope w = (Inr (), w')" "cw_sent w' = cw_sent w @ [ResponseStart 200 hs, b]"
  shows "\<exists>f p n correlation login access. ca_authentication app = Some f \<and> f (single_header scope ''authorization'') = Inr p
    \<and> may_act p t (view_permission rest) (dt_instant (ca_clock app n))
    \<and> cw_audit w' = cw_audit w @ [login, access] \<and> login_record p correlation login \<and> access_record p (view_permission rest) correlation access"
proof -
  obtain correlation w0 found w1 where a: "authenticate_request app scope correlation w0 = (Inr found, w1)"
    and w0: "cw_audit w0 = cw_audit w" "cw_sent w0 = cw_sent w"
    and r: "(case found of None \<Rightarrow> op_return () | Some p \<Rightarrow> route_request app scope p correlation pth) w1 = (Inr (), w')"
    using handled path tenant_path [OF path(2)]
    by (auto simp: handle_def Let_def respond_def new_uuid_def take_tick_def op_simps split: if_splits)
  obtain p where p: "found = Some p"
    using authenticate_request_None [of app scope correlation w0 w1] a r w0 handled(2) by (cases found) (auto simp: op_simps)
  obtain f login where l: "ca_authentication app = Some f" "f (single_header scope ''authorization'') = Inr p" "cw_sent w1 = cw_sent w"
      "cw_audit w1 = cw_audit w @ [login]" "login_record p correlation login"
    using authenticate_request_Some [OF a [unfolded p]] w0 by auto
  have "tenant_route app scope p t correlation rest w1 = (Inr (), w')"
    using route_request_tenant [OF path(2)] r p handled(2) l(3) by simp
  then obtain access where "may_act p t (view_permission rest) (dt_instant (ca_clock app (cw_tick w1)))" "cw_audit w' = cw_audit w1 @ [access]"
      "access_record p (view_permission rest) correlation access"
    using guarded_tenant_route [OF valid [OF l(1,2)] clock, of t rest correlation scope] handled(2) l(3) unfolding guarded_view_def by metis
  then show ?thesis using l by auto
qed


lemma authorize_sent:
  assumes "authorize app p t perm correlation resource w = (Inr allowed, w')"
  shows "if allowed then cw_sent w' = cw_sent w else \<exists>hs b. cw_sent w' = cw_sent w @ [ResponseStart 403 hs, b]"
proof -
  obtain d w1 where a: "audit_authorization app p resource d correlation (w\<lparr>cw_tick := Suc (cw_tick w)\<rparr>) = (Inr (), w1)"
    and r: "(if ad_allowed d then op_return True
       else op_bind (respond 403 [(''error'', JObj [(''code'', JStr ''authorization_denied''), (''reason'', JStr (ad_reason d))])] [])
         (\<lambda>_. op_return False)) w1 = (Inr allowed, w')"
    using assms by (auto simp: authorize_def op_bind_Inr_iff op_lift_iff now_utc_eval)
  have "cw_sent w1 = cw_sent w" using a by (auto simp: audit_authorization_def op_bind_Inr_iff op_lift_iff dest!: audit_event_Inr)
  then show ?thesis using r by (auto simp: op_bind_Inr_iff op_simps split: if_splits dest!: respond_Inr)
qed

section \<open>What the ledger view shows\<close>

text \<open>
  C35: the ledger view shows the tenant's own events, redacted. When the ledger of tenant \<open>t\<close> is served from the durable store, the
  response is either an error or the page that follows the cursor of the query: exactly the first hundred stored events of that tenant
  after it in order of position, none of another tenant; and in every payload and every metadata that is shown, at every depth, each sensitive
  value is the placeholder and no text carries a bearer credential.
\<close>

theorem ledger_view_shows_own_redacted_events:
  assumes "ca_event_store app = Some (durable_reader s)" and "tenant_route app scope p t correlation [''ledger''] w = (Inr (), w')"
    and "cw_sent w' = cw_sent w @ [ResponseStart 200 hs, b]"
  shows "\<exists>after page. cursor_parameter scope = Inr after \<and> b = ResponseBody (json_compact (JObj (ledger_body page)))
    \<and> map position_of (EventPage.pg_events page) = map er_global_position (select_all s t after 100)
    \<and> (\<forall>e \<in> set (EventPage.pg_events page). ev_tenant_id e = t
        \<and> (\<forall>k \<in> {''payload'', ''metadata''}. \<exists>v. map_of (event_body e) k = Some v \<and> clean_json v))"
proof -
  obtain after where c: "cursor_parameter scope = Inr after" and g: "get_ledger app p t correlation after w = (Inr (), w')"
    using assms(2,3) by (auto simp: with_cursor_def respond_def Let_def op_eval split: sum.splits)
  obtain allowed w1 where a: "authorize app p t RESOURCE_READ correlation (tenant_resource t ''/ledger'') w = (Inr allowed, w1)"
    and v: "(if allowed then storage_read (fst (read_all t after 100 s)) (\<lambda>page. respond 200 (ledger_body page) []) else op_return ()) w1 = (Inr (), w')"
    using g assms(1) by (auto simp: get_ledger_def authorized_view_def op_bind_Inr_iff durable_reader_def)
  have allowed: "allowed" and sent: "cw_sent w1 = cw_sent w"
    using authorize_sent [OF a] v assms(3) by (auto simp: op_eval split: if_splits)
  obtain page where page: "fst (read_all t after 100 s) = Inr page" "respond 200 (ledger_body page) [] w1 = (Inr (), w')"
    using v allowed sent assms(3) by (auto simp: storage_read_def op_simps split: sum.splits py_error.splits dest!: respond_Inr)
  have b: "b = ResponseBody (json_compact (JObj (ledger_body page)))"
    using page(2) sent assms(3) by (auto simp: respond_def Let_def op_simps simp del: json_compact.simps)
  obtain s' where "read_all t after 100 s = (Inr page, s')" using page(1) by (metis prod.collapse)
  then have "events_from_rows (db_events s) (select_all s t after 100) = Inr (EventPage.pg_events page)"
    by (auto simp: read_all_def op_simps)
  from events_from_rows_fields [OF this]
  have f: "map position_of (EventPage.pg_events page) = map er_global_position (select_all s t after 100)"
    "map ev_tenant_id (EventPage.pg_events page) = map er_tenant_id (select_all s t after 100)" by simp_all
  have "ev_tenant_id e = t" if "e \<in> set (EventPage.pg_events page)" for e
  proof -
    have "ev_tenant_id e \<in> er_tenant_id ` set (select_all s t after 100)" using that f(2) by (metis image_eqI list.set_map)
    then show ?thesis by (auto simp: select_all_def dest: in_set_takeD)
  qed
  moreover have "clean_json (JObj (redact_details d))" for d using redact_value_clean [of "JObj d"] unfolding redact_details_value .
  then have "\<exists>v. map_of (event_body e) k = Some v \<and> clean_json v" if "k \<in> {''payload'', ''metadata''}" for e k
    using that by (auto simp: event_body_def simp del: clean_json.simps)
  ultimately show ?thesis using c b f(1) by blast
qed


section \<open>A request\<close>

definition sample_app :: ControlPlaneApp where
  "sample_app =
     \<lparr>ca_authentication = Some (\<lambda>h. fst (authenticate sample_library sample_jwt_config (remote_get_key sample_library 5 (sample_fetch ''RS256''))
        (resolve sample_directory) h sample_remote)),
      ca_tenants = (\<lambda>t. Inr None), ca_policies = (\<lambda>t. Inr None), ca_event_store = Some (durable_reader (sample_read_model [] [])),
      ca_projections = Some (durable_run_status (sample_read_model [] [])), ca_storage_ready = None, ca_gateway_operations = None, ca_configuration_error = None,
      ca_clock = (\<lambda>n. dt_of_instant 50), ca_ids = (\<lambda>n. of_nat n), ca_monotonic = (\<lambda>n. of_nat n)\<rparr>"

definition sample_scope :: asgi_scope where
  "sample_scope = [(''type'', PStr ''http''), (''path'', PStr ''/v1/tenants/acme/ledger''),
     (''headers'', PList [PTuple [PBytes ''Authorization'', PBytes ''Bearer tok'']])]"

definition idle_world :: cp_world where
  "idle_world = \<lparr>cw_tick = 0, cw_audit = [], cw_sent = []\<rparr>"

lemma sample_app_ok:
  "ca_authentication sample_app = Some f \<Longrightarrow> f h = Inr p \<Longrightarrow> principal_ok p" "dt_aware (ca_clock sample_app n)"
  "ca_event_store sample_app = Some (durable_reader (sample_read_model [] []))"
proof -
  assume f: "ca_authentication sample_app = Some f" "f h = Inr p"
  then obtain s' where "authenticate sample_library sample_jwt_config (remote_get_key sample_library 5 (sample_fetch ''RS256'')) (resolve sample_directory) h sample_remote
      = (Inr p, s')"
    by (auto simp: sample_app_def) (metis prod.collapse)
  then show "principal_ok p" by (rule authenticated_principal_ok [OF sample_record_ok sample_directory_built])
qed (simp_all add: sample_app_def)

lemma sample_scope_fields:
  "map_of sample_scope ''type'' = Some (PStr ''http'')" "map_of sample_scope ''path'' = Some (PStr ''/v1/tenants/acme/ledger'')"
  "path_segments ''/v1/tenants/acme/ledger'' = ''v1'' # ''tenants'' # ''acme'' # [''ledger'']" "map_of sample_scope ''method'' = None"
  "single_header sample_scope ''authorization'' = Some ''Bearer tok''" "cursor_parameter sample_scope = Inr 0"
  by (code_simp+)

lemma sample_audited:
  assumes "actr \<noteq> []" "action \<noteq> []" "resource \<noteq> []"
  shows "\<exists>w'. audit_event sample_app tenant ty outcome actr action resource correlation details w = (Inr (), w') \<and> cw_sent w' = cw_sent w"
  using assms by (auto simp: audit_event_def new_uuid_def now_utc_def take_tick_def op_eval init_AuditEvent_def sample_app_def audit_append_eval
      require_aware_datetime_def)

lemma sample_login:
  "\<exists>w'. authenticate_request sample_app sample_scope correlation w = (Inr (Some sample_principal), w') \<and> cw_sent w' = cw_sent w"
proof -
  have a: "ca_authentication sample_app = Some f \<Longrightarrow> f (Some ''Bearer tok'') = Inr sample_principal" for f
    using sample_authenticated by (auto simp: sample_app_def)
  obtain f where f: "ca_authentication sample_app = Some f" by (simp add: sample_app_def)
  have "principal_actor_id sample_principal = Inr ''u1''" by (simp add: principal_actor_id_def sample_principal_def)
  then show ?thesis
    using sample_audited [of "''u1''" "''authenticate''" "''control-plane''" "pr_tenant_id sample_principal" AUTHENTICATION_OUTCOME OUTCOME_SUCCESS correlation
        "[(''subject'', JStr (pr_subject sample_principal)), (''issuer'', JStr (pr_issuer sample_principal))]" w]
    by (auto simp: authenticate_request_def f a [OF f] sample_scope_fields op_lift_def op_return_def)
qed

lemma sample_ledger:
  "\<exists>w' hs b. tenant_route sample_app sample_scope sample_principal ''acme'' correlation [''ledger''] w = (Inr (), w')
    \<and> cw_sent w' = cw_sent w @ [ResponseStart 200 hs, b]"
proof -
  let ?d = "\<lparr>ad_allowed = True, ad_reason = ''role_permission_granted'', ad_tenant_id = ''acme'', ad_permission = ''resource:read'', ad_active_roles = [OPERATOR]\<rparr>"
  have d: "decide sample_principal ''acme'' (Known RESOURCE_READ) (dt_of_instant 50) = Inr ?d"
    by (simp add: decide_def sample_principal_def sample_binding_def is_active_def require_aware_datetime_def require_def dt_le_def before_limit_def Let_def)
  have c: "ca_clock sample_app n = dt_of_instant 50" for n by (simp add: sample_app_def)
  have u: "principal_actor_id sample_principal = Inr ''u1''" by (simp add: principal_actor_id_def sample_principal_def)
  obtain w1 where "audit_authorization sample_app sample_principal (tenant_resource ''acme'' ''/ledger'') ?d correlation (w\<lparr>cw_tick := Suc (cw_tick w)\<rparr>)
      = (Inr (), w1)" and s: "cw_sent w1 = cw_sent w"
    using sample_audited [of "''u1''" "ad_permission ?d" "tenant_resource ''acme'' ''/ledger''" "pr_tenant_id sample_principal" AUTHORIZATION_DECISION
        OUTCOME_SUCCESS correlation "[(''attempted_tenant_id'', JStr ''acme''), (''reason'', JStr ''role_permission_granted''),
          (''roles'', JArr [JStr (Role_value OPERATOR)])]" "w\<lparr>cw_tick := Suc (cw_tick w)\<rparr>"]
    by (auto simp: audit_authorization_def u op_lift_def tenant_resource_def)
  then have a: "authorize sample_app sample_principal ''acme'' RESOURCE_READ correlation (tenant_resource ''acme'' ''/ledger'') w = (Inr True, w1)"
    by (simp add: authorize_def now_utc_eval c d op_lift_def op_return_def)
  obtain page where r: "fst (read_all ''acme'' 0 100 (sample_read_model [] [])) = Inr page"
    by (simp add: read_all_def op_eval validate_page_arguments_def select_all_def gap_free_row_def sample_read_model_def)
  show ?thesis
    by (simp add: with_cursor_def sample_scope_fields get_ledger_def authorized_view_def a sample_app_ok(3) durable_reader_def r storage_read_def
        respond_def Let_def op_modify_def s del: json_compact.simps)
qed

lemma sample_handled:
  "\<exists>w' hs b. handle sample_app sample_scope idle_world = (Inr (), w') \<and> cw_sent w' = cw_sent idle_world @ [ResponseStart 200 hs, b]"
proof -
  have t: "new_TenantId ''acme'' = Inr ''acme''" by code_simp
  obtain w1 where 1: "authenticate_request sample_app sample_scope (of_nat 0) (idle_world\<lparr>cw_tick := 1\<rparr>) = (Inr (Some sample_principal), w1)"
    "cw_sent w1 = []"
    using sample_login [of "of_nat 0" "idle_world\<lparr>cw_tick := 1\<rparr>"] by (auto simp: idle_world_def)
  obtain w' hs b where 2: "tenant_route sample_app sample_scope sample_principal ''acme'' (of_nat 0) [''ledger''] w1 = (Inr (), w')"
    "cw_sent w' = cw_sent w1 @ [ResponseStart 200 hs, b]"
    using sample_ledger by blast
  have "handle sample_app sample_scope idle_world = (Inr (), w')"
    using 1 2 sample_scope_fields t
    by (simp add: handle_def new_uuid_def take_tick_def op_eval route_request_def idle_world_def sample_app_def del: tenant_route.simps)
  then show ?thesis using 2(2) 1(2) by (simp add: idle_world_def)
qed

theorem request_answered_once_witness: "\<exists>w'. handle sample_app sample_scope idle_world = (Inr (), w') \<and> well_framed (cw_sent w')"
proof -
  obtain w' hs b where h: "handle sample_app sample_scope idle_world = (Inr (), w')" using sample_handled by blast
  from request_answered_once [OF h] have "well_framed (cw_sent w')" by (auto simp: sample_scope_fields idle_world_def)
  then show ?thesis using h by blast
qed

theorem tenant_views_are_authorized_witness:
  "\<exists>w' p correlation login access. handle sample_app sample_scope idle_world = (Inr (), w') \<and> pr_tenant_id p = ''acme''
    \<and> cw_audit w' = [login, access] \<and> login_record p correlation login \<and> access_record p RESOURCE_READ correlation access"
proof -
  obtain w' hs b where h: "handle sample_app sample_scope idle_world = (Inr (), w')" "cw_sent w' = cw_sent idle_world @ [ResponseStart 200 hs, b]"
    using sample_handled by blast
  have v: "view_permission [''ledger''] = RESOURCE_READ" "cw_audit idle_world = []" by (simp_all add: view_permission_def idle_world_def)
  have "\<exists>f p n correlation login access. ca_authentication sample_app = Some f \<and> f (single_header sample_scope ''authorization'') = Inr p
    \<and> may_act p ''acme'' (view_permission [''ledger'']) (dt_instant (ca_clock sample_app n)) \<and> cw_audit w' = cw_audit idle_world @ [login, access]
    \<and> login_record p correlation login \<and> access_record p (view_permission [''ledger'']) correlation access"
    by (rule tenant_views_are_authorized [OF _ _ sample_scope_fields(2,3) h]) (erule (1) sample_app_ok(1), rule sample_app_ok(2))
  then show ?thesis unfolding v may_act_def append_Nil using h(1) by blast
qed

theorem ledger_view_shows_own_redacted_events_witness:
  "\<exists>w' page. snd (tenant_route sample_app sample_scope sample_principal ''acme'' 0 [''ledger''] idle_world) = w'
    \<and> map position_of (EventPage.pg_events page) = [1] \<and> (\<exists>m. cw_sent w' = [m, ResponseBody (json_compact (JObj (ledger_body page)))])"
proof -
  obtain w' hs b where r: "tenant_route sample_app sample_scope sample_principal ''acme'' 0 [''ledger''] idle_world = (Inr (), w')"
    "cw_sent w' = cw_sent idle_world @ [ResponseStart 200 hs, b]" using sample_ledger by blast
  have "map er_global_position (select_all (sample_read_model [] []) ''acme'' 0 100) = [1]" by (simp add: select_all_def sample_read_model_def)
  then obtain page where "b = ResponseBody (json_compact (JObj (ledger_body page)))" "map position_of (EventPage.pg_events page) = [1]"
    using ledger_view_shows_own_redacted_events [OF sample_app_ok(3) r] sample_scope_fields(6) by auto
  moreover have "cw_sent w' = [ResponseStart 200 hs, b]" using r(2) by (simp add: idle_world_def)
  ultimately show ?thesis using r(1) by (metis snd_conv)
qed


text \<open>The model views read the policy outside the guard of the other reads: a transient storage failure is raised, not answered with 503.\<close>

lemma model_view_storage_failure_escapes:
  assumes "authorize app p t MODEL_READ correlation (tenant_resource t (''/'' @ view)) w = (Inr True, w')" and "ca_gateway_operations app = Some g"
    and "ca_policies app t = Inl TransientStorageError"
  shows "get_model_view app p t correlation view w = (Inl TransientStorageError, w')"
  using assms by (simp add: get_model_view_def authorized_view_def op_lift_def)

end
