(* ===== verification/Redis_Streams.thy ===== *)
theory Redis_Streams
  imports Json_Text Complex_Main
begin

text \<open>
  \<^verbatim>\<open>queueing/redis_streams.py\<close>: the work queue on one Redis stream with a consumer group. The Redis client is a parameter, a record of its
  commands over a server state; every command answers or raises a \<open>redis_error\<close>. The queue itself keeps whether its group exists and where each
  consumer's reclaiming stands. Entries are UTF-8 texts of characters up to \<^verbatim>\<open>00ff\<close>.
\<close>

section \<open>The client\<close>

datatype redis_error = RedisConnectionError string | RedisTimeoutError string | ResponseError string | OtherRedisError string

primrec redis_text :: "redis_error \<Rightarrow> string" where
  "redis_text (RedisConnectionError m) = m"
| "redis_text (RedisTimeoutError m) = m"
| "redis_text (ResponseError m) = m"
| "redis_text (OtherRedisError m) = m"

type_synonym ('s, 'a) command = "'s \<Rightarrow> (redis_error + 'a) \<times> 's"
type_synonym stream_entry = "pyval \<times> (pyval \<times> pyval) list"

text \<open>
  The two pipelines run as transactions: \<open>rc_acknowledge\<close> is XACK and XDEL with both counts, \<open>rc_quarantine\<close> is XADD to the poison
  stream (entry id and reason), XACK and XDEL.
\<close>

record 's redis_client =
  rc_xgroup_create :: "string \<Rightarrow> string \<Rightarrow> ('s, unit) command"
  rc_xadd :: "string \<Rightarrow> string \<Rightarrow> ('s, pyval) command"
  rc_xreadgroup :: "string \<Rightarrow> string \<Rightarrow> string \<Rightarrow> int \<Rightarrow> int option \<Rightarrow> ('s, (pyval \<times> stream_entry list) list) command"
  rc_acknowledge :: "string \<Rightarrow> string \<Rightarrow> string \<Rightarrow> ('s, int \<times> int) command"
  rc_quarantine :: "string \<Rightarrow> string \<Rightarrow> string \<Rightarrow> string \<Rightarrow> string \<Rightarrow> ('s, unit) command"
  rc_xpending_range :: "string \<Rightarrow> string \<Rightarrow> string \<Rightarrow> string \<Rightarrow> int \<Rightarrow> int option \<Rightarrow> ('s, py_mapping list) command"
  rc_xautoclaim :: "string \<Rightarrow> string \<Rightarrow> string \<Rightarrow> int \<Rightarrow> string \<Rightarrow> int \<Rightarrow> ('s, pyval \<times> stream_entry list) command"
  rc_ping :: "('s, bool) command"
  rc_socket_timeout :: "rat option"

section \<open>Envelopes in entries\<close>

text \<open>What the decoder uses of floats: the float a literal denotes and the truncation of a finite one.\<close>

record float_library =
  fl_literal :: "string \<Rightarrow> pyfloat"
  fl_trunc :: "string \<Rightarrow> int"

definition py_int_value :: "float_library \<Rightarrow> pyval \<Rightarrow> int res" where
  "py_int_value lib v = (case v of
     PInt i \<Rightarrow> Inr i
   | PBool b \<Rightarrow> Inr (if b then 1 else 0)
   | PFloat (FiniteFloat r) \<Rightarrow> Inr (fl_trunc lib r)
   | PFloat (NonFiniteFloat r) \<Rightarrow>
       if r = ''nan'' then Inl (ValueError ''cannot convert float NaN to integer'') else Inl (OverflowError ''cannot convert float infinity to integer'')
   | PStr s \<Rightarrow> int_of s
   | PBytes s \<Rightarrow> int_of s
   | _ \<Rightarrow> Inl (TypeError ''int() argument must be a string, a bytes-like object or a real number''))"

definition utf8_length :: "string \<Rightarrow> nat" where
  "utf8_length s = sum_list (map (\<lambda>c. if (of_char c :: nat) < 128 then 1 else 2) s)"

definition object_get :: "(pyval \<times> pyval) list \<Rightarrow> string \<Rightarrow> pyval" where
  "object_get m k = (case map_of m (PStr k) of None \<Rightarrow> PNone | Some v \<Rightarrow> v)"

definition envelope_of_value :: "float_library \<Rightarrow> pyval \<Rightarrow> MessageEnvelope res" where
  "envelope_of_value lib v = (case v of
     PDict value \<Rightarrow>
       res_bind (dict_item value ''payload'') (\<lambda>payload_value.
       res_bind (dict_item value ''headers'') (\<lambda>headers_value.
       (case (payload_value, headers_value) of
          (PDict raw_payload, PDict raw_headers) \<Rightarrow>
            res_bind (res_bind (dict_item value ''message_id'') (\<lambda>x. UUID_of (py_str x))) (\<lambda>message_id.
            res_bind (dict_item value ''tenant_id'') (\<lambda>tenant_id.
            res_bind (res_bind (dict_item value ''work_id'') (\<lambda>x. UUID_of (py_str x))) (\<lambda>work_id.
            res_bind (optional_uuid (object_get value ''event_id'')) (\<lambda>event_id.
            res_bind (dict_item value ''destination'') (\<lambda>destination.
            res_bind (res_bind (dict_item value ''correlation_id'') (\<lambda>x. UUID_of (py_str x))) (\<lambda>correlation_id.
            res_bind (optional_uuid (object_get value ''causation_id'')) (\<lambda>causation_id.
            res_bind (res_bind (dict_item value ''occurred_at'') (\<lambda>x. datetime_of (py_str x))) (\<lambda>occurred_at.
            res_bind (res_bind (dict_item value ''schema_version'') (py_int_value lib)) (\<lambda>version.
            init_MessageEnvelope raw_payload raw_headers
              \<lparr>me_message_id = message_id, me_tenant_id = py_str tenant_id, me_work_id = work_id, me_event_id = event_id,
               me_destination = py_str destination, me_correlation_id = correlation_id, me_causation_id = causation_id,
               me_occurred_at = occurred_at, me_payload = [], me_headers = [], me_schema_version = version\<rparr>)))))))))
        | _ \<Rightarrow> Inl (TypeError []))))
   | _ \<Rightarrow> Inl (TypeError []))"

text \<open>The exceptions the decoder turns into a poison message; any other one escapes.\<close>

definition poisons :: "py_error \<Rightarrow> bool" where
  "poisons e = (case e of KeyError _ \<Rightarrow> True | TypeError _ \<Rightarrow> True | ValueError _ \<Rightarrow> True | _ \<Rightarrow> False)"

definition entry_text :: "(pyval \<times> pyval) list \<Rightarrow> (nat \<times> string option) option" where
  "entry_text flds =
     (let encoded = (case map_of flds (PBytes ''envelope'') of Some v \<Rightarrow> v | None \<Rightarrow> object_get flds ''envelope'') in
      case encoded of PBytes b \<Rightarrow> Some (length b, utf8_decode b) | PStr s \<Rightarrow> Some (utf8_length s, Some s) | _ \<Rightarrow> None)"

definition decode_fields :: "float_library \<Rightarrow> (pyval \<times> pyval) list \<Rightarrow> MessageEnvelope res" where
  "decode_fields lib flds = (case entry_text flds of
     None \<Rightarrow> Inl (PoisonMessageError ''stream entry has no envelope'')
   | Some (bytes, text) \<Rightarrow>
       if max_envelope_bytes < bytes then Inl (PoisonMessageError ''message envelope exceeds 256 KiB'')
       else (case Option.bind text (json_loads (fl_literal lib)) of
               None \<Rightarrow> Inl (PoisonMessageError ''invalid message envelope'')
             | Some v \<Rightarrow> (case envelope_of_value lib v of
                 Inl e \<Rightarrow> Inl (if poisons e then PoisonMessageError ''invalid message envelope'' else e)
               | Inr m \<Rightarrow> Inr m)))"

section \<open>The queue\<close>

record RedisStreamQueue =
  rq_stream :: string
  rq_group :: string
  rq_poison_stream :: string

definition new_RedisStreamQueue :: "string \<Rightarrow> string \<Rightarrow> RedisStreamQueue res" where
  "new_RedisStreamQueue stream grp =
     res_bind (require (stream \<noteq> [] \<and> grp \<noteq> []) (ValueError ''stream and group are required'')) (\<lambda>_.
     Inr \<lparr>rq_stream = stream, rq_group = grp, rq_poison_stream = stream @ '':poison''\<rparr>)"

record 's queue_world =
  qw_server :: 's
  qw_group_ready :: bool
  qw_reclaim_cursors :: "(string \<times> string) list"

definition nogroup :: "redis_error \<Rightarrow> bool" where
  "nogroup e = (case e of ResponseError m \<Rightarrow> occurs_in ''NOGROUP'' m | _ \<Rightarrow> False)"

definition classify_redis_error :: "redis_error \<Rightarrow> py_error" where
  "classify_redis_error e = (case e of
     RedisConnectionError _ \<Rightarrow> RetryableQueueError ''redis transport unavailable''
   | RedisTimeoutError _ \<Rightarrow> RetryableQueueError ''redis transport unavailable''
   | _ \<Rightarrow> if nogroup e then RetryableQueueError ''redis consumer group missing'' else PermanentQueueError ''redis operation rejected'')"

definition run_command :: "('s, 'a) command \<Rightarrow> ('s queue_world, redis_error + 'a) op" where
  "run_command f = (\<lambda>w. case f (qw_server w) of (r, s) \<Rightarrow> (Inr r, w\<lparr>qw_server := s\<rparr>))"

definition handle_nogroup :: "redis_error \<Rightarrow> ('s queue_world, unit) op" where
  "handle_nogroup e = op_modify (\<lambda>w. if nogroup e then w\<lparr>qw_group_ready := False, qw_reclaim_cursors := []\<rparr> else w)"

definition redis_call :: "('s, 'a) command \<Rightarrow> ('s queue_world, 'a) op" where
  "redis_call f = op_bind (run_command f) (\<lambda>r. case r of
     Inr a \<Rightarrow> op_return a
   | Inl e \<Rightarrow> op_bind (handle_nogroup e) (\<lambda>_. op_raise (classify_redis_error e)))"

definition ensure_group :: "'s redis_client \<Rightarrow> RedisStreamQueue \<Rightarrow> ('s queue_world, unit) op" where
  "ensure_group client q = op_bind (op_gets qw_group_ready) (\<lambda>ready.
     if ready then op_return ()
     else op_bind (run_command (rc_xgroup_create client (rq_stream q) (rq_group q))) (\<lambda>r.
       op_bind (case r of
           Inl e \<Rightarrow> if occurs_in ''BUSYGROUP'' (redis_text e) then op_return () else op_raise (classify_redis_error e)
         | Inr _ \<Rightarrow> op_return ()) (\<lambda>_.
       op_modify (\<lambda>w. w\<lparr>qw_group_ready := True\<rparr>))))"

definition text_of :: "pyval \<Rightarrow> string" where
  "text_of v = (case v of PBytes b \<Rightarrow> b | _ \<Rightarrow> py_str v)"

definition queue_publish_entry :: "'s redis_client \<Rightarrow> RedisStreamQueue \<Rightarrow> MessageEnvelope \<Rightarrow> ('s queue_world, string) op" where
  "queue_publish_entry client q m =
     op_bind (ensure_group client q) (\<lambda>_.
     op_bind (op_lift (encode_envelope m)) (\<lambda>encoded.
     op_bind (redis_call (rc_xadd client (rq_stream q) encoded)) (\<lambda>result.
     op_return (text_of result))))"

definition quarantine_poison :: "'s redis_client \<Rightarrow> RedisStreamQueue \<Rightarrow> string \<Rightarrow> string \<Rightarrow> ('s queue_world, unit) op" where
  "quarantine_poison client q entry_id reason_code =
     redis_call (rc_quarantine client (rq_poison_stream q) reason_code (rq_stream q) (rq_group q) entry_id)"

primrec decode_entries :: "'s redis_client \<Rightarrow> RedisStreamQueue \<Rightarrow> float_library \<Rightarrow> int \<Rightarrow> int \<Rightarrow> stream_entry list \<Rightarrow> ('s queue_world, QueueDelivery list) op" where
  "decode_entries client q lib delivery_count idle [] = op_return []"
| "decode_entries client q lib delivery_count idle (entry # entries) =
     (let text_id = text_of (fst entry) in
      case decode_fields lib (snd entry) of
        Inl (PoisonMessageError m) \<Rightarrow>
          op_bind (quarantine_poison client q text_id ''invalid_envelope'') (\<lambda>_. decode_entries client q lib delivery_count idle entries)
      | Inl e \<Rightarrow> op_raise e
      | Inr envelope \<Rightarrow>
          op_bind (op_lift (init_QueueDelivery \<lparr>dv_stream_entry_id = text_id, dv_envelope = envelope, dv_delivery_count = delivery_count,
            dv_idle_milliseconds = idle\<rparr>)) (\<lambda>d.
          op_bind (decode_entries client q lib delivery_count idle entries) (\<lambda>ds.
          op_return (d # ds))))"

definition validate_consumer_read :: "string \<Rightarrow> int \<Rightarrow> int \<Rightarrow> unit res" where
  "validate_consumer_read consumer count block =
     res_bind (require (consumer \<noteq> []) (ValueError ''consumer is required'')) (\<lambda>_.
     res_bind (require (1 \<le> count \<and> count \<le> 100) (ValueError ''read count must be between 1 and 100'')) (\<lambda>_.
     require (0 \<le> block \<and> block \<le> 60000) (ValueError ''block_milliseconds must be between 0 and 60000'')))"

definition validate_block :: "rat option \<Rightarrow> int \<Rightarrow> unit res" where
  "validate_block socket_timeout block = (case socket_timeout of
     Some t \<Rightarrow> require (block \<le> 0 \<or> of_int block < t * 1000)
       (ValueError (''block_milliseconds ('' @ int_str block @ '' ms) must be less than the Redis socket timeout ('' @ int_str \<lfloor>t * 1000\<rfloor>
         @ '' ms); increase socket_timeout or reduce block_milliseconds''))
   | None \<Rightarrow> Inr ())"

definition queue_read :: "'s redis_client \<Rightarrow> RedisStreamQueue \<Rightarrow> float_library \<Rightarrow> string \<Rightarrow> int \<Rightarrow> int \<Rightarrow> ('s queue_world, QueueDelivery list) op" where
  "queue_read client q lib consumer count block =
     op_bind (ensure_group client q) (\<lambda>_.
     op_bind (op_lift (validate_consumer_read consumer count block)) (\<lambda>_.
     op_bind (op_lift (validate_block (rc_socket_timeout client) block)) (\<lambda>_.
     op_bind (redis_call (rc_xreadgroup client (rq_group q) consumer (rq_stream q) count (if 0 < block then Some block else None))) (\<lambda>rows.
     decode_entries client q lib 1 0 (concat (map snd rows))))))"

definition queue_acknowledge :: "'s redis_client \<Rightarrow> RedisStreamQueue \<Rightarrow> QueueDelivery \<Rightarrow> ('s queue_world, unit) op" where
  "queue_acknowledge client q d =
     op_bind (ensure_group client q) (\<lambda>_.
     op_bind (redis_call (rc_acknowledge client (rq_stream q) (rq_group q) (dv_stream_entry_id d))) (\<lambda>result.
     op_require (fst result = 0 \<or> fst result = 1) (PermanentQueueError ''unexpected acknowledgement count'')))"

definition queue_quarantine :: "'s redis_client \<Rightarrow> RedisStreamQueue \<Rightarrow> QueueDelivery \<Rightarrow> string \<Rightarrow> ('s queue_world, unit) op" where
  "queue_quarantine client q d reason_code =
     op_bind (op_require (reason_code \<noteq> [] \<and> length reason_code \<le> 128) (ValueError ''bounded reason_code is required'')) (\<lambda>_.
     quarantine_poison client q (dv_stream_entry_id d) reason_code)"

record PendingEntry =
  pe_stream_entry_id :: string
  pe_consumer :: string
  pe_idle_milliseconds :: int
  pe_delivery_count :: int

definition pending_entry :: "py_mapping \<Rightarrow> PendingEntry res" where
  "pending_entry row =
     res_bind (mapping_item row ''message_id'') (\<lambda>i.
     res_bind (mapping_item row ''consumer'') (\<lambda>c.
     res_bind (res_bind (mapping_item row ''time_since_delivered'') (\<lambda>v. int_of (py_str v))) (\<lambda>idle.
     res_bind (res_bind (mapping_item row ''times_delivered'') (\<lambda>v. int_of (py_str v))) (\<lambda>n.
     Inr \<lparr>pe_stream_entry_id = text_of i, pe_consumer = text_of c, pe_idle_milliseconds = idle, pe_delivery_count = n\<rparr>))))"

primrec pending_entries :: "py_mapping list \<Rightarrow> PendingEntry list res" where
  "pending_entries [] = Inr []"
| "pending_entries (row # rows) = res_bind (pending_entry row) (\<lambda>p. res_bind (pending_entries rows) (\<lambda>ps. Inr (p # ps)))"

definition queue_pending :: "'s redis_client \<Rightarrow> RedisStreamQueue \<Rightarrow> int \<Rightarrow> int \<Rightarrow> string \<Rightarrow> string \<Rightarrow> ('s queue_world, PendingEntry list) op" where
  "queue_pending client q count minimum_idle start_id end_id =
     op_bind (ensure_group client q) (\<lambda>_.
     op_bind (op_require (1 \<le> count \<and> count \<le> 1000 \<and> 0 \<le> minimum_idle \<and> start_id \<noteq> [] \<and> end_id \<noteq> [])
       (ValueError ''invalid bounded pending query'')) (\<lambda>_.
     op_bind (redis_call (rc_xpending_range client (rq_stream q) (rq_group q) start_id end_id count
       (if minimum_idle = 0 then None else Some minimum_idle))) (\<lambda>rows.
     op_lift (pending_entries rows))))"

primrec reclaimed_entries ::
  "'s redis_client \<Rightarrow> RedisStreamQueue \<Rightarrow> float_library \<Rightarrow> int \<Rightarrow> (string \<times> PendingEntry) list \<Rightarrow> stream_entry list \<Rightarrow> ('s queue_world, QueueDelivery list) op" where
  "reclaimed_entries client q lib minimum_idle pending_by_id [] = op_return []"
| "reclaimed_entries client q lib minimum_idle pending_by_id (entry # entries) =
     (let pending = map_of pending_by_id (text_of (fst entry)) in
      op_bind (decode_entries client q lib (case pending of Some p \<Rightarrow> pe_delivery_count p | None \<Rightarrow> 2)
        (case pending of Some p \<Rightarrow> pe_idle_milliseconds p | None \<Rightarrow> minimum_idle) [entry]) (\<lambda>ds.
      op_bind (reclaimed_entries client q lib minimum_idle pending_by_id entries) (\<lambda>rest. op_return (ds @ rest))))"

definition queue_reclaim :: "'s redis_client \<Rightarrow> RedisStreamQueue \<Rightarrow> float_library \<Rightarrow> string \<Rightarrow> int \<Rightarrow> int \<Rightarrow> ('s queue_world, QueueDelivery list) op" where
  "queue_reclaim client q lib consumer minimum_idle count =
     op_bind (ensure_group client q) (\<lambda>_.
     op_bind (op_require (consumer \<noteq> [] \<and> 1 \<le> minimum_idle \<and> 1 \<le> count \<and> count \<le> 100) (ValueError ''invalid bounded reclaim request'')) (\<lambda>_.
     op_bind (op_gets (\<lambda>w. case map_of (qw_reclaim_cursors w) consumer of Some c \<Rightarrow> c | None \<Rightarrow> ''0-0'')) (\<lambda>start_id.
     op_bind (redis_call (rc_xautoclaim client (rq_stream q) (rq_group q) consumer minimum_idle start_id count)) (\<lambda>result.
     op_bind (op_modify (\<lambda>w. w\<lparr>qw_reclaim_cursors := AList.update consumer (text_of (fst result)) (qw_reclaim_cursors w)\<rparr>)) (\<lambda>_.
     if snd result = [] then op_return []
     else
       op_bind (queue_pending client q count 0 start_id (if text_of (fst result) = ''0-0'' then ''+'' else text_of (fst result))) (\<lambda>pending.
       reclaimed_entries client q lib minimum_idle (rev (map (\<lambda>p. (pe_stream_entry_id p, p)) pending)) (snd result)))))))"

definition queue_health :: "'s redis_client \<Rightarrow> ('s queue_world, bool) op" where
  "queue_health client = op_bind (run_command (rc_ping client)) (\<lambda>r. op_return (case r of Inr b \<Rightarrow> b | Inl _ \<Rightarrow> False))"


section \<open>Printed texts are ASCII\<close>

lemma is_dec_ascii: "is_dec c \<Longrightarrow> (of_char c :: nat) < 128"
  by (auto simp: is_dec_def digit_val_def Let_def split: if_splits)

lemma takeWhile_ascii: "ascii_text (takeWhile is_dec s)"
  using set_takeWhileD [of _ is_dec s] is_dec_ascii by (auto simp: ascii_text_def)

lemma whole_part_text: "whole_part s = Some (ds, r) \<Longrightarrow> s = ds @ r \<and> ascii_text ds"
proof (cases s)
  case (Cons c t)
  assume "whole_part s = Some (ds, r)"
  then show ?thesis using takeWhile_ascii [of s] takeWhile_dropWhile_id [of is_dec s] Cons
    by (auto simp: whole_part_def simp del: takeWhile.simps dropWhile.simps split: if_splits)
qed (simp add: whole_part_def)

lemma fraction_part_text: "fraction_part s = (f, r) \<Longrightarrow> s = f @ r \<and> ascii_text f"
  using takeWhile_ascii [of "tl s"] by (cases s) (auto simp: fraction_part_def split: if_splits)

lemma exponent_part_text:
  assumes "exponent_part s = (e, r)"
  shows "s = e @ r \<and> ascii_text e"
proof (cases s)
  case Nil
  then show ?thesis using assms by (simp add: exponent_part_def)
next
  case (Cons c t)
  show ?thesis
  proof (cases t)
    case Nil
    then show ?thesis using assms Cons by (auto simp: exponent_part_def Let_def split: if_splits)
  next
    case t: (Cons x u)
    then show ?thesis
      using assms Cons takeWhile_ascii [of u] is_dec_ascii [of x] by (auto simp: exponent_part_def Let_def split: if_splits)
  qed
qed

lemma json_numeral_ascii:
  assumes "json_numeral fl s = Some (v, [])"
  shows "ascii_text s"
proof -
  define sgn where "sgn = (case s of x # _ \<Rightarrow> if x = CHR ''-'' then [x] else [] | [] \<Rightarrow> [])"
  obtain ds r0 f r1 e where p: "whole_part (drop (length sgn) s) = Some (ds, r0)" "fraction_part r0 = (f, r1)" "exponent_part r1 = (e, [])"
    using assms by (auto simp: json_numeral_def Let_def sgn_def [symmetric] split: option.splits prod.splits if_splits)
  have "ascii_text (drop (length sgn) s)"
    using whole_part_text [OF p(1)] fraction_part_text [OF p(2)] exponent_part_text [OF p(3)] by simp
  then show ?thesis by (cases s) (auto simp: sgn_def split: if_splits)
qed

lemma digit_char_ascii: "d < 16 \<Longrightarrow> (of_char (digit_char d) :: nat) < 128"
  by (simp add: of_char_digit_char)

lemma json_string_ascii: "ascii_text (json_string s)"
proof -
  have d: "ascii_text (digits_text 16 4 n)" for n
    using fixed_digits_lt [of 16 4 n] digit_char_ascii by (auto simp: digits_text_def ascii_text_def)
  have "ascii_text (json_escape c)" for c
    using d [of "of_char c"] by (auto simp: json_escape_def Let_def)
  then have "ascii_text (concat (map json_escape s))" by (induction s) simp_all
  then show ?thesis by (simp add: json_string_def)
qed

lemma join_ascii: "\<forall>x \<in> set xs. ascii_text x \<Longrightarrow> ascii_text (join_with '','' xs)"
  by (induction "'',''" xs rule: join_with.induct) auto

lemma json_compact_ascii: "printable fl j \<Longrightarrow> ascii_text (json_compact j)"
proof (induction j)
  case (JInt i)
  then show ?case using json_numeral_ascii [OF json_numeral_int [of i fl]] by simp
next
  case (JFloat r)
  then show ?case using json_numeral_ascii [of fl r] by (simp add: float_literal_def)
next
  case (JArr xs)
  then show ?case using join_ascii [of "map json_compact xs"] by simp
next
  case (JObj kvs)
  have "ascii_text (json_compact v)" if "(k, v) \<in> set kvs" for k v using JObj that by force
  then have "\<forall>x \<in> set (map (\<lambda>(k, v). json_string k @ '':'' @ json_compact v) kvs). ascii_text x" by (auto simp: json_string_ascii)
  from join_ascii [OF this] show ?case by simp
qed (simp_all add: json_string_ascii)


section \<open>Published envelopes are read back\<close>

definition sorted_members :: "json_obj \<Rightarrow> json_obj" where
  "sorted_members kvs = sort_key fst (map (\<lambda>(k, v). (k, json_sorted v)) kvs)"

lemma json_sorted_members: "json_sorted (JObj kvs) = JObj (sorted_members kvs)"
  by (simp add: sorted_members_def)

lemma map_of_members: "map_of (map (\<lambda>(k, v). (PStr k, thaw_json v)) kvs) (PStr k) = map_option thaw_json (map_of kvs k)"
  by (induction kvs) auto

lemma map_of_sorted_members:
  assumes "json_obj_wf kvs"
  shows "map_of (sorted_members kvs) k = map_option json_sorted (map_of kvs k)"
proof -
  have wf: "json_wf (JObj kvs)" using assms by (simp add: json_obj_wf_def)
  have d: "distinct (map fst (sorted_members kvs))" using json_sorted_wf [OF wf] by (simp add: sorted_members_def)
  have d': "distinct (map fst (map (\<lambda>(k, v). (k, json_sorted v)) kvs))"
  proof -
    have "fst \<circ> (\<lambda>(k, v). (k, json_sorted v)) = (fst :: string \<times> json \<Rightarrow> string)" by (auto simp: fun_eq_iff)
    then show ?thesis using wf by simp
  qed
  have "map_of (sorted_members kvs) = map_of (map (\<lambda>(k, v). (k, json_sorted v)) kvs)"
    using map_of_inject_set [OF d d'] by (simp add: sorted_members_def)
  then show ?thesis by (induction kvs) (auto simp: map_of_map)
qed

lemma object_item:
  assumes "json_obj_wf kvs" and "map_of kvs k = Some v"
  shows "dict_item (thaw_items (sorted_members kvs)) k = Inr (thaw_json (json_sorted v))"
    and "object_get (thaw_items (sorted_members kvs)) k = thaw_json (json_sorted v)"
  using map_of_sorted_members [OF assms(1), of k] assms(2)
  by (simp_all add: dict_item_def object_get_def thaw_items_def map_of_members)

text \<open>An envelope that passed its construction-time checks, with a time in the range of datetimes.\<close>

definition message_ok :: "float_library \<Rightarrow> MessageEnvelope \<Rightarrow> bool" where
  "message_ok lib m = (me_tenant_id m \<noteq> [] \<and> me_destination m \<noteq> [] \<and> dt_aware (me_occurred_at m) \<and> dt_ok (me_occurred_at m)
     \<and> me_schema_version m = 1 \<and> json_obj_wf (me_payload m) \<and> json_obj_wf (me_headers m)
     \<and> printable (fl_literal lib) (JObj (me_payload m)) \<and> printable (fl_literal lib) (JObj (me_headers m)))"

definition sorted_envelope :: "MessageEnvelope \<Rightarrow> MessageEnvelope" where
  "sorted_envelope m = m\<lparr>me_payload := sorted_members (me_payload m), me_headers := sorted_members (me_headers m)\<rparr>"

lemma sorted_members_wf: "json_obj_wf d \<Longrightarrow> json_obj_wf (sorted_members d)"
  using json_sorted_wf [of "JObj d"] by (simp add: json_obj_wf_def sorted_members_def)

lemma envelope_body_ok:
  assumes "message_ok lib m"
  shows "json_obj_wf (envelope_body m)" "printable (fl_literal lib) (JObj (envelope_body m))"
proof -
  have "nat_str 1 = ''1''" by code_simp
  then have one: "length (nat_str (nat \<bar>1\<bar>)) \<le> 4300" by simp
  have o: "json_wf (json_opt_uuid u)" "printable fl (json_opt_uuid u)" for u fl by (cases u; simp add: json_opt_uuid_def)+
  show "json_obj_wf (envelope_body m)" using assms o by (auto simp: envelope_body_def message_ok_def json_obj_wf_def)
  show "printable (fl_literal lib) (JObj (envelope_body m))" using assms o one by (simp add: envelope_body_def message_ok_def)
qed

lemma optional_uuid_text: "optional_uuid (thaw_json (json_sorted (json_opt_uuid u))) = Inr u"
  by (cases u) (simp_all add: optional_uuid_def if_present_def json_opt_uuid_def UUID_of_def uuid_of_str_str)

lemma envelope_of_printed:
  assumes "message_ok lib m"
  shows "envelope_of_value lib (PDict (thaw_items (sorted_members (envelope_body m)))) = Inr (sorted_envelope m)"
proof -
  note wf = envelope_body_ok(1) [OF assms]
  have b: "map_of (envelope_body m) ''payload'' = Some (JObj (me_payload m))" "map_of (envelope_body m) ''headers'' = Some (JObj (me_headers m))"
    "map_of (envelope_body m) ''message_id'' = Some (JStr (uuid_str (me_message_id m)))" "map_of (envelope_body m) ''tenant_id'' = Some (JStr (me_tenant_id m))"
    "map_of (envelope_body m) ''work_id'' = Some (JStr (uuid_str (me_work_id m)))" "map_of (envelope_body m) ''destination'' = Some (JStr (me_destination m))"
    "map_of (envelope_body m) ''correlation_id'' = Some (JStr (uuid_str (me_correlation_id m)))"
    "map_of (envelope_body m) ''occurred_at'' = Some (JStr (isoformat (me_occurred_at m)))"
    "map_of (envelope_body m) ''schema_version'' = Some (JInt (me_schema_version m))"
    "map_of (envelope_body m) ''event_id'' = Some (json_opt_uuid (me_event_id m))" "map_of (envelope_body m) ''causation_id'' = Some (json_opt_uuid (me_causation_id m))"
    by (simp_all add: envelope_body_def)
  have i: "UUID_of (uuid_str u) = Inr u" for u by (simp add: UUID_of_def uuid_of_str_str)
  have t: "datetime_of (isoformat (me_occurred_at m)) = Inr (me_occurred_at m)"
    using assms by (simp add: datetime_of_def message_ok_def fromisoformat_isoformat)
  have p: "thaw_json (json_sorted (JObj d)) = PDict (thaw_items (sorted_members d))" for d by (simp add: sorted_members_def thaw_items_def)
  have f: "freeze_json_mapping (thaw_items (sorted_members (me_payload m))) = Inr (sorted_members (me_payload m))"
    "freeze_json_mapping (thaw_items (sorted_members (me_headers m))) = Inr (sorted_members (me_headers m))"
    using assms by (simp_all add: message_ok_def freeze_json_mapping_thaw sorted_members_wf)
  note items = object_item(1) [OF wf b(1)] object_item(1) [OF wf b(2)] object_item(1) [OF wf b(3)] object_item(1) [OF wf b(4)] object_item(1) [OF wf b(5)]
    object_item(1) [OF wf b(6)] object_item(1) [OF wf b(7)] object_item(1) [OF wf b(8)] object_item(1) [OF wf b(9)]
    object_item(2) [OF wf b(10)] object_item(2) [OF wf b(11)]
  show ?thesis
    using assms unfolding envelope_of_value_def pyval.case items p res_bind_simps prod.case optional_uuid_text
    by (simp add: i t py_int_value_def init_MessageEnvelope_def f message_ok_def sorted_envelope_def)
qed

lemma decode_printed:
  assumes "message_ok lib m" and "encode_envelope m = Inr text"
  shows "decode_fields lib [(PBytes ''envelope'', PBytes text)] = Inr (sorted_envelope m)"
proof -
  have tx: "text = json_dumps (JObj (envelope_body m))" "length text \<le> max_envelope_bytes"
    using assms(2) by (auto simp: encode_envelope_def validate_transport_size_def res_bind_Inr_iff)
  note ok = envelope_body_ok [OF assms(1)]
  have wf: "json_wf (JObj (envelope_body m))" using ok(1) by (simp add: json_obj_wf_def)
  have s: "text = json_compact (json_sorted (JObj (envelope_body m)))" using tx(1) by (simp only: json_dumps_sorted)
  have "ascii_text text" unfolding s by (rule json_compact_ascii [OF json_sorted_printable [OF ok(2)]])
  moreover have "json_loads (fl_literal lib) text = Some (PDict (thaw_items (sorted_members (envelope_body m))))"
    using printed_loads [OF json_sorted_wf [OF wf] json_sorted_printable [OF ok(2)]] unfolding s json_sorted_members by (simp add: thaw_items_def)
  ultimately show ?thesis
    using tx(2) envelope_of_printed [OF assms(1)] by (simp add: decode_fields_def entry_text_def utf8_decode_ascii)
qed

lemma sorted_members_eq: "json_obj_wf d \<Longrightarrow> json_obj_eq d (sorted_members d)"
  using json_sorted_eq [of "JObj d"] by (simp only: json_obj_eq_def json_obj_wf_def json_sorted_members)

text \<open>
  C39: what is published is what is delivered. Whenever a valid envelope is accepted for publication, decoding the entry it becomes gives that
  envelope again, every identifier, time and text unchanged, with payload and headers equal as Python compares mappings (the members come back
  sorted by key).
\<close>

theorem queue_entry_roundtrip:
  assumes "message_ok lib m" and "encode_envelope m = Inr text"
  shows "decode_fields lib [(PBytes ''envelope'', PBytes text)] = Inr (sorted_envelope m)
    \<and> json_obj_eq (me_payload m) (me_payload (sorted_envelope m)) \<and> json_obj_eq (me_headers m) (me_headers (sorted_envelope m))"
  using decode_printed [OF assms] assms(1) by (simp add: sorted_envelope_def message_ok_def sorted_members_eq)

section \<open>Poison entries\<close>

definition decodes :: "float_library \<Rightarrow> stream_entry \<Rightarrow> bool" where
  "decodes lib e = (\<exists>m. decode_fields lib (snd e) = Inr m)"

definition poisoned :: "float_library \<Rightarrow> stream_entry \<Rightarrow> bool" where
  "poisoned lib e = (\<exists>msg. decode_fields lib (snd e) = Inl (PoisonMessageError msg))"

definition delivery_of :: "float_library \<Rightarrow> int \<Rightarrow> int \<Rightarrow> stream_entry \<Rightarrow> QueueDelivery" where
  "delivery_of lib n idle e = \<lparr>dv_stream_entry_id = text_of (fst e), dv_envelope = projr (decode_fields lib (snd e)), dv_delivery_count = n,
     dv_idle_milliseconds = idle\<rparr>"



section \<open>A queue\<close>

definition sample_floats :: float_library where
  "sample_floats = \<lparr>fl_literal = FiniteFloat, fl_trunc = (\<lambda>r. 0)\<rparr>"

definition sample_message :: MessageEnvelope where
  "sample_message = \<lparr>me_message_id = 1, me_tenant_id = ''acme'', me_work_id = 2, me_event_id = None, me_destination = ''work'', me_correlation_id = 3,
     me_causation_id = Some 4, me_occurred_at = dt_of_instant 0, me_payload = [(''b'', JInt 7), (''a'', JStr ''x'')], me_headers = [], me_schema_version = 1\<rparr>"

definition sample_queue :: RedisStreamQueue where
  "sample_queue = \<lparr>rq_stream = ''s'', rq_group = ''g'', rq_poison_stream = ''s:poison''\<rparr>"

text \<open>A client whose server only keeps the quarantined ids with their reasons.\<close>

definition sample_client :: "((string \<times> string) list) redis_client" where
  "sample_client = \<lparr>rc_xgroup_create = (\<lambda>s g w. (Inr (), w)), rc_xadd = (\<lambda>s t w. (Inr (PBytes ''1-0''), w)),
     rc_xreadgroup = (\<lambda>g c s n b w. (Inr [], w)), rc_acknowledge = (\<lambda>s g i w. (Inr (1, 1), w)),
     rc_quarantine = (\<lambda>p reason s g i w. (Inr (), w @ [(i, reason)])), rc_xpending_range = (\<lambda>s g a b n i w. (Inr [], w)),
     rc_xautoclaim = (\<lambda>s g c i a n w. (Inr (PBytes ''0-0'', []), w)), rc_ping = (\<lambda>w. (Inr True, w)), rc_socket_timeout = None\<rparr>"

definition idle_queue :: "((string \<times> string) list) queue_world" where
  "idle_queue = \<lparr>qw_server = [], qw_group_ready = True, qw_reclaim_cursors = []\<rparr>"

lemma sample_message_ok: "message_ok sample_floats sample_message"
proof -
  have "nat_str 7 = ''7''" by code_simp
  moreover have "dt_ok (dt_of_instant 0)" by (simp add: dt_ok_def dt_of_instant_def day_micros_def)
  ultimately show ?thesis by (simp add: message_ok_def sample_message_def json_obj_wf_def)
qed

lemma sum_sort_key: "sum_list (map f (sort_key g xs)) = (sum_list (map f xs) :: nat)"
proof -
  have "sum_list (map f (insort_key g a ys)) = f a + (sum_list (map f ys) :: nat)" for a ys by (induction ys) auto
  then show ?thesis by (induction xs) auto
qed

lemma length_join_le: "length (join_with '','' xs) \<le> sum_list (map (\<lambda>x. Suc (length x)) xs)"
  by (induction "'',''" xs rule: join_with.induct) auto

lemma length_json_string_le: "length (json_string s) \<le> 2 + 6 * length s"
proof -
  have "length (json_escape c) \<le> 6" for c by (simp add: json_escape_def Let_def)
  then have "length (concat (map json_escape s)) \<le> 6 * length s" by (induction s) (auto intro: add_mono)
  then show ?thesis by (simp add: json_string_def)
qed

lemma length_json_object_le: "length (json_dumps (JObj kvs)) \<le> 2 + sum_list (map (\<lambda>(k, v). 6 * length k + 4 + length (json_dumps v)) kvs)"
proof -
  let ?ts = "map (\<lambda>(k, v). (k, json_dumps v)) kvs"
  have "length (json_dumps (JObj kvs)) \<le> 2 + sum_list (map (\<lambda>(k, t). Suc (length (json_string k @ '':'' @ t))) (sort_key fst ?ts))"
    using length_join_le [of "map (\<lambda>(k, t). json_string k @ '':'' @ t) (sort_key fst ?ts)"] by (simp add: comp_def case_prod_unfold)
  also have "\<dots> = 2 + sum_list (map (\<lambda>(k, v). Suc (length (json_string k @ '':'' @ json_dumps v))) kvs)"
    unfolding sum_sort_key by (simp add: comp_def case_prod_unfold)
  also have "\<dots> \<le> 2 + sum_list (map (\<lambda>(k, v). 6 * length k + 4 + length (json_dumps v)) kvs)"
  proof -
    have "Suc (length (json_string k @ '':'' @ json_dumps v)) \<le> 6 * length k + 4 + length (json_dumps v)" for k v
      using length_json_string_le [of k] by simp
    then show ?thesis by (intro add_left_mono sum_list_mono) auto
  qed
  finally show ?thesis .
qed

lemma length_isoformat_le: "length (isoformat d) \<le> 100"
  by (simp add: isoformat_def date_text_def hms_text_def offset_text_def micros_text_def Let_def split: prod.splits option.splits)

lemma sample_message_encoded: "\<exists>t. encode_envelope sample_message = Inr t"
proof -
  have s: "length (json_string x) \<le> 2 + 6 * length x" for x by (rule length_json_string_le)
  have i: "length (json_string (uuid_str x)) \<le> 218" for x using s [of "uuid_str x"] by (simp add: uuid_str_def Let_def)
  have u: "length (json_dumps (json_opt_uuid x)) \<le> 218" for x using i by (cases x) (auto simp: json_opt_uuid_def intro: order_trans)
  have t: "length (json_string (isoformat d)) \<le> 602" for d using s [of "isoformat d"] length_isoformat_le [of d] by linarith
  have n: "int_str 1 = ''1''" "int_str 7 = ''7''" by code_simp+
  have p: "length (json_dumps (JObj [(''b'', JInt 7), (''a'', JStr ''x'')])) \<le> 100"
    using length_json_object_le [of "[(''b'', JInt 7), (''a'', JStr ''x'')]"] s [of "''x''"] by (simp add: n del: json_dumps.simps(7))
  have e: "length (json_dumps (JObj [])) = 2" by simp
  have "length (json_dumps (JObj (envelope_body sample_message))) \<le> 5000"
    using length_json_object_le [of "envelope_body sample_message"] s [of "''acme''"] s [of "''work''"] i [of 1] i [of 2] i [of 3] u [of None] u [of "Some 4"]
      t [of "dt_of_instant 0"] p e
    by (simp add: envelope_body_def sample_message_def n del: json_dumps.simps(7))
  then show ?thesis by (simp add: encode_envelope_def validate_transport_size_def max_envelope_bytes_def)
qed

theorem queue_entry_roundtrip_witness:
  "\<exists>t m. encode_envelope sample_message = Inr t \<and> decode_fields sample_floats [(PBytes ''envelope'', PBytes t)] = Inr m
    \<and> me_payload m = [(''a'', JStr ''x''), (''b'', JInt 7)] \<and> me_causation_id m = Some 4"
proof -
  obtain t where t: "encode_envelope sample_message = Inr t" using sample_message_encoded by blast
  have "sorted_members [(''b'', JInt 7), (''a'', JStr ''x'')] = [(''a'', JStr ''x''), (''b'', JInt 7)]" by code_simp
  then show ?thesis using queue_entry_roundtrip [OF sample_message_ok t] t by (auto simp: sorted_envelope_def sample_message_def)
qed


text \<open>
  A number beyond the range of floats is read as infinity, whose conversion to an integer raises an OverflowError: the decoder does not
  take it for poison, and an entry with such a schema version makes every read that meets it raise.
\<close>

lemma infinite_version_escapes:
  "envelope_of_value lib (PDict (AList.update (PStr ''schema_version'') (PFloat (NonFiniteFloat ''inf'')) (thaw_items (envelope_body sample_message))))
     = Inl (OverflowError ''cannot convert float infinity to integer'')"
  "decode_fields lib (snd e) = Inl (OverflowError msg) \<Longrightarrow> decode_entries client q lib n idle (e # es) w = (Inl (OverflowError msg), w)"
proof -
  have d: "datetime_of (isoformat (dt_of_instant 0)) = Inr (dt_of_instant 0)"
    using sample_message_ok by (simp add: message_ok_def sample_message_def datetime_of_def fromisoformat_isoformat)
  show "envelope_of_value lib (PDict (AList.update (PStr ''schema_version'') (PFloat (NonFiniteFloat ''inf'')) (thaw_items (envelope_body sample_message))))
     = Inl (OverflowError ''cannot convert float infinity to integer'')"
    by (simp add: envelope_of_value_def thaw_items_def envelope_body_def sample_message_def dict_item_def object_get_def json_opt_uuid_def optional_uuid_def
        if_present_def UUID_of_def uuid_of_str_str d py_int_value_def)
qed (simp add: op_raise_def Let_def)

end
