(* ===== verification/Providers.thy ===== *)
theory Providers
  imports Json_Text Model_Domain Policy
begin

text \<open>
  \<^verbatim>\<open>providers/_translation.py\<close>, \<^verbatim>\<open>providers/openai.py\<close>, \<^verbatim>\<open>providers/anthropic.py\<close>, \<^verbatim>\<open>providers/fake.py\<close>, \<^verbatim>\<open>providers/config.py\<close> and
  \<^verbatim>\<open>secrets_boundary.py\<close>: the adapters of model vendors. The vendor's SDK is a parameter: what a call ends with is an SDK object, an exception, a timeout or
  a cancellation. An SDK object is a tree of attributes read with \<^verbatim>\<open>getattr\<close>. Conversions of floats are parameters.
\<close>

section \<open>SDK objects\<close>

text \<open>An object has the text \<^verbatim>\<open>str\<close> gives for it and its attributes.\<close>

datatype sdk = SdkValue pyval | SdkList "sdk list" | SdkObject string "(string \<times> sdk) list"

definition getattr :: "sdk \<Rightarrow> string \<Rightarrow> sdk \<Rightarrow> sdk" where
  "getattr obj name dflt = (case obj of SdkObject s attrs \<Rightarrow> (case map_of attrs name of Some v \<Rightarrow> v | None \<Rightarrow> dflt) | _ \<Rightarrow> dflt)"

abbreviation "sdk_none \<equiv> SdkValue PNone"

fun sdk_repr :: "sdk \<Rightarrow> string" where
  "sdk_repr (SdkValue v) = py_repr v"
| "sdk_repr (SdkList xs) = ''['' @ join_with '', '' (map sdk_repr xs) @ '']''"
| "sdk_repr (SdkObject s attrs) = s"

definition sdk_str :: "sdk \<Rightarrow> string" where
  "sdk_str x = (case x of SdkValue v \<Rightarrow> py_str v | _ \<Rightarrow> sdk_repr x)"

definition sdk_list :: "sdk \<Rightarrow> sdk list option" where
  "sdk_list x = (case x of SdkList xs \<Rightarrow> Some xs | SdkValue (PList vs) \<Rightarrow> Some (map SdkValue vs) | _ \<Rightarrow> None)"

definition sdk_iter :: "sdk \<Rightarrow> sdk list res" where
  "sdk_iter x = (case x of
     SdkList xs \<Rightarrow> Inr xs
   | SdkValue (PList vs) \<Rightarrow> Inr (map SdkValue vs)
   | SdkValue (PTuple vs) \<Rightarrow> Inr (map SdkValue vs)
   | SdkValue (PStr s) \<Rightarrow> Inr (map (\<lambda>c. SdkValue (PStr [c])) s)
   | SdkValue (PBytes s) \<Rightarrow> Inr (map (\<lambda>c. SdkValue (PInt (int (of_char c)))) s)
   | SdkValue (PDict kvs) \<Rightarrow> Inr (map (\<lambda>kv. SdkValue (fst kv)) kvs)
   | _ \<Rightarrow> Inl (TypeError ''object is not iterable''))"

section \<open>Errors\<close>

definition malformed :: "string \<Rightarrow> py_error" where
  "malformed code = ModelGatewayError ME_MALFORMED_RESPONSE code False None True"

definition bounded_text :: "sdk \<Rightarrow> int \<Rightarrow> string res" where
  "bounded_text v max_chars = (case v of
     SdkValue (PStr s) \<Rightarrow> if max_chars < int (length s) then Inl (malformed ''provider_response_too_large'') else Inr s
   | _ \<Rightarrow> Inl (malformed ''provider_text_is_not_string''))"

text \<open>An exception of the SDK: its type's name, its status code and the retry-after header of its response.\<close>

record sdk_exception =
  sx_name :: string
  sx_status :: "int option"
  sx_retry_after :: "string option"

datatype parsed_float = NotANumber | NonFiniteNumber | FiniteNumber rat

definition retry_after :: "(string \<Rightarrow> parsed_float) \<Rightarrow> sdk_exception \<Rightarrow> rat option" where
  "retry_after fp x = (case sx_retry_after x of
     None \<Rightarrow> None
   | Some raw \<Rightarrow> (case fp raw of FiniteNumber v \<Rightarrow> if v < 0 then None else Some (min v 300) | _ \<Rightarrow> None))"

definition name_has :: "sdk_exception \<Rightarrow> string \<Rightarrow> bool" where
  "name_has x w = occurs_in w (map ascii_lower (sx_name x))"

text \<open>The delay is kept in whole microseconds.\<close>

definition classify_sdk_error :: "(string \<Rightarrow> parsed_float) \<Rightarrow> sdk_exception \<Rightarrow> py_error" where
  "classify_sdk_error fp x =
     (let status = sx_status x in
      if status = Some 401 \<or> name_has x ''authentication'' then ModelGatewayError ME_AUTHENTICATION ''provider_authentication_failed'' False None False
      else if status = Some 403 \<or> name_has x ''permission'' then ModelGatewayError ME_AUTHORIZATION ''provider_authorization_failed'' False None False
      else if status = Some 429 \<or> name_has x ''ratelimit'' \<or> name_has x ''rate_limit'' then
        ModelGatewayError ME_RATE_LIMIT ''provider_rate_limited'' True (map_option (\<lambda>v. \<lfloor>v * 1000000\<rfloor>) (retry_after fp x)) False
      else if (case status of Some s \<Rightarrow> 400 \<le> s \<and> s < 500 | None \<Rightarrow> False) then ModelGatewayError ME_INVALID_REQUEST ''provider_rejected_request'' False None False
      else if name_has x ''timeout'' then ModelGatewayError ME_TIMEOUT ''provider_timeout'' True None True
      else if name_has x ''connection'' \<or> (case status of Some s \<Rightarrow> 500 \<le> s | None \<Rightarrow> False) then
        ModelGatewayError ME_PROVIDER_UNAVAILABLE ''provider_unavailable'' True None True
      else ModelGatewayError ME_PROVIDER_BUG ''provider_sdk_failure'' False None True)"

text \<open>Exceptions of the adapter's own code reach the same classification under their type's name.\<close>

fun own_exception :: "py_error \<Rightarrow> sdk_exception" where
  "own_exception (ValueError _) = \<lparr>sx_name = ''ValueError'', sx_status = None, sx_retry_after = None\<rparr>"
| "own_exception (TypeError _) = \<lparr>sx_name = ''TypeError'', sx_status = None, sx_retry_after = None\<rparr>"
| "own_exception (KeyError _) = \<lparr>sx_name = ''KeyError'', sx_status = None, sx_retry_after = None\<rparr>"
| "own_exception (PermissionError _) = \<lparr>sx_name = ''PermissionError'', sx_status = None, sx_retry_after = None\<rparr>"
| "own_exception (AuthenticationError _ _) = \<lparr>sx_name = ''AuthenticationError'', sx_status = None, sx_retry_after = None\<rparr>"
| "own_exception (RuntimeError _) = \<lparr>sx_name = ''SecretError'', sx_status = None, sx_retry_after = None\<rparr>"
| "own_exception _ = \<lparr>sx_name = ''Exception'', sx_status = None, sx_retry_after = None\<rparr>"

section \<open>Requests\<close>

definition jdict :: "(string \<times> pyval) list \<Rightarrow> pyval" where
  "jdict kvs = PDict (map (\<lambda>(k, v). (PStr k, v)) kvs)"

definition json_object :: "json_obj \<Rightarrow> pyval" where
  "json_object d = PDict (thaw_items d)"

definition message_text :: "ModelMessage \<Rightarrow> string" where
  "message_text m = join_with [char_of (10::nat)] (List.map_filter (\<lambda>p. case p of TextPart t \<Rightarrow> Some t | _ \<Rightarrow> None) (mm_content m))"

fun openai_item :: "ContentPart \<Rightarrow> pyval" where
  "openai_item (TextPart t) = jdict [(''type'', PStr ''input_text''), (''text'', PStr t)]"
| "openai_item (ImagePart media uri) = jdict [(''type'', PStr ''input_image''), (''image_url'', PStr uri)]"
| "openai_item (ToolCallPart c) = jdict [(''type'', PStr ''function_call''), (''call_id'', PStr (tc_call_id c)), (''name'', PStr (tc_tool_name c)),
     (''arguments'', PStr (json_dumps (JObj (tc_arguments c))))]"
| "openai_item (ToolResultPart i content is_error) = jdict [(''type'', PStr ''function_call_output''), (''call_id'', PStr i), (''output'', PStr (json_dumps content))]"

fun inline_part :: "ContentPart \<Rightarrow> bool" where
  "inline_part (TextPart _) = True" | "inline_part (ImagePart _ _) = True" | "inline_part _ = False"

definition content_message :: "string \<Rightarrow> pyval list \<Rightarrow> pyval list" where
  "content_message role content = (if content = [] then [] else [jdict [(''role'', PStr role), (''content'', PList content)]])"

text \<open>Text and images gather in one message, which a tool call or a tool result closes.\<close>

fun openai_inputs :: "string \<Rightarrow> ContentPart list \<Rightarrow> pyval list \<Rightarrow> pyval list" where
  "openai_inputs role [] content = content_message role content"
| "openai_inputs role (p # ps) content =
     (if inline_part p then openai_inputs role ps (content @ [openai_item p])
      else content_message role content @ openai_item p # openai_inputs role ps [])"

definition openai_role :: "MessageRole \<Rightarrow> string" where
  "openai_role r = (if r = ROLE_SYSTEM then ''developer'' else MessageRole_value r)"

definition openai_request_kwargs :: "(decimal \<Rightarrow> pyfloat) \<Rightarrow> ModelRequest \<Rightarrow> ModelIdentity \<Rightarrow> pyval" where
  "openai_request_kwargs to_float r m = jdict
     ([(''model'', PStr (mi_model m)),
       (''input'', PList (concat (map (\<lambda>msg. openai_inputs (openai_role (mm_role msg)) (mm_content msg) []) (mq_messages r)))),
       (''max_output_tokens'', PInt (mq_max_output_tokens r)), (''temperature'', PFloat (to_float (mq_temperature r))),
       (''extra_headers'', jdict [(''Idempotency-Key'', PStr (mq_idempotency_key r))])]
      @ (if mq_tools r = [] then [] else [(''tools'', PList (map (\<lambda>t. jdict
          [(''type'', PStr ''function''), (''name'', PStr (td_name t)), (''description'', PStr (td_description t)),
           (''parameters'', json_object (js_schema (td_input_schema t))), (''strict'', PBool (js_strict (td_input_schema t)))]) (mq_tools r)))])
      @ (case mq_response_schema r of None \<Rightarrow> [] | Some s \<Rightarrow> [(''text'', jdict [(''format'', jdict
          [(''type'', PStr ''json_schema''), (''name'', PStr (js_name s)), (''schema'', json_object (js_schema s)), (''strict'', PBool (js_strict s))])])]))"

fun anthropic_item :: "ContentPart \<Rightarrow> pyval" where
  "anthropic_item (TextPart t) = jdict [(''type'', PStr ''text''), (''text'', PStr t)]"
| "anthropic_item (ImagePart media uri) = jdict [(''type'', PStr ''image''), (''source'', jdict [(''type'', PStr ''url''), (''url'', PStr uri)])]"
| "anthropic_item (ToolCallPart c) = jdict [(''type'', PStr ''tool_use''), (''id'', PStr (tc_call_id c)), (''name'', PStr (tc_tool_name c)),
     (''input'', json_object (tc_arguments c))]"
| "anthropic_item (ToolResultPart i content is_error) = jdict [(''type'', PStr ''tool_result''), (''tool_use_id'', PStr i),
     (''content'', PStr (json_dumps content)), (''is_error'', PBool is_error)]"

definition anthropic_message :: "ModelMessage \<Rightarrow> pyval" where
  "anthropic_message m = jdict [(''role'', PStr (if mm_role m = ROLE_ASSISTANT then ''assistant'' else ''user'')),
     (''content'', PList (map anthropic_item (mm_content m)))]"

definition anthropic_request_kwargs :: "(decimal \<Rightarrow> pyfloat) \<Rightarrow> ModelRequest \<Rightarrow> ModelIdentity \<Rightarrow> pyval" where
  "anthropic_request_kwargs to_float r m =
     (let systems = map message_text (filter (\<lambda>msg. mm_role msg = ROLE_SYSTEM) (mq_messages r)) in
      jdict
     ([(''model'', PStr (mi_model m)),
       (''messages'', PList (map anthropic_message (filter (\<lambda>msg. mm_role msg \<noteq> ROLE_SYSTEM) (mq_messages r)))),
       (''max_tokens'', PInt (mq_max_output_tokens r)), (''temperature'', PFloat (to_float (mq_temperature r))),
       (''extra_headers'', jdict [(''Idempotency-Key'', PStr (mq_idempotency_key r))])]
      @ (if systems = [] then [] else [(''system'', PStr (join_with [char_of (10::nat), char_of (10::nat)] systems))])
      @ (if mq_tools r = [] then [] else [(''tools'', PList (map (\<lambda>t. jdict
          [(''name'', PStr (td_name t)), (''description'', PStr (td_description t)), (''input_schema'', json_object (js_schema (td_input_schema t)))])
          (mq_tools r)))])
      @ (case mq_response_schema r of None \<Rightarrow> [] | Some s \<Rightarrow> [(''output_config'', jdict [(''format'', jdict
          [(''type'', PStr ''json_schema''), (''schema'', json_object (js_schema s))])])])))"


section \<open>Responses\<close>

definition nonnegative_int :: "sdk \<Rightarrow> int res" where
  "nonnegative_int v = (case v of
     SdkValue (PInt i) \<Rightarrow> if i < 0 then Inl (malformed ''invalid_provider_usage'') else Inr i
   | _ \<Rightarrow> Inl (malformed ''invalid_provider_usage''))"

definition optional_nonnegative_int :: "sdk \<Rightarrow> int res" where
  "optional_nonnegative_int v = (if v = sdk_none then Inr 0 else nonnegative_int v)"

definition sdk_optional_text :: "sdk \<Rightarrow> string option" where
  "sdk_optional_text v = (case v of SdkValue (PStr s) \<Rightarrow> if s = [] then None else Some s | _ \<Rightarrow> None)"

text \<open>\<^verbatim>\<open>getattr(raw, "_request_id", None) or getattr(raw, "id", None)\<close>; an SDK object is true.\<close>

fun sdk_true :: "sdk \<Rightarrow> bool" where
  "sdk_true (SdkValue v) = (case v of PNone \<Rightarrow> False | PBool b \<Rightarrow> b | PInt i \<Rightarrow> i \<noteq> 0 | PFloat (FiniteFloat r) \<Rightarrow> r \<noteq> ''0.0'' \<and> r \<noteq> ''-0.0''
     | PStr s \<Rightarrow> s \<noteq> [] | PBytes s \<Rightarrow> s \<noteq> [] | PList xs \<Rightarrow> xs \<noteq> [] | PTuple xs \<Rightarrow> xs \<noteq> [] | PDict kvs \<Rightarrow> kvs \<noteq> [] | _ \<Rightarrow> True)"
| "sdk_true (SdkList xs) = (xs \<noteq> [])"
| "sdk_true (SdkObject s attrs) = True"

definition response_id :: "sdk \<Rightarrow> string option" where
  "response_id raw = (let a = getattr raw ''_request_id'' sdk_none in sdk_optional_text (if sdk_true a then a else getattr raw ''id'' sdk_none))"

definition latency_ms :: "rat \<Rightarrow> rat \<Rightarrow> int" where
  "latency_ms started finished = max 0 \<lfloor>(finished - started) * 1000\<rfloor>"

definition json_arguments :: "(string \<Rightarrow> pyfloat) \<Rightarrow> sdk \<Rightarrow> (pyval \<times> pyval) list res" where
  "json_arguments fl v = (case v of
     SdkValue (PDict kvs) \<Rightarrow> Inr kvs
   | SdkValue (PStr s) \<Rightarrow> (case json_loads fl s of
       None \<Rightarrow> Inl (malformed ''tool_arguments_not_json'')
     | Some (PDict kvs) \<Rightarrow> Inr kvs
     | Some _ \<Rightarrow> Inl (malformed ''tool_arguments_not_object''))
   | _ \<Rightarrow> Inl (malformed ''tool_arguments_not_json''))"

definition tool_part :: "string \<Rightarrow> string \<Rightarrow> (pyval \<times> pyval) list \<Rightarrow> ContentPart res" where
  "tool_part call_id tool_name arguments =
     res_bind (init_ToolCallProposal call_id tool_name arguments) (\<lambda>c. Inr (ToolCallPart c))"

text \<open>What has been read of a response: the parts, the refusal text and the structured output.\<close>

record reading =
  rd_parts :: "ContentPart list"
  rd_refusal :: "string option"
  rd_structured :: "(pyval \<times> pyval) list option"

definition start_reading :: reading where
  "start_reading = \<lparr>rd_parts = [], rd_refusal = None, rd_structured = None\<rparr>"

definition read_text :: "(sdk \<Rightarrow> (pyval \<times> pyval) list res) \<Rightarrow> int \<Rightarrow> ModelRequest \<Rightarrow> sdk \<Rightarrow> reading \<Rightarrow> reading res" where
  "read_text parse max_chars r v acc =
     res_bind (bounded_text v max_chars) (\<lambda>text.
     res_bind (init_TextPart text) (\<lambda>part.
     res_bind (if mq_response_schema r = None then Inr (rd_structured acc) else res_bind (parse (SdkValue (PStr text))) (\<lambda>kvs. Inr (Some kvs))) (\<lambda>st.
     Inr (acc\<lparr>rd_parts := rd_parts acc @ [part], rd_structured := st\<rparr>))))"

primrec openai_contents :: "(string \<Rightarrow> pyfloat) \<Rightarrow> int \<Rightarrow> ModelRequest \<Rightarrow> sdk list \<Rightarrow> reading \<Rightarrow> reading res" where
  "openai_contents fl max_chars r [] acc = Inr acc"
| "openai_contents fl max_chars r (c # cs) acc =
     (let ty = getattr c ''type'' sdk_none in
      res_bind (if ty = SdkValue (PStr ''output_text'') then read_text (json_arguments fl) max_chars r (getattr c ''text'' sdk_none) acc
                else if ty = SdkValue (PStr ''refusal'') then
                  res_bind (bounded_text (getattr c ''refusal'' sdk_none) max_chars) (\<lambda>t. Inr (acc\<lparr>rd_refusal := Some t\<rparr>))
                else Inr acc) (openai_contents fl max_chars r cs))"

primrec openai_items :: "(string \<Rightarrow> pyfloat) \<Rightarrow> int \<Rightarrow> ModelRequest \<Rightarrow> sdk list \<Rightarrow> reading \<Rightarrow> reading res" where
  "openai_items fl max_chars r [] acc = Inr acc"
| "openai_items fl max_chars r (item # items) acc =
     (let ty = getattr item ''type'' sdk_none in
      res_bind (if ty = SdkValue (PStr ''function_call'') then
          res_bind (json_arguments fl (getattr item ''arguments'' sdk_none)) (\<lambda>arguments.
          res_bind (tool_part (sdk_str (getattr item ''call_id'' (SdkValue (PStr [])))) (sdk_str (getattr item ''name'' (SdkValue (PStr [])))) arguments) (\<lambda>part.
          Inr (acc\<lparr>rd_parts := rd_parts acc @ [part]\<rparr>)))
        else if ty = SdkValue (PStr ''message'') then
          res_bind (sdk_iter (getattr item ''content'' (SdkValue (PTuple [])))) (\<lambda>cs. openai_contents fl max_chars r cs acc)
        else Inr acc) (openai_items fl max_chars r items))"

definition openai_usage :: "sdk \<Rightarrow> TokenUsage res" where
  "openai_usage usage =
     res_bind (nonnegative_int (getattr usage ''input_tokens'' sdk_none)) (\<lambda>total_input.
     res_bind (optional_nonnegative_int (getattr (getattr usage ''input_tokens_details'' sdk_none) ''cached_tokens'' (SdkValue (PInt 0)))) (\<lambda>cached.
     res_bind (require (cached \<le> total_input) (malformed ''cached_tokens_exceed_input_tokens'')) (\<lambda>_.
     res_bind (nonnegative_int (getattr usage ''output_tokens'' sdk_none)) (\<lambda>total_output.
     res_bind (optional_nonnegative_int (getattr (getattr usage ''output_tokens_details'' sdk_none) ''reasoning_tokens'' (SdkValue (PInt 0)))) (\<lambda>reasoning.
     res_bind (require (reasoning \<le> total_output) (malformed ''reasoning_tokens_exceed_output_tokens'')) (\<lambda>_.
     init_TokenUsage \<lparr>tu_input_tokens = total_input - cached, tu_output_tokens = total_output - reasoning, tu_cache_read_tokens = cached,
       tu_cache_write_tokens = 0, tu_reasoning_tokens = reasoning\<rparr>))))))"

fun is_tool_call :: "ContentPart \<Rightarrow> bool" where
  "is_tool_call (ToolCallPart _) = True" | "is_tool_call _ = False"

definition openai_finish :: "sdk \<Rightarrow> reading \<Rightarrow> FinishReason" where
  "openai_finish raw acc =
     (let reason = getattr (getattr raw ''incomplete_details'' sdk_none) ''reason'' sdk_none in
      if rd_refusal acc \<noteq> None then FINISH_REFUSAL
      else if reason = SdkValue (PStr ''max_output_tokens'') then FINISH_LENGTH
      else if reason = SdkValue (PStr ''content_filter'') then FINISH_CONTENT_FILTER
      else if (\<exists>p \<in> set (rd_parts acc). is_tool_call p) then FINISH_TOOL_CALLS
      else FINISH_STOP)"

definition openai_response :: "(string \<Rightarrow> pyfloat) \<Rightarrow> int \<Rightarrow> sdk \<Rightarrow> ModelRequest \<Rightarrow> ModelIdentity \<Rightarrow> rat \<Rightarrow> rat \<Rightarrow> ModelResponse res" where
  "openai_response fl max_chars raw r m started finished =
     (case (sdk_list (getattr raw ''output'' sdk_none), getattr raw ''usage'' sdk_none) of
        (Some output, usage) \<Rightarrow>
          res_bind (require (usage \<noteq> sdk_none) (malformed ''malformed_openai_response'')) (\<lambda>_.
          res_bind (openai_items fl max_chars r output start_reading) (\<lambda>acc.
          res_bind (openai_usage usage) (\<lambda>tokens.
          (let finish = openai_finish raw acc; refused = rd_refusal acc \<noteq> None in
           res_bind (init_SafetyResult
             \<lparr>sr_outcome = (if refused then SAFETY_REFUSED else if finish = FINISH_CONTENT_FILTER then SAFETY_FILTERED else SAFETY_ALLOWED),
              sr_reason_code = (if refused then Some ''provider_refusal'' else if finish = FINISH_CONTENT_FILTER then Some ''provider_content_filter'' else None)\<rparr>)
             (\<lambda>safety.
           init_ModelResponse (rd_structured acc)
             \<lparr>mp_request_id = mq_request_id r, mp_model = m, mp_content = rd_parts acc, mp_finish_reason = finish, mp_safety = safety, mp_usage = tokens,
              mp_latency_ms = latency_ms started finished, mp_provider_request_id = response_id raw, mp_structured_output = None\<rparr>)))))
      | _ \<Rightarrow> Inl (malformed ''malformed_openai_response''))"

definition structured_object :: "(string \<Rightarrow> pyfloat) \<Rightarrow> sdk \<Rightarrow> (pyval \<times> pyval) list res" where
  "structured_object fl v = (case v of
     SdkValue (PStr s) \<Rightarrow> (case json_loads fl s of
       None \<Rightarrow> Inl (malformed ''structured_output_not_json'')
     | Some (PDict kvs) \<Rightarrow> Inr kvs
     | Some _ \<Rightarrow> Inl (malformed ''structured_output_not_object''))
   | _ \<Rightarrow> Inl (malformed ''structured_output_not_json''))"

primrec anthropic_items :: "(string \<Rightarrow> pyfloat) \<Rightarrow> int \<Rightarrow> ModelRequest \<Rightarrow> sdk list \<Rightarrow> reading \<Rightarrow> reading res" where
  "anthropic_items fl max_chars r [] acc = Inr acc"
| "anthropic_items fl max_chars r (item # items) acc =
     (let ty = getattr item ''type'' sdk_none in
      res_bind (if ty = SdkValue (PStr ''text'') then read_text (structured_object fl) max_chars r (getattr item ''text'' sdk_none) acc
        else if ty = SdkValue (PStr ''tool_use'') then
          (case getattr item ''input'' sdk_none of
             SdkValue (PDict kvs) \<Rightarrow>
               res_bind (tool_part (sdk_str (getattr item ''id'' (SdkValue (PStr [])))) (sdk_str (getattr item ''name'' (SdkValue (PStr [])))) kvs) (\<lambda>part.
               Inr (acc\<lparr>rd_parts := rd_parts acc @ [part]\<rparr>))
           | _ \<Rightarrow> Inl (malformed ''tool_arguments_not_object''))
        else Inr acc) (anthropic_items fl max_chars r items))"

definition anthropic_finish :: "sdk \<Rightarrow> FinishReason" where
  "anthropic_finish raw = (case getattr raw ''stop_reason'' sdk_none of
     SdkValue (PStr s) \<Rightarrow> (case map_of [(''end_turn'', FINISH_STOP), (''stop_sequence'', FINISH_STOP), (''max_tokens'', FINISH_LENGTH),
         (''tool_use'', FINISH_TOOL_CALLS), (''refusal'', FINISH_REFUSAL)] s of Some f \<Rightarrow> f | None \<Rightarrow> FINISH_UNKNOWN)
   | _ \<Rightarrow> FINISH_UNKNOWN)"

definition anthropic_usage :: "sdk \<Rightarrow> TokenUsage res" where
  "anthropic_usage usage =
     res_bind (nonnegative_int (getattr usage ''input_tokens'' sdk_none)) (\<lambda>input.
     res_bind (nonnegative_int (getattr usage ''output_tokens'' sdk_none)) (\<lambda>output.
     res_bind (nonnegative_int (getattr usage ''cache_read_input_tokens'' (SdkValue (PInt 0)))) (\<lambda>cache_read.
     res_bind (nonnegative_int (getattr usage ''cache_creation_input_tokens'' (SdkValue (PInt 0)))) (\<lambda>cache_write.
     init_TokenUsage \<lparr>tu_input_tokens = input, tu_output_tokens = output, tu_cache_read_tokens = cache_read, tu_cache_write_tokens = cache_write,
       tu_reasoning_tokens = 0\<rparr>))))"

definition anthropic_response :: "(string \<Rightarrow> pyfloat) \<Rightarrow> int \<Rightarrow> sdk \<Rightarrow> ModelRequest \<Rightarrow> ModelIdentity \<Rightarrow> rat \<Rightarrow> rat \<Rightarrow> ModelResponse res" where
  "anthropic_response fl max_chars raw r m started finished =
     (case (sdk_list (getattr raw ''content'' sdk_none), getattr raw ''usage'' sdk_none) of
        (Some content, usage) \<Rightarrow>
          res_bind (require (usage \<noteq> sdk_none) (malformed ''malformed_anthropic_response'')) (\<lambda>_.
          res_bind (anthropic_items fl max_chars r content start_reading) (\<lambda>acc.
          (let finish = anthropic_finish raw; refused = finish = FINISH_REFUSAL in
           res_bind (init_SafetyResult \<lparr>sr_outcome = (if refused then SAFETY_REFUSED else SAFETY_ALLOWED),
             sr_reason_code = (if refused then Some ''provider_refusal'' else None)\<rparr>) (\<lambda>safety.
           res_bind (anthropic_usage usage) (\<lambda>tokens.
           init_ModelResponse (rd_structured acc)
             \<lparr>mp_request_id = mq_request_id r, mp_model = m, mp_content = rd_parts acc, mp_finish_reason = finish, mp_safety = safety, mp_usage = tokens,
              mp_latency_ms = latency_ms started finished, mp_provider_request_id = response_id raw, mp_structured_output = None\<rparr>)))))
      | _ \<Rightarrow> Inl (malformed ''malformed_anthropic_response''))"


section \<open>Secrets and settings\<close>

record SecretReference =
  sf_tenant_id :: TenantId
  sf_provider :: string
  sf_name :: string
  sf_version :: "string option"

definition init_SecretReference :: "SecretReference \<Rightarrow> SecretReference res" where
  "init_SecretReference s =
     res_bind (require (sf_provider s \<noteq> [] \<and> sf_name s \<noteq> []) (ValueError ''secret provider and name are required'')) (\<lambda>_.
     res_bind (require (\<not> (\<exists>c \<in> set (sf_name s). py_isspace c)) (ValueError ''secret names cannot contain whitespace'')) (\<lambda>_. Inr s))"

text \<open>\<^verbatim>\<open>SecretError\<close> is a RuntimeError; a secret value is its bytes, which are not empty.\<close>

definition secret_error :: "string \<Rightarrow> py_error" where
  "secret_error msg = RuntimeError msg"

definition new_SecretValue :: "string \<Rightarrow> string res" where
  "new_SecretValue v = (if v = [] then Inl (ValueError ''secret value cannot be empty'') else Inr v)"

definition require_tenant :: "TenantId \<Rightarrow> SecretReference \<Rightarrow> unit res" where
  "require_tenant context s = require (context = sf_tenant_id s) (secret_error ''secret reference tenant does not match trusted context'')"

record EnvironmentSecretProvider =
  es_tenant_id :: TenantId
  es_values :: "(string \<times> string) list"

definition environment_secret :: "EnvironmentSecretProvider \<Rightarrow> TenantId \<Rightarrow> SecretReference \<Rightarrow> string res" where
  "environment_secret p context s =
     res_bind (require_tenant context s) (\<lambda>_.
     res_bind (require (sf_provider s = ''env'') (secret_error ''secret reference targets a different provider'')) (\<lambda>_.
     res_bind (require (context = es_tenant_id p) (secret_error ''environment provider is bound to a different tenant'')) (\<lambda>_.
     res_bind (require (sf_version s = None) (secret_error ''environment secrets do not support versions'')) (\<lambda>_.
     res_bind (require (py_startswith (sf_name s) ''AEGIS_SECRET_'') (secret_error ''environment secret names require AEGIS_SECRET_ prefix'')) (\<lambda>_.
     (case map_of (es_values p) (sf_name s) of
        None \<Rightarrow> Inl (secret_error ''secret reference was not found'')
      | Some v \<Rightarrow> new_SecretValue (utf8_encode v)))))))"

definition memory_secret :: "(SecretReference \<times> string) list \<Rightarrow> TenantId \<Rightarrow> SecretReference \<Rightarrow> string res" where
  "memory_secret stored context s =
     res_bind (require_tenant context s) (\<lambda>_.
     res_bind (require (sf_provider s = ''memory'') (secret_error ''secret reference targets a different provider'')) (\<lambda>_.
     (case map_of stored s of None \<Rightarrow> Inl (secret_error ''secret reference was not found'') | Some v \<Rightarrow> new_SecretValue v)))"

record ProviderClientSettings =
  ps_api_key :: SecretReference
  ps_base_url :: "string option"
  ps_proxy_url :: "string option"
  ps_connect_timeout_seconds :: rat
  ps_read_timeout_seconds :: rat
  ps_max_connections :: int
  ps_max_keepalive_connections :: int
  ps_verify_tls :: bool

definition init_ProviderClientSettings :: "ProviderClientSettings \<Rightarrow> ProviderClientSettings res" where
  "init_ProviderClientSettings s =
     res_bind (require (case ps_base_url s of None \<Rightarrow> True | Some u \<Rightarrow> py_startswith u ''https://'') (ValueError ''provider base URL must use HTTPS'')) (\<lambda>_.
     res_bind (require (case ps_proxy_url s of None \<Rightarrow> True | Some u \<Rightarrow> py_startswith u ''https://'' \<or> py_startswith u ''http://'')
       (ValueError ''proxy URL must use HTTP or HTTPS'')) (\<lambda>_.
     res_bind (require (0 < ps_connect_timeout_seconds s \<and> 0 < ps_read_timeout_seconds s) (ValueError ''provider timeouts must be positive'')) (\<lambda>_.
     res_bind (require (1 \<le> ps_max_connections s \<and> 0 \<le> ps_max_keepalive_connections s) (ValueError ''provider pool sizes are invalid'')) (\<lambda>_.
     res_bind (require (ps_max_keepalive_connections s \<le> ps_max_connections s) (ValueError ''keepalive pool cannot exceed total connections'')) (\<lambda>_.
     res_bind (require (ps_verify_tls s) (ValueError ''provider TLS verification cannot be disabled'')) (\<lambda>_.
     Inr s))))))"

section \<open>Adapters\<close>

text \<open>
  The vendors' adapters differ in their names and their translations. An adapter keeps the client it built, with the key and base URL it
  was built from, and that client's HTTP connection pool; pools are numbered in the order of their creation.
\<close>

datatype vendor = OpenAI | Anthropic

fun provider_name :: "vendor \<Rightarrow> string" where
  "provider_name OpenAI = ''openai''" | "provider_name Anthropic = ''anthropic''"

fun wrong_model :: "vendor \<Rightarrow> string" where
  "wrong_model OpenAI = ''OpenAI adapter received a non-OpenAI model''"
| "wrong_model Anthropic = ''Anthropic adapter received a non-Anthropic model''"

record Adapter =
  ap_vendor :: vendor
  ap_context :: TenantId
  ap_settings :: ProviderClientSettings
  ap_max_response_chars :: int

definition new_Adapter :: "vendor \<Rightarrow> TenantId \<Rightarrow> ProviderClientSettings \<Rightarrow> int \<Rightarrow> Adapter res" where
  "new_Adapter v context settings max_chars =
     res_bind (require (context = sf_tenant_id (ps_api_key settings)) (ValueError ''provider secret must belong to adapter tenant'')) (\<lambda>_.
     res_bind (require (1 \<le> max_chars) (ValueError ''response bound must be positive'')) (\<lambda>_.
     Inr \<lparr>ap_vendor = v, ap_context = context, ap_settings = settings, ap_max_response_chars = max_chars\<rparr>))"

record adapter_client =
  cl_api_key :: string
  cl_base_url :: "string option"

record adapter_state =
  as_client :: "adapter_client option"
  as_http_client :: "nat option"
  as_opened :: nat
  as_closed :: "nat list"

definition fresh_adapter :: adapter_state where
  "fresh_adapter = \<lparr>as_client = None, as_http_client = None, as_opened = 0, as_closed = []\<rparr>"

definition close_http :: "nat option \<Rightarrow> adapter_state \<Rightarrow> adapter_state" where
  "close_http h s = (case h of None \<Rightarrow> s | Some i \<Rightarrow> s\<lparr>as_closed := as_closed s @ [i]\<rparr>)"

definition reload_client :: "adapter_state \<Rightarrow> adapter_state" where
  "reload_client s = close_http (as_http_client s) (s\<lparr>as_client := None, as_http_client := None\<rparr>)"

text \<open>The client's factory may raise: then the new pool is closed again. A key that is not UTF-8 raises before that handler is entered.\<close>

definition get_client :: "Adapter \<Rightarrow> (TenantId \<Rightarrow> SecretReference \<Rightarrow> string res) \<Rightarrow> (adapter_client \<Rightarrow> py_error option) \<Rightarrow> (adapter_state, adapter_client) op" where
  "get_client a resolve_secret factory =
     op_bind (op_gets as_client) (\<lambda>found. case found of
       Some c \<Rightarrow> op_return c
     | None \<Rightarrow>
         op_bind (op_lift (resolve_secret (ap_context a) (ps_api_key (ap_settings a)))) (\<lambda>key.
         op_bind (op_gets as_opened) (\<lambda>http.
         op_bind (op_modify (\<lambda>s. s\<lparr>as_opened := Suc http\<rparr>)) (\<lambda>_.
         op_bind (op_lift (case utf8_decode key of None \<Rightarrow> Inl (ValueError ''invalid utf-8'') | Some t \<Rightarrow> Inr t)) (\<lambda>api_key.
         (let c = \<lparr>cl_api_key = api_key, cl_base_url = ps_base_url (ap_settings a)\<rparr> in
          case factory c of
            Some e \<Rightarrow> op_bind (op_modify (close_http (Some http))) (\<lambda>_. op_raise e)
          | None \<Rightarrow> op_bind (op_modify (\<lambda>s. s\<lparr>as_client := Some c, as_http_client := Some http\<rparr>)) (\<lambda>_. op_return c)))))))"

text \<open>
  \<^verbatim>\<open>await_with_cancellation\<close>: how the awaited SDK call ends. The operation ends after some time with an object or an exception, or
  never; the cancellation token is set at some time, or never (nor is a token that was not given). Times are counted from the call, and at the deadline
  itself the timeout wins. When the token is set in the same step as the operation ends, awaiting the operation again raises its
  exception, and its result is dropped.
\<close>

datatype call_outcome = Answered sdk | CallTimedOut | CallCancelled | CallFailed sdk_exception

type_synonym sdk_operation = "(rat \<times> (sdk_exception + sdk)) option"

definition await_with_cancellation :: "sdk_operation \<Rightarrow> rat \<Rightarrow> rat option \<Rightarrow> call_outcome" where
  "await_with_cancellation operation timeout token =
     (let before = (\<lambda>u. case operation of None \<Rightarrow> True | Some (t, _) \<Rightarrow> u < t) in
      case token of
        Some u \<Rightarrow>
          if u \<le> 0 then CallCancelled
          else if before u then (if u < timeout then CallCancelled else CallTimedOut)
          else (case operation of
              Some (t, x) \<Rightarrow>
                if timeout \<le> t then CallTimedOut
                else (case x of Inl e \<Rightarrow> CallFailed e | Inr raw \<Rightarrow> if u = t then CallCancelled else Answered raw)
            | None \<Rightarrow> CallTimedOut)
      | None \<Rightarrow>
          (case operation of
             Some (t, x) \<Rightarrow> if timeout \<le> t then CallTimedOut else (case x of Inl e \<Rightarrow> CallFailed e | Inr raw \<Rightarrow> Answered raw)
           | None \<Rightarrow> CallTimedOut))"

record float_conversions =
  fc_literal :: "string \<Rightarrow> pyfloat"
  fc_parse :: "string \<Rightarrow> parsed_float"
  fc_decimal :: "decimal \<Rightarrow> pyfloat"

definition request_kwargs :: "vendor \<Rightarrow> (decimal \<Rightarrow> pyfloat) \<Rightarrow> ModelRequest \<Rightarrow> ModelIdentity \<Rightarrow> pyval" where
  "request_kwargs v = (case v of OpenAI \<Rightarrow> openai_request_kwargs | Anthropic \<Rightarrow> anthropic_request_kwargs)"

definition vendor_response :: "vendor \<Rightarrow> (string \<Rightarrow> pyfloat) \<Rightarrow> int \<Rightarrow> sdk \<Rightarrow> ModelRequest \<Rightarrow> ModelIdentity \<Rightarrow> rat \<Rightarrow> rat \<Rightarrow> ModelResponse res" where
  "vendor_response v = (case v of OpenAI \<Rightarrow> openai_response | Anthropic \<Rightarrow> anthropic_response)"

text \<open>The handlers around the call: an exception of the adapter's own code or of the secret provider is classified like one of the SDK.\<close>

definition classify_own :: "float_conversions \<Rightarrow> py_error \<Rightarrow> py_error" where
  "classify_own fc e = (case e of ModelGatewayError c code retryable delay ambiguous \<Rightarrow> e | _ \<Rightarrow> classify_sdk_error (fc_parse fc) (own_exception e))"

definition adapter_complete ::
  "Adapter \<Rightarrow> float_conversions \<Rightarrow> (TenantId \<Rightarrow> SecretReference \<Rightarrow> string res) \<Rightarrow> (adapter_client \<Rightarrow> py_error option) \<Rightarrow>
   (adapter_client \<Rightarrow> pyval \<Rightarrow> sdk_operation) \<Rightarrow> rat option \<Rightarrow> rat \<Rightarrow> rat \<Rightarrow> ModelRequest \<Rightarrow> ModelIdentity \<Rightarrow> (adapter_state, ModelResponse) op" where
  "adapter_complete a fc resolve_secret factory create token started finished r m =
     op_bind (op_require (mi_provider m = provider_name (ap_vendor a)) (ValueError (wrong_model (ap_vendor a)))) (\<lambda>_.
     op_catch
       (op_bind (get_client a resolve_secret factory) (\<lambda>c.
        (case await_with_cancellation (create c (request_kwargs (ap_vendor a) (fc_decimal fc) r m)) (mq_timeout_seconds r) token of
           Answered raw \<Rightarrow> op_lift (vendor_response (ap_vendor a) (fc_literal fc) (ap_max_response_chars a) raw r m started finished)
         | CallTimedOut \<Rightarrow> op_raise (ModelGatewayError ME_TIMEOUT ''provider_timeout'' True None True)
         | CallCancelled \<Rightarrow> op_raise (ModelGatewayError ME_CANCELLED ''provider_call_cancelled'' False None True)
         | CallFailed x \<Rightarrow> op_raise (classify_sdk_error (fc_parse fc) x))))
       (\<lambda>e. op_raise (classify_own fc e)))"

section \<open>The scripted provider\<close>

record ScriptedModelProvider =
  sp_provider_name :: string
  sp_outcomes :: "(py_error + ModelResponse) list"
  sp_calls :: "(ModelRequest \<times> ModelIdentity) list"

definition new_ScriptedModelProvider :: "string \<Rightarrow> (py_error + ModelResponse) list \<Rightarrow> ScriptedModelProvider res" where
  "new_ScriptedModelProvider name outcomes =
     res_bind (require (name \<noteq> []) (ValueError ''provider name is required'')) (\<lambda>_.
     Inr \<lparr>sp_provider_name = name, sp_outcomes = outcomes, sp_calls = []\<rparr>)"

definition scripted_complete :: "bool \<Rightarrow> ModelRequest \<Rightarrow> ModelIdentity \<Rightarrow> (ScriptedModelProvider, ModelResponse) op" where
  "scripted_complete cancelled r m =
     op_bind (op_gets sp_provider_name) (\<lambda>name.
     op_bind (op_require (mi_provider m = name) (ValueError ''model does not belong to scripted provider'')) (\<lambda>_.
     op_bind (op_require (\<not> cancelled) (ModelGatewayError ME_CANCELLED ''cancelled_before_attempt'' False None False)) (\<lambda>_.
     op_bind (op_modify (\<lambda>p. p\<lparr>sp_calls := sp_calls p @ [(r, m)]\<rparr>)) (\<lambda>_.
     op_bind (op_gets sp_outcomes) (\<lambda>outcomes. case outcomes of
         [] \<Rightarrow> op_raise (RuntimeError ''scripted provider has no remaining outcome'')
       | x # xs \<Rightarrow> op_bind (op_modify (\<lambda>p. p\<lparr>sp_outcomes := xs\<rparr>)) (\<lambda>_. op_lift x))))))"


section \<open>What an adapter answers\<close>

definition sdk_int :: "sdk \<Rightarrow> int" where
  "sdk_int v = (case v of SdkValue (PInt i) \<Rightarrow> i | _ \<Rightarrow> 0)"

text \<open>The tokens the vendor reports: OpenAI counts cached and reasoning tokens within input and output, Anthropic beside them.\<close>

fun reported_tokens :: "vendor \<Rightarrow> sdk \<Rightarrow> int" where
  "reported_tokens OpenAI raw = (let u = getattr raw ''usage'' sdk_none in
     sdk_int (getattr u ''input_tokens'' sdk_none) + sdk_int (getattr u ''output_tokens'' sdk_none))"
| "reported_tokens Anthropic raw = (let u = getattr raw ''usage'' sdk_none in
     sdk_int (getattr u ''input_tokens'' sdk_none) + sdk_int (getattr u ''output_tokens'' sdk_none)
     + sdk_int (getattr u ''cache_read_input_tokens'' sdk_none) + sdk_int (getattr u ''cache_creation_input_tokens'' sdk_none))"

definition gateway_error :: "py_error \<Rightarrow> bool" where
  "gateway_error e = (case e of ModelGatewayError c code retryable delay ambiguous \<Rightarrow> True | _ \<Rightarrow> False)"

lemma gateway_error_classified: "gateway_error (classify_sdk_error fp x)" "gateway_error (classify_own fc e)"
proof -
  show c: "gateway_error (classify_sdk_error fp x)" for fp x by (simp add: classify_sdk_error_def Let_def gateway_error_def)
  show "gateway_error (classify_own fc e)" using c by (cases e) (simp_all add: classify_own_def gateway_error_def)
qed

definition usage_ok :: "TokenUsage \<Rightarrow> bool" where
  "usage_ok u = (0 \<le> tu_input_tokens u \<and> 0 \<le> tu_output_tokens u \<and> 0 \<le> tu_cache_read_tokens u \<and> 0 \<le> tu_cache_write_tokens u \<and> 0 \<le> tu_reasoning_tokens u)"

lemma nonnegative_int_Inr: "nonnegative_int v = Inr i \<Longrightarrow> v = SdkValue (PInt i) \<and> 0 \<le> i"
  by (auto simp: nonnegative_int_def split: sdk.splits pyval.splits if_splits)

lemma sdk_int_int [simp]: "sdk_int (SdkValue (PInt i)) = i"
  by (simp add: sdk_int_def)

lemma init_TokenUsage_Inr: "init_TokenUsage u = Inr u' \<longleftrightarrow> u' = u \<and> usage_ok u"
  by (auto simp: init_TokenUsage_def usage_ok_def)

lemma openai_usage_Inr:
  assumes "openai_usage usage = Inr u"
  shows "usage_ok u \<and> billable_tokens u = sdk_int (getattr usage ''input_tokens'' sdk_none) + sdk_int (getattr usage ''output_tokens'' sdk_none)"
  using assms by (auto simp: openai_usage_def res_bind_Inr_iff init_TokenUsage_Inr billable_tokens_def dest!: nonnegative_int_Inr)

lemma getattr_default: "getattr u k (SdkValue (PInt 0)) = SdkValue (PInt i) \<Longrightarrow> sdk_int (getattr u k sdk_none) = i"
  by (auto simp: getattr_def sdk_int_def split: sdk.splits option.splits)

lemma anthropic_usage_Inr:
  assumes "anthropic_usage usage = Inr u"
  shows "usage_ok u \<and> billable_tokens u = sdk_int (getattr usage ''input_tokens'' sdk_none) + sdk_int (getattr usage ''output_tokens'' sdk_none)
    + sdk_int (getattr usage ''cache_read_input_tokens'' sdk_none) + sdk_int (getattr usage ''cache_creation_input_tokens'' sdk_none)"
  using assms by (auto simp: anthropic_usage_def res_bind_Inr_iff init_TokenUsage_Inr billable_tokens_def dest!: nonnegative_int_Inr getattr_default)

text \<open>The texts of a response are not empty and within the adapter's bound.\<close>

definition part_bounded :: "int \<Rightarrow> ContentPart \<Rightarrow> bool" where
  "part_bounded n p = (case p of TextPart t \<Rightarrow> t \<noteq> [] \<and> int (length t) \<le> n | ToolCallPart c \<Rightarrow> tc_call_id c \<noteq> [] \<and> tc_tool_name c \<noteq> [] | _ \<Rightarrow> False)"

definition reading_ok :: "int \<Rightarrow> reading \<Rightarrow> bool" where
  "reading_ok n acc = (\<forall>p \<in> set (rd_parts acc). part_bounded n p)"

lemma read_text_ok: "read_text parse n r v acc = Inr acc' \<Longrightarrow> reading_ok n acc \<Longrightarrow> reading_ok n acc'"
  by (auto simp: read_text_def res_bind_Inr_iff bounded_text_def init_TextPart_def reading_ok_def part_bounded_def split: sdk.splits pyval.splits if_splits)

lemma tool_part_ok: "tool_part i name args = Inr p \<Longrightarrow> part_bounded n p"
  by (auto simp: tool_part_def init_ToolCallProposal_def res_bind_Inr_iff part_bounded_def)

lemma openai_contents_ok: "openai_contents fl n r cs acc = Inr acc' \<Longrightarrow> reading_ok n acc \<Longrightarrow> reading_ok n acc'"
proof (induction cs arbitrary: acc)
  case (Cons c cs)
  then obtain mid where "openai_contents fl n r cs mid = Inr acc'" and
    "(if getattr c ''type'' sdk_none = SdkValue (PStr ''output_text'') then read_text (json_arguments fl) n r (getattr c ''text'' sdk_none) acc
      else if getattr c ''type'' sdk_none = SdkValue (PStr ''refusal'') then
        res_bind (bounded_text (getattr c ''refusal'' sdk_none) n) (\<lambda>t. Inr (acc\<lparr>rd_refusal := Some t\<rparr>))
      else Inr acc) = Inr mid"
    by (auto simp: Let_def res_bind_Inr_iff)
  then show ?case using Cons.IH [of mid] Cons.prems(2) read_text_ok [of "json_arguments fl" n r _ acc mid]
    by (auto simp: res_bind_Inr_iff reading_ok_def split: if_splits)
qed simp

lemma openai_items_ok: "openai_items fl n r items acc = Inr acc' \<Longrightarrow> reading_ok n acc \<Longrightarrow> reading_ok n acc'"
proof (induction items arbitrary: acc)
  case (Cons item items)
  obtain mid where mid: "openai_items fl n r items mid = Inr acc'" and "reading_ok n mid"
    using Cons.prems openai_contents_ok [of fl n r _ acc] tool_part_ok [of _ _ _ _ n]
    by (fastforce simp: Let_def res_bind_Inr_iff reading_ok_def split: if_splits)
  then show ?case using Cons.IH by blast
qed simp

lemma anthropic_items_ok: "anthropic_items fl n r items acc = Inr acc' \<Longrightarrow> reading_ok n acc \<Longrightarrow> reading_ok n acc'"
proof (induction items arbitrary: acc)
  case (Cons item items)
  obtain mid where "anthropic_items fl n r items mid = Inr acc'" and "reading_ok n mid"
    using Cons.prems read_text_ok [of "structured_object fl" n r _ acc] tool_part_ok [of _ _ _ _ n]
    by (fastforce simp: Let_def res_bind_Inr_iff reading_ok_def split: if_splits sdk.splits pyval.splits)
  then show ?case using Cons.IH by blast
qed simp

lemma init_ModelResponse_Inr: "init_ModelResponse raw p = Inr p' \<Longrightarrow> p' = p\<lparr>mp_structured_output := mp_structured_output p'\<rparr>"
  by (auto simp: init_ModelResponse_def res_bind_Inr_iff split: option.splits)

lemma start_reading_ok: "reading_ok n start_reading"
  by (simp add: reading_ok_def start_reading_def)

lemma vendor_response_Inr:
  assumes "vendor_response v fl n raw r m started finished = Inr p"
  shows "mp_request_id p = mq_request_id r \<and> mp_model p = m \<and> 0 \<le> mp_latency_ms p \<and> usage_ok (mp_usage p)
    \<and> billable_tokens (mp_usage p) = reported_tokens v raw \<and> (\<forall>part \<in> set (mp_content p). part_bounded n part)"
proof (cases v)
  case OpenAI
  then obtain outputs acc tokens q where acc: "openai_items fl n r outputs start_reading = Inr acc"
    and usage: "openai_usage (getattr raw ''usage'' sdk_none) = Inr tokens" and init: "init_ModelResponse (rd_structured acc) q = Inr p"
    and q: "mp_request_id q = mq_request_id r" "mp_model q = m" "mp_content q = rd_parts acc" "mp_usage q = tokens" "mp_latency_ms q = latency_ms started finished"
    using assms
    by (auto simp: vendor_response_def openai_response_def Let_def res_bind_Inr_iff split: option.splits)
  then show ?thesis using OpenAI openai_items_ok [OF acc start_reading_ok] openai_usage_Inr [OF usage] init_ModelResponse_Inr [OF init]
    by (cases p; cases q) (simp add: reading_ok_def latency_ms_def Let_def)
next
  case Anthropic
  then obtain outputs acc tokens q where acc: "anthropic_items fl n r outputs start_reading = Inr acc"
    and usage: "anthropic_usage (getattr raw ''usage'' sdk_none) = Inr tokens" and init: "init_ModelResponse (rd_structured acc) q = Inr p"
    and q: "mp_request_id q = mq_request_id r" "mp_model q = m" "mp_content q = rd_parts acc" "mp_usage q = tokens" "mp_latency_ms q = latency_ms started finished"
    using assms
    by (auto simp: vendor_response_def anthropic_response_def Let_def res_bind_Inr_iff split: option.splits)
  then show ?thesis using Anthropic anthropic_items_ok [OF acc start_reading_ok] anthropic_usage_Inr [OF usage] init_ModelResponse_Inr [OF init]
    by (cases p; cases q) (simp add: reading_ok_def latency_ms_def Let_def)
qed

lemma adapter_complete_Inr:
  assumes "adapter_complete a fc rs factory create token started finished r m s = (Inr p, s')"
  obtains c raw where
    "await_with_cancellation (create c (request_kwargs (ap_vendor a) (fc_decimal fc) r m)) (mq_timeout_seconds r) token = Answered raw"
    and "vendor_response (ap_vendor a) (fc_literal fc) (ap_max_response_chars a) raw r m started finished = Inr p"
proof -
  obtain c s1 where "(case await_with_cancellation (create c (request_kwargs (ap_vendor a) (fc_decimal fc) r m)) (mq_timeout_seconds r) token of
      Answered raw \<Rightarrow> op_lift (vendor_response (ap_vendor a) (fc_literal fc) (ap_max_response_chars a) raw r m started finished)
    | CallTimedOut \<Rightarrow> op_raise (ModelGatewayError ME_TIMEOUT ''provider_timeout'' True None True)
    | CallCancelled \<Rightarrow> op_raise (ModelGatewayError ME_CANCELLED ''provider_call_cancelled'' False None True)
    | CallFailed x \<Rightarrow> op_raise (classify_sdk_error (fc_parse fc) x)) s1 = (Inr p, s')"
    using assms by (auto simp: adapter_complete_def op_catch_iff op_bind_Inr_iff op_raise_iff)
  then show thesis using that [of c] by (auto simp: op_lift_iff op_raise_iff split: call_outcome.split_asm)
qed

text \<open>A call is answered only within its timeout and before its token is set.\<close>

lemma await_answered:
  "await_with_cancellation operation timeout token = Answered raw \<longleftrightarrow>
     (\<exists>t. operation = Some (t, Inr raw) \<and> t < timeout \<and> (case token of None \<Rightarrow> True | Some u \<Rightarrow> 0 < u \<and> t < u))"
  by (auto simp: await_with_cancellation_def Let_def split: option.splits sum.splits if_splits)

definition answered_in_time :: "sdk_operation \<Rightarrow> rat \<Rightarrow> rat option \<Rightarrow> sdk \<Rightarrow> bool" where
  "answered_in_time operation timeout token raw =
     (case operation of Some (t, Inr x) \<Rightarrow> x = raw \<and> t < timeout \<and> (case token of None \<Rightarrow> True | Some u \<Rightarrow> 0 < u \<and> t < u) | _ \<Rightarrow> False)"

text \<open>
  C38: whatever the secret provider, the SDK and the network do, a completion for a model of the adapter's vendor ends with a model
  gateway error of the taxonomy, or with a response for this very request and model: it translates an object the SDK answered to the translated
  request within the request's timeout and before its cancellation, bills exactly the tokens the vendor reported there, has no
  negative counter or latency, and holds only complete tool calls and texts within the adapter's bound.
\<close>

theorem adapter_outcomes_accounted:
  assumes "mi_provider m = provider_name (ap_vendor a)"
    and "adapter_complete a fc rs factory create token started finished r m s = (x, s')"
  shows "case x of
      Inl e \<Rightarrow> gateway_error e
    | Inr p \<Rightarrow> mp_request_id p = mq_request_id r \<and> mp_model p = m \<and> 0 \<le> mp_latency_ms p \<and> usage_ok (mp_usage p) \<and>
        (\<forall>part \<in> set (mp_content p). part_bounded (ap_max_response_chars a) part) \<and>
        (\<exists>c raw. answered_in_time (create c (request_kwargs (ap_vendor a) (fc_decimal fc) r m)) (mq_timeout_seconds r) token raw \<and>
           billable_tokens (mp_usage p) = reported_tokens (ap_vendor a) raw)"
proof (cases x)
  case (Inl e)
  have "gateway_error e"
    using assms Inl gateway_error_classified(2) [of fc]
    by (auto simp: adapter_complete_def op_bind_Inl_iff op_catch_iff op_require_Inl_iff op_raise_iff)
  then show ?thesis using Inl by simp
next
  case (Inr p)
  then obtain c raw where
    raw: "await_with_cancellation (create c (request_kwargs (ap_vendor a) (fc_decimal fc) r m)) (mq_timeout_seconds r) token = Answered raw"
    and p: "vendor_response (ap_vendor a) (fc_literal fc) (ap_max_response_chars a) raw r m started finished = Inr p"
    using assms(2) adapter_complete_Inr by blast
  then have "answered_in_time (create c (request_kwargs (ap_vendor a) (fc_decimal fc) r m)) (mq_timeout_seconds r) token raw"
    by (auto simp: await_answered answered_in_time_def)
  then show ?thesis using Inr vendor_response_Inr [OF p] by auto
qed

section \<open>Connection pools\<close>

text \<open>Every pool that was opened is the current one or was closed once.\<close>

definition pools_ok :: "adapter_state \<Rightarrow> bool" where
  "pools_ok s \<longleftrightarrow> distinct (as_closed s) \<and> (as_client s = None \<longleftrightarrow> as_http_client s = None)
     \<and> set (as_closed s) \<inter> set_option (as_http_client s) = {} \<and> set (as_closed s) \<union> set_option (as_http_client s) = {..<as_opened s}"

text \<open>The keys a secret provider resolves for an adapter decode as text.\<close>

definition keys_decode :: "Adapter \<Rightarrow> (TenantId \<Rightarrow> SecretReference \<Rightarrow> string res) \<Rightarrow> bool" where
  "keys_decode a rs = (case rs (ap_context a) (ps_api_key (ap_settings a)) of Inl e \<Rightarrow> True | Inr k \<Rightarrow> utf8_decode k \<noteq> None)"

lemma fresh_pools_ok: "pools_ok fresh_adapter"
  by (simp add: pools_ok_def fresh_adapter_def)

lemma reload_pools_ok: "pools_ok s \<Longrightarrow> pools_ok (reload_client s)"
  by (auto simp: pools_ok_def reload_client_def close_http_def split: option.splits)

lemma get_client_new:
  "as_client s = None \<Longrightarrow> get_client a rs factory s =
     (case rs (ap_context a) (ps_api_key (ap_settings a)) of
        Inl e \<Rightarrow> (Inl e, s)
      | Inr k \<Rightarrow> (case utf8_decode k of
          None \<Rightarrow> (Inl (ValueError ''invalid utf-8''), s\<lparr>as_opened := Suc (as_opened s)\<rparr>)
        | Some t \<Rightarrow> (let c = \<lparr>cl_api_key = t, cl_base_url = ps_base_url (ap_settings a)\<rparr>; s1 = s\<lparr>as_opened := Suc (as_opened s)\<rparr> in
            case factory c of
              Some e \<Rightarrow> (Inl e, close_http (Some (as_opened s)) s1)
            | None \<Rightarrow> (Inr c, s1\<lparr>as_client := Some c, as_http_client := Some (as_opened s)\<rparr>))))"
  by (simp add: get_client_def op_bind_def op_gets_def op_lift_def op_modify_def op_return_def op_raise_def Let_def split: sum.split option.split)

lemma get_client_pools_ok:
  assumes "get_client a rs factory s = (x, s')" "keys_decode a rs" "pools_ok s"
  shows "pools_ok s'"
proof (cases "as_client s")
  case None
  then have http: "as_http_client s = None" and d: "distinct (as_closed s)" using assms(3) by (simp_all add: pools_ok_def)
  then have closed: "set (as_closed s) = {..<as_opened s}" using assms(3) by (simp add: pools_ok_def)
  have "pools_ok (s\<lparr>as_opened := Suc (as_opened s), as_client := Some c, as_http_client := Some (as_opened s)\<rparr>)"
    and "pools_ok (close_http (Some (as_opened s)) (s\<lparr>as_opened := Suc (as_opened s)\<rparr>))" for c
    using None http d closed by (simp_all add: pools_ok_def close_http_def lessThan_Suc)
  then show ?thesis
    using assms(1,2,3) unfolding get_client_new [OF None] keys_decode_def Let_def by (auto split: sum.split_asm option.split_asm)
next
  case (Some c)
  then show ?thesis using assms by (simp add: get_client_def op_bind_def op_gets_def op_return_def)
qed

lemma adapter_complete_state:
  assumes "adapter_complete a fc rs factory create token started finished r m s = (x, s')"
  shows "s' = s \<or> (\<exists>y. get_client a rs factory s = (y, s'))"
proof -
  define k :: "adapter_client \<Rightarrow> (adapter_state, ModelResponse) op" where "k c = (case await_with_cancellation (create c (request_kwargs (ap_vendor a) (fc_decimal fc) r m)) (mq_timeout_seconds r) token of
      Answered raw \<Rightarrow> op_lift (vendor_response (ap_vendor a) (fc_literal fc) (ap_max_response_chars a) raw r m started finished)
    | CallTimedOut \<Rightarrow> op_raise (ModelGatewayError ME_TIMEOUT ''provider_timeout'' True None True)
    | CallCancelled \<Rightarrow> op_raise (ModelGatewayError ME_CANCELLED ''provider_call_cancelled'' False None True)
    | CallFailed x \<Rightarrow> op_raise (classify_sdk_error (fc_parse fc) x))" for c
  have k: "\<exists>y. k c t = (y, t)" for c and t :: adapter_state
    by (simp add: k_def op_lift_def op_raise_def split: call_outcome.split)
  obtain y s1 where g: "get_client a rs factory s = (y, s1)" by fastforce
  have run: "adapter_complete a fc rs factory create token started finished r m =
      op_bind (op_require (mi_provider m = provider_name (ap_vendor a)) (ValueError (wrong_model (ap_vendor a)))) (\<lambda>_.
        op_catch (op_bind (get_client a rs factory) k) (\<lambda>e. op_raise (classify_own fc e)))"
    unfolding adapter_complete_def k_def ..
  have "s' = s \<or> s' = s1"
  proof (cases y)
    case (Inl e)
    then show ?thesis using assms unfolding run by (auto simp: op_bind_def op_catch_def op_require_def op_return_def op_raise_def g split: if_splits)
  next
    case (Inr c)
    obtain z where "k c s1 = (z, s1)" using k by blast
    then show ?thesis using assms Inr unfolding run
      by (cases z) (auto simp: op_bind_def op_catch_def op_require_def op_return_def op_raise_def g split: if_splits)
  qed
  then show ?thesis using g by blast
qed

text \<open>An adapter's life: completions, in whatever way they end, and reloads of its client.\<close>

inductive adapter_reachable :: "Adapter \<Rightarrow> (TenantId \<Rightarrow> SecretReference \<Rightarrow> string res) \<Rightarrow> adapter_state \<Rightarrow> bool" for a rs where
  built: "adapter_reachable a rs fresh_adapter"
| completed: "adapter_reachable a rs s \<Longrightarrow> adapter_complete a fc rs factory create token started finished r m s = (x, s') \<Longrightarrow> adapter_reachable a rs s'"
| reloaded: "adapter_reachable a rs s \<Longrightarrow> adapter_reachable a rs (reload_client s)"

lemma reachable_pools_ok:
  assumes "adapter_reachable a rs s" "keys_decode a rs"
  shows "pools_ok s"
  using assms
proof (induction rule: adapter_reachable.induct)
  case (completed s fc factory create token started finished r m x s')
  then show ?case using adapter_complete_state get_client_pools_ok by blast
qed (simp_all add: fresh_pools_ok reload_pools_ok)

lemma environment_keys_decode: "keys_decode a (environment_secret p)"
  by (auto simp: keys_decode_def environment_secret_def new_SecretValue_def res_bind_Inr_iff utf8_roundtrip split: sum.splits option.splits if_splits)

text \<open>
  An adapter whose key comes from the environment provider never leaks a connection pool: after any completions and reloads, in any
  order and however they ended, each pool it opened is the current client's or was closed, once, and the current pool is open.
\<close>

lemma pools_never_leak:
  assumes "adapter_reachable a (environment_secret p) s"
  shows "distinct (as_closed s) \<and> set (as_closed s) \<union> set_option (as_http_client s) = {..<as_opened s} \<and>
    set (as_closed s) \<inter> set_option (as_http_client s) = {} \<and> (as_client s = None \<longleftrightarrow> as_http_client s = None)"
  using reachable_pools_ok [OF assms environment_keys_decode] by (simp add: pools_ok_def)

text \<open>A key that is not UTF-8 leaves a pool that is neither current nor closed.\<close>

lemma undecodable_key_leaks_pool:
  assumes "as_client s = None" "rs (ap_context a) (ps_api_key (ap_settings a)) = Inr k" "utf8_decode k = None"
  shows "get_client a rs factory s = (Inl (ValueError ''invalid utf-8''), s\<lparr>as_opened := Suc (as_opened s)\<rparr>)"
  using assms by (simp add: get_client_new)

text \<open>Anthropic reports an unused cache as None; such a response is refused, its completion is lost though it was billed.\<close>

lemma null_cache_counter_refused:
  assumes "getattr usage ''input_tokens'' sdk_none = SdkValue (PInt i)" "getattr usage ''output_tokens'' sdk_none = SdkValue (PInt j)" "0 \<le> i" "0 \<le> j"
    and "getattr usage ''cache_read_input_tokens'' (SdkValue (PInt 0)) = sdk_none"
  shows "anthropic_usage usage = Inl (malformed ''invalid_provider_usage'')"
  using assms by (simp add: anthropic_usage_def nonnegative_int_def res_bind_def)

section \<open>A concrete adapter\<close>

definition sample_settings :: ProviderClientSettings where
  "sample_settings = \<lparr>ps_api_key = \<lparr>sf_tenant_id = ''acme'', sf_provider = ''env'', sf_name = ''AEGIS_SECRET_KEY'', sf_version = None\<rparr>, ps_base_url = None,
     ps_proxy_url = None, ps_connect_timeout_seconds = 5, ps_read_timeout_seconds = 60, ps_max_connections = 32, ps_max_keepalive_connections = 16,
     ps_verify_tls = True\<rparr>"

definition sample_adapter :: Adapter where
  "sample_adapter = \<lparr>ap_vendor = OpenAI, ap_context = ''acme'', ap_settings = sample_settings, ap_max_response_chars = 100\<rparr>"

definition sample_secrets :: EnvironmentSecretProvider where
  "sample_secrets = \<lparr>es_tenant_id = ''acme'', es_values = [(''AEGIS_SECRET_KEY'', ''k'')]\<rparr>"

definition sample_conversions :: float_conversions where
  "sample_conversions = \<lparr>fc_literal = FiniteFloat, fc_parse = (\<lambda>_. NotANumber), fc_decimal = (\<lambda>_. FiniteFloat ''0.0'')\<rparr>"

definition sample_completion :: ModelRequest where
  "sample_completion = \<lparr>mq_request_id = 3, mq_tenant_id = ''acme'', mq_run_id = 5,
     mq_messages = [\<lparr>mm_role = ROLE_USER, mm_content = [TextPart ''hi''], mm_name = None\<rparr>], mq_max_output_tokens = 60,
     mq_prompt_token_estimate = 40, mq_requested_model = None, mq_tools = [], mq_response_schema = None, mq_temperature = Dec False 0 0,
     mq_timeout_seconds = 30, mq_idempotency_key = ''k1''\<rparr>"

definition sample_model :: ModelIdentity where
  "sample_model = \<lparr>mi_provider = ''openai'', mi_model = ''m''\<rparr>"

text \<open>A text and a tool call, with cached and reasoning tokens.\<close>

definition sample_object :: sdk where
  "sample_object = SdkObject ''response''
     [(''output'', SdkList
        [SdkObject ''i'' [(''type'', SdkValue (PStr ''message'')), (''content'', SdkList
           [SdkObject ''c'' [(''type'', SdkValue (PStr ''output_text'')), (''text'', SdkValue (PStr ''hello''))]])],
         SdkObject ''j'' [(''type'', SdkValue (PStr ''function_call'')), (''call_id'', SdkValue (PStr ''c1'')), (''name'', SdkValue (PStr ''f'')),
           (''arguments'', SdkValue (PDict []))]]),
      (''usage'', SdkObject ''u'' [(''input_tokens'', SdkValue (PInt 40)), (''output_tokens'', SdkValue (PInt 20)),
         (''input_tokens_details'', SdkObject ''d'' [(''cached_tokens'', SdkValue (PInt 10))])]),
      (''id'', SdkValue (PStr ''r1''))]"

definition sample_reply :: ModelResponse where
  "sample_reply = \<lparr>mp_request_id = 3, mp_model = sample_model,
     mp_content = [TextPart ''hello'', ToolCallPart \<lparr>tc_call_id = ''c1'', tc_tool_name = ''f'', tc_arguments = []\<rparr>],
     mp_finish_reason = FINISH_TOOL_CALLS, mp_safety = \<lparr>sr_outcome = SAFETY_ALLOWED, sr_reason_code = None\<rparr>,
     mp_usage = \<lparr>tu_input_tokens = 30, tu_output_tokens = 20, tu_cache_read_tokens = 10, tu_cache_write_tokens = 0, tu_reasoning_tokens = 0\<rparr>,
     mp_latency_ms = 2000, mp_provider_request_id = Some ''r1'', mp_structured_output = None\<rparr>"

definition sample_client :: adapter_client where
  "sample_client = \<lparr>cl_api_key = ''k'', cl_base_url = None\<rparr>"

definition sample_run :: "(adapter_state, ModelResponse) op" where
  "sample_run = adapter_complete sample_adapter sample_conversions (environment_secret sample_secrets) (\<lambda>_. None)
     (\<lambda>_ _. Some (2, Inr sample_object)) (Some 9) 0 2 sample_completion sample_model"

lemma sample_response: "openai_response FiniteFloat 100 sample_object sample_completion sample_model 0 2 = Inr sample_reply"
  by code_simp

lemma sample_get_client:
  "get_client sample_adapter (environment_secret sample_secrets) (\<lambda>_. None) fresh_adapter
     = (Inr sample_client, \<lparr>as_client = Some sample_client, as_http_client = Some 0, as_opened = 1, as_closed = []\<rparr>)"
  by code_simp

lemma sample_run_result:
  "sample_run fresh_adapter = (Inr sample_reply, \<lparr>as_client = Some sample_client, as_http_client = Some 0, as_opened = 1, as_closed = []\<rparr>)"
proof -
  have a: "ap_vendor sample_adapter = OpenAI" "ap_max_response_chars sample_adapter = 100" "fc_literal sample_conversions = FiniteFloat"
    "mi_provider sample_model = ''openai''" "mq_timeout_seconds sample_completion = 30"
    by (simp_all add: sample_adapter_def sample_conversions_def sample_model_def sample_completion_def)
  have w: "await_with_cancellation (Some (2, Inr sample_object)) 30 (Some 9) = Answered sample_object"
    by (simp add: await_answered)
  show ?thesis unfolding sample_run_def adapter_complete_def
    by (simp add: op_bind_def op_catch_def op_require_def op_return_def op_lift_def a w sample_get_client vendor_response_def sample_response)
qed

theorem adapter_outcomes_accounted_witness:
  "fst (sample_run fresh_adapter) = Inr sample_reply \<and> billable_tokens (mp_usage sample_reply) = 60 \<and>
   (\<exists>raw. answered_in_time (Some (2, Inr sample_object)) 30 (Some 9) raw \<and> reported_tokens OpenAI raw = 60)"
proof -
  have a: "ap_vendor sample_adapter = OpenAI" "mq_timeout_seconds sample_completion = 30" "mi_provider sample_model = provider_name (ap_vendor sample_adapter)"
    by (simp_all add: sample_adapter_def sample_model_def sample_completion_def)
  have b: "billable_tokens (mp_usage sample_reply) = 60" by code_simp
  show ?thesis
    using adapter_outcomes_accounted [OF a(3) sample_run_result [unfolded sample_run_def]] by (auto simp: a b sample_run_result)
qed

lemma sample_pools:
  "as_opened (reload_client (snd (sample_run fresh_adapter))) = 1 \<and> set (as_closed (reload_client (snd (sample_run fresh_adapter)))) = {..<1}"
proof -
  have "adapter_reachable sample_adapter (environment_secret sample_secrets) (reload_client (snd (sample_run fresh_adapter)))"
    using adapter_reachable.completed [OF adapter_reachable.built sample_run_result [unfolded sample_run_def]] sample_run_result
    by (simp add: adapter_reachable.reloaded)
  from pools_never_leak [OF this] show ?thesis by (simp add: sample_run_result reload_client_def close_http_def)
qed

end
