(* ===== verification/Spec2Isabelle.thy ===== *)
theory Spec2Isabelle
  imports Worker_Postgres Worker_Batch Publisher Projections Gateway_Calls Gateway_Durable Control_Plane Redis_Streams Providers
begin

text \<open>
  \<^bold>\<open>The program.\<close> The agent platform (\<^verbatim>\<open>src/src/aegis_agent_platform\<close>) runs work for tenants and calls language models
  for them. Its parts and how they meet:
  \<^item> an append-only PostgreSQL event ledger with an inbox and an outbox (\<^verbatim>\<open>event_store\<close>) and the events and work records of
    \<^verbatim>\<open>domain\<close>;
  \<^item> a durable work queue whose tables are projections of the ledger (\<^verbatim>\<open>runtime/postgres.py\<close>). Requests leave through the outbox
    (\<^verbatim>\<open>queueing/publisher.py\<close>) to a Redis stream (\<^verbatim>\<open>queueing\<close>); workers (\<^verbatim>\<open>runtime\<close>) verify each delivery against the database, claim the
    item under a lease, and every later step is an append fenced by that lease;
  \<^item> read models replayed from the ledger (\<^verbatim>\<open>projections\<close>);
  \<^item> a model gateway (\<^verbatim>\<open>gateway\<close>) that routes requests, reserves budgets, retries and fails over under circuits and rate limits, and
    records usage, in memory or in PostgreSQL; it calls the vendors through adapters (\<^verbatim>\<open>providers\<close>) whose keys come through
    \<^verbatim>\<open>secrets_boundary.py\<close>;
  \<^item> governance: identities, roles and permissions, authentication, tenant policies and quotas, the audit trail
    (\<^verbatim>\<open>identity\<close>, \<^verbatim>\<open>tenancy\<close>, \<^verbatim>\<open>policy\<close>, \<^verbatim>\<open>audit.py\<close>, \<^verbatim>\<open>persistence\<close>);
  \<^item> the operator's commands (\<^verbatim>\<open>runtime/operations.py\<close>, \<^verbatim>\<open>gateway/operations.py\<close>) and the HTTP control plane
    (\<^verbatim>\<open>control_plane/api.py\<close>) that puts them behind authentication, authorization and audit.

  \<^bold>\<open>The theories.\<close>
  \<^item> \<^theory_text>\<open>Aegis_Prelude\<close>: Python exceptions as values, operations on a state that may raise, transactions, SQL statements on lists of
    rows. \<^theory_text>\<open>Py_Values\<close>, \<^theory_text>\<open>Json_Values\<close>, \<^theory_text>\<open>Decimals\<close>, \<^theory_text>\<open>Sha256\<close>: what the code uses of Python's strings, integers, UUIDs, datetimes with
    ISO 8601 text, JSON, decimal arithmetic and SHA-256.
  \<^item> \<^theory_text>\<open>Domain_Events\<close>, \<^theory_text>\<open>Domain_Work\<close>: event envelopes with their construction-time checks, requests, leases, transitions, and the state
    machine \<^verbatim>\<open>next_status\<close>. \<^theory_text>\<open>Storage\<close>: the tables and the state of the database. \<^theory_text>\<open>Event_Ledger\<close>: the operations of
    \<^verbatim>\<open>PostgresEventStore\<close> on events. \<^theory_text>\<open>Outbox\<close>: its operations on outgoing messages. \<^theory_text>\<open>Transport\<close>: message envelopes, their
    JSON text and size limit. \<^theory_text>\<open>Json_Text\<close>: \<^verbatim>\<open>json.dumps\<close>, \<^verbatim>\<open>json.loads\<close> and UTF-8. \<^theory_text>\<open>Redis_Streams\<close>: the queue of
    \<^verbatim>\<open>queueing/redis_streams.py\<close> over the commands of a Redis client.
  \<^item> \<^theory_text>\<open>Work_Repository\<close>: every operation of \<^verbatim>\<open>PostgresWorkRepository\<close>. \<^theory_text>\<open>Work_Invariants\<close>: the invariant of the work tables and that each
    transaction keeps it. \<^theory_text>\<open>Work_System\<close>: the transactions as the steps of a transition system, and the operations as its runs.
    \<^theory_text>\<open>Work_Scenario\<close>: a concrete run. \<^theory_text>\<open>Lease_Fencing\<close>, \<^theory_text>\<open>Work_Properties\<close>: the properties over all runs.
  \<^item> \<^theory_text>\<open>Fair_Scheduler\<close>, \<^theory_text>\<open>Retry_Backoff\<close>: the round-robin queues of tenants and the retry delays. \<^theory_text>\<open>Async_Ops\<close>: operations of coroutines,
    which may be cancelled or time out. \<^theory_text>\<open>Worker_Supervisor\<close>: the processing of one delivery with its error handling, over the interface
    of the state store. \<^theory_text>\<open>Shared_Database\<close>, \<^theory_text>\<open>Worker_Postgres\<close>: the supervisor over the work repository while others change the
    database between its calls. \<^theory_text>\<open>Worker_Batch\<close>: a batch of deliveries as a step relation. \<^theory_text>\<open>Publisher\<close>: the outbox publisher.
  \<^item> \<^theory_text>\<open>Projection_Tables\<close>: the six read models and their checkpoints. \<^theory_text>\<open>Projections\<close>: the replay engine.
  \<^item> \<^theory_text>\<open>Identity\<close>: principals, role bindings and the authorization decision. \<^theory_text>\<open>Policy\<close>: tenants, policies, quotas and the evaluator.
    \<^theory_text>\<open>Authentication\<close>: key sources, token verification, the identity directory and the authentication service. \<^theory_text>\<open>Audit_Log\<close>: redaction,
    audit events and the in-memory store. \<^theory_text>\<open>Governance_Postgres\<close>: the PostgreSQL repositories of tenants, identities,
    policies and audit events.
  \<^item> \<^theory_text>\<open>Model_Domain\<close>, \<^theory_text>\<open>Model_Catalog\<close>: requests, responses, prices, and the router. \<^theory_text>\<open>Gateway_Ledger\<close>, \<^theory_text>\<open>Gateway_Budget\<close>: the
    in-memory repository and its budgets over every run. \<^theory_text>\<open>Gateway_Resilience\<close>: circuit breakers, token buckets and the controls of a
    model. \<^theory_text>\<open>Gateway_Service\<close>, \<^theory_text>\<open>Gateway_Calls\<close>: the whole call, with other tasks running at every suspension. \<^theory_text>\<open>Gateway_Postgres\<close>,
    \<^theory_text>\<open>Gateway_Durable\<close>: the PostgreSQL repository and its budgets over every interleaving of transactions.
    \<^theory_text>\<open>Providers\<close>: the adapters of model vendors, the secret providers and the scripted provider.
  \<^item> \<^theory_text>\<open>Operations\<close>: the operator's commands and the gateway's views. \<^theory_text>\<open>Control_Plane\<close>: the request handler.

  \<^bold>\<open>How state and effects correspond.\<close> A table is the list of its rows in one record \<^typ>\<open>db\<close>, which the read models and the gateway's
  tables extend; a \<^verbatim>\<open>WHERE\<close> clause is a predicate on rows, \<^verbatim>\<open>rowcount\<close> the number of matching rows; the constraints of the schema are
  checked where rows are inserted and a violation raises \<^verbatim>\<open>PermanentStorageError\<close>. A transaction is one atomic operation that is undone when
  it raises, except for the identity sequence. The clocks, fresh UUIDs and every caller-supplied value are arguments, or functions of the
  number of readings. An operation that reads and then commits is composed of its reads and one \<open>*_commit\<close> transaction; the step
  relations take the transactions with arbitrary previously read values, so they contain every interleaving of concurrent workers,
  publishers, reconcilers and operators. A coroutine's calls to its collaborators are operations on a state that may be changed by
  others in between. The interfaces between components are locales, interpreted on the model's own definitions: key sources, audit stores,
  guarded operations and the stores of the worker.

  \<^bold>\<open>What is shown.\<close> The ledger: appends keep streams gap-free and positions increasing and are read back unchanged. The work queue: over
  every run the work tables are what replaying the ledger gives, active items are exactly the leased ones, a claim is exclusive and within
  the tenant's quota, a superseded worker is fenced out for ever, requeueing needs another actor's unused approval. The outbox and its
  publisher: claims are exclusive while their lease runs, a message is marked only after the stream took it, and what is published is
  accepted by the worker as the request it announces; a published entry decodes to the same envelope, and poison entries are quarantined
  without hiding the others. The worker: a delivery is acknowledged only after a durable outcome, failures are contained,
  batches are bounded, complete and end, and every waiting tenant is served in each round. Read models: catching up ends and gives what replaying
  the whole history gives. The gateway: budgets hold over every run in memory and in the database, usage is recorded exactly once, a
  call settles every reservation and only calls permitted models a bounded number of times, rates and circuits do what they promise;
  an adapter ends with a classified error or with a timely response that bills what the vendor reported, and leaks no connection pool.
  Governance: authorization and policies deny by default; authenticated principals are valid, backed by a signed token and an enabled
  record; signing keys are fresh; redaction leaves no secret; the durable directory and audit store agree with the in-memory ones; operator
  commands need their permission; tenant data leaves the control plane only for a principal with authority in that tenant, with both audit
  records, redacted, and in exactly one response. Two theorems record defects: a terminal failure of a claimed but not started item commits and
  leaves a stream that no longer replays, and an identity record is accepted whose subject makes authentication raise a ValueError.

  \<^bold>\<open>Bounds and fuel.\<close> Loops run over finite lists of rows, events or candidates and are structural; the month search of the calendar and
  JSON equality have termination proofs. The page loop of \<^verbatim>\<open>ProjectionEngine.catch_up\<close> has no bound in the code: its model takes at
  most one page more than there are events and gives None beyond, and it is proved that it never does. The JSON parser
  has twice the length of its text and one more unit of fuel, which is proved to be enough. Python integers are
  unbounded and are \<^typ>\<open>int\<close>; UUIDs are 128-bit words and SHA-256 works on 32-bit words; token and position columns keep the range of
  their SQL types.

  \<^bold>\<open>Not modelled.\<close> Parameters, because their code is elsewhere: the token library, RSA keys and the fetch of key documents; the Redis client;
  the vendors' SDKs with their HTTP pools, of which a call is an object of attributes or an exception after some time; the JSON Schema validator;
  conversions between text and floats; floating-point rounding of timestamps (delays, rates and circuit times are exact rationals).
  Left out: telemetry, logging and tracing; locks around one connection, blocking and hash collisions of advisory
  locks; row-level security (each statement already filters by tenant); exponent limits of decimals; interleaving inside a
  single repository operation as the worker sees it; what a handler does with the cancellation flag; construction from
  settings, configuration and secret files; the maintenance of the model-usage read model during gateway runs; UTF-8 escapes
  in query strings; HTTP servers, sockets and command lines; migrations; the agent packages, which are contracts nothing implements yet; what asyncio does
  when a timeout and an answer fall in the same step. Several
  readings of the database clock within a transaction are taken equal. \<^verbatim>\<open>fromisoformat\<close> is restricted to the extended calendar
  format that \<^verbatim>\<open>isoformat\<close> prints. Texts are sequences of eight-bit characters.
\<close>

end
